(* ===== verification/Prelude.thy ===== *)
theory Prelude
  imports Main "HOL-Library.Word" "HOL-Library.List_Lexorder" "HOL-Library.Char_ord"
    "HOL-Library.AList"
begin

text \<open>
  Shared vocabulary of the development.

  \<^item> \<open>Ok\<close>, \<open>Err\<close>, \<open>and_then\<close>, \<open>ensure\<close>, \<open>map_ok\<close>, \<open>collect_results\<close>: Rust's \<open>Result\<close> as a sum,
    with \<open>?\<close> as \<open>and_then\<close>.
  \<^item> Strings are Isabelle's \<open>string\<close>, read as the UTF-8 bytes of the Rust \<open>String\<close>: \<open>length\<close> is
    Rust's \<open>len\<close>, the order is Rust's byte order, and \<open>chars\<close> decodes the code points on which
    \<open>trim\<close> and \<open>is_control\<close> work.
  \<^item> Generic lemmas on lists keyed by a field, shared by the stores.
\<close>

section \<open>Results\<close>

abbreviation Ok :: "'a \<Rightarrow> 'e + 'a" where
  "Ok \<equiv> Inr"

abbreviation Err :: "'e \<Rightarrow> 'e + 'a" where
  "Err \<equiv> Inl"

fun and_then :: "'e + 'a \<Rightarrow> ('a \<Rightarrow> 'e + 'b) \<Rightarrow> 'e + 'b" where
  "and_then (Inl e) f = Inl e"
| "and_then (Inr x) f = f x"

fun map_ok :: "('a \<Rightarrow> 'b) \<Rightarrow> 'e + 'a \<Rightarrow> 'e + 'b" where
  "map_ok f (Inl e) = Inl e"
| "map_ok f (Inr x) = Inr (f x)"

fun map_err :: "('e \<Rightarrow> 'd) \<Rightarrow> 'e + 'a \<Rightarrow> 'd + 'a" where
  "map_err f (Inl e) = Inl (f e)"
| "map_err f (Inr x) = Inr x"

definition ensure :: "bool \<Rightarrow> 'e \<Rightarrow> 'e + unit" where
  "ensure b e = (if b then Ok () else Err e)"

fun collect_results :: "('a \<Rightarrow> 'e + 'b) \<Rightarrow> 'a list \<Rightarrow> 'e + 'b list" where
  "collect_results f [] = Ok []"
| "collect_results f (x # xs) =
     and_then (f x) (\<lambda>y. and_then (collect_results f xs) (\<lambda>ys. Ok (y # ys)))"

definition is_ok :: "'e + 'a \<Rightarrow> bool" where
  "is_ok r = (case r of Inl _ \<Rightarrow> False | Inr _ \<Rightarrow> True)"

lemma is_ok_simps [simp]: "is_ok (Inl e) = False" "is_ok (Inr x) = True"
  by (simp_all add: is_ok_def)

lemma is_ok_iff: "is_ok r \<longleftrightarrow> (\<exists>x. r = Ok x)"
  by (cases r) auto

lemma and_then_eq_Ok: "and_then m f = Ok y \<longleftrightarrow> (\<exists>x. m = Ok x \<and> f x = Ok y)"
  by (cases m) auto

lemma and_then_eq_Err:
  "and_then m f = Err e \<longleftrightarrow> m = Err e \<or> (\<exists>x. m = Ok x \<and> f x = Err e)"
  by (cases m) auto

lemma map_ok_eq_Ok: "map_ok f m = Ok y \<longleftrightarrow> (\<exists>x. m = Ok x \<and> y = f x)"
  by (cases m) auto

lemma map_err_eq_Ok [simp]: "map_err f m = Ok y \<longleftrightarrow> m = Ok y"
  by (cases m) auto

lemma map_err_eq_Err: "map_err f m = Err d \<longleftrightarrow> (\<exists>e. m = Err e \<and> d = f e)"
  by (cases m) auto

lemma ensure_eq_Ok [simp]: "ensure b e = Ok u \<longleftrightarrow> b"
  by (simp add: ensure_def)

lemma ensure_eq_Err [simp]: "ensure b e = Err d \<longleftrightarrow> \<not> b \<and> d = e"
  by (auto simp: ensure_def)

lemma ensure_simps [simp]: "ensure True e = Ok ()" "ensure False e = Err e"
  by (simp_all add: ensure_def)

lemma collect_results_eq_Ok:
  "collect_results f xs = Ok ys \<longleftrightarrow> list_all2 (\<lambda>x y. f x = Ok y) xs ys"
proof (induction xs arbitrary: ys)
  case Nil
  then show ?case by auto
next
  case (Cons x xs)
  then show ?case by (auto simp: and_then_eq_Ok list_all2_Cons1)
qed

lemma collect_results_map:
  "(\<And>x. x \<in> set xs \<Longrightarrow> f x = Ok (g x)) \<Longrightarrow> collect_results f xs = Ok (map g xs)"
  by (induction xs) auto

lemma collect_results_append:
  "collect_results f (xs @ ys) =
     and_then (collect_results f xs) (\<lambda>as. and_then (collect_results f ys) (\<lambda>bs. Ok (as @ bs)))"
proof (induction xs)
  case Nil
  show ?case by (cases "collect_results f ys") auto
next
  case (Cons x xs)
  then show ?case
    by (cases "f x"; cases "collect_results f xs"; cases "collect_results f ys") auto
qed

lemmas result_simps = and_then_eq_Ok map_ok_eq_Ok and_then_eq_Err map_err_eq_Err

section \<open>Strings\<close>

text \<open>
  UTF-8 decoding. A Rust \<open>String\<close> is always valid UTF-8; bytes that no valid string has (a stray
  continuation byte, an overlong form) decode to the replacement character.
\<close>

definition cont_byte :: "nat \<Rightarrow> nat list \<Rightarrow> nat" where
  "cont_byte i bs = (if i < length bs then (bs ! i) mod 64 else 0)"

definition at_least :: "nat \<Rightarrow> nat \<Rightarrow> nat" where
  "at_least k c = (if c < k then 65533 else c)"

fun utf8_chars :: "nat list \<Rightarrow> nat list" where
  "utf8_chars [] = []"
| "utf8_chars (b # bs) =
     (if b < 128 then b # utf8_chars bs
      else if b < 194 then 65533 # utf8_chars bs
      else if b < 224 then
        at_least 128 ((b mod 32) * 64 + cont_byte 0 bs) # utf8_chars (drop 1 bs)
      else if b < 240 then
        at_least 2048 ((b mod 16) * 4096 + cont_byte 0 bs * 64 + cont_byte 1 bs)
          # utf8_chars (drop 2 bs)
      else
        at_least 65536
          ((b mod 8) * 262144 + cont_byte 0 bs * 4096 + cont_byte 1 bs * 64 + cont_byte 2 bs)
          # utf8_chars (drop 3 bs))"

definition bytes :: "string \<Rightarrow> nat list" where
  "bytes s = map of_char s"

definition chars :: "string \<Rightarrow> nat list" where
  "chars s = utf8_chars (bytes s)"

text \<open>\<open>char::is_control\<close> is the Unicode category Cc; \<open>char::is_whitespace\<close> is White_Space.\<close>

definition char_is_control :: "nat \<Rightarrow> bool" where
  "char_is_control c \<longleftrightarrow> c < 32 \<or> (127 \<le> c \<and> c < 160)"

definition char_is_whitespace :: "nat \<Rightarrow> bool" where
  "char_is_whitespace c \<longleftrightarrow>
     (9 \<le> c \<and> c \<le> 13) \<or> c = 32 \<or> c = 133 \<or> c = 160 \<or> c = 5760 \<or> (8192 \<le> c \<and> c \<le> 8202) \<or>
     c = 8232 \<or> c = 8233 \<or> c = 8239 \<or> c = 8287 \<or> c = 12288"

definition trim :: "nat list \<Rightarrow> nat list" where
  "trim cs = rev (dropWhile char_is_whitespace (rev (dropWhile char_is_whitespace cs)))"

definition trim_is_empty :: "string \<Rightarrow> bool" where
  "trim_is_empty s \<longleftrightarrow> trim (chars s) = []"

definition has_control :: "string \<Rightarrow> bool" where
  "has_control s \<longleftrightarrow> list_ex char_is_control (chars s)"

lemma trim_eq_Nil: "trim cs = [] \<longleftrightarrow> list_all char_is_whitespace cs"
proof -
  have "set (dropWhile char_is_whitespace cs) \<subseteq> Collect char_is_whitespace
        \<longleftrightarrow> list_all char_is_whitespace cs"
  proof (induction cs)
    case Nil
    then show ?case by simp
  next
    case (Cons c cs)
    then show ?case by (auto simp: list_all_iff)
  qed
  then show ?thesis
    by (auto simp: trim_def dropWhile_eq_Nil_conv list_all_iff)
qed

lemma trim_is_empty_iff: "trim_is_empty s \<longleftrightarrow> list_all char_is_whitespace (chars s)"
  by (simp add: trim_is_empty_def trim_eq_Nil)

lemma utf8_chars_ascii: "list_all (\<lambda>b. b < 128) bs \<Longrightarrow> utf8_chars bs = bs"
  by (induction bs) auto

lemma at_least_ge: "128 \<le> k \<Longrightarrow> k \<le> 65533 \<or> k = 65536 \<Longrightarrow> \<not> at_least k c < 128"
  by (auto simp: at_least_def)

lemma utf8_chars_ascii_only:
  "list_all (\<lambda>c. c < 128) (utf8_chars bs) \<Longrightarrow> list_all (\<lambda>b. b < 128) bs"
proof (induction bs rule: utf8_chars.induct)
  case 1
  then show ?case by simp
next
  case (2 b bs)
  show ?case
  proof (cases "b < 128")
    case True
    with 2 show ?thesis by simp
  next
    case False
    with "2.prems" show ?thesis by (simp add: at_least_ge split: if_splits)
  qed
qed

lemma chars_ascii_only:
  assumes "list_all (\<lambda>c. c < 128) (chars s)"
  shows "chars s = map of_char s"
  using utf8_chars_ascii_only [of "bytes s"] assms
  by (simp add: chars_def bytes_def utf8_chars_ascii)

lemma chars_ascii: "list_all (\<lambda>c. of_char c < (128::nat)) s \<Longrightarrow> chars s = map of_char s"
  unfolding chars_def bytes_def by (rule utf8_chars_ascii) (simp add: list_all_iff)

text \<open>ASCII classification and case folding, byte by byte.\<close>

definition ascii_digit :: "char \<Rightarrow> bool" where
  "ascii_digit c \<longleftrightarrow> 48 \<le> (of_char c :: nat) \<and> (of_char c :: nat) \<le> 57"

definition ascii_lower :: "char \<Rightarrow> bool" where
  "ascii_lower c \<longleftrightarrow> 97 \<le> (of_char c :: nat) \<and> (of_char c :: nat) \<le> 122"

definition ascii_upper :: "char \<Rightarrow> bool" where
  "ascii_upper c \<longleftrightarrow> 65 \<le> (of_char c :: nat) \<and> (of_char c :: nat) \<le> 90"

definition ascii_alphanumeric :: "char \<Rightarrow> bool" where
  "ascii_alphanumeric c \<longleftrightarrow> ascii_digit c \<or> ascii_lower c \<or> ascii_upper c"

definition to_ascii_lowercase :: "string \<Rightarrow> string" where
  "to_ascii_lowercase s =
     map (\<lambda>c. if ascii_upper c then char_of ((of_char c :: nat) + 32) else c) s"

definition ends_with_char :: "string \<Rightarrow> char list \<Rightarrow> bool" where
  "ends_with_char s cs \<longleftrightarrow> s \<noteq> [] \<and> last s \<in> set cs"

definition starts_with :: "string \<Rightarrow> string \<Rightarrow> bool" where
  "starts_with s p \<longleftrightarrow> take (length p) s = p"

text \<open>Decimal printing, as \<open>{}\<close> formats an integer.\<close>

fun decimal_digits :: "nat \<Rightarrow> string" where
  "decimal_digits n =
     (if n < 10 then [char_of (48 + n)]
      else decimal_digits (n div 10) @ [char_of (48 + n mod 10)])"

declare decimal_digits.simps [simp del]

definition decimal :: "int \<Rightarrow> string" where
  "decimal i = (if i < 0 then CHR ''-'' # decimal_digits (nat (- i)) else decimal_digits (nat i))"

section \<open>Machine integers\<close>

type_synonym u64 = "64 word"
type_synonym u32 = "32 word"
type_synonym byte = "8 word"

text \<open>
  \<open>INTEGER\<close> columns and \<open>i64\<close> values are \<open>int\<close>; the conversions between the two widths are
  checked, as \<open>try_from\<close> is.
\<close>

definition i64_max :: int where
  "i64_max = 2 ^ 63 - 1"

definition u64_of_i64 :: "int \<Rightarrow> u64 option" where
  "u64_of_i64 i = (if 0 \<le> i then Some (word_of_int i) else None)"

definition i64_of_u64 :: "u64 \<Rightarrow> int option" where
  "i64_of_u64 w = (if uint w \<le> i64_max then Some (uint w) else None)"

definition i64_checked_add :: "int \<Rightarrow> int \<Rightarrow> int option" where
  "i64_checked_add a b = (if a + b \<le> i64_max then Some (a + b) else None)"

lemma i64_of_u64_of_i64: "0 \<le> i \<Longrightarrow> i \<le> i64_max \<Longrightarrow> uint (word_of_int i :: u64) = i"
  by (simp add: i64_max_def uint_word_of_int mod_pos_pos_trivial)

lemma u64_i64_roundtrip: "i64_of_u64 w = Some i \<Longrightarrow> u64_of_i64 i = Some w"
  by (auto simp: i64_of_u64_def u64_of_i64_def split: if_splits)

lemma i64_of_u64_bounds: "i64_of_u64 w = Some i \<Longrightarrow> 0 \<le> i \<and> i \<le> i64_max"
  by (auto simp: i64_of_u64_def split: if_splits)

lemma i64_checked_add_eq [simp]:
  "i64_checked_add a b = Some c \<longleftrightarrow> c = a + b \<and> a + b \<le> i64_max"
  by (auto simp: i64_checked_add_def)

section \<open>Lists\<close>

text \<open>First match, as a query that reads one row.\<close>

lemma find_Some_iff':
  "List.find P xs = Some x \<Longrightarrow> x \<in> set xs \<and> P x"
  by (auto simp: find_Some_iff)

lemma find_None_iff': "List.find P xs = None \<longleftrightarrow> (\<forall>x\<in>set xs. \<not> P x)"
  by (auto simp: find_None_iff)

lemma find_append:
  "List.find P (xs @ ys) = (case List.find P xs of Some x \<Rightarrow> Some x | None \<Rightarrow> List.find P ys)"
  by (induction xs) auto

lemma find_unique:
  assumes "x \<in> set xs" and "P x" and uniq: "\<And>y. y \<in> set xs \<Longrightarrow> P y \<Longrightarrow> y = x"
  shows "List.find P xs = Some x"
proof (cases "List.find P xs")
  case None
  with assms(1,2) show ?thesis by (auto simp: find_None_iff')
next
  case (Some y)
  then have "y = x" by (intro uniq) (auto dest: find_Some_iff')
  with Some show ?thesis by simp
qed

lemma find_map_upd:
  "(\<And>r. r \<in> set xs \<Longrightarrow> P (f r) = P r) \<Longrightarrow>
     List.find P (map f xs) = map_option f (List.find P xs)"
proof (induction xs)
  case Nil
  show ?case by simp
next
  case (Cons x xs)
  from Cons.prems have x: "P (f x) = P x" by simp
  from Cons.prems have "List.find P (map f xs) = map_option f (List.find P xs)"
    by (intro Cons.IH) simp
  with x show ?case by (cases "P x") simp_all
qed

text \<open>\<open>UPDATE ... SET f WHERE P\<close> on a table, with the number of rows changed.\<close>

definition update_where :: "('r \<Rightarrow> bool) \<Rightarrow> ('r \<Rightarrow> 'r) \<Rightarrow> 'r list \<Rightarrow> 'r list" where
  "update_where P f rows = map (\<lambda>r. if P r then f r else r) rows"

definition count_where :: "('r \<Rightarrow> bool) \<Rightarrow> 'r list \<Rightarrow> nat" where
  "count_where P rows = length (filter P rows)"

lemma set_update_where:
  "set (update_where P f rows) = f ` {r \<in> set rows. P r} \<union> {r \<in> set rows. \<not> P r}"
  by (auto simp: update_where_def)

lemma count_where_0 [simp]: "count_where P rows = 0 \<longleftrightarrow> (\<forall>r\<in>set rows. \<not> P r)"
  by (auto simp: count_where_def filter_empty_conv)

lemma length_update_where [simp]: "length (update_where P f rows) = length rows"
  by (simp add: update_where_def)

lemma map_update_where:
  "(\<And>r. r \<in> set rows \<Longrightarrow> P r \<Longrightarrow> g (f r) = g r) \<Longrightarrow> map g (update_where P f rows) = map g rows"
  by (simp add: update_where_def)

lemma update_where_none: "(\<forall>r\<in>set rows. \<not> P r) \<Longrightarrow> update_where P f rows = rows"
  by (induction rows) (auto simp: update_where_def)

lemma notin_image: "k \<notin> f ` A \<longleftrightarrow> (\<forall>x\<in>A. f x \<noteq> k)"
  by auto

text \<open>Rows of a table with a key: at most one row per key.\<close>

lemma distinct_map_inj:
  "distinct (map k rows) \<Longrightarrow> r \<in> set rows \<Longrightarrow> r' \<in> set rows \<Longrightarrow> k r = k r' \<Longrightarrow> r = r'"
  by (auto simp: distinct_map inj_on_def)

lemma find_key:
  "distinct (map k rows) \<Longrightarrow> r \<in> set rows \<Longrightarrow> List.find (\<lambda>x. k x = k r) rows = Some r"
  by (rule find_unique) (auto dest: distinct_map_inj)

lemma sorted_wrt_update_where:
  assumes "sorted_wrt R rows"
    and "\<And>a b. a \<in> set rows \<Longrightarrow> b \<in> set rows \<Longrightarrow> R a b \<Longrightarrow>
           R (if P a then f a else a) (if P b then f b else b)"
  shows "sorted_wrt R (update_where P f rows)"
  using assms
proof (induction rows)
  case Nil
  then show ?case by (simp add: update_where_def)
next
  case (Cons a rows)
  have "sorted_wrt R (update_where P f rows)"
    using Cons.prems by (intro Cons.IH) auto
  moreover have "R (if P a then f a else a) (if P b then f b else b)" if "b \<in> set rows" for b
    using Cons.prems that by auto
  ultimately show ?case
    unfolding update_where_def list.map sorted_wrt.simps set_map by blast
qed

section \<open>Association lists\<close>

lemma delete_subset: "set (AList.delete k xs) \<subseteq> set xs"
  by (auto simp: AList.delete_eq)

lemma update_subset: "set (AList.update k v xs) \<subseteq> insert (k, v) (set xs)"
  by (induction xs) auto

lemma update_member: "(k, v) \<in> set (AList.update k v xs)"
  by (induction xs) auto

end
