(* ===== verification/Domain.thy ===== *)
theory Domain
  imports Prelude
begin

text \<open>
  The domain crate (\<^verbatim>\<open>crates/yakshed-domain/src/lib.rs\<close>): identifiers, validated strings,
  snapshots, the run and approval lifecycles, connections and secret-backend settings, with their
  constructors and validators. No state.

  The \<^verbatim>\<open>uuid\<close> crate is not part of the repository. What the code uses of it (version number,
  variant, parsing, printing) is the record \<open>libs\<close>, an argument of every definition that needs it.
\<close>

section \<open>Library parameters\<close>

type_synonym uuid = "128 word"

record libs =
  lib_version_num :: "uuid \<Rightarrow> nat"
  lib_is_rfc4122 :: "uuid \<Rightarrow> bool"
  lib_parse_uuid :: "string \<Rightarrow> string + uuid"
  lib_uuid_text :: "uuid \<Rightarrow> string"

section \<open>Validation helpers\<close>

datatype validation_error = ValidationError (validation_message: string)

definition require_nonempty :: "string \<Rightarrow> string \<Rightarrow> validation_error + unit" where
  "require_nonempty field v =
     (if trim_is_empty v then Err (ValidationError (field @ '' cannot be empty'')) else Ok ())"

definition validate_uuid_v7 :: "'z libs_scheme \<Rightarrow> string \<Rightarrow> uuid \<Rightarrow> validation_error + uuid" where
  "validate_uuid_v7 L field u =
     (if lib_version_num L u \<noteq> 7 \<or> \<not> lib_is_rfc4122 L u
      then Err (ValidationError (field @ '' must be a UUIDv7'')) else Ok u)"

definition parse_uuid_v7 :: "'z libs_scheme \<Rightarrow> string \<Rightarrow> string \<Rightarrow> validation_error + uuid" where
  "parse_uuid_v7 L field v =
     and_then (map_err (\<lambda>e. ValidationError (''invalid '' @ field @ '': '' @ e)) (lib_parse_uuid L v))
       (validate_uuid_v7 L field)"

definition identifier_char :: "nat \<Rightarrow> bool" where
  "identifier_char c \<longleftrightarrow>
     (48 \<le> c \<and> c \<le> 57) \<or> (65 \<le> c \<and> c \<le> 90) \<or> (97 \<le> c \<and> c \<le> 122) \<or> c = 45 \<or> c = 95 \<or> c = 46"

definition require_identifier :: "string \<Rightarrow> string \<Rightarrow> validation_error + unit" where
  "require_identifier field v =
     and_then (require_nonempty field v) (\<lambda>_.
       if list_all identifier_char (chars v) then Ok ()
       else Err (ValidationError
         (field @ '' may contain only ASCII letters, digits, '.', '-' and '_'')))"

definition require_provider_component ::
    "string \<Rightarrow> string \<Rightarrow> nat \<Rightarrow> validation_error + unit" where
  "require_provider_component field v max_len =
     and_then (require_nonempty field v) (\<lambda>_.
       if length v > max_len \<or> has_control v then Err (ValidationError (''invalid '' @ field))
       else Ok ())"

definition is_windows_reserved_name :: "string \<Rightarrow> bool" where
  "is_windows_reserved_name v =
     (let stem = takeWhile (\<lambda>c. c \<noteq> CHR ''.'') v in
        stem \<in> {''con'', ''prn'', ''aux'', ''nul''} \<or>
        ((starts_with stem ''com'' \<or> starts_with stem ''lpt'') \<and> length stem = 4 \<and>
         CHR ''1'' \<le> stem ! 3 \<and> stem ! 3 \<le> CHR ''9''))"

section \<open>Identifiers\<close>

text \<open>
  Every identifier is a newtype over a UUID; a phantom tag keeps them apart as the Rust newtypes
  do. Their order is the derived one, that of the 128-bit value.
\<close>

datatype 'k id = Id (id_uuid: uuid)

instantiation id :: (type) linorder
begin

definition less_eq_id :: "'a id \<Rightarrow> 'a id \<Rightarrow> bool" where
  "less_eq_id a b \<longleftrightarrow> id_uuid a \<le> id_uuid b"

definition less_id :: "'a id \<Rightarrow> 'a id \<Rightarrow> bool" where
  "less_id a b \<longleftrightarrow> id_uuid a < id_uuid b"

instance
  by standard (auto simp: less_eq_id_def less_id_def intro: id.expand)

end

datatype connection_tag = ConnectionTag
datatype artifact_tag = ArtifactTag
datatype work_item_tag = WorkItemTag
datatype run_tag = RunTag
datatype project_tag = ProjectTag
datatype batch_tag = TimelineBatchTag
datatype item_tag = TimelineItemTag
datatype approval_tag = ApprovalRequestTag
datatype audit_tag = AuditEventTag

type_synonym connection_id = "connection_tag id"
type_synonym artifact_id = "artifact_tag id"
type_synonym work_item_id = "work_item_tag id"
type_synonym run_id = "run_tag id"
type_synonym project_id = "project_tag id"
type_synonym timeline_batch_id = "batch_tag id"
type_synonym timeline_item_id = "item_tag id"
type_synonym approval_request_id = "approval_tag id"
type_synonym audit_event_id = "audit_tag id"

definition is_v7 :: "'z libs_scheme \<Rightarrow> 'k id \<Rightarrow> bool" where
  "is_v7 L i \<longleftrightarrow> lib_version_num L (id_uuid i) = 7"

definition id_text :: "'z libs_scheme \<Rightarrow> 'k id \<Rightarrow> string" where
  "id_text L i = lib_uuid_text L (id_uuid i)"

definition connection_id_from_str ::
    "'z libs_scheme \<Rightarrow> string \<Rightarrow> validation_error + connection_id" where
  "connection_id_from_str L v = map_ok Id (parse_uuid_v7 L ''connection id'' v)"

definition artifact_id_from_str ::
    "'z libs_scheme \<Rightarrow> string \<Rightarrow> validation_error + artifact_id" where
  "artifact_id_from_str L v = map_ok Id (parse_uuid_v7 L ''artifact id'' v)"

definition work_item_id_from_str ::
    "'z libs_scheme \<Rightarrow> string \<Rightarrow> validation_error + work_item_id" where
  "work_item_id_from_str L v = map_ok Id (parse_uuid_v7 L ''work item id'' v)"

definition work_item_id_try_from_uuid ::
    "'z libs_scheme \<Rightarrow> uuid \<Rightarrow> validation_error + work_item_id" where
  "work_item_id_try_from_uuid L u = map_ok Id (validate_uuid_v7 L ''work item id'' u)"

definition run_id_from_str :: "'z libs_scheme \<Rightarrow> string \<Rightarrow> validation_error + run_id" where
  "run_id_from_str L v = map_ok Id (parse_uuid_v7 L ''run id'' v)"

definition run_id_try_from_uuid :: "'z libs_scheme \<Rightarrow> uuid \<Rightarrow> validation_error + run_id" where
  "run_id_try_from_uuid L u = map_ok Id (validate_uuid_v7 L ''run id'' u)"

text \<open>The macro \<^verbatim>\<open>uuid_id!\<close>: the five remaining types differ in the type name only.\<close>

definition uuid_id_from_str ::
    "'z libs_scheme \<Rightarrow> string \<Rightarrow> string \<Rightarrow> validation_error + 'k id" where
  "uuid_id_from_str L type_name v = map_ok Id (parse_uuid_v7 L type_name v)"

definition uuid_id_try_from_uuid ::
    "'z libs_scheme \<Rightarrow> string \<Rightarrow> uuid \<Rightarrow> validation_error + 'k id" where
  "uuid_id_try_from_uuid L type_name u = map_ok Id (validate_uuid_v7 L type_name u)"

lemma parse_uuid_v7_Ok:
  "parse_uuid_v7 L field v = Ok u \<longleftrightarrow>
     lib_parse_uuid L v = Ok u \<and> lib_version_num L u = 7 \<and> lib_is_rfc4122 L u"
  by (auto simp: parse_uuid_v7_def validate_uuid_v7_def and_then_eq_Ok)

section \<open>Validated strings\<close>

definition hex_digit :: "char \<Rightarrow> bool" where
  "hex_digit c \<longleftrightarrow> ascii_digit c \<or> (97 \<le> (of_char c :: nat) \<and> (of_char c :: nat) \<le> 102)"

datatype content_digest = ContentDigest (digest_str: string)

definition content_digest_new :: "string \<Rightarrow> validation_error + content_digest" where
  "content_digest_new v =
     (if length v \<noteq> 64 \<or> \<not> list_all hex_digit v
      then Err (ValidationError ''content digest must be 64 lowercase hexadecimal characters'')
      else Ok (ContentDigest v))"

datatype artifact_provenance = ArtifactProvenance (provenance_str: string)

definition artifact_provenance_new :: "string \<Rightarrow> validation_error + artifact_provenance" where
  "artifact_provenance_new v =
     and_then (require_nonempty ''artifact provenance'' v) (\<lambda>_. Ok (ArtifactProvenance v))"

datatype credential_slot = CredentialSlot (slot_str: string)

definition credential_slot_new :: "string \<Rightarrow> validation_error + credential_slot" where
  "credential_slot_new v =
     and_then (require_identifier ''credential slot'' v) (\<lambda>_. Ok (CredentialSlot v))"

datatype operation_id = OperationId (operation_str: string)

definition operation_id_new :: "string \<Rightarrow> validation_error + operation_id" where
  "operation_id_new v =
     and_then (require_identifier ''operation id'' v) (\<lambda>_. Ok (OperationId v))"

datatype provider_state_root_id = ProviderStateRootId (root_str: string)

definition provider_state_root_id_new ::
    "string \<Rightarrow> validation_error + provider_state_root_id" where
  "provider_state_root_id_new v =
     and_then (require_identifier ''provider state root id'' v) (\<lambda>_.
     and_then (ensure (to_ascii_lowercase v = v)
                (ValidationError ''provider state root id must already be lowercase'')) (\<lambda>_.
     and_then (ensure (\<not> (v \<in> {''.'', ''..''} \<or> ends_with_char v [CHR ''.'', CHR '' '']))
                (ValidationError ''provider state root id must be one safe path component'')) (\<lambda>_.
     and_then (ensure (\<not> is_windows_reserved_name v)
                (ValidationError
                  ''provider state root id cannot be a Windows reserved device name'')) (\<lambda>_.
     Ok (ProviderStateRootId v)))))"

datatype secret_backend_id = SecretBackendId (backend_id_str: string)

definition secret_backend_id_new :: "string \<Rightarrow> validation_error + secret_backend_id" where
  "secret_backend_id_new v =
     and_then (require_identifier ''secret backend id'' v) (\<lambda>_. Ok (SecretBackendId v))"

datatype secret_locator = SecretLocator (locator_str: string)

definition secret_locator_new :: "string \<Rightarrow> validation_error + secret_locator" where
  "secret_locator_new v =
     and_then (require_nonempty ''secret locator'' v) (\<lambda>_.
     and_then (ensure (\<not> length v > 4096)
                (ValidationError ''secret locator exceeds 4096 bytes'')) (\<lambda>_.
     and_then (ensure (\<not> has_control v)
                (ValidationError ''secret locator cannot contain control characters'')) (\<lambda>_.
     Ok (SecretLocator v))))"

text \<open>An identifier is ASCII, so its characters are its bytes.\<close>

lemma identifier_bytes:
  assumes "list_all identifier_char (chars v)"
  shows "list_all (\<lambda>c. identifier_char (of_char c)) v"
proof -
  have "list_all (\<lambda>c. c < 128) (chars v)"
    using assms by (auto simp: list_all_iff identifier_char_def)
  then have "chars v = map of_char v" by (rule chars_ascii_only)
  with assms show ?thesis
    by (simp add: list_all_iff)
qed

lemma require_identifier_Ok:
  "require_identifier field v = Ok u \<longleftrightarrow>
     \<not> trim_is_empty v \<and> list_all identifier_char (chars v)"
  by (auto simp: require_identifier_def require_nonempty_def and_then_eq_Ok split: if_splits)

lemma provider_state_root_id_new_Ok:
  "provider_state_root_id_new v = Ok r \<longleftrightarrow>
     r = ProviderStateRootId v \<and> \<not> trim_is_empty v \<and> list_all identifier_char (chars v) \<and>
     to_ascii_lowercase v = v \<and> v \<notin> {''.'', ''..''} \<and> \<not> ends_with_char v [CHR ''.'', CHR '' ''] \<and>
     \<not> is_windows_reserved_name v"
  by (auto simp: provider_state_root_id_new_def and_then_eq_Ok require_identifier_Ok)

lemma lowercase_fixed_no_upper:
  assumes "to_ascii_lowercase v = v" and "c \<in> set v"
  shows "\<not> ascii_upper c"
proof
  assume up: "ascii_upper c"
  from assms(2) obtain i where i: "i < length v" "v ! i = c" by (auto simp: in_set_conv_nth)
  have "to_ascii_lowercase v ! i = char_of ((of_char c :: nat) + 32)"
    using i up by (simp add: to_ascii_lowercase_def)
  with assms(1) i have eq: "char_of ((of_char c :: nat) + 32) = c" by simp
  have "(of_char (char_of ((of_char c :: nat) + 32) :: char) :: nat) = of_char c + 32"
    using up by (simp add: ascii_upper_def)
  with eq show False by simp
qed

section \<open>Provider identities\<close>

record namespaced_provider_id =
  np_namespace :: string
  np_value :: string

definition namespaced_provider_id_new ::
    "string \<Rightarrow> string \<Rightarrow> validation_error + namespaced_provider_id" where
  "namespaced_provider_id_new namespace v =
     and_then (require_nonempty ''provider namespace'' namespace) (\<lambda>_.
     and_then (require_nonempty ''provider id'' v) (\<lambda>_.
     and_then (ensure (\<not> (length namespace > 128 \<or> has_control namespace))
                (ValidationError ''invalid provider namespace'')) (\<lambda>_.
     and_then (ensure (\<not> (length v > 4096 \<or> has_control v))
                (ValidationError ''invalid provider id'')) (\<lambda>_.
     Ok \<lparr>np_namespace = namespace, np_value = v\<rparr>))))"

record provider_run_identity =
  pri_namespace :: string
  pri_runtime_id :: string
  pri_session_id :: string
  pri_run_id :: string

definition provider_run_identity_new ::
    "string \<Rightarrow> string \<Rightarrow> string \<Rightarrow> string \<Rightarrow> validation_error + provider_run_identity" where
  "provider_run_identity_new namespace runtime_id session_id rid =
     and_then (require_provider_component ''provider namespace'' namespace 128) (\<lambda>_.
     and_then (require_provider_component ''provider runtime id'' runtime_id 4096) (\<lambda>_.
     and_then (require_provider_component ''provider session id'' session_id 4096) (\<lambda>_.
     and_then (require_provider_component ''provider run id'' rid 4096) (\<lambda>_.
     Ok \<lparr>pri_namespace = namespace, pri_runtime_id = runtime_id,
         pri_session_id = session_id, pri_run_id = rid\<rparr>))))"

section \<open>Lifecycles and snapshots\<close>

text \<open>\<open>UtcTimestamp\<close>, \<open>StreamCursor\<close>, \<open>TimelineRevision\<close> and \<open>DataRevision\<close> wrap one integer.\<close>

type_synonym utc_timestamp = int
type_synonym stream_cursor = u64
type_synonym timeline_revision = u64
type_synonym data_revision = u64

datatype artifact_kind =
  Plan | Diff | File | Image | CommandLog | BrowserCapture | ProviderPayload

record artifact_record =
  art_id :: artifact_id
  art_work_item_id :: work_item_id
  art_run_id :: "run_id option"
  art_kind :: artifact_kind
  art_digest :: content_digest
  art_byte_len :: u64
  art_media_type :: string
  art_provenance :: artifact_provenance

record project_snapshot =
  ps_id :: project_id
  ps_name :: string
  ps_created_at :: utc_timestamp

datatype work_item_status = Ready | Archived

record work_item_snapshot =
  ws_id :: work_item_id
  ws_project_id :: project_id
  ws_title :: string
  ws_status :: work_item_status
  ws_parent_id :: "work_item_id option"
  ws_revision :: data_revision
  ws_created_at :: utc_timestamp
  ws_updated_at :: utc_timestamp

datatype run_status =
  Starting | Running | Completed | Failed | Interrupted | Disconnected | OutcomeUnknown

fun can_transition_to :: "run_status \<Rightarrow> run_status \<Rightarrow> bool" where
  "can_transition_to Starting target =
     (target \<in> {Running, Interrupted, Failed, OutcomeUnknown})"
| "can_transition_to Running target =
     (target \<in> {Completed, Failed, Interrupted, Disconnected, OutcomeUnknown})"
| "can_transition_to Disconnected target =
     (target \<in> {Running, Interrupted, OutcomeUnknown})"
| "can_transition_to OutcomeUnknown target =
     (target \<in> {Running, Completed, Failed, Interrupted, Disconnected})"
| "can_transition_to _ target = False"

record run_snapshot =
  rs_id :: run_id
  rs_connection_id :: connection_id
  rs_work_item_id :: work_item_id
  rs_status :: run_status
  rs_provider_id :: "provider_run_identity option"
  rs_created_at :: utc_timestamp
  rs_ended_at :: "utc_timestamp option"

record timeline_item_snapshot =
  ts_id :: timeline_item_id
  ts_connection_id :: connection_id
  ts_run_id :: run_id
  ts_revision :: timeline_revision
  ts_kind :: string
  ts_body :: string
  ts_provider_id :: "namespaced_provider_id option"
  ts_created_at :: utc_timestamp

datatype approval_decision = Approved | Denied

datatype approval_status =
  Pending
| Responding approval_decision
| Resolved approval_decision
| Voided "approval_decision option"

record approval_snapshot =
  as_id :: approval_request_id
  as_connection_id :: connection_id
  as_run_id :: run_id
  as_provider_id :: namespaced_provider_id
  as_kind :: string
  as_summary :: string
  as_status :: approval_status
  as_requested_at :: utc_timestamp
  as_response_started_at :: "utc_timestamp option"
  as_resolved_at :: "utc_timestamp option"
  as_voided_at :: "utc_timestamp option"

section \<open>Connections and secret backends\<close>

record secret_reference =
  ref_backend_id :: secret_backend_id
  ref_locator :: secret_locator

datatype credential_binding =
  Delegated string
| Secret secret_reference
| Disabled

fun credential_binding_validate :: "credential_binding \<Rightarrow> validation_error + unit" where
  "credential_binding_validate (Delegated authority) =
     require_nonempty ''delegated credential authority'' authority"
| "credential_binding_validate _ = Ok ()"

record credential_binding_record =
  cb_slot :: credential_slot
  cb_binding :: credential_binding

definition credential_binding_record_validate ::
    "credential_binding_record \<Rightarrow> validation_error + unit" where
  "credential_binding_record_validate c = credential_binding_validate (cb_binding c)"

record connection =
  conn_id :: connection_id
  conn_name :: string
  conn_harness :: string
  conn_model_provider :: string
  conn_provider_state :: provider_state_root_id
  conn_credentials :: "credential_binding_record list"

text \<open>The loop over the credentials, with the slots inserted so far.\<close>

fun validate_credentials ::
    "credential_slot list \<Rightarrow> credential_binding_record list \<Rightarrow> validation_error + unit" where
  "validate_credentials slots [] = Ok ()"
| "validate_credentials slots (c # cs) =
     and_then (credential_binding_record_validate c) (\<lambda>_.
       if cb_slot c \<in> set slots
       then Err (ValidationError (''duplicate credential slot: '' @ slot_str (cb_slot c)))
       else validate_credentials (cb_slot c # slots) cs)"

definition connection_validate :: "connection \<Rightarrow> validation_error + unit" where
  "connection_validate c =
     and_then (require_nonempty ''connection name'' (conn_name c)) (\<lambda>_.
     and_then (require_nonempty ''connection harness'' (conn_harness c)) (\<lambda>_.
     and_then (require_nonempty ''connection model_provider'' (conn_model_provider c)) (\<lambda>_.
     validate_credentials [] (conn_credentials c))))"

datatype secret_backend_settings =
  LocalOs
| OnePassword (op_account: string) (op_executable: "string option")
| Environment
| Memory
| LocalFile (lf_path: string)

fun settings_kind :: "secret_backend_settings \<Rightarrow> string" where
  "settings_kind LocalOs = ''local-os''"
| "settings_kind (OnePassword _ _) = ''onepassword''"
| "settings_kind Environment = ''environment''"
| "settings_kind Memory = ''memory''"
| "settings_kind (LocalFile _) = ''local-file''"

fun settings_validate :: "secret_backend_settings \<Rightarrow> validation_error + unit" where
  "settings_validate (OnePassword account executable) =
     and_then (require_nonempty ''secret backend account'' account) (\<lambda>_.
       case executable of
         Some e \<Rightarrow> require_nonempty ''secret backend executable'' e
       | None \<Rightarrow> Ok ())"
| "settings_validate (LocalFile path) = require_nonempty ''secret backend path'' path"
| "settings_validate _ = Ok ()"

definition from_config_parts ::
    "string \<Rightarrow> string option \<Rightarrow> string option \<Rightarrow> string option \<Rightarrow>
     validation_error + secret_backend_settings" where
  "from_config_parts kind account path executable =
     and_then
       (if kind = ''local-os'' \<and> account = None \<and> path = None \<and> executable = None then Ok LocalOs
        else if kind \<in> {''onepassword'', ''onepassword-cli''} \<and> account \<noteq> None \<and> path = None
          then Ok (OnePassword (the account) executable)
        else if kind \<in> {''onepassword'', ''onepassword-cli''} \<and> account = None \<and> path = None
          then Err (ValidationError ''onepassword secret backend requires an account'')
        else if kind = ''environment'' \<and> account = None \<and> path = None \<and> executable = None
          then Ok Environment
        else if kind = ''memory'' \<and> account = None \<and> path = None \<and> executable = None
          then Ok Memory
        else if kind = ''local-file'' \<and> account = None \<and> path \<noteq> None \<and> executable = None
          then Ok (LocalFile (the path))
        else if kind = ''local-file'' \<and> account = None \<and> path = None \<and> executable = None
          then Err (ValidationError ''local-file secret backend requires a path'')
        else Err (ValidationError
          (''unsupported or inconsistent secret backend settings for kind: '' @ kind)))
     (\<lambda>settings. and_then (settings_validate settings) (\<lambda>_. Ok settings))"

record secret_backend =
  sb_id :: secret_backend_id
  sb_settings :: secret_backend_settings

definition secret_backend_validate :: "secret_backend \<Rightarrow> validation_error + unit" where
  "secret_backend_validate b = settings_validate (sb_settings b)"

definition secret_backend_kind :: "secret_backend \<Rightarrow> string" where
  "secret_backend_kind b = settings_kind (sb_settings b)"

end
