(* ===== verification/Commands.thy ===== *)
theory Commands
  imports Domain
begin

text \<open>
  The application's commands, queries and pages, and the errors of its store port
  (\<^verbatim>\<open>crates/yakshed-application/src/lib.rs\<close>, the types of \<open>AppStore\<close>).
\<close>

section \<open>Errors of the store\<close>

datatype store_error =
  NotFound string string
| Conflict string
| Integrity string
| Migration string
| UnsupportedNewerSchema u32 u32
| Open string
| Backend string
| Closed

section \<open>Commands\<close>

record create_project_cmd =
  cp_id :: project_id
  cp_name :: string

record create_work_item_cmd =
  cw_id :: work_item_id
  cw_project_id :: project_id
  cw_title :: string
  cw_parent_id :: "work_item_id option"

record list_work_items_query =
  lw_project_id :: project_id
  lw_after :: "work_item_id option"
  lw_limit :: u32
  lw_include_archived :: bool

definition for_project :: "project_id \<Rightarrow> u32 \<Rightarrow> list_work_items_query" where
  "for_project p l =
     \<lparr>lw_project_id = p, lw_after = None, lw_limit = l, lw_include_archived = False\<rparr>"

record create_run_cmd =
  cr_id :: run_id
  cr_connection_id :: connection_id
  cr_work_item_id :: work_item_id
  cr_provider_run :: "provider_run_identity option"

record transition_run_cmd =
  tr_run_id :: run_id
  tr_expected_current :: run_status
  tr_target :: run_status
  tr_provider_id :: "provider_run_identity option"
  tr_occurred_at :: utc_timestamp
  tr_audit_event_id :: audit_event_id

record new_timeline_item =
  ni_id :: timeline_item_id
  ni_kind :: string
  ni_body :: string
  ni_provider_id :: "namespaced_provider_id option"

record timeline_batch =
  tb_batch_id :: timeline_batch_id
  tb_connection_id :: connection_id
  tb_run_id :: run_id
  tb_source_namespace :: string
  tb_stream_id :: string
  tb_expected_stream_revision :: stream_cursor
  tb_items :: "new_timeline_item list"

record list_timeline_query =
  lt_run_id :: run_id
  lt_after :: "timeline_revision option"
  lt_limit :: u32

record get_stream_cursor_query =
  gs_connection_id :: connection_id
  gs_run_id :: run_id
  gs_source_namespace :: string
  gs_stream_id :: string

record stream_cursor_state =
  scs_cursor :: stream_cursor
  scs_last_batch_id :: timeline_batch_id

record pending_approval =
  pa_id :: approval_request_id
  pa_run_id :: run_id
  pa_provider_id :: namespaced_provider_id
  pa_kind :: string
  pa_summary :: string

record begin_approval_response_cmd =
  ba_approval_id :: approval_request_id
  ba_decision :: approval_decision
  ba_audit_event_id :: audit_event_id

record confirm_approval_response_cmd =
  ca_approval_id :: approval_request_id
  ca_audit_event_id :: audit_event_id

record pending_user_input_snapshot =
  ui_id :: timeline_item_id
  ui_run_id :: run_id
  ui_prompt :: string
  ui_provider_id :: namespaced_provider_id

section \<open>Pages\<close>

text \<open>
  \<open>ProjectPage\<close>, \<open>WorkItemPage\<close>, \<open>RunPage\<close>, \<open>TimelinePage\<close>, \<open>ApprovalPage\<close> and
  \<open>PendingUserInputPage\<close> have the same two fields: the items and the key to continue after.
\<close>

record ('k, 'a) page =
  pg_items :: "'a list"
  pg_next_after :: "'k option"

type_synonym project_page = "(project_id, project_snapshot) page"
type_synonym work_item_page = "(work_item_id, work_item_snapshot) page"
type_synonym run_page = "(run_id, run_snapshot) page"
type_synonym timeline_page = "(timeline_revision, timeline_item_snapshot) page"
type_synonym approval_page = "(approval_request_id, approval_snapshot) page"
type_synonym pending_user_input_page = "(timeline_item_id, pending_user_input_snapshot) page"

end
