(* ===== verification/Schema.thy ===== *)
theory Schema
  imports Commands
begin

text \<open>
  The SQLite schema of the durable store (\<^verbatim>\<open>crates/yakshed-store/src/sqlite.rs\<close>, constants
  \<open>INITIAL_SCHEMA\<close> to \<open>MIGRATE_V5_TO_V6\<close>): one record per table, the database as a record of
  tables, and every \<open>PRIMARY KEY\<close>, \<open>UNIQUE\<close>, \<open>CHECK\<close> and foreign-key constraint as the guard of
  the \<open>INSERT\<close> and \<open>UPDATE\<close> statements. The constraints are those of schema version 6.

  Identifier columns hold the canonical text of an identifier; printing and parsing are inverse and
  the fixed-width text has the order of the identifier, so the model stores the identifier. Every
  other text column is a string, every \<open>INTEGER\<close> column an \<open>int\<close>, and a nullable column an
  \<open>option\<close>. Rows are kept in insertion order. SQLite itself is a parameter where the code looks at
  it: the texts of its errors are \<open>lib_sql_text\<close>.
\<close>

section \<open>Errors of the database library\<close>

datatype error_code =
  DatabaseCorrupt | NotADatabase | ConstraintViolation | DatabaseBusy | DatabaseLocked | OtherCode

datatype sql_error =
  SqliteFailure error_code
| QueryReturnedNoRows
| FromSqlConversionFailure nat string
| IntegralValueOutOfRange nat
| InvalidColumnType nat string
| InvalidQuery

fun sqlite_error_code :: "sql_error \<Rightarrow> error_code option" where
  "sqlite_error_code (SqliteFailure c) = Some c"
| "sqlite_error_code _ = None"

record store_libs = libs +
  lib_sql_text :: "sql_error \<Rightarrow> string"
  lib_sha256 :: "byte list \<Rightarrow> byte list"

definition is_corruption :: "sql_error \<Rightarrow> bool" where
  "is_corruption e \<longleftrightarrow> sqlite_error_code e \<in> {Some DatabaseCorrupt, Some NotADatabase}"

definition map_database_error :: "'z store_libs_scheme \<Rightarrow> sql_error \<Rightarrow> store_error" where
  "map_database_error L e =
     (if is_corruption e then Integrity (lib_sql_text L e)
      else if sqlite_error_code e = Some ConstraintViolation then Conflict (lib_sql_text L e)
      else case e of
        FromSqlConversionFailure _ _ \<Rightarrow> Integrity (lib_sql_text L e)
      | IntegralValueOutOfRange _ \<Rightarrow> Integrity (lib_sql_text L e)
      | InvalidColumnType _ _ \<Rightarrow> Integrity (lib_sql_text L e)
      | InvalidQuery \<Rightarrow> Integrity (lib_sql_text L e)
      | _ \<Rightarrow> Backend (lib_sql_text L e))"

definition sql :: "'z store_libs_scheme \<Rightarrow> sql_error + 'a \<Rightarrow> store_error + 'a" where
  "sql L r = map_err (map_database_error L) r"

lemma sql_simps [simp]:
  "sql L (Ok x) = Ok x" "sql L (Err e) = Err (map_database_error L e)"
  by (simp_all add: sql_def)

lemma sql_eq_Ok [simp]: "sql L r = Ok x \<longleftrightarrow> r = Ok x"
  by (simp add: sql_def)

section \<open>Tables\<close>

record project_row =
  prj_id :: project_id
  prj_name :: string
  prj_created_at_ms :: int

record work_item_row =
  wi_id :: work_item_id
  wi_project_id :: project_id
  wi_title :: string
  wi_status :: string
  wi_revision :: int
  wi_created_at_ms :: int
  wi_updated_at_ms :: int
  wi_archived_at_ms :: "int option"

record work_edge_row =
  we_parent_id :: work_item_id
  we_child_id :: work_item_id
  we_kind :: string

record run_row =
  rr_id :: run_id
  rr_connection_id :: connection_id
  rr_work_item_id :: work_item_id
  rr_status :: string
  rr_provider_namespace :: "string option"
  rr_provider_runtime_id :: "string option"
  rr_provider_session_id :: "string option"
  rr_provider_run_id :: "string option"
  rr_created_at_ms :: int
  rr_ended_at_ms :: "int option"

record timeline_row =
  tl_id :: timeline_item_id
  tl_connection_id :: connection_id
  tl_run_id :: run_id
  tl_revision :: int
  tl_kind :: string
  tl_body :: string
  tl_provider_namespace :: "string option"
  tl_provider_item_id :: "string option"
  tl_created_at_ms :: int

record approval_row =
  ap_id :: approval_request_id
  ap_connection_id :: connection_id
  ap_run_id :: run_id
  ap_provider_namespace :: string
  ap_provider_approval_id :: string
  ap_kind :: string
  ap_summary :: string
  ap_status :: string
  ap_decision :: "string option"
  ap_requested_at_ms :: int
  ap_response_started_at_ms :: "int option"
  ap_resolved_at_ms :: "int option"
  ap_voided_at_ms :: "int option"

record cursor_row =
  pc_connection_id :: connection_id
  pc_source_namespace :: string
  pc_stream_id :: string
  pc_run_id :: run_id
  pc_cursor :: int
  pc_last_batch_id :: timeline_batch_id
  pc_last_start_cursor :: int
  pc_last_payload_digest :: string
  pc_updated_at_ms :: int

record audit_row =
  au_id :: audit_event_id
  au_event_type :: string
  au_entity_type :: string
  au_entity_id :: string
  au_body :: string
  au_created_at_ms :: int

record artifact_row =
  af_id :: artifact_id
  af_work_item_id :: work_item_id
  af_run_id :: "run_id option"
  af_kind :: string
  af_digest :: string
  af_byte_len :: int
  af_media_type :: string
  af_provenance :: string

record db =
  projects :: "project_row list"
  work_items :: "work_item_row list"
  work_edges :: "work_edge_row list"
  runs :: "run_row list"
  timeline_items :: "timeline_row list"
  approval_requests :: "approval_row list"
  projection_cursors :: "cursor_row list"
  audit_events :: "audit_row list"
  artifacts :: "artifact_row list"

definition empty_db :: db where
  "empty_db = \<lparr>projects = [], work_items = [], work_edges = [], runs = [], timeline_items = [],
     approval_requests = [], projection_cursors = [], audit_events = [], artifacts = []\<rparr>"

section \<open>Statements and constraints\<close>

text \<open>
  \<open>check\<close> is the conjunction of a row's \<open>CHECK\<close> and foreign-key constraints, \<open>clash\<close> says that two
  rows violate a \<open>UNIQUE\<close> or \<open>PRIMARY KEY\<close> constraint. A violated constraint fails the statement.
\<close>

definition constraint_violation :: sql_error where
  "constraint_violation = SqliteFailure ConstraintViolation"

definition sql_insert ::
    "('r \<Rightarrow> bool) \<Rightarrow> ('r \<Rightarrow> 'r \<Rightarrow> bool) \<Rightarrow> 'r \<Rightarrow> 'r list \<Rightarrow> sql_error + 'r list" where
  "sql_insert check clash r rows =
     (if check r \<and> list_all (\<lambda>x. \<not> clash x r) rows then Ok (rows @ [r])
      else Err constraint_violation)"

definition sql_update ::
    "('r \<Rightarrow> bool) \<Rightarrow> ('r \<Rightarrow> 'r \<Rightarrow> bool) \<Rightarrow> ('r \<Rightarrow> bool) \<Rightarrow> ('r \<Rightarrow> 'r) \<Rightarrow> 'r list \<Rightarrow>
     sql_error + (nat \<times> 'r list)" where
  "sql_update check clash P f rows =
     (if list_all (\<lambda>r. P r \<longrightarrow> check (f r)) rows \<and>
         sorted_wrt (\<lambda>x y. \<not> clash x y) (update_where P f rows)
      then Ok (count_where P rows, update_where P f rows)
      else Err constraint_violation)"

lemma sql_insert_Ok:
  "sql_insert check clash r rows = Ok t \<longleftrightarrow>
     t = rows @ [r] \<and> check r \<and> (\<forall>x\<in>set rows. \<not> clash x r)"
  by (auto simp: sql_insert_def list_all_iff)

lemma sql_update_Ok:
  "sql_update check clash P f rows = Ok (n, t) \<longleftrightarrow>
     n = count_where P rows \<and> t = update_where P f rows \<and>
     (\<forall>r\<in>set rows. P r \<longrightarrow> check (f r)) \<and> sorted_wrt (\<lambda>x y. \<not> clash x y) t"
  by (auto simp: sql_update_def list_all_iff)

text \<open>Equality of nullable columns in a \<open>UNIQUE\<close> constraint: \<open>NULL\<close>s are distinct.\<close>

definition sql_same :: "'a option \<Rightarrow> 'a option \<Rightarrow> bool" where
  "sql_same a b \<longleftrightarrow> a \<noteq> None \<and> a = b"

text \<open>
  \<open>length(trim(x)) > 0\<close>: SQLite's \<open>trim\<close> strips spaces only, and its \<open>length\<close> counts the
  characters before the first NUL.
\<close>

definition sql_nonblank :: "string \<Rightarrow> bool" where
  "sql_nonblank s =
     (case dropWhile (\<lambda>c. c = CHR '' '') s of [] \<Rightarrow> False | c # _ \<Rightarrow> of_char c \<noteq> (0::nat))"

definition project_check :: "project_row \<Rightarrow> bool" where
  "project_check r \<longleftrightarrow> sql_nonblank (prj_name r)"

definition project_clash :: "project_row \<Rightarrow> project_row \<Rightarrow> bool" where
  "project_clash a b \<longleftrightarrow> prj_id a = prj_id b"

definition work_item_check :: "db \<Rightarrow> work_item_row \<Rightarrow> bool" where
  "work_item_check db r \<longleftrightarrow>
     sql_nonblank (wi_title r) \<and> wi_status r \<in> {''ready'', ''archived''} \<and> wi_revision r > 0 \<and>
     wi_project_id r \<in> prj_id ` set (projects db)"

definition work_item_clash :: "work_item_row \<Rightarrow> work_item_row \<Rightarrow> bool" where
  "work_item_clash a b \<longleftrightarrow> wi_id a = wi_id b"

definition work_edge_check :: "db \<Rightarrow> work_edge_row \<Rightarrow> bool" where
  "work_edge_check db r \<longleftrightarrow>
     we_kind r = ''parent'' \<and> we_parent_id r \<noteq> we_child_id r \<and>
     we_parent_id r \<in> wi_id ` set (work_items db) \<and> we_child_id r \<in> wi_id ` set (work_items db)"

definition work_edge_clash :: "work_edge_row \<Rightarrow> work_edge_row \<Rightarrow> bool" where
  "work_edge_clash a b \<longleftrightarrow>
     we_child_id a = we_child_id b \<or>
     (we_parent_id a = we_parent_id b \<and> we_child_id a = we_child_id b)"

definition run_check :: "db \<Rightarrow> run_row \<Rightarrow> bool" where
  "run_check db r \<longleftrightarrow>
     rr_status r \<in> {''starting'', ''running'', ''completed'', ''failed'', ''interrupted'',
                    ''disconnected'', ''outcome_unknown''} \<and>
     (rr_provider_namespace r = None) = (rr_provider_runtime_id r = None) \<and>
     (rr_provider_namespace r = None) = (rr_provider_session_id r = None) \<and>
     (rr_provider_namespace r = None) = (rr_provider_run_id r = None) \<and>
     (rr_status r \<in> {''completed'', ''failed'', ''interrupted''}) = (rr_ended_at_ms r \<noteq> None) \<and>
     rr_work_item_id r \<in> wi_id ` set (work_items db)"

definition run_clash :: "run_row \<Rightarrow> run_row \<Rightarrow> bool" where
  "run_clash a b \<longleftrightarrow>
     rr_id a = rr_id b \<or>
     (rr_connection_id a = rr_connection_id b \<and>
      sql_same (rr_provider_namespace a) (rr_provider_namespace b) \<and>
      sql_same (rr_provider_runtime_id a) (rr_provider_runtime_id b) \<and>
      sql_same (rr_provider_session_id a) (rr_provider_session_id b) \<and>
      sql_same (rr_provider_run_id a) (rr_provider_run_id b))"

definition has_run :: "db \<Rightarrow> connection_id \<Rightarrow> run_id \<Rightarrow> bool" where
  "has_run db c r \<longleftrightarrow> (c, r) \<in> (\<lambda>x. (rr_connection_id x, rr_id x)) ` set (runs db)"

definition timeline_check :: "db \<Rightarrow> timeline_row \<Rightarrow> bool" where
  "timeline_check db r \<longleftrightarrow>
     tl_revision r > 0 \<and> sql_nonblank (tl_kind r) \<and>
     (tl_provider_namespace r = None) = (tl_provider_item_id r = None) \<and>
     has_run db (tl_connection_id r) (tl_run_id r)"

definition timeline_clash :: "timeline_row \<Rightarrow> timeline_row \<Rightarrow> bool" where
  "timeline_clash a b \<longleftrightarrow>
     tl_id a = tl_id b \<or>
     (tl_run_id a = tl_run_id b \<and> tl_revision a = tl_revision b) \<or>
     (tl_connection_id a = tl_connection_id b \<and> tl_run_id a = tl_run_id b \<and>
      sql_same (tl_provider_namespace a) (tl_provider_namespace b) \<and>
      sql_same (tl_provider_item_id a) (tl_provider_item_id b))"

definition approval_check :: "db \<Rightarrow> approval_row \<Rightarrow> bool" where
  "approval_check db r \<longleftrightarrow>
     sql_nonblank (ap_kind r) \<and>
     ap_status r \<in> {''pending'', ''responding'', ''resolved'', ''voided''} \<and>
     ap_decision r \<in> {None, Some ''approved'', Some ''denied''} \<and>
     has_run db (ap_connection_id r) (ap_run_id r) \<and>
     ((ap_status r = ''pending'' \<and> ap_decision r = None \<and> ap_response_started_at_ms r = None \<and>
       ap_resolved_at_ms r = None \<and> ap_voided_at_ms r = None) \<or>
      (ap_status r = ''responding'' \<and> ap_decision r \<noteq> None \<and> ap_response_started_at_ms r \<noteq> None \<and>
       ap_resolved_at_ms r = None \<and> ap_voided_at_ms r = None) \<or>
      (ap_status r = ''resolved'' \<and> ap_decision r \<noteq> None \<and> ap_response_started_at_ms r \<noteq> None \<and>
       ap_resolved_at_ms r \<noteq> None \<and> ap_voided_at_ms r = None) \<or>
      (ap_status r = ''voided'' \<and> ap_resolved_at_ms r = None \<and> ap_voided_at_ms r \<noteq> None \<and>
       ((ap_decision r = None \<and> ap_response_started_at_ms r = None) \<or>
        (ap_decision r \<noteq> None \<and> ap_response_started_at_ms r \<noteq> None))))"

definition approval_clash :: "approval_row \<Rightarrow> approval_row \<Rightarrow> bool" where
  "approval_clash a b \<longleftrightarrow>
     ap_id a = ap_id b \<or>
     (ap_connection_id a = ap_connection_id b \<and> ap_run_id a = ap_run_id b \<and>
      ap_provider_namespace a = ap_provider_namespace b \<and>
      ap_provider_approval_id a = ap_provider_approval_id b)"

definition cursor_check :: "db \<Rightarrow> cursor_row \<Rightarrow> bool" where
  "cursor_check db r \<longleftrightarrow>
     pc_cursor r \<ge> 0 \<and> pc_last_start_cursor r \<ge> 0 \<and> has_run db (pc_connection_id r) (pc_run_id r)"

definition cursor_clash :: "cursor_row \<Rightarrow> cursor_row \<Rightarrow> bool" where
  "cursor_clash a b \<longleftrightarrow>
     pc_connection_id a = pc_connection_id b \<and> pc_run_id a = pc_run_id b \<and>
     pc_source_namespace a = pc_source_namespace b \<and> pc_stream_id a = pc_stream_id b"

definition audit_clash :: "audit_row \<Rightarrow> audit_row \<Rightarrow> bool" where
  "audit_clash a b \<longleftrightarrow> au_id a = au_id b"

definition artifact_check :: "db \<Rightarrow> artifact_row \<Rightarrow> bool" where
  "artifact_check db r \<longleftrightarrow>
     af_kind r \<in> {''plan'', ''diff'', ''file'', ''image'', ''command_log'', ''browser_capture'',
                  ''provider_payload''} \<and>
     af_byte_len r \<ge> 0 \<and> sql_nonblank (af_media_type r) \<and> sql_nonblank (af_provenance r) \<and>
     af_work_item_id r \<in> wi_id ` set (work_items db) \<and>
     (case af_run_id r of None \<Rightarrow> True | Some i \<Rightarrow> i \<in> rr_id ` set (runs db))"

definition artifact_clash :: "artifact_row \<Rightarrow> artifact_row \<Rightarrow> bool" where
  "artifact_clash a b \<longleftrightarrow> af_id a = af_id b"

text \<open>The statements on the database.\<close>

definition insert_project :: "project_row \<Rightarrow> db \<Rightarrow> sql_error + db" where
  "insert_project r db =
     map_ok (\<lambda>t. db\<lparr>projects := t\<rparr>) (sql_insert project_check project_clash r (projects db))"

definition insert_work_item :: "work_item_row \<Rightarrow> db \<Rightarrow> sql_error + db" where
  "insert_work_item r db =
     map_ok (\<lambda>t. db\<lparr>work_items := t\<rparr>)
       (sql_insert (work_item_check db) work_item_clash r (work_items db))"

definition update_work_items ::
    "(work_item_row \<Rightarrow> bool) \<Rightarrow> (work_item_row \<Rightarrow> work_item_row) \<Rightarrow> db \<Rightarrow> sql_error + (nat \<times> db)" where
  "update_work_items P f db =
     map_ok (\<lambda>(n, t). (n, db\<lparr>work_items := t\<rparr>))
       (sql_update (work_item_check db) work_item_clash P f (work_items db))"

definition insert_work_edge :: "work_edge_row \<Rightarrow> db \<Rightarrow> sql_error + db" where
  "insert_work_edge r db =
     map_ok (\<lambda>t. db\<lparr>work_edges := t\<rparr>)
       (sql_insert (work_edge_check db) work_edge_clash r (work_edges db))"

definition insert_run :: "run_row \<Rightarrow> db \<Rightarrow> sql_error + db" where
  "insert_run r db =
     map_ok (\<lambda>t. db\<lparr>runs := t\<rparr>) (sql_insert (run_check db) run_clash r (runs db))"

definition update_runs ::
    "(run_row \<Rightarrow> bool) \<Rightarrow> (run_row \<Rightarrow> run_row) \<Rightarrow> db \<Rightarrow> sql_error + (nat \<times> db)" where
  "update_runs P f db =
     map_ok (\<lambda>(n, t). (n, db\<lparr>runs := t\<rparr>)) (sql_update (run_check db) run_clash P f (runs db))"

definition insert_timeline_item :: "timeline_row \<Rightarrow> db \<Rightarrow> sql_error + db" where
  "insert_timeline_item r db =
     map_ok (\<lambda>t. db\<lparr>timeline_items := t\<rparr>)
       (sql_insert (timeline_check db) timeline_clash r (timeline_items db))"

definition insert_approval :: "approval_row \<Rightarrow> db \<Rightarrow> sql_error + db" where
  "insert_approval r db =
     map_ok (\<lambda>t. db\<lparr>approval_requests := t\<rparr>)
       (sql_insert (approval_check db) approval_clash r (approval_requests db))"

definition update_approvals ::
    "(approval_row \<Rightarrow> bool) \<Rightarrow> (approval_row \<Rightarrow> approval_row) \<Rightarrow> db \<Rightarrow> sql_error + (nat \<times> db)" where
  "update_approvals P f db =
     map_ok (\<lambda>(n, t). (n, db\<lparr>approval_requests := t\<rparr>))
       (sql_update (approval_check db) approval_clash P f (approval_requests db))"

text \<open>\<open>INSERT ... ON CONFLICT (...) DO UPDATE\<close>: the row with the same key is replaced.\<close>

definition upsert_cursor :: "cursor_row \<Rightarrow> db \<Rightarrow> sql_error + db" where
  "upsert_cursor r db =
     (if \<not> cursor_check db r then Err constraint_violation
      else if list_ex (\<lambda>x. cursor_clash x r) (projection_cursors db)
        then Ok (db\<lparr>projection_cursors :=
               update_where (\<lambda>x. cursor_clash x r) (\<lambda>_. r) (projection_cursors db)\<rparr>)
      else Ok (db\<lparr>projection_cursors := projection_cursors db @ [r]\<rparr>))"

definition insert_audit :: "audit_row \<Rightarrow> db \<Rightarrow> sql_error + db" where
  "insert_audit r db =
     map_ok (\<lambda>t. db\<lparr>audit_events := t\<rparr>)
       (sql_insert (\<lambda>_. True) audit_clash r (audit_events db))"

definition insert_artifact :: "artifact_row \<Rightarrow> db \<Rightarrow> sql_error + db" where
  "insert_artifact r db =
     map_ok (\<lambda>t. db\<lparr>artifacts := t\<rparr>)
       (sql_insert (artifact_check db) artifact_clash r (artifacts db))"

text \<open>
  Foreign keys only need the referenced keys to stay: every check is monotone in the keys of the
  tables it refers to.
\<close>

definition project_keys :: "db \<Rightarrow> project_id set" where
  "project_keys db = prj_id ` set (projects db)"

definition work_keys :: "db \<Rightarrow> work_item_id set" where
  "work_keys db = wi_id ` set (work_items db)"

definition run_keys :: "db \<Rightarrow> (connection_id \<times> run_id) set" where
  "run_keys db = (\<lambda>x. (rr_connection_id x, rr_id x)) ` set (runs db)"

lemma work_item_check_mono:
  "project_keys db \<subseteq> project_keys db' \<Longrightarrow> work_item_check db r \<Longrightarrow> work_item_check db' r"
  unfolding work_item_check_def project_keys_def by blast

lemma work_edge_check_mono:
  "work_keys db \<subseteq> work_keys db' \<Longrightarrow> work_edge_check db r \<Longrightarrow> work_edge_check db' r"
  unfolding work_edge_check_def work_keys_def by blast

lemma run_check_mono:
  "work_keys db \<subseteq> work_keys db' \<Longrightarrow> run_check db r \<Longrightarrow> run_check db' r"
  unfolding run_check_def work_keys_def by blast

lemma has_run_mono: "run_keys db \<subseteq> run_keys db' \<Longrightarrow> has_run db c r \<Longrightarrow> has_run db' c r"
  unfolding has_run_def run_keys_def by blast

lemma timeline_check_mono:
  "run_keys db \<subseteq> run_keys db' \<Longrightarrow> timeline_check db r \<Longrightarrow> timeline_check db' r"
  unfolding timeline_check_def by (blast intro: has_run_mono)

lemma approval_check_mono:
  "run_keys db \<subseteq> run_keys db' \<Longrightarrow> approval_check db r \<Longrightarrow> approval_check db' r"
  unfolding approval_check_def by (elim conjE, intro conjI) (assumption | erule has_run_mono)+

lemma cursor_check_mono:
  "run_keys db \<subseteq> run_keys db' \<Longrightarrow> cursor_check db r \<Longrightarrow> cursor_check db' r"
  unfolding cursor_check_def by (blast intro: has_run_mono)

lemma artifact_check_mono:
  assumes "work_keys db \<subseteq> work_keys db'" and "run_keys db \<subseteq> run_keys db'"
    and "artifact_check db r"
  shows "artifact_check db' r"
proof -
  have "rr_id ` set (runs db) = snd ` run_keys db" "rr_id ` set (runs db') = snd ` run_keys db'"
    by (auto simp: run_keys_def image_image)
  with assms(2) have "rr_id ` set (runs db) \<subseteq> rr_id ` set (runs db')" by auto
  with assms(1,3) show ?thesis
    unfolding artifact_check_def work_keys_def by (auto split: option.splits)
qed

lemma insert_project_Ok:
  "insert_project r db = Ok db' \<longleftrightarrow>
     db' = db\<lparr>projects := projects db @ [r]\<rparr> \<and> project_check r \<and>
     prj_id r \<notin> prj_id ` set (projects db)"
  by (auto simp: insert_project_def map_ok_eq_Ok sql_insert_Ok project_clash_def notin_image)

lemma insert_work_item_Ok:
  "insert_work_item r db = Ok db' \<longleftrightarrow>
     db' = db\<lparr>work_items := work_items db @ [r]\<rparr> \<and> work_item_check db r \<and>
     wi_id r \<notin> wi_id ` set (work_items db)"
  by (auto simp: insert_work_item_def map_ok_eq_Ok sql_insert_Ok work_item_clash_def notin_image)

lemma insert_work_edge_Ok:
  "insert_work_edge r db = Ok db' \<longleftrightarrow>
     db' = db\<lparr>work_edges := work_edges db @ [r]\<rparr> \<and> work_edge_check db r \<and>
     we_child_id r \<notin> we_child_id ` set (work_edges db)"
  by (auto simp: insert_work_edge_def map_ok_eq_Ok sql_insert_Ok work_edge_clash_def notin_image)

lemma update_work_items_Ok:
  "update_work_items P f db = Ok (n, db') \<longleftrightarrow>
     n = count_where P (work_items db) \<and>
     db' = db\<lparr>work_items := update_where P f (work_items db)\<rparr> \<and>
     (\<forall>r\<in>set (work_items db). P r \<longrightarrow> work_item_check db (f r)) \<and>
     sorted_wrt (\<lambda>x y. \<not> work_item_clash x y) (update_where P f (work_items db))"
  by (auto simp: update_work_items_def map_ok_eq_Ok sql_update_Ok)

lemma insert_run_Ok:
  "insert_run r db = Ok db' \<longleftrightarrow>
     db' = db\<lparr>runs := runs db @ [r]\<rparr> \<and> run_check db r \<and> (\<forall>x\<in>set (runs db). \<not> run_clash x r)"
  by (auto simp: insert_run_def map_ok_eq_Ok sql_insert_Ok)

lemma update_runs_Ok:
  "update_runs P f db = Ok (n, db') \<longleftrightarrow>
     n = count_where P (runs db) \<and> db' = db\<lparr>runs := update_where P f (runs db)\<rparr> \<and>
     (\<forall>r\<in>set (runs db). P r \<longrightarrow> run_check db (f r)) \<and>
     sorted_wrt (\<lambda>x y. \<not> run_clash x y) (update_where P f (runs db))"
  by (auto simp: update_runs_def map_ok_eq_Ok sql_update_Ok)

lemma insert_approval_Ok:
  "insert_approval r db = Ok db' \<longleftrightarrow>
     db' = db\<lparr>approval_requests := approval_requests db @ [r]\<rparr> \<and> approval_check db r \<and>
     (\<forall>x\<in>set (approval_requests db). \<not> approval_clash x r)"
  by (auto simp: insert_approval_def map_ok_eq_Ok sql_insert_Ok)

lemma update_approvals_Ok:
  "update_approvals P f db = Ok (n, db') \<longleftrightarrow>
     n = count_where P (approval_requests db) \<and>
     db' = db\<lparr>approval_requests := update_where P f (approval_requests db)\<rparr> \<and>
     (\<forall>r\<in>set (approval_requests db). P r \<longrightarrow> approval_check db (f r)) \<and>
     sorted_wrt (\<lambda>x y. \<not> approval_clash x y) (update_where P f (approval_requests db))"
  by (auto simp: update_approvals_def map_ok_eq_Ok sql_update_Ok)

lemma insert_audit_Ok:
  "insert_audit r db = Ok db' \<longleftrightarrow>
     db' = db\<lparr>audit_events := audit_events db @ [r]\<rparr> \<and> (\<forall>x\<in>set (audit_events db). au_id x \<noteq> au_id r)"
  by (auto simp: insert_audit_def map_ok_eq_Ok sql_insert_Ok audit_clash_def)

lemma insert_timeline_item_Ok:
  "insert_timeline_item r db = Ok db' \<longleftrightarrow>
     db' = db\<lparr>timeline_items := timeline_items db @ [r]\<rparr> \<and> timeline_check db r \<and>
     (\<forall>x\<in>set (timeline_items db). \<not> timeline_clash x r)"
  by (auto simp: insert_timeline_item_def map_ok_eq_Ok sql_insert_Ok)

lemma insert_artifact_Ok:
  "insert_artifact r db = Ok db' \<longleftrightarrow>
     db' = db\<lparr>artifacts := artifacts db @ [r]\<rparr> \<and> artifact_check db r \<and>
     (\<forall>x\<in>set (artifacts db). \<not> artifact_clash x r)"
  by (auto simp: insert_artifact_def map_ok_eq_Ok sql_insert_Ok)

lemma sorted_wrt_snoc:
  "sorted_wrt R (xs @ [x]) \<longleftrightarrow> sorted_wrt R xs \<and> (\<forall>y\<in>set xs. R y x)"
  by (auto simp: sorted_wrt_append)

end
