(* ===== verification/Store_Rows.thy ===== *)
theory Store_Rows
  imports Schema
begin

text \<open>
  Reading and writing rows (\<^verbatim>\<open>sqlite.rs\<close>): the shape of a job on the database worker, the single-row
  and page queries, the validators shared by the operations, and the translations between columns and
  snapshots (\<open>*_from_row\<close>), errors included.
\<close>

section \<open>Jobs on the database worker\<close>

text \<open>
  The store runs every operation to the end on one thread before the next (\<open>run_worker\<close>), so an
  operation is a function of the database. A job that returns an error drops its transaction, which
  rolls back: \<open>transaction\<close> keeps the old database. A read is a query.
\<close>

type_synonym 'a job = "db \<Rightarrow> (store_error + 'a) \<times> db"

definition transaction :: "(db \<Rightarrow> store_error + ('a \<times> db)) \<Rightarrow> 'a job" where
  "transaction body db =
     (case body db of Inl e \<Rightarrow> (Err e, db) | Inr (a, db') \<Rightarrow> (Ok a, db'))"

definition read_only :: "(db \<Rightarrow> store_error + 'a) \<Rightarrow> 'a job" where
  "read_only q db = (q db, db)"

definition validated :: "store_error + unit \<Rightarrow> 'a job \<Rightarrow> 'a job" where
  "validated pre job db = (case pre of Inl e \<Rightarrow> (Err e, db) | Inr _ \<Rightarrow> job db)"

lemma transaction_Ok: "transaction body db = (Ok a, db') \<longleftrightarrow> body db = Ok (a, db')"
  by (auto simp: transaction_def split: sum.splits)

lemma transaction_Err:
  "transaction body db = (Err e, db') \<longleftrightarrow> body db = Err e \<and> db' = db"
  by (auto simp: transaction_def split: sum.splits)

lemma read_only_eq [simp]: "read_only q db = (r, db') \<longleftrightarrow> q db = r \<and> db' = db"
  by (auto simp: read_only_def)

lemma validated_Ok: "validated pre job db = (Ok a, db') \<longleftrightarrow> pre = Ok () \<and> job db = (Ok a, db')"
  by (auto simp: validated_def split: sum.splits)

lemma validated_Err:
  "validated pre job db = (Err e, db') \<longleftrightarrow>
     (pre = Err e \<and> db' = db) \<or> (pre = Ok () \<and> job db = (Err e, db'))"
  by (auto simp: validated_def split: sum.splits)

lemmas job_simps = transaction_Ok transaction_Err validated_Ok validated_Err

section \<open>Queries\<close>

definition query_optional ::
    "'z store_libs_scheme \<Rightarrow> ('r \<Rightarrow> sql_error + 'a) \<Rightarrow> ('r \<Rightarrow> bool) \<Rightarrow> 'r list \<Rightarrow>
     store_error + 'a option" where
  "query_optional L conv P rows =
     (case List.find P rows of
        None \<Rightarrow> Ok None
      | Some r \<Rightarrow> sql L (map_ok Some (conv r)))"

definition query_row ::
    "'z store_libs_scheme \<Rightarrow> ('r \<Rightarrow> sql_error + 'a) \<Rightarrow> ('r \<Rightarrow> bool) \<Rightarrow> 'r list \<Rightarrow>
     store_error + 'a" where
  "query_row L conv P rows =
     (case List.find P rows of
        None \<Rightarrow> sql L (Err QueryReturnedNoRows)
      | Some r \<Rightarrow> sql L (conv r))"

lemma query_optional_Some:
  "query_optional L conv P rows = Ok (Some a) \<longleftrightarrow>
     (\<exists>r. List.find P rows = Some r \<and> conv r = Ok a)"
  by (auto simp: query_optional_def map_ok_eq_Ok split: option.splits)

lemma query_optional_None:
  "query_optional L conv P rows = Ok None \<longleftrightarrow> List.find P rows = None"
  by (auto simp: query_optional_def map_ok_eq_Ok split: option.splits)

lemma query_row_Ok:
  "query_row L conv P rows = Ok a \<longleftrightarrow> (\<exists>r. List.find P rows = Some r \<and> conv r = Ok a)"
  by (auto simp: query_row_def split: option.splits)

text \<open>
  \<open>SELECT ... WHERE P AND (after IS NULL OR key > after) ORDER BY key LIMIT limit + 1\<close>, converted
  row by row; a full extra row means there is a next page.
\<close>

definition after_key :: "'k::linorder option \<Rightarrow> 'k \<Rightarrow> bool" where
  "after_key after k = (case after of None \<Rightarrow> True | Some a \<Rightarrow> a < k)"

definition select_page ::
    "('r \<Rightarrow> 'k::linorder) \<Rightarrow> ('r \<Rightarrow> bool) \<Rightarrow> 'k option \<Rightarrow> nat \<Rightarrow> 'r list \<Rightarrow> 'r list" where
  "select_page key P after n rows =
     take n (sort_key key (filter (\<lambda>r. P r \<and> after_key after (key r)) rows))"

definition list_page ::
    "'z store_libs_scheme \<Rightarrow> ('r \<Rightarrow> 'k::linorder) \<Rightarrow> ('r \<Rightarrow> sql_error + 'a) \<Rightarrow> ('a \<Rightarrow> 'c) \<Rightarrow>
     ('r \<Rightarrow> bool) \<Rightarrow> 'k option \<Rightarrow> nat \<Rightarrow> 'r list \<Rightarrow> store_error + ('c, 'a) page" where
  "list_page L key conv cursor P after limit rows =
     and_then (sql L (collect_results conv (select_page key P after (limit + 1) rows))) (\<lambda>items.
       let has_more = limit < length items; kept = take limit items in
       Ok \<lparr>pg_items = kept,
           pg_next_after = (if has_more \<and> kept \<noteq> [] then Some (cursor (last kept)) else None)\<rparr>)"

section \<open>Validators\<close>

definition MAX_PAGE_SIZE :: u32 where
  "MAX_PAGE_SIZE = 200"

definition validate_text :: "string \<Rightarrow> string \<Rightarrow> store_error + unit" where
  "validate_text field v =
     (if trim_is_empty v then Err (Conflict (field @ '' cannot be empty'')) else Ok ())"

definition validate_app_id :: "string \<Rightarrow> bool \<Rightarrow> store_error + unit" where
  "validate_app_id field v7 =
     (if v7 then Ok () else Err (Conflict (field @ '' must be a UUIDv7'')))"

definition validate_page_size :: "u32 \<Rightarrow> store_error + nat" where
  "validate_page_size limit =
     (if 1 \<le> limit \<and> limit \<le> MAX_PAGE_SIZE then Ok (unat limit)
      else Err (Conflict (''page size must be between 1 and '' @ decimal (uint MAX_PAGE_SIZE))))"

lemma validate_text_Ok [simp]: "validate_text field v = Ok u \<longleftrightarrow> \<not> trim_is_empty v"
  by (simp add: validate_text_def)

lemma validate_app_id_Ok [simp]: "validate_app_id field b = Ok u \<longleftrightarrow> b"
  by (simp add: validate_app_id_def)

lemma validate_page_size_Ok:
  "validate_page_size limit = Ok n \<longleftrightarrow> n = unat limit \<and> 1 \<le> n \<and> n \<le> 200"
proof -
  have "1 \<le> limit \<and> limit \<le> 200 \<longleftrightarrow> 1 \<le> unat limit \<and> unat limit \<le> 200"
    by (simp add: word_le_nat_alt)
  then show ?thesis by (auto simp: validate_page_size_def MAX_PAGE_SIZE_def)
qed

section \<open>Columns and snapshots\<close>

definition conversion_failure :: "nat \<Rightarrow> validation_error + 'a \<Rightarrow> sql_error + 'a" where
  "conversion_failure column r =
     map_err (\<lambda>e. FromSqlConversionFailure column (validation_message e)) r"

definition u64_column :: "nat \<Rightarrow> int \<Rightarrow> sql_error + u64" where
  "u64_column column i =
     (case u64_of_i64 i of
        Some w \<Rightarrow> Ok w
      | None \<Rightarrow> Err (FromSqlConversionFailure column ''out of range integral type conversion attempted''))"

definition provider_id ::
    "string option \<Rightarrow> string option \<Rightarrow> sql_error + namespaced_provider_id option" where
  "provider_id namespace v =
     (case (namespace, v) of
        (None, None) \<Rightarrow> Ok None
      | (Some ns, Some x) \<Rightarrow> conversion_failure 0 (map_ok Some (namespaced_provider_id_new ns x))
      | _ \<Rightarrow> Err InvalidQuery)"

definition provider_run_identity_column ::
    "string option \<Rightarrow> string option \<Rightarrow> string option \<Rightarrow> string option \<Rightarrow>
     sql_error + provider_run_identity option" where
  "provider_run_identity_column namespace runtime_id session_id rid =
     (case (namespace, runtime_id, session_id, rid) of
        (None, None, None, None) \<Rightarrow> Ok None
      | (Some ns, Some rt, Some se, Some r) \<Rightarrow>
          conversion_failure 0 (map_ok Some (provider_run_identity_new ns rt se r))
      | _ \<Rightarrow> Err InvalidQuery)"

fun artifact_kind_value :: "artifact_kind \<Rightarrow> string" where
  "artifact_kind_value Plan = ''plan''"
| "artifact_kind_value Diff = ''diff''"
| "artifact_kind_value File = ''file''"
| "artifact_kind_value Image = ''image''"
| "artifact_kind_value CommandLog = ''command_log''"
| "artifact_kind_value BrowserCapture = ''browser_capture''"
| "artifact_kind_value ProviderPayload = ''provider_payload''"

definition artifact_kind_from_value :: "string \<Rightarrow> sql_error + artifact_kind" where
  "artifact_kind_from_value v =
     (if v = ''plan'' then Ok Plan
      else if v = ''diff'' then Ok Diff
      else if v = ''file'' then Ok File
      else if v = ''image'' then Ok Image
      else if v = ''command_log'' then Ok CommandLog
      else if v = ''browser_capture'' then Ok BrowserCapture
      else if v = ''provider_payload'' then Ok ProviderPayload
      else Err InvalidQuery)"

definition artifact_from_row :: "artifact_row \<Rightarrow> sql_error + artifact_record" where
  "artifact_from_row r =
     and_then (artifact_kind_from_value (af_kind r)) (\<lambda>k.
     and_then (conversion_failure 4 (content_digest_new (af_digest r))) (\<lambda>d.
     and_then (u64_column 5 (af_byte_len r)) (\<lambda>n.
     and_then (conversion_failure 7 (artifact_provenance_new (af_provenance r))) (\<lambda>p.
     Ok \<lparr>art_id = af_id r, art_work_item_id = af_work_item_id r, art_run_id = af_run_id r,
         art_kind = k, art_digest = d, art_byte_len = n, art_media_type = af_media_type r,
         art_provenance = p\<rparr>))))"

definition work_item_status_from_value :: "string \<Rightarrow> sql_error + work_item_status" where
  "work_item_status_from_value v =
     (if v = ''ready'' then Ok Ready
      else if v = ''archived'' then Ok Archived
      else Err InvalidQuery)"

text \<open>The subselect of \<open>WORK_ITEM_SELECT\<close>: the parent recorded in \<open>work_edges\<close>.\<close>

definition parent_of :: "work_edge_row list \<Rightarrow> work_item_id \<Rightarrow> work_item_id option" where
  "parent_of edges i = map_option we_parent_id (List.find (\<lambda>e. we_child_id e = i) edges)"

definition work_item_from_row :: "work_edge_row list \<Rightarrow> work_item_row \<Rightarrow> sql_error + work_item_snapshot" where
  "work_item_from_row edges r =
     and_then (work_item_status_from_value (wi_status r)) (\<lambda>st.
     and_then (u64_column 5 (wi_revision r)) (\<lambda>rev.
     Ok \<lparr>ws_id = wi_id r, ws_project_id = wi_project_id r, ws_title = wi_title r,
         ws_status = st, ws_parent_id = parent_of edges (wi_id r), ws_revision = rev,
         ws_created_at = wi_created_at_ms r, ws_updated_at = wi_updated_at_ms r\<rparr>))"

fun decision_value :: "approval_decision \<Rightarrow> string" where
  "decision_value Approved = ''approved''"
| "decision_value Denied = ''denied''"

definition decision_from_value :: "string \<Rightarrow> sql_error + approval_decision" where
  "decision_from_value v =
     (if v = ''approved'' then Ok Approved
      else if v = ''denied'' then Ok Denied
      else Err InvalidQuery)"

definition project_from_row :: "project_row \<Rightarrow> sql_error + project_snapshot" where
  "project_from_row r =
     Ok \<lparr>ps_id = prj_id r, ps_name = prj_name r, ps_created_at = prj_created_at_ms r\<rparr>"

fun run_status_value :: "run_status \<Rightarrow> string" where
  "run_status_value Starting = ''starting''"
| "run_status_value Running = ''running''"
| "run_status_value Completed = ''completed''"
| "run_status_value Failed = ''failed''"
| "run_status_value Interrupted = ''interrupted''"
| "run_status_value Disconnected = ''disconnected''"
| "run_status_value OutcomeUnknown = ''outcome_unknown''"

definition run_status_from_value :: "string \<Rightarrow> sql_error + run_status" where
  "run_status_from_value v =
     (if v = ''starting'' then Ok Starting
      else if v = ''running'' then Ok Running
      else if v = ''completed'' then Ok Completed
      else if v = ''failed'' then Ok Failed
      else if v = ''interrupted'' then Ok Interrupted
      else if v = ''disconnected'' then Ok Disconnected
      else if v = ''outcome_unknown'' then Ok OutcomeUnknown
      else Err InvalidQuery)"

definition run_from_row :: "run_row \<Rightarrow> sql_error + run_snapshot" where
  "run_from_row r =
     and_then (run_status_from_value (rr_status r)) (\<lambda>st.
     and_then (provider_run_identity_column (rr_provider_namespace r) (rr_provider_runtime_id r)
                 (rr_provider_session_id r) (rr_provider_run_id r)) (\<lambda>p.
     Ok \<lparr>rs_id = rr_id r, rs_connection_id = rr_connection_id r,
         rs_work_item_id = rr_work_item_id r, rs_status = st, rs_provider_id = p,
         rs_created_at = rr_created_at_ms r, rs_ended_at = rr_ended_at_ms r\<rparr>))"

definition timeline_item_from_row :: "timeline_row \<Rightarrow> sql_error + timeline_item_snapshot" where
  "timeline_item_from_row r =
     and_then (u64_column 3 (tl_revision r)) (\<lambda>rev.
     and_then (provider_id (tl_provider_namespace r) (tl_provider_item_id r)) (\<lambda>p.
     Ok \<lparr>ts_id = tl_id r, ts_connection_id = tl_connection_id r, ts_run_id = tl_run_id r,
         ts_revision = rev, ts_kind = tl_kind r, ts_body = tl_body r, ts_provider_id = p,
         ts_created_at = tl_created_at_ms r\<rparr>))"

definition approval_status_from_columns ::
    "string \<Rightarrow> approval_decision option \<Rightarrow> sql_error + approval_status" where
  "approval_status_from_columns st d =
     (if st = ''pending'' \<and> d = None then Ok Pending
      else if st = ''responding'' \<and> d \<noteq> None then Ok (Responding (the d))
      else if st = ''resolved'' \<and> d \<noteq> None then Ok (Resolved (the d))
      else if st = ''voided'' then Ok (Voided d)
      else Err InvalidQuery)"

definition approval_from_row :: "approval_row \<Rightarrow> sql_error + approval_snapshot" where
  "approval_from_row r =
     and_then (case ap_decision r of
                 None \<Rightarrow> Ok None
               | Some v \<Rightarrow> map_ok Some (decision_from_value v)) (\<lambda>d.
     and_then (approval_status_from_columns (ap_status r) d) (\<lambda>st.
     and_then (conversion_failure 3
                 (namespaced_provider_id_new (ap_provider_namespace r) (ap_provider_approval_id r))) (\<lambda>p.
     Ok \<lparr>as_id = ap_id r, as_connection_id = ap_connection_id r, as_run_id = ap_run_id r,
         as_provider_id = p, as_kind = ap_kind r, as_summary = ap_summary r, as_status = st,
         as_requested_at = ap_requested_at_ms r,
         as_response_started_at = ap_response_started_at_ms r,
         as_resolved_at = ap_resolved_at_ms r, as_voided_at = ap_voided_at_ms r\<rparr>)))"

section \<open>Round trips\<close>

lemma run_status_value_from [simp]: "run_status_from_value (run_status_value s) = Ok s"
  by (cases s) (simp_all add: run_status_from_value_def)

lemma run_status_from_value_Ok: "run_status_from_value v = Ok s \<longleftrightarrow> v = run_status_value s"
  by (cases s) (auto simp: run_status_from_value_def)

lemma run_status_value_inj [simp]: "run_status_value a = run_status_value b \<longleftrightarrow> a = b"
  by (cases a; cases b) simp_all

lemma artifact_kind_value_from [simp]: "artifact_kind_from_value (artifact_kind_value k) = Ok k"
  by (cases k) (simp_all add: artifact_kind_from_value_def)

lemma decision_value_from [simp]: "decision_from_value (decision_value d) = Ok d"
  by (cases d) (simp_all add: decision_from_value_def)

lemma u64_column_Ok: "u64_column c i = Ok w \<longleftrightarrow> u64_of_i64 i = Some w"
  by (auto simp: u64_column_def split: option.splits)

end
