(* ===== verification/Store_Work.thy ===== *)
theory Store_Work
  imports Store_Rows "HOL-Library.Multiset"
begin

text \<open>
  Projects and the work graph (\<^verbatim>\<open>sqlite.rs\<close>): \<open>create_project\<close>, \<open>create_work_item\<close>,
  \<open>get_work_item\<close>, \<open>archive_work_subtree\<close>, the list operations on both tables and
  \<open>bump_work_item_revision\<close>, which every later component calls. The invariant \<open>work_inv\<close> says that
  the work graph is an acyclic forest inside one project each, closed under archiving; the recursive
  query of \<open>archive_work_subtree\<close> terminates because of it.
\<close>

section \<open>Operations\<close>

definition find_project ::
    "'z store_libs_scheme \<Rightarrow> project_id \<Rightarrow> db \<Rightarrow> store_error + project_snapshot option" where
  "find_project L i db = query_optional L project_from_row (\<lambda>r. prj_id r = i) (projects db)"

definition create_project ::
    "'z store_libs_scheme \<Rightarrow> utc_timestamp \<Rightarrow> create_project_cmd \<Rightarrow> project_snapshot job" where
  "create_project L now c =
     validated
       (and_then (validate_app_id ''project id'' (is_v7 L (cp_id c))) (\<lambda>_.
          validate_text ''project name'' (cp_name c)))
     (transaction (\<lambda>db.
       and_then (find_project L (cp_id c) db) (\<lambda>existing.
       case existing of
         Some e \<Rightarrow>
           if ps_name e = cp_name c then Ok (e, db)
           else Err (Conflict (''project id already exists with different content: '' @
                               id_text L (cp_id c)))
       | None \<Rightarrow>
           and_then (sql L (insert_project
             \<lparr>prj_id = cp_id c, prj_name = cp_name c, prj_created_at_ms = now\<rparr> db)) (\<lambda>db'.
           Ok (\<lparr>ps_id = cp_id c, ps_name = cp_name c, ps_created_at = now\<rparr>, db')))))"

definition list_projects ::
    "'z store_libs_scheme \<Rightarrow> project_id option \<Rightarrow> u32 \<Rightarrow> project_page job" where
  "list_projects L after limit =
     read_only (\<lambda>db. and_then (validate_page_size limit) (\<lambda>n.
       list_page L prj_id project_from_row ps_id (\<lambda>_. True) after n (projects db)))"

definition find_work_item ::
    "'z store_libs_scheme \<Rightarrow> work_item_id \<Rightarrow> db \<Rightarrow> store_error + work_item_snapshot option" where
  "find_work_item L i db =
     query_optional L (work_item_from_row (work_edges db)) (\<lambda>r. wi_id r = i) (work_items db)"

definition check_parent ::
    "'z store_libs_scheme \<Rightarrow> create_work_item_cmd \<Rightarrow> db \<Rightarrow> store_error + unit" where
  "check_parent L c db =
     (case cw_parent_id c of
        None \<Rightarrow> Ok ()
      | Some p \<Rightarrow>
         (case List.find (\<lambda>r. wi_id r = p) (work_items db) of
            None \<Rightarrow> Err (NotFound ''parent work item'' (id_text L p))
          | Some r \<Rightarrow>
              if wi_project_id r \<noteq> cw_project_id c
              then Err (Conflict ''parent and child must belong to the same project'')
              else if wi_status r = ''archived''
              then Err (Conflict ''cannot attach an active work item to an archived parent'')
              else Ok ()))"

definition new_work_item_row :: "utc_timestamp \<Rightarrow> create_work_item_cmd \<Rightarrow> work_item_row" where
  "new_work_item_row now c =
     \<lparr>wi_id = cw_id c, wi_project_id = cw_project_id c, wi_title = cw_title c,
      wi_status = ''ready'', wi_revision = 1, wi_created_at_ms = now, wi_updated_at_ms = now,
      wi_archived_at_ms = None\<rparr>"

definition insert_parent_edge ::
    "'z store_libs_scheme \<Rightarrow> create_work_item_cmd \<Rightarrow> db \<Rightarrow> store_error + db" where
  "insert_parent_edge L c db =
     (case cw_parent_id c of
        None \<Rightarrow> Ok db
      | Some p \<Rightarrow> sql L (insert_work_edge
          \<lparr>we_parent_id = p, we_child_id = cw_id c, we_kind = ''parent''\<rparr> db))"

definition create_work_item ::
    "'z store_libs_scheme \<Rightarrow> utc_timestamp \<Rightarrow> create_work_item_cmd \<Rightarrow> work_item_snapshot job" where
  "create_work_item L now c =
     validated
       (and_then (validate_app_id ''work item id'' (is_v7 L (cw_id c))) (\<lambda>_.
          validate_text ''work item title'' (cw_title c)))
     (transaction (\<lambda>db.
       and_then (find_work_item L (cw_id c) db) (\<lambda>existing.
       case existing of
         Some e \<Rightarrow>
           if ws_project_id e = cw_project_id c \<and> ws_title e = cw_title c \<and>
              ws_parent_id e = cw_parent_id c
           then Ok (e, db)
           else Err (Conflict (''work item id already exists with different content: '' @
                               id_text L (cw_id c)))
       | None \<Rightarrow>
           and_then (find_project L (cw_project_id c) db) (\<lambda>project.
           and_then (ensure (project \<noteq> None)
                      (NotFound ''project'' (id_text L (cw_project_id c)))) (\<lambda>_.
           and_then (check_parent L c db) (\<lambda>_.
           and_then (sql L (insert_work_item (new_work_item_row now c) db)) (\<lambda>db1.
           and_then (insert_parent_edge L c db1) (\<lambda>db2.
           Ok (\<lparr>ws_id = cw_id c, ws_project_id = cw_project_id c, ws_title = cw_title c,
                ws_status = Ready, ws_parent_id = cw_parent_id c, ws_revision = 1,
                ws_created_at = now, ws_updated_at = now\<rparr>, db2))))))))) "

definition get_work_item ::
    "'z store_libs_scheme \<Rightarrow> work_item_id \<Rightarrow> work_item_snapshot job" where
  "get_work_item L i =
     read_only (\<lambda>db. and_then (find_work_item L i db) (\<lambda>w.
       case w of
         Some s \<Rightarrow> Ok s
       | None \<Rightarrow> Err (NotFound ''work item'' (id_text L i))))"

definition list_work_items ::
    "'z store_libs_scheme \<Rightarrow> list_work_items_query \<Rightarrow> work_item_page job" where
  "list_work_items L q =
     read_only (\<lambda>db. and_then (validate_page_size (lw_limit q)) (\<lambda>n.
       list_page L wi_id (work_item_from_row (work_edges db)) ws_id
         (\<lambda>r. wi_project_id r = lw_project_id q \<and>
              (lw_include_archived q \<or> wi_status r \<noteq> ''archived''))
         (lw_after q) n (work_items db)))"

text \<open>
  The recursive query of \<open>archive_work_subtree\<close>: SQLite takes a row off the queue, emits it, and
  appends the rows the recursive part derives from it. \<open>UNION ALL\<close> does not remove duplicates, so on
  a cyclic graph the query runs forever: the value \<open>None\<close>.
\<close>

definition children :: "work_edge_row list \<Rightarrow> work_item_id \<Rightarrow> work_item_id list" where
  "children edges i = map we_child_id (filter (\<lambda>e. we_parent_id e = i) edges)"

partial_function (option) cte_subtree ::
    "work_edge_row list \<Rightarrow> work_item_id list \<Rightarrow> work_item_id list \<Rightarrow> work_item_id list option" where
  "cte_subtree edges queue emitted =
     (case queue of
        [] \<Rightarrow> Some (rev emitted)
      | i # rest \<Rightarrow> cte_subtree edges (rest @ children edges i) (i # emitted))"

definition archive_row :: "utc_timestamp \<Rightarrow> work_item_row \<Rightarrow> work_item_row" where
  "archive_row now r =
     r\<lparr>wi_status := ''archived'', wi_revision := wi_revision r + 1,
       wi_archived_at_ms := Some now, wi_updated_at_ms := now\<rparr>"

definition archive_work_subtree ::
    "'z store_libs_scheme \<Rightarrow> utc_timestamp \<Rightarrow> work_item_id \<Rightarrow> db \<Rightarrow>
     ((store_error + u64) \<times> db) option" where
  "archive_work_subtree L now root db =
     (case List.find (\<lambda>r. wi_id r = root) (work_items db) of
        None \<Rightarrow> Some (Err (NotFound ''work item'' (id_text L root)), db)
      | Some _ \<Rightarrow>
          map_option (\<lambda>subtree.
            transaction (\<lambda>db.
              and_then (sql L (update_work_items
                (\<lambda>r. wi_id r \<in> set subtree \<and> wi_status r \<noteq> ''archived'') (archive_row now) db))
              (\<lambda>(changed, db'). Ok (of_nat changed, db'))) db)
          (cte_subtree (work_edges db) [root] []))"

definition bump_work_item_revision ::
    "'z store_libs_scheme \<Rightarrow> work_item_id \<Rightarrow> int \<Rightarrow> db \<Rightarrow> store_error + db" where
  "bump_work_item_revision L i occurred_at_ms db =
     and_then (sql L (update_work_items (\<lambda>r. wi_id r = i)
       (\<lambda>r. r\<lparr>wi_revision := wi_revision r + 1, wi_updated_at_ms := occurred_at_ms\<rparr>) db))
     (\<lambda>(changed, db').
       if changed = 0 then Err (NotFound ''work item'' (id_text L i)) else Ok db')"

section \<open>The invariant of the work graph\<close>

definition edge_rel :: "work_edge_row list \<Rightarrow> (work_item_id \<times> work_item_id) set" where
  "edge_rel edges = (\<lambda>e. (we_parent_id e, we_child_id e)) ` set edges"

definition edge_closed :: "work_item_row list \<Rightarrow> work_edge_row \<Rightarrow> bool" where
  "edge_closed items e \<longleftrightarrow>
     (\<forall>p\<in>set items. \<forall>c\<in>set items. wi_id p = we_parent_id e \<longrightarrow> wi_id c = we_child_id e \<longrightarrow>
        wi_project_id p = wi_project_id c \<and>
        (wi_status p = ''archived'' \<longrightarrow> wi_status c = ''archived''))"

definition work_inv :: "db \<Rightarrow> bool" where
  "work_inv db \<longleftrightarrow>
     distinct (map prj_id (projects db)) \<and> distinct (map wi_id (work_items db)) \<and>
     distinct (map we_child_id (work_edges db)) \<and>
     (\<forall>r\<in>set (projects db). project_check r) \<and>
     (\<forall>r\<in>set (work_items db). work_item_check db r) \<and>
     (\<forall>e\<in>set (work_edges db). work_edge_check db e) \<and>
     acyclic (edge_rel (work_edges db)) \<and>
     (\<forall>e\<in>set (work_edges db). edge_closed (work_items db) e)"

text \<open>The invariant, and that of a component below, reads only some tables.\<close>

lemma work_inv_frame:
  assumes "projects db' = projects db" "work_items db' = work_items db" "work_edges db' = work_edges db"
  shows "work_inv db' = work_inv db"
  using assms by (simp add: work_inv_def work_item_check_def work_edge_check_def)

lemma work_inv_empty: "work_inv empty_db"
  by (simp add: work_inv_def empty_db_def edge_rel_def acyclic_def)


section \<open>Preservation\<close>

lemma work_inv_insert_project:
  assumes inv: "work_inv db" and ins: "insert_project r db = Ok db'"
  shows "work_inv db'"
proof -
  have db': "db' = db\<lparr>projects := projects db @ [r]\<rparr>"
    and r: "project_check r" "prj_id r \<notin> prj_id ` set (projects db)"
    using ins by (simp_all add: insert_project_Ok)
  have "project_keys db \<subseteq> project_keys db'" by (auto simp: db' project_keys_def)
  then have "\<forall>x\<in>set (work_items db). work_item_check db' x"
    using inv by (auto simp: work_inv_def intro: work_item_check_mono)
  moreover have "\<forall>x\<in>set (work_edges db). work_edge_check db' x"
    using inv by (simp add: work_inv_def db' work_edge_check_def)
  ultimately show ?thesis using inv r by (simp add: work_inv_def db')
qed

lemma work_inv_insert_item:
  assumes inv: "work_inv db" and ins: "insert_work_item r db = Ok db'"
  shows "work_inv db'"
proof -
  have db': "db' = db\<lparr>work_items := work_items db @ [r]\<rparr>"
    and r: "work_item_check db r" "wi_id r \<notin> wi_id ` set (work_items db)"
    using ins by (simp_all add: insert_work_item_Ok)
  have item: "work_item_check db' x = work_item_check db x" for x
    by (simp add: db' work_item_check_def)
  have "work_keys db \<subseteq> work_keys db'" by (auto simp: db' work_keys_def)
  then have edges: "\<forall>x\<in>set (work_edges db). work_edge_check db' x"
    using inv by (auto simp: work_inv_def intro: work_edge_check_mono)
  have "edge_closed (work_items db @ [r]) e" if e: "e \<in> set (work_edges db)" for e
  proof -
    have "edge_closed (work_items db) e" "wi_id r \<noteq> we_parent_id e" "wi_id r \<noteq> we_child_id e"
      using inv e r(2) by (auto simp: work_inv_def work_edge_check_def)
    then show ?thesis by (simp add: edge_closed_def)
  qed
  with inv r item edges show ?thesis by (simp add: work_inv_def db')
qed

lemma acyclic_insert_fresh:
  assumes "acyclic R" and "c \<notin> Domain R" and "c \<noteq> p"
  shows "acyclic (insert (p, c) R)"
proof -
  have "(c, p) \<notin> R\<^sup>*"
    using assms(2,3) by (auto elim: converse_rtranclE)
  with assms(1) show ?thesis by (simp add: acyclic_insert)
qed

lemma work_inv_insert_edge:
  assumes inv: "work_inv db" and ins: "insert_work_edge e db = Ok db'"
    and leaf: "\<forall>x\<in>set (work_edges db). we_parent_id x \<noteq> we_child_id e"
    and closed: "edge_closed (work_items db) e"
  shows "work_inv db'"
proof -
  have db': "db' = db\<lparr>work_edges := work_edges db @ [e]\<rparr>"
    and check: "work_edge_check db e"
    and fresh: "we_child_id e \<notin> we_child_id ` set (work_edges db)"
    using ins by (auto simp: insert_work_edge_Ok)
  have "we_child_id e \<notin> Domain (edge_rel (work_edges db))"
    using leaf by (auto simp: edge_rel_def Domain_iff)
  moreover have "acyclic (edge_rel (work_edges db))"
    using inv by (simp add: work_inv_def)
  ultimately have "acyclic (insert (we_parent_id e, we_child_id e) (edge_rel (work_edges db)))"
    using check by (intro acyclic_insert_fresh) (auto simp: work_edge_check_def)
  then have "acyclic (edge_rel (work_edges db @ [e]))"
    by (simp add: edge_rel_def)
  moreover have "work_item_check db' x = work_item_check db x"
    and "work_edge_check db' y = work_edge_check db y" for x y
    by (simp_all add: db' work_item_check_def work_edge_check_def)
  ultimately show ?thesis using inv check fresh closed by (simp add: work_inv_def db')
qed

lemma work_inv_create_project:
  assumes "work_inv db" and "create_project L now c db = (Ok s, db')"
  shows "work_inv db'"
  using assms
  by (auto simp: create_project_def job_simps result_simps split: option.splits if_splits
      intro: work_inv_insert_project)

text \<open>A successful creation either replays an existing item or takes these steps.\<close>

lemma create_work_item_Ok:
  assumes "create_work_item L now c db = (Ok s, db')"
  shows "(find_work_item L (cw_id c) db = Ok (Some s) \<and> db' = db \<and> ws_project_id s = cw_project_id c \<and>
            ws_title s = cw_title c \<and> ws_parent_id s = cw_parent_id c) \<or>
         (\<exists>db1. find_work_item L (cw_id c) db = Ok None \<and> check_parent L c db = Ok () \<and>
            insert_work_item (new_work_item_row now c) db = Ok db1 \<and>
            insert_parent_edge L c db1 = Ok db' \<and>
            s = \<lparr>ws_id = cw_id c, ws_project_id = cw_project_id c, ws_title = cw_title c,
                 ws_status = Ready, ws_parent_id = cw_parent_id c, ws_revision = 1,
                 ws_created_at = now, ws_updated_at = now\<rparr>)"
  using assms
  by (auto simp: create_work_item_def job_simps result_simps split: option.splits if_splits)

lemma check_parent_Ok:
  assumes "check_parent L c db = Ok ()" and "cw_parent_id c = Some p"
  obtains r where "r \<in> set (work_items db)" "wi_id r = p" "wi_project_id r = cw_project_id c"
    "wi_status r \<noteq> ''archived''"
  using assms by (auto simp: check_parent_def split: option.splits if_splits dest: find_Some_iff')

lemma work_inv_create_work_item:
  assumes inv: "work_inv db" and run: "create_work_item L now c db = (Ok s, db')"
  shows "work_inv db'"
  using create_work_item_Ok [OF run]
proof (elim disjE exE conjE)
  assume "db' = db" with inv show ?thesis by simp
next
  fix db1
  assume par: "check_parent L c db = Ok ()"
    and ins: "insert_work_item (new_work_item_row now c) db = Ok db1"
    and edge: "insert_parent_edge L c db1 = Ok db'"
  have inv1: "work_inv db1" using work_inv_insert_item [OF inv ins] .
  have db1: "db1 = db\<lparr>work_items := work_items db @ [new_work_item_row now c]\<rparr>"
    and fresh: "cw_id c \<notin> wi_id ` set (work_items db)"
    using ins by (auto simp: insert_work_item_Ok new_work_item_row_def)
  show ?thesis
  proof (cases "cw_parent_id c")
    case None
    with edge inv1 show ?thesis by (simp add: insert_parent_edge_def)
  next
    case (Some p)
    let ?e = "\<lparr>we_parent_id = p, we_child_id = cw_id c, we_kind = ''parent''\<rparr>"
    from par Some obtain r where r: "r \<in> set (work_items db)" "wi_id r = p"
        "wi_project_id r = cw_project_id c" "wi_status r \<noteq> ''archived''"
      by (rule check_parent_Ok)
    have "we_parent_id x \<noteq> cw_id c" if "x \<in> set (work_edges db)" for x
    proof -
      have "we_parent_id x \<in> wi_id ` set (work_items db)"
        using inv that by (simp add: work_inv_def work_edge_check_def)
      with fresh show ?thesis by metis
    qed
    then have leaf: "\<forall>x\<in>set (work_edges db1). we_parent_id x \<noteq> we_child_id ?e"
      by (simp add: db1)
    have closed: "edge_closed (work_items db1) ?e"
      unfolding edge_closed_def
    proof (intro ballI impI)
      fix a b
      assume a: "a \<in> set (work_items db1)" "wi_id a = we_parent_id ?e"
        and b: "b \<in> set (work_items db1)" "wi_id b = we_child_id ?e"
      have "a \<in> set (work_items db)" using a r fresh by (auto simp: db1 new_work_item_row_def notin_image)
      then have "a = r"
        using inv a(2) r(1,2) by (intro distinct_map_inj [where k = wi_id]) (auto simp: work_inv_def)
      moreover have "b = new_work_item_row now c"
        using b fresh by (auto simp: db1 notin_image)
      ultimately show "wi_project_id a = wi_project_id b \<and>
          (wi_status a = ''archived'' \<longrightarrow> wi_status b = ''archived'')"
        using r by (simp add: new_work_item_row_def)
    qed
    have "insert_work_edge ?e db1 = Ok db'"
      using edge Some by (simp add: insert_parent_edge_def)
    with inv1 show ?thesis by (rule work_inv_insert_edge [OF _ _ leaf closed])
  qed
qed


section \<open>The recursive query\<close>

lemma set_children: "set (children edges i) = edge_rel edges `` {i}"
  by (auto simp: children_def edge_rel_def)

lemma cte_step_smaller:
  "(mset (rest @ children edges i), mset (i # rest)) \<in> mult ((edge_rel edges)\<inverse>)"
proof -
  have "(mset rest + mset (children edges i), mset rest + {#i#}) \<in> mult ((edge_rel edges)\<inverse>)"
    by (rule one_step_implies_mult) (auto simp: set_children)
  then show ?thesis by simp
qed

lemma rtrancl_children:
  "R\<^sup>* `` insert i Q = insert i (R\<^sup>* `` (Q \<union> R `` {i}))"
  by (auto simp: Image_iff intro: converse_rtrancl_into_rtrancl elim: converse_rtranclE)

text \<open>On an acyclic graph the query ends and returns the rows reachable from the queue.\<close>

lemma cte_subtree_reaches:
  assumes "acyclic (edge_rel edges)"
  shows "\<exists>r. cte_subtree edges queue emitted = Some r \<and>
             set r = set emitted \<union> (edge_rel edges)\<^sup>* `` set queue"
proof -
  have "finite (edge_rel edges)" by (simp add: edge_rel_def)
  with assms have "wf (mult ((edge_rel edges)\<inverse>))"
    by (intro wf_mult finite_acyclic_wf_converse)
  then show ?thesis
  proof (induction "mset queue" arbitrary: queue emitted rule: wf_induct_rule)
    case less
    show ?case
    proof (cases queue)
      case Nil
      then show ?thesis by (simp add: cte_subtree.simps)
    next
      case (Cons i rest)
      have "\<exists>r. cte_subtree edges (rest @ children edges i) (i # emitted) = Some r \<and>
              set r = set (i # emitted) \<union> (edge_rel edges)\<^sup>* `` set (rest @ children edges i)"
        by (rule less.hyps) (simp add: Cons cte_step_smaller del: mset_append mset.simps)
      then show ?thesis
        by (auto simp: Cons cte_subtree.simps [of edges "i # rest"] set_children rtrancl_children)
    qed
  qed
qed

section \<open>Archiving and revision bumps\<close>

lemma work_inv_update_items:
  assumes inv: "work_inv db" and upd: "update_work_items P f db = Ok (n, db')"
    and keeps: "\<And>r. wi_id (f r) = wi_id r" "\<And>r. wi_project_id (f r) = wi_project_id r"
    and closed: "\<And>e. e \<in> set (work_edges db) \<Longrightarrow> edge_closed (work_items db') e"
  shows "work_inv db'"
proof -
  have db': "db' = db\<lparr>work_items := update_where P f (work_items db)\<rparr>"
    and check: "\<forall>r\<in>set (work_items db). P r \<longrightarrow> work_item_check db (f r)"
    using upd by (simp_all add: update_work_items_Ok)
  have ids: "map wi_id (work_items db') = map wi_id (work_items db)"
    using keeps by (simp add: db' map_update_where)
  then have "wi_id ` set (work_items db') = wi_id ` set (work_items db)"
    by (metis list.set_map)
  then have "work_edge_check db' e = work_edge_check db e" for e
    by (simp add: work_edge_check_def)
  moreover have "\<forall>r\<in>set (work_items db'). work_item_check db' r"
    using check inv by (auto simp: db' set_update_where work_item_check_def work_inv_def)
  ultimately show ?thesis
    using inv ids closed by (simp add: work_inv_def db')
qed

text \<open>An update that archives a set of items closed under the edges keeps the graph closed.\<close>

lemma edge_closed_update:
  assumes "edge_closed items e" and "\<And>r. wi_id (f r) = wi_id r"
    and "\<And>r. wi_project_id (f r) = wi_project_id r"
    and "\<And>p c. p \<in> set items \<Longrightarrow> c \<in> set items \<Longrightarrow> wi_id p = we_parent_id e \<Longrightarrow>
           wi_id c = we_child_id e \<Longrightarrow>
           (wi_status p = ''archived'' \<longrightarrow> wi_status c = ''archived'') \<Longrightarrow>
           wi_status (if P p then f p else p) = ''archived'' \<Longrightarrow>
           wi_status (if P c then f c else c) = ''archived''"
  shows "edge_closed (update_where P f items) e"
  unfolding edge_closed_def
proof (intro ballI impI)
  fix p' c'
  assume "p' \<in> set (update_where P f items)" "c' \<in> set (update_where P f items)"
    and ids: "wi_id p' = we_parent_id e" "wi_id c' = we_child_id e"
  then obtain p c where p: "p \<in> set items" "p' = (if P p then f p else p)"
    and c: "c \<in> set items" "c' = (if P c then f c else c)"
    unfolding update_where_def set_map by blast
  with ids assms(2) have pc: "wi_id p = we_parent_id e" "wi_id c = we_child_id e"
    by (metis, metis)
  with assms(1) p c have old: "wi_project_id p = wi_project_id c"
    "wi_status p = ''archived'' \<longrightarrow> wi_status c = ''archived''"
    by (auto simp: edge_closed_def)
  have "wi_project_id p' = wi_project_id c'"
    using old(1) p(2) c(2) assms(3) by simp
  moreover have "wi_status p' = ''archived'' \<longrightarrow> wi_status c' = ''archived''"
    using assms(4) [OF p(1) c(1) pc old(2)] p(2) c(2) by blast
  ultimately show "wi_project_id p' = wi_project_id c' \<and>
      (wi_status p' = ''archived'' \<longrightarrow> wi_status c' = ''archived'')" ..
qed

lemma bump_work_item_revision_Ok:
  "bump_work_item_revision L i t db = Ok db' \<longleftrightarrow>
     (\<exists>n. n \<noteq> 0 \<and> update_work_items (\<lambda>r. wi_id r = i)
       (\<lambda>r. r\<lparr>wi_revision := wi_revision r + 1, wi_updated_at_ms := t\<rparr>) db = Ok (n, db'))"
  by (auto simp: bump_work_item_revision_def and_then_eq_Ok split: if_splits)

lemma work_inv_bump:
  assumes inv: "work_inv db" and bump: "bump_work_item_revision L i t db = Ok db'"
  shows "work_inv db'"
proof -
  let ?P = "\<lambda>r. wi_id r = i"
  let ?f = "\<lambda>r. r\<lparr>wi_revision := wi_revision r + 1, wi_updated_at_ms := t\<rparr>"
  obtain n where upd: "update_work_items ?P ?f db = Ok (n, db')"
    using bump by (auto simp: bump_work_item_revision_Ok)
  show ?thesis
  proof (rule work_inv_update_items [OF inv upd])
    fix e assume "e \<in> set (work_edges db)"
    with inv have "edge_closed (work_items db) e" by (simp add: work_inv_def)
    then have "edge_closed (update_where ?P ?f (work_items db)) e"
      by (rule edge_closed_update) (simp_all split: if_splits)
    with upd show "edge_closed (work_items db') e" by (simp add: update_work_items_Ok)
  qed simp_all
qed

text \<open>What one archiving does, when the root exists.\<close>

lemma archive_work_subtree_Ok:
  assumes inv: "work_inv db" and res: "archive_work_subtree L now root db = Some (Ok w, db')"
  obtains subtree n where
    "set subtree = (edge_rel (work_edges db))\<^sup>* `` {root}" "w = of_nat n"
    "update_work_items (\<lambda>r. wi_id r \<in> set subtree \<and> wi_status r \<noteq> ''archived'')
       (archive_row now) db = Ok (n, db')"
proof -
  have "acyclic (edge_rel (work_edges db))" using inv by (simp add: work_inv_def)
  from cte_subtree_reaches [OF this, of "[root]" "[]"] obtain r where
    r: "cte_subtree (work_edges db) [root] [] = Some r"
       "set r = (edge_rel (work_edges db))\<^sup>* `` {root}" by auto
  from res r(1) have "transaction (\<lambda>db.
        and_then (sql L (update_work_items
          (\<lambda>x. wi_id x \<in> set r \<and> wi_status x \<noteq> ''archived'') (archive_row now) db))
        (\<lambda>(changed, db'). Ok (of_nat changed, db'))) db = (Ok w, db')"
    by (simp add: archive_work_subtree_def split: option.splits)
  then obtain n where "update_work_items
      (\<lambda>x. wi_id x \<in> set r \<and> wi_status x \<noteq> ''archived'') (archive_row now) db = Ok (n, db')"
    "w = of_nat n"
    by (auto simp: transaction_Ok and_then_eq_Ok)
  with r(2) that show ?thesis by blast
qed

lemma archive_row_simps [simp]:
  "wi_id (archive_row now r) = wi_id r" "wi_project_id (archive_row now r) = wi_project_id r"
  "wi_title (archive_row now r) = wi_title r" "wi_status (archive_row now r) = ''archived''"
  "wi_revision (archive_row now r) = wi_revision r + 1"
  by (simp_all add: archive_row_def)

lemma work_inv_archive:
  assumes inv: "work_inv db" and res: "archive_work_subtree L now root db = Some (Ok w, db')"
  shows "work_inv db'"
proof -
  let ?R = "edge_rel (work_edges db)"
  from inv res obtain sub n where sub: "set sub = ?R\<^sup>* `` {root}"
    and upd: "update_work_items (\<lambda>r. wi_id r \<in> set sub \<and> wi_status r \<noteq> ''archived'')
                (archive_row now) db = Ok (n, db')"
    by (rule archive_work_subtree_Ok)
  show ?thesis
  proof (rule work_inv_update_items [OF inv upd])
    fix e assume e: "e \<in> set (work_edges db)"
    have step: "we_parent_id e \<in> set sub \<Longrightarrow> we_child_id e \<in> set sub"
      using e by (auto simp: sub edge_rel_def intro: rtrancl_into_rtrancl)
    from inv e have "edge_closed (work_items db) e" by (simp add: work_inv_def)
    then have "edge_closed (update_where (\<lambda>r. wi_id r \<in> set sub \<and> wi_status r \<noteq> ''archived'')
        (archive_row now) (work_items db)) e"
      by (rule edge_closed_update) (use step in \<open>auto split: if_splits\<close>)
    with upd show "edge_closed (work_items db') e" by (simp add: update_work_items_Ok)
  qed simp_all
qed

text \<open>
  On a well-formed graph archiving an existing item always ends, cannot violate a constraint, and
  archives the active items below the root: nothing else changes.
\<close>

lemma work_clash_free:
  "distinct (map wi_id items) \<Longrightarrow> sorted_wrt (\<lambda>x y. \<not> work_item_clash x y) items"
  by (induction items) (auto simp: work_item_clash_def notin_image)

lemma work_item_check_archive:
  "work_item_check db r \<Longrightarrow> work_item_check db (archive_row now r)"
  by (simp add: work_item_check_def)

lemma archive_work_subtree_total:
  assumes inv: "work_inv db" and root: "root \<in> work_keys db"
  defines "below \<equiv> (\<lambda>r. (root, wi_id r) \<in> (edge_rel (work_edges db))\<^sup>* \<and> wi_status r \<noteq> ''archived'')"
  shows "archive_work_subtree L now root db =
     Some (Ok (of_nat (count_where below (work_items db))),
           db\<lparr>work_items := update_where below (archive_row now) (work_items db)\<rparr>)"
proof -
  have "acyclic (edge_rel (work_edges db))" using inv by (simp add: work_inv_def)
  from cte_subtree_reaches [OF this, of "[root]" "[]"] obtain r where
    r: "cte_subtree (work_edges db) [root] [] = Some r"
       "set r = (edge_rel (work_edges db))\<^sup>* `` {root}" by auto
  have below: "(\<lambda>x. wi_id x \<in> set r \<and> wi_status x \<noteq> ''archived'') = below"
    by (auto simp: below_def r(2))
  obtain x where x: "List.find (\<lambda>r. wi_id r = root) (work_items db) = Some x"
    using root by (cases "List.find (\<lambda>r. wi_id r = root) (work_items db)")
      (auto simp: find_None_iff' work_keys_def)
  have "sorted_wrt (\<lambda>x y. \<not> work_item_clash x y)
          (update_where below (archive_row now) (work_items db))"
    using inv by (intro work_clash_free) (simp add: map_update_where work_inv_def)
  moreover have "\<forall>r\<in>set (work_items db). below r \<longrightarrow> work_item_check db (archive_row now r)"
    using inv by (simp add: work_inv_def work_item_check_archive)
  ultimately have "update_work_items below (archive_row now) db =
      Ok (count_where below (work_items db),
          db\<lparr>work_items := update_where below (archive_row now) (work_items db)\<rparr>)"
    by (simp add: update_work_items_Ok)
  then show ?thesis
    by (simp add: archive_work_subtree_def x r(1) below transaction_def)
qed

section \<open>Reading work items back\<close>

lemma work_item_row_decodes:
  assumes "work_item_check db r"
  shows "\<exists>s. work_item_from_row edges r = Ok s"
  using assms
  by (auto simp: work_item_check_def work_item_from_row_def work_item_status_from_value_def
      u64_column_def u64_of_i64_def)

lemma find_work_item_total:
  assumes "work_inv db"
  shows "\<exists>w. find_work_item L i db = Ok w \<and> (w = None \<longleftrightarrow> i \<notin> work_keys db)"
proof (cases "List.find (\<lambda>r. wi_id r = i) (work_items db)")
  case None
  then have "i \<notin> work_keys db"
    by (simp add: find_None_iff' work_keys_def notin_image)
  with None show ?thesis
    by (simp add: find_work_item_def query_optional_def)
next
  case (Some r)
  then have r: "r \<in> set (work_items db)" "wi_id r = i" by (auto dest: find_Some_iff')
  with assms have "work_item_check db r" by (simp add: work_inv_def)
  then obtain s where "work_item_from_row (work_edges db) r = Ok s"
    using work_item_row_decodes by blast
  with Some r show ?thesis
    by (auto simp: find_work_item_def query_optional_def work_keys_def)
qed

text \<open>A created item reads back as the snapshot that its creation returned.\<close>

lemma find_work_item_created:
  assumes inv: "work_inv db" and run: "create_work_item L now c db = (Ok s, db')"
  shows "find_work_item L (cw_id c) db' = Ok (Some s)"
  using create_work_item_Ok [OF run]
proof (elim disjE exE conjE)
  assume "find_work_item L (cw_id c) db = Ok (Some s)" "db' = db"
  then show ?thesis by simp
next
  fix db1
  assume ins: "insert_work_item (new_work_item_row now c) db = Ok db1"
    and edge: "insert_parent_edge L c db1 = Ok db'"
    and s: "s = \<lparr>ws_id = cw_id c, ws_project_id = cw_project_id c, ws_title = cw_title c,
                 ws_status = Ready, ws_parent_id = cw_parent_id c, ws_revision = 1,
                 ws_created_at = now, ws_updated_at = now\<rparr>"
  have db1: "work_items db1 = work_items db @ [new_work_item_row now c]" "work_edges db1 = work_edges db"
    and fresh: "cw_id c \<notin> wi_id ` set (work_items db)"
    using ins by (auto simp: insert_work_item_Ok new_work_item_row_def)
  have items: "work_items db' = work_items db1"
    using edge by (auto simp: insert_parent_edge_def insert_work_edge_Ok split: option.splits)
  have find: "List.find (\<lambda>r. wi_id r = cw_id c) (work_items db') = Some (new_work_item_row now c)"
    using fresh unfolding items db1 notin_image
    by (intro find_unique) (auto simp: new_work_item_row_def)
  have no_edge: "List.find (\<lambda>e. we_child_id e = cw_id c) (work_edges db) = None"
  proof -
    have "we_child_id e \<noteq> cw_id c" if "e \<in> set (work_edges db)" for e
    proof -
      have "we_child_id e \<in> wi_id ` set (work_items db)"
        using inv that by (simp add: work_inv_def work_edge_check_def)
      with fresh show ?thesis by metis
    qed
    then show ?thesis by (simp add: find_None_iff')
  qed
  have "parent_of (work_edges db') (cw_id c) = cw_parent_id c"
    using edge no_edge db1(2)
    by (auto simp: insert_parent_edge_def insert_work_edge_Ok parent_of_def find_append
        split: option.splits)
  with find show ?thesis
    by (simp add: find_work_item_def query_optional_def work_item_from_row_def new_work_item_row_def
        work_item_status_from_value_def u64_column_def u64_of_i64_def s)
qed

section \<open>What a revision bump leaves alone\<close>

lemma bump_frame:
  assumes "bump_work_item_revision L i t db = Ok db'"
  obtains items where "db' = db\<lparr>work_items := items\<rparr>"
    "map wi_id items = map wi_id (work_items db)" "work_keys db' = work_keys db"
proof -
  from assms have db': "db' = db\<lparr>work_items := update_where (\<lambda>r. wi_id r = i)
      (\<lambda>r. r\<lparr>wi_revision := wi_revision r + 1, wi_updated_at_ms := t\<rparr>) (work_items db)\<rparr>"
    by (auto simp: bump_work_item_revision_Ok update_work_items_Ok)
  moreover have ids: "map wi_id (update_where (\<lambda>r. wi_id r = i)
      (\<lambda>r. r\<lparr>wi_revision := wi_revision r + 1, wi_updated_at_ms := t\<rparr>) (work_items db)) =
      map wi_id (work_items db)"
    by (simp add: map_update_where)
  moreover have "work_keys db' = work_keys db"
    using arg_cong [OF ids, of set] by (simp add: db' work_keys_def)
  ultimately show ?thesis by (rule that)
qed

end
