(* ===== verification/Store_Runs.thy ===== *)
theory Store_Runs
  imports Store_Work
begin

text \<open>
  Runs and approvals (\<^verbatim>\<open>sqlite.rs\<close>): \<open>create_run\<close>, \<open>get_run\<close>, \<open>transition_run\<close> with
  \<open>apply_run_transition\<close>, the approval handshake \<open>record_pending_approval\<close>, \<open>begin_approval_response\<close>,
  \<open>confirm_approval_response\<close>, and the list operations on both tables. The invariants say that every
  stored row satisfies its schema and decodes, and that a finished run has no pending approval.
\<close>

section \<open>Runs\<close>

definition find_run ::
    "'z store_libs_scheme \<Rightarrow> run_id \<Rightarrow> db \<Rightarrow> store_error + run_snapshot option" where
  "find_run L i db = query_optional L run_from_row (\<lambda>r. rr_id r = i) (runs db)"

definition fetch_run :: "'z store_libs_scheme \<Rightarrow> run_id \<Rightarrow> db \<Rightarrow> store_error + run_snapshot" where
  "fetch_run L i db =
     and_then (find_run L i db) (\<lambda>r.
       case r of
         Some s \<Rightarrow> Ok s
       | None \<Rightarrow> Err (NotFound ''run'' (id_text L i)))"

definition get_run :: "'z store_libs_scheme \<Rightarrow> run_id \<Rightarrow> run_snapshot job" where
  "get_run L i = read_only (fetch_run L i)"

definition new_run_row :: "utc_timestamp \<Rightarrow> create_run_cmd \<Rightarrow> run_row" where
  "new_run_row now c =
     \<lparr>rr_id = cr_id c, rr_connection_id = cr_connection_id c, rr_work_item_id = cr_work_item_id c,
      rr_status = ''starting'',
      rr_provider_namespace = map_option pri_namespace (cr_provider_run c),
      rr_provider_runtime_id = map_option pri_runtime_id (cr_provider_run c),
      rr_provider_session_id = map_option pri_session_id (cr_provider_run c),
      rr_provider_run_id = map_option pri_run_id (cr_provider_run c),
      rr_created_at_ms = now, rr_ended_at_ms = None\<rparr>"

definition check_work_item_ready ::
    "'z store_libs_scheme \<Rightarrow> work_item_id \<Rightarrow> db \<Rightarrow> store_error + unit" where
  "check_work_item_ready L i db =
     (case List.find (\<lambda>r. wi_id r = i) (work_items db) of
        None \<Rightarrow> Err (NotFound ''work item'' (id_text L i))
      | Some r \<Rightarrow>
          if wi_status r = ''archived''
          then Err (Conflict (''archived work item cannot accept a run: '' @ id_text L i))
          else if wi_status r = ''ready'' then Ok ()
          else Err (Integrity (''unknown work item status: '' @ wi_status r)))"

definition create_run ::
    "'z store_libs_scheme \<Rightarrow> utc_timestamp \<Rightarrow> create_run_cmd \<Rightarrow> run_snapshot job" where
  "create_run L now c =
     validated (validate_app_id ''run id'' (is_v7 L (cr_id c)))
     (transaction (\<lambda>db.
       and_then (find_run L (cr_id c) db) (\<lambda>existing.
       case existing of
         Some e \<Rightarrow>
           if rs_work_item_id e = cr_work_item_id c \<and> rs_connection_id e = cr_connection_id c \<and>
              rs_provider_id e = cr_provider_run c
           then Ok (e, db)
           else Err (Conflict (''run id already exists with different content: '' @
                               id_text L (cr_id c)))
       | None \<Rightarrow>
           and_then (check_work_item_ready L (cr_work_item_id c) db) (\<lambda>_.
           and_then (sql L (insert_run (new_run_row now c) db)) (\<lambda>db1.
           and_then (bump_work_item_revision L (cr_work_item_id c) now db1) (\<lambda>db2.
           Ok (\<lparr>rs_id = cr_id c, rs_connection_id = cr_connection_id c,
                rs_work_item_id = cr_work_item_id c, rs_status = Starting,
                rs_provider_id = cr_provider_run c, rs_created_at = now, rs_ended_at = None\<rparr>,
               db2)))))))"

definition is_terminal :: "run_status \<Rightarrow> bool" where
  "is_terminal s \<longleftrightarrow> s \<in> {Completed, Failed, Interrupted}"

definition ended_at_ms :: "run_status \<Rightarrow> int \<Rightarrow> int option" where
  "ended_at_ms target occurred_at_ms = (if is_terminal target then Some occurred_at_ms else None)"

definition coalesce :: "'a option \<Rightarrow> 'a option \<Rightarrow> 'a option" where
  "coalesce a b = (case a of Some x \<Rightarrow> Some x | None \<Rightarrow> b)"

definition transition_row :: "transition_run_cmd \<Rightarrow> run_row \<Rightarrow> run_row" where
  "transition_row c r =
     r\<lparr>rr_status := run_status_value (tr_target c),
       rr_ended_at_ms := ended_at_ms (tr_target c) (tr_occurred_at c),
       rr_provider_namespace :=
         coalesce (map_option pri_namespace (tr_provider_id c)) (rr_provider_namespace r),
       rr_provider_runtime_id :=
         coalesce (map_option pri_runtime_id (tr_provider_id c)) (rr_provider_runtime_id r),
       rr_provider_session_id :=
         coalesce (map_option pri_session_id (tr_provider_id c)) (rr_provider_session_id r),
       rr_provider_run_id :=
         coalesce (map_option pri_run_id (tr_provider_id c)) (rr_provider_run_id r)\<rparr>"

definition void_row :: "int \<Rightarrow> approval_row \<Rightarrow> approval_row" where
  "void_row t a = a\<lparr>ap_status := ''voided'', ap_voided_at_ms := Some t\<rparr>"

definition void_pending_approvals ::
    "'z store_libs_scheme \<Rightarrow> transition_run_cmd \<Rightarrow> db \<Rightarrow> store_error + (nat \<times> db)" where
  "void_pending_approvals L c db =
     (if is_terminal (tr_target c)
      then sql L (update_approvals (\<lambda>a. ap_run_id a = tr_run_id c \<and> ap_status a = ''pending'')
                    (void_row (tr_occurred_at c)) db)
      else Ok (0, db))"

definition run_transition_audit ::
    "'z store_libs_scheme \<Rightarrow> transition_run_cmd \<Rightarrow> nat \<Rightarrow> audit_row" where
  "run_transition_audit L c voided =
     \<lparr>au_id = tr_audit_event_id c, au_event_type = ''run_transitioned'', au_entity_type = ''run'',
      au_entity_id = id_text L (tr_run_id c),
      au_body = run_status_value (tr_expected_current c) @ ''->'' @
                run_status_value (tr_target c) @ '';voided_approvals='' @ decimal (int voided),
      au_created_at_ms = tr_occurred_at c\<rparr>"

definition apply_run_transition ::
    "'z store_libs_scheme \<Rightarrow> transition_run_cmd \<Rightarrow> db \<Rightarrow> store_error + (run_snapshot \<times> db)" where
  "apply_run_transition L c db =
     and_then (fetch_run L (tr_run_id c) db) (\<lambda>run.
     and_then (sql L (update_runs
       (\<lambda>r. rr_id r = tr_run_id c \<and> rr_status r = run_status_value (tr_expected_current c))
       (transition_row c) db)) (\<lambda>(changed, db1).
     if changed = 0 then
       (case List.find (\<lambda>r. rr_id r = tr_run_id c) (runs db1) of
          Some r \<Rightarrow> Err (Conflict (''run state conflict: expected '' @
            run_status_value (tr_expected_current c) @ '', current '' @ rr_status r))
        | None \<Rightarrow> Err (NotFound ''run'' (id_text L (tr_run_id c))))
     else
       and_then (void_pending_approvals L c db1) (\<lambda>(voided, db2).
       and_then (sql L (insert_audit (run_transition_audit L c voided) db2)) (\<lambda>db3.
       and_then (bump_work_item_revision L (rs_work_item_id run) (tr_occurred_at c) db3) (\<lambda>db4.
       and_then (query_row L run_from_row (\<lambda>r. rr_id r = tr_run_id c) (runs db4)) (\<lambda>s.
       Ok (s, db4)))))))"

definition transition_run ::
    "'z store_libs_scheme \<Rightarrow> transition_run_cmd \<Rightarrow> run_snapshot job" where
  "transition_run L c =
     validated
       (and_then (validate_app_id ''audit event id'' (is_v7 L (tr_audit_event_id c))) (\<lambda>_.
          ensure (can_transition_to (tr_expected_current c) (tr_target c))
            (Conflict ''illegal run state transition'')))
     (transaction (apply_run_transition L c))"

definition list_runs_where ::
    "'z store_libs_scheme \<Rightarrow> (run_row \<Rightarrow> bool) \<Rightarrow> run_id option \<Rightarrow> u32 \<Rightarrow> run_page job" where
  "list_runs_where L P after limit =
     read_only (\<lambda>db. and_then (validate_page_size limit) (\<lambda>n.
       list_page L rr_id run_from_row rs_id P after n (runs db)))"

definition list_runs_for_work_item ::
    "'z store_libs_scheme \<Rightarrow> work_item_id \<Rightarrow> run_id option \<Rightarrow> u32 \<Rightarrow> run_page job" where
  "list_runs_for_work_item L w after limit =
     list_runs_where L (\<lambda>r. rr_work_item_id r = w) after limit"

definition list_active_runs ::
    "'z store_libs_scheme \<Rightarrow> run_id option \<Rightarrow> u32 \<Rightarrow> run_page job" where
  "list_active_runs L after limit =
     list_runs_where L (\<lambda>r. rr_status r \<in> {''starting'', ''running''}) after limit"

definition list_runs_needing_reconciliation ::
    "'z store_libs_scheme \<Rightarrow> run_id option \<Rightarrow> u32 \<Rightarrow> run_page job" where
  "list_runs_needing_reconciliation L after limit =
     list_runs_where L
       (\<lambda>r. rr_status r \<in> {''starting'', ''running'', ''disconnected'', ''outcome_unknown''})
       after limit"

section \<open>Approvals\<close>

definition find_approval ::
    "'z store_libs_scheme \<Rightarrow> approval_request_id \<Rightarrow> db \<Rightarrow> store_error + approval_snapshot option" where
  "find_approval L i db = query_optional L approval_from_row (\<lambda>a. ap_id a = i) (approval_requests db)"

definition get_approval ::
    "'z store_libs_scheme \<Rightarrow> approval_request_id \<Rightarrow> db \<Rightarrow> store_error + approval_snapshot" where
  "get_approval L i db =
     and_then (find_approval L i db) (\<lambda>a.
       case a of
         Some s \<Rightarrow> Ok s
       | None \<Rightarrow> Err (NotFound ''approval request'' (id_text L i)))"

definition new_approval_row ::
    "utc_timestamp \<Rightarrow> connection_id \<Rightarrow> pending_approval \<Rightarrow> approval_row" where
  "new_approval_row now c a =
     \<lparr>ap_id = pa_id a, ap_connection_id = c, ap_run_id = pa_run_id a,
      ap_provider_namespace = np_namespace (pa_provider_id a),
      ap_provider_approval_id = np_value (pa_provider_id a),
      ap_kind = pa_kind a, ap_summary = pa_summary a, ap_status = ''pending'',
      ap_decision = None, ap_requested_at_ms = now, ap_response_started_at_ms = None,
      ap_resolved_at_ms = None, ap_voided_at_ms = None\<rparr>"

definition record_pending_approval ::
    "'z store_libs_scheme \<Rightarrow> utc_timestamp \<Rightarrow> pending_approval \<Rightarrow> approval_snapshot job" where
  "record_pending_approval L now a =
     validated
       (and_then (validate_app_id ''approval request id'' (is_v7 L (pa_id a))) (\<lambda>_.
          validate_text ''approval kind'' (pa_kind a)))
     (transaction (\<lambda>db.
       and_then (find_approval L (pa_id a) db) (\<lambda>existing.
       case existing of
         Some e \<Rightarrow>
           if as_run_id e = pa_run_id a \<and> as_provider_id e = pa_provider_id a \<and>
              as_kind e = pa_kind a \<and> as_summary e = pa_summary a
           then Ok (e, db)
           else Err (Conflict (''approval id already exists with different content: '' @
                               id_text L (pa_id a)))
       | None \<Rightarrow>
          (case List.find (\<lambda>r. rr_id r = pa_run_id a) (runs db) of
             None \<Rightarrow> Err (NotFound ''run'' (id_text L (pa_run_id a)))
           | Some r \<Rightarrow>
               if rr_status r \<noteq> ''running''
               then Err (Conflict ''cannot record an approval for a terminal run'')
               else
                 and_then (sql L (insert_approval
                   (new_approval_row now (rr_connection_id r) a) db)) (\<lambda>db1.
                 and_then (bump_work_item_revision L (rr_work_item_id r) now db1) (\<lambda>db2.
                 Ok (\<lparr>as_id = pa_id a, as_connection_id = rr_connection_id r,
                      as_run_id = pa_run_id a, as_provider_id = pa_provider_id a,
                      as_kind = pa_kind a, as_summary = pa_summary a, as_status = Pending,
                      as_requested_at = now, as_response_started_at = None,
                      as_resolved_at = None, as_voided_at = None\<rparr>, db2)))))))"

text \<open>The join of \<open>approval_requests\<close> and \<open>runs\<close> that finds the work item of an approval.\<close>

definition approval_work_item :: "db \<Rightarrow> approval_request_id \<Rightarrow> work_item_id option" where
  "approval_work_item db i =
     (case List.find (\<lambda>a. ap_id a = i) (approval_requests db) of
        None \<Rightarrow> None
      | Some a \<Rightarrow> map_option rr_work_item_id (List.find (\<lambda>r. rr_id r = ap_run_id a) (runs db)))"

definition bump_if_known ::
    "'z store_libs_scheme \<Rightarrow> work_item_id option \<Rightarrow> int \<Rightarrow> db \<Rightarrow> store_error + db" where
  "bump_if_known L w t db =
     (case w of None \<Rightarrow> Ok db | Some i \<Rightarrow> bump_work_item_revision L i t db)"

definition approval_missing ::
    "'z store_libs_scheme \<Rightarrow> string \<Rightarrow> approval_request_id \<Rightarrow> db \<Rightarrow> store_error" where
  "approval_missing L message i db =
     (if list_ex (\<lambda>a. ap_id a = i) (approval_requests db) then Conflict message
      else NotFound ''approval request'' (id_text L i))"

definition begin_row :: "int \<Rightarrow> approval_decision \<Rightarrow> approval_row \<Rightarrow> approval_row" where
  "begin_row now d a =
     a\<lparr>ap_status := ''responding'', ap_decision := Some (decision_value d),
       ap_response_started_at_ms := Some now\<rparr>"

definition approval_audit ::
    "'z store_libs_scheme \<Rightarrow> audit_event_id \<Rightarrow> string \<Rightarrow> approval_request_id \<Rightarrow>
     approval_decision \<Rightarrow> int \<Rightarrow> audit_row" where
  "approval_audit L i event a d now =
     \<lparr>au_id = i, au_event_type = event, au_entity_type = ''approval_request'',
      au_entity_id = id_text L a, au_body = decision_value d, au_created_at_ms = now\<rparr>"

definition begin_approval_response ::
    "'z store_libs_scheme \<Rightarrow> utc_timestamp \<Rightarrow> begin_approval_response_cmd \<Rightarrow> approval_snapshot job" where
  "begin_approval_response L now c =
     validated (validate_app_id ''audit event id'' (is_v7 L (ba_audit_event_id c)))
     (transaction (\<lambda>db.
       let w = approval_work_item db (ba_approval_id c) in
       and_then (sql L (update_approvals
         (\<lambda>a. ap_id a = ba_approval_id c \<and> ap_status a = ''pending'')
         (begin_row now (ba_decision c)) db)) (\<lambda>(changed, db1).
       if changed = 0
       then Err (approval_missing L ''approval response has already begun'' (ba_approval_id c) db1)
       else
         and_then (sql L (insert_audit
           (approval_audit L (ba_audit_event_id c) ''approval_response_begun''
              (ba_approval_id c) (ba_decision c) now) db1)) (\<lambda>db2.
         and_then (bump_if_known L w now db2) (\<lambda>db3.
         and_then (get_approval L (ba_approval_id c) db3) (\<lambda>s.
         Ok (s, db3)))))))"

definition resolve_row :: "int \<Rightarrow> approval_row \<Rightarrow> approval_row" where
  "resolve_row now a = a\<lparr>ap_status := ''resolved'', ap_resolved_at_ms := Some now\<rparr>"

definition confirm_approval_response ::
    "'z store_libs_scheme \<Rightarrow> utc_timestamp \<Rightarrow> confirm_approval_response_cmd \<Rightarrow> approval_snapshot job" where
  "confirm_approval_response L now c =
     validated (validate_app_id ''audit event id'' (is_v7 L (ca_audit_event_id c)))
     (transaction (\<lambda>db.
       let w = approval_work_item db (ca_approval_id c) in
       and_then (sql L (update_approvals
         (\<lambda>a. ap_id a = ca_approval_id c \<and> ap_status a = ''responding'')
         (resolve_row now) db)) (\<lambda>(changed, db1).
       if changed = 0
       then Err (approval_missing L ''approval response is not awaiting confirmation''
                   (ca_approval_id c) db1)
       else
         and_then (bump_if_known L w now db1) (\<lambda>db2.
         and_then (get_approval L (ca_approval_id c) db2) (\<lambda>s.
         case as_status s of
           Resolved d \<Rightarrow>
             and_then (sql L (insert_audit
               (approval_audit L (ca_audit_event_id c) ''approval_response_confirmed''
                  (ca_approval_id c) d now) db2)) (\<lambda>db3.
             Ok (s, db3))
         | _ \<Rightarrow> Err (Integrity ''invalid approval transition''))))))"

definition list_approvals_where ::
    "'z store_libs_scheme \<Rightarrow> (approval_row \<Rightarrow> bool) \<Rightarrow> approval_request_id option \<Rightarrow> u32 \<Rightarrow>
     approval_page job" where
  "list_approvals_where L P after limit =
     read_only (\<lambda>db. and_then (validate_page_size limit) (\<lambda>n.
       list_page L ap_id approval_from_row as_id P after n (approval_requests db)))"

definition list_pending_approvals ::
    "'z store_libs_scheme \<Rightarrow> approval_request_id option \<Rightarrow> u32 \<Rightarrow> approval_page job" where
  "list_pending_approvals L after limit =
     list_approvals_where L (\<lambda>a. ap_status a = ''pending'') after limit"

definition list_approvals_for_run ::
    "'z store_libs_scheme \<Rightarrow> run_id \<Rightarrow> approval_request_id option \<Rightarrow> u32 \<Rightarrow> approval_page job" where
  "list_approvals_for_run L r after limit =
     list_approvals_where L (\<lambda>a. ap_run_id a = r) after limit"

definition list_unconfirmed_approval_responses ::
    "'z store_libs_scheme \<Rightarrow> approval_request_id option \<Rightarrow> u32 \<Rightarrow> approval_page job" where
  "list_unconfirmed_approval_responses L after limit =
     list_approvals_where L (\<lambda>a. ap_status a = ''responding'') after limit"

section \<open>Invariants\<close>

text \<open>
  A \<open>ProviderRunIdentity\<close> and a \<open>NamespacedProviderId\<close> have private fields and one constructor, so
  every value a caller can pass is one the constructor returned.
\<close>

definition wf_run_identity :: "provider_run_identity \<Rightarrow> bool" where
  "wf_run_identity p \<longleftrightarrow>
     provider_run_identity_new (pri_namespace p) (pri_runtime_id p) (pri_session_id p) (pri_run_id p)
       = Ok p"

definition wf_provider_id :: "namespaced_provider_id \<Rightarrow> bool" where
  "wf_provider_id p \<longleftrightarrow> namespaced_provider_id_new (np_namespace p) (np_value p) = Ok p"

definition finished :: "string \<Rightarrow> bool" where
  "finished st \<longleftrightarrow> st \<in> {''completed'', ''failed'', ''interrupted''}"

definition run_inv :: "db \<Rightarrow> bool" where
  "run_inv db \<longleftrightarrow>
     distinct (map rr_id (runs db)) \<and>
     sorted_wrt (\<lambda>x y. \<not> run_clash x y) (runs db) \<and>
     (\<forall>r\<in>set (runs db). run_check db r \<and> is_ok (run_from_row r))"

definition pending_open :: "db \<Rightarrow> bool" where
  "pending_open db \<longleftrightarrow>
     (\<forall>a\<in>set (approval_requests db). \<forall>r\<in>set (runs db).
        ap_status a = ''pending'' \<longrightarrow> rr_id r = ap_run_id a \<longrightarrow> \<not> finished (rr_status r))"

definition approval_inv :: "db \<Rightarrow> bool" where
  "approval_inv db \<longleftrightarrow>
     distinct (map ap_id (approval_requests db)) \<and>
     sorted_wrt (\<lambda>x y. \<not> approval_clash x y) (approval_requests db) \<and>
     (\<forall>a\<in>set (approval_requests db). approval_check db a \<and> is_ok (approval_from_row a)) \<and>
     pending_open db"

lemma finished_status [simp]: "finished (run_status_value s) = is_terminal s"
  by (cases s) (simp_all add: finished_def is_terminal_def)

lemma run_inv_empty: "run_inv empty_db"
  by (simp add: run_inv_def empty_db_def)

lemma approval_inv_empty: "approval_inv empty_db"
  by (simp add: approval_inv_def pending_open_def empty_db_def)

lemma run_inv_frame:
  "runs db' = runs db \<Longrightarrow> work_keys db \<subseteq> work_keys db' \<Longrightarrow> run_inv db \<Longrightarrow> run_inv db'"
  by (auto simp: run_inv_def intro: run_check_mono)

lemma approval_inv_frame:
  assumes "approval_requests db' = approval_requests db" and "runs db' = runs db"
    and "approval_inv db"
  shows "approval_inv db'"
proof -
  have "run_keys db \<subseteq> run_keys db'" using assms(2) by (simp add: run_keys_def)
  with assms show ?thesis
    by (auto simp: approval_inv_def pending_open_def intro: approval_check_mono)
qed


section \<open>Runs keep the invariants\<close>

lemma provider_columns_ok:
  assumes "\<forall>p. q = Some p \<longrightarrow> wf_run_identity p"
  shows "provider_run_identity_column (map_option pri_namespace q) (map_option pri_runtime_id q)
           (map_option pri_session_id q) (map_option pri_run_id q) = Ok q"
  using assms
  by (cases q) (auto simp: provider_run_identity_column_def conversion_failure_def wf_run_identity_def)

lemma run_from_row_ok:
  "is_ok (run_from_row r) \<longleftrightarrow>
     is_ok (run_status_from_value (rr_status r)) \<and>
     is_ok (provider_run_identity_column (rr_provider_namespace r) (rr_provider_runtime_id r)
              (rr_provider_session_id r) (rr_provider_run_id r))"
  by (auto simp: run_from_row_def is_ok_iff and_then_eq_Ok)

lemma run_inv_insert_run:
  assumes inv: "run_inv db" and ins: "insert_run r db = Ok db'" and dec: "is_ok (run_from_row r)"
  shows "run_inv db'"
proof -
  have db': "db' = db\<lparr>runs := runs db @ [r]\<rparr>" and check: "run_check db r"
    and free: "\<forall>x\<in>set (runs db). \<not> run_clash x r"
    using ins by (simp_all add: insert_run_Ok)
  have "run_check db' x = run_check db x" for x by (simp add: db' run_check_def)
  moreover have "rr_id r \<notin> rr_id ` set (runs db)"
    using free by (auto simp: run_clash_def)
  ultimately show ?thesis
    using inv check free dec by (auto simp: run_inv_def db' sorted_wrt_snoc)
qed

lemma run_clash_id: "\<not> run_clash x r \<Longrightarrow> rr_id x \<noteq> rr_id r"
  by (auto simp: run_clash_def)

lemma approval_run_exists:
  assumes "approval_inv db" and "a \<in> set (approval_requests db)"
  shows "ap_run_id a \<in> rr_id ` set (runs db)"
proof -
  have "has_run db (ap_connection_id a) (ap_run_id a)"
    using assms by (simp add: approval_inv_def approval_check_def)
  then show ?thesis by (auto simp: has_run_def)
qed

lemma approval_inv_insert_run:
  assumes inv: "approval_inv db" and ins: "insert_run r db = Ok db'"
  shows "approval_inv db'"
proof -
  have db': "db' = db\<lparr>runs := runs db @ [r]\<rparr>"
    and free: "\<forall>x\<in>set (runs db). rr_id x \<noteq> rr_id r"
    using ins by (auto simp: insert_run_Ok dest: run_clash_id)
  have "run_keys db \<subseteq> run_keys db'" by (auto simp: db' run_keys_def)
  then have "\<forall>a\<in>set (approval_requests db). approval_check db' a"
    using inv by (auto simp: approval_inv_def intro: approval_check_mono)
  moreover have "pending_open db'"
    unfolding pending_open_def
  proof (intro ballI impI)
    fix a x
    assume a: "a \<in> set (approval_requests db')" and x: "x \<in> set (runs db')"
      and st: "ap_status a = ''pending''" "rr_id x = ap_run_id a"
    from a have a': "a \<in> set (approval_requests db)" by (simp add: db')
    from approval_run_exists [OF inv a'] obtain y
      where y: "y \<in> set (runs db)" "rr_id y = ap_run_id a" by (metis imageE)
    with free have "rr_id r \<noteq> ap_run_id a" by metis
    with x st(2) have "x \<in> set (runs db)" by (auto simp: db')
    with inv a' st show "\<not> finished (rr_status x)"
      by (simp add: approval_inv_def pending_open_def)
  qed
  ultimately show ?thesis using inv by (simp add: approval_inv_def db')
qed

lemma create_run_Ok:
  assumes "create_run L now c db = (Ok s, db')"
  shows "(find_run L (cr_id c) db = Ok (Some s) \<and> db' = db \<and> rs_work_item_id s = cr_work_item_id c \<and>
            rs_connection_id s = cr_connection_id c \<and> rs_provider_id s = cr_provider_run c) \<or>
         (\<exists>db1. find_run L (cr_id c) db = Ok None \<and>
            check_work_item_ready L (cr_work_item_id c) db = Ok () \<and>
            insert_run (new_run_row now c) db = Ok db1 \<and>
            bump_work_item_revision L (cr_work_item_id c) now db1 = Ok db' \<and>
            s = \<lparr>rs_id = cr_id c, rs_connection_id = cr_connection_id c,
                 rs_work_item_id = cr_work_item_id c, rs_status = Starting,
                 rs_provider_id = cr_provider_run c, rs_created_at = now, rs_ended_at = None\<rparr>)"
  using assms
  by (auto simp: create_run_def job_simps result_simps split: option.splits if_splits)

definition wf_create_run :: "create_run_cmd \<Rightarrow> bool" where
  "wf_create_run c \<longleftrightarrow> (\<forall>p. cr_provider_run c = Some p \<longrightarrow> wf_run_identity p)"

definition wf_transition_run :: "transition_run_cmd \<Rightarrow> bool" where
  "wf_transition_run c \<longleftrightarrow> (\<forall>p. tr_provider_id c = Some p \<longrightarrow> wf_run_identity p)"

lemma new_run_row_decodes:
  "wf_create_run c \<Longrightarrow> run_from_row (new_run_row now c) =
     Ok \<lparr>rs_id = cr_id c, rs_connection_id = cr_connection_id c,
         rs_work_item_id = cr_work_item_id c, rs_status = Starting,
         rs_provider_id = cr_provider_run c, rs_created_at = now, rs_ended_at = None\<rparr>"
  by (simp add: new_run_row_def run_from_row_def wf_create_run_def provider_columns_ok
      run_status_from_value_def)

lemma runs_create_run:
  assumes work: "work_inv db" and run: "run_inv db" and app: "approval_inv db"
    and wf: "wf_create_run c" and res: "create_run L now c db = (Ok s, db')"
  shows "work_inv db' \<and> run_inv db' \<and> approval_inv db'"
  using create_run_Ok [OF res]
proof (elim disjE exE conjE)
  assume "db' = db" with work run app show ?thesis by simp
next
  fix db1
  assume ins: "insert_run (new_run_row now c) db = Ok db1"
    and bump: "bump_work_item_revision L (cr_work_item_id c) now db1 = Ok db'"
  have db1: "db1 = db\<lparr>runs := runs db @ [new_run_row now c]\<rparr>"
    using ins by (simp add: insert_run_Ok)
  have "work_inv db1" using work by (subst work_inv_frame) (simp_all add: db1)
  moreover have "run_inv db1"
    using run ins by (rule run_inv_insert_run) (simp add: new_run_row_decodes wf)
  moreover have "approval_inv db1" using app ins by (rule approval_inv_insert_run)
  moreover obtain items where "db' = db1\<lparr>work_items := items\<rparr>" "work_keys db' = work_keys db1"
    using bump by (rule bump_frame)
  ultimately show ?thesis
    using bump by (auto intro: work_inv_bump run_inv_frame approval_inv_frame)
qed

end
