(* ===== verification/Run_Laws.thy ===== *)
theory Run_Laws
  imports Store_Runs
begin

text \<open>
  What the run and approval operations of \<^verbatim>\<open>Store_Runs\<close> keep: \<open>work_inv\<close>, \<open>run_inv\<close> and
  \<open>approval_inv\<close> through \<open>transition_run\<close>, \<open>record_pending_approval\<close>, \<open>begin_approval_response\<close> and
  \<open>confirm_approval_response\<close>, and what one run transition does to the row and its approvals.
\<close>

section \<open>Approval rows\<close>

definition approval_rows :: "db \<Rightarrow> bool" where
  "approval_rows db \<longleftrightarrow>
     distinct (map ap_id (approval_requests db)) \<and>
     sorted_wrt (\<lambda>x y. \<not> approval_clash x y) (approval_requests db) \<and>
     (\<forall>a\<in>set (approval_requests db). approval_check db a \<and> is_ok (approval_from_row a))"

lemma approval_inv_split: "approval_inv db \<longleftrightarrow> approval_rows db \<and> pending_open db"
  by (simp add: approval_inv_def approval_rows_def)

lemma approval_from_row_ok:
  "is_ok (approval_from_row a) \<longleftrightarrow>
     (\<exists>d. (case ap_decision a of None \<Rightarrow> Ok None | Some v \<Rightarrow> map_ok Some (decision_from_value v)) = Ok d \<and>
          is_ok (approval_status_from_columns (ap_status a) d)) \<and>
     is_ok (conversion_failure 3
       (namespaced_provider_id_new (ap_provider_namespace a) (ap_provider_approval_id a)))"
  by (auto simp: approval_from_row_def is_ok_iff and_then_eq_Ok)

lemma approval_rows_frame:
  assumes "approval_requests db' = approval_requests db" and "run_keys db \<subseteq> run_keys db'"
    and "approval_rows db"
  shows "approval_rows db'"
  using assms by (auto simp: approval_rows_def intro: approval_check_mono)

text \<open>An update of approvals keeps the row invariant when the new rows decode.\<close>

lemma approval_rows_update:
  assumes rows: "approval_rows db" and upd: "update_approvals P f db = Ok (n, db')"
    and keeps: "\<And>a. ap_id (f a) = ap_id a"
    and dec: "\<And>a. a \<in> set (approval_requests db) \<Longrightarrow> P a \<Longrightarrow> is_ok (approval_from_row (f a))"
  shows "approval_rows db'"
proof -
  have db': "db' = db\<lparr>approval_requests := update_where P f (approval_requests db)\<rparr>"
    and check: "\<forall>a\<in>set (approval_requests db). P a \<longrightarrow> approval_check db (f a)"
    and sorted: "sorted_wrt (\<lambda>x y. \<not> approval_clash x y) (update_where P f (approval_requests db))"
    using upd by (simp_all add: update_approvals_Ok)
  have same: "approval_check db' a = approval_check db a" for a
    by (simp add: db' approval_check_def has_run_def)
  have "distinct (map ap_id (update_where P f (approval_requests db)))"
    using rows keeps by (simp add: map_update_where approval_rows_def)
  moreover have "approval_check db a \<and> is_ok (approval_from_row a)"
    if "a \<in> set (update_where P f (approval_requests db))" for a
    using that check dec rows
    unfolding set_update_where approval_rows_def by blast
  ultimately show ?thesis
    using sorted by (simp add: approval_rows_def same) (simp add: db')
qed

lemma pending_open_update:
  assumes "pending_open db" and upd: "update_approvals P f db = Ok (n, db')"
    and moves: "\<And>a. P a \<Longrightarrow> ap_status (f a) \<noteq> ''pending''"
  shows "pending_open db'"
proof -
  have db': "db' = db\<lparr>approval_requests := update_where P f (approval_requests db)\<rparr>"
    using upd by (simp add: update_approvals_Ok)
  show ?thesis
    unfolding pending_open_def
  proof (intro ballI impI)
    fix a r
    assume a: "a \<in> set (approval_requests db')" and r: "r \<in> set (runs db')"
      and st: "ap_status a = ''pending''" "rr_id r = ap_run_id a"
    from a st(1) moves have "a \<in> set (approval_requests db)"
      by (auto simp: db' set_update_where)
    with assms(1) r st show "\<not> finished (rr_status r)" by (simp add: db' pending_open_def)
  qed
qed

lemma approval_inv_update:
  assumes "approval_inv db" and "update_approvals P f db = Ok (n, db')"
    and "\<And>a. ap_id (f a) = ap_id a"
    and "\<And>a. a \<in> set (approval_requests db) \<Longrightarrow> P a \<Longrightarrow> is_ok (approval_from_row (f a))"
    and "\<And>a. P a \<Longrightarrow> ap_status (f a) \<noteq> ''pending''"
  shows "approval_inv db'"
  using assms approval_rows_update [OF _ assms(2)] pending_open_update [OF _ assms(2)]
  unfolding approval_inv_split by blast

lemma approval_decodes:
  "approval_inv db \<Longrightarrow> a \<in> set (approval_requests db) \<Longrightarrow> is_ok (approval_from_row a)"
  by (simp add: approval_inv_def)

text \<open>The columns the three updates of an approval set and keep.\<close>

lemma void_row_simps [simp]:
  "ap_id (void_row t a) = ap_id a" "ap_run_id (void_row t a) = ap_run_id a"
  "ap_status (void_row t a) = ''voided''" "ap_decision (void_row t a) = ap_decision a"
  by (simp_all add: void_row_def)

lemma begin_row_simps [simp]:
  "ap_id (begin_row t d a) = ap_id a" "ap_run_id (begin_row t d a) = ap_run_id a"
  "ap_status (begin_row t d a) = ''responding''" "ap_decision (begin_row t d a) = Some (decision_value d)"
  by (simp_all add: begin_row_def)

lemma resolve_row_simps [simp]:
  "ap_id (resolve_row t a) = ap_id a" "ap_run_id (resolve_row t a) = ap_run_id a"
  "ap_status (resolve_row t a) = ''resolved''" "ap_decision (resolve_row t a) = ap_decision a"
  by (simp_all add: resolve_row_def)

lemma void_row_decodes: "is_ok (approval_from_row a) \<Longrightarrow> is_ok (approval_from_row (void_row t a))"
  by (auto simp: approval_from_row_ok void_row_def approval_status_from_columns_def)

lemma begin_row_decodes: "is_ok (approval_from_row a) \<Longrightarrow> is_ok (approval_from_row (begin_row t d a))"
  by (auto simp: approval_from_row_ok begin_row_def approval_status_from_columns_def)

lemma resolve_row_decodes:
  "is_ok (approval_from_row a) \<Longrightarrow> ap_status a = ''responding'' \<Longrightarrow>
   is_ok (approval_from_row (resolve_row t a))"
  by (auto simp: approval_from_row_ok resolve_row_def approval_status_from_columns_def split: if_splits)

section \<open>One run transition\<close>

lemma apply_run_transition_Ok:
  assumes "apply_run_transition L c db = Ok (s, db')"
  obtains run n db1 voided db2 db3 where
    "fetch_run L (tr_run_id c) db = Ok run"
    "update_runs (\<lambda>r. rr_id r = tr_run_id c \<and> rr_status r = run_status_value (tr_expected_current c))
       (transition_row c) db = Ok (n, db1)" "n \<noteq> 0"
    "void_pending_approvals L c db1 = Ok (voided, db2)"
    "insert_audit (run_transition_audit L c voided) db2 = Ok db3"
    "bump_work_item_revision L (rs_work_item_id run) (tr_occurred_at c) db3 = Ok db'"
    "query_row L run_from_row (\<lambda>r. rr_id r = tr_run_id c) (runs db') = Ok s"
  using assms
  by (auto simp: apply_run_transition_def and_then_eq_Ok split: if_splits option.splits prod.splits)

lemma transition_row_simps [simp]:
  "rr_id (transition_row c r) = rr_id r" "rr_connection_id (transition_row c r) = rr_connection_id r"
  "rr_work_item_id (transition_row c r) = rr_work_item_id r"
  "rr_status (transition_row c r) = run_status_value (tr_target c)"
  "rr_ended_at_ms (transition_row c r) = ended_at_ms (tr_target c) (tr_occurred_at c)"
  "rr_created_at_ms (transition_row c r) = rr_created_at_ms r"
  by (simp_all add: transition_row_def)

lemma transition_row_decodes:
  assumes "wf_transition_run c" and "is_ok (run_from_row r)"
  shows "is_ok (run_from_row (transition_row c r))"
proof (cases "tr_provider_id c")
  case None
  with assms(2) show ?thesis
    by (simp add: run_from_row_ok) (simp add: transition_row_def coalesce_def)
next
  case (Some p)
  with assms(1) have "wf_run_identity p" by (simp add: wf_transition_run_def)
  then have "provider_run_identity_column (Some (pri_namespace p)) (Some (pri_runtime_id p))
      (Some (pri_session_id p)) (Some (pri_run_id p)) = Ok (Some p)"
    using provider_columns_ok [of "Some p"] by simp
  with Some show ?thesis
    by (simp add: run_from_row_ok) (simp add: transition_row_def coalesce_def)
qed

lemma runs_keys_update:
  assumes "\<And>r. rr_id (f r) = rr_id r" "\<And>r. rr_connection_id (f r) = rr_connection_id r"
    and "update_runs P f db = Ok (n, db')"
  shows "run_keys db' = run_keys db"
proof -
  let ?k = "\<lambda>x. (rr_connection_id x, rr_id x)"
  have "map ?k (update_where P f (runs db)) = map ?k (runs db)"
    using assms by (intro map_update_where) simp
  from arg_cong [OF this, of set] assms(3) show ?thesis
    by (simp add: run_keys_def update_runs_Ok)
qed

lemma run_inv_update:
  assumes inv: "run_inv db" and upd: "update_runs P f db = Ok (n, db')"
    and keeps: "\<And>r. rr_id (f r) = rr_id r"
    and dec: "\<And>r. r \<in> set (runs db) \<Longrightarrow> P r \<Longrightarrow> is_ok (run_from_row (f r))"
  shows "run_inv db'"
proof -
  have db': "db' = db\<lparr>runs := update_where P f (runs db)\<rparr>"
    and check: "\<forall>r\<in>set (runs db). P r \<longrightarrow> run_check db (f r)"
    and sorted: "sorted_wrt (\<lambda>x y. \<not> run_clash x y) (update_where P f (runs db))"
    using upd by (simp_all add: update_runs_Ok)
  have same: "run_check db' r = run_check db r" for r by (simp add: db' run_check_def)
  have "distinct (map rr_id (update_where P f (runs db)))"
    using inv keeps by (simp add: map_update_where run_inv_def)
  moreover have "run_check db r \<and> is_ok (run_from_row r)"
    if "r \<in> set (update_where P f (runs db))" for r
    using that check dec inv unfolding set_update_where run_inv_def by blast
  ultimately show ?thesis
    using sorted by (simp add: run_inv_def same) (simp add: db')
qed

text \<open>Voiding on a terminal target is what keeps \<open>pending_open\<close>.\<close>

lemma pending_open_transition:
  assumes inv: "pending_open db"
    and upd: "update_runs (\<lambda>r. rr_id r = tr_run_id c \<and> rr_status r = v) (transition_row c) db = Ok (n, db1)"
    and void: "void_pending_approvals L c db1 = Ok (voided, db2)"
  shows "pending_open db2"
proof -
  have db1: "db1 = db\<lparr>runs := update_where (\<lambda>r. rr_id r = tr_run_id c \<and> rr_status r = v)
      (transition_row c) (runs db)\<rparr>"
    using upd by (simp add: update_runs_Ok)
  have runs2: "runs db2 = runs db1"
    using void by (auto simp: void_pending_approvals_def update_approvals_Ok split: if_splits)
  have old: "a \<in> set (approval_requests db) \<and> (is_terminal (tr_target c) \<longrightarrow> ap_run_id a \<noteq> tr_run_id c)"
    if "a \<in> set (approval_requests db2)" "ap_status a = ''pending''" for a
    using void that
    by (auto simp: void_pending_approvals_def update_approvals_Ok db1 set_update_where void_row_def
        split: if_splits)
  show ?thesis
    unfolding pending_open_def
  proof (intro ballI impI)
    fix a r
    assume a: "a \<in> set (approval_requests db2)" and r: "r \<in> set (runs db2)"
      and st: "ap_status a = ''pending''" "rr_id r = ap_run_id a"
    from old [OF a st(1)] have a': "a \<in> set (approval_requests db)"
      and other: "is_terminal (tr_target c) \<longrightarrow> ap_run_id a \<noteq> tr_run_id c" by auto
    from r consider "r \<in> set (runs db)"
      | r' where "r = transition_row c r'" "rr_id r' = tr_run_id c"
      by (auto simp: runs2 db1 set_update_where)
    then show "\<not> finished (rr_status r)"
    proof cases
      case 1
      with inv a' st show ?thesis by (simp add: pending_open_def)
    next
      case 2
      with other st show ?thesis by auto
    qed
  qed
qed

lemma void_frame:
  assumes "void_pending_approvals L c db = Ok (voided, db')"
  shows "db\<lparr>approval_requests := approval_requests db'\<rparr> = db'"
  using assms by (auto simp: void_pending_approvals_def update_approvals_Ok split: if_splits)

lemma insert_audit_frame:
  assumes "insert_audit a db = Ok db'"
  obtains au where "db' = db\<lparr>audit_events := au\<rparr>"
  using assms by (auto simp: insert_audit_Ok)

lemma approval_rows_void:
  assumes rows: "approval_rows db" and void: "void_pending_approvals L c db = Ok (voided, db')"
  shows "approval_rows db'"
proof (cases "is_terminal (tr_target c)")
  case True
  with void have upd: "update_approvals (\<lambda>a. ap_run_id a = tr_run_id c \<and> ap_status a = ''pending'')
      (void_row (tr_occurred_at c)) db = Ok (voided, db')"
    by (simp add: void_pending_approvals_def)
  show ?thesis
  proof (rule approval_rows_update [OF rows upd])
    show "ap_id (void_row (tr_occurred_at c) a) = ap_id a" for a by (simp add: void_row_def)
    show "is_ok (approval_from_row (void_row (tr_occurred_at c) a))"
      if "a \<in> set (approval_requests db)" for a
      using that rows by (intro void_row_decodes) (simp add: approval_rows_def)
  qed
next
  case False
  with void rows show ?thesis by (simp add: void_pending_approvals_def)
qed

definition core_inv :: "db \<Rightarrow> bool" where
  "core_inv db \<longleftrightarrow> work_inv db \<and> run_inv db \<and> approval_inv db"

lemma core_inv_empty: "core_inv empty_db"
  by (simp add: core_inv_def work_inv_empty run_inv_empty approval_inv_empty)

text \<open>Tables that the invariant does not read, and revision bumps, keep it.\<close>

lemma core_inv_frame:
  assumes "projects db' = projects db" "work_items db' = work_items db" "work_edges db' = work_edges db"
    "runs db' = runs db" "approval_requests db' = approval_requests db"
  shows "core_inv db' = core_inv db"
proof -
  have "work_inv db' = work_inv db" using assms by (intro work_inv_frame)
  moreover have "run_inv db' = run_inv db"
    using assms by (simp add: run_inv_def run_check_def)
  moreover have "approval_inv db' = approval_inv db"
    using assms by (simp add: approval_inv_def approval_check_def has_run_def pending_open_def)
  ultimately show ?thesis by (simp add: core_inv_def)
qed

lemma core_inv_bump:
  assumes "core_inv db" and bump: "bump_work_item_revision L i t db = Ok db'"
  shows "core_inv db'"
proof -
  obtain items where "db' = db\<lparr>work_items := items\<rparr>" "work_keys db' = work_keys db"
    using bump by (rule bump_frame)
  with assms show ?thesis
    by (auto simp: core_inv_def intro: work_inv_bump run_inv_frame approval_inv_frame)
qed

lemma core_inv_transition:
  assumes inv: "core_inv db" and wf: "wf_transition_run c"
    and res: "apply_run_transition L c db = Ok (s, db')"
  shows "core_inv db'"
  using res
proof (rule apply_run_transition_Ok)
  fix run n db1 voided db2 db3
  let ?P = "\<lambda>r. rr_id r = tr_run_id c \<and> rr_status r = run_status_value (tr_expected_current c)"
  assume upd: "update_runs ?P (transition_row c) db = Ok (n, db1)"
    and void: "void_pending_approvals L c db1 = Ok (voided, db2)"
    and audit: "insert_audit (run_transition_audit L c voided) db2 = Ok db3"
    and bump: "bump_work_item_revision L (rs_work_item_id run) (tr_occurred_at c) db3 = Ok db'"
  have work: "work_inv db" and run: "run_inv db" and app: "approval_inv db"
    using inv by (auto simp: core_inv_def)
  have runs1: "db1 = db\<lparr>runs := runs db1\<rparr>" using upd by (simp add: update_runs_Ok)
  obtain ap where db2: "db2 = db1\<lparr>approval_requests := ap\<rparr>" using void_frame [OF void] by metis
  have "run_inv db1"
    using run upd by (rule run_inv_update) (use run wf in \<open>auto simp: run_inv_def intro: transition_row_decodes\<close>)
  then have run2: "run_inv db2" by (rule run_inv_frame [rotated 2]) (simp_all add: db2 work_keys_def)
  have work2: "work_inv db2"
    using work by (subst work_inv_frame [of _ db]) (simp_all add: db2, (subst runs1, simp)+)
  have "run_keys db1 = run_keys db" by (rule runs_keys_update [OF _ _ upd]) simp_all
  moreover have "approval_requests db1 = approval_requests db" by (subst runs1) simp
  ultimately have "approval_rows db1"
    using app by (intro approval_rows_frame [of db1 db]) (simp_all add: approval_inv_split)
  then have "approval_rows db2" using void by (rule approval_rows_void)
  moreover have "pending_open db2"
    using pending_open_transition [OF _ upd void] app by (simp add: approval_inv_split)
  ultimately have "core_inv db2" using work2 run2 by (simp add: core_inv_def approval_inv_split)
  moreover obtain au where "db3 = db2\<lparr>audit_events := au\<rparr>" using audit by (rule insert_audit_frame)
  ultimately have "core_inv db3" by (subst core_inv_frame [of db3 db2]) simp_all
  then show ?thesis using bump by (rule core_inv_bump)
qed

section \<open>The operations\<close>

definition wf_pending_approval :: "pending_approval \<Rightarrow> bool" where
  "wf_pending_approval a \<longleftrightarrow> wf_provider_id (pa_provider_id a)"

lemma core_inv_approvals: "core_inv db \<Longrightarrow> approval_inv db"
  by (simp add: core_inv_def)

lemma core_inv_create_run:
  "core_inv db \<Longrightarrow> wf_create_run c \<Longrightarrow> create_run L now c db = (Ok s, db') \<Longrightarrow> core_inv db'"
  unfolding core_inv_def using runs_create_run by blast

lemma core_inv_transition_run:
  assumes "core_inv db" and "wf_transition_run c" and "transition_run L c db = (Ok s, db')"
  shows "core_inv db'"
  using assms by (auto simp: transition_run_def job_simps intro: core_inv_transition)

lemma record_pending_approval_Ok:
  assumes "record_pending_approval L now a db = (Ok s, db')"
  shows "(find_approval L (pa_id a) db = Ok (Some s) \<and> db' = db) \<or>
    (\<exists>r db1. find_approval L (pa_id a) db = Ok None \<and>
       List.find (\<lambda>r. rr_id r = pa_run_id a) (runs db) = Some r \<and> rr_status r = ''running'' \<and>
       insert_approval (new_approval_row now (rr_connection_id r) a) db = Ok db1 \<and>
       bump_work_item_revision L (rr_work_item_id r) now db1 = Ok db' \<and>
       s = \<lparr>as_id = pa_id a, as_connection_id = rr_connection_id r, as_run_id = pa_run_id a,
            as_provider_id = pa_provider_id a, as_kind = pa_kind a, as_summary = pa_summary a,
            as_status = Pending, as_requested_at = now, as_response_started_at = None,
            as_resolved_at = None, as_voided_at = None\<rparr>)"
  using assms
  by (auto simp: record_pending_approval_def job_simps result_simps split: option.splits if_splits)

lemma new_approval_row_decodes:
  "wf_pending_approval a \<Longrightarrow> approval_from_row (new_approval_row now c a) =
     Ok \<lparr>as_id = pa_id a, as_connection_id = c, as_run_id = pa_run_id a,
         as_provider_id = pa_provider_id a, as_kind = pa_kind a, as_summary = pa_summary a,
         as_status = Pending, as_requested_at = now, as_response_started_at = None,
         as_resolved_at = None, as_voided_at = None\<rparr>"
  by (simp add: approval_from_row_def new_approval_row_def approval_status_from_columns_def
      conversion_failure_def wf_pending_approval_def wf_provider_id_def)

text \<open>A new approval of a running run is no obstacle: the run is not finished.\<close>

lemma approval_inv_insert:
  assumes inv: "approval_inv db" and ids: "distinct (map rr_id (runs db))"
    and find: "List.find (\<lambda>r. rr_id r = ap_run_id a) (runs db) = Some r"
    and open_run: "\<not> finished (rr_status r)"
    and ins: "insert_approval a db = Ok db'" and dec: "is_ok (approval_from_row a)"
  shows "approval_inv db'"
proof -
  have db': "db' = db\<lparr>approval_requests := approval_requests db @ [a]\<rparr>"
    and check: "approval_check db a"
    and free: "\<forall>x\<in>set (approval_requests db). \<not> approval_clash x a"
    using ins by (simp_all add: insert_approval_Ok)
  have same: "approval_check db' x = approval_check db x" for x
    by (simp add: db' approval_check_def has_run_def)
  have fresh: "ap_id a \<notin> ap_id ` set (approval_requests db)"
    unfolding notin_image using free by (auto simp: approval_clash_def)
  have r: "r \<in> set (runs db)" "rr_id r = ap_run_id a" using find by (auto dest: find_Some_iff')
  have "\<not> finished (rr_status x)" if "x \<in> set (runs db)" "rr_id x = ap_run_id a" for x
    using that r ids open_run by (metis distinct_map_inj)
  then have "pending_open db'"
    using inv unfolding pending_open_def approval_inv_def by (simp add: db')
  moreover have "approval_rows db'"
    using inv check free dec fresh
    by (simp add: approval_inv_def approval_rows_def same) (simp add: db' sorted_wrt_snoc)
  ultimately show ?thesis by (simp add: approval_inv_split)
qed

lemma core_inv_insert_approval:
  assumes inv: "core_inv db"
    and find: "List.find (\<lambda>r. rr_id r = ap_run_id a) (runs db) = Some r" "rr_status r = ''running''"
    and ins: "insert_approval a db = Ok db'" and dec: "is_ok (approval_from_row a)"
  shows "core_inv db'"
proof -
  have "distinct (map rr_id (runs db))" using inv by (simp add: core_inv_def run_inv_def)
  moreover have "\<not> finished (rr_status r)" using find(2) by (simp add: finished_def)
  ultimately have "approval_inv db'"
    using approval_inv_insert core_inv_approvals [OF inv] find(1) ins dec by blast
  moreover have "work_inv db' = work_inv db"
    using ins by (intro work_inv_frame) (simp_all add: insert_approval_Ok)
  moreover have "run_inv db'"
    using inv ins by (intro run_inv_frame [of db' db])
      (simp_all add: insert_approval_Ok core_inv_def work_keys_def)
  ultimately show ?thesis using inv by (simp add: core_inv_def)
qed

lemma core_inv_record_pending_approval:
  assumes inv: "core_inv db" and wf: "wf_pending_approval a"
    and res: "record_pending_approval L now a db = (Ok s, db')"
  shows "core_inv db'"
  using record_pending_approval_Ok [OF res]
proof (elim disjE exE conjE)
  assume "db' = db" with inv show ?thesis by simp
next
  fix r db1
  assume r: "List.find (\<lambda>r. rr_id r = pa_run_id a) (runs db) = Some r" "rr_status r = ''running''"
    and ins: "insert_approval (new_approval_row now (rr_connection_id r) a) db = Ok db1"
    and bump: "bump_work_item_revision L (rr_work_item_id r) now db1 = Ok db'"
  let ?row = "new_approval_row now (rr_connection_id r) a"
  have "List.find (\<lambda>r. rr_id r = ap_run_id ?row) (runs db) = Some r"
    using r(1) by (simp add: new_approval_row_def)
  moreover have "is_ok (approval_from_row ?row)" using wf by (simp add: new_approval_row_decodes)
  ultimately have "core_inv db1"
    using core_inv_insert_approval inv r(2) ins by blast
  then show ?thesis using bump by (rule core_inv_bump)
qed

lemma core_inv_update_approvals:
  assumes inv: "core_inv db" and upd: "update_approvals P f db = Ok (n, db')"
    and keeps: "\<And>a. ap_id (f a) = ap_id a"
    and dec: "\<And>a. a \<in> set (approval_requests db) \<Longrightarrow> P a \<Longrightarrow> is_ok (approval_from_row (f a))"
    and moves: "\<And>a. P a \<Longrightarrow> ap_status (f a) \<noteq> ''pending''"
  shows "core_inv db'"
proof -
  have "approval_inv db'"
    using inv by (intro approval_inv_update [OF _ upd keeps dec moves]) (simp_all add: core_inv_def)
  moreover have "work_inv db' = work_inv db"
    using upd by (intro work_inv_frame) (simp_all add: update_approvals_Ok)
  moreover have "run_inv db'"
    using inv upd by (intro run_inv_frame [of db' db])
      (simp_all add: update_approvals_Ok core_inv_def work_keys_def)
  ultimately show ?thesis using inv by (simp add: core_inv_def)
qed

lemma core_inv_insert_audit:
  assumes "core_inv db" and "insert_audit a db = Ok db'"
  shows "core_inv db'"
proof -
  obtain au where "db' = db\<lparr>audit_events := au\<rparr>" using assms(2) by (rule insert_audit_frame)
  then show ?thesis using assms(1) by (subst core_inv_frame [of db' db]) simp_all
qed

lemma core_inv_bump_if_known:
  "core_inv db \<Longrightarrow> bump_if_known L w t db = Ok db' \<Longrightarrow> core_inv db'"
  by (auto simp: bump_if_known_def intro: core_inv_bump split: option.splits)

lemma begin_approval_response_Ok:
  assumes "begin_approval_response L now c db = (Ok s, db')"
  obtains n db1 db2 where
    "update_approvals (\<lambda>a. ap_id a = ba_approval_id c \<and> ap_status a = ''pending'')
       (begin_row now (ba_decision c)) db = Ok (n, db1)" "n \<noteq> 0"
    "insert_audit (approval_audit L (ba_audit_event_id c) ''approval_response_begun''
       (ba_approval_id c) (ba_decision c) now) db1 = Ok db2"
    "bump_if_known L (approval_work_item db (ba_approval_id c)) now db2 = Ok db'"
    "get_approval L (ba_approval_id c) db' = Ok s"
  using assms
  by (auto simp: begin_approval_response_def job_simps and_then_eq_Ok Let_def split: if_splits)

lemma core_inv_begin_approval_response:
  assumes inv: "core_inv db" and res: "begin_approval_response L now c db = (Ok s, db')"
  shows "core_inv db'"
  using res
proof (rule begin_approval_response_Ok)
  fix n db1 db2
  assume upd: "update_approvals (\<lambda>a. ap_id a = ba_approval_id c \<and> ap_status a = ''pending'')
       (begin_row now (ba_decision c)) db = Ok (n, db1)"
    and audit: "insert_audit (approval_audit L (ba_audit_event_id c) ''approval_response_begun''
       (ba_approval_id c) (ba_decision c) now) db1 = Ok db2"
    and bump: "bump_if_known L (approval_work_item db (ba_approval_id c)) now db2 = Ok db'"
  have "core_inv db1"
    using inv upd
  proof (rule core_inv_update_approvals)
    show "is_ok (approval_from_row (begin_row now (ba_decision c) a))"
      if "a \<in> set (approval_requests db)" for a
      using that inv by (intro begin_row_decodes approval_decodes core_inv_approvals)
  qed (simp_all add: begin_row_def)
  then have "core_inv db2" using audit by (rule core_inv_insert_audit)
  then show ?thesis using bump by (rule core_inv_bump_if_known)
qed

lemma case_resolved_Ok:
  "(case st of Resolved d \<Rightarrow> f d | _ \<Rightarrow> Err e) = Ok x \<longleftrightarrow> (\<exists>d. st = Resolved d \<and> f d = Ok x)"
  by (cases st) auto

lemma confirm_approval_response_Ok:
  assumes "confirm_approval_response L now c db = (Ok s, db')"
  obtains n db1 db2 d where
    "update_approvals (\<lambda>a. ap_id a = ca_approval_id c \<and> ap_status a = ''responding'')
       (resolve_row now) db = Ok (n, db1)" "n \<noteq> 0"
    "bump_if_known L (approval_work_item db (ca_approval_id c)) now db1 = Ok db2"
    "get_approval L (ca_approval_id c) db2 = Ok s" "as_status s = Resolved d"
    "insert_audit (approval_audit L (ca_audit_event_id c) ''approval_response_confirmed''
       (ca_approval_id c) d now) db2 = Ok db'"
  using assms
  by (auto simp: confirm_approval_response_def job_simps and_then_eq_Ok Let_def case_resolved_Ok
      split: if_split_asm)

lemma core_inv_confirm_approval_response:
  assumes inv: "core_inv db" and res: "confirm_approval_response L now c db = (Ok s, db')"
  shows "core_inv db'"
  using res
proof (rule confirm_approval_response_Ok)
  fix n db1 db2 d
  assume upd: "update_approvals (\<lambda>a. ap_id a = ca_approval_id c \<and> ap_status a = ''responding'')
       (resolve_row now) db = Ok (n, db1)"
    and bump: "bump_if_known L (approval_work_item db (ca_approval_id c)) now db1 = Ok db2"
    and audit: "insert_audit (approval_audit L (ca_audit_event_id c) ''approval_response_confirmed''
       (ca_approval_id c) d now) db2 = Ok db'"
  have "core_inv db1"
    using inv upd
  proof (rule core_inv_update_approvals)
    show "is_ok (approval_from_row (resolve_row now a))"
      if "a \<in> set (approval_requests db)" "ap_id a = ca_approval_id c \<and> ap_status a = ''responding''" for a
      using that inv by (intro resolve_row_decodes approval_decodes core_inv_approvals) simp_all
  qed (simp_all add: resolve_row_def)
  then have "core_inv db2" using bump by (rule core_inv_bump_if_known)
  then show ?thesis using audit by (rule core_inv_insert_audit)
qed

end
