(* ===== verification/Store_Timeline.thy ===== *)
theory Store_Timeline
  imports Run_Laws
begin

text \<open>
  The durable timeline (\<^verbatim>\<open>sqlite.rs\<close>): \<open>find_stream_cursor\<close>, \<open>timeline_payload_digest\<close>,
  \<open>append_timeline_batch\<close>, \<open>get_stream_cursor\<close>, \<open>list_timeline_page\<close> and
  \<open>list_pending_user_inputs_for_run\<close>. The invariant says that the items of a run carry the
  revisions 1, 2, 3, ... in the order of insertion, and that the cursors of the run's streams add up
  to the number of its items.
\<close>

section \<open>Stream cursors and digests\<close>

record persisted_stream_cursor =
  psc_connection_id :: connection_id
  psc_run_id :: run_id
  psc_cursor :: stream_cursor
  psc_last_batch_id :: timeline_batch_id
  psc_last_start_cursor :: stream_cursor
  psc_last_payload_digest :: string

definition cursor_from_row ::
    "'z store_libs_scheme \<Rightarrow> cursor_row \<Rightarrow> sql_error + persisted_stream_cursor" where
  "cursor_from_row L r =
     and_then (u64_column 2 (pc_cursor r)) (\<lambda>c.
     and_then (ensure (is_v7 L (pc_last_batch_id r)) InvalidQuery) (\<lambda>_.
     and_then (u64_column 4 (pc_last_start_cursor r)) (\<lambda>s.
     Ok \<lparr>psc_connection_id = pc_connection_id r, psc_run_id = pc_run_id r, psc_cursor = c,
         psc_last_batch_id = pc_last_batch_id r, psc_last_start_cursor = s,
         psc_last_payload_digest = pc_last_payload_digest r\<rparr>)))"

definition cursor_key :: "connection_id \<Rightarrow> run_id \<Rightarrow> string \<Rightarrow> string \<Rightarrow> cursor_row \<Rightarrow> bool" where
  "cursor_key c r ns st x \<longleftrightarrow>
     pc_connection_id x = c \<and> pc_run_id x = r \<and> pc_source_namespace x = ns \<and> pc_stream_id x = st"

definition find_stream_cursor ::
    "'z store_libs_scheme \<Rightarrow> connection_id \<Rightarrow> run_id \<Rightarrow> string \<Rightarrow> string \<Rightarrow> db \<Rightarrow>
     store_error + persisted_stream_cursor option" where
  "find_stream_cursor L c r ns st db =
     query_optional L (cursor_from_row L) (cursor_key c r ns st) (projection_cursors db)"

definition to_le_bytes :: "u64 \<Rightarrow> byte list" where
  "to_le_bytes w = map (\<lambda>i. ucast (drop_bit (8 * i) w)) [0..<8]"

definition byte_string :: "string \<Rightarrow> byte list" where
  "byte_string s = map of_char s"

definition add_bytes :: "string \<Rightarrow> byte list" where
  "add_bytes s = to_le_bytes (of_nat (length s)) @ byte_string s"

definition item_preimage :: "'z libs_scheme \<Rightarrow> new_timeline_item \<Rightarrow> byte list" where
  "item_preimage L i =
     add_bytes (id_text L (ni_id i)) @ add_bytes (ni_kind i) @ add_bytes (ni_body i) @
     (case ni_provider_id i of
        Some p \<Rightarrow> [1] @ add_bytes (np_namespace p) @ add_bytes (np_value p)
      | None \<Rightarrow> [0])"

definition digest_preimage :: "'z libs_scheme \<Rightarrow> new_timeline_item list \<Rightarrow> byte list" where
  "digest_preimage L items =
     byte_string ''yakshed.timeline-batch.v1'' @ [0] @ to_le_bytes (of_nat (length items)) @
     concat (map (item_preimage L) items)"

definition hex_char :: "nat \<Rightarrow> char" where
  "hex_char n = (if n < 10 then char_of (48 + n) else char_of (87 + n))"

definition hex_byte :: "byte \<Rightarrow> string" where
  "hex_byte b = [hex_char (unat b div 16), hex_char (unat b mod 16)]"

definition timeline_payload_digest ::
    "'z store_libs_scheme \<Rightarrow> new_timeline_item list \<Rightarrow> string" where
  "timeline_payload_digest L items = concat (map hex_byte (lib_sha256 L (digest_preimage L items)))"

section \<open>Operations\<close>

definition try_from_int_error :: string where
  "try_from_int_error = ''out of range integral type conversion attempted''"

definition validate_batch :: "'z libs_scheme \<Rightarrow> timeline_batch \<Rightarrow> store_error + unit" where
  "validate_batch L b =
     and_then (validate_app_id ''timeline batch id'' (is_v7 L (tb_batch_id b))) (\<lambda>_.
     and_then (validate_text ''projection source namespace'' (tb_source_namespace b)) (\<lambda>_.
     and_then (validate_text ''projection stream id'' (tb_stream_id b)) (\<lambda>_.
     map_ok (\<lambda>_. ()) (collect_results (\<lambda>i.
       and_then (validate_app_id ''timeline item id'' (is_v7 L (ni_id i))) (\<lambda>_.
       validate_text ''timeline item kind'' (ni_kind i))) (tb_items b)))))"

text \<open>The \<open>match\<close> on the stored cursor: replay, conflict, or append.\<close>

datatype append_decision = Replay stream_cursor | Append

definition decide_append ::
    "timeline_batch \<Rightarrow> string \<Rightarrow> int \<Rightarrow> persisted_stream_cursor option \<Rightarrow>
     store_error + append_decision" where
  "decide_append b digest expected cursor =
     (case cursor of
        Some c \<Rightarrow>
          if psc_connection_id c \<noteq> tb_connection_id b \<or> psc_run_id c \<noteq> tb_run_id b
          then Err (Conflict ''projection stream is already bound to a different run'')
          else if psc_last_batch_id c = tb_batch_id b \<and>
                  psc_last_start_cursor c = tb_expected_stream_revision b \<and>
                  psc_last_payload_digest c = digest
          then Ok (Replay (psc_cursor c))
          else if psc_last_batch_id c = tb_batch_id b
          then Err (Conflict ''timeline batch retry does not match its committed receipt'')
          else if psc_cursor c \<noteq> tb_expected_stream_revision b
          then Err (Conflict (''projection cursor conflict: expected '' @ decimal expected @
                              '', current '' @ decimal (uint (psc_cursor c))))
          else Ok Append
      | None \<Rightarrow>
          if expected \<noteq> 0
          then Err (Conflict (''projection cursor conflict: expected '' @ decimal expected @
                              '', current 0''))
          else Ok Append)"

definition max_revision :: "run_id \<Rightarrow> db \<Rightarrow> int" where
  "max_revision r db =
     (case map tl_revision (filter (\<lambda>t. tl_run_id t = r) (timeline_items db)) of
        [] \<Rightarrow> 0
      | x # xs \<Rightarrow> fold max xs x)"

definition new_timeline_row ::
    "timeline_batch \<Rightarrow> utc_timestamp \<Rightarrow> int \<Rightarrow> new_timeline_item \<Rightarrow> timeline_row" where
  "new_timeline_row b now revision i =
     \<lparr>tl_id = ni_id i, tl_connection_id = tb_connection_id b, tl_run_id = tb_run_id b,
      tl_revision = revision, tl_kind = ni_kind i, tl_body = ni_body i,
      tl_provider_namespace = map_option np_namespace (ni_provider_id i),
      tl_provider_item_id = map_option np_value (ni_provider_id i), tl_created_at_ms = now\<rparr>"

fun append_items ::
    "'z store_libs_scheme \<Rightarrow> timeline_batch \<Rightarrow> utc_timestamp \<Rightarrow> int \<Rightarrow> new_timeline_item list \<Rightarrow> db \<Rightarrow>
     store_error + db" where
  "append_items L b now revision [] db = Ok db"
| "append_items L b now revision (i # is) db =
     (case i64_checked_add revision 1 of
        None \<Rightarrow> Err (Conflict ''timeline revision overflow'')
      | Some next \<Rightarrow>
          and_then (sql L (insert_timeline_item (new_timeline_row b now next i) db))
            (append_items L b now next is))"

definition new_cursor_row ::
    "timeline_batch \<Rightarrow> utc_timestamp \<Rightarrow> string \<Rightarrow> int \<Rightarrow> int \<Rightarrow> cursor_row" where
  "new_cursor_row b now digest expected cursor =
     \<lparr>pc_connection_id = tb_connection_id b, pc_source_namespace = tb_source_namespace b,
      pc_stream_id = tb_stream_id b, pc_run_id = tb_run_id b, pc_cursor = cursor,
      pc_last_batch_id = tb_batch_id b, pc_last_start_cursor = expected,
      pc_last_payload_digest = digest, pc_updated_at_ms = now\<rparr>"

definition append_new ::
    "'z store_libs_scheme \<Rightarrow> utc_timestamp \<Rightarrow> timeline_batch \<Rightarrow> string \<Rightarrow> int \<Rightarrow> work_item_id \<Rightarrow> db \<Rightarrow>
     store_error + (stream_cursor \<times> db)" where
  "append_new L now b digest expected w db =
     (if int (length (tb_items b)) > i64_max then Err (Conflict try_from_int_error)
      else
        and_then (append_items L b now (max_revision (tb_run_id b) db) (tb_items b) db) (\<lambda>db1.
        case i64_checked_add expected (int (length (tb_items b))) of
          None \<Rightarrow> Err (Conflict ''projection cursor overflow'')
        | Some cursor \<Rightarrow>
            and_then (sql L (upsert_cursor (new_cursor_row b now digest expected cursor) db1)) (\<lambda>db2.
            and_then (bump_work_item_revision L w now db2) (\<lambda>db3.
            case u64_of_i64 cursor of
              None \<Rightarrow> Err (Backend try_from_int_error)
            | Some c \<Rightarrow> Ok (c, db3)))))"

text \<open>
  The first query is optional, the second is not: on a missing run it fails, before the
  \<open>NotFound\<close> branch below it is reached.
\<close>

definition append_timeline_batch ::
    "'z store_libs_scheme \<Rightarrow> utc_timestamp \<Rightarrow> timeline_batch \<Rightarrow> stream_cursor job" where
  "append_timeline_batch L now b =
     validated (validate_batch L b)
     (transaction (\<lambda>db.
       let digest = timeline_payload_digest L (tb_items b) in
       and_then (query_optional L (\<lambda>r. Ok (rr_connection_id r)) (\<lambda>r. rr_id r = tb_run_id b)
                   (runs db)) (\<lambda>run_connection.
       and_then (query_row L (\<lambda>r. Ok (rr_work_item_id r)) (\<lambda>r. rr_id r = tb_run_id b)
                   (runs db)) (\<lambda>w.
       case run_connection of
         None \<Rightarrow> Err (NotFound ''run'' (id_text L (tb_run_id b)))
       | Some c \<Rightarrow>
           if c \<noteq> tb_connection_id b
           then Err (Conflict ''run belongs to a different connection'')
           else (case i64_of_u64 (tb_expected_stream_revision b) of
             None \<Rightarrow> Err (Conflict try_from_int_error)
           | Some expected \<Rightarrow>
               and_then (find_stream_cursor L (tb_connection_id b) (tb_run_id b)
                           (tb_source_namespace b) (tb_stream_id b) db) (\<lambda>cursor.
               and_then (decide_append b digest expected cursor) (\<lambda>decision.
               case decision of
                 Replay at \<Rightarrow> Ok (at, db)
               | Append \<Rightarrow> append_new L now b digest expected w db)))))))"

definition get_stream_cursor ::
    "'z store_libs_scheme \<Rightarrow> get_stream_cursor_query \<Rightarrow> stream_cursor_state option job" where
  "get_stream_cursor L q =
     validated
       (and_then (validate_text ''projection source namespace'' (gs_source_namespace q)) (\<lambda>_.
          validate_text ''projection stream id'' (gs_stream_id q)))
     (read_only (\<lambda>db.
       and_then (find_stream_cursor L (gs_connection_id q) (gs_run_id q)
                   (gs_source_namespace q) (gs_stream_id q) db) (\<lambda>cursor.
       case cursor of
         None \<Rightarrow> Ok None
       | Some c \<Rightarrow>
           if psc_connection_id c \<noteq> gs_connection_id q \<or> psc_run_id c \<noteq> gs_run_id q
           then Err (Conflict ''projection stream is bound to a different run'')
           else Ok (Some \<lparr>scs_cursor = psc_cursor c, scs_last_batch_id = psc_last_batch_id c\<rparr>))))"

definition list_timeline_page ::
    "'z store_libs_scheme \<Rightarrow> list_timeline_query \<Rightarrow> timeline_page job" where
  "list_timeline_page L q =
     read_only (\<lambda>db.
       and_then (validate_page_size (lt_limit q)) (\<lambda>n.
       and_then (case lt_after q of
                   None \<Rightarrow> Ok None
                 | Some r \<Rightarrow> (case i64_of_u64 r of
                     None \<Rightarrow> Err (Conflict try_from_int_error)
                   | Some i \<Rightarrow> Ok (Some i))) (\<lambda>after.
       list_page L tl_revision timeline_item_from_row ts_revision
         (\<lambda>t. tl_run_id t = lt_run_id q) after n (timeline_items db))))"

definition user_input_from_row :: "timeline_row \<Rightarrow> sql_error + pending_user_input_snapshot" where
  "user_input_from_row t =
     and_then (provider_id (tl_provider_namespace t) (tl_provider_item_id t)) (\<lambda>p.
       case p of
         None \<Rightarrow> Err (InvalidColumnType 3 ''provider_namespace'')
       | Some x \<Rightarrow> Ok \<lparr>ui_id = tl_id t, ui_run_id = tl_run_id t, ui_prompt = tl_body t,
                       ui_provider_id = x\<rparr>)"

definition pending_input ::
    "'z store_libs_scheme \<Rightarrow> run_id \<Rightarrow> timeline_row list \<Rightarrow> timeline_row \<Rightarrow> bool" where
  "pending_input L r items t \<longleftrightarrow>
     tl_run_id t = r \<and> tl_kind t = ''user_input_requested'' \<and>
     \<not> list_ex (\<lambda>x. tl_run_id x = tl_run_id t \<and> tl_kind x = ''user_input_responded'' \<and>
                    tl_body x = id_text L (tl_id t)) items"

definition list_pending_user_inputs_for_run ::
    "'z store_libs_scheme \<Rightarrow> run_id \<Rightarrow> timeline_item_id option \<Rightarrow> u32 \<Rightarrow>
     pending_user_input_page job" where
  "list_pending_user_inputs_for_run L r after limit =
     read_only (\<lambda>db. and_then (validate_page_size limit) (\<lambda>n.
       list_page L tl_id user_input_from_row ui_id (pending_input L r (timeline_items db))
         after n (timeline_items db)))"

section \<open>The invariant of the timeline\<close>

definition run_items :: "run_id \<Rightarrow> db \<Rightarrow> timeline_row list" where
  "run_items r db = filter (\<lambda>t. tl_run_id t = r) (timeline_items db)"

definition run_cursors :: "run_id \<Rightarrow> db \<Rightarrow> cursor_row list" where
  "run_cursors r db = filter (\<lambda>c. pc_run_id c = r) (projection_cursors db)"

definition contiguous :: "run_id \<Rightarrow> db \<Rightarrow> bool" where
  "contiguous r db \<longleftrightarrow>
     map tl_revision (run_items r db) = map (\<lambda>n. int n + 1) [0..<length (run_items r db)]"

definition balanced :: "run_id \<Rightarrow> db \<Rightarrow> bool" where
  "balanced r db \<longleftrightarrow>
     sum_list (map pc_cursor (run_cursors r db)) = int (length (run_items r db))"

definition cursor_ident :: "cursor_row \<Rightarrow> connection_id \<times> run_id \<times> string \<times> string" where
  "cursor_ident c = (pc_connection_id c, pc_run_id c, pc_source_namespace c, pc_stream_id c)"

definition items_inv :: "db \<Rightarrow> bool" where
  "items_inv db \<longleftrightarrow>
     distinct (map tl_id (timeline_items db)) \<and>
     sorted_wrt (\<lambda>x y. \<not> timeline_clash x y) (timeline_items db) \<and>
     (\<forall>t\<in>set (timeline_items db).
        timeline_check db t \<and> is_ok (timeline_item_from_row t) \<and> tl_revision t \<le> i64_max) \<and>
     (\<forall>r. contiguous r db)"

definition cursor_ok :: "'z store_libs_scheme \<Rightarrow> db \<Rightarrow> cursor_row \<Rightarrow> bool" where
  "cursor_ok L db c \<longleftrightarrow>
     cursor_check db c \<and> is_v7 L (pc_last_batch_id c) \<and>
     pc_last_start_cursor c \<le> pc_cursor c \<and> pc_cursor c \<le> i64_max"

definition cursors_inv :: "'z store_libs_scheme \<Rightarrow> db \<Rightarrow> bool" where
  "cursors_inv L db \<longleftrightarrow>
     distinct (map cursor_ident (projection_cursors db)) \<and>
     (\<forall>c\<in>set (projection_cursors db). cursor_ok L db c)"

definition timeline_inv :: "'z store_libs_scheme \<Rightarrow> db \<Rightarrow> bool" where
  "timeline_inv L db \<longleftrightarrow> items_inv db \<and> cursors_inv L db \<and> (\<forall>r. balanced r db)"

definition wf_timeline_batch :: "timeline_batch \<Rightarrow> bool" where
  "wf_timeline_batch b \<longleftrightarrow>
     list_all (\<lambda>i. \<forall>p. ni_provider_id i = Some p \<longrightarrow> wf_provider_id p) (tb_items b)"

lemma timeline_inv_empty: "timeline_inv L empty_db"
  by (simp add: timeline_inv_def items_inv_def cursors_inv_def empty_db_def contiguous_def
      balanced_def run_items_def run_cursors_def)

lemma items_inv_frame:
  assumes "timeline_items db' = timeline_items db" and "run_keys db \<subseteq> run_keys db'" and "items_inv db"
  shows "items_inv db'"
proof -
  have "run_items r db' = run_items r db" for r using assms(1) by (simp add: run_items_def)
  then have "contiguous r db' = contiguous r db" for r by (simp add: contiguous_def)
  moreover have "\<forall>t\<in>set (timeline_items db). timeline_check db' t"
    using assms(2,3) timeline_check_mono unfolding items_inv_def by blast
  ultimately show ?thesis using assms(1,3) by (simp add: items_inv_def)
qed

lemma cursors_inv_frame:
  assumes "projection_cursors db' = projection_cursors db" and "run_keys db \<subseteq> run_keys db'"
    and "cursors_inv L db"
  shows "cursors_inv L db'"
proof -
  have "\<forall>c\<in>set (projection_cursors db). cursor_ok L db' c"
    using assms(2,3) cursor_check_mono unfolding cursors_inv_def cursor_ok_def by blast
  then show ?thesis using assms(1,3) by (simp add: cursors_inv_def)
qed

lemma timeline_inv_frame:
  assumes "timeline_items db' = timeline_items db" and "projection_cursors db' = projection_cursors db"
    and "run_keys db \<subseteq> run_keys db'" and "timeline_inv L db"
  shows "timeline_inv L db'"
proof -
  have "balanced r db' = balanced r db" for r
    using assms(1,2) by (simp add: balanced_def run_items_def run_cursors_def)
  then show ?thesis
    using assms items_inv_frame cursors_inv_frame unfolding timeline_inv_def by metis
qed

lemma max_revision_contiguous:
  assumes "contiguous r db"
  shows "max_revision r db = int (length (run_items r db))"
proof (cases "run_items r db")
  case Nil
  then show ?thesis by (simp add: max_revision_def run_items_def)
next
  case (Cons t ts)
  let ?n = "length (run_items r db)"
  have revs: "map tl_revision (run_items r db) = map (\<lambda>n. int n + 1) [0..<?n]"
    using assms by (simp add: contiguous_def)
  have "max_revision r db = Max (set (tl_revision t # map tl_revision ts))"
    unfolding Max.set_eq_fold using Cons by (simp add: max_revision_def run_items_def [symmetric])
  also have "\<dots> = Max (set (map tl_revision (run_items r db)))" using Cons by simp
  also have "\<dots> = Max ((\<lambda>n. int n + 1) ` {0..<?n})" by (simp add: revs)
  also have "\<dots> = int ?n"
  proof (rule Max_eqI)
    show "int ?n \<in> (\<lambda>n. int n + 1) ` {0..<?n}"
      using Cons by (intro image_eqI [of _ _ "?n - 1"]) auto
  qed auto
  finally show ?thesis .
qed

section \<open>Appending keeps the invariant\<close>

lemma items_inv_insert:
  assumes inv: "items_inv db" and ins: "insert_timeline_item t db = Ok db'"
    and dec: "is_ok (timeline_item_from_row t)"
    and next_rev: "tl_revision t = int (length (run_items (tl_run_id t) db)) + 1"
    and bound: "tl_revision t \<le> i64_max"
  shows "items_inv db'"
proof -
  have db': "db' = db\<lparr>timeline_items := timeline_items db @ [t]\<rparr>"
    and check: "timeline_check db t"
    and free: "\<forall>x\<in>set (timeline_items db). \<not> timeline_clash x t"
    using ins by (simp_all add: insert_timeline_item_Ok)
  have same: "timeline_check db' x = timeline_check db x" for x
    by (simp add: db' timeline_check_def has_run_def)
  have fresh: "tl_id t \<notin> tl_id ` set (timeline_items db)"
    unfolding notin_image using free by (auto simp: timeline_clash_def)
  have "run_items r db' = run_items r db @ (if tl_run_id t = r then [t] else [])" for r
    by (simp add: db' run_items_def)
  then have "contiguous r db'" for r
    using inv next_rev by (auto simp: contiguous_def items_inv_def)
  with inv check free dec fresh bound show ?thesis
    by (simp add: items_inv_def same) (simp add: db' sorted_wrt_snoc)
qed

lemma new_timeline_row_decodes:
  assumes "\<forall>p. ni_provider_id i = Some p \<longrightarrow> wf_provider_id p" and "0 \<le> k"
  shows "is_ok (timeline_item_from_row (new_timeline_row b now k i))"
  using assms
  by (cases "ni_provider_id i")
    (auto simp: timeline_item_from_row_def new_timeline_row_def u64_column_def u64_of_i64_def
      provider_id_def conversion_failure_def wf_provider_id_def)

lemma append_items_step:
  assumes "append_items L b now k (i # is) db = Ok db'"
  obtains db1 where "k + 1 \<le> i64_max"
    "insert_timeline_item (new_timeline_row b now (k + 1) i) db = Ok db1"
    "append_items L b now (k + 1) is db1 = Ok db'"
  using assms by (auto simp: and_then_eq_Ok split: option.splits)

lemma append_items_inv:
  assumes "append_items L b now k is db = Ok db'" and "items_inv db"
    and "k = int (length (run_items (tb_run_id b) db))"
    and "list_all (\<lambda>i. \<forall>p. ni_provider_id i = Some p \<longrightarrow> wf_provider_id p) is"
  shows "items_inv db' \<and> db\<lparr>timeline_items := timeline_items db'\<rparr> = db' \<and>
    (\<forall>r. length (run_items r db') =
          length (run_items r db) + (if r = tb_run_id b then length is else 0))"
  using assms
proof (induction "is" arbitrary: k db)
  case Nil
  then show ?case by auto
next
  case (Cons i "is")
  from Cons.prems(1) obtain db1 where bound: "k + 1 \<le> i64_max"
    and ins: "insert_timeline_item (new_timeline_row b now (k + 1) i) db = Ok db1"
    and rest: "append_items L b now (k + 1) is db1 = Ok db'" by (rule append_items_step)
  have run: "tl_run_id (new_timeline_row b now (k + 1) i) = tb_run_id b"
    by (simp add: new_timeline_row_def)
  have db1: "db1 = db\<lparr>timeline_items := timeline_items db @ [new_timeline_row b now (k + 1) i]\<rparr>"
    using ins by (simp add: insert_timeline_item_Ok)
  have len: "length (run_items r db1) = length (run_items r db) + (if r = tb_run_id b then 1 else 0)" for r
    using run by (simp add: db1 run_items_def)
  have "items_inv db1"
    using Cons.prems(2) ins
  proof (rule items_inv_insert)
    show "is_ok (timeline_item_from_row (new_timeline_row b now (k + 1) i))"
      using Cons.prems(3,4) by (intro new_timeline_row_decodes) auto
    show "tl_revision (new_timeline_row b now (k + 1) i) =
        int (length (run_items (tl_run_id (new_timeline_row b now (k + 1) i)) db)) + 1"
      unfolding run using Cons.prems(3) by (simp add: new_timeline_row_def)
    show "tl_revision (new_timeline_row b now (k + 1) i) \<le> i64_max"
      using bound by (simp add: new_timeline_row_def)
  qed
  moreover have "k + 1 = int (length (run_items (tb_run_id b) db1))"
    using Cons.prems(3) by (simp add: len)
  moreover have "list_all (\<lambda>i. \<forall>p. ni_provider_id i = Some p \<longrightarrow> wf_provider_id p) is"
    using Cons.prems(4) by simp
  ultimately have "items_inv db' \<and> db1\<lparr>timeline_items := timeline_items db'\<rparr> = db' \<and>
    (\<forall>r. length (run_items r db') =
          length (run_items r db1) + (if r = tb_run_id b then length is else 0))"
    using Cons.IH rest by blast
  then show ?case by (auto simp: len) (simp add: db1)
qed

text \<open>Replacing one row changes a sum by the difference.\<close>

lemma sum_update_one:
  fixes g :: "'r \<Rightarrow> int"
  assumes "filter P rows = [x]" and "Q r = Q x"
  shows "sum_list (map g (filter Q (update_where P (\<lambda>_. r) rows))) =
         sum_list (map g (filter Q rows)) + (if Q x then g r - g x else 0)"
  using assms
proof (induction rows)
  case Nil
  then show ?case by simp
next
  case (Cons a rows)
  show ?case
  proof (cases "P a")
    case True
    with Cons.prems have a: "a = x" and "filter P rows = []" by simp_all
    then have "update_where P (\<lambda>_. r) rows = rows"
      by (intro update_where_none) (simp add: filter_empty_conv)
    then show ?thesis using a True Cons.prems(2) by (simp add: update_where_def)
  next
    case False
    with Cons show ?thesis by (simp add: update_where_def)
  qed
qed

lemma filter_unique:
  assumes "distinct (map k rows)" and "x \<in> set rows" and "k x = v"
  shows "filter (\<lambda>y. k y = v) rows = [x]"
  using assms
proof (induction rows)
  case Nil
  then show ?case by simp
next
  case (Cons a rows)
  show ?case
  proof (cases "k a = v")
    case True
    with Cons.prems have "v \<notin> k ` set rows" by auto
    then have "filter (\<lambda>y. k y = v) rows = []" by (simp add: filter_empty_conv notin_image)
    moreover have "a = x"
      using True Cons.prems by (metis distinct_map_inj list.set_intros(1))
    ultimately show ?thesis using True by simp
  next
    case False
    with Cons show ?thesis by auto
  qed
qed

lemma cursor_clash_ident: "cursor_clash x y \<longleftrightarrow> cursor_ident x = cursor_ident y"
  by (auto simp: cursor_clash_def cursor_ident_def)

lemma cursor_key_new:
  "cursor_key (tb_connection_id b) (tb_run_id b) (tb_source_namespace b) (tb_stream_id b) x \<longleftrightarrow>
     cursor_clash x (new_cursor_row b now d e c)"
  by (simp add: cursor_key_def cursor_clash_def new_cursor_row_def)

text \<open>The stream's old cursor, 0 when there is none, is what the new one replaces.\<close>

definition old_cursor :: "cursor_row \<Rightarrow> db \<Rightarrow> int" where
  "old_cursor c db =
     (case List.find (\<lambda>x. cursor_clash x c) (projection_cursors db) of
        None \<Rightarrow> 0 | Some x \<Rightarrow> pc_cursor x)"

lemma upsert_cursor_inv:
  assumes inv: "cursors_inv L db" and ins: "upsert_cursor c db = Ok db'"
    and ok: "is_v7 L (pc_last_batch_id c)" "pc_last_start_cursor c \<le> pc_cursor c" "pc_cursor c \<le> i64_max"
  shows "cursors_inv L db' \<and> db\<lparr>projection_cursors := projection_cursors db'\<rparr> = db' \<and>
    (\<forall>r. sum_list (map pc_cursor (run_cursors r db')) =
       sum_list (map pc_cursor (run_cursors r db)) +
       (if r = pc_run_id c then pc_cursor c - old_cursor c db else 0))"
proof (cases "List.find (\<lambda>x. cursor_clash x c) (projection_cursors db)")
  case None
  then have free: "\<forall>x\<in>set (projection_cursors db). \<not> cursor_clash x c" by (simp add: find_None_iff')
  with ins have db': "db' = db\<lparr>projection_cursors := projection_cursors db @ [c]\<rparr>" and c: "cursor_check db c"
    by (auto simp: upsert_cursor_def list_ex_iff split: if_splits)
  have same: "cursor_ok L db' x = cursor_ok L db x" for x
    by (simp add: db' cursor_ok_def cursor_check_def has_run_def)
  have "cursor_ident c \<notin> cursor_ident ` set (projection_cursors db)"
    unfolding notin_image using free by (simp add: cursor_clash_ident)
  then have "cursors_inv L db'"
    using inv c ok by (simp add: cursors_inv_def same) (simp add: db' cursor_ok_def)
  then show ?thesis
    by (auto simp: db' run_cursors_def old_cursor_def None)
next
  case (Some x)
  let ?P = "\<lambda>y. cursor_clash y c"
  from Some have x: "x \<in> set (projection_cursors db)" "cursor_clash x c" by (auto dest: find_Some_iff')
  with ins have db': "db' = db\<lparr>projection_cursors := update_where ?P (\<lambda>_. c) (projection_cursors db)\<rparr>"
    and c: "cursor_check db c"
    by (auto simp: upsert_cursor_def list_ex_iff split: if_splits)
  have keys: "distinct (map cursor_ident (projection_cursors db))" using inv by (simp add: cursors_inv_def)
  have uniq: "filter ?P (projection_cursors db) = [x]"
    unfolding cursor_clash_ident using keys x by (intro filter_unique) (simp_all add: cursor_clash_ident)
  have same: "cursor_ok L db' x = cursor_ok L db x" for x
    by (simp add: db' cursor_ok_def cursor_check_def has_run_def)
  have ident: "map cursor_ident (update_where ?P (\<lambda>_. c) (projection_cursors db)) =
      map cursor_ident (projection_cursors db)"
    by (rule map_update_where) (simp add: cursor_clash_ident)
  have "cursor_ok L db c" using c ok by (simp add: cursor_ok_def)
  then have "\<forall>y\<in>set (update_where ?P (\<lambda>_. c) (projection_cursors db)). cursor_ok L db y"
    using inv by (auto simp: set_update_where cursors_inv_def)
  then have "cursors_inv L db'"
    using keys by (simp add: cursors_inv_def same) (simp add: db' ident)
  moreover have "pc_run_id x = pc_run_id c" using x(2) by (simp add: cursor_clash_def)
  moreover have "projection_cursors db' = update_where ?P (\<lambda>_. c) (projection_cursors db)"
    by (simp add: db')
  ultimately have "sum_list (map pc_cursor (run_cursors r db')) =
       sum_list (map pc_cursor (run_cursors r db)) +
       (if pc_run_id x = r then pc_cursor c - pc_cursor x else 0)" for r
    using sum_update_one [OF uniq, of "\<lambda>c. pc_run_id c = r" c pc_cursor] by (simp add: run_cursors_def)
  with \<open>cursors_inv L db'\<close> \<open>pc_run_id x = pc_run_id c\<close> show ?thesis
    by (auto simp: old_cursor_def Some) (simp add: db')
qed

lemma append_new_Ok:
  assumes "append_new L now b digest expected w db = Ok (cur, db')"
  obtains db1 db2 where
    "append_items L b now (max_revision (tb_run_id b) db) (tb_items b) db = Ok db1"
    "expected + int (length (tb_items b)) \<le> i64_max"
    "upsert_cursor (new_cursor_row b now digest expected (expected + int (length (tb_items b)))) db1
       = Ok db2"
    "bump_work_item_revision L w now db2 = Ok db'"
    "u64_of_i64 (expected + int (length (tb_items b))) = Some cur"
  using assms
  by (auto simp: append_new_def and_then_eq_Ok split: if_split_asm option.split_asm)

lemma case_decision_Ok:
  "(case d of Replay at \<Rightarrow> f at | Append \<Rightarrow> g) = Ok y \<longleftrightarrow>
     (\<exists>at. d = Replay at \<and> f at = Ok y) \<or> (d = Append \<and> g = Ok y)"
  by (cases d) auto

lemma append_timeline_batch_cases:
  assumes "append_timeline_batch L now b db = (Ok cur, db')"
  obtains (replay) expected cursor where
      "find_stream_cursor L (tb_connection_id b) (tb_run_id b) (tb_source_namespace b) (tb_stream_id b) db
         = Ok cursor"
      "decide_append b (timeline_payload_digest L (tb_items b)) expected cursor = Ok (Replay cur)"
      "db' = db"
  | (append) r expected cursor where
      "validate_batch L b = Ok ()"
      "List.find (\<lambda>r. rr_id r = tb_run_id b) (runs db) = Some r"
      "rr_connection_id r = tb_connection_id b"
      "i64_of_u64 (tb_expected_stream_revision b) = Some expected"
      "find_stream_cursor L (tb_connection_id b) (tb_run_id b) (tb_source_namespace b) (tb_stream_id b) db
         = Ok cursor"
      "decide_append b (timeline_payload_digest L (tb_items b)) expected cursor = Ok Append"
      "append_new L now b (timeline_payload_digest L (tb_items b)) expected (rr_work_item_id r) db
         = Ok (cur, db')"
proof (cases "List.find (\<lambda>r. rr_id r = tb_run_id b) (runs db)")
  case None
  with assms have False
    by (simp add: append_timeline_batch_def job_simps and_then_eq_Ok Let_def query_row_Ok)
  then show ?thesis ..
next
  case (Some r)
  then have q: "query_optional L (\<lambda>r. Ok (rr_connection_id r)) (\<lambda>r. rr_id r = tb_run_id b) (runs db)
      = Ok (Some (rr_connection_id r))"
    "query_row L (\<lambda>r. Ok (rr_work_item_id r)) (\<lambda>r. rr_id r = tb_run_id b) (runs db)
      = Ok (rr_work_item_id r)"
    by (simp_all add: query_optional_Some query_row_Ok)
  show ?thesis
    using assms
    by (auto simp: append_timeline_batch_def job_simps q and_then_eq_Ok Let_def case_decision_Ok
        intro: replay append [OF _ Some] split: if_split_asm option.split_asm)
qed

lemma decide_append_Append:
  "decide_append b digest expected cursor = Ok Append \<Longrightarrow>
     (case cursor of
        None \<Rightarrow> expected = 0
      | Some c \<Rightarrow> psc_last_batch_id c \<noteq> tb_batch_id b \<and> psc_cursor c = tb_expected_stream_revision b)"
  by (auto simp: decide_append_def split: option.splits if_splits)

lemma cursor_from_row_Ok:
  assumes "cursor_from_row L r = Ok c"
  shows "u64_of_i64 (pc_cursor r) = Some (psc_cursor c) \<and> psc_last_batch_id c = pc_last_batch_id r \<and>
    u64_of_i64 (pc_last_start_cursor r) = Some (psc_last_start_cursor c) \<and>
    psc_last_payload_digest c = pc_last_payload_digest r \<and>
    psc_connection_id c = pc_connection_id r \<and> psc_run_id c = pc_run_id r"
  using assms by (auto simp: cursor_from_row_def and_then_eq_Ok u64_column_Ok)

lemma u64_of_i64_eq:
  assumes "u64_of_i64 i = Some w" and "i \<le> i64_max"
  shows "uint w = i"
  using assms i64_of_u64_of_i64 [of i] by (auto simp: u64_of_i64_def split: if_splits)

lemma appended_at_cursor:
  assumes inv: "cursors_inv L db"
    and find: "find_stream_cursor L (tb_connection_id b) (tb_run_id b) (tb_source_namespace b)
      (tb_stream_id b) db = Ok cursor"
    and dec: "decide_append b digest expected cursor = Ok Append"
    and exp: "i64_of_u64 (tb_expected_stream_revision b) = Some expected"
  shows "old_cursor (new_cursor_row b now digest e c) db = expected"
proof -
  have key: "cursor_key (tb_connection_id b) (tb_run_id b) (tb_source_namespace b) (tb_stream_id b) =
      (\<lambda>x. cursor_clash x (new_cursor_row b now digest e c))"
    by (rule ext) (rule cursor_key_new)
  show ?thesis
  proof (cases cursor)
    case None
    with find have "List.find (\<lambda>x. cursor_clash x (new_cursor_row b now digest e c))
        (projection_cursors db) = None"
      by (simp add: find_stream_cursor_def query_optional_None key)
    with decide_append_Append [OF dec] None show ?thesis by (simp add: old_cursor_def)
  next
    case (Some p)
    with find obtain x where
      x: "List.find (\<lambda>x. cursor_clash x (new_cursor_row b now digest e c)) (projection_cursors db) = Some x"
      and row: "cursor_from_row L x = Ok p"
      by (auto simp: find_stream_cursor_def query_optional_Some key)
    from x inv have "pc_cursor x \<le> i64_max"
      by (auto simp: cursors_inv_def cursor_ok_def dest: find_Some_iff')
    with cursor_from_row_Ok [OF row] have "uint (psc_cursor p) = pc_cursor x"
      by (auto intro: u64_of_i64_eq)
    moreover have "uint (tb_expected_stream_revision b) = expected"
      using exp by (auto simp: i64_of_u64_def split: if_splits)
    ultimately show ?thesis
      using decide_append_Append [OF dec] Some x by (simp add: old_cursor_def)
  qed
qed

text \<open>
  One append: the batch's items follow the run's items, the stream's cursor moves from the expected
  value by the number of items, and every other stream keeps its cursor.
\<close>

lemma append_new_inv:
  assumes inv: "timeline_inv L db" and wf: "wf_timeline_batch b" and v7: "is_v7 L (tb_batch_id b)"
    and exp: "old_cursor (new_cursor_row b now digest expected (expected + int (length (tb_items b)))) db
      = expected" "0 \<le> expected"
    and res: "append_new L now b digest expected w db = Ok (cur, db')"
  shows "timeline_inv L db' \<and> uint cur = expected + int (length (tb_items b)) \<and>
    length (run_items (tb_run_id b) db') = length (run_items (tb_run_id b) db) + length (tb_items b)"
  using res
proof (rule append_new_Ok)
  fix db1 db2
  let ?n = "int (length (tb_items b))"
  let ?c = "new_cursor_row b now digest expected (expected + ?n)"
  assume items: "append_items L b now (max_revision (tb_run_id b) db) (tb_items b) db = Ok db1"
    and bound: "expected + ?n \<le> i64_max"
    and up: "upsert_cursor ?c db1 = Ok db2"
    and bump: "bump_work_item_revision L w now db2 = Ok db'"
    and cur: "u64_of_i64 (expected + ?n) = Some cur"
  have max: "max_revision (tb_run_id b) db = int (length (run_items (tb_run_id b) db))"
    using inv by (intro max_revision_contiguous) (simp add: timeline_inv_def items_inv_def)
  have one: "items_inv db1 \<and> db\<lparr>timeline_items := timeline_items db1\<rparr> = db1 \<and>
    (\<forall>r. length (run_items r db1) =
          length (run_items r db) + (if r = tb_run_id b then length (tb_items b) else 0))"
    using items inv max wf
    by (intro append_items_inv) (simp_all add: timeline_inv_def wf_timeline_batch_def)
  then obtain ti where db1: "db1 = db\<lparr>timeline_items := ti\<rparr>" by metis
  have keys1: "run_keys db1 = run_keys db" by (simp add: db1 run_keys_def)
  have "cursors_inv L db1"
    using inv by (intro cursors_inv_frame [of db1 db]) (simp_all add: keys1 timeline_inv_def, simp add: db1)
  then have two: "cursors_inv L db2 \<and> db1\<lparr>projection_cursors := projection_cursors db2\<rparr> = db2 \<and>
    (\<forall>r. sum_list (map pc_cursor (run_cursors r db2)) =
       sum_list (map pc_cursor (run_cursors r db1)) +
       (if r = pc_run_id ?c then pc_cursor ?c - old_cursor ?c db1 else 0))"
    using up v7 bound by (intro upsert_cursor_inv) (simp_all add: new_cursor_row_def)
  then obtain pc where db2: "db2 = db1\<lparr>projection_cursors := pc\<rparr>" by metis
  have keys2: "run_keys db2 = run_keys db1" by (simp add: db2 run_keys_def)
  have "items_inv db2"
    using one by (intro items_inv_frame [of db2 db1]) (simp_all add: keys2, simp add: db2)
  moreover have "balanced r db2" for r
  proof -
    have "run_cursors r db1 = run_cursors r db" by (simp add: db1 run_cursors_def)
    moreover have "old_cursor ?c db1 = expected" using exp(1) by (simp add: db1 old_cursor_def)
    moreover have "run_items r db2 = run_items r db1" by (simp add: db2 run_items_def)
    moreover have "balanced r db" using inv by (simp add: timeline_inv_def)
    ultimately show ?thesis
      using one two by (simp add: balanced_def) (simp add: new_cursor_row_def)
  qed
  ultimately have inv2: "timeline_inv L db2" using two by (simp add: timeline_inv_def)
  obtain wi where db': "db' = db2\<lparr>work_items := wi\<rparr>" using bump by (rule bump_frame)
  have "timeline_inv L db'"
    using inv2 by (intro timeline_inv_frame [of db' db2]) (simp_all add: db' run_keys_def)
  moreover have "uint cur = expected + ?n" using cur bound by (rule u64_of_i64_eq)
  moreover have "run_items (tb_run_id b) db' = run_items (tb_run_id b) db1"
    by (simp add: db' db2 run_items_def)
  ultimately show ?thesis using one by simp
qed

lemma timeline_inv_append_timeline_batch:
  assumes inv: "timeline_inv L db" and wf: "wf_timeline_batch b"
    and res: "append_timeline_batch L now b db = (Ok cur, db')"
  shows "timeline_inv L db'"
  using res
proof (cases rule: append_timeline_batch_cases)
  case replay
  with inv show ?thesis by simp
next
  case (append r expected cursor)
  let ?d = "timeline_payload_digest L (tb_items b)"
  have "is_v7 L (tb_batch_id b)" using append(1) by (simp add: validate_batch_def and_then_eq_Ok)
  moreover have "old_cursor (new_cursor_row b now ?d expected (expected + int (length (tb_items b)))) db
      = expected"
    using inv append(4-6) by (intro appended_at_cursor) (simp_all add: timeline_inv_def)
  moreover have "0 \<le> expected" using append(4) i64_of_u64_bounds by blast
  ultimately show ?thesis using append_new_inv inv wf append(7) by blast
qed

text \<open>Appending leaves the rows of runs and approvals alone and bumps the run's work item.\<close>

lemma append_items_frame:
  assumes "append_items L b now k is db = Ok db'"
  shows "db\<lparr>timeline_items := timeline_items db'\<rparr> = db'"
  using assms
proof (induction "is" arbitrary: k db)
  case Nil
  then show ?case by simp
next
  case (Cons i "is")
  from Cons.prems obtain db1 where
    ins: "insert_timeline_item (new_timeline_row b now (k + 1) i) db = Ok db1"
    and rest: "append_items L b now (k + 1) is db1 = Ok db'" by (rule append_items_step)
  have "db1\<lparr>timeline_items := t\<rparr> = db\<lparr>timeline_items := t\<rparr>" for t
    using ins by (simp add: insert_timeline_item_Ok)
  with Cons.IH [OF rest] show ?case by simp
qed

end
