(* ===== verification/Store_Artifacts.thy ===== *)
theory Store_Artifacts
  imports Store_Timeline
begin

text \<open>
  Artifact metadata (\<^verbatim>\<open>sqlite.rs\<close>): \<open>put_artifact_metadata\<close>, \<open>list_artifact_metadata\<close> and
  \<open>get_artifact_metadata\<close>. The invariant says that every stored row decodes and that the run of an
  artifact belongs to the artifact's work item.
\<close>

definition artifact_row_of :: "artifact_record \<Rightarrow> int \<Rightarrow> artifact_row" where
  "artifact_row_of a byte_len =
     \<lparr>af_id = art_id a, af_work_item_id = art_work_item_id a, af_run_id = art_run_id a,
      af_kind = artifact_kind_value (art_kind a), af_digest = digest_str (art_digest a),
      af_byte_len = byte_len, af_media_type = art_media_type a,
      af_provenance = provenance_str (art_provenance a)\<rparr>"

definition find_artifact ::
    "'z store_libs_scheme \<Rightarrow> artifact_id \<Rightarrow> db \<Rightarrow> store_error + artifact_record option" where
  "find_artifact L i db = query_optional L artifact_from_row (\<lambda>a. af_id a = i) (artifacts db)"

definition owns_run :: "work_item_id \<Rightarrow> run_id \<Rightarrow> db \<Rightarrow> bool" where
  "owns_run w i db \<longleftrightarrow> list_ex (\<lambda>r. rr_id r = i \<and> rr_work_item_id r = w) (runs db)"

definition put_artifact_metadata ::
    "'z store_libs_scheme \<Rightarrow> artifact_record \<Rightarrow> artifact_record job" where
  "put_artifact_metadata L a =
     validated
       (and_then (validate_app_id ''artifact id'' (is_v7 L (art_id a))) (\<lambda>_.
        and_then (validate_text ''artifact media type'' (art_media_type a)) (\<lambda>_.
          ensure (i64_of_u64 (art_byte_len a) \<noteq> None) (Conflict try_from_int_error))))
     (transaction (\<lambda>db.
       and_then (find_artifact L (art_id a) db) (\<lambda>existing.
       case existing of
         Some e \<Rightarrow>
           if e = a then Ok (e, db)
           else Err (Conflict (''artifact id already exists with different content: '' @
                               id_text L (art_id a)))
       | None \<Rightarrow>
           and_then
             (case art_run_id a of
                None \<Rightarrow> Ok ()
              | Some i \<Rightarrow> ensure (owns_run (art_work_item_id a) i db)
                  (Conflict (''run '' @ id_text L i @ '' does not belong to work item '' @
                             id_text L (art_work_item_id a)))) (\<lambda>_.
           and_then (sql L (insert_artifact
             (artifact_row_of a (the (i64_of_u64 (art_byte_len a)))) db)) (\<lambda>db'.
           Ok (a, db'))))))"

definition list_artifact_metadata ::
    "'z store_libs_scheme \<Rightarrow> work_item_id \<Rightarrow> artifact_record list job" where
  "list_artifact_metadata L w =
     read_only (\<lambda>db. sql L (collect_results artifact_from_row
       (sort_key af_id (filter (\<lambda>a. af_work_item_id a = w) (artifacts db)))))"

definition get_artifact_metadata ::
    "'z store_libs_scheme \<Rightarrow> artifact_id \<Rightarrow> artifact_record job" where
  "get_artifact_metadata L i =
     read_only (\<lambda>db. and_then (find_artifact L i db) (\<lambda>a.
       case a of
         Some r \<Rightarrow> Ok r
       | None \<Rightarrow> Err (NotFound ''artifact'' (id_text L i))))"

section \<open>The invariant\<close>

text \<open>\<open>ContentDigest\<close> and \<open>ArtifactProvenance\<close> values come from their constructors.\<close>

definition wf_artifact :: "artifact_record \<Rightarrow> bool" where
  "wf_artifact a \<longleftrightarrow>
     content_digest_new (digest_str (art_digest a)) = Ok (art_digest a) \<and>
     artifact_provenance_new (provenance_str (art_provenance a)) = Ok (art_provenance a)"

definition artifact_owned :: "db \<Rightarrow> artifact_row \<Rightarrow> bool" where
  "artifact_owned db a \<longleftrightarrow>
     (case af_run_id a of None \<Rightarrow> True | Some i \<Rightarrow> owns_run (af_work_item_id a) i db)"

definition artifact_inv :: "db \<Rightarrow> bool" where
  "artifact_inv db \<longleftrightarrow>
     distinct (map af_id (artifacts db)) \<and>
     (\<forall>a\<in>set (artifacts db).
        artifact_check db a \<and> is_ok (artifact_from_row a) \<and> artifact_owned db a)"

lemma artifact_inv_empty: "artifact_inv empty_db"
  by (simp add: artifact_inv_def empty_db_def)

definition run_owners :: "db \<Rightarrow> (run_id \<times> work_item_id) set" where
  "run_owners db = (\<lambda>r. (rr_id r, rr_work_item_id r)) ` set (runs db)"

lemma owns_run_iff: "owns_run w i db \<longleftrightarrow> (i, w) \<in> run_owners db"
  by (auto simp: owns_run_def run_owners_def list_ex_iff)

lemma artifact_inv_frame:
  assumes "artifacts db' = artifacts db" and "work_keys db \<subseteq> work_keys db'"
    and "run_keys db \<subseteq> run_keys db'" and "run_owners db \<subseteq> run_owners db'" and "artifact_inv db"
  shows "artifact_inv db'"
proof -
  have "artifact_check db' a \<and> artifact_owned db' a"
    if "artifact_check db a" "artifact_owned db a" for a
    using that assms(2-4) artifact_check_mono
    by (auto simp: artifact_owned_def owns_run_iff split: option.splits)
  then show ?thesis using assms(1,5) by (simp add: artifact_inv_def)
qed

lemma artifact_row_decodes:
  assumes "wf_artifact a" and "i64_of_u64 (art_byte_len a) = Some n"
  shows "artifact_from_row (artifact_row_of a n) = Ok a"
  using assms u64_i64_roundtrip [OF assms(2)]
  by (simp add: artifact_from_row_def artifact_row_of_def wf_artifact_def conversion_failure_def
      u64_column_def)

lemma case_option_Ok:
  "(case x of None \<Rightarrow> g | Some e \<Rightarrow> f e) = Ok y \<longleftrightarrow>
     (x = None \<and> g = Ok y) \<or> (\<exists>e. x = Some e \<and> f e = Ok y)"
  by (cases x) auto

lemma put_artifact_metadata_cases:
  assumes "put_artifact_metadata L a db = (Ok s, db')"
  obtains (replay) "s = a" "find_artifact L (art_id a) db = Ok (Some a)" "db' = db"
  | (insert) n where "s = a" "i64_of_u64 (art_byte_len a) = Some n"
      "find_artifact L (art_id a) db = Ok None"
      "\<forall>i. art_run_id a = Some i \<longrightarrow> owns_run (art_work_item_id a) i db"
      "insert_artifact (artifact_row_of a n) db = Ok db'"
proof -
  from assms obtain n where n: "i64_of_u64 (art_byte_len a) = Some n"
    by (auto simp: put_artifact_metadata_def job_simps result_simps)
  show ?thesis
    using assms
    by (auto simp: put_artifact_metadata_def job_simps result_simps case_option_Ok n
        intro: replay insert [OF _ n] split: if_split_asm)
qed

lemma artifact_inv_put:
  assumes inv: "artifact_inv db" and wf: "wf_artifact a"
    and res: "put_artifact_metadata L a db = (Ok s, db')"
  shows "artifact_inv db'"
  using res
proof (cases rule: put_artifact_metadata_cases)
  case replay
  with inv show ?thesis by simp
next
  case (insert n)
  let ?r = "artifact_row_of a n"
  have db': "db' = db\<lparr>artifacts := artifacts db @ [?r]\<rparr>" and check: "artifact_check db ?r"
    and free: "\<forall>x\<in>set (artifacts db). \<not> artifact_clash x ?r"
    using insert(5) by (simp_all add: insert_artifact_Ok)
  have same: "artifact_check db' x = artifact_check db x"
    "artifact_owned db' x = artifact_owned db x" for x
    by (simp_all add: db' artifact_check_def artifact_owned_def owns_run_def split: option.split)
  have "af_id ?r \<notin> af_id ` set (artifacts db)"
    unfolding notin_image using free by (auto simp: artifact_clash_def)
  moreover have "artifact_owned db ?r"
    using insert(4) by (simp add: artifact_owned_def artifact_row_of_def split: option.splits)
  moreover have "is_ok (artifact_from_row ?r)" using wf insert(2) by (simp add: artifact_row_decodes)
  ultimately show ?thesis
    using inv check by (simp add: artifact_inv_def same) (simp add: db')
qed

text \<open>A stored artifact reads back as it was put.\<close>

lemma find_artifact_put:
  assumes wf: "wf_artifact a" and res: "put_artifact_metadata L a db = (Ok s, db')"
  shows "find_artifact L (art_id a) db' = Ok (Some a)"
  using res
proof (cases rule: put_artifact_metadata_cases)
  case replay
  then show ?thesis by simp
next
  case (insert n)
  have "List.find (\<lambda>x. af_id x = art_id a) (artifacts db) = None"
    using insert(3) by (simp add: find_artifact_def query_optional_None)
  moreover have "artifacts db' = artifacts db @ [artifact_row_of a n]"
    using insert(5) by (simp add: insert_artifact_Ok)
  moreover have "af_id (artifact_row_of a n) = art_id a" by (simp add: artifact_row_of_def)
  ultimately show ?thesis
    using wf insert(2)
    by (simp add: find_artifact_def query_optional_def find_append artifact_row_decodes)
qed

end
