(* ===== verification/History.thy ===== *)
theory History
  imports Store_Artifacts
begin

text \<open>
  How the store's tables may change. \<open>evolves\<close> is a preorder on databases: no row is ever deleted,
  projects, edges, timeline items, audit events and artifacts are only appended, a work item, a run
  or an approval moves along its lifecycle with its identifying columns fixed, and the cursor of a
  stream is only replaced by one of a batch that starts at or after it. Every statement
  the store executes, hence every operation, stays within it.
\<close>

section \<open>Tables that grow\<close>

definition grows :: "('r \<Rightarrow> 'r \<Rightarrow> bool) \<Rightarrow> 'r list \<Rightarrow> 'r list \<Rightarrow> bool" where
  "grows R xs ys \<longleftrightarrow> (\<exists>ys1 ys2. ys = ys1 @ ys2 \<and> list_all2 R xs ys1)"

lemma grows_refl: "(\<And>x. R x x) \<Longrightarrow> grows R xs xs"
  unfolding grows_def by (intro exI [of _ xs] exI [of _ "[]"]) (simp add: list_all2_refl)

lemma grows_append: "(\<And>x. R x x) \<Longrightarrow> grows R xs (xs @ ys)"
  unfolding grows_def by (intro exI [of _ xs] exI [of _ ys]) (simp add: list_all2_refl)

lemma grows_update:
  assumes "\<And>x. R x x" and "\<And>x. x \<in> set xs \<Longrightarrow> P x \<Longrightarrow> R x (f x)"
  shows "grows R xs (update_where P f xs)"
proof -
  have "list_all2 R xs (update_where P f xs)"
    using assms by (auto simp: update_where_def list_all2_conv_all_nth)
  then show ?thesis unfolding grows_def by (intro exI [of _ "update_where P f xs"] exI [of _ "[]"]) simp
qed

lemma grows_trans:
  assumes "\<And>x y z. R x y \<Longrightarrow> R y z \<Longrightarrow> R x z" and "grows R xs ys" and "grows R ys zs"
  shows "grows R xs zs"
proof -
  obtain ys1 ys2 where ys: "ys = ys1 @ ys2" "list_all2 R xs ys1" using assms(2) by (auto simp: grows_def)
  obtain zs1 zs2 where zs: "zs = zs1 @ zs2" "list_all2 R ys zs1" using assms(3) by (auto simp: grows_def)
  from zs(2) ys(1) obtain us vs where uv: "zs1 = us @ vs" "list_all2 R ys1 us"
    by (auto simp: list_all2_append1)
  from ys(2) uv(2) have "list_all2 R xs us"
    using assms(1) by (rule list_all2_trans [rotated 1])
  then show ?thesis unfolding grows_def
    by (intro exI [of _ us] exI [of _ "vs @ zs2"]) (simp add: zs(1) uv(1))
qed

lemma grows_member:
  assumes "grows R xs ys" and "x \<in> set xs"
  shows "\<exists>y\<in>set ys. R x y"
proof -
  obtain ys1 ys2 where ys: "ys = ys1 @ ys2" "list_all2 R xs ys1" using assms(1) by (auto simp: grows_def)
  obtain i where i: "i < length xs" "x = xs ! i" using assms(2) by (auto simp: in_set_conv_nth)
  with ys have "R x (ys1 ! i)" "ys1 ! i \<in> set ys"
    by (auto simp: list_all2_conv_all_nth)
  then show ?thesis by blast
qed

lemma grows_keys:
  assumes "grows R xs ys" and "\<And>x y. R x y \<Longrightarrow> k y = k x"
  shows "k ` set xs \<subseteq> k ` set ys"
proof
  fix v assume "v \<in> k ` set xs"
  then obtain x where x: "x \<in> set xs" "v = k x" by auto
  from grows_member [OF assms(1) x(1)] obtain y where "y \<in> set ys" "R x y" ..
  with x assms(2) [of x y] show "v \<in> k ` set ys" by (intro image_eqI [of _ _ y]) simp_all
qed

lemma grows_eq_prefix: "grows (=) xs ys \<Longrightarrow> \<exists>zs. ys = xs @ zs"
  by (auto simp: grows_def list.rel_eq)

section \<open>Lifecycles of rows\<close>

definition item_le :: "work_item_row \<Rightarrow> work_item_row \<Rightarrow> bool" where
  "item_le w w' \<longleftrightarrow>
     wi_id w' = wi_id w \<and> wi_project_id w' = wi_project_id w \<and> wi_title w' = wi_title w \<and>
     wi_created_at_ms w' = wi_created_at_ms w \<and> wi_revision w \<le> wi_revision w' \<and>
     (wi_status w = ''archived'' \<longrightarrow> wi_status w' = ''archived'')"

definition run_le :: "run_row \<Rightarrow> run_row \<Rightarrow> bool" where
  "run_le r r' \<longleftrightarrow>
     rr_id r' = rr_id r \<and> rr_connection_id r' = rr_connection_id r \<and>
     rr_work_item_id r' = rr_work_item_id r \<and> rr_created_at_ms r' = rr_created_at_ms r \<and>
     (r' = r \<or>
      (\<exists>s t. rr_status r = run_status_value s \<and> rr_status r' = run_status_value t \<and>
             \<not> is_terminal s \<and> can_transition_to\<^sup>+\<^sup>+ s t))"

definition approval_le :: "approval_row \<Rightarrow> approval_row \<Rightarrow> bool" where
  "approval_le a a' \<longleftrightarrow>
     ap_id a' = ap_id a \<and> ap_connection_id a' = ap_connection_id a \<and> ap_run_id a' = ap_run_id a \<and>
     ap_provider_namespace a' = ap_provider_namespace a \<and>
     ap_provider_approval_id a' = ap_provider_approval_id a \<and>
     ap_kind a' = ap_kind a \<and> ap_summary a' = ap_summary a \<and>
     (a' = a \<or>
      (ap_status a = ''pending'' \<and> ap_status a' \<noteq> ''pending'') \<or>
      (ap_status a = ''responding'' \<and> ap_status a' = ''resolved'' \<and> ap_decision a' = ap_decision a))"

text \<open>The row of a stream's cursor is replaced only by a batch that starts where the row's one ended, or later.\<close>

definition cursor_le :: "cursor_row \<Rightarrow> cursor_row \<Rightarrow> bool" where
  "cursor_le c c' \<longleftrightarrow>
     cursor_ident c' = cursor_ident c \<and>
     (c' = c \<or> pc_cursor c \<le> pc_last_start_cursor c' \<and> pc_last_start_cursor c' \<le> pc_cursor c')"

lemma cursor_le_refl: "cursor_le c c"
  by (simp add: cursor_le_def)

lemma cursor_le_trans: "cursor_le a b \<Longrightarrow> cursor_le b c \<Longrightarrow> cursor_le a c"
  by (auto simp: cursor_le_def)

lemma item_le_refl: "item_le w w"
  by (simp add: item_le_def)

lemma item_le_trans: "item_le u v \<Longrightarrow> item_le v w \<Longrightarrow> item_le u w"
  by (auto simp: item_le_def)

lemma run_le_refl: "run_le r r"
  by (simp add: run_le_def)

lemma run_le_trans:
  assumes "run_le a b" and "run_le b c"
  shows "run_le a c"
proof (cases "b = a \<or> c = b")
  case True
  with assms show ?thesis by auto
next
  case False
  from False assms(1) obtain s t where 1: "rr_status a = run_status_value s"
    "rr_status b = run_status_value t" "\<not> is_terminal s" "can_transition_to\<^sup>+\<^sup>+ s t"
    unfolding run_le_def by blast
  from False assms(2) obtain t' u where 2: "rr_status b = run_status_value t'"
    "rr_status c = run_status_value u" "can_transition_to\<^sup>+\<^sup>+ t' u"
    unfolding run_le_def by blast
  from 1(2) 2(1) have "t' = t" by simp
  with 1(4) 2(3) have "can_transition_to\<^sup>+\<^sup>+ s u" by auto
  with 1(1,3) 2(2) assms show ?thesis unfolding run_le_def by auto
qed

lemma approval_le_refl: "approval_le a a"
  by (simp add: approval_le_def)

lemma approval_le_trans:
  assumes "approval_le a b" and "approval_le b c"
  shows "approval_le a c"
proof (cases "b = a \<or> c = b")
  case True
  with assms show ?thesis by auto
next
  case False
  from False assms(2) have bc: "ap_status b = ''pending'' \<and> ap_status c \<noteq> ''pending'' \<or>
      ap_status b = ''responding'' \<and> ap_status c = ''resolved'' \<and> ap_decision c = ap_decision b"
    unfolding approval_le_def by blast
  from False assms(1) have "ap_status a = ''pending'' \<and> ap_status b \<noteq> ''pending'' \<or>
      ap_status a = ''responding'' \<and> ap_status b = ''resolved''"
    unfolding approval_le_def by blast
  with bc have "ap_status a = ''pending'' \<and> ap_status c \<noteq> ''pending''" by auto
  with assms show ?thesis by (simp add: approval_le_def)
qed

section \<open>The preorder on databases\<close>

definition evolves :: "db \<Rightarrow> db \<Rightarrow> bool" where
  "evolves db db' \<longleftrightarrow>
     grows (=) (projects db) (projects db') \<and> grows item_le (work_items db) (work_items db') \<and>
     grows (=) (work_edges db) (work_edges db') \<and> grows run_le (runs db) (runs db') \<and>
     grows (=) (timeline_items db) (timeline_items db') \<and>
     grows approval_le (approval_requests db) (approval_requests db') \<and>
     grows cursor_le (projection_cursors db) (projection_cursors db') \<and>
     grows (=) (audit_events db) (audit_events db') \<and> grows (=) (artifacts db) (artifacts db')"

lemmas grows_refls = grows_refl [of "(=)", OF refl] grows_refl [of item_le, OF item_le_refl]
  grows_refl [of run_le, OF run_le_refl] grows_refl [of approval_le, OF approval_le_refl]
  grows_refl [of cursor_le, OF cursor_le_refl]

lemmas grows_appends = grows_append [of "(=)", OF refl] grows_append [of item_le, OF item_le_refl]
  grows_append [of run_le, OF run_le_refl] grows_append [of approval_le, OF approval_le_refl]
  grows_append [of cursor_le, OF cursor_le_refl]

lemma evolves_refl: "evolves db db"
  by (simp add: evolves_def grows_refls)

lemma evolves_trans:
  assumes "evolves a b" and "evolves b c"
  shows "evolves a c"
proof -
  have eq: "grows (=) xs ys \<Longrightarrow> grows (=) ys zs \<Longrightarrow> grows (=) xs zs" for xs ys zs :: "'r list"
    by (rule grows_trans) auto
  from assms show ?thesis
    unfolding evolves_def
    by (auto intro: grows_trans [of "(=)"] grows_trans [of item_le] grows_trans [of run_le]
        grows_trans [of approval_le] grows_trans [of cursor_le] item_le_trans run_le_trans approval_le_trans
        cursor_le_trans)
qed

lemma evolves_insert_project: "insert_project r db = Ok db' \<Longrightarrow> evolves db db'"
  by (simp add: insert_project_Ok evolves_def grows_refls grows_appends)

lemma evolves_insert_work_item: "insert_work_item r db = Ok db' \<Longrightarrow> evolves db db'"
  by (simp add: insert_work_item_Ok evolves_def grows_refls grows_appends)

lemma evolves_insert_work_edge: "insert_work_edge r db = Ok db' \<Longrightarrow> evolves db db'"
  by (simp add: insert_work_edge_Ok evolves_def grows_refls grows_appends)

lemma evolves_insert_run: "insert_run r db = Ok db' \<Longrightarrow> evolves db db'"
  by (simp add: insert_run_Ok evolves_def grows_refls grows_appends)

lemma evolves_insert_approval: "insert_approval r db = Ok db' \<Longrightarrow> evolves db db'"
  by (simp add: insert_approval_Ok evolves_def grows_refls grows_appends)

lemma evolves_insert_timeline_item: "insert_timeline_item r db = Ok db' \<Longrightarrow> evolves db db'"
  by (simp add: insert_timeline_item_Ok evolves_def grows_refls grows_appends)

lemma evolves_insert_audit: "insert_audit r db = Ok db' \<Longrightarrow> evolves db db'"
  by (simp add: insert_audit_Ok evolves_def grows_refls grows_appends)

lemma evolves_insert_artifact: "insert_artifact r db = Ok db' \<Longrightarrow> evolves db db'"
  by (simp add: insert_artifact_Ok evolves_def grows_refls grows_appends)

lemma evolves_upsert_cursor:
  assumes "upsert_cursor c db = Ok db'"
    and "\<And>x. x \<in> set (projection_cursors db) \<Longrightarrow> cursor_clash x c \<Longrightarrow> cursor_le x c"
  shows "evolves db db'"
proof -
  have "grows cursor_le (projection_cursors db)
      (update_where (\<lambda>x. cursor_clash x c) (\<lambda>_. c) (projection_cursors db))"
    by (rule grows_update) (simp_all add: cursor_le_refl assms(2))
  then show ?thesis
    using assms(1) by (auto simp: upsert_cursor_def evolves_def grows_refls grows_appends split: if_splits)
qed

lemma evolves_update_work_items:
  assumes "update_work_items P f db = Ok (n, db')"
    and "\<And>w. w \<in> set (work_items db) \<Longrightarrow> P w \<Longrightarrow> item_le w (f w)"
  shows "evolves db db'"
  using assms
  by (simp add: update_work_items_Ok evolves_def grows_refls) (rule grows_update, rule item_le_refl, simp)

lemma evolves_update_runs:
  assumes "update_runs P f db = Ok (n, db')"
    and "\<And>r. r \<in> set (runs db) \<Longrightarrow> P r \<Longrightarrow> run_le r (f r)"
  shows "evolves db db'"
  using assms
  by (simp add: update_runs_Ok evolves_def grows_refls) (rule grows_update, rule run_le_refl, simp)

lemma evolves_update_approvals:
  assumes "update_approvals P f db = Ok (n, db')"
    and "\<And>a. a \<in> set (approval_requests db) \<Longrightarrow> P a \<Longrightarrow> approval_le a (f a)"
  shows "evolves db db'"
  using assms
  by (simp add: update_approvals_Ok evolves_def grows_refls)
    (rule grows_update, rule approval_le_refl, simp)

text \<open>Keys that foreign keys refer to stay.\<close>

lemma evolves_tables:
  assumes "evolves db db'"
  shows "grows item_le (work_items db) (work_items db')" "grows run_le (runs db) (runs db')"
    "grows approval_le (approval_requests db) (approval_requests db')"
    "grows cursor_le (projection_cursors db) (projection_cursors db')"
  using assms by (simp_all add: evolves_def)

lemma evolves_work_keys: "evolves db db' \<Longrightarrow> work_keys db \<subseteq> work_keys db'"
  unfolding work_keys_def by (rule grows_keys [OF evolves_tables(1)]) (simp_all add: item_le_def)

lemma evolves_run_keys: "evolves db db' \<Longrightarrow> run_keys db \<subseteq> run_keys db'"
  unfolding run_keys_def by (rule grows_keys [OF evolves_tables(2)]) (auto simp: run_le_def)

lemma evolves_run_owners: "evolves db db' \<Longrightarrow> run_owners db \<subseteq> run_owners db'"
  unfolding run_owners_def by (rule grows_keys [OF evolves_tables(2)]) (auto simp: run_le_def)

end
