(* ===== verification/Store_Steps.thy ===== *)
theory Store_Steps
  imports History
begin

text \<open>
  The store as a transition system: one step is one mutating operation of \<^verbatim>\<open>sqlite.rs\<close> with any
  command, successful or not. The invariants of all components hold in every reachable database, and
  databases only evolve.
\<close>

section \<open>Steps\<close>

inductive store_step :: "'z store_libs_scheme \<Rightarrow> db \<Rightarrow> db \<Rightarrow> bool" for L where
  step_create_project:
    "create_project L now c db = (r, db') \<Longrightarrow> store_step L db db'"
| step_create_work_item:
    "create_work_item L now c db = (r, db') \<Longrightarrow> store_step L db db'"
| step_archive:
    "archive_work_subtree L now root db = Some (r, db') \<Longrightarrow> store_step L db db'"
| step_create_run:
    "wf_create_run c \<Longrightarrow> create_run L now c db = (r, db') \<Longrightarrow> store_step L db db'"
| step_transition_run:
    "wf_transition_run c \<Longrightarrow> transition_run L c db = (r, db') \<Longrightarrow> store_step L db db'"
| step_append:
    "wf_timeline_batch b \<Longrightarrow> append_timeline_batch L now b db = (r, db') \<Longrightarrow> store_step L db db'"
| step_record_approval:
    "wf_pending_approval a \<Longrightarrow> record_pending_approval L now a db = (r, db') \<Longrightarrow> store_step L db db'"
| step_begin_approval:
    "begin_approval_response L now c db = (r, db') \<Longrightarrow> store_step L db db'"
| step_confirm_approval:
    "confirm_approval_response L now c db = (r, db') \<Longrightarrow> store_step L db db'"
| step_put_artifact:
    "wf_artifact a \<Longrightarrow> put_artifact_metadata L a db = (r, db') \<Longrightarrow> store_step L db db'"

inductive reachable :: "'z store_libs_scheme \<Rightarrow> db \<Rightarrow> bool" for L where
  reachable_init: "reachable L empty_db"
| reachable_step: "reachable L db \<Longrightarrow> store_step L db db' \<Longrightarrow> reachable L db'"

definition store_inv :: "'z store_libs_scheme \<Rightarrow> db \<Rightarrow> bool" where
  "store_inv L db \<longleftrightarrow> core_inv db \<and> timeline_inv L db \<and> artifact_inv db"

lemma store_inv_empty: "store_inv L empty_db"
  by (simp add: store_inv_def core_inv_empty timeline_inv_empty artifact_inv_empty)

section \<open>Operations that leave the timeline and the artifacts alone\<close>

definition same_tail :: "db \<Rightarrow> db \<Rightarrow> bool" where
  "same_tail db db' \<longleftrightarrow>
     timeline_items db' = timeline_items db \<and> projection_cursors db' = projection_cursors db \<and>
     artifacts db' = artifacts db"

definition core_step :: "db \<Rightarrow> db \<Rightarrow> bool" where
  "core_step db db' \<longleftrightarrow> evolves db db' \<and> same_tail db db'"

lemma core_step_refl [simp]: "core_step db db"
  by (simp add: core_step_def evolves_refl same_tail_def)

lemma core_step_trans [trans]: "core_step a b \<Longrightarrow> core_step b c \<Longrightarrow> core_step a c"
  by (auto simp: core_step_def same_tail_def intro: evolves_trans)

lemma store_inv_core_step:
  assumes "store_inv L db" and "core_step db db'" and "core_inv db'"
  shows "store_inv L db'"
proof -
  have ev: "evolves db db'" and tail: "timeline_items db' = timeline_items db"
    "projection_cursors db' = projection_cursors db" "artifacts db' = artifacts db"
    using assms(2) by (simp_all add: core_step_def same_tail_def)
  have "timeline_inv L db'"
    using assms(1) tail(1,2) evolves_run_keys [OF ev] timeline_inv_frame unfolding store_inv_def by blast
  moreover have "artifact_inv db'"
    using assms(1) tail(3) evolves_work_keys [OF ev] evolves_run_keys [OF ev]
      evolves_run_owners [OF ev] artifact_inv_frame unfolding store_inv_def by blast
  ultimately show ?thesis using assms(3) by (simp add: store_inv_def)
qed

lemma core_step_inserts:
  "insert_project p db = Ok db' \<Longrightarrow> core_step db db'"
  "insert_work_item w db = Ok db' \<Longrightarrow> core_step db db'"
  "insert_work_edge e db = Ok db' \<Longrightarrow> core_step db db'"
  "insert_run r db = Ok db' \<Longrightarrow> core_step db db'"
  "insert_approval a db = Ok db' \<Longrightarrow> core_step db db'"
  "insert_audit u db = Ok db' \<Longrightarrow> core_step db db'"
  unfolding core_step_def same_tail_def
  by (auto intro: evolves_insert_project evolves_insert_work_item evolves_insert_work_edge
      evolves_insert_run evolves_insert_approval evolves_insert_audit)
    (simp_all add: insert_project_Ok insert_work_item_Ok insert_work_edge_Ok insert_run_Ok
      insert_approval_Ok insert_audit_Ok)

lemma core_step_update_work_items:
  assumes "update_work_items P f db = Ok (n, db')"
    and "\<And>w. w \<in> set (work_items db) \<Longrightarrow> P w \<Longrightarrow> item_le w (f w)"
  shows "core_step db db'"
  using evolves_update_work_items [OF assms] assms(1)
  by (simp add: core_step_def same_tail_def update_work_items_Ok)

lemma core_step_update_runs:
  assumes "update_runs P f db = Ok (n, db')"
    and "\<And>r. r \<in> set (runs db) \<Longrightarrow> P r \<Longrightarrow> run_le r (f r)"
  shows "core_step db db'"
  using evolves_update_runs [OF assms] assms(1)
  by (simp add: core_step_def same_tail_def update_runs_Ok)

lemma core_step_update_approvals:
  assumes "update_approvals P f db = Ok (n, db')"
    and "\<And>a. a \<in> set (approval_requests db) \<Longrightarrow> P a \<Longrightarrow> approval_le a (f a)"
  shows "core_step db db'"
  using evolves_update_approvals [OF assms] assms(1)
  by (simp add: core_step_def same_tail_def update_approvals_Ok)

lemma core_step_bump:
  assumes "bump_work_item_revision L i t db = Ok db'"
  shows "core_step db db'"
proof -
  obtain n where "update_work_items (\<lambda>r. wi_id r = i)
       (\<lambda>r. r\<lparr>wi_revision := wi_revision r + 1, wi_updated_at_ms := t\<rparr>) db = Ok (n, db')"
    using assms by (auto simp: bump_work_item_revision_Ok)
  then show ?thesis by (rule core_step_update_work_items) (simp add: item_le_def)
qed

lemma core_step_bump_if_known: "bump_if_known L w t db = Ok db' \<Longrightarrow> core_step db db'"
  by (auto simp: bump_if_known_def intro: core_step_bump split: option.splits)

lemma core_step_create_project:
  "create_project L now c db = (Ok s, db') \<Longrightarrow> core_step db db'"
  by (auto simp: create_project_def job_simps result_simps split: option.splits if_splits
      intro: core_step_inserts)

lemma core_step_create_work_item:
  assumes "create_work_item L now c db = (Ok s, db')"
  shows "core_step db db'"
  using create_work_item_Ok [OF assms]
proof (elim disjE exE conjE)
  fix db1
  assume "insert_work_item (new_work_item_row now c) db = Ok db1"
  then have "core_step db db1" by (rule core_step_inserts)
  moreover assume "insert_parent_edge L c db1 = Ok db'"
  then have "core_step db1 db'"
    by (auto simp: insert_parent_edge_def intro: core_step_inserts split: option.splits)
  ultimately show ?thesis by (rule core_step_trans)
qed simp

lemma core_step_archive:
  assumes "work_inv db" and "archive_work_subtree L now root db = Some (Ok w, db')"
  shows "core_step db db'"
proof -
  from assms obtain sub n where
    "update_work_items (\<lambda>r. wi_id r \<in> set sub \<and> wi_status r \<noteq> ''archived'') (archive_row now) db
       = Ok (n, db')"
    by (rule archive_work_subtree_Ok)
  then show ?thesis
    by (rule core_step_update_work_items) (simp add: item_le_def, simp add: archive_row_def)
qed

lemma core_step_create_run:
  assumes "create_run L now c db = (Ok s, db')"
  shows "core_step db db'"
  using create_run_Ok [OF assms]
proof (elim disjE exE conjE)
  fix db1
  assume "insert_run (new_run_row now c) db = Ok db1"
  then have "core_step db db1" by (rule core_step_inserts)
  moreover assume "bump_work_item_revision L (cr_work_item_id c) now db1 = Ok db'"
  then have "core_step db1 db'" by (rule core_step_bump)
  ultimately show ?thesis by (rule core_step_trans)
qed simp

lemma terminal_no_transition: "is_terminal s \<Longrightarrow> \<not> can_transition_to s t"
  by (cases s) (auto simp: is_terminal_def)

lemma core_step_transition:
  assumes legal: "can_transition_to (tr_expected_current c) (tr_target c)"
    and res: "apply_run_transition L c db = (Ok (s, db'))"
  shows "core_step db db'"
  using res
proof (rule apply_run_transition_Ok)
  fix run n db1 voided db2 db3
  assume upd: "update_runs (\<lambda>r. rr_id r = tr_run_id c \<and>
      rr_status r = run_status_value (tr_expected_current c)) (transition_row c) db = Ok (n, db1)"
    and void: "void_pending_approvals L c db1 = Ok (voided, db2)"
    and audit: "insert_audit (run_transition_audit L c voided) db2 = Ok db3"
    and bump: "bump_work_item_revision L (rs_work_item_id run) (tr_occurred_at c) db3 = Ok db'"
  have "run_le r (transition_row c r)" if "rr_status r = run_status_value (tr_expected_current c)" for r
    using that legal terminal_no_transition by (auto simp: run_le_def)
  with upd have "core_step db db1" by (elim core_step_update_runs) simp
  also have "core_step db1 db2"
  proof (cases "is_terminal (tr_target c)")
    case True
    with void have "update_approvals (\<lambda>a. ap_run_id a = tr_run_id c \<and> ap_status a = ''pending'')
        (void_row (tr_occurred_at c)) db1 = Ok (voided, db2)"
      by (simp add: void_pending_approvals_def)
    then show ?thesis
      by (rule core_step_update_approvals) (simp add: approval_le_def void_row_def)
  next
    case False
    with void show ?thesis by (simp add: void_pending_approvals_def)
  qed
  also have "core_step db2 db3" using audit by (rule core_step_inserts)
  also have "core_step db3 db'" using bump by (rule core_step_bump)
  finally show ?thesis .
qed

lemma core_step_record_pending_approval:
  assumes "record_pending_approval L now a db = (Ok s, db')"
  shows "core_step db db'"
  using record_pending_approval_Ok [OF assms]
proof (elim disjE exE conjE)
  fix r db1
  assume "insert_approval (new_approval_row now (rr_connection_id r) a) db = Ok db1"
  then have "core_step db db1" by (rule core_step_inserts)
  moreover assume "bump_work_item_revision L (rr_work_item_id r) now db1 = Ok db'"
  then have "core_step db1 db'" by (rule core_step_bump)
  ultimately show ?thesis by (rule core_step_trans)
qed simp

lemma core_step_begin_approval_response:
  assumes "begin_approval_response L now c db = (Ok s, db')"
  shows "core_step db db'"
  using assms
proof (rule begin_approval_response_Ok)
  fix n db1 db2
  assume "update_approvals (\<lambda>a. ap_id a = ba_approval_id c \<and> ap_status a = ''pending'')
      (begin_row now (ba_decision c)) db = Ok (n, db1)"
  then have "core_step db db1"
    by (rule core_step_update_approvals) (simp add: approval_le_def begin_row_def)
  also assume "insert_audit (approval_audit L (ba_audit_event_id c) ''approval_response_begun''
      (ba_approval_id c) (ba_decision c) now) db1 = Ok db2"
  then have "core_step db1 db2" by (rule core_step_inserts)
  also assume "bump_if_known L (approval_work_item db (ba_approval_id c)) now db2 = Ok db'"
  then have "core_step db2 db'" by (rule core_step_bump_if_known)
  finally show ?thesis .
qed

lemma core_step_confirm_approval_response:
  assumes "confirm_approval_response L now c db = (Ok s, db')"
  shows "core_step db db'"
  using assms
proof (rule confirm_approval_response_Ok)
  fix n db1 db2 d
  assume "update_approvals (\<lambda>a. ap_id a = ca_approval_id c \<and> ap_status a = ''responding'')
      (resolve_row now) db = Ok (n, db1)"
  then have "core_step db db1"
    by (rule core_step_update_approvals) (simp add: approval_le_def resolve_row_def)
  also assume "bump_if_known L (approval_work_item db (ca_approval_id c)) now db1 = Ok db2"
  then have "core_step db1 db2" by (rule core_step_bump_if_known)
  also assume "insert_audit (approval_audit L (ca_audit_event_id c) ''approval_response_confirmed''
      (ca_approval_id c) d now) db2 = Ok db'"
  then have "core_step db2 db'" by (rule core_step_inserts)
  finally show ?thesis .
qed

section \<open>Projects and the work graph\<close>

lemma core_inv_work:
  assumes "core_inv db" and "work_inv db'" and "runs db' = runs db"
    and "approval_requests db' = approval_requests db" and "work_keys db \<subseteq> work_keys db'"
  shows "core_inv db'"
  using assms run_inv_frame approval_inv_frame unfolding core_inv_def by blast

lemma core_inv_create_project:
  assumes inv: "core_inv db" and res: "create_project L now c db = (Ok s, db')"
  shows "core_inv db'"
proof (rule core_inv_work [OF inv])
  show "work_inv db'" using inv res work_inv_create_project by (auto simp: core_inv_def)
  show "runs db' = runs db" "approval_requests db' = approval_requests db" "work_keys db \<subseteq> work_keys db'"
    using res
    by (auto simp: create_project_def job_simps result_simps insert_project_Ok work_keys_def
        split: option.splits if_splits)
qed

lemma core_inv_create_work_item:
  assumes inv: "core_inv db" and res: "create_work_item L now c db = (Ok s, db')"
  shows "core_inv db'"
proof (rule core_inv_work [OF inv])
  show "work_inv db'" using inv res work_inv_create_work_item by (auto simp: core_inv_def)
  show "work_keys db \<subseteq> work_keys db'"
    using core_step_create_work_item [OF res] by (auto simp: core_step_def dest: evolves_work_keys)
  have "runs db' = runs db \<and> approval_requests db' = approval_requests db"
    using create_work_item_Ok [OF res]
    by (auto simp: insert_work_item_Ok insert_parent_edge_def insert_work_edge_Ok split: option.splits)
  then show "runs db' = runs db" "approval_requests db' = approval_requests db" by simp_all
qed

lemma core_inv_archive:
  assumes inv: "core_inv db" and res: "archive_work_subtree L now root db = Some (Ok w, db')"
  shows "core_inv db'"
proof (rule core_inv_work [OF inv])
  have work: "work_inv db" using inv by (simp add: core_inv_def)
  show "work_inv db'" using work res by (rule work_inv_archive)
  show "work_keys db \<subseteq> work_keys db'"
    using core_step_archive [OF work res] by (auto simp: core_step_def dest: evolves_work_keys)
  obtain sub n where
    "update_work_items (\<lambda>r. wi_id r \<in> set sub \<and> wi_status r \<noteq> ''archived'') (archive_row now) db
       = Ok (n, db')"
    using work res by (rule archive_work_subtree_Ok)
  then show "runs db' = runs db" "approval_requests db' = approval_requests db"
    by (simp_all add: update_work_items_Ok)
qed

section \<open>Appending and artifacts\<close>

lemma evolves_append_items: "append_items L b now k is db = Ok db' \<Longrightarrow> evolves db db'"
proof (induction "is" arbitrary: k db)
  case Nil
  then show ?case by (simp add: evolves_refl)
next
  case (Cons i "is")
  from Cons.prems obtain db1 where
    "insert_timeline_item (new_timeline_row b now (k + 1) i) db = Ok db1"
    and rest: "append_items L b now (k + 1) is db1 = Ok db'" by (rule append_items_step)
  then have "evolves db db1" by (intro evolves_insert_timeline_item)
  then show ?case using Cons.IH [OF rest] by (rule evolves_trans)
qed

text \<open>The cursor row that an append replaces ended where the batch starts.\<close>

lemma replaced_cursor:
  assumes inv: "cursors_inv L db" and old: "old_cursor (new_cursor_row b now digest e c) db = e" and "e \<le> c"
    and x: "x \<in> set (projection_cursors db)" "cursor_clash x (new_cursor_row b now digest e c)"
  shows "cursor_le x (new_cursor_row b now digest e c)"
proof -
  let ?c = "new_cursor_row b now digest e c"
  have inj: "inj_on cursor_ident (set (projection_cursors db))"
    using inv by (simp add: cursors_inv_def distinct_map)
  have "List.find (\<lambda>x. cursor_clash x ?c) (projection_cursors db) = Some x"
    using x
  proof (rule find_unique)
    fix y
    assume "y \<in> set (projection_cursors db)" "cursor_clash y ?c"
    then show "y = x" using x by (intro inj_onD [OF inj]) (simp_all add: cursor_clash_ident)
  qed
  with old have "pc_cursor x = e" by (simp add: old_cursor_def)
  then show ?thesis
    using x(2) \<open>e \<le> c\<close> by (simp add: cursor_le_def cursor_clash_ident) (simp add: new_cursor_row_def)
qed

lemma append_new_effect:
  assumes "append_new L now b digest expected w db = Ok (cur, db')" and inv: "cursors_inv L db"
    and old: "old_cursor (new_cursor_row b now digest expected (expected + int (length (tb_items b)))) db = expected"
  shows "evolves db db'" and "artifacts db' = artifacts db" and "core_inv db \<Longrightarrow> core_inv db'"
proof -
  from assms(1) obtain db1 db2 where
    items: "append_items L b now (max_revision (tb_run_id b) db) (tb_items b) db = Ok db1"
    and up: "upsert_cursor (new_cursor_row b now digest expected (expected + int (length (tb_items b)))) db1
       = Ok db2"
    and bump: "bump_work_item_revision L w now db2 = Ok db'"
    by (rule append_new_Ok)
  obtain ti where db1: "db1 = db\<lparr>timeline_items := ti\<rparr>"
    using append_items_frame [OF items] by metis
  obtain pc where db2: "db2 = db1\<lparr>projection_cursors := pc\<rparr>"
    using up by (auto simp: upsert_cursor_def split: if_splits)
  obtain wi where db': "db' = db2\<lparr>work_items := wi\<rparr>" using bump by (rule bump_frame)
  have "evolves db2 db'" using core_step_bump [OF bump] by (simp add: core_step_def)
  moreover have "evolves db1 db2"
    using up
  proof (rule evolves_upsert_cursor)
    fix x
    assume "x \<in> set (projection_cursors db1)"
      and "cursor_clash x (new_cursor_row b now digest expected (expected + int (length (tb_items b))))"
    then show "cursor_le x (new_cursor_row b now digest expected (expected + int (length (tb_items b))))"
      using inv old by (intro replaced_cursor) (simp_all add: db1)
  qed
  ultimately show "evolves db db'"
    using evolves_append_items [OF items] by (meson evolves_trans)
  show "artifacts db' = artifacts db" by (simp add: db' db2 db1)
  show "core_inv db'" if "core_inv db"
  proof -
    have "core_inv db2 = core_inv db" by (rule core_inv_frame) (simp_all add: db2 db1)
    with that bump show ?thesis by (blast intro: core_inv_bump)
  qed
qed

lemma append_timeline_batch_effect:
  assumes "append_timeline_batch L now b db = (Ok cur, db')" and inv: "timeline_inv L db"
  shows "evolves db db'" and "artifacts db' = artifacts db" and "core_inv db \<Longrightarrow> core_inv db'"
proof -
  have "evolves db db' \<and> artifacts db' = artifacts db \<and> (core_inv db \<longrightarrow> core_inv db')"
    using assms(1)
  proof (cases rule: append_timeline_batch_cases)
    case replay
    then show ?thesis by (simp add: evolves_refl)
  next
    case (append r expected cursor)
    have cursors: "cursors_inv L db" using inv by (simp add: timeline_inv_def)
    show ?thesis
      using append_new_effect [OF append(7) cursors appended_at_cursor [OF cursors append(5,6,4)]] by blast
  qed
  then show "evolves db db'" "artifacts db' = artifacts db" "core_inv db \<Longrightarrow> core_inv db'" by blast+
qed

lemma store_inv_append_timeline_batch:
  assumes inv: "store_inv L db" and wf: "wf_timeline_batch b"
    and res: "append_timeline_batch L now b db = (Ok cur, db')"
  shows "store_inv L db'"
proof -
  have tinv: "timeline_inv L db" using inv by (simp add: store_inv_def)
  have ev: "evolves db db'" using res tinv by (rule append_timeline_batch_effect)
  have "artifact_inv db'"
    using inv append_timeline_batch_effect(2) [OF res tinv] evolves_work_keys [OF ev]
      evolves_run_keys [OF ev] evolves_run_owners [OF ev] artifact_inv_frame
    unfolding store_inv_def by blast
  moreover have "timeline_inv L db'"
    using inv wf res timeline_inv_append_timeline_batch unfolding store_inv_def by blast
  moreover have "core_inv db'"
    using inv append_timeline_batch_effect(3) [OF res tinv] unfolding store_inv_def by blast
  ultimately show ?thesis by (simp add: store_inv_def)
qed

lemma put_artifact_metadata_effect:
  assumes "put_artifact_metadata L a db = (Ok s, db')"
  shows "\<exists>t. db' = db\<lparr>artifacts := t\<rparr>" and "evolves db db'"
proof -
  show "\<exists>t. db' = db\<lparr>artifacts := t\<rparr>"
    using assms
  proof (cases rule: put_artifact_metadata_cases)
    case replay
    then show ?thesis by (intro exI [of _ "artifacts db"]) simp
  next
    case (insert n)
    then show ?thesis by (auto simp: insert_artifact_Ok)
  qed
  show "evolves db db'"
    using assms
    by (cases rule: put_artifact_metadata_cases) (simp_all add: evolves_refl evolves_insert_artifact)
qed

lemma store_inv_put_artifact:
  assumes inv: "store_inv L db" and wf: "wf_artifact a"
    and res: "put_artifact_metadata L a db = (Ok s, db')"
  shows "store_inv L db'"
proof -
  obtain t where db': "db' = db\<lparr>artifacts := t\<rparr>"
    using put_artifact_metadata_effect(1) [OF res] ..
  have "core_inv db' = core_inv db" by (rule core_inv_frame) (simp_all add: db')
  moreover have "timeline_inv L db'"
    using inv by (intro timeline_inv_frame [of db' db]) (simp_all add: store_inv_def db' run_keys_def)
  moreover have "artifact_inv db'"
    using inv wf res artifact_inv_put unfolding store_inv_def by blast
  ultimately show ?thesis using inv by (simp add: store_inv_def)
qed

section \<open>Every reachable database\<close>

lemma archive_Err:
  "archive_work_subtree L now root db = Some (Err e, db') \<Longrightarrow> db' = db"
  by (auto simp: archive_work_subtree_def transaction_Err split: option.splits)

text \<open>An operation that fails leaves the database as it was.\<close>

lemma failed_operations:
  "create_project L now cp db = (Err e, db') \<Longrightarrow> db' = db"
  "create_work_item L now cw db = (Err e, db') \<Longrightarrow> db' = db"
  "create_run L now cr db = (Err e, db') \<Longrightarrow> db' = db"
  "transition_run L tr db = (Err e, db') \<Longrightarrow> db' = db"
  "append_timeline_batch L now b db = (Err e, db') \<Longrightarrow> db' = db"
  "record_pending_approval L now pa db = (Err e, db') \<Longrightarrow> db' = db"
  "begin_approval_response L now ba db = (Err e, db') \<Longrightarrow> db' = db"
  "confirm_approval_response L now ca db = (Err e, db') \<Longrightarrow> db' = db"
  "put_artifact_metadata L a db = (Err e, db') \<Longrightarrow> db' = db"
  by (auto simp: create_project_def create_work_item_def create_run_def transition_run_def
      append_timeline_batch_def record_pending_approval_def begin_approval_response_def
      confirm_approval_response_def put_artifact_metadata_def job_simps)

lemma core_step_transition_run:
  "transition_run L c db = (Ok s, db') \<Longrightarrow> core_step db db'"
  by (auto simp: transition_run_def job_simps result_simps intro: core_step_transition)

text \<open>What one step keeps, and what it can do to the tables.\<close>

definition keeps :: "'z store_libs_scheme \<Rightarrow> db \<Rightarrow> db \<Rightarrow> bool" where
  "keeps L db db' \<longleftrightarrow> store_inv L db' \<and> evolves db db'"

lemma keepsI: "store_inv L db' \<Longrightarrow> evolves db db' \<Longrightarrow> keeps L db db'"
  by (simp add: keeps_def)

lemma keeps_core: "store_inv L db \<Longrightarrow> core_step db db' \<Longrightarrow> core_inv db' \<Longrightarrow> keeps L db db'"
  by (auto simp: keeps_def core_step_def [of db db'] intro: store_inv_core_step)

lemma keeps_result:
  assumes "store_inv L db" and "\<And>e. r = Err e \<Longrightarrow> db' = db" and "\<And>s. r = Ok s \<Longrightarrow> keeps L db db'"
  shows "keeps L db db'"
proof (cases r)
  case (Inl e)
  then have "db' = db" by (rule assms(2))
  with assms(1) show ?thesis by (simp add: keeps_def evolves_refl)
next
  case (Inr s)
  then show ?thesis by (rule assms(3))
qed

lemma keeps_step:
  assumes inv: "store_inv L db" and step: "store_step L db db'"
  shows "keeps L db db'"
proof -
  have core: "core_inv db" and work: "work_inv db" and tinv: "timeline_inv L db"
    using inv by (simp_all add: store_inv_def core_inv_def)
  from step show ?thesis
  proof cases
    case (step_create_project now c r)
    show ?thesis
      by (rule keeps_result [OF inv, of r])
        (use step_create_project failed_operations(1) in blast, use step_create_project core_step_create_project core_inv_create_project inv core in \<open>blast intro: keeps_core\<close>)
  next
    case (step_create_work_item now c r)
    show ?thesis
      by (rule keeps_result [OF inv, of r])
        (use step_create_work_item failed_operations(2) in blast, use step_create_work_item core_step_create_work_item core_inv_create_work_item inv core in \<open>blast intro: keeps_core\<close>)
  next
    case (step_archive now root r)
    show ?thesis
      by (rule keeps_result [OF inv, of r])
        (use step_archive archive_Err in blast, use step_archive core_step_archive core_inv_archive inv core work in \<open>blast intro: keeps_core\<close>)
  next
    case (step_create_run c now r)
    show ?thesis
      by (rule keeps_result [OF inv, of r])
        (use step_create_run failed_operations(3) in blast, use step_create_run core_step_create_run core_inv_create_run inv core in \<open>blast intro: keeps_core\<close>)
  next
    case (step_transition_run c r)
    show ?thesis
      by (rule keeps_result [OF inv, of r])
        (use step_transition_run failed_operations(4) in blast, use step_transition_run core_step_transition_run core_inv_transition_run inv core in \<open>blast intro: keeps_core\<close>)
  next
    case (step_append b now r)
    show ?thesis
      by (rule keeps_result [OF inv, of r])
        (use step_append failed_operations(5) in blast, use step_append store_inv_append_timeline_batch append_timeline_batch_effect(1) inv core tinv in \<open>blast intro: keepsI\<close>)
  next
    case (step_record_approval a now r)
    show ?thesis
      by (rule keeps_result [OF inv, of r])
        (use step_record_approval failed_operations(6) in blast, use step_record_approval core_step_record_pending_approval core_inv_record_pending_approval inv core in \<open>blast intro: keeps_core\<close>)
  next
    case (step_begin_approval now c r)
    show ?thesis
      by (rule keeps_result [OF inv, of r])
        (use step_begin_approval failed_operations(7) in blast, use step_begin_approval core_step_begin_approval_response core_inv_begin_approval_response inv core in \<open>blast intro: keeps_core\<close>)
  next
    case (step_confirm_approval now c r)
    show ?thesis
      by (rule keeps_result [OF inv, of r])
        (use step_confirm_approval failed_operations(8) in blast, use step_confirm_approval core_step_confirm_approval_response core_inv_confirm_approval_response inv core in \<open>blast intro: keeps_core\<close>)
  next
    case (step_put_artifact a r)
    show ?thesis
      by (rule keeps_result [OF inv, of r])
        (use step_put_artifact failed_operations(9) in blast, use step_put_artifact store_inv_put_artifact put_artifact_metadata_effect(2) inv core in \<open>blast intro: keepsI\<close>)
  qed
qed

lemma store_inv_step: "store_inv L db \<Longrightarrow> store_step L db db' \<Longrightarrow> store_inv L db'"
  using keeps_step by (auto simp: keeps_def)

lemma evolves_step: "store_inv L db \<Longrightarrow> store_step L db db' \<Longrightarrow> evolves db db'"
  using keeps_step by (auto simp: keeps_def)

lemma store_inv_reachable: "reachable L db \<Longrightarrow> store_inv L db"
  by (induction rule: reachable.induct) (auto intro: store_inv_empty store_inv_step)

lemma reachable_steps:
  assumes "reachable L db" and "(store_step L)\<^sup>*\<^sup>* db db'"
  shows "reachable L db' \<and> evolves db db'"
  using assms(2,1)
proof (induction rule: rtranclp_induct)
  case base
  then show ?case by (simp add: evolves_refl)
next
  case (step y z)
  then have y: "reachable L y" "evolves db y" by auto
  have "evolves y z" using store_inv_reachable [OF y(1)] step(2) by (rule evolves_step)
  with y step(2) show ?case by (blast intro: reachable_step evolves_trans)
qed

lemmas reachable_invs = store_inv_reachable [unfolded store_inv_def core_inv_def]

inductive_cases store_stepE: "store_step L db db'"

end
