(* ===== verification/Paging.thy ===== *)
theory Paging
  imports Store_Steps
begin

text \<open>
  The contract of the store's paged reads, as the locale \<open>paged_read\<close>: a page is the first part of
  an ordered selection after a key, and \<open>next_after\<close> is the key of its last item exactly when items
  remain. A client that follows \<open>next_after\<close> (as \<open>run_supervisor.rs\<close> and \<open>yakshed-desktop-api\<close> do)
  reads the whole selection, each item once. Every paged operation of \<open>sqlite.rs\<close> is an instance, in
  every reachable database.
\<close>

section \<open>The interface\<close>

definition page_of :: "('a \<Rightarrow> 'k::linorder) \<Rightarrow> 'k option \<Rightarrow> nat \<Rightarrow> 'a list \<Rightarrow> ('k, 'a) page" where
  "page_of key after n sel =
     (let rest = filter (\<lambda>a. after_key after (key a)) sel in
      \<lparr>pg_items = take n rest,
       pg_next_after = (if n < length rest then Some (key (last (take n rest))) else None)\<rparr>)"

text \<open>A client that reads page after page; the fuel bounds the number of requests.\<close>

fun collect_pages ::
    "nat \<Rightarrow> ('k option \<Rightarrow> store_error + ('k, 'a) page) \<Rightarrow> 'k option \<Rightarrow> (store_error + 'a list) option"
  where
  "collect_pages 0 fetch after = None"
| "collect_pages (Suc fuel) fetch after =
     (case fetch after of
        Inl e \<Rightarrow> Some (Err e)
      | Inr p \<Rightarrow>
          (case pg_next_after p of
             None \<Rightarrow> Some (Ok (pg_items p))
           | Some k \<Rightarrow> map_option (map_ok (\<lambda>xs. pg_items p @ xs)) (collect_pages fuel fetch (Some k))))"

locale paged_read =
  fixes inv :: "db \<Rightarrow> bool"
    and fetch :: "'k::linorder option \<Rightarrow> u32 \<Rightarrow> ('k, 'a) page job"
    and selection :: "db \<Rightarrow> 'a list"
    and key :: "'a \<Rightarrow> 'k"
    and valid :: "'k option \<Rightarrow> bool"
  assumes ordered: "inv db \<Longrightarrow> sorted_wrt (<) (map key (selection db))"
    and valid_start: "valid None"
    and valid_next: "inv db \<Longrightarrow> a \<in> set (selection db) \<Longrightarrow> valid (Some (key a))"
    and page: "inv db \<Longrightarrow> valid after \<Longrightarrow> 1 \<le> unat limit \<Longrightarrow> unat limit \<le> 200 \<Longrightarrow>
      fetch after limit db = (Ok (page_of key after (unat limit) (selection db)), db)"
    and bad_limit: "\<not> (1 \<le> unat limit \<and> unat limit \<le> 200) \<Longrightarrow>
      fetch after limit db = (Err (Conflict ''page size must be between 1 and 200''), db)"
begin

lemma after_filter:
  assumes "sorted_wrt (<) (map key xs)" and "n < length xs" and "0 < n"
  shows "filter (\<lambda>a. key (last (take n xs)) < key a) xs = drop n xs"
proof -
  let ?k = "key (last (take n xs))"
  have last: "last (take n xs) = xs ! (n - 1)"
    using assms(2,3) take_Suc_conv_app_nth [of "n - 1" xs] by simp
  have less: "key (xs ! i) < key (xs ! j)" if "i < j" "j < length xs" for i j
    using sorted_wrt_nth_less [OF assms(1), of i j] that by simp
  have "\<not> ?k < key a" if "a \<in> set (take n xs)" for a
  proof -
    obtain i where i: "i < n" "a = xs ! i" using \<open>a \<in> set (take n xs)\<close> by (auto simp: in_set_conv_nth)
    show ?thesis
    proof (cases "i = n - 1")
      case False
      with i assms(2) have "key a < ?k" using less [of i "n - 1"] last by simp
      then show ?thesis by (simp add: not_less order.strict_implies_order)
    qed (simp add: i last)
  qed
  moreover have "?k < key a" if "a \<in> set (drop n xs)" for a
  proof -
    obtain i where "i < length xs - n" "a = xs ! (n + i)"
      using \<open>a \<in> set (drop n xs)\<close> by (auto simp: in_set_conv_nth)
    then show ?thesis using less [of "n - 1" "n + i"] assms(3) last by simp
  qed
  ultimately have "filter (\<lambda>a. ?k < key a) (take n xs) = []"
    and "filter (\<lambda>a. ?k < key a) (drop n xs) = drop n xs"
    by (auto simp: filter_empty_conv filter_id_conv)
  then have "filter (\<lambda>a. ?k < key a) (take n xs @ drop n xs) = drop n xs"
    by (simp only: filter_append append_Nil)
  then show ?thesis by simp
qed

lemma sorted_rest: "inv db \<Longrightarrow> sorted_wrt (<) (map key (filter P (selection db)))"
  using ordered [of db] by (simp add: sorted_wrt_map sorted_wrt_filter)

text \<open>The rest after a page is the rest after the key of its last item.\<close>

lemma next_rest:
  assumes inv: "inv db" and rest: "rest = filter (\<lambda>a. after_key after (key a)) (selection db)"
    and n: "n < length rest" "0 < n"
  shows "filter (\<lambda>a. after_key (Some (key (last (take n rest)))) (key a)) (selection db) = drop n rest"
proof -
  let ?k = "key (last (take n rest))"
  have "last (take n rest) \<in> set (take n rest)"
    using n by (intro last_in_set) auto
  then have "last (take n rest) \<in> set rest" by (rule in_set_takeD)
  then have "after_key after ?k" unfolding rest by simp
  then have "after_key after (key a)" if "?k < key a" for a
    using that by (auto simp: after_key_def split: option.splits)
  then have "filter (\<lambda>a. k < key a) (selection db) =
      filter (\<lambda>a. k < key a) (filter (\<lambda>a. after_key after (key a)) (selection db))"
    if "k = ?k" for k
    unfolding filter_filter using that by (intro filter_cong) auto
  then have "filter (\<lambda>a. ?k < key a) (selection db) = filter (\<lambda>a. ?k < key a) rest"
    unfolding rest by blast
  also have "\<dots> = drop n rest"
    using sorted_rest [OF inv] n unfolding rest by (rule after_filter)
  finally show ?thesis by (simp add: after_key_def)
qed

lemma collect_after:
  assumes inv: "inv db" and limit: "1 \<le> unat limit" "unat limit \<le> 200"
    and valid: "valid after"
    and fuel: "length (filter (\<lambda>a. after_key after (key a)) (selection db)) < fuel"
  shows "collect_pages fuel (\<lambda>a. fst (fetch a limit db)) after =
    Some (Ok (filter (\<lambda>a. after_key after (key a)) (selection db)))"
  using valid fuel
proof (induction fuel arbitrary: after)
  case 0
  then show ?case by simp
next
  case (Suc fuel)
  define rest where "rest = filter (\<lambda>a. after_key after (key a)) (selection db)"
  note p = page [OF inv Suc.prems(1) limit, unfolded page_of_def, folded rest_def]
  show ?case
  proof (cases "unat limit < length rest")
    case False
    then show ?thesis by (simp add: p rest_def [symmetric])
  next
    case True
    let ?k = "key (last (take (unat limit) rest))"
    have next_eq: "filter (\<lambda>a. after_key (Some ?k) (key a)) (selection db) = drop (unat limit) rest"
      using inv rest_def True by (rule next_rest) (use limit in simp)
    have "length (drop (unat limit) rest) < fuel"
      using Suc.prems(2) limit True by (simp add: rest_def [symmetric])
    moreover have "last (take (unat limit) rest) \<in> set (take (unat limit) rest)"
      using True limit by (intro last_in_set) auto
    then have "last (take (unat limit) rest) \<in> set (selection db)"
      by (auto simp: rest_def dest: in_set_takeD)
    then have "valid (Some ?k)" by (rule valid_next [OF inv])
    ultimately have "collect_pages fuel (\<lambda>a. fst (fetch a limit db)) (Some ?k) =
        Some (Ok (drop (unat limit) rest))"
      using Suc.IH [of "Some ?k"] next_eq by simp
    with True show ?thesis by (simp add: p rest_def [symmetric])
  qed
qed

text \<open>Following \<open>next_after\<close> reads the selection, in order.\<close>

lemma collect_all:
  assumes "inv db" and "1 \<le> unat limit" "unat limit \<le> 200" and "length (selection db) < fuel"
  shows "collect_pages fuel (\<lambda>a. fst (fetch a limit db)) None = Some (Ok (selection db))"
proof -
  have "filter (\<lambda>a. after_key None (key a)) (selection db) = selection db"
    by (simp add: after_key_def)
  with collect_after [OF assms(1-3) valid_start, of fuel] assms(4) show ?thesis by simp
qed

lemma selection_distinct: "inv db \<Longrightarrow> distinct (map key (selection db))"
  using ordered [of db] by (auto dest: strict_sorted_imp_sorted simp: strict_sorted_iff)

end

section \<open>The pages of a table\<close>

definition decoded :: "('r \<Rightarrow> sql_error + 'a) \<Rightarrow> 'r list \<Rightarrow> 'a list" where
  "decoded conv rows = map (\<lambda>r. projr (conv r)) rows"

definition table_selection ::
    "('r \<Rightarrow> 'k::linorder) \<Rightarrow> ('r \<Rightarrow> sql_error + 'a) \<Rightarrow> ('r \<Rightarrow> bool) \<Rightarrow> 'r list \<Rightarrow> 'a list" where
  "table_selection key conv P rows = decoded conv (sort_key key (filter P rows))"

lemma collect_results_decoded:
  "(\<And>r. r \<in> set rows \<Longrightarrow> is_ok (conv r)) \<Longrightarrow> collect_results conv rows = Ok (decoded conv rows)"
proof (induction rows)
  case Nil
  then show ?case by (simp add: decoded_def)
next
  case (Cons r rows)
  then have "is_ok (conv r)" "collect_results conv rows = Ok (decoded conv rows)" by simp_all
  then show ?case by (auto simp: is_ok_iff decoded_def)
qed

text \<open>
  A page of decodable rows, when the cursor of a decoded row has the order of the row's key.
\<close>

lemma list_page_law:
  assumes dec: "\<And>r. r \<in> set rows \<Longrightarrow> P r \<Longrightarrow> is_ok (conv r)"
    and after: "\<And>r. r \<in> set rows \<Longrightarrow> P r \<Longrightarrow> after_key after' (key r) = after_key after (cursor (projr (conv r)))"
    and n: "0 < n"
  shows "list_page L key conv cursor P after' n rows =
    Ok (page_of cursor after n (table_selection key conv P rows))"
proof -
  let ?rows = "sort_key key (filter P rows)"
  have "filter (\<lambda>r. P r \<and> after_key after' (key r)) rows = filter (\<lambda>r. after_key after' (key r)) (filter P rows)"
    by (simp add: conj_commute)
  then have sel: "select_page key P after' m rows = take m (filter (\<lambda>r. after_key after' (key r)) ?rows)" for m
    by (simp add: select_page_def filter_sort)
  have cong: "filter (\<lambda>r. after_key after' (key r)) ?rows =
      filter (\<lambda>r. after_key after (cursor (projr (conv r)))) ?rows"
    by (rule filter_cong) (use after in auto)
  have rest: "decoded conv (filter (\<lambda>r. after_key after' (key r)) ?rows) =
      filter (\<lambda>a. after_key after (cursor a)) (table_selection key conv P rows)"
    unfolding cong by (simp add: decoded_def table_selection_def filter_map o_def)
  have "collect_results conv (select_page key P after' (n + 1) rows) =
      Ok (decoded conv (select_page key P after' (n + 1) rows))"
    by (rule collect_results_decoded) (use dec in \<open>auto simp: sel dest: in_set_takeD\<close>)
  also have "decoded conv (select_page key P after' (n + 1) rows) =
      take (n + 1) (filter (\<lambda>a. after_key after (cursor a)) (table_selection key conv P rows))"
    unfolding sel rest [symmetric] by (simp add: decoded_def take_map)
  finally show ?thesis
    using n by (auto simp: list_page_def page_of_def Let_def min_def)
qed

lemma table_selection_ordered:
  assumes "distinct (map key (filter P rows))"
    and "\<And>r s. r \<in> set rows \<Longrightarrow> P r \<Longrightarrow> s \<in> set rows \<Longrightarrow> P s \<Longrightarrow>
      key r < key s \<Longrightarrow> cursor (projr (conv r)) < cursor (projr (conv s))"
  shows "sorted_wrt (<) (map cursor (table_selection key conv P rows))"
proof -
  let ?rows = "sort_key key (filter P rows)"
  have "distinct (map key ?rows)"
    using assms(1) by (metis distinct_map distinct_sort set_sort)
  then have "sorted_wrt (<) (map key ?rows)"
    by (simp add: strict_sorted_iff)
  then have "sorted_wrt (\<lambda>r s. key r < key s) ?rows" by (simp add: sorted_wrt_map)
  then have "sorted_wrt (\<lambda>r s. cursor (projr (conv r)) < cursor (projr (conv s))) ?rows"
    by (rule sorted_wrt_mono_rel [rotated]) (use assms(2) in auto)
  then show ?thesis by (simp add: table_selection_def decoded_def sorted_wrt_map)
qed

section \<open>Tables read by identifier\<close>

locale id_table =
  fixes L :: "'z store_libs_scheme"
    and inv :: "db \<Rightarrow> bool"
    and fetch :: "'k::linorder option \<Rightarrow> u32 \<Rightarrow> ('k, 'a) page job"
    and rows :: "db \<Rightarrow> 'r list"
    and row_key :: "'r \<Rightarrow> 'k"
    and conv :: "db \<Rightarrow> 'r \<Rightarrow> sql_error + 'a"
    and cursor :: "'a \<Rightarrow> 'k"
    and P :: "db \<Rightarrow> 'r \<Rightarrow> bool"
  assumes fetches: "fetch after limit =
      read_only (\<lambda>db. and_then (validate_page_size limit) (\<lambda>n.
        list_page L row_key (conv db) cursor (P db) after n (rows db)))"
    and keys: "inv db \<Longrightarrow> distinct (map row_key (rows db))"
    and decodes: "inv db \<Longrightarrow> r \<in> set (rows db) \<Longrightarrow> P db r \<Longrightarrow> is_ok (conv db r)"
    and cursor_key: "conv db r = Ok a \<Longrightarrow> cursor a = row_key r"
begin

lemma cursor_of_row:
  "inv db \<Longrightarrow> r \<in> set (rows db) \<Longrightarrow> P db r \<Longrightarrow> cursor (projr (conv db r)) = row_key r"
  using decodes [of db r] by (auto simp: is_ok_iff dest: cursor_key)

lemma page_law:
  assumes "inv db" and "1 \<le> unat limit" "unat limit \<le> 200"
  shows "fetch after limit db =
    (Ok (page_of cursor after (unat limit) (table_selection row_key (conv db) (P db) (rows db))), db)"
proof -
  have "validate_page_size limit = Ok (unat limit)"
    using assms(2,3) by (simp add: validate_page_size_Ok)
  moreover have "list_page L row_key (conv db) cursor (P db) after (unat limit) (rows db) =
      Ok (page_of cursor after (unat limit) (table_selection row_key (conv db) (P db) (rows db)))"
    by (rule list_page_law) (use assms decodes cursor_of_row in auto)
  ultimately show ?thesis by (simp add: fetches read_only_def)
qed

lemma selection_ordered:
  assumes "inv db"
  shows "sorted_wrt (<) (map cursor (table_selection row_key (conv db) (P db) (rows db)))"
proof (rule table_selection_ordered)
  show "distinct (map row_key (filter (P db) (rows db)))"
    using keys [OF assms] by (rule distinct_map_filter)
qed (use assms cursor_of_row in auto)

end

lemma page_size_error:
  "\<not> (1 \<le> unat limit \<and> unat limit \<le> 200) \<Longrightarrow>
     validate_page_size limit = Err (Conflict ''page size must be between 1 and 200'')"
proof -
  assume "\<not> (1 \<le> unat limit \<and> unat limit \<le> 200)"
  then have "validate_page_size limit \<noteq> Ok (unat limit)" by (simp add: validate_page_size_Ok)
  moreover have "decimal (uint MAX_PAGE_SIZE) = ''200''"
    by (simp add: MAX_PAGE_SIZE_def decimal_def decimal_digits.simps [of 200]
        decimal_digits.simps [of 20] decimal_digits.simps [of 2]) code_simp
  ultimately have "\<not> (1 \<le> limit \<and> limit \<le> MAX_PAGE_SIZE)" by (auto simp: validate_page_size_def)
  with \<open>decimal (uint MAX_PAGE_SIZE) = ''200''\<close> show ?thesis by (simp add: validate_page_size_def)
qed

sublocale id_table \<subseteq> paged_read inv fetch
    "\<lambda>db. table_selection row_key (conv db) (P db) (rows db)" cursor "\<lambda>_. True"
  by unfold_locales (simp_all add: selection_ordered page_law, simp add: fetches read_only_def page_size_error)

section \<open>The paged operations\<close>

lemma store_inv_keys:
  assumes "store_inv L db"
  shows "distinct (map prj_id (projects db))" "distinct (map wi_id (work_items db))"
    "distinct (map rr_id (runs db))" "distinct (map ap_id (approval_requests db))"
    "distinct (map tl_id (timeline_items db))"
  using assms
  by (simp_all add: store_inv_def core_inv_def work_inv_def run_inv_def approval_inv_def
      timeline_inv_def items_inv_def)

lemma store_inv_decodes:
  assumes "store_inv L db"
  shows "r \<in> set (runs db) \<Longrightarrow> is_ok (run_from_row r)"
    "a \<in> set (approval_requests db) \<Longrightarrow> is_ok (approval_from_row a)"
    "t \<in> set (timeline_items db) \<Longrightarrow> is_ok (timeline_item_from_row t)"
    "w \<in> set (work_items db) \<Longrightarrow> is_ok (work_item_from_row edges w)"
proof -
  show "is_ok (work_item_from_row edges w)" if "w \<in> set (work_items db)"
    using assms that work_item_row_decodes
    by (auto simp: store_inv_def core_inv_def work_inv_def is_ok_iff)
qed (use assms in \<open>simp_all add: store_inv_def core_inv_def run_inv_def approval_inv_def
      timeline_inv_def items_inv_def\<close>)

lemma row_cursors:
  "project_from_row p = Ok ps \<Longrightarrow> ps_id ps = prj_id p"
  "work_item_from_row edges w = Ok ws \<Longrightarrow> ws_id ws = wi_id w"
  "run_from_row r = Ok rs \<Longrightarrow> rs_id rs = rr_id r"
  "approval_from_row a = Ok as \<Longrightarrow> as_id as = ap_id a"
  "user_input_from_row t = Ok ui \<Longrightarrow> ui_id ui = tl_id t"
  by (auto simp: project_from_row_def work_item_from_row_def run_from_row_def approval_from_row_def
      user_input_from_row_def and_then_eq_Ok split: option.splits)

interpretation project_pages: id_table L "store_inv L" "list_projects L" projects prj_id
    "\<lambda>_. project_from_row" ps_id "\<lambda>_ _. True"
  for L
  by unfold_locales (simp_all add: list_projects_def fun_eq_iff store_inv_keys row_cursors project_from_row_def)

interpretation work_item_pages: id_table L "store_inv L"
    "\<lambda>after limit. list_work_items L (q\<lparr>lw_after := after, lw_limit := limit\<rparr>)" work_items wi_id
    "\<lambda>db. work_item_from_row (work_edges db)" ws_id
    "\<lambda>_ r. wi_project_id r = lw_project_id q \<and> (lw_include_archived q \<or> wi_status r \<noteq> ''archived'')"
  for L q
  by unfold_locales (simp_all add: list_work_items_def store_inv_keys store_inv_decodes row_cursors)

interpretation run_pages: id_table L "store_inv L" "list_runs_where L P" runs rr_id
    "\<lambda>_. run_from_row" rs_id "\<lambda>_. P"
  for L P
  by unfold_locales (simp_all add: list_runs_where_def store_inv_keys store_inv_decodes row_cursors)

interpretation approval_pages: id_table L "store_inv L" "list_approvals_where L P" approval_requests ap_id
    "\<lambda>_. approval_from_row" as_id "\<lambda>_. P"
  for L P
  by unfold_locales (simp_all add: list_approvals_where_def store_inv_keys store_inv_decodes row_cursors)

text \<open>
  Reading the pending inputs of a run decodes the provider identifier of every request, so it needs
  every stored request to have one; \<open>append_timeline_batch\<close> does not require it.
\<close>

definition inputs_named :: "db \<Rightarrow> bool" where
  "inputs_named db \<longleftrightarrow>
     (\<forall>t\<in>set (timeline_items db). tl_kind t = ''user_input_requested'' \<longrightarrow> tl_provider_namespace t \<noteq> None)"

lemma user_input_decodes:
  assumes "is_ok (timeline_item_from_row t)" and "tl_provider_namespace t \<noteq> None"
  shows "is_ok (user_input_from_row t)"
proof -
  obtain p where "provider_id (tl_provider_namespace t) (tl_provider_item_id t) = Ok p"
    using assms(1) by (auto simp: timeline_item_from_row_def is_ok_iff and_then_eq_Ok)
  with assms(2) show ?thesis
    by (cases p) (auto simp: user_input_from_row_def provider_id_def conversion_failure_def
        map_ok_eq_Ok split: option.splits)
qed

interpretation input_pages: id_table L "\<lambda>db. store_inv L db \<and> inputs_named db"
    "list_pending_user_inputs_for_run L r" timeline_items tl_id "\<lambda>_. user_input_from_row" ui_id
    "\<lambda>db. pending_input L r (timeline_items db)"
  for L r
proof unfold_locales
  show "is_ok (user_input_from_row t)"
    if "store_inv L db \<and> inputs_named db" "t \<in> set (timeline_items db)"
      "pending_input L r (timeline_items db) t" for db t
    using that by (intro user_input_decodes)
      (auto simp: store_inv_decodes pending_input_def inputs_named_def)
  show "distinct (map tl_id (timeline_items db))" if "store_inv L db \<and> inputs_named db" for db
    using that store_inv_keys by blast
qed (simp_all add: list_pending_user_inputs_for_run_def row_cursors)

text \<open>
  The timeline is read by revision, whose column is an \<^verbatim>\<open>i64\<close>: a request after a larger \<open>u64\<close> is
  an error, and no page returns such a key.
\<close>

definition timeline_selection :: "run_id \<Rightarrow> db \<Rightarrow> timeline_item_snapshot list" where
  "timeline_selection r db =
     table_selection tl_revision timeline_item_from_row (\<lambda>t. tl_run_id t = r) (timeline_items db)"

definition i64_key :: "u64 option \<Rightarrow> bool" where
  "i64_key k = (case k of None \<Rightarrow> True | Some w \<Rightarrow> uint w \<le> i64_max)"

lemma timeline_row_facts:
  assumes "store_inv L db" and "t \<in> set (timeline_items db)"
  shows "0 < tl_revision t" "tl_revision t \<le> i64_max"
    "uint (ts_revision (projr (timeline_item_from_row t))) = tl_revision t"
proof -
  show pos: "0 < tl_revision t" and max: "tl_revision t \<le> i64_max"
    using assms by (auto simp: store_inv_def timeline_inv_def items_inv_def timeline_check_def)
  obtain s where s: "timeline_item_from_row t = Ok s"
    using store_inv_decodes(3) [OF assms] by (auto simp: is_ok_iff)
  then have "ts_revision s = word_of_int (tl_revision t)"
    using pos by (auto simp: timeline_item_from_row_def and_then_eq_Ok u64_column_def u64_of_i64_def)
  then show "uint (ts_revision (projr (timeline_item_from_row t))) = tl_revision t"
    using pos max by (simp add: s i64_of_u64_of_i64)
qed

lemma timeline_keys:
  assumes "store_inv L db"
  shows "distinct (map tl_revision (filter (\<lambda>t. tl_run_id t = r) (timeline_items db)))"
proof -
  have "contiguous r db" using assms by (simp add: store_inv_def timeline_inv_def items_inv_def)
  then have "map tl_revision (filter (\<lambda>t. tl_run_id t = r) (timeline_items db)) =
      map (\<lambda>n. int n + 1) [0..<length (run_items r db)]"
    by (simp add: contiguous_def run_items_def)
  then show ?thesis by (simp add: distinct_map inj_on_def)
qed

lemma timeline_page_law:
  assumes inv: "store_inv L db" and valid: "i64_key after" and limit: "1 \<le> unat limit" "unat limit \<le> 200"
  shows "list_timeline_page L \<lparr>lt_run_id = r, lt_after = after, lt_limit = limit\<rparr> db =
    (Ok (page_of ts_revision after (unat limit) (timeline_selection r db)), db)"
proof -
  have "validate_page_size limit = Ok (unat limit)"
    using limit by (simp add: validate_page_size_Ok)
  moreover have "list_page L tl_revision timeline_item_from_row ts_revision (\<lambda>t. tl_run_id t = r)
      (map_option uint after) (unat limit) (timeline_items db) =
    Ok (page_of ts_revision after (unat limit) (timeline_selection r db))"
    unfolding timeline_selection_def
  proof (rule list_page_law)
    fix t assume t: "t \<in> set (timeline_items db)"
    show "is_ok (timeline_item_from_row t)" using inv t by (simp add: store_inv_decodes)
    show "after_key (map_option uint after) (tl_revision t) =
        after_key after (ts_revision (projr (timeline_item_from_row t)))"
      using timeline_row_facts(3) [OF inv t]
      by (simp add: after_key_def word_less_def split: option.splits)
  qed (use limit in simp)
  ultimately show ?thesis
    using valid
    by (cases after) (simp_all add: list_timeline_page_def read_only_def i64_key_def i64_of_u64_def)
qed

interpretation timeline_pages: paged_read "store_inv L"
    "\<lambda>after limit. list_timeline_page L \<lparr>lt_run_id = r, lt_after = after, lt_limit = limit\<rparr>"
    "timeline_selection r" ts_revision i64_key
  for L r
proof unfold_locales
  fix db assume inv: "store_inv L db"
  show "sorted_wrt (<) (map ts_revision (timeline_selection r db))"
    unfolding timeline_selection_def
  proof (rule table_selection_ordered)
    show "distinct (map tl_revision (filter (\<lambda>t. tl_run_id t = r) (timeline_items db)))"
      using inv by (rule timeline_keys)
    show "ts_revision (projr (timeline_item_from_row t)) < ts_revision (projr (timeline_item_from_row u))"
      if "t \<in> set (timeline_items db)" "u \<in> set (timeline_items db)" "tl_revision t < tl_revision u" for t u
      using that timeline_row_facts(3) [OF inv] by (simp add: word_less_def)
  qed
  show "i64_key (Some (ts_revision a))" if "a \<in> set (timeline_selection r db)" for a
    using that timeline_row_facts [OF inv]
    by (auto simp: timeline_selection_def table_selection_def decoded_def i64_key_def)
next
  fix limit :: u32 and after db
  assume "\<not> (1 \<le> unat limit \<and> unat limit \<le> 200)"
  then show "list_timeline_page L \<lparr>lt_run_id = r, lt_after = after, lt_limit = limit\<rparr> db =
      (Err (Conflict ''page size must be between 1 and 200''), db)"
    by (simp add: list_timeline_page_def read_only_def page_size_error)
qed (simp_all add: timeline_page_law, simp add: i64_key_def)

end
