(* ===== verification/Store_Samples.thy ===== *)
theory Store_Samples
  imports Paging
begin

text \<open>
  One concrete history of the store, used by the witnesses: a project, a work item and its child, a
  run that starts, records a batch and three approvals (the first resolved, the second being
  answered, the third pending) and completes, and an artifact. The library parameters are concrete
  functions.
\<close>

section \<open>Evaluation\<close>

text \<open>
  The simplifier evaluates an operation on a concrete database with these definitions, one statement
  of a transaction at a time.
\<close>

lemma and_then_weak: "m = m' \<Longrightarrow> and_then m f = and_then m' f"
  by simp

lemma decimal_digits_eval:
  "n < 10 \<Longrightarrow> decimal_digits n = [char_of (48 + n)]"
  "\<not> n < 10 \<Longrightarrow> decimal_digits n = decimal_digits (n div 10) @ [char_of (48 + n mod 10)]"
  by (simp_all add: decimal_digits.simps)

lemma digit_eval:
  "char_of (48::nat) = CHR ''0''" "char_of (49::nat) = CHR ''1''" "char_of (50::nat) = CHR ''2''"
  "char_of (51::nat) = CHR ''3''" "char_of (52::nat) = CHR ''4''" "char_of (53::nat) = CHR ''5''"
  "char_of (54::nat) = CHR ''6''" "char_of (55::nat) = CHR ''7''" "char_of (56::nat) = CHR ''8''"
  "char_of (57::nat) = CHR ''9''" "char_of (97::nat) = CHR ''a''" "char_of (98::nat) = CHR ''b''"
  "char_of (99::nat) = CHR ''c''" "char_of (100::nat) = CHR ''d''" "char_of (101::nat) = CHR ''e''"
  "char_of (102::nat) = CHR ''f''"
  by code_simp+

lemmas string_eval = digit_eval trim_is_empty_def has_control_def chars_def bytes_def trim_def
  char_is_whitespace_def char_is_control_def decimal_def decimal_digits_eval sql_nonblank_def
  require_nonempty_def require_provider_component_def namespaced_provider_id_new_def

lemmas query_eval = Let_def transaction_def read_only_def validated_def query_optional_def query_row_def
  sql_def sql_insert_def sql_update_def update_where_def count_where_def map_database_error_def
  is_corruption_def constraint_violation_def validate_app_id_def validate_text_def is_v7_def id_text_def

lemmas table_eval = insert_project_def insert_work_item_def update_work_items_def insert_work_edge_def
  insert_run_def update_runs_def insert_timeline_item_def insert_approval_def update_approvals_def
  upsert_cursor_def insert_audit_def insert_artifact_def
  project_check_def work_item_check_def work_edge_check_def run_check_def has_run_def
  timeline_check_def approval_check_def cursor_check_def artifact_check_def
  project_clash_def work_item_clash_def work_edge_clash_def run_clash_def sql_same_def
  timeline_clash_def approval_clash_def cursor_clash_def audit_clash_def artifact_clash_def

lemmas row_eval = project_from_row_def work_item_from_row_def work_item_status_from_value_def
  parent_of_def run_from_row_def provider_run_identity_column_def run_status_from_value_def
  timeline_item_from_row_def provider_id_def approval_from_row_def approval_status_from_columns_def
  artifact_from_row_def artifact_kind_from_value_def u64_column_def u64_of_i64_def i64_of_u64_def
  i64_max_def conversion_failure_def decision_from_value_def

lemmas work_eval = create_project_def find_project_def create_work_item_def find_work_item_def
  check_parent_def new_work_item_row_def insert_parent_edge_def bump_work_item_revision_def
  archive_work_subtree_def

lemmas run_eval = find_run_def fetch_run_def create_run_def new_run_row_def check_work_item_ready_def
  transition_run_def apply_run_transition_def transition_row_def ended_at_ms_def is_terminal_def
  coalesce_def void_pending_approvals_def void_row_def run_transition_audit_def

lemmas approval_eval = find_approval_def get_approval_def record_pending_approval_def
  new_approval_row_def approval_work_item_def bump_if_known_def approval_missing_def
  begin_approval_response_def begin_row_def approval_audit_def confirm_approval_response_def
  resolve_row_def

lemmas timeline_eval = append_timeline_batch_def validate_batch_def append_new_def max_revision_def
  new_timeline_row_def new_cursor_row_def decide_append_def find_stream_cursor_def cursor_key_def
  cursor_from_row_def i64_checked_add_def timeline_payload_digest_def digest_preimage_def
  item_preimage_def add_bytes_def byte_string_def to_le_bytes_def hex_byte_def hex_char_def

lemmas artifact_eval = put_artifact_metadata_def find_artifact_def artifact_row_of_def owns_run_def
  content_digest_new_def artifact_provenance_new_def hex_digit_def ascii_digit_def list_all_iff

lemmas store_eval = string_eval query_eval table_eval row_eval work_eval run_eval approval_eval
  timeline_eval artifact_eval

section \<open>The sample history\<close>

definition sample_libs :: store_libs where
  "sample_libs =
     \<lparr>lib_version_num = (\<lambda>_. 7), lib_is_rfc4122 = (\<lambda>_. True), lib_parse_uuid = (\<lambda>s. Ok (of_nat (length s))),
      lib_uuid_text = (\<lambda>u. decimal (uint u)), lib_sql_text = (\<lambda>_. ''sql error''),
      lib_sha256 = (\<lambda>bs. [of_nat (length bs)])\<rparr>"

definition sample_project :: create_project_cmd where
  "sample_project = \<lparr>cp_id = Id 1, cp_name = ''demo''\<rparr>"

definition sample_root :: create_work_item_cmd where
  "sample_root = \<lparr>cw_id = Id 2, cw_project_id = Id 1, cw_title = ''root'', cw_parent_id = None\<rparr>"

definition sample_child :: create_work_item_cmd where
  "sample_child = \<lparr>cw_id = Id 3, cw_project_id = Id 1, cw_title = ''child'', cw_parent_id = Some (Id 2)\<rparr>"

definition sample_run :: create_run_cmd where
  "sample_run = \<lparr>cr_id = Id 4, cr_connection_id = Id 5, cr_work_item_id = Id 3, cr_provider_run = None\<rparr>"

definition sample_start :: transition_run_cmd where
  "sample_start = \<lparr>tr_run_id = Id 4, tr_expected_current = Starting, tr_target = Running,
     tr_provider_id = None, tr_occurred_at = 10, tr_audit_event_id = Id 20\<rparr>"

definition sample_finish :: transition_run_cmd where
  "sample_finish = \<lparr>tr_run_id = Id 4, tr_expected_current = Running, tr_target = Completed,
     tr_provider_id = None, tr_occurred_at = 30, tr_audit_event_id = Id 21\<rparr>"

definition sample_item :: "nat \<Rightarrow> string \<Rightarrow> new_timeline_item" where
  "sample_item n body = \<lparr>ni_id = Id (of_nat n), ni_kind = ''assistant'', ni_body = body, ni_provider_id = None\<rparr>"

definition sample_batch :: timeline_batch where
  "sample_batch = \<lparr>tb_batch_id = Id 30, tb_connection_id = Id 5, tb_run_id = Id 4,
     tb_source_namespace = ''codex'', tb_stream_id = ''main'', tb_expected_stream_revision = 0,
     tb_items = [sample_item 31 ''a'', sample_item 32 ''b'']\<rparr>"

definition sample_approval :: "nat \<Rightarrow> pending_approval" where
  "sample_approval n = \<lparr>pa_id = Id (of_nat n), pa_run_id = Id 4,
     pa_provider_id = projr (namespaced_provider_id_new ''codex'' (decimal (int n))),
     pa_kind = ''command'', pa_summary = ''run-tests''\<rparr>"

definition sample_begin :: "nat \<Rightarrow> begin_approval_response_cmd" where
  "sample_begin n = \<lparr>ba_approval_id = Id (of_nat n), ba_decision = Approved,
     ba_audit_event_id = Id (of_nat (n + 20))\<rparr>"

definition sample_confirm :: confirm_approval_response_cmd where
  "sample_confirm = \<lparr>ca_approval_id = Id 40, ca_audit_event_id = Id 70\<rparr>"

definition sample_artifact :: artifact_record where
  "sample_artifact = \<lparr>art_id = Id 80, art_work_item_id = Id 3, art_run_id = Some (Id 4), art_kind = Diff,
     art_digest = ContentDigest (replicate 64 (CHR ''0'')), art_byte_len = 12,
     art_media_type = ''text/plain'', art_provenance = ArtifactProvenance ''run''\<rparr>"

definition db_work :: db where
  "db_work =
     snd (create_work_item sample_libs 3 sample_child
       (snd (create_work_item sample_libs 2 sample_root
         (snd (create_project sample_libs 1 sample_project empty_db)))))"

definition db_starting :: db where
  "db_starting = snd (create_run sample_libs 4 sample_run db_work)"

definition db_running :: db where
  "db_running = snd (transition_run sample_libs sample_start db_starting)"

definition db_batch :: db where
  "db_batch = snd (append_timeline_batch sample_libs 11 sample_batch db_running)"

definition db_asked :: db where
  "db_asked =
     snd (record_pending_approval sample_libs 14 (sample_approval 42)
       (snd (record_pending_approval sample_libs 13 (sample_approval 41)
         (snd (record_pending_approval sample_libs 12 (sample_approval 40) db_batch)))))"

definition db_answering :: db where
  "db_answering =
     snd (begin_approval_response sample_libs 16 (sample_begin 41)
       (snd (begin_approval_response sample_libs 15 (sample_begin 40) db_asked)))"

definition db_answered :: db where
  "db_answered = snd (confirm_approval_response sample_libs 17 sample_confirm db_answering)"

definition db_finished :: db where
  "db_finished = snd (transition_run sample_libs sample_finish db_answered)"

definition db_artifact :: db where
  "db_artifact = snd (put_artifact_metadata sample_libs sample_artifact db_finished)"

lemmas sample_eval = sample_libs_def sample_project_def sample_root_def sample_child_def sample_run_def
  sample_start_def sample_finish_def sample_batch_def sample_item_def sample_approval_def
  sample_begin_def sample_confirm_def sample_artifact_def

section \<open>The history is reachable\<close>

lemma store_steps:
  "store_step L db (snd (create_project L now cp db))"
  "store_step L db (snd (create_work_item L now cw db))"
  "store_step L db (snd (begin_approval_response L now ba db))"
  "store_step L db (snd (confirm_approval_response L now ca db))"
  using store_step.intros(1,2,8,9) by (metis prod.collapse)+

lemma store_steps_wf:
  "wf_create_run cr \<Longrightarrow> store_step L db (snd (create_run L now cr db))"
  "wf_transition_run tr \<Longrightarrow> store_step L db (snd (transition_run L tr db))"
  "wf_timeline_batch b \<Longrightarrow> store_step L db (snd (append_timeline_batch L now b db))"
  "wf_pending_approval pa \<Longrightarrow> store_step L db (snd (record_pending_approval L now pa db))"
  "wf_artifact a \<Longrightarrow> store_step L db (snd (put_artifact_metadata L a db))"
  using store_step.intros(4,5,6,7,10) by (metis prod.collapse)+

lemmas reachable_steps1 = reachable_step [OF _ store_steps(1)] reachable_step [OF _ store_steps(2)]
  reachable_step [OF _ store_steps(3)] reachable_step [OF _ store_steps(4)]

lemma sample_wf:
  "wf_create_run sample_run" "wf_transition_run sample_start" "wf_transition_run sample_finish"
  "wf_timeline_batch sample_batch"
  by (simp_all add: wf_create_run_def sample_run_def wf_transition_run_def sample_start_def
      sample_finish_def wf_timeline_batch_def sample_batch_def sample_item_def)

lemma sample_wf_approvals:
  "wf_pending_approval (sample_approval 40)" "wf_pending_approval (sample_approval 41)"
  "wf_pending_approval (sample_approval 42)"
  by (simp_all add: wf_pending_approval_def wf_provider_id_def sample_approval_def string_eval)

lemma sample_wf_artifact: "wf_artifact sample_artifact"
  by (simp add: wf_artifact_def sample_artifact_def artifact_eval string_eval)

lemma reachable_samples:
  "reachable sample_libs db_work" "reachable sample_libs db_starting" "reachable sample_libs db_running"
  "reachable sample_libs db_batch" "reachable sample_libs db_asked" "reachable sample_libs db_answering"
  "reachable sample_libs db_answered" "reachable sample_libs db_finished" "reachable sample_libs db_artifact"
proof -
  show 1: "reachable sample_libs db_work"
    unfolding db_work_def by (intro reachable_steps1 reachable_init)
  show 2: "reachable sample_libs db_starting"
    unfolding db_starting_def by (intro reachable_step [OF 1] store_steps_wf sample_wf)
  show 3: "reachable sample_libs db_running"
    unfolding db_running_def by (intro reachable_step [OF 2] store_steps_wf sample_wf)
  show 4: "reachable sample_libs db_batch"
    unfolding db_batch_def by (intro reachable_step [OF 3] store_steps_wf sample_wf)
  show 5: "reachable sample_libs db_asked"
    unfolding db_asked_def
    by (intro reachable_step [OF _ store_steps_wf(4)] 4 sample_wf_approvals)
  show 6: "reachable sample_libs db_answering"
    unfolding db_answering_def by (intro reachable_steps1 5)
  show 7: "reachable sample_libs db_answered"
    unfolding db_answered_def by (intro reachable_steps1 6)
  show 8: "reachable sample_libs db_finished"
    unfolding db_finished_def by (intro reachable_step [OF 7] store_steps_wf sample_wf)
  show "reachable sample_libs db_artifact"
    unfolding db_artifact_def by (intro reachable_step [OF 8] store_steps_wf sample_wf_artifact)
qed

section \<open>Values of the sample databases\<close>

lemma db_work_value: "db_work =
     \<lparr>projects = [\<lparr>prj_id = Id 1, prj_name = ''demo'', prj_created_at_ms = 1\<rparr>],
     work_items = [\<lparr>wi_id = Id 2, wi_project_id = Id 1, wi_title = ''root'', wi_status =
     ''ready'', wi_revision = 1, wi_created_at_ms = 2, wi_updated_at_ms = 2, wi_archived_at_ms =
     None\<rparr>, \<lparr>wi_id = Id 3, wi_project_id = Id 1, wi_title = ''child'', wi_status =
     ''ready'', wi_revision = 1, wi_created_at_ms = 3, wi_updated_at_ms = 3, wi_archived_at_ms =
     None\<rparr>], work_edges = [\<lparr>we_parent_id = Id 2, we_child_id = Id 3, we_kind =
     ''parent''\<rparr>], runs = [], timeline_items = [], approval_requests = [], projection_cursors
     = [], audit_events = [], artifacts = []\<rparr>"
  by (simp add: db_work_def sample_eval store_eval  empty_db_def cong: and_then_weak)

lemma db_starting_value: "db_starting =
     \<lparr>projects = [\<lparr>prj_id = Id 1, prj_name = ''demo'', prj_created_at_ms = 1\<rparr>],
     work_items = [\<lparr>wi_id = Id 2, wi_project_id = Id 1, wi_title = ''root'', wi_status =
     ''ready'', wi_revision = 1, wi_created_at_ms = 2, wi_updated_at_ms = 2, wi_archived_at_ms =
     None\<rparr>, \<lparr>wi_id = Id 3, wi_project_id = Id 1, wi_title = ''child'', wi_status =
     ''ready'', wi_revision = 2, wi_created_at_ms = 3, wi_updated_at_ms = 4, wi_archived_at_ms =
     None\<rparr>], work_edges = [\<lparr>we_parent_id = Id 2, we_child_id = Id 3, we_kind =
     ''parent''\<rparr>], runs = [\<lparr>rr_id = Id 4, rr_connection_id = Id 5, rr_work_item_id =
     Id 3, rr_status = ''starting'', rr_provider_namespace = None, rr_provider_runtime_id = None,
     rr_provider_session_id = None, rr_provider_run_id = None, rr_created_at_ms = 4, rr_ended_at_ms
     = None\<rparr>], timeline_items = [], approval_requests = [], projection_cursors = [],
     audit_events = [], artifacts = []\<rparr>"
  by (simp add: db_starting_def sample_eval store_eval db_work_value cong: and_then_weak)

lemma db_running_value: "db_running =
     \<lparr>projects = [\<lparr>prj_id = Id 1, prj_name = ''demo'', prj_created_at_ms = 1\<rparr>],
     work_items = [\<lparr>wi_id = Id 2, wi_project_id = Id 1, wi_title = ''root'', wi_status =
     ''ready'', wi_revision = 1, wi_created_at_ms = 2, wi_updated_at_ms = 2, wi_archived_at_ms =
     None\<rparr>, \<lparr>wi_id = Id 3, wi_project_id = Id 1, wi_title = ''child'', wi_status =
     ''ready'', wi_revision = 3, wi_created_at_ms = 3, wi_updated_at_ms = 10, wi_archived_at_ms =
     None\<rparr>], work_edges = [\<lparr>we_parent_id = Id 2, we_child_id = Id 3, we_kind =
     ''parent''\<rparr>], runs = [\<lparr>rr_id = Id 4, rr_connection_id = Id 5, rr_work_item_id =
     Id 3, rr_status = ''running'', rr_provider_namespace = None, rr_provider_runtime_id = None,
     rr_provider_session_id = None, rr_provider_run_id = None, rr_created_at_ms = 4, rr_ended_at_ms
     = None\<rparr>], timeline_items = [], approval_requests = [], projection_cursors = [],
     audit_events = [\<lparr>au_id = Id 20, au_event_type = ''run_transitioned'', au_entity_type =
     ''run'', au_entity_id = ''4'', au_body = ''starting->running;voided_approvals=0'',
     au_created_at_ms = 10\<rparr>], artifacts = []\<rparr>"
  by (simp add: db_running_def sample_eval store_eval db_starting_value cong: and_then_weak)

lemma db_batch_value: "db_batch =
     \<lparr>projects = [\<lparr>prj_id = Id 1, prj_name = ''demo'', prj_created_at_ms = 1\<rparr>],
     work_items = [\<lparr>wi_id = Id 2, wi_project_id = Id 1, wi_title = ''root'', wi_status =
     ''ready'', wi_revision = 1, wi_created_at_ms = 2, wi_updated_at_ms = 2, wi_archived_at_ms =
     None\<rparr>, \<lparr>wi_id = Id 3, wi_project_id = Id 1, wi_title = ''child'', wi_status =
     ''ready'', wi_revision = 4, wi_created_at_ms = 3, wi_updated_at_ms = 11, wi_archived_at_ms =
     None\<rparr>], work_edges = [\<lparr>we_parent_id = Id 2, we_child_id = Id 3, we_kind =
     ''parent''\<rparr>], runs = [\<lparr>rr_id = Id 4, rr_connection_id = Id 5, rr_work_item_id =
     Id 3, rr_status = ''running'', rr_provider_namespace = None, rr_provider_runtime_id = None,
     rr_provider_session_id = None, rr_provider_run_id = None, rr_created_at_ms = 4, rr_ended_at_ms
     = None\<rparr>], timeline_items = [\<lparr>tl_id = Id 31, tl_connection_id = Id 5, tl_run_id =
     Id 4, tl_revision = 1, tl_kind = ''assistant'', tl_body = ''a'', tl_provider_namespace = None,
     tl_provider_item_id = None, tl_created_at_ms = 11\<rparr>, \<lparr>tl_id = Id 32,
     tl_connection_id = Id 5, tl_run_id = Id 4, tl_revision = 2, tl_kind = ''assistant'', tl_body =
     ''b'', tl_provider_namespace = None, tl_provider_item_id = None, tl_created_at_ms =
     11\<rparr>], approval_requests = [], projection_cursors = [\<lparr>pc_connection_id = Id 5,
     pc_source_namespace = ''codex'', pc_stream_id = ''main'', pc_run_id = Id 4, pc_cursor = 2,
     pc_last_batch_id = Id 30, pc_last_start_cursor = 0, pc_last_payload_digest = ''6c'',
     pc_updated_at_ms = 11\<rparr>], audit_events = [\<lparr>au_id = Id 20, au_event_type =
     ''run_transitioned'', au_entity_type = ''run'', au_entity_id = ''4'', au_body =
     ''starting->running;voided_approvals=0'', au_created_at_ms = 10\<rparr>], artifacts =
     []\<rparr>"
  by (simp add: db_batch_def sample_eval store_eval db_running_value cong: and_then_weak)

lemma db_asked_value: "db_asked =
     \<lparr>projects = [\<lparr>prj_id = Id 1, prj_name = ''demo'', prj_created_at_ms = 1\<rparr>],
     work_items = [\<lparr>wi_id = Id 2, wi_project_id = Id 1, wi_title = ''root'', wi_status =
     ''ready'', wi_revision = 1, wi_created_at_ms = 2, wi_updated_at_ms = 2, wi_archived_at_ms =
     None\<rparr>, \<lparr>wi_id = Id 3, wi_project_id = Id 1, wi_title = ''child'', wi_status =
     ''ready'', wi_revision = 7, wi_created_at_ms = 3, wi_updated_at_ms = 14, wi_archived_at_ms =
     None\<rparr>], work_edges = [\<lparr>we_parent_id = Id 2, we_child_id = Id 3, we_kind =
     ''parent''\<rparr>], runs = [\<lparr>rr_id = Id 4, rr_connection_id = Id 5, rr_work_item_id =
     Id 3, rr_status = ''running'', rr_provider_namespace = None, rr_provider_runtime_id = None,
     rr_provider_session_id = None, rr_provider_run_id = None, rr_created_at_ms = 4, rr_ended_at_ms
     = None\<rparr>], timeline_items = [\<lparr>tl_id = Id 31, tl_connection_id = Id 5, tl_run_id =
     Id 4, tl_revision = 1, tl_kind = ''assistant'', tl_body = ''a'', tl_provider_namespace = None,
     tl_provider_item_id = None, tl_created_at_ms = 11\<rparr>, \<lparr>tl_id = Id 32,
     tl_connection_id = Id 5, tl_run_id = Id 4, tl_revision = 2, tl_kind = ''assistant'', tl_body =
     ''b'', tl_provider_namespace = None, tl_provider_item_id = None, tl_created_at_ms =
     11\<rparr>], approval_requests = [\<lparr>ap_id = Id 40, ap_connection_id = Id 5, ap_run_id =
     Id 4, ap_provider_namespace = ''codex'', ap_provider_approval_id = ''40'', ap_kind =
     ''command'', ap_summary = ''run-tests'', ap_status = ''pending'', ap_decision = None,
     ap_requested_at_ms = 12, ap_response_started_at_ms = None, ap_resolved_at_ms = None,
     ap_voided_at_ms = None\<rparr>, \<lparr>ap_id = Id 41, ap_connection_id = Id 5, ap_run_id = Id
     4, ap_provider_namespace = ''codex'', ap_provider_approval_id = ''41'', ap_kind = ''command'',
     ap_summary = ''run-tests'', ap_status = ''pending'', ap_decision = None, ap_requested_at_ms =
     13, ap_response_started_at_ms = None, ap_resolved_at_ms = None, ap_voided_at_ms = None\<rparr>,
     \<lparr>ap_id = Id 42, ap_connection_id = Id 5, ap_run_id = Id 4, ap_provider_namespace =
     ''codex'', ap_provider_approval_id = ''42'', ap_kind = ''command'', ap_summary = ''run-tests'',
     ap_status = ''pending'', ap_decision = None, ap_requested_at_ms = 14, ap_response_started_at_ms
     = None, ap_resolved_at_ms = None, ap_voided_at_ms = None\<rparr>], projection_cursors =
     [\<lparr>pc_connection_id = Id 5, pc_source_namespace = ''codex'', pc_stream_id = ''main'',
     pc_run_id = Id 4, pc_cursor = 2, pc_last_batch_id = Id 30, pc_last_start_cursor = 0,
     pc_last_payload_digest = ''6c'', pc_updated_at_ms = 11\<rparr>], audit_events = [\<lparr>au_id
     = Id 20, au_event_type = ''run_transitioned'', au_entity_type = ''run'', au_entity_id = ''4'',
     au_body = ''starting->running;voided_approvals=0'', au_created_at_ms = 10\<rparr>], artifacts =
     []\<rparr>"
  by (simp add: db_asked_def sample_eval store_eval db_batch_value cong: and_then_weak)

lemma db_answering_value: "db_answering =
     \<lparr>projects = [\<lparr>prj_id = Id 1, prj_name = ''demo'', prj_created_at_ms = 1\<rparr>],
     work_items = [\<lparr>wi_id = Id 2, wi_project_id = Id 1, wi_title = ''root'', wi_status =
     ''ready'', wi_revision = 1, wi_created_at_ms = 2, wi_updated_at_ms = 2, wi_archived_at_ms =
     None\<rparr>, \<lparr>wi_id = Id 3, wi_project_id = Id 1, wi_title = ''child'', wi_status =
     ''ready'', wi_revision = 9, wi_created_at_ms = 3, wi_updated_at_ms = 16, wi_archived_at_ms =
     None\<rparr>], work_edges = [\<lparr>we_parent_id = Id 2, we_child_id = Id 3, we_kind =
     ''parent''\<rparr>], runs = [\<lparr>rr_id = Id 4, rr_connection_id = Id 5, rr_work_item_id =
     Id 3, rr_status = ''running'', rr_provider_namespace = None, rr_provider_runtime_id = None,
     rr_provider_session_id = None, rr_provider_run_id = None, rr_created_at_ms = 4, rr_ended_at_ms
     = None\<rparr>], timeline_items = [\<lparr>tl_id = Id 31, tl_connection_id = Id 5, tl_run_id =
     Id 4, tl_revision = 1, tl_kind = ''assistant'', tl_body = ''a'', tl_provider_namespace = None,
     tl_provider_item_id = None, tl_created_at_ms = 11\<rparr>, \<lparr>tl_id = Id 32,
     tl_connection_id = Id 5, tl_run_id = Id 4, tl_revision = 2, tl_kind = ''assistant'', tl_body =
     ''b'', tl_provider_namespace = None, tl_provider_item_id = None, tl_created_at_ms =
     11\<rparr>], approval_requests = [\<lparr>ap_id = Id 40, ap_connection_id = Id 5, ap_run_id =
     Id 4, ap_provider_namespace = ''codex'', ap_provider_approval_id = ''40'', ap_kind =
     ''command'', ap_summary = ''run-tests'', ap_status = ''responding'', ap_decision = Some
     ''approved'', ap_requested_at_ms = 12, ap_response_started_at_ms = Some 15, ap_resolved_at_ms =
     None, ap_voided_at_ms = None\<rparr>, \<lparr>ap_id = Id 41, ap_connection_id = Id 5, ap_run_id
     = Id 4, ap_provider_namespace = ''codex'', ap_provider_approval_id = ''41'', ap_kind =
     ''command'', ap_summary = ''run-tests'', ap_status = ''responding'', ap_decision = Some
     ''approved'', ap_requested_at_ms = 13, ap_response_started_at_ms = Some 16, ap_resolved_at_ms =
     None, ap_voided_at_ms = None\<rparr>, \<lparr>ap_id = Id 42, ap_connection_id = Id 5, ap_run_id
     = Id 4, ap_provider_namespace = ''codex'', ap_provider_approval_id = ''42'', ap_kind =
     ''command'', ap_summary = ''run-tests'', ap_status = ''pending'', ap_decision = None,
     ap_requested_at_ms = 14, ap_response_started_at_ms = None, ap_resolved_at_ms = None,
     ap_voided_at_ms = None\<rparr>], projection_cursors = [\<lparr>pc_connection_id = Id 5,
     pc_source_namespace = ''codex'', pc_stream_id = ''main'', pc_run_id = Id 4, pc_cursor = 2,
     pc_last_batch_id = Id 30, pc_last_start_cursor = 0, pc_last_payload_digest = ''6c'',
     pc_updated_at_ms = 11\<rparr>], audit_events = [\<lparr>au_id = Id 20, au_event_type =
     ''run_transitioned'', au_entity_type = ''run'', au_entity_id = ''4'', au_body =
     ''starting->running;voided_approvals=0'', au_created_at_ms = 10\<rparr>, \<lparr>au_id = Id 60,
     au_event_type = ''approval_response_begun'', au_entity_type = ''approval_request'',
     au_entity_id = ''40'', au_body = ''approved'', au_created_at_ms = 15\<rparr>, \<lparr>au_id =
     Id 61, au_event_type = ''approval_response_begun'', au_entity_type = ''approval_request'',
     au_entity_id = ''41'', au_body = ''approved'', au_created_at_ms = 16\<rparr>], artifacts =
     []\<rparr>"
  by (simp add: db_answering_def sample_eval store_eval db_asked_value cong: and_then_weak)

lemma db_answered_value: "db_answered =
     \<lparr>projects = [\<lparr>prj_id = Id 1, prj_name = ''demo'', prj_created_at_ms = 1\<rparr>],
     work_items = [\<lparr>wi_id = Id 2, wi_project_id = Id 1, wi_title = ''root'', wi_status =
     ''ready'', wi_revision = 1, wi_created_at_ms = 2, wi_updated_at_ms = 2, wi_archived_at_ms =
     None\<rparr>, \<lparr>wi_id = Id 3, wi_project_id = Id 1, wi_title = ''child'', wi_status =
     ''ready'', wi_revision = 10, wi_created_at_ms = 3, wi_updated_at_ms = 17, wi_archived_at_ms =
     None\<rparr>], work_edges = [\<lparr>we_parent_id = Id 2, we_child_id = Id 3, we_kind =
     ''parent''\<rparr>], runs = [\<lparr>rr_id = Id 4, rr_connection_id = Id 5, rr_work_item_id =
     Id 3, rr_status = ''running'', rr_provider_namespace = None, rr_provider_runtime_id = None,
     rr_provider_session_id = None, rr_provider_run_id = None, rr_created_at_ms = 4, rr_ended_at_ms
     = None\<rparr>], timeline_items = [\<lparr>tl_id = Id 31, tl_connection_id = Id 5, tl_run_id =
     Id 4, tl_revision = 1, tl_kind = ''assistant'', tl_body = ''a'', tl_provider_namespace = None,
     tl_provider_item_id = None, tl_created_at_ms = 11\<rparr>, \<lparr>tl_id = Id 32,
     tl_connection_id = Id 5, tl_run_id = Id 4, tl_revision = 2, tl_kind = ''assistant'', tl_body =
     ''b'', tl_provider_namespace = None, tl_provider_item_id = None, tl_created_at_ms =
     11\<rparr>], approval_requests = [\<lparr>ap_id = Id 40, ap_connection_id = Id 5, ap_run_id =
     Id 4, ap_provider_namespace = ''codex'', ap_provider_approval_id = ''40'', ap_kind =
     ''command'', ap_summary = ''run-tests'', ap_status = ''resolved'', ap_decision = Some
     ''approved'', ap_requested_at_ms = 12, ap_response_started_at_ms = Some 15, ap_resolved_at_ms =
     Some 17, ap_voided_at_ms = None\<rparr>, \<lparr>ap_id = Id 41, ap_connection_id = Id 5,
     ap_run_id = Id 4, ap_provider_namespace = ''codex'', ap_provider_approval_id = ''41'', ap_kind
     = ''command'', ap_summary = ''run-tests'', ap_status = ''responding'', ap_decision = Some
     ''approved'', ap_requested_at_ms = 13, ap_response_started_at_ms = Some 16, ap_resolved_at_ms =
     None, ap_voided_at_ms = None\<rparr>, \<lparr>ap_id = Id 42, ap_connection_id = Id 5, ap_run_id
     = Id 4, ap_provider_namespace = ''codex'', ap_provider_approval_id = ''42'', ap_kind =
     ''command'', ap_summary = ''run-tests'', ap_status = ''pending'', ap_decision = None,
     ap_requested_at_ms = 14, ap_response_started_at_ms = None, ap_resolved_at_ms = None,
     ap_voided_at_ms = None\<rparr>], projection_cursors = [\<lparr>pc_connection_id = Id 5,
     pc_source_namespace = ''codex'', pc_stream_id = ''main'', pc_run_id = Id 4, pc_cursor = 2,
     pc_last_batch_id = Id 30, pc_last_start_cursor = 0, pc_last_payload_digest = ''6c'',
     pc_updated_at_ms = 11\<rparr>], audit_events = [\<lparr>au_id = Id 20, au_event_type =
     ''run_transitioned'', au_entity_type = ''run'', au_entity_id = ''4'', au_body =
     ''starting->running;voided_approvals=0'', au_created_at_ms = 10\<rparr>, \<lparr>au_id = Id 60,
     au_event_type = ''approval_response_begun'', au_entity_type = ''approval_request'',
     au_entity_id = ''40'', au_body = ''approved'', au_created_at_ms = 15\<rparr>, \<lparr>au_id =
     Id 61, au_event_type = ''approval_response_begun'', au_entity_type = ''approval_request'',
     au_entity_id = ''41'', au_body = ''approved'', au_created_at_ms = 16\<rparr>, \<lparr>au_id =
     Id 70, au_event_type = ''approval_response_confirmed'', au_entity_type = ''approval_request'',
     au_entity_id = ''40'', au_body = ''approved'', au_created_at_ms = 17\<rparr>], artifacts =
     []\<rparr>"
  by (simp add: db_answered_def sample_eval store_eval db_answering_value cong: and_then_weak)

lemma db_finished_value: "db_finished =
     \<lparr>projects = [\<lparr>prj_id = Id 1, prj_name = ''demo'', prj_created_at_ms = 1\<rparr>],
     work_items = [\<lparr>wi_id = Id 2, wi_project_id = Id 1, wi_title = ''root'', wi_status =
     ''ready'', wi_revision = 1, wi_created_at_ms = 2, wi_updated_at_ms = 2, wi_archived_at_ms =
     None\<rparr>, \<lparr>wi_id = Id 3, wi_project_id = Id 1, wi_title = ''child'', wi_status =
     ''ready'', wi_revision = 11, wi_created_at_ms = 3, wi_updated_at_ms = 30, wi_archived_at_ms =
     None\<rparr>], work_edges = [\<lparr>we_parent_id = Id 2, we_child_id = Id 3, we_kind =
     ''parent''\<rparr>], runs = [\<lparr>rr_id = Id 4, rr_connection_id = Id 5, rr_work_item_id =
     Id 3, rr_status = ''completed'', rr_provider_namespace = None, rr_provider_runtime_id = None,
     rr_provider_session_id = None, rr_provider_run_id = None, rr_created_at_ms = 4, rr_ended_at_ms
     = Some 30\<rparr>], timeline_items = [\<lparr>tl_id = Id 31, tl_connection_id = Id 5, tl_run_id
     = Id 4, tl_revision = 1, tl_kind = ''assistant'', tl_body = ''a'', tl_provider_namespace =
     None, tl_provider_item_id = None, tl_created_at_ms = 11\<rparr>, \<lparr>tl_id = Id 32,
     tl_connection_id = Id 5, tl_run_id = Id 4, tl_revision = 2, tl_kind = ''assistant'', tl_body =
     ''b'', tl_provider_namespace = None, tl_provider_item_id = None, tl_created_at_ms =
     11\<rparr>], approval_requests = [\<lparr>ap_id = Id 40, ap_connection_id = Id 5, ap_run_id =
     Id 4, ap_provider_namespace = ''codex'', ap_provider_approval_id = ''40'', ap_kind =
     ''command'', ap_summary = ''run-tests'', ap_status = ''resolved'', ap_decision = Some
     ''approved'', ap_requested_at_ms = 12, ap_response_started_at_ms = Some 15, ap_resolved_at_ms =
     Some 17, ap_voided_at_ms = None\<rparr>, \<lparr>ap_id = Id 41, ap_connection_id = Id 5,
     ap_run_id = Id 4, ap_provider_namespace = ''codex'', ap_provider_approval_id = ''41'', ap_kind
     = ''command'', ap_summary = ''run-tests'', ap_status = ''responding'', ap_decision = Some
     ''approved'', ap_requested_at_ms = 13, ap_response_started_at_ms = Some 16, ap_resolved_at_ms =
     None, ap_voided_at_ms = None\<rparr>, \<lparr>ap_id = Id 42, ap_connection_id = Id 5, ap_run_id
     = Id 4, ap_provider_namespace = ''codex'', ap_provider_approval_id = ''42'', ap_kind =
     ''command'', ap_summary = ''run-tests'', ap_status = ''voided'', ap_decision = None,
     ap_requested_at_ms = 14, ap_response_started_at_ms = None, ap_resolved_at_ms = None,
     ap_voided_at_ms = Some 30\<rparr>], projection_cursors = [\<lparr>pc_connection_id = Id 5,
     pc_source_namespace = ''codex'', pc_stream_id = ''main'', pc_run_id = Id 4, pc_cursor = 2,
     pc_last_batch_id = Id 30, pc_last_start_cursor = 0, pc_last_payload_digest = ''6c'',
     pc_updated_at_ms = 11\<rparr>], audit_events = [\<lparr>au_id = Id 20, au_event_type =
     ''run_transitioned'', au_entity_type = ''run'', au_entity_id = ''4'', au_body =
     ''starting->running;voided_approvals=0'', au_created_at_ms = 10\<rparr>, \<lparr>au_id = Id 60,
     au_event_type = ''approval_response_begun'', au_entity_type = ''approval_request'',
     au_entity_id = ''40'', au_body = ''approved'', au_created_at_ms = 15\<rparr>, \<lparr>au_id =
     Id 61, au_event_type = ''approval_response_begun'', au_entity_type = ''approval_request'',
     au_entity_id = ''41'', au_body = ''approved'', au_created_at_ms = 16\<rparr>, \<lparr>au_id =
     Id 70, au_event_type = ''approval_response_confirmed'', au_entity_type = ''approval_request'',
     au_entity_id = ''40'', au_body = ''approved'', au_created_at_ms = 17\<rparr>, \<lparr>au_id =
     Id 21, au_event_type = ''run_transitioned'', au_entity_type = ''run'', au_entity_id = ''4'',
     au_body = ''running->completed;voided_approvals=1'', au_created_at_ms = 30\<rparr>], artifacts
     = []\<rparr>"
  by (simp add: db_finished_def sample_eval store_eval db_answered_value cong: and_then_weak)

lemma db_artifact_value: "db_artifact =
     \<lparr>projects = [\<lparr>prj_id = Id 1, prj_name = ''demo'', prj_created_at_ms = 1\<rparr>],
     work_items = [\<lparr>wi_id = Id 2, wi_project_id = Id 1, wi_title = ''root'', wi_status =
     ''ready'', wi_revision = 1, wi_created_at_ms = 2, wi_updated_at_ms = 2, wi_archived_at_ms =
     None\<rparr>, \<lparr>wi_id = Id 3, wi_project_id = Id 1, wi_title = ''child'', wi_status =
     ''ready'', wi_revision = 11, wi_created_at_ms = 3, wi_updated_at_ms = 30, wi_archived_at_ms =
     None\<rparr>], work_edges = [\<lparr>we_parent_id = Id 2, we_child_id = Id 3, we_kind =
     ''parent''\<rparr>], runs = [\<lparr>rr_id = Id 4, rr_connection_id = Id 5, rr_work_item_id =
     Id 3, rr_status = ''completed'', rr_provider_namespace = None, rr_provider_runtime_id = None,
     rr_provider_session_id = None, rr_provider_run_id = None, rr_created_at_ms = 4, rr_ended_at_ms
     = Some 30\<rparr>], timeline_items = [\<lparr>tl_id = Id 31, tl_connection_id = Id 5, tl_run_id
     = Id 4, tl_revision = 1, tl_kind = ''assistant'', tl_body = ''a'', tl_provider_namespace =
     None, tl_provider_item_id = None, tl_created_at_ms = 11\<rparr>, \<lparr>tl_id = Id 32,
     tl_connection_id = Id 5, tl_run_id = Id 4, tl_revision = 2, tl_kind = ''assistant'', tl_body =
     ''b'', tl_provider_namespace = None, tl_provider_item_id = None, tl_created_at_ms =
     11\<rparr>], approval_requests = [\<lparr>ap_id = Id 40, ap_connection_id = Id 5, ap_run_id =
     Id 4, ap_provider_namespace = ''codex'', ap_provider_approval_id = ''40'', ap_kind =
     ''command'', ap_summary = ''run-tests'', ap_status = ''resolved'', ap_decision = Some
     ''approved'', ap_requested_at_ms = 12, ap_response_started_at_ms = Some 15, ap_resolved_at_ms =
     Some 17, ap_voided_at_ms = None\<rparr>, \<lparr>ap_id = Id 41, ap_connection_id = Id 5,
     ap_run_id = Id 4, ap_provider_namespace = ''codex'', ap_provider_approval_id = ''41'', ap_kind
     = ''command'', ap_summary = ''run-tests'', ap_status = ''responding'', ap_decision = Some
     ''approved'', ap_requested_at_ms = 13, ap_response_started_at_ms = Some 16, ap_resolved_at_ms =
     None, ap_voided_at_ms = None\<rparr>, \<lparr>ap_id = Id 42, ap_connection_id = Id 5, ap_run_id
     = Id 4, ap_provider_namespace = ''codex'', ap_provider_approval_id = ''42'', ap_kind =
     ''command'', ap_summary = ''run-tests'', ap_status = ''voided'', ap_decision = None,
     ap_requested_at_ms = 14, ap_response_started_at_ms = None, ap_resolved_at_ms = None,
     ap_voided_at_ms = Some 30\<rparr>], projection_cursors = [\<lparr>pc_connection_id = Id 5,
     pc_source_namespace = ''codex'', pc_stream_id = ''main'', pc_run_id = Id 4, pc_cursor = 2,
     pc_last_batch_id = Id 30, pc_last_start_cursor = 0, pc_last_payload_digest = ''6c'',
     pc_updated_at_ms = 11\<rparr>], audit_events = [\<lparr>au_id = Id 20, au_event_type =
     ''run_transitioned'', au_entity_type = ''run'', au_entity_id = ''4'', au_body =
     ''starting->running;voided_approvals=0'', au_created_at_ms = 10\<rparr>, \<lparr>au_id = Id 60,
     au_event_type = ''approval_response_begun'', au_entity_type = ''approval_request'',
     au_entity_id = ''40'', au_body = ''approved'', au_created_at_ms = 15\<rparr>, \<lparr>au_id =
     Id 61, au_event_type = ''approval_response_begun'', au_entity_type = ''approval_request'',
     au_entity_id = ''41'', au_body = ''approved'', au_created_at_ms = 16\<rparr>, \<lparr>au_id =
     Id 70, au_event_type = ''approval_response_confirmed'', au_entity_type = ''approval_request'',
     au_entity_id = ''40'', au_body = ''approved'', au_created_at_ms = 17\<rparr>, \<lparr>au_id =
     Id 21, au_event_type = ''run_transitioned'', au_entity_type = ''run'', au_entity_id = ''4'',
     au_body = ''running->completed;voided_approvals=1'', au_created_at_ms = 30\<rparr>], artifacts
     = [\<lparr>af_id = Id 80, af_work_item_id = Id 3, af_run_id = Some (Id 4), af_kind = ''diff'',
     af_digest = replicate 64 CHR ''0'', af_byte_len = 12, af_media_type = ''text/plain'',
     af_provenance = ''run''\<rparr>]\<rparr>"
  by (simp add: db_artifact_def sample_eval store_eval db_finished_value cong: and_then_weak)

end
