(* ===== verification/Store_Create.thy ===== *)
theory Store_Create
  imports Store_Steps
begin

text \<open>
  The contract of the store's creating operations, as the locale \<open>idempotent_create\<close>: an identifier
  chosen by the caller makes a creation a put-if-absent. What a creation returns is what the store
  finds afterwards; repeating the command returns it again and changes nothing; another command under
  the same identifier is a conflict. \<open>create_project\<close>, \<open>create_work_item\<close>, \<open>create_run\<close>,
  \<open>record_pending_approval\<close> and \<open>put_artifact_metadata\<close> are instances.
\<close>

section \<open>The interface\<close>

locale idempotent_create =
  fixes inv :: "db \<Rightarrow> bool"
    and create :: "utc_timestamp \<Rightarrow> 'c \<Rightarrow> 's job"
    and find :: "'c \<Rightarrow> db \<Rightarrow> store_error + 's option"
    and wf :: "'c \<Rightarrow> bool"
    and accepted :: "'c \<Rightarrow> bool"
    and same :: "'c \<Rightarrow> 's \<Rightarrow> bool"
  assumes accepts: "create now c db = (Ok s, db') \<Longrightarrow> accepted c"
    and found: "inv db \<Longrightarrow> wf c \<Longrightarrow> create now c db = (Ok s, db') \<Longrightarrow>
      find c db' = Ok (Some s) \<and> same c s"
    and exists_same: "accepted c \<Longrightarrow> find c db = Ok (Some s) \<Longrightarrow> same c s \<Longrightarrow> create now c db = (Ok s, db)"
    and exists_other: "accepted c \<Longrightarrow> find c db = Ok (Some s) \<Longrightarrow> \<not> same c s \<Longrightarrow>
      \<exists>m. create now c db = (Err (Conflict m), db)"
begin

lemma retry:
  assumes "inv db" and "wf c" and "create now c db = (Ok s, db')"
  shows "create later c db' = (Ok s, db')"
  using exists_same [OF accepts [OF assms(3)]] found [OF assms] by blast

lemma reused_identifier:
  assumes "inv db" and "wf c" and "create now c db = (Ok s, db')"
    and "accepted c'" and "find c' db' = find c db'" and "\<not> same c' s"
  shows "\<exists>m. create later c' db' = (Err (Conflict m), db')"
  using exists_other [OF assms(4), of db' s later] found [OF assms(1-3)] assms(5,6) by simp

end

section \<open>What a creation leaves to be found\<close>

definition same_project :: "create_project_cmd \<Rightarrow> project_snapshot \<Rightarrow> bool" where
  "same_project c s \<longleftrightarrow> ps_name s = cp_name c"

definition same_work_item :: "create_work_item_cmd \<Rightarrow> work_item_snapshot \<Rightarrow> bool" where
  "same_work_item c s \<longleftrightarrow>
     ws_project_id s = cw_project_id c \<and> ws_title s = cw_title c \<and> ws_parent_id s = cw_parent_id c"

definition same_run :: "create_run_cmd \<Rightarrow> run_snapshot \<Rightarrow> bool" where
  "same_run c s \<longleftrightarrow>
     rs_work_item_id s = cr_work_item_id c \<and> rs_connection_id s = cr_connection_id c \<and>
     rs_provider_id s = cr_provider_run c"

definition same_approval :: "pending_approval \<Rightarrow> approval_snapshot \<Rightarrow> bool" where
  "same_approval a s \<longleftrightarrow>
     as_run_id s = pa_run_id a \<and> as_provider_id s = pa_provider_id a \<and> as_kind s = pa_kind a \<and>
     as_summary s = pa_summary a"

definition accepted_project :: "'z store_libs_scheme \<Rightarrow> create_project_cmd \<Rightarrow> bool" where
  "accepted_project L c \<longleftrightarrow> is_v7 L (cp_id c) \<and> \<not> trim_is_empty (cp_name c)"

definition accepted_work_item :: "'z store_libs_scheme \<Rightarrow> create_work_item_cmd \<Rightarrow> bool" where
  "accepted_work_item L c \<longleftrightarrow> is_v7 L (cw_id c) \<and> \<not> trim_is_empty (cw_title c)"

definition accepted_approval :: "'z store_libs_scheme \<Rightarrow> pending_approval \<Rightarrow> bool" where
  "accepted_approval L a \<longleftrightarrow> is_v7 L (pa_id a) \<and> \<not> trim_is_empty (pa_kind a)"

definition accepted_artifact :: "'z store_libs_scheme \<Rightarrow> artifact_record \<Rightarrow> bool" where
  "accepted_artifact L a \<longleftrightarrow>
     is_v7 L (art_id a) \<and> \<not> trim_is_empty (art_media_type a) \<and> i64_of_u64 (art_byte_len a) \<noteq> None"

lemma find_after_append:
  "List.find P xs = None \<Longrightarrow> P x \<Longrightarrow> List.find P (xs @ [x]) = Some x"
  by (simp add: find_append)

lemma found_project:
  assumes "create_project L now c db = (Ok s, db')"
  shows "find_project L (cp_id c) db' = Ok (Some s) \<and> same_project c s"
proof -
  have "(find_project L (cp_id c) db = Ok (Some s) \<and> db' = db \<and> ps_name s = cp_name c) \<or>
      (find_project L (cp_id c) db = Ok None \<and>
       insert_project \<lparr>prj_id = cp_id c, prj_name = cp_name c, prj_created_at_ms = now\<rparr> db = Ok db' \<and>
       s = \<lparr>ps_id = cp_id c, ps_name = cp_name c, ps_created_at = now\<rparr>)"
    using assms
    by (auto simp: create_project_def job_simps and_then_eq_Ok case_option_Ok split: if_split_asm)
  then show ?thesis
    by (auto simp: same_project_def insert_project_Ok find_project_def query_optional_None
        query_optional_Some find_after_append project_from_row_def)
qed

lemma found_run:
  assumes wf: "wf_create_run c" and res: "create_run L now c db = (Ok s, db')"
  shows "find_run L (cr_id c) db' = Ok (Some s) \<and> same_run c s"
  using create_run_Ok [OF res]
proof (elim disjE exE conjE)
  assume "find_run L (cr_id c) db = Ok (Some s)" "db' = db" "rs_work_item_id s = cr_work_item_id c"
    "rs_connection_id s = cr_connection_id c" "rs_provider_id s = cr_provider_run c"
  then show ?thesis by (simp add: same_run_def)
next
  fix db1
  assume none: "find_run L (cr_id c) db = Ok None"
    and ins: "insert_run (new_run_row now c) db = Ok db1"
    and bump: "bump_work_item_revision L (cr_work_item_id c) now db1 = Ok db'"
    and s: "s = \<lparr>rs_id = cr_id c, rs_connection_id = cr_connection_id c,
        rs_work_item_id = cr_work_item_id c, rs_status = Starting,
        rs_provider_id = cr_provider_run c, rs_created_at = now, rs_ended_at = None\<rparr>"
  have "runs db' = runs db1" using bump by (auto elim: bump_frame)
  also have "\<dots> = runs db @ [new_run_row now c]" using ins by (simp add: insert_run_Ok)
  finally have "List.find (\<lambda>r. rr_id r = cr_id c) (runs db') = Some (new_run_row now c)"
    using none by (simp add: find_run_def query_optional_None find_after_append)
      (simp add: find_after_append new_run_row_def)
  then show ?thesis
    by (simp add: find_run_def query_optional_Some new_run_row_decodes [OF wf] s same_run_def)
qed

lemma found_approval:
  assumes wf: "wf_pending_approval a" and res: "record_pending_approval L now a db = (Ok s, db')"
  shows "find_approval L (pa_id a) db' = Ok (Some s) \<and> same_approval a s"
proof (cases "find_approval L (pa_id a) db = Ok None")
  case False
  then have "find_approval L (pa_id a) db = Ok (Some s) \<and> db' = db \<and> same_approval a s"
    using res
    by (auto simp: record_pending_approval_def job_simps and_then_eq_Ok case_option_Ok same_approval_def
        split: if_split_asm)
  then show ?thesis by simp
next
  case True
  from record_pending_approval_Ok [OF res] show ?thesis
  proof (elim disjE exE conjE)
    assume "find_approval L (pa_id a) db = Ok (Some s)"
    with True show ?thesis by simp
  next
    fix r db1
    assume ins: "insert_approval (new_approval_row now (rr_connection_id r) a) db = Ok db1"
      and bump: "bump_work_item_revision L (rr_work_item_id r) now db1 = Ok db'"
      and s: "s = \<lparr>as_id = pa_id a, as_connection_id = rr_connection_id r, as_run_id = pa_run_id a,
            as_provider_id = pa_provider_id a, as_kind = pa_kind a, as_summary = pa_summary a,
            as_status = Pending, as_requested_at = now, as_response_started_at = None,
            as_resolved_at = None, as_voided_at = None\<rparr>"
    have "approval_requests db' = approval_requests db1" using bump by (auto elim: bump_frame)
    also have "\<dots> = approval_requests db @ [new_approval_row now (rr_connection_id r) a]"
      using ins by (simp add: insert_approval_Ok)
    finally have "List.find (\<lambda>x. ap_id x = pa_id a) (approval_requests db') =
        Some (new_approval_row now (rr_connection_id r) a)"
      using True by (simp add: find_approval_def query_optional_None find_append)
        (simp add: new_approval_row_def)
    then show ?thesis
      by (simp add: find_approval_def query_optional_Some new_approval_row_decodes [OF wf] s
          same_approval_def)
  qed
qed

lemma found_work_item:
  assumes "store_inv L db" and res: "create_work_item L now c db = (Ok s, db')"
  shows "find_work_item L (cw_id c) db' = Ok (Some s) \<and> same_work_item c s"
proof -
  have "work_inv db" using assms(1) by (simp add: store_inv_def core_inv_def)
  then have "find_work_item L (cw_id c) db' = Ok (Some s)" using res by (rule find_work_item_created)
  with create_work_item_Ok [OF res] show ?thesis by (auto simp: same_work_item_def)
qed

section \<open>The creating operations\<close>

lemma create_accepts:
  "create_project L now cp db = (Ok ps, db') \<Longrightarrow> accepted_project L cp"
  "create_work_item L now cw db = (Ok ws, db') \<Longrightarrow> accepted_work_item L cw"
  "create_run L now cr db = (Ok rs, db') \<Longrightarrow> is_v7 L (cr_id cr)"
  "record_pending_approval L now pa db = (Ok as, db') \<Longrightarrow> accepted_approval L pa"
  "put_artifact_metadata L a db = (Ok s, db') \<Longrightarrow> accepted_artifact L a"
  by (simp_all add: create_project_def create_work_item_def create_run_def record_pending_approval_def
      put_artifact_metadata_def validated_Ok and_then_eq_Ok accepted_project_def accepted_work_item_def
      accepted_approval_def accepted_artifact_def)

text \<open>A creation that finds its identifier taken.\<close>

lemma create_existing:
  "accepted_project L cp \<Longrightarrow> find_project L (cp_id cp) db = Ok (Some ps) \<Longrightarrow>
     create_project L now cp db =
       (if same_project cp ps then Ok ps
        else Err (Conflict (''project id already exists with different content: '' @ id_text L (cp_id cp))), db)"
  "accepted_work_item L cw \<Longrightarrow> find_work_item L (cw_id cw) db = Ok (Some ws) \<Longrightarrow>
     create_work_item L now cw db =
       (if same_work_item cw ws then Ok ws
        else Err (Conflict (''work item id already exists with different content: '' @ id_text L (cw_id cw))), db)"
  "is_v7 L (cr_id cr) \<Longrightarrow> find_run L (cr_id cr) db = Ok (Some rs) \<Longrightarrow>
     create_run L now cr db =
       (if same_run cr rs then Ok rs
        else Err (Conflict (''run id already exists with different content: '' @ id_text L (cr_id cr))), db)"
  "accepted_approval L pa \<Longrightarrow> find_approval L (pa_id pa) db = Ok (Some as) \<Longrightarrow>
     record_pending_approval L now pa db =
       (if same_approval pa as then Ok as
        else Err (Conflict (''approval id already exists with different content: '' @ id_text L (pa_id pa))), db)"
  "accepted_artifact L a \<Longrightarrow> find_artifact L (art_id a) db = Ok (Some s) \<Longrightarrow>
     put_artifact_metadata L a db =
       (if s = a then Ok s
        else Err (Conflict (''artifact id already exists with different content: '' @ id_text L (art_id a))), db)"
  by (simp_all add: create_project_def create_work_item_def create_run_def record_pending_approval_def
      put_artifact_metadata_def validated_def transaction_def validate_app_id_def validate_text_def
      accepted_project_def accepted_work_item_def accepted_approval_def accepted_artifact_def
      same_project_def same_work_item_def same_run_def same_approval_def)

interpretation create_projects: idempotent_create "store_inv L" "create_project L"
    "\<lambda>c. find_project L (cp_id c)" "\<lambda>_. True" "accepted_project L" same_project
  for L
  by unfold_locales (rule create_accepts found_project, assumption | simp add: create_existing)+

interpretation create_work_items: idempotent_create "store_inv L" "create_work_item L"
    "\<lambda>c. find_work_item L (cw_id c)" "\<lambda>_. True" "accepted_work_item L" same_work_item
  for L
  by unfold_locales
    (rule create_accepts, assumption | rule found_work_item, assumption, assumption
     | simp add: create_existing)+

interpretation create_runs: idempotent_create "store_inv L" "create_run L"
    "\<lambda>c. find_run L (cr_id c)" wf_create_run "\<lambda>c. is_v7 L (cr_id c)" same_run
  for L
  by unfold_locales
    (rule create_accepts, assumption | rule found_run, assumption, assumption
     | simp add: create_existing)+

interpretation record_approvals: idempotent_create "store_inv L" "record_pending_approval L"
    "\<lambda>a. find_approval L (pa_id a)" wf_pending_approval "accepted_approval L" same_approval
  for L
  by unfold_locales
    (rule create_accepts, assumption | rule found_approval, assumption, assumption
     | simp add: create_existing)+

lemma found_artifact:
  assumes "wf_artifact a" and "put_artifact_metadata L a db = (Ok s, db')"
  shows "find_artifact L (art_id a) db' = Ok (Some s) \<and> s = a"
  using find_artifact_put [OF assms] assms(2) by (auto elim: put_artifact_metadata_cases)

interpretation put_artifacts: idempotent_create "store_inv L" "\<lambda>_. put_artifact_metadata L"
    "\<lambda>a. find_artifact L (art_id a)" wf_artifact "accepted_artifact L" "\<lambda>a s. s = a"
  for L
  by unfold_locales
    (rule create_accepts, assumption | rule found_artifact, assumption, assumption
     | simp add: create_existing)+

end
