(* ===== verification/Store_Properties.thy ===== *)
theory Store_Properties
  imports Store_Samples Store_Create
begin

text \<open>
  The properties of the durable store, each over every reachable database, with a witness on the
  sample history.
\<close>

lemma transition_sample: "(store_step sample_libs)\<^sup>*\<^sup>* db_finished db_artifact"
  unfolding db_artifact_def by (intro r_into_rtranclp store_steps_wf sample_wf_artifact)

section \<open>The work graph\<close>

text \<open>
  C6: In every reachable database the work graph is a forest: it has no cycle, an item has at most
  one parent, an edge stays inside one project and an archived parent has no active child.
\<close>

theorem work_graph_is_archived_forest:
  assumes "reachable L db"
  shows "acyclic (edge_rel (work_edges db)) \<and> distinct (map we_child_id (work_edges db)) \<and>
    (\<forall>e\<in>set (work_edges db). \<forall>p\<in>set (work_items db). \<forall>c\<in>set (work_items db).
       wi_id p = we_parent_id e \<longrightarrow> wi_id c = we_child_id e \<longrightarrow>
         wi_project_id p = wi_project_id c \<and>
         (wi_status p = ''archived'' \<longrightarrow> wi_status c = ''archived''))"
  using reachable_invs [OF assms] unfolding work_inv_def edge_closed_def by blast

theorem work_graph_is_archived_forest_witness:
  "acyclic (edge_rel (work_edges db_work)) \<and> distinct (map we_child_id (work_edges db_work))"
  using work_graph_is_archived_forest [OF reachable_samples(1)] by blast

text \<open>
  C7: Archiving an existing work item ends and succeeds in every reachable database: exactly the
  active items below the root change, each becomes archived with its revision raised by one, and the
  count of them is returned.
\<close>

theorem archive_archives_the_subtree:
  assumes "reachable L db" and "root \<in> wi_id ` set (work_items db)"
  shows "archive_work_subtree L now root db =
     Some (Ok (of_nat (count_where
             (\<lambda>r. (root, wi_id r) \<in> (edge_rel (work_edges db))\<^sup>* \<and> wi_status r \<noteq> ''archived'')
             (work_items db))),
           db\<lparr>work_items := map
             (\<lambda>r. if (root, wi_id r) \<in> (edge_rel (work_edges db))\<^sup>* \<and> wi_status r \<noteq> ''archived''
                  then r\<lparr>wi_status := ''archived'', wi_revision := wi_revision r + 1,
                         wi_archived_at_ms := Some now, wi_updated_at_ms := now\<rparr>
                  else r)
             (work_items db)\<rparr>)"
  using archive_work_subtree_total [of db root L now] assms
  by (simp add: reachable_invs work_keys_def update_where_def archive_row_def)

theorem archive_archives_the_subtree_witness:
  "\<exists>n db'. archive_work_subtree sample_libs 50 (Id 2) db_work = Some (Ok n, db')"
  by (rule exI, rule exI, rule archive_archives_the_subtree [OF reachable_samples(1)])
    (simp add: db_work_value)

section \<open>Histories\<close>

text \<open>
  C9: Whatever sequence of operations runs, successful or not, databases only evolve: projects,
  edges, timeline items, audit events and artifacts are only appended, no work item, run, approval or
  stream cursor disappears or changes its identity, a work item never becomes active again and its
  revision never drops, runs and approvals move forward along their lifecycles, and a stream's cursor
  is only replaced by that of a batch which starts at or after it.
\<close>

theorem history_only_evolves:
  assumes "reachable L db" and "(store_step L)\<^sup>*\<^sup>* db db'"
  shows "evolves db db'"
  using reachable_steps [OF assms] by (rule conjunct2)

theorem history_only_evolves_witness: "evolves db_finished db_artifact"
  using history_only_evolves [OF reachable_samples(8) transition_sample] .

text \<open>
  C4: A run that has completed, failed or been interrupted never changes again, and from then on it
  has no pending approval, so a late approval request is not waiting on a finished run.
\<close>

theorem finished_run_is_final:
  assumes "reachable L db" and "r \<in> set (runs db)"
    and "rr_status r \<in> {''completed'', ''failed'', ''interrupted''}"
    and "(store_step L)\<^sup>*\<^sup>* db db'"
  shows "r \<in> set (runs db') \<and>
    (\<forall>a\<in>set (approval_requests db'). ap_run_id a = rr_id r \<longrightarrow> ap_status a \<noteq> ''pending'')"
proof -
  have re: "reachable L db'" and ev: "evolves db db'" using reachable_steps [OF assms(1,4)] by auto
  obtain r' where r': "r' \<in> set (runs db')" "run_le r r'"
    using grows_member [OF evolves_tables(2) [OF ev] assms(2)] by blast
  have fin: "finished (rr_status r)" using assms(3) by (simp add: finished_def)
  then have "r' = r" using r'(2) by (auto simp: run_le_def)
  with r'(1) have "r \<in> set (runs db')" by simp
  moreover have "pending_open db'" using reachable_invs [OF re] by (simp add: approval_inv_def)
  ultimately show ?thesis using fin unfolding pending_open_def by metis
qed

theorem finished_run_is_final_witness:
  "\<exists>r\<in>set (runs db_artifact). rr_status r = ''completed'' \<and> rr_id r = Id 4"
proof -
  let ?r = "hd (runs db_finished)"
  have "?r \<in> set (runs db_finished)" "rr_status ?r = ''completed''" "rr_id ?r = Id 4"
    by (simp_all add: db_finished_value)
  with finished_run_is_final [OF reachable_samples(8) _ _ transition_sample, of ?r] show ?thesis by auto
qed

section \<open>Runs and approvals\<close>

text \<open>
  A successful transition is a compare-and-set on one row: the run had the expected status, it
  gets the target status and an end time exactly when the target is terminal, every other run is
  untouched, and one audit event records it.
\<close>

theorem transition_run_is_compare_and_set:
  assumes "reachable L db" and "transition_run L c db = (Ok s, db')"
  shows "(\<exists>r\<in>set (runs db). rr_id r = tr_run_id c \<and> rr_status r = run_status_value (tr_expected_current c)) \<and>
    runs db' = map (\<lambda>r. if rr_id r = tr_run_id c then transition_row c r else r) (runs db) \<and>
    rs_id s = tr_run_id c \<and> rs_status s = tr_target c \<and>
    rs_ended_at s = (if tr_target c \<in> {Completed, Failed, Interrupted} then Some (tr_occurred_at c) else None) \<and>
    (\<exists>n. audit_events db' = audit_events db @ [run_transition_audit L c n])"
proof -
  have res: "apply_run_transition L c db = Ok (s, db')"
    using assms(2) by (simp add: transition_run_def job_simps)
  let ?P = "\<lambda>r. rr_id r = tr_run_id c \<and> rr_status r = run_status_value (tr_expected_current c)"
  from res show ?thesis
  proof (rule apply_run_transition_Ok)
    fix run n db1 voided db2 db3
    assume upd: "update_runs ?P (transition_row c) db = Ok (n, db1)" and n: "n \<noteq> 0"
      and void: "void_pending_approvals L c db1 = Ok (voided, db2)"
      and audit: "insert_audit (run_transition_audit L c voided) db2 = Ok db3"
      and bump: "bump_work_item_revision L (rs_work_item_id run) (tr_occurred_at c) db3 = Ok db'"
      and row: "query_row L run_from_row (\<lambda>r. rr_id r = tr_run_id c) (runs db') = Ok s"
    have db1: "db1 = db\<lparr>runs := update_where ?P (transition_row c) (runs db)\<rparr>"
      and "n = count_where ?P (runs db)" using upd by (simp_all add: update_runs_Ok)
    with n obtain r where r: "r \<in> set (runs db)" "?P r" by auto
    obtain ap where db2: "db2 = db1\<lparr>approval_requests := ap\<rparr>" using void_frame [OF void] by metis
    obtain wi where db': "db' = db3\<lparr>work_items := wi\<rparr>" using bump by (rule bump_frame)
    have db3: "db3 = db2\<lparr>audit_events := audit_events db2 @ [run_transition_audit L c voided]\<rparr>"
      using audit by (simp add: insert_audit_Ok)
    have ids: "distinct (map rr_id (runs db))" using reachable_invs [OF assms(1)] by (simp add: run_inv_def)
    have same: "?P x = (rr_id x = tr_run_id c)" if "x \<in> set (runs db)" for x
    proof -
      have "rr_id x = tr_run_id c \<Longrightarrow> x = r" using distinct_map_inj [OF ids that r(1)] r(2) by simp
      with r(2) show ?thesis by blast
    qed
    have runs': "runs db' = map (\<lambda>r. if rr_id r = tr_run_id c then transition_row c r else r) (runs db)"
      unfolding db' db3 db2 db1 using same by (simp add: update_where_def)
    obtain x where x: "List.find (\<lambda>r. rr_id r = tr_run_id c) (runs db') = Some x" "run_from_row x = Ok s"
      using row by (auto simp: query_row_Ok)
    from x(1) have "x \<in> set (runs db')" "rr_id x = tr_run_id c" by (auto dest: find_Some_iff')
    then obtain y where "x = transition_row c y" by (auto simp: runs' split: if_splits)
    with x(2) have s: "rs_id s = rr_id x" "rs_status s = tr_target c"
      "rs_ended_at s = ended_at_ms (tr_target c) (tr_occurred_at c)"
      by (auto simp: run_from_row_def and_then_eq_Ok)
    have "audit_events db' = audit_events db @ [run_transition_audit L c voided]"
      by (simp add: db' db3 db2 db1)
    with r runs' s \<open>rr_id x = tr_run_id c\<close> show ?thesis
      by (auto simp: ended_at_ms_def is_terminal_def)
  qed
qed

theorem transition_run_is_compare_and_set_witness:
  "map rr_status (runs db_running) = [''running'']"
proof -
  obtain s where "transition_run sample_libs sample_start db_starting = (Ok s, db_running)"
    by (simp add: db_running_value db_starting_value sample_eval store_eval cong: and_then_weak)
  from transition_run_is_compare_and_set [OF reachable_samples(2) this] show ?thesis
    by (simp add: db_starting_value sample_start_def)
qed

lemma find_run_row:
  assumes "store_inv L db" and "r \<in> set (runs db)"
  shows "List.find (\<lambda>x. rr_id x = rr_id r) (runs db) = Some r"
    and "\<exists>s. run_from_row r = Ok s \<and> fetch_run L (rr_id r) db = Ok s"
proof -
  show f: "List.find (\<lambda>x. rr_id x = rr_id r) (runs db) = Some r"
    using store_inv_keys(3) [OF assms(1)] assms(2) by (rule find_key)
  obtain s where "run_from_row r = Ok s"
    using store_inv_decodes(1) [OF assms] by (auto simp: is_ok_iff)
  with f show "\<exists>s. run_from_row r = Ok s \<and> fetch_run L (rr_id r) db = Ok s"
    by (simp add: fetch_run_def find_run_def query_optional_def)
qed

text \<open>
  A transition whose expected status is stale fails with a conflict that names the two statuses
  and changes nothing, whatever the target.
\<close>

theorem stale_transition_conflicts:
  assumes "reachable L db" and "r \<in> set (runs db)" and "rr_id r = tr_run_id c"
    and "rr_status r \<noteq> run_status_value (tr_expected_current c)"
    and "is_v7 L (tr_audit_event_id c)" and "can_transition_to (tr_expected_current c) (tr_target c)"
  shows "transition_run L c db =
    (Err (Conflict (''run state conflict: expected '' @ run_status_value (tr_expected_current c) @
                    '', current '' @ rr_status r)), db)"
proof -
  have inv: "store_inv L db" using assms(1) by (rule store_inv_reachable)
  have find: "List.find (\<lambda>x. rr_id x = tr_run_id c) (runs db) = Some r"
    using find_run_row(1) [OF inv assms(2)] assms(3) by simp
  obtain s where fetch: "fetch_run L (tr_run_id c) db = Ok s"
    using find_run_row(2) [OF inv assms(2)] assms(3) by auto
  let ?P = "\<lambda>x. rr_id x = tr_run_id c \<and> rr_status x = run_status_value (tr_expected_current c)"
  have none: "\<forall>x\<in>set (runs db). \<not> ?P x"
  proof
    fix x assume "x \<in> set (runs db)"
    with store_inv_keys(3) [OF inv] assms(2-4) show "\<not> ?P x" by (metis distinct_map_inj)
  qed
  have "sorted_wrt (\<lambda>x y. \<not> run_clash x y) (runs db)"
    using inv by (simp add: store_inv_def core_inv_def run_inv_def)
  then have "update_runs ?P (transition_row c) db = Ok (0, db)"
    unfolding update_runs_Ok update_where_none [OF none] using none by auto
  then show ?thesis
    using assms(5,6) fetch find
    by (simp add: transition_run_def validated_def validate_app_id_def transaction_def
        apply_run_transition_def)
qed

theorem stale_transition_conflicts_witness:
  "transition_run sample_libs sample_start db_finished =
    (Err (Conflict ''run state conflict: expected starting, current completed''), db_finished)"
  using stale_transition_conflicts [OF reachable_samples(8), of "hd (runs db_finished)" sample_start]
  by (simp add: db_finished_value sample_start_def sample_libs_def is_v7_def)

lemma approval_row_unique:
  "store_inv L db \<Longrightarrow> a \<in> set (approval_requests db) \<Longrightarrow> b \<in> set (approval_requests db) \<Longrightarrow>
   ap_id a = ap_id b \<Longrightarrow> a = b"
  using store_inv_keys(4) distinct_map_inj by metis

text \<open>
  C5: A response to an approval begins at most once. Once it has begun, in every later database the
  approval still holds the decision it began with and beginning again fails and changes nothing.
\<close>

theorem approval_is_answered_once:
  assumes "reachable L db" and "begin_approval_response L now c db = (Ok s, db1)"
    and "(store_step L)\<^sup>*\<^sup>* db1 db2" and "ba_approval_id c' = ba_approval_id c"
  shows "(\<exists>a\<in>set (approval_requests db2). ap_id a = ba_approval_id c \<and>
            ap_decision a = Some (decision_value (ba_decision c)) \<and>
            ap_status a \<in> {''responding'', ''resolved''}) \<and>
    (\<exists>e. begin_approval_response L now' c' db2 = (Err e, db2))"
proof -
  have "store_step L db db1" using assms(2) by (rule step_begin_approval)
  with assms(1) have re1: "reachable L db1" by (rule reachable_step)
  have re2: "reachable L db2" and ev: "evolves db1 db2" using reachable_steps [OF re1 assms(3)] by auto
  obtain a1 where a1: "a1 \<in> set (approval_requests db1)" "ap_id a1 = ba_approval_id c"
    "ap_status a1 = ''responding''" "ap_decision a1 = Some (decision_value (ba_decision c))"
    using assms(2)
  proof (rule begin_approval_response_Ok)
    fix n dba dbb
    let ?P = "\<lambda>a. ap_id a = ba_approval_id c \<and> ap_status a = ''pending''"
    assume upd: "update_approvals ?P (begin_row now (ba_decision c)) db = Ok (n, dba)" and n: "n \<noteq> 0"
      and audit: "insert_audit (approval_audit L (ba_audit_event_id c) ''approval_response_begun''
          (ba_approval_id c) (ba_decision c) now) dba = Ok dbb"
      and bump: "bump_if_known L (approval_work_item db (ba_approval_id c)) now dbb = Ok db1"
    have "approval_requests db1 = approval_requests dbb"
      using bump by (auto simp: bump_if_known_def elim: bump_frame split: option.splits)
    also have "\<dots> = approval_requests dba" using audit by (simp add: insert_audit_Ok)
    also have "\<dots> = update_where ?P (begin_row now (ba_decision c)) (approval_requests db)"
      using upd by (simp add: update_approvals_Ok)
    finally have rows: "approval_requests db1 =
        update_where ?P (begin_row now (ba_decision c)) (approval_requests db)" .
    obtain a where a: "a \<in> set (approval_requests db)" "?P a"
      using upd n by (auto simp: update_approvals_Ok)
    then have "begin_row now (ba_decision c) a \<in> set (approval_requests db1)"
      unfolding rows set_update_where by blast
    from that [OF this] a(2) show thesis by simp
  qed
  obtain a2 where a2: "a2 \<in> set (approval_requests db2)" "approval_le a1 a2"
    using grows_member [OF evolves_tables(3) [OF ev] a1(1)] by blast
  have two: "ap_id a2 = ba_approval_id c" "ap_decision a2 = Some (decision_value (ba_decision c))"
    "ap_status a2 \<in> {''responding'', ''resolved''}"
    using a2(2) a1 by (auto simp: approval_le_def)
  have not_pending: "ap_status a \<noteq> ''pending''"
    if "a \<in> set (approval_requests db2)" "ap_id a = ba_approval_id c'" for a
    using approval_row_unique [OF store_inv_reachable [OF re2] that(1) a2(1)] that(2) two assms(4) by auto
  have "\<exists>e. begin_approval_response L now' c' db2 = (Err e, db2)"
  proof (cases "begin_approval_response L now' c' db2")
    case (Pair r db3)
    show ?thesis
    proof (cases r)
      case (Inl e)
      with Pair failed_operations(7) show ?thesis by blast
    next
      case (Inr s')
      with Pair have "begin_approval_response L now' c' db2 = (Ok s', db3)" by simp
      then show ?thesis
      proof (rule begin_approval_response_Ok)
        fix n dba
        assume "update_approvals (\<lambda>a. ap_id a = ba_approval_id c' \<and> ap_status a = ''pending'')
            (begin_row now' (ba_decision c')) db2 = Ok (n, dba)" "n \<noteq> 0"
        then show ?thesis using not_pending by (auto simp: update_approvals_Ok)
      qed
    qed
  qed
  with a2(1) two show ?thesis by blast
qed

lemma get_approval_Ok: "get_approval L i db = Ok s \<longleftrightarrow> find_approval L i db = Ok (Some s)"
  by (auto simp: get_approval_def and_then_eq_Ok case_option_Ok)

lemma approval_resolved_row:
  assumes "approval_from_row x = Ok s" and "as_status s = Resolved d"
  shows "ap_decision x = Some (decision_value d) \<and> as_id s = ap_id x"
proof -
  from assms(1) obtain dec st where
    dec: "(case ap_decision x of None \<Rightarrow> Ok None | Some v \<Rightarrow> map_ok Some (decision_from_value v)) = Ok dec"
    and st: "approval_status_from_columns (ap_status x) dec = Ok st" "as_status s = st" "as_id s = ap_id x"
    by (auto simp: approval_from_row_def and_then_eq_Ok)
  from st(1,2) assms(2) have "dec = Some d"
    by (auto simp: approval_status_from_columns_def split: if_splits)
  with dec have "ap_decision x = Some (decision_value d)"
    by (auto simp: map_ok_eq_Ok decision_from_value_def split: option.splits if_splits)
  with st(3) show ?thesis by simp
qed

theorem approval_is_answered_once_witness:
  "\<exists>e. begin_approval_response sample_libs 99 (sample_begin 40)
     (snd (begin_approval_response sample_libs 15 (sample_begin 40) db_asked)) =
     (Err e, snd (begin_approval_response sample_libs 15 (sample_begin 40) db_asked))"
proof -
  obtain s where "begin_approval_response sample_libs 15 (sample_begin 40) db_asked =
      (Ok s, snd (begin_approval_response sample_libs 15 (sample_begin 40) db_asked))"
    by (simp add: db_asked_value sample_eval store_eval cong: and_then_weak)
  from approval_is_answered_once [OF reachable_samples(5) this rtranclp.rtrancl_refl refl]
  show ?thesis by blast
qed

text \<open>
  A confirmation only follows a begun response: the approval was being answered, it ends resolved
  with the decision it was begun with, and the audit event records that decision.
\<close>

theorem confirmation_resolves_the_begun_decision:
  assumes "reachable L db" and "confirm_approval_response L now c db = (Ok s, db')"
  shows "\<exists>a d. a \<in> set (approval_requests db) \<and> ap_id a = ca_approval_id c \<and>
      ap_status a = ''responding'' \<and> ap_decision a = Some (decision_value d) \<and>
      as_id s = ca_approval_id c \<and> as_status s = Resolved d \<and>
      a\<lparr>ap_status := ''resolved'', ap_resolved_at_ms := Some now\<rparr> \<in> set (approval_requests db') \<and>
      audit_events db' = audit_events db @
        [approval_audit L (ca_audit_event_id c) ''approval_response_confirmed'' (ca_approval_id c) d now]"
  using assms(2)
proof (rule confirm_approval_response_Ok)
  fix n db1 db2 d
  let ?P = "\<lambda>a. ap_id a = ca_approval_id c \<and> ap_status a = ''responding''"
  assume upd: "update_approvals ?P (resolve_row now) db = Ok (n, db1)" and n: "n \<noteq> 0"
    and bump: "bump_if_known L (approval_work_item db (ca_approval_id c)) now db1 = Ok db2"
    and get: "get_approval L (ca_approval_id c) db2 = Ok s" and d: "as_status s = Resolved d"
    and audit: "insert_audit (approval_audit L (ca_audit_event_id c) ''approval_response_confirmed''
       (ca_approval_id c) d now) db2 = Ok db'"
  have db1: "db1 = db\<lparr>approval_requests := update_where ?P (resolve_row now) (approval_requests db)\<rparr>"
    using upd by (simp add: update_approvals_Ok)
  have db2: "approval_requests db2 = approval_requests db1" "audit_events db2 = audit_events db1"
    using bump by (auto simp: bump_if_known_def elim: bump_frame split: option.splits)
  have db': "db' = db2\<lparr>audit_events := audit_events db2 @ [approval_audit L (ca_audit_event_id c)
      ''approval_response_confirmed'' (ca_approval_id c) d now]\<rparr>"
    using audit by (simp add: insert_audit_Ok)
  obtain a where a: "a \<in> set (approval_requests db)" "?P a"
    using upd n by (auto simp: update_approvals_Ok)
  have new: "resolve_row now a \<in> set (approval_requests db')"
    using a by (simp add: db' db2 db1 set_update_where)
  obtain x where x: "List.find (\<lambda>a. ap_id a = ca_approval_id c) (approval_requests db2) = Some x"
    "approval_from_row x = Ok s"
    using get unfolding get_approval_Ok find_approval_def query_optional_Some by blast
  then have "x \<in> set (approval_requests db')" "ap_id x = ca_approval_id c"
    by (auto simp: db' dest: find_Some_iff')
  moreover have "store_inv L db'"
    using assms step_confirm_approval reachable_step store_inv_reachable by blast
  ultimately have "x = resolve_row now a"
    using new a(2) approval_row_unique resolve_row_simps(1) by metis
  with approval_resolved_row [OF x(2) d] a(2)
  have "ap_decision a = Some (decision_value d)" "as_id s = ca_approval_id c" by simp_all
  with a new d show ?thesis
    by (intro exI [of _ a] exI [of _ d]) (simp add: resolve_row_def db' db2 db1)
qed

theorem confirmation_resolves_the_begun_decision_witness:
  "\<exists>a\<in>set (approval_requests db_answering). ap_id a = Id 40 \<and> ap_status a = ''responding''"
proof -
  obtain s where "confirm_approval_response sample_libs 17 sample_confirm db_answering = (Ok s, db_answered)"
    by (simp add: db_answering_value db_answered_value sample_eval store_eval cong: and_then_weak)
  from confirmation_resolves_the_begun_decision [OF reachable_samples(6) this]
  show ?thesis by (auto simp: sample_confirm_def)
qed

section \<open>The timeline\<close>

text \<open>
  C3: In every reachable database the items of a run carry the revisions 1, 2, 3, ... in insertion
  order, without gap or repetition, and the cursors of the run's streams add up to the number of its
  items, so that every durable item is accounted for by exactly one stream position.
\<close>

theorem timeline_is_gapless_and_accounted:
  assumes "reachable L db"
  shows "map tl_revision (filter (\<lambda>t. tl_run_id t = r) (timeline_items db)) =
      map (\<lambda>n. int n + 1) [0..<length (filter (\<lambda>t. tl_run_id t = r) (timeline_items db))] \<and>
    sum_list (map pc_cursor (filter (\<lambda>c. pc_run_id c = r) (projection_cursors db))) =
      int (length (filter (\<lambda>t. tl_run_id t = r) (timeline_items db)))"
  using reachable_invs [OF assms]
  by (simp add: timeline_inv_def items_inv_def contiguous_def balanced_def run_items_def run_cursors_def)

theorem timeline_is_gapless_and_accounted_witness:
  "sum_list (map pc_cursor (filter (\<lambda>c. pc_run_id c = Id 4) (projection_cursors db_artifact))) = 2"
  using timeline_is_gapless_and_accounted [OF reachable_samples(9), of "Id 4"]
  by (simp add: db_artifact_value)

lemma append_items_rows:
  "append_items L b now k is db = Ok db' \<Longrightarrow>
     timeline_items db' = timeline_items db @ map2 (new_timeline_row b now) [k + 1..k + int (length is)] is"
proof (induction "is" arbitrary: k db)
  case Nil
  then show ?case by simp
next
  case (Cons i "is")
  from Cons.prems obtain db1 where
    ins: "insert_timeline_item (new_timeline_row b now (k + 1) i) db = Ok db1"
    and rest: "append_items L b now (k + 1) is db1 = Ok db'" by (rule append_items_step)
  have "[k + 1..k + int (length (i # is))] = (k + 1) # [k + 1 + 1..k + 1 + int (length is)]"
    by (simp add: upto_rec1 algebra_simps)
  with Cons.IH [OF rest] ins show ?case by (simp add: insert_timeline_item_Ok)
qed

text \<open>The cursor row an append writes is found again under the stream's key.\<close>

lemma find_upserted:
  assumes "upsert_cursor c db = Ok db'"
  shows "List.find (\<lambda>x. cursor_clash x c) (projection_cursors db') = Some c"
proof (cases "list_ex (\<lambda>x. cursor_clash x c) (projection_cursors db)")
  case False
  with assms have rows: "projection_cursors db' = projection_cursors db @ [c]"
    by (auto simp: upsert_cursor_def split: if_splits)
  from False have "List.find (\<lambda>x. cursor_clash x c) (projection_cursors db) = None"
    by (auto simp: find_None_iff' list_ex_iff)
  then show ?thesis by (simp add: rows find_append cursor_clash_ident)
next
  case True
  with assms have rows: "projection_cursors db' =
      map (\<lambda>x. if cursor_clash x c then c else x) (projection_cursors db)"
    by (auto simp: upsert_cursor_def update_where_def split: if_splits)
  obtain y where y: "y \<in> set (projection_cursors db)" "cursor_clash y c"
    using True by (auto simp: list_ex_iff)
  then have "c \<in> set (projection_cursors db')" by (force simp: rows)
  then show ?thesis
    by (rule find_unique) (auto simp: rows cursor_clash_ident split: if_splits)
qed

lemma append_new_cursor:
  assumes "append_new L now b digest expected w db = Ok (cur, db')" and "is_v7 L (tb_batch_id b)"
    and "i64_of_u64 (tb_expected_stream_revision b) = Some expected"
  shows "find_stream_cursor L (tb_connection_id b) (tb_run_id b) (tb_source_namespace b) (tb_stream_id b) db'
    = Ok (Some \<lparr>psc_connection_id = tb_connection_id b, psc_run_id = tb_run_id b, psc_cursor = cur,
        psc_last_batch_id = tb_batch_id b, psc_last_start_cursor = tb_expected_stream_revision b,
        psc_last_payload_digest = digest\<rparr>)"
  using assms(1)
proof (rule append_new_Ok)
  fix db1 db2
  let ?c = "new_cursor_row b now digest expected (expected + int (length (tb_items b)))"
  assume up: "upsert_cursor ?c db1 = Ok db2" and bump: "bump_work_item_revision L w now db2 = Ok db'"
    and cur: "u64_of_i64 (expected + int (length (tb_items b))) = Some cur"
  obtain wi where db': "db' = db2\<lparr>work_items := wi\<rparr>" using bump by (rule bump_frame)
  have key: "cursor_key (tb_connection_id b) (tb_run_id b) (tb_source_namespace b) (tb_stream_id b) =
      (\<lambda>x. cursor_clash x ?c)"
    by (rule ext) (rule cursor_key_new)
  have "List.find (\<lambda>x. cursor_clash x ?c) (projection_cursors db') = Some ?c"
    using find_upserted [OF up] by (simp add: db')
  moreover have "cursor_from_row L ?c = Ok \<lparr>psc_connection_id = tb_connection_id b,
        psc_run_id = tb_run_id b, psc_cursor = cur,
        psc_last_batch_id = tb_batch_id b, psc_last_start_cursor = tb_expected_stream_revision b,
        psc_last_payload_digest = digest\<rparr>"
    using assms(2) cur u64_i64_roundtrip [OF assms(3)]
    by (simp add: cursor_from_row_def u64_column_def) (simp add: new_cursor_row_def)
  ultimately show ?thesis by (simp add: find_stream_cursor_def query_optional_def key)
qed

lemma append_new_rows:
  assumes "append_new L now b digest expected w db = Ok (cur, db')" and "timeline_inv L db"
  shows "timeline_items db' = timeline_items db @
      map2 (new_timeline_row b now)
        [int (length (run_items (tb_run_id b) db)) + 1..
         int (length (run_items (tb_run_id b) db)) + int (length (tb_items b))] (tb_items b)"
  using assms(1)
proof (rule append_new_Ok)
  fix db1 db2
  assume items: "append_items L b now (max_revision (tb_run_id b) db) (tb_items b) db = Ok db1"
    and up: "upsert_cursor (new_cursor_row b now digest expected
        (expected + int (length (tb_items b)))) db1 = Ok db2"
    and bump: "bump_work_item_revision L w now db2 = Ok db'"
  have max: "max_revision (tb_run_id b) db = int (length (run_items (tb_run_id b) db))"
    using assms(2) by (intro max_revision_contiguous) (simp add: timeline_inv_def items_inv_def)
  have "timeline_items db' = timeline_items db2" using bump by (auto elim: bump_frame)
  also have "\<dots> = timeline_items db1" using up by (auto simp: upsert_cursor_def split: if_splits)
  finally show ?thesis using append_items_rows [OF items] by (simp add: max)
qed

text \<open>
  C2: A batch that the store appends is stored whole, in order, after the run's items and with the
  next revisions; the returned cursor is the expected one advanced by the number of items, and it is
  what \<open>get_stream_cursor\<close> answers afterwards, with the batch's identifier as the receipt.
\<close>

theorem append_stores_the_batch_in_order:
  assumes "reachable L db" and "wf_timeline_batch b"
    and "append_timeline_batch L now b db = (Ok cur, db')" and "db' \<noteq> db"
  shows "timeline_items db' = timeline_items db @
      map2 (new_timeline_row b now)
        [int (length (run_items (tb_run_id b) db)) + 1..
         int (length (run_items (tb_run_id b) db)) + int (length (tb_items b))] (tb_items b) \<and>
    uint cur = uint (tb_expected_stream_revision b) + int (length (tb_items b)) \<and>
    get_stream_cursor L \<lparr>gs_connection_id = tb_connection_id b, gs_run_id = tb_run_id b,
        gs_source_namespace = tb_source_namespace b, gs_stream_id = tb_stream_id b\<rparr> db' =
      (Ok (Some \<lparr>scs_cursor = cur, scs_last_batch_id = tb_batch_id b\<rparr>), db')"
  using assms(3)
proof (cases rule: append_timeline_batch_cases)
  case replay
  with assms(4) show ?thesis by simp
next
  case (append r expected cursor)
  let ?d = "timeline_payload_digest L (tb_items b)"
  have tinv: "timeline_inv L db" using store_inv_reachable [OF assms(1)] by (simp add: store_inv_def)
  have v7: "is_v7 L (tb_batch_id b)" and names: "\<not> trim_is_empty (tb_source_namespace b)"
    "\<not> trim_is_empty (tb_stream_id b)"
    using append(1) by (simp_all add: validate_batch_def and_then_eq_Ok)
  have "0 \<le> expected" and exp: "uint (tb_expected_stream_revision b) = expected"
    using append(4) by (auto simp: i64_of_u64_def split: if_splits)
  moreover have "old_cursor (new_cursor_row b now ?d expected (expected + int (length (tb_items b)))) db
      = expected"
    using tinv append(4-6) by (intro appended_at_cursor) (simp_all add: timeline_inv_def)
  ultimately have "uint cur = expected + int (length (tb_items b))"
    using append_new_inv [OF tinv assms(2) v7 _ _ append(7)] by blast
  moreover have "get_stream_cursor L \<lparr>gs_connection_id = tb_connection_id b, gs_run_id = tb_run_id b,
        gs_source_namespace = tb_source_namespace b, gs_stream_id = tb_stream_id b\<rparr> db' =
      (Ok (Some \<lparr>scs_cursor = cur, scs_last_batch_id = tb_batch_id b\<rparr>), db')"
    using append_new_cursor [OF append(7) v7 append(4)] names
    by (simp add: get_stream_cursor_def validated_def validate_text_def read_only_def)
  ultimately show ?thesis using append_new_rows [OF append(7) tinv] exp by simp
qed

theorem append_stores_the_batch_in_order_witness:
  "map tl_body (timeline_items db_batch) = [''a'', ''b'']"
proof -
  obtain cur where res: "append_timeline_batch sample_libs 11 sample_batch db_running = (Ok cur, db_batch)"
    by (simp add: db_running_value db_batch_value sample_eval store_eval cong: and_then_weak)
  have "db_batch \<noteq> db_running" by (simp add: db_batch_value db_running_value)
  from append_stores_the_batch_in_order [OF reachable_samples(3) sample_wf(4) res this] show ?thesis
    by (simp add: db_running_value run_items_def sample_batch_def sample_item_def new_timeline_row_def
        upto_rec1)
qed

lemma append_replays:
  assumes "validate_batch L b = Ok ()"
    and "List.find (\<lambda>r. rr_id r = tb_run_id b) (runs db) = Some r" "rr_connection_id r = tb_connection_id b"
    and "i64_of_u64 (tb_expected_stream_revision b) = Some expected"
    and "find_stream_cursor L (tb_connection_id b) (tb_run_id b) (tb_source_namespace b) (tb_stream_id b) db
      = Ok cursor"
    and "decide_append b (timeline_payload_digest L (tb_items b)) expected cursor = Ok (Replay cur)"
  shows "append_timeline_batch L now b db = (Ok cur, db)"
  using assms
  by (simp add: append_timeline_batch_def validated_def transaction_def query_optional_def query_row_def)

lemma bumped_runs: "bump_work_item_revision L i t db = Ok db' \<Longrightarrow> runs db' = runs db"
  by (auto elim: bump_frame)

lemma append_new_runs:
  assumes "append_new L now b digest expected w db = Ok (cur, db')"
  shows "runs db' = runs db"
  using assms
proof (rule append_new_Ok)
  fix db1 db2
  assume items: "append_items L b now (max_revision (tb_run_id b) db) (tb_items b) db = Ok db1"
    and up: "upsert_cursor (new_cursor_row b now digest expected
        (expected + int (length (tb_items b)))) db1 = Ok db2"
    and bump: "bump_work_item_revision L w now db2 = Ok db'"
  obtain ti where "db1 = db\<lparr>timeline_items := ti\<rparr>" using append_items_frame [OF items] by metis
  moreover have "runs db2 = runs db1" using up by (auto simp: upsert_cursor_def split: if_splits)
  ultimately show ?thesis using bumped_runs [OF bump] by simp
qed

text \<open>
  C1: A batch that the store appended can be retried: sent again after any further operations, on other
  streams, runs, approvals, work items or artifacts, it returns the same cursor and changes nothing, as
  long as no other batch of its stream has been accepted since (the stored cursor of the stream is the
  one the append left). So a lost acknowledgement never duplicates items.
\<close>

theorem retried_batch_is_idempotent:
  assumes "reachable L db" and "wf_timeline_batch b"
    and "append_timeline_batch L now b db = (Ok cur, db')" and "db' \<noteq> db"
    and "(store_step L)\<^sup>*\<^sup>* db' db2"
    and "find_stream_cursor L (tb_connection_id b) (tb_run_id b) (tb_source_namespace b) (tb_stream_id b) db2 =
      find_stream_cursor L (tb_connection_id b) (tb_run_id b) (tb_source_namespace b) (tb_stream_id b) db'"
  shows "append_timeline_batch L later b db2 = (Ok cur, db2)"
  using assms(3)
proof (cases rule: append_timeline_batch_cases)
  case replay
  with assms(4) show ?thesis by simp
next
  case (append r expected cursor)
  have v7: "is_v7 L (tb_batch_id b)" using append(1) by (simp add: validate_batch_def and_then_eq_Ok)
  have "List.find (\<lambda>r. rr_id r = tb_run_id b) (runs db') = Some r"
    using append(2) append_new_runs [OF append(7)] by simp
  then have r: "r \<in> set (runs db')" "rr_id r = tb_run_id b" by (auto dest: find_Some_iff')
  have "reachable L db'" using assms(1) step_append [OF assms(2,3)] by (rule reachable_step)
  then have later: "reachable L db2" "evolves db' db2" using reachable_steps [OF _ assms(5)] by auto
  obtain r2 where r2: "r2 \<in> set (runs db2)" "run_le r r2"
    using grows_member [OF evolves_tables(2) [OF later(2)] r(1)] by blast
  from reachable_invs [OF later(1)] have "distinct (map rr_id (runs db2))" by (simp add: run_inv_def)
  moreover have id: "rr_id r2 = tb_run_id b" using r2(2) r(2) by (simp add: run_le_def)
  ultimately have find: "List.find (\<lambda>r. rr_id r = tb_run_id b) (runs db2) = Some r2"
    using find_key [OF _ r2(1), of rr_id] by simp
  have "rr_connection_id r2 = tb_connection_id b" using r2(2) append(3) by (auto simp: run_le_def)
  from append_replays [OF append(1) find this append(4) trans [OF assms(6) append_new_cursor [OF append(7) v7 append(4)]]]
  show ?thesis by (simp add: decide_append_def)
qed

lemmas steps_snoc = rtranclp.rtrancl_into_rtrancl [where r = "store_step L" for L]

lemma batch_history: "(store_step sample_libs)\<^sup>*\<^sup>* db_batch db_artifact"
  unfolding db_artifact_def db_finished_def db_answered_def db_answering_def db_asked_def
  by (intro steps_snoc [OF _ store_steps_wf(5)] steps_snoc [OF _ store_steps_wf(2)] steps_snoc [OF _ store_steps_wf(4)]
      steps_snoc [OF _ store_steps(3)] steps_snoc [OF _ store_steps(4)] rtranclp.rtrancl_refl sample_wf
      sample_wf_approvals sample_wf_artifact)

theorem retried_batch_is_idempotent_witness:
  "append_timeline_batch sample_libs 99 sample_batch db_artifact = (Ok 2, db_artifact)"
proof -
  have res: "append_timeline_batch sample_libs 11 sample_batch db_running = (Ok 2, db_batch)"
    by (simp add: db_running_value db_batch_value sample_eval store_eval cong: and_then_weak)
  have "projection_cursors db_artifact = projection_cursors db_batch"
    by (simp add: db_batch_value db_artifact_value)
  then have same: "find_stream_cursor L c r ns st db_artifact = find_stream_cursor L c r ns st db_batch"
    for L :: store_libs and c r ns st
    by (simp add: find_stream_cursor_def)
  show ?thesis
    by (rule retried_batch_is_idempotent [OF reachable_samples(3) sample_wf(4) res _ batch_history same])
      (simp add: db_batch_value db_running_value)
qed

lemma decide_append_Replay:
  "decide_append b digest expected cursor = Ok (Replay cur) \<Longrightarrow>
     \<exists>c. cursor = Some c \<and> psc_last_batch_id c = tb_batch_id b \<and>
         psc_last_start_cursor c = tb_expected_stream_revision b \<and>
         psc_last_payload_digest c = digest \<and> psc_cursor c = cur"
  by (auto simp: decide_append_def split: option.splits if_splits)

text \<open>
  The store accepts a batch only in two cases: it is the stream's last batch again, with the same
  start and the same payload digest, and then nothing changes; or it is another batch that starts
  exactly at the stream's stored cursor, 0 for a new stream. Every gap, overlap and altered retry is
  rejected.
\<close>

theorem accepted_batch_continues_or_replays:
  assumes "append_timeline_batch L now b db = (Ok cur, db')"
  shows "\<exists>stored. find_stream_cursor L (tb_connection_id b) (tb_run_id b) (tb_source_namespace b)
      (tb_stream_id b) db = Ok stored \<and>
    (case stored of
       None \<Rightarrow> tb_expected_stream_revision b = 0
     | Some c \<Rightarrow>
         if psc_last_batch_id c = tb_batch_id b
         then psc_last_start_cursor c = tb_expected_stream_revision b \<and>
              psc_last_payload_digest c = timeline_payload_digest L (tb_items b) \<and>
              cur = psc_cursor c \<and> db' = db
         else psc_cursor c = tb_expected_stream_revision b)"
  using assms
proof (cases rule: append_timeline_batch_cases)
  case (replay expected cursor)
  from decide_append_Replay [OF replay(2)] replay(1,3) show ?thesis by auto
next
  case (append r expected cursor)
  have "uint (tb_expected_stream_revision b) = expected"
    using append(4) by (auto simp: i64_of_u64_def split: if_splits)
  then have "tb_expected_stream_revision b = 0" if "expected = 0"
    using that by (simp add: uint_0_iff)
  with decide_append_Append [OF append(6)] append(5) show ?thesis
    by (intro exI [of _ cursor]) (auto split: option.splits)
qed

theorem accepted_batch_continues_or_replays_witness:
  "\<exists>stored. find_stream_cursor sample_libs (Id 5) (Id 4) ''codex'' ''main'' db_running = Ok stored"
proof -
  have res: "append_timeline_batch sample_libs 11 sample_batch db_running = (Ok 2, db_batch)"
    by (simp add: db_running_value db_batch_value sample_eval store_eval cong: and_then_weak)
  from accepted_batch_continues_or_replays [OF res] show ?thesis by (auto simp: sample_batch_def)
qed

text \<open>
  For a run that does not exist the store answers with the database library's own error, as a
  backend failure: the second query of \<open>append_timeline_batch\<close> is not optional, so the \<open>NotFound\<close> it
  means to return is never reached.
\<close>

theorem append_to_missing_run_is_backend_error:
  assumes "validate_batch L b = Ok ()" and "tb_run_id b \<notin> rr_id ` set (runs db)"
  shows "append_timeline_batch L now b db = (Err (Backend (lib_sql_text L QueryReturnedNoRows)), db)"
proof -
  have "List.find (\<lambda>r. rr_id r = tb_run_id b) (runs db) = None"
    using assms(2) by (simp add: find_None_iff' notin_image)
  with assms(1) show ?thesis
    by (simp add: append_timeline_batch_def validated_def transaction_def query_optional_def
        query_row_def map_database_error_def is_corruption_def)
qed

theorem append_to_missing_run_is_backend_error_witness:
  "append_timeline_batch sample_libs 11 sample_batch db_work = (Err (Backend ''sql error''), db_work)"
proof -
  have "validate_batch sample_libs sample_batch = Ok ()"
    by (simp add: sample_eval validate_batch_def query_eval string_eval)
  moreover have "tb_run_id sample_batch \<notin> rr_id ` set (runs db_work)" by (simp add: db_work_value)
  ultimately show ?thesis
    using append_to_missing_run_is_backend_error [of sample_libs sample_batch db_work 11]
    by (simp add: sample_libs_def)
qed

section \<open>Pages\<close>

text \<open>
  Reading a run's timeline page by page, following \<open>next_after\<close> with any legal page size, yields
  every item of the run exactly once, in revision order, and ends.
\<close>

theorem paging_reads_the_whole_timeline:
  assumes "reachable L db" and "1 \<le> unat limit" "unat limit \<le> 200"
    and "length (filter (\<lambda>t. tl_run_id t = r) (timeline_items db)) < fuel"
  shows "collect_pages fuel
      (\<lambda>after. fst (list_timeline_page L \<lparr>lt_run_id = r, lt_after = after, lt_limit = limit\<rparr> db)) None =
    Some (Ok (map (\<lambda>t. projr (timeline_item_from_row t))
      (filter (\<lambda>t. tl_run_id t = r) (timeline_items db))))"
proof -
  let ?rows = "filter (\<lambda>t. tl_run_id t = r) (timeline_items db)"
  have inv: "store_inv L db" using assms(1) by (rule store_inv_reachable)
  then have "contiguous r db" by (simp add: store_inv_def timeline_inv_def items_inv_def)
  then have "sorted (map tl_revision ?rows)"
    by (simp add: contiguous_def run_items_def sorted_map sorted_wrt_map)
  then have "sort_key tl_revision ?rows = ?rows" by (rule sort_key_id_if_sorted)
  then have sel: "timeline_selection r db = map (\<lambda>t. projr (timeline_item_from_row t)) ?rows"
    by (simp add: timeline_selection_def table_selection_def decoded_def)
  with timeline_pages.collect_all [OF inv assms(2,3), of r fuel] assms(4) show ?thesis by simp
qed

theorem paging_reads_the_whole_timeline_witness:
  "\<exists>items. collect_pages 3
      (\<lambda>after. fst (list_timeline_page sample_libs
         \<lparr>lt_run_id = Id 4, lt_after = after, lt_limit = 1\<rparr> db_artifact)) None = Some (Ok items) \<and>
    map ts_body items = [''a'', ''b'']"
proof -
  have "length (filter (\<lambda>t. tl_run_id t = Id 4) (timeline_items db_artifact)) < 3"
    by (simp add: db_artifact_value)
  from paging_reads_the_whole_timeline [OF reachable_samples(9) _ _ this, of 1] show ?thesis
    by (simp add: db_artifact_value timeline_item_from_row_def u64_column_def u64_of_i64_def
        provider_id_def)
qed

lemma run_selection_ids:
  assumes "store_inv L db"
  shows "set (map rs_id (table_selection rr_id run_from_row P (runs db))) =
    {rr_id r | r. r \<in> set (runs db) \<and> P r}"
proof -
  have id: "rs_id (projr (run_from_row r)) = rr_id r" if r: "r \<in> set (runs db)" for r
  proof -
    obtain s where "run_from_row r = Ok s" using store_inv_decodes(1) [OF assms r] by (auto simp: is_ok_iff)
    then show ?thesis using row_cursors(3) by simp
  qed
  have "set (map rs_id (table_selection rr_id run_from_row P (runs db))) =
      (\<lambda>r. rs_id (projr (run_from_row r))) ` {r \<in> set (runs db). P r}"
    by (simp add: table_selection_def decoded_def image_image)
  also have "\<dots> = rr_id ` {r \<in> set (runs db). P r}" by (rule image_cong) (simp_all add: id)
  finally show ?thesis by blast
qed

text \<open>
  C8: Reading the runs that need reconciliation page by page, with any legal page size, ends and
  yields each unfinished run exactly once, ordered by identifier: start-up recovery misses none.
\<close>

theorem reconciliation_sees_every_unfinished_run:
  assumes "reachable L db" and "1 \<le> unat limit" "unat limit \<le> 200" and "length (runs db) < fuel"
  shows "\<exists>found. collect_pages fuel
      (\<lambda>after. fst (list_runs_needing_reconciliation L after limit db)) None = Some (Ok found) \<and>
    sorted_wrt (<) (map rs_id found) \<and>
    set (map rs_id found) = {rr_id r | r. r \<in> set (runs db) \<and>
      rr_status r \<notin> {''completed'', ''failed'', ''interrupted''}}"
proof -
  let ?P = "\<lambda>r. rr_status r \<in> {''starting'', ''running'', ''disconnected'', ''outcome_unknown''}"
  let ?found = "table_selection rr_id run_from_row ?P (runs db)"
  have inv: "store_inv L db" using assms(1) by (rule store_inv_reachable)
  have "length ?found < fuel"
    using le_less_trans [OF length_filter_le assms(4)] unfolding table_selection_def decoded_def by simp
  then have "collect_pages fuel (\<lambda>after. fst (list_runs_where L ?P after limit db)) None = Some (Ok ?found)"
    by (rule run_pages.collect_all [OF inv assms(2,3)])
  moreover have "sorted_wrt (<) (map rs_id ?found)"
    using run_pages.selection_ordered [OF inv, of ?P] .
  moreover have "?P r = (rr_status r \<notin> {''completed'', ''failed'', ''interrupted''})"
    if "r \<in> set (runs db)" for r
  proof -
    have "run_check db r" using inv that by (simp add: store_inv_def core_inv_def run_inv_def)
    then show ?thesis by (auto simp: run_check_def)
  qed
  then have "{rr_id r | r. r \<in> set (runs db) \<and> ?P r} = {rr_id r | r. r \<in> set (runs db) \<and>
      rr_status r \<notin> {''completed'', ''failed'', ''interrupted''}}" by blast
  ultimately show ?thesis
    using run_selection_ids [OF inv, of ?P]
    by (intro exI [of _ ?found]) (simp add: list_runs_needing_reconciliation_def)
qed

theorem reconciliation_sees_every_unfinished_run_witness:
  "\<exists>found. collect_pages 2
      (\<lambda>after. fst (list_runs_needing_reconciliation sample_libs after 200 db_asked)) None = Some (Ok found) \<and>
    set (map rs_id found) = {Id 4}"
proof -
  have "length (runs db_asked) < 2" by (simp add: db_asked_value)
  moreover have "{rr_id r | r. r \<in> set (runs db_asked) \<and>
      rr_status r \<notin> {''completed'', ''failed'', ''interrupted''}} = {Id 4}"
    by (simp add: db_asked_value)
  ultimately show ?thesis
    using reconciliation_sees_every_unfinished_run [OF reachable_samples(5), of 200 2] by auto
qed

section \<open>Creations\<close>

text \<open>
  Every creating operation is idempotent: repeated at a later time it returns what it returned
  and changes nothing.
\<close>

theorem creations_are_idempotent:
  assumes "reachable L db"
  shows "(\<forall>now later c s db'. create_project L now c db = (Ok s, db') \<longrightarrow>
      create_project L later c db' = (Ok s, db')) \<and>
    (\<forall>now later c s db'. create_work_item L now c db = (Ok s, db') \<longrightarrow>
      create_work_item L later c db' = (Ok s, db')) \<and>
    (\<forall>now later c s db'. wf_create_run c \<longrightarrow> create_run L now c db = (Ok s, db') \<longrightarrow>
      create_run L later c db' = (Ok s, db')) \<and>
    (\<forall>now later a s db'. wf_pending_approval a \<longrightarrow> record_pending_approval L now a db = (Ok s, db') \<longrightarrow>
      record_pending_approval L later a db' = (Ok s, db')) \<and>
    (\<forall>a s db'. wf_artifact a \<longrightarrow> put_artifact_metadata L a db = (Ok s, db') \<longrightarrow>
      put_artifact_metadata L a db' = (Ok s, db'))"
  by (intro conjI allI impI)
    (rule create_projects.retry create_work_items.retry create_runs.retry record_approvals.retry
      put_artifacts.retry, rule store_inv_reachable [OF assms], simp, assumption)+

theorem creations_are_idempotent_witness:
  "\<exists>s. create_run sample_libs 99 sample_run db_starting = (Ok s, db_starting)"
proof -
  obtain s where res: "create_run sample_libs 4 sample_run db_work = (Ok s, db_starting)"
    by (simp add: db_work_value db_starting_value sample_eval store_eval cong: and_then_weak)
  note runs = creations_are_idempotent [OF reachable_samples(1), THEN conjunct2, THEN conjunct2, THEN conjunct1]
  from runs [rule_format, OF sample_wf(1) res] show ?thesis by blast
qed

text \<open>
  A run identifier names one run for good: after a run was created, creating another one with
  the same identifier but another connection, work item or provider identity is a conflict that
  changes nothing.
\<close>

theorem run_identifier_is_never_reused:
  assumes "reachable L db" and "wf_create_run c" and "create_run L now c db = (Ok s, db')"
    and "cr_id c' = cr_id c"
    and "(cr_connection_id c', cr_work_item_id c', cr_provider_run c') \<noteq>
         (rs_connection_id s, rs_work_item_id s, rs_provider_id s)"
  shows "\<exists>m. create_run L later c' db' = (Err (Conflict m), db')"
proof (rule create_runs.reused_identifier [OF store_inv_reachable [OF assms(1)] assms(2,3)])
  show "is_v7 L (cr_id c')" using create_accepts(3) [OF assms(3)] assms(4) by simp
  show "\<not> same_run c' s" using assms(5) by (auto simp: same_run_def)
qed (simp add: assms(4))

theorem run_identifier_is_never_reused_witness:
  "\<exists>m. create_run sample_libs 99 (sample_run\<lparr>cr_connection_id := Id 6\<rparr>) db_starting =
    (Err (Conflict m), db_starting)"
proof -
  have "create_run sample_libs 4 sample_run db_work =
      (Ok \<lparr>rs_id = Id 4, rs_connection_id = Id 5, rs_work_item_id = Id 3, rs_status = Starting,
           rs_provider_id = None, rs_created_at = 4, rs_ended_at = None\<rparr>, db_starting)"
    by (simp add: db_work_value db_starting_value sample_eval store_eval cong: and_then_weak)
  from run_identifier_is_never_reused [OF reachable_samples(1) sample_wf(1) this,
      of "sample_run\<lparr>cr_connection_id := Id 6\<rparr>"] show ?thesis
    by (simp add: sample_run_def)
qed

text \<open>
  Every row of a reachable database can be read back: reading any stored work item, run,
  approval or artifact by its identifier succeeds, so no accepted command leaves a row that its own
  readers reject as corrupt.
\<close>

theorem stored_rows_are_readable:
  assumes "reachable L db"
  shows "(\<forall>w\<in>set (work_items db). \<exists>s. get_work_item L (wi_id w) db = (Ok s, db) \<and> ws_id s = wi_id w) \<and>
    (\<forall>r\<in>set (runs db). \<exists>s. get_run L (rr_id r) db = (Ok s, db) \<and> rs_id s = rr_id r) \<and>
    (\<forall>a\<in>set (approval_requests db). \<exists>s. find_approval L (ap_id a) db = Ok (Some s) \<and> as_id s = ap_id a) \<and>
    (\<forall>f\<in>set (artifacts db). \<exists>s. get_artifact_metadata L (af_id f) db = (Ok s, db) \<and> art_id s = af_id f)"
proof -
  have inv: "store_inv L db" using assms by (rule store_inv_reachable)
  have work: "\<exists>s. get_work_item L (wi_id w) db = (Ok s, db) \<and> ws_id s = wi_id w" if w: "w \<in> set (work_items db)" for w
  proof -
    obtain s where s: "work_item_from_row (work_edges db) w = Ok s"
      using store_inv_decodes(4) [OF inv w] by (auto simp: is_ok_iff)
    then show ?thesis
      using find_key [OF store_inv_keys(2) [OF inv] w] row_cursors(2) [OF s]
      by (simp add: get_work_item_def read_only_def find_work_item_def query_optional_def)
  qed
  have run: "\<exists>s. get_run L (rr_id r) db = (Ok s, db) \<and> rs_id s = rr_id r" if r: "r \<in> set (runs db)" for r
    using find_run_row(2) [OF inv r] row_cursors(3) by (auto simp: get_run_def read_only_def)
  have app: "\<exists>s. find_approval L (ap_id a) db = Ok (Some s) \<and> as_id s = ap_id a"
    if a: "a \<in> set (approval_requests db)" for a
  proof -
    obtain s where s: "approval_from_row a = Ok s"
      using store_inv_decodes(2) [OF inv a] by (auto simp: is_ok_iff)
    then show ?thesis
      using find_key [OF store_inv_keys(4) [OF inv] a] row_cursors(4) [OF s]
      by (simp add: find_approval_def query_optional_def)
  qed
  have art: "\<exists>s. get_artifact_metadata L (af_id f) db = (Ok s, db) \<and> art_id s = af_id f"
    if f: "f \<in> set (artifacts db)" for f
  proof -
    have ids: "distinct (map af_id (artifacts db))" and "is_ok (artifact_from_row f)"
      using inv f by (simp_all add: store_inv_def artifact_inv_def)
    then obtain s where s: "artifact_from_row f = Ok s" by (auto simp: is_ok_iff)
    then have "art_id s = af_id f" by (auto simp: artifact_from_row_def and_then_eq_Ok)
    with s find_key [OF ids f] show ?thesis
      by (simp add: get_artifact_metadata_def read_only_def find_artifact_def query_optional_def)
  qed
  from work run app art show ?thesis by blast
qed

theorem stored_rows_are_readable_witness:
  "\<exists>s. get_artifact_metadata sample_libs (Id 80) db_artifact = (Ok s, db_artifact) \<and> art_id s = Id 80"
proof -
  have "hd (artifacts db_artifact) \<in> set (artifacts db_artifact)"
    "af_id (hd (artifacts db_artifact)) = Id 80" by (simp_all add: db_artifact_value)
  with stored_rows_are_readable [OF reachable_samples(9)] show ?thesis by metis
qed

end
