(* ===== verification/Config.thy ===== *)
theory Config
  imports Domain
begin

text \<open>
  The canonical configuration of the application (\<^verbatim>\<open>crates/yakshed-application/src/lib.rs\<close>):
  \<open>AppConfig\<close>, its cross-value validation, and the changes callers may request.

  The validator walks the backends, then the connections and their credentials, then the pending
  credential migration; the \<open>HashSet\<close>s it fills are the accumulators of the recursions here. A
  locator validator is a function stored in a capability, hence a field of function type. Paths
  follow the Unix rule for \<open>Path::is_absolute\<close>.
\<close>

section \<open>Configuration values\<close>

datatype migration_phase = PhaseCopying | PhaseCleanupPending

datatype copy_state = Copying | Copied

record copy_receipt =
  rc_locator :: secret_locator
  rc_state :: copy_state

record migration_record =
  mg_source :: secret_backend
  mg_target :: secret_backend
  mg_phase :: migration_phase
  mg_locators :: "secret_locator list"
  mg_receipts :: "copy_receipt list"

record ui_config =
  ui_theme :: string

definition default_ui_config :: ui_config where
  "default_ui_config = \<lparr>ui_theme = ''system''\<rparr>"

record app_config =
  ac_connections :: "connection list"
  ac_secret_backends :: "secret_backend list"
  ac_credential_migration :: "migration_record option"
  ac_ui :: ui_config

definition default_app_config :: app_config where
  "default_app_config =
     \<lparr>ac_connections = [], ac_secret_backends = [], ac_credential_migration = None,
      ac_ui = default_ui_config\<rparr>"

type_synonym config_revision = u64

definition initial_revision :: config_revision where
  "initial_revision = 0"

record config_snapshot =
  sn_revision :: config_revision
  sn_config :: app_config

datatype config_change =
  PutConnection connection
| PutConnectionWithSecretBackends connection "secret_backend list"
| RemoveConnection connection_id
| PutSecretBackend secret_backend
| RemoveSecretBackend secret_backend_id
| BeginCredentialMigration migration_record
| RecordCredentialCopy secret_locator copy_state
| CheckpointCredentialMigration
| FinishCredentialMigration
| SetUiTheme string
| Reset

section \<open>Errors\<close>

datatype backend_configuration_error =
  UnsupportedKind secret_backend_id string
| MissingFeature secret_backend_id string string
| UnsupportedPlatform secret_backend_id string
| WrongKind secret_backend_id string
| DuplicateLocalFilePath secret_backend_id
| AbsolutePathRequired secret_backend_id

fun backend_configuration_error_text :: "backend_configuration_error \<Rightarrow> string" where
  "backend_configuration_error_text (UnsupportedKind b kind) =
     ''secret backend '' @ backend_id_str b @ '' uses unsupported kind '' @ kind"
| "backend_configuration_error_text (MissingFeature b kind feature) =
     ''secret backend '' @ backend_id_str b @ '' kind '' @ kind @
     '' requires Cargo feature '' @ feature"
| "backend_configuration_error_text (UnsupportedPlatform b kind) =
     ''secret backend '' @ backend_id_str b @ '' kind '' @ kind @
     '' is unsupported on this platform''"
| "backend_configuration_error_text (WrongKind b expected) =
     ''secret backend '' @ backend_id_str b @ '' is not '' @ expected"
| "backend_configuration_error_text (DuplicateLocalFilePath b) =
     ''secret backend '' @ backend_id_str b @ '' duplicates another local-file path''"
| "backend_configuration_error_text (AbsolutePathRequired b) =
     ''secret backend '' @ backend_id_str b @ '' requires an absolute path''"

datatype config_validation_error =
  Invalid string
| SecretBackendError backend_configuration_error

fun config_validation_error_text :: "config_validation_error \<Rightarrow> string" where
  "config_validation_error_text (Invalid message) = message"
| "config_validation_error_text (SecretBackendError e) = backend_configuration_error_text e"

section \<open>Backend capabilities\<close>

datatype backend_access = ReadWrite | ResolveOnly

datatype backend_availability =
  Available
| NeedsFeature string
| NotOnPlatform

record backend_capability =
  cap_kind :: string
  cap_availability :: backend_availability
  cap_access :: backend_access
  cap_validate_locator :: "(secret_locator \<Rightarrow> string + unit) option"

definition capability_available :: "string \<Rightarrow> backend_capability" where
  "capability_available kind =
     \<lparr>cap_kind = kind, cap_availability = Available, cap_access = ReadWrite,
      cap_validate_locator = None\<rparr>"

definition capability_resolve_only :: "string \<Rightarrow> backend_capability" where
  "capability_resolve_only kind =
     \<lparr>cap_kind = kind, cap_availability = Available, cap_access = ResolveOnly,
      cap_validate_locator = None\<rparr>"

definition with_locator_validator ::
    "backend_capability \<Rightarrow> (secret_locator \<Rightarrow> string + unit) \<Rightarrow> backend_capability" where
  "with_locator_validator c v = c\<lparr>cap_validate_locator := Some v\<rparr>"

definition path_is_absolute :: "string \<Rightarrow> bool" where
  "path_is_absolute p = starts_with p ''/''"

fun local_file_path :: "secret_backend_settings \<Rightarrow> string option" where
  "local_file_path (LocalFile path) = Some path"
| "local_file_path _ = None"

definition capability_of :: "backend_capability list \<Rightarrow> string \<Rightarrow> backend_capability option" where
  "capability_of caps kind = List.find (\<lambda>c. cap_kind c = kind) caps"

definition validate_backend_configuration ::
    "secret_backend \<Rightarrow> backend_capability list \<Rightarrow> backend_configuration_error + unit" where
  "validate_backend_configuration b caps =
     and_then (ensure (case local_file_path (sb_settings b) of
                         Some path \<Rightarrow> path_is_absolute path
                       | None \<Rightarrow> True)
                (AbsolutePathRequired (sb_id b))) (\<lambda>_.
     let kind = secret_backend_kind b in
     case capability_of caps kind of
       None \<Rightarrow> Err (UnsupportedKind (sb_id b) kind)
     | Some capability \<Rightarrow>
         (case cap_availability capability of
            Available \<Rightarrow> Ok ()
          | NeedsFeature feature \<Rightarrow> Err (MissingFeature (sb_id b) kind feature)
          | NotOnPlatform \<Rightarrow> Err (UnsupportedPlatform (sb_id b) kind)))"

section \<open>Validation\<close>

text \<open>The loop over the backends: the ids and the local-file paths inserted so far.\<close>

fun validate_backends ::
    "backend_capability list \<Rightarrow> secret_backend_id list \<Rightarrow> string list \<Rightarrow>
     secret_backend list \<Rightarrow> config_validation_error + unit" where
  "validate_backends caps ids paths [] = Ok ()"
| "validate_backends caps ids paths (b # bs) =
     and_then (map_err (\<lambda>e. Invalid (validation_message e)) (secret_backend_validate b)) (\<lambda>_.
     and_then (map_err SecretBackendError (validate_backend_configuration b caps)) (\<lambda>_.
     and_then (ensure (case local_file_path (sb_settings b) of
                         Some path \<Rightarrow> path \<notin> set paths
                       | None \<Rightarrow> True)
                (SecretBackendError (DuplicateLocalFilePath (sb_id b)))) (\<lambda>_.
     and_then (ensure (sb_id b \<notin> set ids)
                (Invalid (''duplicate secret backend id: '' @ backend_id_str (sb_id b)))) (\<lambda>_.
     validate_backends caps (sb_id b # ids)
       (case local_file_path (sb_settings b) of Some path \<Rightarrow> path # paths | None \<Rightarrow> paths) bs))))"

definition backend_with_id ::
    "secret_backend list \<Rightarrow> secret_backend_id \<Rightarrow> secret_backend option" where
  "backend_with_id backends i = List.find (\<lambda>b. sb_id b = i) backends"

definition locator_validator ::
    "backend_capability list \<Rightarrow> secret_backend list \<Rightarrow> secret_backend_id \<Rightarrow>
     (secret_locator \<Rightarrow> string + unit) option" where
  "locator_validator caps backends i =
     Option.bind (backend_with_id backends i) (\<lambda>b.
     Option.bind (capability_of caps (secret_backend_kind b)) cap_validate_locator)"

fun validate_binding ::
    "backend_capability list \<Rightarrow> secret_backend list \<Rightarrow> credential_binding \<Rightarrow>
     config_validation_error + unit" where
  "validate_binding caps backends (Secret reference) =
     and_then (ensure (ref_backend_id reference \<in> set (map sb_id backends))
                (Invalid (''credential references unknown secret backend: '' @
                          backend_id_str (ref_backend_id reference)))) (\<lambda>_.
     case locator_validator caps backends (ref_backend_id reference) of
       Some validate_locator \<Rightarrow> map_err Invalid (validate_locator (ref_locator reference))
     | None \<Rightarrow> Ok ())"
| "validate_binding caps backends _ = Ok ()"

fun validate_bindings ::
    "backend_capability list \<Rightarrow> secret_backend list \<Rightarrow> credential_binding_record list \<Rightarrow>
     config_validation_error + unit" where
  "validate_bindings caps backends [] = Ok ()"
| "validate_bindings caps backends (c # cs) =
     and_then (validate_binding caps backends (cb_binding c)) (\<lambda>_.
     validate_bindings caps backends cs)"

fun validate_connections ::
    "'z libs_scheme \<Rightarrow> backend_capability list \<Rightarrow> secret_backend list \<Rightarrow> connection_id list \<Rightarrow>
     provider_state_root_id list \<Rightarrow> connection list \<Rightarrow> config_validation_error + unit" where
  "validate_connections L caps backends ids roots [] = Ok ()"
| "validate_connections L caps backends ids roots (c # cs) =
     and_then (map_err (\<lambda>e. Invalid (validation_message e)) (connection_validate c)) (\<lambda>_.
     and_then (ensure (conn_id c \<notin> set ids)
                (Invalid (''duplicate connection id: '' @ id_text L (conn_id c)))) (\<lambda>_.
     and_then (ensure (conn_provider_state c \<notin> set roots)
                (Invalid (''duplicate provider state root: '' @
                          root_str (conn_provider_state c)))) (\<lambda>_.
     and_then (validate_bindings caps backends (conn_credentials c)) (\<lambda>_.
     validate_connections L caps backends (conn_id c # ids) (conn_provider_state c # roots) cs))))"

definition all_copied :: "migration_record \<Rightarrow> bool" where
  "all_copied m =
     list_all (\<lambda>l. list_ex (\<lambda>r. rc_locator r = l \<and> rc_state r = Copied) (mg_receipts m))
       (mg_locators m)"

definition validate_migration ::
    "secret_backend list \<Rightarrow> migration_record \<Rightarrow> config_validation_error + unit" where
  "validate_migration backends m =
     and_then (ensure (local_file_path (sb_settings (mg_source m)) \<noteq> None \<and>
                       sb_settings (mg_target m) = LocalOs \<and>
                       sb_id (mg_source m) \<noteq> sb_id (mg_target m))
                (Invalid ''credential migration backend pair is invalid'')) (\<lambda>_.
     and_then (ensure (distinct (map rc_locator (mg_receipts m)))
                (Invalid ''credential migration contains duplicate receipts'')) (\<lambda>_.
     and_then (ensure (distinct (mg_locators m) \<and>
                       list_all (\<lambda>r. rc_locator r \<in> set (mg_locators m)) (mg_receipts m))
                (Invalid ''credential migration manifest is invalid'')) (\<lambda>_.
     and_then (ensure (\<not> list_ex (\<lambda>b. sb_id b = sb_id (mg_target m) \<and> b \<noteq> mg_target m) backends)
                (Invalid ''credential migration target id is already in use'')) (\<lambda>_.
     case mg_phase m of
       PhaseCopying \<Rightarrow>
         ensure (mg_source m \<in> set backends)
           (Invalid ''copying credential migration requires its source backend'')
     | PhaseCleanupPending \<Rightarrow>
         ensure (mg_source m \<notin> set backends \<and> mg_target m \<in> set backends \<and> all_copied m)
           (Invalid ''cleanup credential migration requires its target and a fully copied manifest'')))))"

definition app_config_validate ::
    "'z libs_scheme \<Rightarrow> backend_capability list \<Rightarrow> app_config \<Rightarrow> config_validation_error + unit" where
  "app_config_validate L caps c =
     and_then (ensure (\<not> trim_is_empty (ui_theme (ac_ui c)))
                (Invalid ''ui.theme cannot be empty'')) (\<lambda>_.
     and_then (validate_backends caps [] [] (ac_secret_backends c)) (\<lambda>_.
     and_then (validate_connections L caps (ac_secret_backends c) [] [] (ac_connections c)) (\<lambda>_.
     case ac_credential_migration c of
       Some m \<Rightarrow> validate_migration (ac_secret_backends c) m
     | None \<Rightarrow> Ok ())))"

end
