(* ===== verification/Paths.thy ===== *)
theory Paths
  imports Config
begin

text \<open>
  The locations YakShed owns (\<^verbatim>\<open>crates/yakshed-store/src/paths.rs\<close>): the four roots on each platform,
  and the creation of a private directory. What the \<^verbatim>\<open>directories\<close> crate answers is the record
  \<open>project_dirs\<close>, an argument; the outcomes of the two system calls of a directory creation are the
  record \<open>dir_faults\<close>. Paths are strings, joined by the Unix rule.
\<close>

record app_paths =
  pt_config_root :: string
  pt_cache_root :: string
  pt_data_root :: string
  pt_runtime_root :: string

record project_dirs =
  pd_config_dir :: string
  pd_cache_dir :: string
  pd_state_dir :: "string option"
  pd_runtime_dir :: "string option"
  pd_data_dir :: string
  pd_data_local_dir :: string

datatype target_os = Linux | MacOs | Windows

datatype path_error =
  PlatformDirectoriesUnavailable
| PathIo string string

definition path_join :: "string \<Rightarrow> string \<Rightarrow> string" where
  "path_join root part =
     (if path_is_absolute part then part
      else if root = [] \<or> last root = CHR ''/'' then root @ part
      else root @ ''/'' @ part)"

fun production_paths :: "target_os \<Rightarrow> project_dirs \<Rightarrow> app_paths" where
  "production_paths Linux p =
     \<lparr>pt_config_root = pd_config_dir p, pt_cache_root = pd_cache_dir p,
      pt_data_root = (case pd_state_dir p of Some d \<Rightarrow> d | None \<Rightarrow> pd_data_local_dir p),
      pt_runtime_root =
        (case pd_runtime_dir p of Some d \<Rightarrow> d | None \<Rightarrow> path_join (pd_data_local_dir p) ''runtime'')\<rparr>"
| "production_paths MacOs p =
     (let project_root = pd_data_dir p; data_root = path_join project_root ''data'' in
      \<lparr>pt_config_root = path_join project_root ''config'', pt_cache_root = pd_cache_dir p,
       pt_data_root = data_root, pt_runtime_root = path_join data_root ''runtime''\<rparr>)"
| "production_paths Windows p =
     (let data_root = pd_data_local_dir p in
      \<lparr>pt_config_root = pd_config_dir p, pt_cache_root = pd_cache_dir p,
       pt_data_root = data_root, pt_runtime_root = path_join data_root ''runtime''\<rparr>)"

definition production ::
    "target_os \<Rightarrow> project_dirs option \<Rightarrow> path_error + app_paths" where
  "production os dirs =
     (case dirs of
        None \<Rightarrow> Err PlatformDirectoriesUnavailable
      | Some p \<Rightarrow> Ok (production_paths os p))"

definition for_test :: "string \<Rightarrow> app_paths" where
  "for_test root =
     \<lparr>pt_config_root = path_join root ''config'', pt_cache_root = path_join root ''cache'',
      pt_data_root = path_join root ''data'', pt_runtime_root = path_join root ''runtime''\<rparr>"

definition roots :: "app_paths \<Rightarrow> string list" where
  "roots p = [pt_config_root p, pt_cache_root p, pt_data_root p, pt_runtime_root p]"

definition app_paths_text :: "app_paths \<Rightarrow> string" where
  "app_paths_text p =
     ''config='' @ pt_config_root p @ '' cache='' @ pt_cache_root p @
     '' data='' @ pt_data_root p @ '' runtime='' @ pt_runtime_root p"

record dir_faults =
  df_create :: "string option"
  df_permissions :: "string option"

definition io_outcome :: "string option \<Rightarrow> string \<Rightarrow> path_error + unit" where
  "io_outcome fault path = (case fault of None \<Rightarrow> Ok () | Some e \<Rightarrow> Err (PathIo path e))"

definition create_private_directory :: "dir_faults \<Rightarrow> string \<Rightarrow> path_error + unit" where
  "create_private_directory f path =
     and_then (io_outcome (df_create f) path) (\<lambda>_. io_outcome (df_permissions f) path)"

definition create_config_root :: "dir_faults \<Rightarrow> app_paths \<Rightarrow> path_error + unit" where
  "create_config_root f p = create_private_directory f (pt_config_root p)"

definition create_cache_root :: "dir_faults \<Rightarrow> app_paths \<Rightarrow> path_error + unit" where
  "create_cache_root f p = create_private_directory f (pt_cache_root p)"

definition create_data_root :: "dir_faults \<Rightarrow> app_paths \<Rightarrow> path_error + unit" where
  "create_data_root f p = create_private_directory f (pt_data_root p)"

definition create_runtime_root :: "dir_faults \<Rightarrow> app_paths \<Rightarrow> path_error + unit" where
  "create_runtime_root f p = create_private_directory f (pt_runtime_root p)"

end
