(* ===== verification/Config_Store.thy ===== *)
theory Config_Store
  imports Paths
begin

text \<open>
  The configuration service (\<^verbatim>\<open>crates/yakshed-store/src/config.rs\<close>): the file's data-transfer types
  and their conversions, the schema migrations of the file, the changes, and \<open>ConfigStore\<close> with its
  optimistic revision.

  The \<^verbatim>\<open>toml\<close> crate and the \<^verbatim>\<open>serde\<close> derives are the record \<open>toml\<close>, an argument; a \<open>toml::Value\<close> is
  of any type \<open>'v\<close>. The file is its content, \<open>None\<close> when absent. What the file system answers to one
  call is the record \<open>file_faults\<close>: the atomic-write crate promises that a failed write leaves the
  old file or, when the commit itself fails, possibly the new one.
\<close>

section \<open>Data-transfer types\<close>

datatype credential_binding_dto =
  DelegatedDto credential_slot string
| SecretDto credential_slot string string
| DisabledDto credential_slot

record connection_dto =
  cd_id :: connection_id
  cd_name :: string
  cd_harness :: string
  cd_model_provider :: string
  cd_provider_state :: provider_state_root_id
  cd_credentials :: "credential_binding_dto list"

record secret_backend_dto =
  bd_id :: string
  bd_kind :: string
  bd_account :: "string option"
  bd_path :: "string option"
  bd_executable :: "string option"

datatype migration_phase_dto = CopyingPhaseDto | CleanupPendingDto

datatype copy_state_dto = CopyingDto | CopiedDto

record copy_receipt_dto =
  rd_locator :: string
  rd_state :: copy_state_dto

record migration_dto =
  md_source :: secret_backend_dto
  md_target :: secret_backend_dto
  md_phase :: migration_phase_dto
  md_locators :: "string list"
  md_receipts :: "copy_receipt_dto list"

record ui_dto =
  ud_theme :: string

record config_dto =
  fd_schema_version :: u32
  fd_connections :: "connection_dto list"
  fd_secret_backends :: "secret_backend_dto list"
  fd_credential_migration :: "migration_dto option"
  fd_ui :: ui_dto

definition SCHEMA_VERSION :: u32 where
  "SCHEMA_VERSION = 1"

section \<open>From the file\<close>

definition secret_backend_try_from :: "secret_backend_dto \<Rightarrow> validation_error + secret_backend" where
  "secret_backend_try_from d =
     and_then (secret_backend_id_new (bd_id d)) (\<lambda>i.
     and_then (from_config_parts (bd_kind d) (bd_account d) (bd_path d) (bd_executable d)) (\<lambda>s.
     Ok \<lparr>sb_id = i, sb_settings = s\<rparr>))"

fun binding_try_from :: "credential_binding_dto \<Rightarrow> validation_error + credential_binding_record" where
  "binding_try_from (DelegatedDto slot authority) =
     Ok \<lparr>cb_slot = slot, cb_binding = Delegated authority\<rparr>"
| "binding_try_from (SecretDto slot backend locator) =
     and_then (secret_backend_id_new backend) (\<lambda>i.
     and_then (secret_locator_new locator) (\<lambda>l.
     Ok \<lparr>cb_slot = slot, cb_binding = Secret \<lparr>ref_backend_id = i, ref_locator = l\<rparr>\<rparr>))"
| "binding_try_from (DisabledDto slot) = Ok \<lparr>cb_slot = slot, cb_binding = Disabled\<rparr>"

definition connection_try_from :: "connection_dto \<Rightarrow> validation_error + connection" where
  "connection_try_from d =
     and_then (collect_results binding_try_from (cd_credentials d)) (\<lambda>credentials.
     Ok \<lparr>conn_id = cd_id d, conn_name = cd_name d, conn_harness = cd_harness d,
         conn_model_provider = cd_model_provider d, conn_provider_state = cd_provider_state d,
         conn_credentials = credentials\<rparr>)"

fun phase_from_dto :: "migration_phase_dto \<Rightarrow> migration_phase" where
  "phase_from_dto CopyingPhaseDto = PhaseCopying"
| "phase_from_dto CleanupPendingDto = PhaseCleanupPending"

fun copy_state_from_dto :: "copy_state_dto \<Rightarrow> copy_state" where
  "copy_state_from_dto CopyingDto = Copying"
| "copy_state_from_dto CopiedDto = Copied"

definition receipt_try_from :: "copy_receipt_dto \<Rightarrow> validation_error + copy_receipt" where
  "receipt_try_from d =
     and_then (secret_locator_new (rd_locator d)) (\<lambda>l.
     Ok \<lparr>rc_locator = l, rc_state = copy_state_from_dto (rd_state d)\<rparr>)"

definition migration_try_from :: "migration_dto \<Rightarrow> validation_error + migration_record" where
  "migration_try_from d =
     and_then (secret_backend_try_from (md_source d)) (\<lambda>source.
     and_then (secret_backend_try_from (md_target d)) (\<lambda>target.
     and_then (collect_results secret_locator_new (md_locators d)) (\<lambda>locators.
     and_then (collect_results receipt_try_from (md_receipts d)) (\<lambda>receipts.
     Ok \<lparr>mg_source = source, mg_target = target, mg_phase = phase_from_dto (md_phase d),
         mg_locators = locators, mg_receipts = receipts\<rparr>))))"

definition app_config_try_from :: "config_dto \<Rightarrow> validation_error + app_config" where
  "app_config_try_from d =
     and_then (collect_results connection_try_from (fd_connections d)) (\<lambda>connections.
     and_then (collect_results secret_backend_try_from (fd_secret_backends d)) (\<lambda>backends.
     and_then (case fd_credential_migration d of
                 None \<Rightarrow> Ok None
               | Some m \<Rightarrow> map_ok Some (migration_try_from m)) (\<lambda>migration.
     Ok \<lparr>ac_connections = connections, ac_secret_backends = backends,
         ac_credential_migration = migration,
         ac_ui = \<lparr>ui_theme = ud_theme (fd_ui d)\<rparr>\<rparr>)))"

section \<open>To the file\<close>

fun backend_parts ::
    "secret_backend_settings \<Rightarrow> string option \<times> string option \<times> string option" where
  "backend_parts (OnePassword account executable) = (Some account, None, executable)"
| "backend_parts (LocalFile path) = (None, Some path, None)"
| "backend_parts _ = (None, None, None)"

definition secret_backend_dto_from :: "secret_backend \<Rightarrow> secret_backend_dto" where
  "secret_backend_dto_from b =
     (case backend_parts (sb_settings b) of (account, path, executable) \<Rightarrow>
        \<lparr>bd_id = backend_id_str (sb_id b), bd_kind = secret_backend_kind b, bd_account = account,
         bd_path = path, bd_executable = executable\<rparr>)"

definition binding_dto_from :: "credential_binding_record \<Rightarrow> credential_binding_dto" where
  "binding_dto_from r =
     (case cb_binding r of
        Delegated authority \<Rightarrow> DelegatedDto (cb_slot r) authority
      | Secret reference \<Rightarrow>
          SecretDto (cb_slot r) (backend_id_str (ref_backend_id reference))
            (locator_str (ref_locator reference))
      | Disabled \<Rightarrow> DisabledDto (cb_slot r))"

definition connection_dto_from :: "connection \<Rightarrow> connection_dto" where
  "connection_dto_from c =
     \<lparr>cd_id = conn_id c, cd_name = conn_name c, cd_harness = conn_harness c,
      cd_model_provider = conn_model_provider c, cd_provider_state = conn_provider_state c,
      cd_credentials = map binding_dto_from (conn_credentials c)\<rparr>"

fun phase_dto_from :: "migration_phase \<Rightarrow> migration_phase_dto" where
  "phase_dto_from PhaseCopying = CopyingPhaseDto"
| "phase_dto_from PhaseCleanupPending = CleanupPendingDto"

fun copy_state_dto_from :: "copy_state \<Rightarrow> copy_state_dto" where
  "copy_state_dto_from Copying = CopyingDto"
| "copy_state_dto_from Copied = CopiedDto"

definition receipt_dto_from :: "copy_receipt \<Rightarrow> copy_receipt_dto" where
  "receipt_dto_from r =
     \<lparr>rd_locator = locator_str (rc_locator r), rd_state = copy_state_dto_from (rc_state r)\<rparr>"

definition migration_dto_from :: "migration_record \<Rightarrow> migration_dto" where
  "migration_dto_from m =
     \<lparr>md_source = secret_backend_dto_from (mg_source m),
      md_target = secret_backend_dto_from (mg_target m), md_phase = phase_dto_from (mg_phase m),
      md_locators = map locator_str (mg_locators m),
      md_receipts = map receipt_dto_from (mg_receipts m)\<rparr>"

definition config_dto_from :: "app_config \<Rightarrow> config_dto" where
  "config_dto_from c =
     \<lparr>fd_schema_version = SCHEMA_VERSION,
      fd_connections = map connection_dto_from (ac_connections c),
      fd_secret_backends = map secret_backend_dto_from (ac_secret_backends c),
      fd_credential_migration = map_option migration_dto_from (ac_credential_migration c),
      fd_ui = \<lparr>ud_theme = ui_theme (ac_ui c)\<rparr>\<rparr>"

section \<open>Errors\<close>

datatype config_error =
  ConfigParse string
| ConfigUnsupportedSchema u32 u32
| ConfigConflict config_revision config_revision
| ConfigValidation string
| InvalidMigrationTransition string
| SecretBackendConfiguration backend_configuration_error
| ConfigSerialize string
| ConfigWorker string
| ConfigIo string string

fun config_error_text :: "config_error \<Rightarrow> string" where
  "config_error_text (ConfigParse e) = ''failed to parse config: '' @ e"
| "config_error_text (ConfigUnsupportedSchema found supported) =
     ''config schema '' @ decimal (uint found) @ '' is newer than supported schema '' @
     decimal (uint supported)"
| "config_error_text (ConfigConflict expected actual) =
     ''config revision conflict: expected '' @ decimal (uint expected) @ '', current '' @
     decimal (uint actual)"
| "config_error_text (ConfigValidation e) = ''invalid config: '' @ e"
| "config_error_text (InvalidMigrationTransition e) =
     ''invalid credential migration transition: '' @ e"
| "config_error_text (SecretBackendConfiguration e) =
     ''invalid secret backend configuration: '' @ backend_configuration_error_text e"
| "config_error_text (ConfigSerialize e) = ''failed to serialize config: '' @ e"
| "config_error_text (ConfigWorker e) = ''config worker failed: '' @ e"
| "config_error_text (ConfigIo path e) = ''filesystem operation failed for '' @ path @ '': '' @ e"

fun config_error_of_path :: "path_error \<Rightarrow> config_error" where
  "config_error_of_path (PathIo path e) = ConfigIo path e"
| "config_error_of_path PlatformDirectoriesUnavailable =
     ConfigValidation ''platform application directories are unavailable''"

section \<open>Schema migrations of the file\<close>

record 'v toml =
  toml_from_str :: "string \<Rightarrow> string + 'v"
  toml_get_integer :: "'v \<Rightarrow> string \<Rightarrow> int option"
  toml_try_into :: "'v \<Rightarrow> string + config_dto"
  toml_to_string :: "config_dto \<Rightarrow> string + string"

definition u32_of_i64 :: "int \<Rightarrow> u32 option" where
  "u32_of_i64 i = (if 0 \<le> i \<and> i < 2 ^ 32 then Some (word_of_int i) else None)"

definition schema_version :: "('v, 'z) toml_scheme \<Rightarrow> 'v \<Rightarrow> config_error + u32" where
  "schema_version T v =
     (case Option.bind (toml_get_integer T v ''schema_version'') u32_of_i64 of
        Some version \<Rightarrow> Ok version
      | None \<Rightarrow> Err (ConfigValidation ''schema_version must be a positive integer''))"

record 'v file_migration =
  fm_from :: u32
  fm_apply :: "'v \<Rightarrow> config_error + 'v"

fun migrate_steps ::
    "('v, 'z) toml_scheme \<Rightarrow> u32 \<Rightarrow> 'v file_migration list \<Rightarrow> 'v \<Rightarrow> u32 \<Rightarrow>
     config_error + 'v \<times> u32" where
  "migrate_steps T target [] v version = Ok (v, version)"
| "migrate_steps T target (m # ms) v version =
     (if version = target then Ok (v, version)
      else if fm_from m < version then migrate_steps T target ms v version
      else if fm_from m \<noteq> version then Ok (v, version)
      else and_then (fm_apply m v) (\<lambda>w.
           and_then (schema_version T w) (\<lambda>found.
             if found \<noteq> fm_from m + 1
             then Err (ConfigValidation
               (''migration from schema '' @ decimal (uint (fm_from m)) @
                '' did not produce schema '' @ decimal (uint (fm_from m + 1))))
             else migrate_steps T target ms w found)))"

definition run_migrations ::
    "('v, 'z) toml_scheme \<Rightarrow> 'v \<Rightarrow> u32 \<Rightarrow> u32 \<Rightarrow> 'v file_migration list \<Rightarrow> config_error + 'v" where
  "run_migrations T v version target migrations =
     and_then (migrate_steps T target migrations v version) (\<lambda>(w, reached).
       if reached = target then Ok w
       else Err (ConfigValidation
         (''schema version '' @ decimal (uint reached) @ '' has no migration path to '' @
          decimal (uint target))))"

definition MIGRATIONS :: "'v file_migration list" where
  "MIGRATIONS = []"

definition migrate :: "('v, 'z) toml_scheme \<Rightarrow> 'v \<Rightarrow> config_error + 'v" where
  "migrate T v =
     and_then (schema_version T v) (\<lambda>version.
       if version > SCHEMA_VERSION
       then Err (ConfigUnsupportedSchema version SCHEMA_VERSION)
       else run_migrations T v version SCHEMA_VERSION MIGRATIONS)"

section \<open>The changes\<close>

definition put_connection :: "connection \<Rightarrow> connection list \<Rightarrow> connection list" where
  "put_connection c cs = sort_key conn_id (filter (\<lambda>x. conn_id x \<noteq> conn_id c) cs @ [c])"

definition backend_key :: "secret_backend \<Rightarrow> string" where
  "backend_key b = backend_id_str (sb_id b)"

definition push_backend :: "secret_backend \<Rightarrow> secret_backend list \<Rightarrow> secret_backend list" where
  "push_backend b bs = filter (\<lambda>x. sb_id x \<noteq> sb_id b) bs @ [b]"

definition begin_migration :: "migration_record \<Rightarrow> app_config \<Rightarrow> config_error + app_config" where
  "begin_migration m c =
     (if ac_credential_migration c \<noteq> None \<or> mg_phase m \<noteq> PhaseCopying \<or> mg_receipts m \<noteq> []
      then Err (InvalidMigrationTransition
        ''begin requires an inactive migration and an empty copying record'')
      else Ok (c\<lparr>ac_credential_migration := Some m\<rparr>))"

definition put_receipt :: "secret_locator \<Rightarrow> copy_state \<Rightarrow> copy_receipt list \<Rightarrow> copy_receipt list" where
  "put_receipt l s rs =
     sort_key (\<lambda>r. locator_str (rc_locator r))
       (filter (\<lambda>r. rc_locator r \<noteq> l) rs @ [\<lparr>rc_locator = l, rc_state = s\<rparr>])"

definition receipt_state :: "migration_record \<Rightarrow> secret_locator \<Rightarrow> copy_state option" where
  "receipt_state m l = map_option rc_state (List.find (\<lambda>r. rc_locator r = l) (mg_receipts m))"

fun receipt_may_advance :: "copy_state option \<Rightarrow> copy_state \<Rightarrow> bool" where
  "receipt_may_advance None Copying = True"
| "receipt_may_advance (Some Copying) Copied = True"
| "receipt_may_advance _ _ = False"

definition record_copy ::
    "secret_locator \<Rightarrow> copy_state \<Rightarrow> app_config \<Rightarrow> config_error + app_config" where
  "record_copy l s c =
     (case ac_credential_migration c of
        None \<Rightarrow> Err (InvalidMigrationTransition ''copy receipt requires an active migration'')
      | Some m \<Rightarrow>
          if mg_phase m \<noteq> PhaseCopying \<or> l \<notin> set (mg_locators m)
          then Err (InvalidMigrationTransition
            ''copy receipt requires the copying phase and a manifest locator'')
          else if \<not> receipt_may_advance (receipt_state m l) s
          then Err (InvalidMigrationTransition
            ''copy receipts may only advance from absent to copying to copied'')
          else Ok (c\<lparr>ac_credential_migration :=
                 Some (m\<lparr>mg_receipts := put_receipt l s (mg_receipts m)\<rparr>)\<rparr>))"

definition rebind ::
    "secret_backend_id \<Rightarrow> secret_backend_id \<Rightarrow> credential_binding_record \<Rightarrow>
     credential_binding_record" where
  "rebind from to r =
     (case cb_binding r of
        Secret reference \<Rightarrow>
          if ref_backend_id reference = from
          then r\<lparr>cb_binding := Secret (reference\<lparr>ref_backend_id := to\<rparr>)\<rparr> else r
      | _ \<Rightarrow> r)"

definition rebind_connection ::
    "secret_backend_id \<Rightarrow> secret_backend_id \<Rightarrow> connection \<Rightarrow> connection" where
  "rebind_connection from to c =
     c\<lparr>conn_credentials := map (rebind from to) (conn_credentials c)\<rparr>"

definition checkpoint_migration :: "app_config \<Rightarrow> config_error + app_config" where
  "checkpoint_migration c =
     (case ac_credential_migration c of
        None \<Rightarrow> Err (InvalidMigrationTransition ''checkpoint requires an active migration'')
      | Some m \<Rightarrow>
          if mg_phase m \<noteq> PhaseCopying \<or> \<not> all_copied m
          then Err (InvalidMigrationTransition
            ''checkpoint requires a copied receipt for every manifest locator'')
          else
            let from = sb_id (mg_source m); to = mg_target m in
            Ok (c\<lparr>ac_connections := map (rebind_connection from (sb_id to)) (ac_connections c),
                  ac_secret_backends := sort_key backend_key
                    (filter (\<lambda>b. sb_id b \<noteq> from \<and> sb_id b \<noteq> sb_id to) (ac_secret_backends c) @ [to]),
                  ac_credential_migration := Some (m\<lparr>mg_phase := PhaseCleanupPending\<rparr>)\<rparr>))"

definition finish_migration :: "app_config \<Rightarrow> config_error + app_config" where
  "finish_migration c =
     (if map_option mg_phase (ac_credential_migration c) \<noteq> Some PhaseCleanupPending
      then Err (InvalidMigrationTransition ''finish requires the cleanup-pending phase'')
      else Ok (c\<lparr>ac_credential_migration := None\<rparr>))"

fun apply_change :: "config_change \<Rightarrow> app_config \<Rightarrow> config_error + app_config" where
  "apply_change (PutConnection x) c =
     Ok (c\<lparr>ac_connections := put_connection x (ac_connections c)\<rparr>)"
| "apply_change (PutConnectionWithSecretBackends x bs) c =
     Ok (c\<lparr>ac_secret_backends := sort_key backend_key (fold push_backend bs (ac_secret_backends c)),
           ac_connections := put_connection x (ac_connections c)\<rparr>)"
| "apply_change (RemoveConnection i) c =
     Ok (c\<lparr>ac_connections := filter (\<lambda>x. conn_id x \<noteq> i) (ac_connections c)\<rparr>)"
| "apply_change (PutSecretBackend b) c =
     Ok (c\<lparr>ac_secret_backends := sort_key backend_key (push_backend b (ac_secret_backends c))\<rparr>)"
| "apply_change (RemoveSecretBackend i) c =
     Ok (c\<lparr>ac_secret_backends := filter (\<lambda>b. sb_id b \<noteq> i) (ac_secret_backends c)\<rparr>)"
| "apply_change (BeginCredentialMigration m) c = begin_migration m c"
| "apply_change (RecordCredentialCopy l s) c = record_copy l s c"
| "apply_change CheckpointCredentialMigration c = checkpoint_migration c"
| "apply_change FinishCredentialMigration c = finish_migration c"
| "apply_change (SetUiTheme theme) c = Ok (c\<lparr>ac_ui := (ac_ui c)\<lparr>ui_theme := theme\<rparr>\<rparr>)"
| "apply_change Reset c = Ok default_app_config"

section \<open>Reading and writing the file\<close>

definition validate_config ::
    "'z libs_scheme \<Rightarrow> backend_capability list \<Rightarrow> app_config \<Rightarrow> config_error + unit" where
  "validate_config L caps c =
     (case app_config_validate L caps c of
        Inr _ \<Rightarrow> Ok ()
      | Inl (SecretBackendError e) \<Rightarrow> Err (SecretBackendConfiguration e)
      | Inl e \<Rightarrow> Err (ConfigValidation (config_validation_error_text e)))"

record file_faults =
  ff_read :: "string option"
  ff_open :: "string option"
  ff_write :: "string option"
  ff_commit :: "(string \<times> bool) option"

definition file_outcome :: "string \<Rightarrow> string option \<Rightarrow> config_error + unit" where
  "file_outcome path fault = (case fault of None \<Rightarrow> Ok () | Some e \<Rightarrow> Err (ConfigIo path e))"

definition read_to_string ::
    "file_faults \<Rightarrow> string \<Rightarrow> string option \<Rightarrow> config_error + string" where
  "read_to_string f path file =
     and_then (file_outcome path (ff_read f)) (\<lambda>_.
     case file of
       Some content \<Rightarrow> Ok content
     | None \<Rightarrow> Err (ConfigIo path ''No such file or directory (os error 2)''))"

definition read_config ::
    "'z libs_scheme \<Rightarrow> ('v, 'y) toml_scheme \<Rightarrow> file_faults \<Rightarrow> backend_capability list \<Rightarrow> string \<Rightarrow>
     string option \<Rightarrow> config_error + app_config" where
  "read_config L T f caps path file =
     and_then (read_to_string f path file) (\<lambda>source.
     and_then (map_err ConfigParse (toml_from_str T source)) (\<lambda>v.
     and_then (migrate T v) (\<lambda>w.
     and_then (map_err ConfigParse (toml_try_into T w)) (\<lambda>d.
     and_then (map_err (\<lambda>e. ConfigValidation (validation_message e)) (app_config_try_from d)) (\<lambda>c.
     and_then (validate_config L caps c) (\<lambda>_. Ok c))))))"

text \<open>The result, and the file afterwards. The hook runs between the write and the commit.\<close>

definition write_config_with_hook ::
    "('v, 'y) toml_scheme \<Rightarrow> file_faults \<Rightarrow> string \<Rightarrow> app_config \<Rightarrow> string option \<Rightarrow>
     string option \<Rightarrow> (config_error + unit) \<times> string option" where
  "write_config_with_hook T f path c before_commit file =
     (case and_then (map_err ConfigSerialize (toml_to_string T (config_dto_from c))) (\<lambda>serialized.
           and_then (file_outcome path (ff_open f)) (\<lambda>_.
           and_then (file_outcome path (ff_write f)) (\<lambda>_.
           and_then (file_outcome path before_commit) (\<lambda>_. Ok serialized)))) of
        Inl e \<Rightarrow> (Err e, file)
      | Inr serialized \<Rightarrow>
          (case ff_commit f of
             None \<Rightarrow> (Ok (), Some serialized)
           | Some (e, replaced) \<Rightarrow>
               (Err (ConfigIo path e), if replaced then Some serialized else file)))"

definition write_config ::
    "('v, 'y) toml_scheme \<Rightarrow> file_faults \<Rightarrow> string \<Rightarrow> app_config \<Rightarrow> string option \<Rightarrow>
     (config_error + unit) \<times> string option" where
  "write_config T f path c file = write_config_with_hook T f path c None file"

section \<open>The service\<close>

record config_store =
  cs_path :: string
  cs_capabilities :: "backend_capability list"
  cs_state :: config_snapshot

definition CONFIG_FILE :: string where
  "CONFIG_FILE = ''config.toml''"

definition config_store_open ::
    "'z libs_scheme \<Rightarrow> ('v, 'y) toml_scheme \<Rightarrow> dir_faults \<Rightarrow> file_faults \<Rightarrow> app_paths \<Rightarrow>
     backend_capability list \<Rightarrow> string option \<Rightarrow> (config_error + config_store) \<times> string option" where
  "config_store_open L T df f paths caps file =
     (case map_err config_error_of_path (create_config_root df paths) of
        Inl e \<Rightarrow> (Err e, file)
      | Inr _ \<Rightarrow>
          (let path = path_join (pt_config_root paths) CONFIG_FILE;
               (loaded, file') =
                 (case file of
                    Some _ \<Rightarrow> (read_config L T f caps path file, file)
                  | None \<Rightarrow>
                      (case write_config T f path default_app_config file of
                         (written, file') \<Rightarrow>
                           (map_ok (\<lambda>_. default_app_config) written, file'))) in
           (map_ok (\<lambda>c. \<lparr>cs_path = path, cs_capabilities = caps,
                         cs_state = \<lparr>sn_revision = initial_revision, sn_config = c\<rparr>\<rparr>) loaded,
            file')))"

definition config_store_snapshot :: "config_store \<Rightarrow> config_snapshot" where
  "config_store_snapshot s = cs_state s"

text \<open>
  After a failed write the store adopts what the file holds, when that can be read; the revision
  stays when the file still holds the current configuration.
\<close>

definition adopt_observed ::
    "config_revision \<Rightarrow> config_error + app_config \<Rightarrow> config_store \<Rightarrow> config_store" where
  "adopt_observed revision observed s =
     (case observed of
        Inl _ \<Rightarrow> s
      | Inr c \<Rightarrow>
          s\<lparr>cs_state := \<lparr>sn_revision = (if c = sn_config (cs_state s) then sn_revision (cs_state s)
                                       else revision),
                        sn_config = c\<rparr>\<rparr>)"

definition prepare_update ::
    "'z libs_scheme \<Rightarrow> config_store \<Rightarrow> config_revision \<Rightarrow> config_change \<Rightarrow>
     config_error + config_snapshot" where
  "prepare_update L s expected change =
     (let current = cs_state s in
      and_then (ensure (sn_revision current = expected)
                 (ConfigConflict expected (sn_revision current))) (\<lambda>_.
      and_then (apply_change change (sn_config current)) (\<lambda>c.
      and_then (validate_config L (cs_capabilities s) c) (\<lambda>_.
      and_then (ensure (uint (sn_revision current) + 1 < 2 ^ 64)
                 (ConfigValidation ''config revision overflow'')) (\<lambda>_.
      Ok \<lparr>sn_revision = sn_revision current + 1, sn_config = c\<rparr>)))))"

definition config_store_update ::
    "'z libs_scheme \<Rightarrow> ('v, 'y) toml_scheme \<Rightarrow> file_faults \<Rightarrow> config_revision \<Rightarrow> config_change \<Rightarrow>
     config_store \<times> string option \<Rightarrow>
     (config_error + config_snapshot) \<times> config_store \<times> string option" where
  "config_store_update L T f expected change = (\<lambda>(s, file).
     case prepare_update L s expected change of
       Inl e \<Rightarrow> (Err e, s, file)
     | Inr next \<Rightarrow>
         (case write_config T f (cs_path s) (sn_config next) file of
            (Inl e, file') \<Rightarrow>
              (Err e,
               adopt_observed (sn_revision next)
                 (read_config L T f (cs_capabilities s) (cs_path s) file') s,
               file')
          | (Inr _, file') \<Rightarrow> (Ok next, s\<lparr>cs_state := next\<rparr>, file')))"

end
