(* ===== verification/Config_Laws.thy ===== *)
theory Config_Laws
  imports Config
begin

text \<open>
  What the configuration validator promises. \<open>config_ok\<close> states the promise without the order of
  the checks, the accumulators or the messages; \<open>app_config_validate_iff\<close> shows that the validator
  accepts exactly the configurations that satisfy it.
\<close>

section \<open>The promise\<close>

definition backend_ok :: "backend_capability list \<Rightarrow> secret_backend \<Rightarrow> bool" where
  "backend_ok caps b \<longleftrightarrow>
     secret_backend_validate b = Ok () \<and>
     (\<forall>path. sb_settings b = LocalFile path \<longrightarrow> path_is_absolute path) \<and>
     (\<exists>cap. capability_of caps (secret_backend_kind b) = Some cap \<and>
        cap_availability cap = Available)"

definition binding_ok ::
    "backend_capability list \<Rightarrow> secret_backend list \<Rightarrow> credential_binding \<Rightarrow> bool" where
  "binding_ok caps backends binding \<longleftrightarrow>
     (\<forall>r. binding = Secret r \<longrightarrow>
        ref_backend_id r \<in> sb_id ` set backends \<and>
        (\<forall>v. locator_validator caps backends (ref_backend_id r) = Some v \<longrightarrow>
           v (ref_locator r) = Ok ()))"

definition connection_ok :: "connection \<Rightarrow> bool" where
  "connection_ok c \<longleftrightarrow>
     \<not> trim_is_empty (conn_name c) \<and> \<not> trim_is_empty (conn_harness c) \<and>
     \<not> trim_is_empty (conn_model_provider c) \<and>
     distinct (map cb_slot (conn_credentials c)) \<and>
     (\<forall>b\<in>set (conn_credentials c). credential_binding_validate (cb_binding b) = Ok ())"

definition migration_ok :: "secret_backend list \<Rightarrow> migration_record \<Rightarrow> bool" where
  "migration_ok backends m \<longleftrightarrow>
     (\<exists>path. sb_settings (mg_source m) = LocalFile path) \<and> sb_settings (mg_target m) = LocalOs \<and>
     sb_id (mg_source m) \<noteq> sb_id (mg_target m) \<and>
     distinct (map rc_locator (mg_receipts m)) \<and> distinct (mg_locators m) \<and>
     rc_locator ` set (mg_receipts m) \<subseteq> set (mg_locators m) \<and>
     (\<forall>b\<in>set backends. sb_id b = sb_id (mg_target m) \<longrightarrow> b = mg_target m) \<and>
     (case mg_phase m of
        PhaseCopying \<Rightarrow> mg_source m \<in> set backends
      | PhaseCleanupPending \<Rightarrow>
          mg_source m \<notin> set backends \<and> mg_target m \<in> set backends \<and> all_copied m)"

definition config_ok :: "backend_capability list \<Rightarrow> app_config \<Rightarrow> bool" where
  "config_ok caps c \<longleftrightarrow>
     \<not> trim_is_empty (ui_theme (ac_ui c)) \<and>
     distinct (map sb_id (ac_secret_backends c)) \<and>
     distinct (List.map_filter (\<lambda>b. local_file_path (sb_settings b)) (ac_secret_backends c)) \<and>
     (\<forall>b\<in>set (ac_secret_backends c). backend_ok caps b) \<and>
     distinct (map conn_id (ac_connections c)) \<and>
     distinct (map conn_provider_state (ac_connections c)) \<and>
     (\<forall>x\<in>set (ac_connections c). connection_ok x \<and>
        (\<forall>b\<in>set (conn_credentials x).
           binding_ok caps (ac_secret_backends c) (cb_binding b))) \<and>
     (\<forall>m. ac_credential_migration c = Some m \<longrightarrow> migration_ok (ac_secret_backends c) m)"

section \<open>The validator accepts exactly that\<close>

lemmas text_eval = trim_is_empty_def has_control_def chars_def bytes_def trim_def
  char_is_whitespace_def char_is_control_def

lemma local_file_path_Some: "local_file_path s = Some p \<longleftrightarrow> s = LocalFile p"
  by (cases s) auto

lemma validate_credentials_Ok:
  "validate_credentials slots cs = Ok () \<longleftrightarrow>
     distinct (map cb_slot cs) \<and> set slots \<inter> cb_slot ` set cs = {} \<and>
     (\<forall>c\<in>set cs. credential_binding_validate (cb_binding c) = Ok ())"
  by (induction cs arbitrary: slots)
    (auto simp: and_then_eq_Ok credential_binding_record_validate_def)

lemma connection_validate_Ok: "connection_validate c = Ok () \<longleftrightarrow> connection_ok c"
  by (auto simp: connection_validate_def connection_ok_def and_then_eq_Ok require_nonempty_def
      validate_credentials_Ok split: if_splits)

lemma validate_backend_Ok:
  "secret_backend_validate b = Ok () \<and> validate_backend_configuration b caps = Ok () \<longleftrightarrow>
     backend_ok caps b"
  by (auto simp: validate_backend_configuration_def backend_ok_def and_then_eq_Ok
      local_file_path_Some Let_def split: option.splits backend_availability.splits)

lemma validate_backends_Ok:
  "validate_backends caps ids paths bs = Ok () \<longleftrightarrow>
     (\<forall>b\<in>set bs. backend_ok caps b) \<and>
     distinct (map sb_id bs) \<and> set ids \<inter> sb_id ` set bs = {} \<and>
     distinct (List.map_filter (\<lambda>b. local_file_path (sb_settings b)) bs) \<and>
     set paths \<inter> set (List.map_filter (\<lambda>b. local_file_path (sb_settings b)) bs) = {}"
proof (induction bs arbitrary: ids paths)
  case (Cons b bs)
  show ?case
    by (cases "local_file_path (sb_settings b)")
      (auto simp: and_then_eq_Ok Cons.IH validate_backend_Ok [symmetric] map_filter_simps)
qed (simp add: map_filter_simps)

lemma validate_binding_Ok:
  "validate_binding caps backends b = Ok () \<longleftrightarrow> binding_ok caps backends b"
  by (cases b) (auto simp: binding_ok_def and_then_eq_Ok split: option.splits)

lemma validate_bindings_Ok:
  "validate_bindings caps backends cs = Ok () \<longleftrightarrow>
     (\<forall>c\<in>set cs. binding_ok caps backends (cb_binding c))"
  by (induction cs) (auto simp: and_then_eq_Ok validate_binding_Ok)

lemma validate_connections_Ok:
  "validate_connections L caps backends ids roots cs = Ok () \<longleftrightarrow>
     (\<forall>c\<in>set cs. connection_ok c \<and>
        (\<forall>b\<in>set (conn_credentials c). binding_ok caps backends (cb_binding b))) \<and>
     distinct (map conn_id cs) \<and> set ids \<inter> conn_id ` set cs = {} \<and>
     distinct (map conn_provider_state cs) \<and> set roots \<inter> conn_provider_state ` set cs = {}"
  by (induction cs arbitrary: ids roots)
    (auto simp: and_then_eq_Ok connection_validate_Ok validate_bindings_Ok)

lemma validate_migration_Ok: "validate_migration backends m = Ok () \<longleftrightarrow> migration_ok backends m"
  by (cases "mg_phase m")
    (auto simp: validate_migration_def migration_ok_def and_then_eq_Ok local_file_path_Some
      list_all_iff list_ex_iff)

lemma app_config_validate_iff: "app_config_validate L caps c = Ok () \<longleftrightarrow> config_ok caps c"
  by (cases "ac_credential_migration c")
    (simp_all add: app_config_validate_def config_ok_def and_then_eq_Ok validate_backends_Ok
      validate_connections_Ok validate_migration_Ok conj_ac)

lemma default_config_ok: "config_ok caps default_app_config"
proof -
  have "\<not> trim_is_empty ''system''" by (simp add: text_eval)
  then show ?thesis
    by (simp add: config_ok_def default_app_config_def default_ui_config_def map_filter_simps)
qed

end
