(* ===== verification/Config_Store_Laws.thy ===== *)
theory Config_Store_Laws
  imports Config_Store Config_Laws
begin

text \<open>
  Laws of the configuration service: the round trip of the transfer types, what the changes keep,
  the outcomes of an update, and the relation of the configuration in memory to the file.
\<close>

section \<open>Values that survive the file\<close>

text \<open>
  The newtypes' fields are private in the code, so their values come out of the checked
  constructors; the derived \<open>typed\<close> predicates state that for the values inside a configuration.
\<close>

definition backend_typed :: "secret_backend \<Rightarrow> bool" where
  "backend_typed b \<longleftrightarrow>
     secret_backend_id_new (backend_id_str (sb_id b)) = Ok (sb_id b) \<and>
     secret_backend_validate b = Ok ()"

definition locator_typed :: "secret_locator \<Rightarrow> bool" where
  "locator_typed l \<longleftrightarrow> secret_locator_new (locator_str l) = Ok l"

definition binding_typed :: "credential_binding_record \<Rightarrow> bool" where
  "binding_typed r \<longleftrightarrow>
     (\<forall>reference. cb_binding r = Secret reference \<longrightarrow>
        secret_backend_id_new (backend_id_str (ref_backend_id reference)) =
          Ok (ref_backend_id reference) \<and>
        locator_typed (ref_locator reference))"

definition connection_typed :: "connection \<Rightarrow> bool" where
  "connection_typed c \<longleftrightarrow> (\<forall>r\<in>set (conn_credentials c). binding_typed r)"

definition migration_typed :: "migration_record \<Rightarrow> bool" where
  "migration_typed m \<longleftrightarrow>
     backend_typed (mg_source m) \<and> backend_typed (mg_target m) \<and>
     (\<forall>l\<in>set (mg_locators m). locator_typed l) \<and>
     (\<forall>r\<in>set (mg_receipts m). locator_typed (rc_locator r))"

definition config_typed :: "app_config \<Rightarrow> bool" where
  "config_typed c \<longleftrightarrow>
     (\<forall>x\<in>set (ac_connections c). connection_typed x) \<and>
     (\<forall>b\<in>set (ac_secret_backends c). backend_typed b) \<and>
     (\<forall>m. ac_credential_migration c = Some m \<longrightarrow> migration_typed m)"

fun change_typed :: "config_change \<Rightarrow> bool" where
  "change_typed (PutConnection x) = connection_typed x"
| "change_typed (PutConnectionWithSecretBackends x bs) =
     (connection_typed x \<and> list_all backend_typed bs)"
| "change_typed (PutSecretBackend b) = backend_typed b"
| "change_typed (BeginCredentialMigration m) = migration_typed m"
| "change_typed (RecordCredentialCopy l s) = locator_typed l"
| "change_typed _ = True"

section \<open>Round trip of the transfer types\<close>

lemma collect_results_round_trip:
  "(\<And>x. x \<in> set xs \<Longrightarrow> f (g x) = Ok x) \<Longrightarrow> collect_results f (map g xs) = Ok xs"
  by (induction xs) auto

lemma phase_round_trip [simp]: "phase_from_dto (phase_dto_from p) = p"
  by (cases p) auto

lemma copy_state_round_trip [simp]: "copy_state_from_dto (copy_state_dto_from s) = s"
  by (cases s) auto

lemma settings_round_trip:
  "settings_validate s = Ok () \<Longrightarrow> backend_parts s = (a, p, e) \<Longrightarrow>
     from_config_parts (settings_kind s) a p e = Ok s"
  by (cases s) (auto simp: from_config_parts_def and_then_eq_Ok)

lemma backend_round_trip:
  "backend_typed b \<Longrightarrow> secret_backend_try_from (secret_backend_dto_from b) = Ok b"
  by (auto simp: secret_backend_try_from_def secret_backend_dto_from_def backend_typed_def
      secret_backend_validate_def secret_backend_kind_def and_then_eq_Ok settings_round_trip
      split: prod.splits)

lemma binding_round_trip:
  "binding_typed r \<Longrightarrow> binding_try_from (binding_dto_from r) = Ok r"
  by (cases "cb_binding r")
    (auto simp: binding_dto_from_def binding_typed_def locator_typed_def and_then_eq_Ok)

lemma connection_round_trip:
  "connection_typed c \<Longrightarrow> connection_try_from (connection_dto_from c) = Ok c"
  by (simp add: connection_try_from_def connection_dto_from_def connection_typed_def
      collect_results_round_trip binding_round_trip)

lemma receipt_round_trip:
  "locator_typed (rc_locator r) \<Longrightarrow> receipt_try_from (receipt_dto_from r) = Ok r"
  by (simp add: receipt_try_from_def receipt_dto_from_def locator_typed_def)

lemma migration_round_trip:
  "migration_typed m \<Longrightarrow> migration_try_from (migration_dto_from m) = Ok m"
  by (simp add: migration_try_from_def migration_dto_from_def migration_typed_def
      backend_round_trip receipt_round_trip collect_results_round_trip
      locator_typed_def)

lemma config_dto_round_trip:
  assumes "config_typed c"
  shows "app_config_try_from (config_dto_from c) = Ok c"
proof -
  have "collect_results connection_try_from (map connection_dto_from (ac_connections c)) =
      Ok (ac_connections c)"
    using assms by (simp add: config_typed_def collect_results_round_trip connection_round_trip)
  moreover have "collect_results secret_backend_try_from
      (map secret_backend_dto_from (ac_secret_backends c)) = Ok (ac_secret_backends c)"
    using assms by (simp add: config_typed_def collect_results_round_trip backend_round_trip)
  ultimately show ?thesis
    using assms
    by (cases "ac_credential_migration c")
      (simp_all add: app_config_try_from_def config_dto_from_def config_typed_def
        migration_round_trip)
qed

section \<open>Changes keep the typing\<close>

lemma put_connection_set:
  "set (put_connection x cs) = insert x {y \<in> set cs. conn_id y \<noteq> conn_id x}"
  by (auto simp: put_connection_def)

lemma fold_push_backend_set: "set (fold push_backend bs cs) \<subseteq> set bs \<union> set cs"
  by (induction bs arbitrary: cs) (force simp: push_backend_def)+

lemma rebind_typed:
  "binding_typed r \<Longrightarrow> secret_backend_id_new (backend_id_str to) = Ok to \<Longrightarrow>
     binding_typed (rebind from to r)"
  by (cases "cb_binding r") (auto simp: rebind_def binding_typed_def)

lemma rebind_connection_typed:
  "connection_typed c \<Longrightarrow> secret_backend_id_new (backend_id_str to) = Ok to \<Longrightarrow>
     connection_typed (rebind_connection from to c)"
  by (auto simp: rebind_connection_def connection_typed_def rebind_typed)

lemma begin_migration_Ok:
  "begin_migration m c = Ok c' \<longleftrightarrow>
     ac_credential_migration c = None \<and> mg_phase m = PhaseCopying \<and> mg_receipts m = [] \<and>
     c' = c\<lparr>ac_credential_migration := Some m\<rparr>"
  by (auto simp: begin_migration_def)

lemma record_copy_Ok:
  "record_copy l s c = Ok c' \<longleftrightarrow>
     (\<exists>m. ac_credential_migration c = Some m \<and> mg_phase m = PhaseCopying \<and>
        l \<in> set (mg_locators m) \<and> receipt_may_advance (receipt_state m l) s \<and>
        c' = c\<lparr>ac_credential_migration :=
                Some (m\<lparr>mg_receipts := put_receipt l s (mg_receipts m)\<rparr>)\<rparr>)"
  by (auto simp: record_copy_def split: option.splits)

lemma checkpoint_migration_Ok:
  "checkpoint_migration c = Ok c' \<longleftrightarrow>
     (\<exists>m. ac_credential_migration c = Some m \<and> mg_phase m = PhaseCopying \<and> all_copied m \<and>
        c' = c\<lparr>ac_connections :=
                 map (rebind_connection (sb_id (mg_source m)) (sb_id (mg_target m))) (ac_connections c),
               ac_secret_backends := sort_key backend_key
                 (filter (\<lambda>b. sb_id b \<noteq> sb_id (mg_source m) \<and> sb_id b \<noteq> sb_id (mg_target m))
                   (ac_secret_backends c) @ [mg_target m]),
               ac_credential_migration := Some (m\<lparr>mg_phase := PhaseCleanupPending\<rparr>)\<rparr>)"
  by (auto simp: checkpoint_migration_def Let_def split: option.splits)

lemma finish_migration_Ok:
  "finish_migration c = Ok c' \<longleftrightarrow>
     (\<exists>m. ac_credential_migration c = Some m \<and> mg_phase m = PhaseCleanupPending \<and>
        c' = c\<lparr>ac_credential_migration := None\<rparr>)"
  by (auto simp: finish_migration_def)

lemmas migration_change_Ok =
  begin_migration_Ok record_copy_Ok checkpoint_migration_Ok finish_migration_Ok

lemma apply_change_typed:
  assumes "apply_change ch c = Ok c'" and "config_typed c" and "change_typed ch"
  shows "config_typed c'"
proof (cases ch)
  case (PutConnectionWithSecretBackends x bs)
  then show ?thesis
    using assms fold_push_backend_set [of bs "ac_secret_backends c"]
    by (auto simp: config_typed_def put_connection_set list_all_iff)
next
  case CheckpointCredentialMigration
  then show ?thesis
    using assms
    by (auto simp: checkpoint_migration_Ok config_typed_def migration_typed_def
        intro!: rebind_connection_typed) (auto simp: backend_typed_def)
next
  case (RecordCredentialCopy l s)
  then show ?thesis
    using assms
    by (auto simp: record_copy_Ok config_typed_def migration_typed_def put_receipt_def)
qed (use assms in \<open>auto simp: config_typed_def migration_change_Ok push_backend_def
       put_connection_set default_app_config_def\<close>)

section \<open>Reading and writing\<close>

lemma validate_config_Ok: "validate_config L caps c = Ok () \<longleftrightarrow> config_ok caps c"
proof -
  have "validate_config L caps c = Ok () \<longleftrightarrow> (\<exists>u. app_config_validate L caps c = Ok u)"
    by (auto simp: validate_config_def split: sum.splits config_validation_error.splits)
  then show ?thesis by (simp add: app_config_validate_iff)
qed

lemma file_outcome_Ok [simp]: "file_outcome path fault = Ok () \<longleftrightarrow> fault = None"
  by (cases fault) (auto simp: file_outcome_def)

lemma file_outcome_None [simp]: "file_outcome path None = Ok ()"
  by (simp add: file_outcome_def)

lemma read_to_string_Ok:
  "read_to_string f path file = Ok content \<longleftrightarrow> ff_read f = None \<and> file = Some content"
  by (auto simp: read_to_string_def and_then_eq_Ok split: option.splits)

lemma read_config_Ok:
  "read_config L T f caps path file = Ok c \<longleftrightarrow>
     ff_read f = None \<and>
     (\<exists>content v w d. file = Some content \<and> toml_from_str T content = Ok v \<and> migrate T v = Ok w \<and>
        toml_try_into T w = Ok d \<and> app_config_try_from d = Ok c) \<and>
     config_ok caps c"
  by (auto simp: read_config_def and_then_eq_Ok read_to_string_Ok validate_config_Ok)

text \<open>Every successful read answers for the file, not for the call.\<close>

lemma read_config_depends_on_file:
  "read_config L T f caps path file = Ok c \<Longrightarrow> ff_read g = None \<Longrightarrow>
     read_config L T g caps path' file = Ok c"
  by (simp add: read_config_Ok)

lemma write_config_Ok:
  "write_config T f path c file = (Ok (), file') \<longleftrightarrow>
     (\<exists>text. toml_to_string T (config_dto_from c) = Ok text \<and> file' = Some text) \<and>
     ff_open f = None \<and> ff_write f = None \<and> ff_commit f = None"
  by (auto simp: write_config_def write_config_with_hook_def and_then_eq_Ok and_then_eq_Err
      split: sum.splits option.splits)

lemma write_config_Err:
  "write_config T f path c file = (Err e, file') \<Longrightarrow>
     file' = file \<or> (\<exists>text. toml_to_string T (config_dto_from c) = Ok text \<and> file' = Some text)"
  by (auto simp: write_config_def write_config_with_hook_def and_then_eq_Ok
      split: sum.splits option.splits if_splits)

text \<open>What is relied on of the \<^verbatim>\<open>toml\<close> crate: a serialised value parses back to itself.\<close>

definition toml_reads_back :: "('v, 'y) toml_scheme \<Rightarrow> config_dto \<Rightarrow> bool" where
  "toml_reads_back T d \<longleftrightarrow>
     (\<forall>text. toml_to_string T d = Ok text \<longrightarrow>
        (\<exists>v. toml_from_str T text = Ok v \<and>
           toml_get_integer T v ''schema_version'' = Some (uint (fd_schema_version d)) \<and>
           toml_try_into T v = Ok d))"

lemma u32_of_i64_eq: "u32_of_i64 i = Some w \<longleftrightarrow> i = uint w"
proof -
  have "0 \<le> uint w \<and> uint w < 2 ^ 32" using uint_lt2p [of w] by simp
  moreover have "uint (word_of_int i :: u32) = i" if "0 \<le> i" "i < 2 ^ 32"
    using that by (simp add: uint_word_of_int)
  ultimately show ?thesis
    by (auto simp: u32_of_i64_def)
qed

lemma schema_version_Ok:
  "schema_version T v = Ok w \<longleftrightarrow> toml_get_integer T v ''schema_version'' = Some (uint w)"
proof -
  have "schema_version T v = Ok w \<longleftrightarrow>
      Option.bind (toml_get_integer T v ''schema_version'') u32_of_i64 = Some w"
    by (auto simp: schema_version_def split: option.splits)
  then show ?thesis by (auto simp: bind_eq_Some_conv u32_of_i64_eq)
qed

lemma run_migrations_none:
  "run_migrations T v version target [] = Ok w \<longleftrightarrow> version = target \<and> w = v"
  by (auto simp: run_migrations_def)

lemma migrate_Ok: "migrate T v = Ok w \<longleftrightarrow> schema_version T v = Ok SCHEMA_VERSION \<and> w = v"
  by (auto simp: migrate_def and_then_eq_Ok MIGRATIONS_def run_migrations_none)

lemma read_back_written:
  assumes "toml_to_string T (config_dto_from c) = Ok text" and "toml_reads_back T (config_dto_from c)"
    and "config_typed c" and "config_ok caps c" and "ff_read f = None"
  shows "read_config L T f caps path (Some text) = Ok c"
proof -
  obtain v where "toml_from_str T text = Ok v"
      and "toml_get_integer T v ''schema_version'' = Some (uint SCHEMA_VERSION)"
      and "toml_try_into T v = Ok (config_dto_from c)"
    using assms(1,2) by (auto simp: toml_reads_back_def config_dto_from_def)
  then show ?thesis
    using assms by (simp add: read_config_Ok migrate_Ok schema_version_Ok config_dto_round_trip)
qed

section \<open>What the file's types are converted to\<close>

text \<open>A conversion goes through the checked constructors, so what is read from the file is typed.\<close>

lemma identifier_typed: "secret_backend_id_new v = Ok i \<Longrightarrow> secret_backend_id_new (backend_id_str i) = Ok i"
  by (auto simp: secret_backend_id_new_def and_then_eq_Ok)

lemma locator_new_typed: "secret_locator_new v = Ok l \<Longrightarrow> locator_typed l"
  by (auto simp: secret_locator_new_def locator_typed_def and_then_eq_Ok)

lemma from_config_parts_valid: "from_config_parts k a p e = Ok s \<Longrightarrow> settings_validate s = Ok ()"
  by (auto simp: from_config_parts_def and_then_eq_Ok)

lemma backend_try_typed: "secret_backend_try_from d = Ok b \<Longrightarrow> backend_typed b"
  by (auto simp: secret_backend_try_from_def backend_typed_def secret_backend_validate_def and_then_eq_Ok
      intro: identifier_typed from_config_parts_valid)

lemma binding_try_typed: "binding_try_from d = Ok r \<Longrightarrow> binding_typed r"
proof (cases d)
  case (SecretDto slot backend locator)
  assume "binding_try_from d = Ok r"
  then obtain i l where "secret_backend_id_new backend = Ok i" "secret_locator_new locator = Ok l"
      "r = \<lparr>cb_slot = slot, cb_binding = Secret \<lparr>ref_backend_id = i, ref_locator = l\<rparr>\<rparr>"
    by (auto simp: SecretDto and_then_eq_Ok)
  then show ?thesis using identifier_typed [of backend i] locator_new_typed [of locator l] by (simp add: binding_typed_def)
qed (auto simp: binding_typed_def)

lemma collected:
  assumes "collect_results f xs = Ok ys" and "\<And>x y. f x = Ok y \<Longrightarrow> P y" and "y \<in> set ys"
  shows "P y"
  using assms by (auto simp: collect_results_eq_Ok list_all2_conv_all_nth in_set_conv_nth)

lemma connection_try_typed: "connection_try_from d = Ok x \<Longrightarrow> connection_typed x"
  by (auto simp: connection_try_from_def connection_typed_def and_then_eq_Ok intro: collected binding_try_typed)

lemma receipt_try_typed: "receipt_try_from d = Ok r \<Longrightarrow> locator_typed (rc_locator r)"
  by (auto simp: receipt_try_from_def and_then_eq_Ok intro: locator_new_typed)

lemma migration_try_typed: "migration_try_from d = Ok m \<Longrightarrow> migration_typed m"
  by (auto simp: migration_try_from_def migration_typed_def and_then_eq_Ok
      intro: backend_try_typed collected [of secret_locator_new, OF _ locator_new_typed]
        collected [of receipt_try_from, where P = "\<lambda>r. locator_typed (rc_locator r)", OF _ receipt_try_typed])

lemma config_try_typed: "app_config_try_from d = Ok c \<Longrightarrow> config_typed c"
  by (auto simp: app_config_try_from_def config_typed_def and_then_eq_Ok map_ok_eq_Ok split: option.splits
      intro: migration_try_typed collected [of connection_try_from, OF _ connection_try_typed]
        collected [of secret_backend_try_from, OF _ backend_try_typed])

lemma read_config_typed: "read_config L T f caps path disk = Ok c \<Longrightarrow> config_typed c"
  by (auto simp: read_config_def and_then_eq_Ok map_err_eq_Ok intro: config_try_typed)

section \<open>Outcomes of an update\<close>

lemma prepare_update_Ok:
  "prepare_update L s expected change = Ok next \<longleftrightarrow>
     sn_revision (cs_state s) = expected \<and>
     apply_change change (sn_config (cs_state s)) = Ok (sn_config next) \<and>
     config_ok (cs_capabilities s) (sn_config next) \<and>
     uint (sn_revision (cs_state s)) + 1 < 2 ^ 64 \<and>
     sn_revision next = sn_revision (cs_state s) + 1"
  by (cases "next") (auto simp: prepare_update_def Let_def and_then_eq_Ok validate_config_Ok)

lemma prepare_update_stale:
  "sn_revision (cs_state s) \<noteq> expected \<Longrightarrow>
     prepare_update L s expected change = Err (ConfigConflict expected (sn_revision (cs_state s)))"
  by (simp add: prepare_update_def Let_def ensure_def)

lemma config_store_update_cases:
  assumes "config_store_update L T f expected change (s, file) = (r, s', file')"
  obtains (rejected) e where "prepare_update L s expected change = Err e" "r = Err e" "s' = s"
      "file' = file"
  | (written) "next" where "prepare_update L s expected change = Ok next"
      "write_config T f (cs_path s) (sn_config next) file = (Ok (), file')" "r = Ok next"
      "s' = s\<lparr>cs_state := next\<rparr>"
  | (failed) "next" e where "prepare_update L s expected change = Ok next"
      "write_config T f (cs_path s) (sn_config next) file = (Err e, file')" "r = Err e"
      "s' = adopt_observed (sn_revision next)
              (read_config L T f (cs_capabilities s) (cs_path s) file') s"
proof (cases "prepare_update L s expected change")
  case (Inl e)
  with assms have "r = Err e" "s' = s" "file' = file" by (auto simp: config_store_update_def)
  with Inl show ?thesis by (rule rejected)
next
  case (Inr a)
  obtain w where w: "write_config T f (cs_path s) (sn_config a) file = (w, file')"
    using assms Inr
    by (cases "write_config T f (cs_path s) (sn_config a) file")
      (auto simp: config_store_update_def split: sum.splits)
  show ?thesis
  proof (cases w)
    case (Inl e)
    with assms Inr w have "r = Err e"
      "s' = adopt_observed (sn_revision a) (read_config L T f (cs_capabilities s) (cs_path s) file') s"
      by (simp_all add: config_store_update_def)
    with Inr w Inl show ?thesis by (intro failed) simp_all
  next
    case (Inr u)
    with assms \<open>prepare_update L s expected change = Ok a\<close> w
    have "r = Ok a" "s' = s\<lparr>cs_state := a\<rparr>" by (simp_all add: config_store_update_def)
    with \<open>prepare_update L s expected change = Ok a\<close> w Inr show ?thesis by (intro written) simp_all
  qed
qed

lemma adopt_observed_simps [simp]:
  "adopt_observed revision (Err e) s = s"
  "cs_path (adopt_observed revision observed s) = cs_path s"
  "cs_capabilities (adopt_observed revision observed s) = cs_capabilities s"
  by (cases observed; simp add: adopt_observed_def)+

lemma adopt_observed_config [simp]:
  "sn_config (cs_state (adopt_observed revision (Ok c) s)) = c"
  by (simp add: adopt_observed_def)

lemma word_succ_le:
  fixes w :: u64
  assumes "uint w + 1 < 2 ^ 64"
  shows "uint (w + 1) = uint w + 1"
proof -
  have "uint (w + 1) = (uint w + 1) mod 2 ^ 64" by (simp add: uint_word_ariths)
  with assms show ?thesis by simp
qed

section \<open>Memory and file\<close>

definition in_sync :: "'z libs_scheme \<Rightarrow> ('v, 'y) toml_scheme \<Rightarrow> config_store \<Rightarrow> string option \<Rightarrow> bool" where
  "in_sync L T s file \<longleftrightarrow>
     (\<forall>f. ff_read f = None \<longrightarrow>
        read_config L T f (cs_capabilities s) (cs_path s) file = Ok (sn_config (cs_state s)))"

lemma update_keeps_sync:
  assumes step: "config_store_update L T f expected change (s, file) = (r, s', file')"
    and sync: "in_sync L T s file" and readable: "is_ok r \<or> ff_read f = None"
    and typed: "config_typed (sn_config (cs_state s))" "change_typed change"
    and toml: "\<And>c. apply_change change (sn_config (cs_state s)) = Ok c \<Longrightarrow>
      toml_reads_back T (config_dto_from c)"
  shows "in_sync L T s' file'"
  using step
proof (cases rule: config_store_update_cases)
  case (rejected e)
  with sync show ?thesis by simp
next
  case (written "next")
  from written(1) have change: "apply_change change (sn_config (cs_state s)) = Ok (sn_config next)"
    and ok: "config_ok (cs_capabilities s) (sn_config next)" by (auto simp: prepare_update_Ok)
  from change typed have "config_typed (sn_config next)" by (rule apply_change_typed)
  with written(2,4) ok toml [OF change] show ?thesis
    by (auto simp: in_sync_def write_config_Ok read_back_written)
next
  case (failed "next" e)
  then have readable: "ff_read f = None" using readable by simp
  from failed(1) have change: "apply_change change (sn_config (cs_state s)) = Ok (sn_config next)"
    and ok: "config_ok (cs_capabilities s) (sn_config next)" by (auto simp: prepare_update_Ok)
  from change typed have next_typed: "config_typed (sn_config next)" by (rule apply_change_typed)
  have "\<exists>c. read_config L T f (cs_capabilities s) (cs_path s) file' = Ok c"
    using write_config_Err [OF failed(2)]
  proof
    assume "file' = file"
    with sync readable show ?thesis by (auto simp: in_sync_def)
  next
    assume "\<exists>text. toml_to_string T (config_dto_from (sn_config next)) = Ok text \<and> file' = Some text"
    with next_typed ok toml [OF change] readable show ?thesis by (auto intro: read_back_written)
  qed
  then obtain c where c: "read_config L T f (cs_capabilities s) (cs_path s) file' = Ok c" ..
  with failed(4) have "sn_config (cs_state s') = c" by simp
  with failed(4) c show ?thesis
    by (auto simp: in_sync_def intro: read_config_depends_on_file)
qed

end
