(* ===== verification/Config_Protocol.thy ===== *)
theory Config_Protocol
  imports Config_Store_Laws
begin

text \<open>
  The credential migration as an abstract protocol, and the histories of one configuration service.

  The protocol forgets the configuration: it knows the manifest, and for each locator whether its
  copy has started or is done. Every change of the configuration is a step of the protocol or leaves
  it where it is.
\<close>

section \<open>The protocol\<close>

datatype protocol =
  Inactive
| CopyingSecrets "secret_locator set" "secret_locator \<Rightarrow> copy_state option"
| CleaningUp "secret_locator set"

inductive protocol_step :: "protocol \<Rightarrow> protocol \<Rightarrow> bool" where
  begin_copying: "protocol_step Inactive (CopyingSecrets ls Map.empty)"
| start_copy: "l \<in> ls \<Longrightarrow> p l = None \<Longrightarrow>
    protocol_step (CopyingSecrets ls p) (CopyingSecrets ls (p(l \<mapsto> Copying)))"
| finish_copy: "l \<in> ls \<Longrightarrow> p l = Some Copying \<Longrightarrow>
    protocol_step (CopyingSecrets ls p) (CopyingSecrets ls (p(l \<mapsto> Copied)))"
| checkpoint: "\<forall>l\<in>ls. p l = Some Copied \<Longrightarrow> protocol_step (CopyingSecrets ls p) (CleaningUp ls)"
| finish: "protocol_step (CleaningUp ls) Inactive"

inductive_simps protocol_step_to_cleanup: "protocol_step p (CleaningUp ls)"
inductive_cases protocol_step_copyingE: "protocol_step (CopyingSecrets ls p) (CopyingSecrets ls' p')"

definition protocol_of :: "migration_record option \<Rightarrow> protocol" where
  "protocol_of r =
     (case r of
        None \<Rightarrow> Inactive
      | Some m \<Rightarrow>
          (case mg_phase m of
             PhaseCopying \<Rightarrow> CopyingSecrets (set (mg_locators m)) (receipt_state m)
           | PhaseCleanupPending \<Rightarrow> CleaningUp (set (mg_locators m))))"

text \<open>The changes that drive the migration; each takes one step, and no other change but \<open>Reset\<close> touches it.\<close>

fun migration_change :: "config_change \<Rightarrow> bool" where
  "migration_change (BeginCredentialMigration _) = True"
| "migration_change (RecordCredentialCopy _ _) = True"
| "migration_change CheckpointCredentialMigration = True"
| "migration_change FinishCredentialMigration = True"
| "migration_change _ = False"

definition receipts_ok :: "app_config \<Rightarrow> bool" where
  "receipts_ok c \<longleftrightarrow>
     (\<forall>m. ac_credential_migration c = Some m \<longrightarrow> distinct (map rc_locator (mg_receipts m)))"

lemma config_ok_receipts: "config_ok caps c \<Longrightarrow> receipts_ok c"
  by (simp add: config_ok_def receipts_ok_def migration_ok_def)

lemma receipt_state_Some:
  assumes "distinct (map rc_locator (mg_receipts m))"
  shows "receipt_state m l = Some s \<longleftrightarrow>
    (\<exists>r\<in>set (mg_receipts m). rc_locator r = l \<and> rc_state r = s)"
proof
  assume "receipt_state m l = Some s"
  then show "\<exists>r\<in>set (mg_receipts m). rc_locator r = l \<and> rc_state r = s"
    by (auto simp: receipt_state_def dest: find_Some_iff')
next
  assume "\<exists>r\<in>set (mg_receipts m). rc_locator r = l \<and> rc_state r = s"
  with assms show "receipt_state m l = Some s"
    by (auto simp: receipt_state_def find_key)
qed

lemma all_copied_iff:
  assumes "distinct (map rc_locator (mg_receipts m))"
  shows "all_copied m \<longleftrightarrow> (\<forall>l\<in>set (mg_locators m). receipt_state m l = Some Copied)"
  by (auto simp: all_copied_def list_all_iff list_ex_iff receipt_state_Some [OF assms])

lemma put_receipt_set:
  "set (put_receipt l s rs) = insert \<lparr>rc_locator = l, rc_state = s\<rparr> {r \<in> set rs. rc_locator r \<noteq> l}"
  by (auto simp: put_receipt_def)

lemma distinct_sort_key_map [simp]: "distinct (map f (sort_key g xs)) = distinct (map f xs)"
  by (simp add: distinct_map)

lemma put_receipt_distinct:
  "distinct (map rc_locator rs) \<Longrightarrow> distinct (map rc_locator (put_receipt l s rs))"
  by (auto simp: put_receipt_def distinct_map inj_on_def)

lemma receipt_state_put:
  assumes "distinct (map rc_locator (mg_receipts m))"
  shows "receipt_state (m\<lparr>mg_receipts := put_receipt l s (mg_receipts m)\<rparr>) =
    (receipt_state m)(l \<mapsto> s)"
proof
  fix k
  let ?m = "m\<lparr>mg_receipts := put_receipt l s (mg_receipts m)\<rparr>"
  have d: "distinct (map rc_locator (mg_receipts ?m))"
    using assms by (simp add: put_receipt_distinct)
  have "receipt_state ?m k = Some t \<longleftrightarrow> ((receipt_state m)(l \<mapsto> s)) k = Some t" for t
    by (auto simp: receipt_state_Some [OF d] receipt_state_Some [OF assms] put_receipt_set)
  then show "receipt_state ?m k = ((receipt_state m)(l \<mapsto> s)) k"
    by (metis option.exhaust)
qed

lemma receipt_may_advance_iff:
  "receipt_may_advance p s \<longleftrightarrow> p = None \<and> s = Copying \<or> p = Some Copying \<and> s = Copied"
  by (cases p; cases s; cases "the p") auto

lemma change_follows_protocol:
  assumes "apply_change ch c = Ok c'" and ok: "receipts_ok c"
  shows "if migration_change ch
    then protocol_step (protocol_of (ac_credential_migration c)) (protocol_of (ac_credential_migration c'))
    else if ch = Reset then c' = default_app_config
    else ac_credential_migration c' = ac_credential_migration c"
proof (cases ch)
  case (BeginCredentialMigration m)
  then have "ac_credential_migration c = None" "mg_phase m = PhaseCopying" "mg_receipts m = []"
      "ac_credential_migration c' = Some m"
    using assms(1) by (auto simp: begin_migration_Ok)
  moreover from this have "receipt_state m = Map.empty" by (auto simp: receipt_state_def)
  ultimately show ?thesis by (simp add: BeginCredentialMigration protocol_of_def begin_copying)
next
  case (RecordCredentialCopy l s)
  then obtain m where m: "ac_credential_migration c = Some m" "mg_phase m = PhaseCopying"
      "l \<in> set (mg_locators m)" "receipt_may_advance (receipt_state m l) s"
      "c' = c\<lparr>ac_credential_migration := Some (m\<lparr>mg_receipts := put_receipt l s (mg_receipts m)\<rparr>)\<rparr>"
    using assms(1) by (auto simp: record_copy_Ok)
  from m(1) ok have "distinct (map rc_locator (mg_receipts m))" by (simp add: receipts_ok_def)
  with m show ?thesis
    by (auto simp: RecordCredentialCopy protocol_of_def receipt_state_put receipt_may_advance_iff
        intro: start_copy finish_copy)
next
  case CheckpointCredentialMigration
  then obtain m where m: "ac_credential_migration c = Some m" "mg_phase m = PhaseCopying"
      "all_copied m" "ac_credential_migration c' = Some (m\<lparr>mg_phase := PhaseCleanupPending\<rparr>)"
    using assms(1) by (auto simp: checkpoint_migration_Ok)
  with ok have "\<forall>l\<in>set (mg_locators m). receipt_state m l = Some Copied"
    by (simp add: receipts_ok_def all_copied_iff)
  with m show ?thesis by (simp add: CheckpointCredentialMigration protocol_of_def checkpoint)
next
  case FinishCredentialMigration
  then show ?thesis
    using assms(1) by (auto simp: finish_migration_Ok protocol_of_def intro: finish)
qed (use assms(1) in auto)

section \<open>The checkpoint\<close>

lemma rebind_simps [simp]:
  "cb_slot (rebind from to r) = cb_slot r"
  "conn_id (rebind_connection from to c) = conn_id c"
  "conn_provider_state (rebind_connection from to c) = conn_provider_state c"
  "conn_credentials (rebind_connection from to c) = map (rebind from to) (conn_credentials c)"
  by (auto simp: rebind_def rebind_connection_def split: credential_binding.splits)

lemma rebind_Secret:
  "cb_binding (rebind from to r) = Secret reference \<longleftrightarrow>
     (\<exists>old. cb_binding r = Secret old \<and>
        reference = (if ref_backend_id old = from then old\<lparr>ref_backend_id := to\<rparr> else old))"
  by (cases "cb_binding r") (auto simp: rebind_def)

lemma rebind_validate [simp]:
  "credential_binding_validate (cb_binding (rebind from to r)) =
     credential_binding_validate (cb_binding r)"
  by (cases "cb_binding r") (auto simp: rebind_def)

lemma rebind_connection_ok: "connection_ok c \<Longrightarrow> connection_ok (rebind_connection from to c)"
  by (simp add: connection_ok_def comp_def) (simp add: rebind_connection_def)

lemma backend_with_id_Some:
  assumes "distinct (map sb_id bs)"
  shows "backend_with_id bs i = Some b \<longleftrightarrow> b \<in> set bs \<and> sb_id b = i"
  using assms by (auto simp: backend_with_id_def find_key dest: find_Some_iff')

definition checkpoint_backends :: "migration_record \<Rightarrow> secret_backend list \<Rightarrow> secret_backend list" where
  "checkpoint_backends m bs = sort_key backend_key
     (filter (\<lambda>b. sb_id b \<noteq> sb_id (mg_source m) \<and> sb_id b \<noteq> sb_id (mg_target m)) bs @ [mg_target m])"

lemma checkpoint_backends_set:
  "set (checkpoint_backends m bs) =
     insert (mg_target m) {b \<in> set bs. sb_id b \<noteq> sb_id (mg_source m) \<and> sb_id b \<noteq> sb_id (mg_target m)}"
  by (auto simp: checkpoint_backends_def)

lemma checkpoint_backends_distinct:
  "distinct (map sb_id bs) \<Longrightarrow> distinct (map sb_id (checkpoint_backends m bs))"
  by (auto simp: checkpoint_backends_def distinct_map inj_on_def)

definition paths_of :: "secret_backend list \<Rightarrow> string list" where
  "paths_of bs = List.map_filter (\<lambda>b. local_file_path (sb_settings b)) bs"

lemma distinct_paths_of:
  assumes "distinct (map sb_id bs)"
  shows "distinct (paths_of bs) \<longleftrightarrow>
    (\<forall>a\<in>set bs. \<forall>b\<in>set bs. \<forall>p. sb_settings a = LocalFile p \<longrightarrow> sb_settings b = LocalFile p \<longrightarrow> a = b)"
proof -
  have "distinct bs" using assms by (simp add: distinct_map)
  then show ?thesis
    by (auto simp: paths_of_def map_filter_def distinct_map inj_on_def local_file_path_Some)
qed

lemma backend_with_id_checkpoint:
  assumes "distinct (map sb_id bs)"
  shows "backend_with_id (checkpoint_backends m bs) i =
    (if i = sb_id (mg_target m) then Some (mg_target m)
     else if i = sb_id (mg_source m) then None else backend_with_id bs i)"
proof -
  note d = checkpoint_backends_distinct [OF assms]
  have "backend_with_id (checkpoint_backends m bs) i = Some b \<longleftrightarrow>
      (if i = sb_id (mg_target m) then Some (mg_target m)
       else if i = sb_id (mg_source m) then None else backend_with_id bs i) = Some b" for b
    by (auto simp: backend_with_id_Some [OF d] backend_with_id_Some [OF assms]
        checkpoint_backends_set)
  then show ?thesis by (metis option.exhaust)
qed

lemma binding_ok_rebind:
  assumes "distinct (map sb_id bs)"
    and target: "\<And>x. x \<in> set bs \<Longrightarrow> sb_id x = sb_id (mg_target m) \<Longrightarrow> x = mg_target m"
    and old: "binding_ok caps bs (cb_binding b)"
    and accepted: "\<And>r v. cb_binding b = Secret r \<Longrightarrow> ref_backend_id r = sb_id (mg_source m) \<Longrightarrow>
      Option.bind (capability_of caps (secret_backend_kind (mg_target m))) cap_validate_locator = Some v \<Longrightarrow>
      v (ref_locator r) = Ok ()"
  shows "binding_ok caps (checkpoint_backends m bs)
    (cb_binding (rebind (sb_id (mg_source m)) (sb_id (mg_target m)) b))"
  unfolding binding_ok_def rebind_Secret
proof (intro allI impI)
  fix r
  assume "\<exists>old. cb_binding b = Secret old \<and>
      r = (if ref_backend_id old = sb_id (mg_source m)
           then old\<lparr>ref_backend_id := sb_id (mg_target m)\<rparr> else old)"
  then obtain s where s: "cb_binding b = Secret s"
      "r = (if ref_backend_id s = sb_id (mg_source m)
            then s\<lparr>ref_backend_id := sb_id (mg_target m)\<rparr> else s)" by blast
  have known: "ref_backend_id s \<in> sb_id ` set bs"
      "\<And>v. locator_validator caps bs (ref_backend_id s) = Some v \<Longrightarrow> v (ref_locator s) = Ok ()"
    using old s(1) by (auto simp: binding_ok_def)
  show "ref_backend_id r \<in> sb_id ` set (checkpoint_backends m bs) \<and>
      (\<forall>v. locator_validator caps (checkpoint_backends m bs) (ref_backend_id r) = Some v \<longrightarrow>
         v (ref_locator r) = Ok ())"
  proof (cases "ref_backend_id s = sb_id (mg_source m)")
    case True
    then have "ref_backend_id r = sb_id (mg_target m)" "ref_locator r = ref_locator s"
      using s(2) by auto
    with accepted [OF s(1) True] show ?thesis
      by (simp add: locator_validator_def backend_with_id_checkpoint [OF assms(1)]
          checkpoint_backends_set)
  next
    case False
    then have [simp]: "r = s" using s(2) by simp
    from known(1) obtain x where x: "x \<in> set bs" "sb_id x = ref_backend_id s" by auto
    then have "backend_with_id bs (ref_backend_id s) = Some x"
      by (simp add: backend_with_id_Some [OF assms(1)])
    then have "backend_with_id (checkpoint_backends m bs) (ref_backend_id s) = Some x"
      using False target [OF x(1)] x(2) by (auto simp: backend_with_id_checkpoint [OF assms(1)])
    moreover from this have "ref_backend_id s \<in> sb_id ` set (checkpoint_backends m bs)"
      by (auto simp: backend_with_id_def dest!: find_Some_iff' intro: rev_image_eqI)
    ultimately show ?thesis
      using \<open>backend_with_id bs (ref_backend_id s) = Some x\<close> known(2)
      by (simp add: locator_validator_def)
  qed
qed

lemma migration_ok_checkpoint:
  "migration_ok bs m \<Longrightarrow> all_copied m \<Longrightarrow>
     migration_ok (checkpoint_backends m bs) (m\<lparr>mg_phase := PhaseCleanupPending\<rparr>)"
  by (auto simp: migration_ok_def checkpoint_backends_set all_copied_def)

lemma checkpoint_paths:
  assumes "distinct (map sb_id bs)" and "distinct (paths_of bs)"
    and "sb_settings (mg_target m) = LocalOs"
  shows "distinct (paths_of (checkpoint_backends m bs))"
proof -
  have "sb_settings a = LocalFile p \<Longrightarrow> sb_settings b = LocalFile p \<Longrightarrow> a = b"
    if "a \<in> set bs" "b \<in> set bs" for a b p
    using assms that by (auto simp: distinct_paths_of)
  then show ?thesis
    using assms
    by (auto simp: distinct_paths_of checkpoint_backends_distinct checkpoint_backends_set)
qed

lemma checkpoint_config_ok:
  assumes ok: "config_ok caps c" and step: "checkpoint_migration c = Ok c'"
    and m: "ac_credential_migration c = Some m"
    and target: "backend_ok caps (mg_target m)"
    and accepted: "\<And>x b r v. x \<in> set (ac_connections c) \<Longrightarrow> b \<in> set (conn_credentials x) \<Longrightarrow>
      cb_binding b = Secret r \<Longrightarrow> ref_backend_id r = sb_id (mg_source m) \<Longrightarrow>
      Option.bind (capability_of caps (secret_backend_kind (mg_target m))) cap_validate_locator = Some v \<Longrightarrow>
      v (ref_locator r) = Ok ()"
  shows "config_ok caps c'"
proof -
  let ?bs = "ac_secret_backends c" and ?bs' = "checkpoint_backends m (ac_secret_backends c)"
  have c': "ac_secret_backends c' = ?bs'"
      "ac_connections c' =
        map (rebind_connection (sb_id (mg_source m)) (sb_id (mg_target m))) (ac_connections c)"
      "ac_credential_migration c' = Some (m\<lparr>mg_phase := PhaseCleanupPending\<rparr>)" "ac_ui c' = ac_ui c"
      "mg_phase m = PhaseCopying" "all_copied m"
    using step m by (auto simp: checkpoint_migration_Ok checkpoint_backends_def)
  have d: "distinct (map sb_id ?bs)" and mok: "migration_ok ?bs m"
    and paths: "distinct (paths_of ?bs)"
    using ok m by (auto simp: config_ok_def paths_of_def)
  have binding: "binding_ok caps ?bs'
      (cb_binding (rebind (sb_id (mg_source m)) (sb_id (mg_target m)) b))"
    if "x \<in> set (ac_connections c)" "b \<in> set (conn_credentials x)" for x b
    using that ok mok by (intro binding_ok_rebind d accepted) (auto simp: config_ok_def migration_ok_def)
  have "distinct (paths_of ?bs')"
    using checkpoint_paths [OF d paths] mok by (simp add: migration_ok_def)
  moreover have "migration_ok ?bs' (m\<lparr>mg_phase := PhaseCleanupPending\<rparr>)"
    using mok c'(6) by (rule migration_ok_checkpoint)
  moreover have "\<forall>b\<in>set ?bs'. backend_ok caps b"
    using ok target by (auto simp: checkpoint_backends_set config_ok_def)
  moreover have "\<forall>x\<in>set (ac_connections c'). connection_ok x \<and>
      (\<forall>b\<in>set (conn_credentials x). binding_ok caps ?bs' (cb_binding b))"
    using ok binding by (auto simp: c' config_ok_def intro: rebind_connection_ok)
  moreover have "map conn_id (ac_connections c') = map conn_id (ac_connections c)"
      "map conn_provider_state (ac_connections c') = map conn_provider_state (ac_connections c)"
    by (simp_all add: c')
  ultimately show ?thesis
    using ok checkpoint_backends_distinct [OF d, of m]
    by (simp add: config_ok_def c'(1,3,4) paths_of_def)
qed

section \<open>Histories of one service\<close>

text \<open>
  A service is opened, updated with any faults of the file system, and other processes may write
  the file at any time.
\<close>

inductive config_run ::
    "'z libs_scheme \<Rightarrow> ('v, 'y) toml_scheme \<Rightarrow> config_store \<Rightarrow> string option \<Rightarrow> bool"
  for L :: "'z libs_scheme" and T :: "('v, 'y) toml_scheme" where
  opened: "config_store_open L T df f paths caps file = (Ok s, file') \<Longrightarrow> config_run L T s file'"
| updated: "config_run L T s file \<Longrightarrow>
    config_store_update L T f expected change (s, file) = (r, s', file') \<Longrightarrow> config_run L T s' file'"
| edited: "config_run L T s file \<Longrightarrow> config_run L T s file'"

lemma config_store_open_Ok:
  assumes "config_store_open L T df f paths caps file = (Ok s, file')"
  shows "cs_capabilities s = caps"
    and "sn_revision (cs_state s) = initial_revision"
    and "file = None \<and> sn_config (cs_state s) = default_app_config \<or>
      read_config L T f caps (cs_path s) file = Ok (sn_config (cs_state s)) \<and> file' = file"
  using assms
  by (auto simp: config_store_open_def Let_def map_ok_eq_Ok split: sum.splits option.splits prod.splits)

lemma config_run_valid:
  "config_run L T s file \<Longrightarrow> config_ok (cs_capabilities s) (sn_config (cs_state s))"
proof (induction rule: config_run.induct)
  case (opened df f paths caps old s new)
  from config_store_open_Ok [OF this] show ?case
    by (auto simp: default_config_ok read_config_Ok)
next
  case (updated s old f expected change r s' new)
  from updated.hyps(2) show ?case
  proof (cases rule: config_store_update_cases)
    case (rejected e)
    with updated.IH show ?thesis by simp
  next
    case (written "next")
    then show ?thesis by (simp add: prepare_update_Ok)
  next
    case (failed "next" e)
    then show ?thesis
      using updated.IH
      by (cases "read_config L T f (cs_capabilities s) (cs_path s) new")
        (auto simp: adopt_observed_def read_config_Ok)
  qed
qed

lemma update_revision_mono:
  assumes "config_store_update L T f expected change (s, file) = (r, s', file')"
  shows "uint (sn_revision (cs_state s)) \<le> uint (sn_revision (cs_state s'))"
  using assms
proof (cases rule: config_store_update_cases)
  case (failed "next" e)
  then have "uint (sn_revision next) = uint (sn_revision (cs_state s)) + 1"
    by (auto simp: prepare_update_Ok intro: word_succ_le)
  with failed show ?thesis
    by (cases "read_config L T f (cs_capabilities s) (cs_path s) file'")
      (simp_all add: adopt_observed_def)
qed (auto simp: prepare_update_Ok word_succ_le)

lemma update_Ok:
  assumes "config_store_update L T f expected change (s, file) = (Ok snap, s', file')"
  shows "sn_revision (cs_state s) = expected" and "cs_state s' = snap"
    and "apply_change change (sn_config (cs_state s)) = Ok (sn_config snap)"
    and "uint (sn_revision snap) = uint expected + 1"
  using assms
  by (cases rule: config_store_update_cases; auto simp: prepare_update_Ok word_succ_le)+

text \<open>
  A service that alone writes its file: opened, then updated with any faults of the file system, except
  that the file can be read again after a write that failed.
\<close>

inductive config_service ::
    "'z libs_scheme \<Rightarrow> ('v, 'y) toml_scheme \<Rightarrow> config_store \<Rightarrow> string option \<Rightarrow> bool"
  for L :: "'z libs_scheme" and T :: "('v, 'y) toml_scheme" where
  service_opened: "config_store_open L T df f paths caps file = (Ok s, file') \<Longrightarrow> config_service L T s file'"
| service_updated: "config_service L T s file \<Longrightarrow> change_typed change \<Longrightarrow>
    config_store_update L T f expected change (s, file) = (r, s', file') \<Longrightarrow> is_ok r \<or> ff_read f = None \<Longrightarrow>
    config_service L T s' file'"

lemma opened_in_sync:
  assumes "config_store_open L T df f paths caps disk = (Ok s, disk')" and "\<And>d. toml_reads_back T d"
  shows "in_sync L T s disk' \<and> config_typed (sn_config (cs_state s))"
proof (cases disk)
  case None
  let ?path = "path_join (pt_config_root paths) CONFIG_FILE"
  have typed: "config_typed default_app_config" by (simp add: config_typed_def default_app_config_def)
  have "sn_config (cs_state s) = default_app_config" "write_config T f ?path default_app_config None = (Ok (), disk')"
    using assms(1) None
    by (auto simp: config_store_open_def Let_def map_ok_eq_Ok split: sum.splits prod.splits)
  with typed assms(2) show ?thesis
    by (auto simp: in_sync_def write_config_Ok intro: read_back_written default_config_ok)
next
  case (Some content)
  then have "read_config L T f caps (cs_path s) disk = Ok (sn_config (cs_state s))" "disk' = disk" "cs_capabilities s = caps"
    using config_store_open_Ok [OF assms(1)] by auto
  then show ?thesis
    using read_config_typed by (auto simp: in_sync_def intro: read_config_depends_on_file)
qed

lemma updated_typed:
  assumes "config_store_update L T f expected change (s, file) = (r, s', file')"
    and "config_typed (sn_config (cs_state s))" and "change_typed change"
  shows "config_typed (sn_config (cs_state s'))"
  using assms(1)
proof (cases rule: config_store_update_cases)
  case (written "next")
  then have "apply_change change (sn_config (cs_state s)) = Ok (sn_config next)" by (simp add: prepare_update_Ok)
  with written(4) assms(2,3) show ?thesis by (auto intro: apply_change_typed)
next
  case (failed "next" e)
  then show ?thesis
    using assms(2) by (auto simp: adopt_observed_def split: sum.split intro: read_config_typed)
qed (simp add: assms(2))

lemma service_in_sync:
  assumes "config_service L T s file" and "\<And>d. toml_reads_back T d"
  shows "in_sync L T s file \<and> config_typed (sn_config (cs_state s))"
  using assms(1)
proof (induction rule: config_service.induct)
  case (service_updated s disk change f expected r s' disk')
  then show ?case
    using update_keeps_sync [OF service_updated.hyps(3)] updated_typed [OF service_updated.hyps(3)] assms(2) by blast
qed (rule opened_in_sync [OF _ assms(2)])

text \<open>When the file cannot be read again after a commit that failed late, memory keeps the old configuration.\<close>

lemma unread_commit:
  assumes "prepare_update L s expected change = Ok next" and "toml_to_string T (config_dto_from (sn_config next)) = Ok text"
  shows "config_store_update L T \<lparr>ff_read = Some e, ff_open = None, ff_write = None, ff_commit = Some (e', True)\<rparr>
      expected change (s, file) = (Err (ConfigIo (cs_path s) e'), s, Some text)"
  using assms
  by (simp add: config_store_update_def write_config_def write_config_with_hook_def file_outcome_def
      read_config_def read_to_string_def adopt_observed_def)

section \<open>Schema migrations\<close>

lemma migrate_steps_version:
  assumes "migrate_steps T target ms v version = Ok (w, reached)"
    and "schema_version T v = Ok version"
  shows "schema_version T w = Ok reached"
  using assms
  by (induction T target ms v version rule: migrate_steps.induct)
    (auto simp: and_then_eq_Ok split: if_splits)

end
