(* ===== verification/Config_Properties.thy ===== *)
theory Config_Properties
  imports Config_Protocol
begin

text \<open>
  The properties of the configuration, each with a witness on a sample configuration: one
  connection whose secret lives in a local-file backend that is being migrated to the operating
  system's store.
\<close>

section \<open>Samples\<close>

definition sample_caps :: "backend_capability list" where
  "sample_caps = [capability_available ''local-os'', capability_available ''local-file'']"

definition file_backend :: secret_backend where
  "file_backend = \<lparr>sb_id = SecretBackendId ''file'', sb_settings = LocalFile ''/data/s''\<rparr>"

definition os_backend :: secret_backend where
  "os_backend = \<lparr>sb_id = SecretBackendId ''os'', sb_settings = LocalOs\<rparr>"

definition sample_connection :: connection where
  "sample_connection =
     \<lparr>conn_id = Id 1, conn_name = ''a'', conn_harness = ''codex'', conn_model_provider = ''p'',
      conn_provider_state = ProviderStateRootId ''r'',
      conn_credentials = [\<lparr>cb_slot = CredentialSlot ''key'',
        cb_binding = Secret \<lparr>ref_backend_id = SecretBackendId ''file'', ref_locator = SecretLocator ''t''\<rparr>\<rparr>]\<rparr>"

definition sample_record :: migration_record where
  "sample_record =
     \<lparr>mg_source = file_backend, mg_target = os_backend, mg_phase = PhaseCopying,
      mg_locators = [SecretLocator ''t''],
      mg_receipts = [\<lparr>rc_locator = SecretLocator ''t'', rc_state = Copied\<rparr>]\<rparr>"

definition sample_config :: app_config where
  "sample_config =
     \<lparr>ac_connections = [sample_connection], ac_secret_backends = [file_backend],
      ac_credential_migration = Some sample_record, ac_ui = \<lparr>ui_theme = ''d''\<rparr>\<rparr>"

definition sample_id_libs :: libs where
  "sample_id_libs =
     \<lparr>lib_version_num = (\<lambda>_. 7), lib_is_rfc4122 = (\<lambda>_. True),
      lib_parse_uuid = (\<lambda>s. Ok (of_nat (length s))), lib_uuid_text = (\<lambda>_. ''id'')\<rparr>"

text \<open>A toy file format: every text is the value whose conversion is the given record.\<close>

definition sample_toml :: "config_dto \<Rightarrow> unit toml" where
  "sample_toml d =
     \<lparr>toml_from_str = (\<lambda>_. Ok ()), toml_get_integer = (\<lambda>_ _. Some 1), toml_try_into = (\<lambda>_. Ok d),
      toml_to_string = (\<lambda>_. Ok ''toml'')\<rparr>"

definition no_faults :: file_faults where
  "no_faults = \<lparr>ff_read = None, ff_open = None, ff_write = None, ff_commit = None\<rparr>"

definition sample_store :: "app_config \<Rightarrow> config_store" where
  "sample_store c =
     \<lparr>cs_path = ''/c'', cs_capabilities = sample_caps,
      cs_state = \<lparr>sn_revision = 0, sn_config = c\<rparr>\<rparr>"

lemmas sample_config_defs = sample_config_def sample_record_def sample_connection_def
  file_backend_def os_backend_def

lemma sample_config_ok: "config_ok sample_caps sample_config"
  by (simp add: config_ok_def sample_config_defs backend_ok_def secret_backend_validate_def
      require_nonempty_def text_eval path_is_absolute_def starts_with_def sample_caps_def
      capability_of_def secret_backend_kind_def capability_available_def connection_ok_def
      binding_ok_def locator_validator_def backend_with_id_def migration_ok_def
      map_filter_simps)

lemma os_backend_ok:
  "backend_ok sample_caps os_backend"
  "Option.bind (capability_of sample_caps (secret_backend_kind os_backend)) cap_validate_locator = None"
  by (simp_all add: backend_ok_def os_backend_def secret_backend_validate_def sample_caps_def
      capability_of_def secret_backend_kind_def capability_available_def)

lemma sample_migration:
  "ac_credential_migration sample_config = Some sample_record"
  "mg_source sample_record = file_backend" "mg_target sample_record = os_backend"
  by (simp_all add: sample_config_def sample_record_def)

lemma sample_config_typed: "config_typed sample_config"
  by (simp add: config_typed_def sample_config_defs connection_typed_def binding_typed_def
      backend_typed_def locator_typed_def migration_typed_def secret_backend_id_new_def
      require_identifier_def require_nonempty_def text_eval identifier_char_def
      secret_locator_new_def secret_backend_validate_def)

section \<open>Validation\<close>

text \<open>
  C10: The validator accepts exactly the consistent configurations: identifiers, state roots and
  local-file paths are unique, every backend is available, every credential refers to a configured
  backend that accepts its locator, and a pending migration fits the backends.
\<close>
theorem validator_accepts_exactly_the_consistent_configurations:
  "app_config_validate L caps c = Ok () \<longleftrightarrow> config_ok caps c"
  by (rule app_config_validate_iff)

text \<open>
  C11: Whatever the file system does and whatever other processes write into the file, the
  configuration a service holds in memory is consistent.
\<close>
theorem configuration_in_memory_is_always_consistent:
  "config_run L T s file \<Longrightarrow> app_config_validate L (cs_capabilities s) (sn_config (cs_state s)) = Ok ()"
  by (simp add: app_config_validate_iff config_run_valid)

lemma sample_open:
  "config_store_open sample_id_libs (sample_toml d) \<lparr>df_create = None, df_permissions = None\<rparr>
     no_faults (for_test ''/r'') sample_caps None =
   (Ok \<lparr>cs_path = ''/r/config/config.toml'', cs_capabilities = sample_caps,
        cs_state = \<lparr>sn_revision = 0, sn_config = default_app_config\<rparr>\<rparr>, Some ''toml'')"
  by (simp add: config_store_open_def create_config_root_def create_private_directory_def
      io_outcome_def for_test_def path_join_def path_is_absolute_def starts_with_def
      CONFIG_FILE_def write_config_def write_config_with_hook_def sample_toml_def no_faults_def
      initial_revision_def)

lemma configuration_in_memory_is_always_consistent_witness:
  "app_config_validate sample_id_libs sample_caps default_app_config = Ok ()"
  using configuration_in_memory_is_always_consistent
    [OF config_run.opened [OF sample_open [of "config_dto_from sample_config"]]]
  by simp

section \<open>The file\<close>

text \<open>
  C14: A configuration written to the file's transfer types is read back as it was, whatever
  connections, backends, credentials and migration it holds.
\<close>
theorem stored_configuration_round_trip:
  "config_typed c \<Longrightarrow> app_config_try_from (config_dto_from c) = Ok c"
  by (rule config_dto_round_trip)

lemma stored_configuration_round_trip_witness:
  "app_config_try_from (config_dto_from sample_config) = Ok sample_config"
  by (rule stored_configuration_round_trip [OF sample_config_typed])

text \<open>A file format that can write the configurations of a table and reads their texts back.\<close>

definition table_toml :: "(string \<times> config_dto) list \<Rightarrow> config_dto toml" where
  "table_toml rows =
     \<lparr>toml_from_str = (\<lambda>t. case map_of rows t of Some d \<Rightarrow> Ok d | None \<Rightarrow> Err ''''),
      toml_get_integer = (\<lambda>d _. Some (uint (fd_schema_version d))), toml_try_into = Ok,
      toml_to_string = (\<lambda>d. case List.find (\<lambda>r. snd r = d) rows of Some r \<Rightarrow> Ok (fst r) | None \<Rightarrow> Err '''')\<rparr>"

lemma table_toml_reads_back:
  assumes "distinct (map fst rows)"
  shows "toml_reads_back (table_toml rows) d"
  unfolding toml_reads_back_def
proof (intro allI impI)
  fix t
  assume "toml_to_string (table_toml rows) d = Ok t"
  then have "(t, d) \<in> set rows"
    by (auto simp: table_toml_def split: option.splits dest: find_Some_iff')
  then have "map_of rows t = Some d" using assms by simp
  then show "\<exists>v. toml_from_str (table_toml rows) t = Ok v \<and>
      toml_get_integer (table_toml rows) v ''schema_version'' = Some (uint (fd_schema_version d)) \<and>
      toml_try_into (table_toml rows) v = Ok d"
    by (simp add: table_toml_def)
qed

text \<open>
  C12: Memory and file stay together in every service that alone writes its file: once opened and after
  any updates, be they accepted, refused, failed before the commit or failed in it with the new file
  already in place, reading the file gives the configuration the service holds. What is required is that
  after a write that failed the file can be read again; if that read fails as well, the service keeps the
  old configuration although the new one may be in the file (\<open>unread_commit\<close>).
\<close>
theorem memory_and_file_stay_together:
  assumes "config_service L T s file" and "\<And>d. toml_reads_back T d" and "ff_read f = None"
  shows "read_config L T f (cs_capabilities s) (cs_path s) file = Ok (sn_config (cs_state s))"
  using service_in_sync [OF assms(1,2)] assms(3) by (simp add: in_sync_def)

definition themed_config :: app_config where
  "themed_config = default_app_config\<lparr>ac_ui := \<lparr>ui_theme = ''x''\<rparr>\<rparr>"

definition themed_toml :: "config_dto toml" where
  "themed_toml = table_toml [(''a'', config_dto_from default_app_config), (''b'', config_dto_from themed_config)]"

lemma memory_and_file_stay_together_witness:
  "\<exists>s s'. config_store_update sample_id_libs themed_toml (no_faults\<lparr>ff_commit := Some (''disk'', True)\<rparr>) 0
      (SetUiTheme ''x'') (s, Some ''a'') = (Err (ConfigIo ''/r/config/config.toml'' ''disk''), s', Some ''b'') \<and>
    read_config sample_id_libs themed_toml no_faults (cs_capabilities s') (cs_path s') (Some ''b'') =
      Ok (sn_config (cs_state s'))"
proof -
  let ?T = themed_toml and ?f = "no_faults\<lparr>ff_commit := Some (''disk'', True)\<rparr>"
  let ?s = "\<lparr>cs_path = ''/r/config/config.toml'', cs_capabilities = sample_caps,
    cs_state = \<lparr>sn_revision = 0, sn_config = default_app_config\<rparr>\<rparr>"
  have differ: "config_dto_from themed_config \<noteq> config_dto_from default_app_config"
    by (simp add: themed_config_def config_dto_from_def default_app_config_def default_ui_config_def)
  have ok: "config_ok sample_caps themed_config" and change: "apply_change (SetUiTheme ''x'') default_app_config = Ok themed_config"
    using default_config_ok [of sample_caps]
    by (simp_all add: themed_config_def default_app_config_def config_ok_def text_eval)
  have "config_store_open sample_id_libs ?T \<lparr>df_create = None, df_permissions = None\<rparr> no_faults
      (for_test ''/r'') sample_caps None = (Ok ?s, Some ''a'')"
    by (simp add: config_store_open_def create_config_root_def create_private_directory_def
        io_outcome_def for_test_def path_join_def path_is_absolute_def starts_with_def
        CONFIG_FILE_def write_config_def write_config_with_hook_def themed_toml_def table_toml_def no_faults_def
        file_outcome_def initial_revision_def)
  then have opened: "config_service sample_id_libs ?T ?s (Some ''a'')" by (rule service_opened)
  have "prepare_update sample_id_libs ?s 0 (SetUiTheme ''x'') = Ok \<lparr>sn_revision = 1, sn_config = themed_config\<rparr>"
    using ok change by (simp add: prepare_update_Ok)
  moreover have "write_config ?T ?f (cs_path ?s) themed_config (Some ''a'') =
      (Err (ConfigIo ''/r/config/config.toml'' ''disk''), Some ''b'')"
    using differ
    by (simp add: write_config_def write_config_with_hook_def themed_toml_def table_toml_def no_faults_def file_outcome_def)
  ultimately obtain s' where step: "config_store_update sample_id_libs ?T ?f 0 (SetUiTheme ''x'') (?s, Some ''a'') =
      (Err (ConfigIo ''/r/config/config.toml'' ''disk''), s', Some ''b'')"
    by (simp add: config_store_update_def)
  have "config_service sample_id_libs ?T s' (Some ''b'')"
    by (rule service_updated [OF opened _ step]) (simp_all add: no_faults_def)
  then have "read_config sample_id_libs ?T no_faults (cs_capabilities s') (cs_path s') (Some ''b'') = Ok (sn_config (cs_state s'))"
    by (rule memory_and_file_stay_together) (simp_all add: themed_toml_def table_toml_reads_back no_faults_def)
  with step show ?thesis by blast
qed

text \<open>
  Optimistic concurrency: an update succeeds only against the current revision, raises it by
  exactly one without wrapping, and every later update that still expects the old revision
  conflicts and changes nothing.
\<close>
theorem successful_update_excludes_stale_ones:
  assumes "config_store_update L T f expected change (s, file) = (Ok snap, s', file')"
  shows "expected = sn_revision (cs_state s) \<and> config_store_snapshot s' = snap \<and>
    uint (sn_revision snap) = uint expected + 1 \<and>
    config_store_update L T f2 expected change2 (s', file') =
      (Err (ConfigConflict expected (sn_revision snap)), s', file')"
proof -
  have "sn_revision (cs_state s') \<noteq> expected"
    using update_Ok [OF assms] by auto
  then show ?thesis
    using update_Ok [OF assms]
    by (simp add: config_store_update_def prepare_update_stale config_store_snapshot_def)
qed

lemma sample_set_theme:
  "config_store_update sample_id_libs (sample_toml d) no_faults 0 (SetUiTheme ''x'')
     (sample_store default_app_config, None) =
   (Ok \<lparr>sn_revision = 1, sn_config = default_app_config\<lparr>ac_ui := \<lparr>ui_theme = ''x''\<rparr>\<rparr>\<rparr>,
    (sample_store default_app_config)\<lparr>cs_state :=
      \<lparr>sn_revision = 1, sn_config = default_app_config\<lparr>ac_ui := \<lparr>ui_theme = ''x''\<rparr>\<rparr>\<rparr>\<rparr>, Some ''toml'')"
proof -
  have "prepare_update sample_id_libs (sample_store default_app_config) 0 (SetUiTheme ''x'') =
      Ok \<lparr>sn_revision = 1, sn_config = default_app_config\<lparr>ac_ui := \<lparr>ui_theme = ''x''\<rparr>\<rparr>\<rparr>"
    by (simp add: prepare_update_Ok sample_store_def config_ok_def default_app_config_def
        default_ui_config_def text_eval map_filter_simps)
  then show ?thesis
    by (simp add: config_store_update_def write_config_def write_config_with_hook_def
        sample_toml_def no_faults_def)
qed

lemma successful_update_excludes_stale_ones_witness:
  "fst (config_store_update sample_id_libs (sample_toml (config_dto_from default_app_config)) no_faults 0 Reset
     ((sample_store default_app_config)\<lparr>cs_state :=
        \<lparr>sn_revision = 1, sn_config = default_app_config\<lparr>ac_ui := \<lparr>ui_theme = ''x''\<rparr>\<rparr>\<rparr>\<rparr>, Some ''toml'')) =
   Err (ConfigConflict 0 1)"
  using successful_update_excludes_stale_ones [OF sample_set_theme [of "config_dto_from default_app_config"], where ?f2.0 = no_faults and ?change2.0 = Reset] by simp

text \<open>
  A chain of schema migrations of the file that reports success has reached its target
  version, whatever versions the single migrations start from and produce.
\<close>
theorem migrated_file_has_the_target_schema:
  assumes "schema_version T v = Ok version" and "run_migrations T v version target ms = Ok w"
  shows "schema_version T w = Ok target"
proof -
  from assms(2) obtain reached where "migrate_steps T target ms v version = Ok (w, reached)"
      and "reached = target"
    by (auto simp: run_migrations_def and_then_eq_Ok split: if_splits)
  with assms(1) show ?thesis by (auto dest: migrate_steps_version)
qed

definition counting_toml :: "int toml" where
  "counting_toml =
     \<lparr>toml_from_str = (\<lambda>_. Ok 0), toml_get_integer = (\<lambda>v _. Some v), toml_try_into = (\<lambda>_. Err ''''),
      toml_to_string = (\<lambda>_. Err '''')\<rparr>"

lemma migrated_file_has_the_target_schema_witness:
  "schema_version counting_toml 3 = Ok 3"
  by (rule migrated_file_has_the_target_schema
      [of counting_toml 1 1 3 "[\<lparr>fm_from = 1, fm_apply = \<lambda>v. Ok (v + 1)\<rparr>, \<lparr>fm_from = 2, fm_apply = \<lambda>v. Ok (v + 1)\<rparr>]"])
    (simp_all add: schema_version_def counting_toml_def u32_of_i64_def run_migrations_def)

section \<open>The credential migration\<close>

text \<open>
  C13: In the history of a service every accepted change that concerns the migration takes exactly one
  step of the migration protocol: a migration begins only when none is active, a copy starts before it is
  done, clean-up begins only when every locator of the manifest is copied, and a migration is finished
  only from clean-up. \<open>Reset\<close> gives the default configuration, and every other change leaves the
  migration as it is.
\<close>
theorem accepted_changes_follow_the_migration_protocol:
  assumes "config_run L T s file"
    and "config_store_update L T f expected change (s, file) = (Ok snap, s', file')"
  shows "if migration_change change
    then protocol_step (protocol_of (ac_credential_migration (sn_config (cs_state s))))
      (protocol_of (ac_credential_migration (sn_config snap)))
    else if change = Reset then sn_config snap = default_app_config
    else ac_credential_migration (sn_config snap) = ac_credential_migration (sn_config (cs_state s))"
proof (rule change_follows_protocol)
  show "apply_change change (sn_config (cs_state s)) = Ok (sn_config snap)"
    using update_Ok [OF assms(2)] by simp
  show "receipts_ok (sn_config (cs_state s))"
    using config_run_valid [OF assms(1)] by (rule config_ok_receipts)
qed

lemma sample_read:
  "read_config sample_id_libs (sample_toml (config_dto_from sample_config)) no_faults sample_caps
     path (Some content) = Ok sample_config"
  using sample_config_ok sample_config_typed
  by (simp add: read_config_Ok migrate_Ok schema_version_Ok config_dto_round_trip sample_toml_def
      SCHEMA_VERSION_def no_faults_def)

lemma sample_checkpoint:
  obtains c where "apply_change CheckpointCredentialMigration sample_config = Ok c"
    and "ac_credential_migration c = Some (sample_record\<lparr>mg_phase := PhaseCleanupPending\<rparr>)"
    and "config_ok sample_caps c"
proof -
  obtain c where c: "checkpoint_migration sample_config = Ok c"
      "ac_credential_migration c = Some (sample_record\<lparr>mg_phase := PhaseCleanupPending\<rparr>)"
    by (simp add: checkpoint_migration_def sample_config_def sample_record_def all_copied_def)
  have "config_ok sample_caps c"
    by (rule checkpoint_config_ok [OF sample_config_ok c(1) sample_migration(1)])
      (simp_all add: sample_migration os_backend_ok)
  with c that show thesis by simp
qed

lemma accepted_changes_follow_the_migration_protocol_witness:
  "\<exists>c :: app_config. protocol_of (ac_credential_migration c) = CleaningUp {SecretLocator ''t''} \<and>
     protocol_step (protocol_of (ac_credential_migration sample_config)) (protocol_of (ac_credential_migration c))"
proof -
  let ?T = "sample_toml (config_dto_from sample_config)"
  let ?s = "\<lparr>cs_path = ''/r/config/config.toml'', cs_capabilities = sample_caps,
    cs_state = \<lparr>sn_revision = 0, sn_config = sample_config\<rparr>\<rparr>"
  have "config_store_open sample_id_libs ?T \<lparr>df_create = None, df_permissions = None\<rparr> no_faults
      (for_test ''/r'') sample_caps (Some ''toml'') = (Ok ?s, Some ''toml'')"
    by (simp add: config_store_open_def create_config_root_def create_private_directory_def
        io_outcome_def for_test_def path_join_def path_is_absolute_def starts_with_def
        CONFIG_FILE_def sample_read initial_revision_def)
  then have run: "config_run sample_id_libs ?T ?s (Some ''toml'')" by (rule config_run.opened)
  obtain c where c: "apply_change CheckpointCredentialMigration sample_config = Ok c"
      "ac_credential_migration c = Some (sample_record\<lparr>mg_phase := PhaseCleanupPending\<rparr>)"
      "config_ok sample_caps c"
    by (rule sample_checkpoint)
  have "prepare_update sample_id_libs ?s 0 CheckpointCredentialMigration =
      Ok \<lparr>sn_revision = 1, sn_config = c\<rparr>"
    using c by (simp add: prepare_update_Ok)
  then obtain s' where step: "config_store_update sample_id_libs ?T no_faults 0
      CheckpointCredentialMigration (?s, Some ''toml'') =
      (Ok \<lparr>sn_revision = 1, sn_config = c\<rparr>, s', Some ''toml'')"
    by (simp add: config_store_update_def write_config_def write_config_with_hook_def
        sample_toml_def no_faults_def)
  have "protocol_of (ac_credential_migration c) = CleaningUp {SecretLocator ''t''}"
    by (simp add: c(2) protocol_of_def sample_record_def)
  moreover have "protocol_step (protocol_of (ac_credential_migration sample_config)) (protocol_of (ac_credential_migration c))"
    using accepted_changes_follow_the_migration_protocol [OF run step] by simp
  ultimately show ?thesis by (intro exI [of _ c] conjI) assumption+
qed

text \<open>
  The checkpoint moves every credential of the source backend to the target, with its slot
  and locator, leaves the other credentials alone, removes the source backend and leaves a consistent
  configuration, when the target is available and accepts the moved locators.
\<close>
theorem checkpoint_moves_every_credential:
  assumes "config_ok caps c" and "ac_credential_migration c = Some m"
    and "apply_change CheckpointCredentialMigration c = Ok c'"
    and "backend_ok caps (mg_target m)"
    and "\<And>x b r v. x \<in> set (ac_connections c) \<Longrightarrow> b \<in> set (conn_credentials x) \<Longrightarrow>
      cb_binding b = Secret r \<Longrightarrow> ref_backend_id r = sb_id (mg_source m) \<Longrightarrow>
      Option.bind (capability_of caps (secret_backend_kind (mg_target m))) cap_validate_locator = Some v \<Longrightarrow>
      v (ref_locator r) = Ok ()"
  shows "config_ok caps c' \<and> sb_id (mg_source m) \<notin> sb_id ` set (ac_secret_backends c') \<and>
    map conn_credentials (ac_connections c') =
      map (\<lambda>x. map (rebind (sb_id (mg_source m)) (sb_id (mg_target m))) (conn_credentials x))
        (ac_connections c)"
proof (intro conjI)
  have step: "checkpoint_migration c = Ok c'" using assms(3) by simp
  show "config_ok caps c'"
    using assms(1) step assms(2,4,5) by (rule checkpoint_config_ok)
  have "sb_id (mg_source m) \<noteq> sb_id (mg_target m)"
    using assms(1,2) by (simp add: config_ok_def migration_ok_def)
  with step assms(2) show "sb_id (mg_source m) \<notin> sb_id ` set (ac_secret_backends c')"
    by (auto simp: checkpoint_migration_Ok)
  show "map conn_credentials (ac_connections c') =
      map (\<lambda>x. map (rebind (sb_id (mg_source m)) (sb_id (mg_target m))) (conn_credentials x))
        (ac_connections c)"
    using step assms(2) by (auto simp: checkpoint_migration_Ok)
qed

lemma checkpoint_moves_every_credential_witness:
  "\<exists>c. apply_change CheckpointCredentialMigration sample_config = Ok c \<and>
     SecretBackendId ''file'' \<notin> sb_id ` set (ac_secret_backends c) \<and>
     map conn_credentials (ac_connections c) = [[\<lparr>cb_slot = CredentialSlot ''key'',
       cb_binding = Secret \<lparr>ref_backend_id = SecretBackendId ''os'', ref_locator = SecretLocator ''t''\<rparr>\<rparr>]]"
proof -
  obtain c where c: "apply_change CheckpointCredentialMigration sample_config = Ok c"
    by (rule sample_checkpoint)
  have "config_ok sample_caps c \<and> sb_id file_backend \<notin> sb_id ` set (ac_secret_backends c) \<and>
      map conn_credentials (ac_connections c) =
        map (\<lambda>x. map (rebind (sb_id file_backend) (sb_id os_backend)) (conn_credentials x))
          (ac_connections sample_config)"
    unfolding sample_migration(2,3) [symmetric]
    by (rule checkpoint_moves_every_credential [OF sample_config_ok sample_migration(1) c])
      (simp_all add: sample_migration os_backend_ok)
  then have "SecretBackendId ''file'' \<notin> sb_id ` set (ac_secret_backends c) \<and>
      map conn_credentials (ac_connections c) = [[\<lparr>cb_slot = CredentialSlot ''key'',
        cb_binding = Secret \<lparr>ref_backend_id = SecretBackendId ''os'', ref_locator = SecretLocator ''t''\<rparr>\<rparr>]]"
    by (simp add: sample_config_defs rebind_def)
  with c show ?thesis by (intro exI [of _ c] conjI) simp_all
qed

end
