(* ===== verification/Supervisor.thy ===== *)
theory Supervisor
  imports Paging "HOL-Library.AList"
begin

text \<open>
  The run supervisor (\<^verbatim>\<open>crates/yakshed-application/src/run_supervisor.rs\<close>): its events, errors and
  state, the world its handlers act on, and the handlers that start, steer, answer, feed, recover and
  close runs.

  A handler is a function from the world to a result and the next world. The world holds the
  database, the supervisor's state (a \<open>HashMap\<close> is an association list with distinct keys, its
  iteration order the list's), the bounded channel and consumer of each attached run, the events
  published, and the calls made to the harness. An \<open>async\<close> handler that waits for the harness is cut
  there into two handlers, so that other handlers may run in between; the harness's answer is an
  argument of the second. Clock and identifier generator are functions of a tick.
\<close>

section \<open>Events and errors\<close>

type_synonym provider_run_ref = provider_run_identity

record request_ref =
  rq_run :: provider_run_ref
  rq_native_id :: string

record command_ref =
  cm_run :: provider_run_ref
  cm_native_id :: string

datatype run_terminal =
  TerminalCompleted
| TerminalFailed string
| TerminalInterrupted
| TerminalCrashed string

datatype harness_event =
  RunAccepted provider_run_ref
| MessageDelta provider_run_ref string
| MessageCompleted provider_run_ref string
| ApprovalRequested request_ref string
| UserInputRequested request_ref string
| FileMutation provider_run_ref string string
| CommandOutputDelta provider_run_ref command_ref string string
| CommandOutputCompleted provider_run_ref command_ref string string
| RunTerminal provider_run_ref run_terminal
| UnknownEvent "provider_run_ref option" string string
| MalformedEvent "provider_run_ref option" string string

fun event_run :: "harness_event \<Rightarrow> provider_run_ref option" where
  "event_run (RunAccepted run) = Some run"
| "event_run (MessageDelta run _) = Some run"
| "event_run (MessageCompleted run _) = Some run"
| "event_run (FileMutation run _ _) = Some run"
| "event_run (CommandOutputDelta run _ _ _) = Some run"
| "event_run (CommandOutputCompleted run _ _ _) = Some run"
| "event_run (RunTerminal run _) = Some run"
| "event_run (ApprovalRequested request _) = Some (rq_run request)"
| "event_run (UserInputRequested request _) = Some (rq_run request)"
| "event_run (UnknownEvent run _ _) = run"
| "event_run (MalformedEvent run _ _) = run"

datatype port_error =
  PortInvalidInput string
| PortNotFound string
| PortConflict string
| PortUnsupported string
| PortNotAuthenticated
| PortOverloaded
| PortDisconnected
| PortOutcomeUnknown string
| PortClosed
| PortProtocol string
| PortTransport string
| PortRuntime string

datatype orchestration_error =
  StoreFailed store_error
| HarnessFailed port_error
| RunNotActive run_id
| RunNeedsReconciliation run_id
| ApprovalNotPending approval_request_id
| ApprovalDecisionConflict approval_request_id
| UserInputNotPending timeline_item_id
| InvalidProviderId string

datatype harness_response =
  ApprovalAnswer approval_decision
| UserInputAnswer string

datatype app_event_kind =
  WorkItemPatched
| TimelineBatchAppended run_id nat
| ApprovalOpened run_id approval_request_id
| ApprovalResolved run_id approval_request_id
| UserInputOpened run_id timeline_item_id string
| UserInputResponded run_id timeline_item_id
| RunStatusChanged run_id run_status
| RunOutcomeUnknown run_id string

record app_event =
  ev_work_item_id :: work_item_id
  ev_revision :: data_revision
  ev_kind :: app_event_kind

definition provider_run_ref_new ::
    "string \<Rightarrow> string \<Rightarrow> orchestration_error + provider_run_ref" where
  "provider_run_ref_new namespace native_id =
     map_err (\<lambda>e. InvalidProviderId (validation_message e))
       (provider_run_identity_new namespace namespace native_id native_id)"

definition provider_run_ref_from_parts ::
    "string \<Rightarrow> string \<Rightarrow> string \<Rightarrow> string \<Rightarrow> orchestration_error + provider_run_ref" where
  "provider_run_ref_from_parts namespace runtime_id session_id rid =
     map_err (\<lambda>e. InvalidProviderId (validation_message e))
       (provider_run_identity_new namespace runtime_id session_id rid)"

definition DELTA_BATCH_CHUNKS :: nat where
  "DELTA_BATCH_CHUNKS = 32"

definition ROUTE_CHANNEL_CAPACITY :: nat where
  "ROUTE_CHANNEL_CAPACITY = 64"

definition MAX_UNCERTAIN_STARTS :: nat where
  "MAX_UNCERTAIN_STARTS = 64"

definition STREAM_FAILURE_OPERATION :: string where
  "STREAM_FAILURE_OPERATION = ''stream_disconnected''"

section \<open>State\<close>

type_synonym event_buffers = "(provider_run_ref \<times> harness_event list) list"

record pending_start =
  st_events :: event_buffers
  st_overflow :: bool

record sup_state =
  su_routes :: "(provider_run_ref \<times> nat) list"
  su_pending_events :: event_buffers
  su_pending_overflow :: bool
  su_start_in_progress :: "run_id option"
  su_uncertain_starts :: "(run_id \<times> pending_start) list"
  su_uncertain_start_order :: "run_id list"
  su_runs :: "(run_id \<times> provider_run_ref) list"
  su_runs_by_provider :: "(provider_run_ref \<times> run_id) list"
  su_work_items :: "(run_id \<times> work_item_id) list"
  su_approvals :: "(approval_request_id \<times> run_id \<times> request_ref) list"
  su_user_inputs :: "(timeline_item_id \<times> run_id \<times> request_ref) list"
  su_approval_responses :: "(approval_request_id \<times> approval_decision) list"
  su_uncertain_runs :: "run_id list"

definition empty_state :: sup_state where
  "empty_state =
     \<lparr>su_routes = [], su_pending_events = [], su_pending_overflow = False,
      su_start_in_progress = None, su_uncertain_starts = [], su_uncertain_start_order = [],
      su_runs = [], su_runs_by_provider = [], su_work_items = [], su_approvals = [],
      su_user_inputs = [], su_approval_responses = [], su_uncertain_runs = []\<rparr>"

record restored_requests =
  re_approvals :: "(approval_request_id \<times> run_id \<times> request_ref) list"
  re_user_inputs :: "(timeline_item_id \<times> run_id \<times> request_ref) list"
  re_approval_responses :: "(approval_request_id \<times> approval_decision) list"

definition no_requests :: restored_requests where
  "no_requests = \<lparr>re_approvals = [], re_user_inputs = [], re_approval_responses = []\<rparr>"

record delta_buffer =
  de_chunks :: nat
  de_message :: string
  de_commands :: "(command_ref \<times> string \<times> string) list"

definition empty_deltas :: delta_buffer where
  "empty_deltas = \<lparr>de_chunks = 0, de_message = [], de_commands = []\<rparr>"

text \<open>The bounded channel of an attached run together with the task that consumes it.\<close>

record consumer =
  co_queue :: "harness_event list"
  co_open :: bool
  co_spawned :: bool
  co_run :: run_id
  co_work_item :: work_item_id
  co_provider :: provider_run_ref
  co_deltas :: delta_buffer

datatype harness_call =
  CallStart connection_id run_id string
| CallSteer provider_run_ref string
| CallInterrupt provider_run_ref
| CallRespond request_ref harness_response

record world =
  w_db :: db
  w_state :: sup_state
  w_consumers :: "consumer list"
  w_pump :: bool
  w_events :: "app_event list"
  w_calls :: "harness_call list"
  w_startup_error :: "orchestration_error option"
  w_tick :: nat

record 'z env =
  en_libs :: "'z store_libs_scheme"
  en_now :: "nat \<Rightarrow> utc_timestamp"
  en_run_id :: "nat \<Rightarrow> run_id"
  en_batch_id :: "nat \<Rightarrow> timeline_batch_id"
  en_item_id :: "nat \<Rightarrow> timeline_item_id"
  en_approval_id :: "nat \<Rightarrow> approval_request_id"
  en_audit_id :: "nat \<Rightarrow> audit_event_id"

section \<open>Handlers\<close>

type_synonym 'a act = "world \<Rightarrow> 'a \<times> world"

definition give :: "'a \<Rightarrow> 'a act" where
  "give a w = (a, w)"

definition run_then :: "'a act \<Rightarrow> ('a \<Rightarrow> 'b act) \<Rightarrow> 'b act" where
  "run_then m f w = (case m w of (a, w') \<Rightarrow> f a w')"

definition try_then :: "('e + 'a) act \<Rightarrow> ('a \<Rightarrow> ('e + 'b) act) \<Rightarrow> ('e + 'b) act" where
  "try_then m f w = (case m w of (Inl e, w') \<Rightarrow> (Err e, w') | (Inr a, w') \<Rightarrow> f a w')"

definition map_act :: "('a \<Rightarrow> 'b) \<Rightarrow> 'a act \<Rightarrow> 'b act" where
  "map_act f m w = (case m w of (a, w') \<Rightarrow> (f a, w'))"

fun for_each :: "('a \<Rightarrow> unit act) \<Rightarrow> 'a list \<Rightarrow> unit act" where
  "for_each f [] = give ()"
| "for_each f (x # xs) = run_then (f x) (\<lambda>_. for_each f xs)"

definition reads :: "(sup_state \<Rightarrow> 'a) \<Rightarrow> 'a act" where
  "reads f w = (f (w_state w), w)"

definition writes :: "(sup_state \<Rightarrow> sup_state) \<Rightarrow> unit act" where
  "writes f w = ((), w\<lparr>w_state := f (w_state w)\<rparr>)"

definition generate :: "(nat \<Rightarrow> 'a) \<Rightarrow> 'a act" where
  "generate g w = (g (w_tick w), w\<lparr>w_tick := w_tick w + 1\<rparr>)"

definition store :: "'a job \<Rightarrow> (store_error + 'a) act" where
  "store j w = (case j (w_db w) of (r, db) \<Rightarrow> (r, w\<lparr>w_db := db\<rparr>))"

definition calls :: "harness_call \<Rightarrow> unit act" where
  "calls c w = ((), w\<lparr>w_calls := w_calls w @ [c]\<rparr>)"

lemmas act_defs = give_def run_then_def try_then_def map_act_def reads_def writes_def
  generate_def store_def calls_def

section \<open>Notifications and transitions\<close>

definition work_item_revision :: "'z store_libs_scheme \<Rightarrow> work_item_id \<Rightarrow> db \<Rightarrow> data_revision" where
  "work_item_revision L i db =
     (case fst (get_work_item L i db) of Inl _ \<Rightarrow> 0 | Inr s \<Rightarrow> ws_revision s)"

definition publish :: "'z env \<Rightarrow> work_item_id \<Rightarrow> app_event_kind \<Rightarrow> unit act" where
  "publish E i kind w =
     ((), w\<lparr>w_events := w_events w @
        [\<lparr>ev_work_item_id = i, ev_revision = work_item_revision (en_libs E) i (w_db w),
          ev_kind = kind\<rparr>]\<rparr>)"

definition transition ::
    "'z env \<Rightarrow> run_id \<Rightarrow> run_status \<Rightarrow> run_status \<Rightarrow> provider_run_identity option \<Rightarrow>
     (store_error + run_snapshot) act" where
  "transition E run expected status provider =
     run_then (generate (en_now E)) (\<lambda>occurred_at.
     run_then (generate (en_audit_id E)) (\<lambda>audit.
     try_then (store (transition_run (en_libs E)
       \<lparr>tr_run_id = run, tr_expected_current = expected, tr_target = status,
        tr_provider_id = provider, tr_occurred_at = occurred_at, tr_audit_event_id = audit\<rparr>)) (\<lambda>snapshot.
     run_then (publish E (rs_work_item_id snapshot) (RunStatusChanged run status)) (\<lambda>_.
     give (Ok snapshot)))))"

definition transition_to_terminal ::
    "'z env \<Rightarrow> run_id \<Rightarrow> run_status \<Rightarrow> (store_error + unit) act" where
  "transition_to_terminal E run terminal =
     try_then (store (get_run (en_libs E) run)) (\<lambda>snapshot.
     map_act (map_ok (\<lambda>_. ())) (transition E run (rs_status snapshot) terminal None))"

definition transition_to_disconnected :: "'z env \<Rightarrow> run_id \<Rightarrow> unit act" where
  "transition_to_disconnected E run =
     run_then (store (get_run (en_libs E) run)) (\<lambda>r.
       case r of
         Inr snapshot \<Rightarrow>
           if rs_status snapshot \<in> {Starting, Running}
           then map_act (\<lambda>_. ()) (transition E run (rs_status snapshot) Disconnected None)
           else give ()
       | Inl _ \<Rightarrow> give ())"

text \<open>The status a run falls back to when its events stop.\<close>

fun lost_target :: "run_status \<Rightarrow> run_status option" where
  "lost_target Starting = Some OutcomeUnknown"
| "lost_target Running = Some Disconnected"
| "lost_target _ = None"

definition fall_back :: "'z env \<Rightarrow> run_id \<Rightarrow> run_status \<Rightarrow> unit act" where
  "fall_back E run current =
     (case lost_target current of
        Some target \<Rightarrow> map_act (\<lambda>_. ()) (transition E run current target None)
      | None \<Rightarrow> give ())"

definition await_startup :: "(orchestration_error + unit) act" where
  "await_startup w =
     ((case w_startup_error w of None \<Rightarrow> Ok () | Some e \<Rightarrow> Err e), w)"

definition ensure_event_pump :: "unit act" where
  "ensure_event_pump w = ((), w\<lparr>w_pump := True\<rparr>)"

section \<open>Routes\<close>

definition drop_requests :: "run_id \<Rightarrow> sup_state \<Rightarrow> sup_state" where
  "drop_requests run s =
     (let approvals = filter (\<lambda>(_, r, _). r \<noteq> run) (su_approvals s) in
      s\<lparr>su_approvals := approvals,
        su_user_inputs := filter (\<lambda>(_, r, _). r \<noteq> run) (su_user_inputs s),
        su_approval_responses :=
          filter (\<lambda>(a, _). a \<in> fst ` set approvals) (su_approval_responses s)\<rparr>)"

definition close_run_state :: "run_id \<Rightarrow> sup_state \<Rightarrow> sup_state" where
  "close_run_state run s =
     (let provider = map_of (su_runs s) run;
          s1 = (case provider of
                  Some p \<Rightarrow> s\<lparr>su_routes := AList.delete p (su_routes s),
                              su_runs_by_provider := AList.delete p (su_runs_by_provider s)\<rparr>
                | None \<Rightarrow> s);
          s2 = drop_requests run (s1\<lparr>su_runs := AList.delete run (su_runs s1),
                                     su_work_items := AList.delete run (su_work_items s1)\<rparr>);
          s3 = s2\<lparr>su_uncertain_runs := removeAll run (su_uncertain_runs s2),
                  su_uncertain_starts := AList.delete run (su_uncertain_starts s2),
                  su_uncertain_start_order := removeAll run (su_uncertain_start_order s2)\<rparr>
      in (case provider of
            Some p \<Rightarrow> s3\<lparr>su_pending_events := AList.delete p (su_pending_events s3)\<rparr>
          | None \<Rightarrow> s3))"

definition close_run :: "run_id \<Rightarrow> unit act" where
  "close_run run = writes (close_run_state run)"

definition remove_route_state :: "run_id \<Rightarrow> provider_run_ref \<Rightarrow> unit act" where
  "remove_route_state run provider =
     writes (\<lambda>s.
       let s1 = drop_requests run
         (s\<lparr>su_routes := AList.delete provider (su_routes s),
            su_runs_by_provider := AList.delete provider (su_runs_by_provider s),
            su_runs := AList.delete run (su_runs s),
            su_work_items := AList.delete run (su_work_items s)\<rparr>)
       in s1\<lparr>su_uncertain_runs := removeAll run (su_uncertain_runs s1)\<rparr>)"

definition insert_all :: "('k \<times> 'v) list \<Rightarrow> ('k \<times> 'v) list \<Rightarrow> ('k \<times> 'v) list" where
  "insert_all new old = fold (\<lambda>(k, v). AList.update k v) new old"

text \<open>A new channel: its number is its place in the list of consumers.\<close>

definition new_channel :: "run_id \<Rightarrow> work_item_id \<Rightarrow> provider_run_ref \<Rightarrow> nat act" where
  "new_channel run i provider w =
     (length (w_consumers w),
      w\<lparr>w_consumers := w_consumers w @
          [\<lparr>co_queue = [], co_open = True, co_spawned = False, co_run = run, co_work_item = i,
            co_provider = provider, co_deltas = empty_deltas\<rparr>]\<rparr>)"

definition update_consumer :: "nat \<Rightarrow> (consumer \<Rightarrow> consumer) \<Rightarrow> unit act" where
  "update_consumer c f w =
     ((), if c < length (w_consumers w)
          then w\<lparr>w_consumers := (w_consumers w)[c := f (w_consumers w ! c)]\<rparr> else w)"

definition spawn_consumer :: "nat \<Rightarrow> unit act" where
  "spawn_consumer c = update_consumer c (\<lambda>k. k\<lparr>co_spawned := True\<rparr>)"

definition drop_receiver :: "nat \<Rightarrow> unit act" where
  "drop_receiver c = update_consumer c (\<lambda>k. k\<lparr>co_open := False, co_queue := []\<rparr>)"

datatype send_result = Sent | ChannelFull | ChannelClosed

definition try_send :: "nat \<Rightarrow> harness_event \<Rightarrow> send_result act" where
  "try_send c event w =
     (if c < length (w_consumers w) \<and> co_open (w_consumers w ! c)
      then if length (co_queue (w_consumers w ! c)) < ROUTE_CHANNEL_CAPACITY
           then (Sent, snd (update_consumer c (\<lambda>k. k\<lparr>co_queue := co_queue k @ [event]\<rparr>) w))
           else (ChannelFull, w)
      else (ChannelClosed, w))"

definition prepare_route ::
    "run_id \<Rightarrow> work_item_id \<Rightarrow> provider_run_ref \<Rightarrow> restored_requests \<Rightarrow> nat act" where
  "prepare_route run i provider restored =
     run_then (new_channel run i provider) (\<lambda>channel.
     run_then (writes (\<lambda>s.
       s\<lparr>su_runs := AList.update run provider (su_runs s),
         su_runs_by_provider := AList.update provider run (su_runs_by_provider s),
         su_work_items := AList.update run i (su_work_items s),
         su_routes := AList.update provider channel (su_routes s),
         su_approvals := insert_all (re_approvals restored) (su_approvals s),
         su_user_inputs := insert_all (re_user_inputs restored) (su_user_inputs s),
         su_approval_responses :=
           insert_all (re_approval_responses restored) (su_approval_responses s),
         su_uncertain_runs := List.insert run (su_uncertain_runs s)\<rparr>)) (\<lambda>_.
     give channel))"

definition activate_route :: "run_id \<Rightarrow> nat \<Rightarrow> unit act" where
  "activate_route run channel =
     run_then (spawn_consumer channel) (\<lambda>_.
     run_then (writes (\<lambda>s. s\<lparr>su_uncertain_runs := removeAll run (su_uncertain_runs s)\<rparr>)) (\<lambda>_.
     ensure_event_pump))"

definition attach_route ::
    "'z env \<Rightarrow> run_id \<Rightarrow> work_item_id \<Rightarrow> provider_run_ref \<Rightarrow> (store_error + unit) act" where
  "attach_route E run i provider =
     try_then (store (get_run (en_libs E) run)) (\<lambda>_.
     run_then (prepare_route run i provider no_requests) (\<lambda>channel.
     run_then (activate_route run channel) (\<lambda>_. give (Ok ()))))"

definition handle_route_overflow :: "'z env \<Rightarrow> run_id \<Rightarrow> work_item_id \<Rightarrow> unit act" where
  "handle_route_overflow E run i =
     run_then (close_run run) (\<lambda>_.
     run_then (store (get_run (en_libs E) run)) (\<lambda>r.
       case r of
         Inr current \<Rightarrow>
           run_then (fall_back E run (rs_status current)) (\<lambda>_.
           publish E i (RunOutcomeUnknown run ''event_channel_full''))
       | Inl _ \<Rightarrow> give ()))"

text \<open>Deliver buffered events to a channel until one does not fit.\<close>

fun send_all :: "nat \<Rightarrow> harness_event list \<Rightarrow> bool act" where
  "send_all c [] = give True"
| "send_all c (e # es) =
     run_then (try_send c e) (\<lambda>r. if r = Sent then send_all c es else give False)"

definition deliver ::
    "'z env \<Rightarrow> run_id \<Rightarrow> work_item_id \<Rightarrow> nat \<Rightarrow> bool \<Rightarrow> harness_event list \<Rightarrow> unit act" where
  "deliver E run i channel overflow events =
     (if overflow then handle_route_overflow E run i
      else run_then (send_all channel events) (\<lambda>all_sent.
        if all_sent then give () else handle_route_overflow E run i))"

section \<open>Events of the harness\<close>

definition buffered :: "event_buffers \<Rightarrow> nat" where
  "buffered b = sum_list (map (\<lambda>(_, es). length es) b)"

definition push_event :: "provider_run_ref \<Rightarrow> harness_event \<Rightarrow> event_buffers \<Rightarrow> event_buffers" where
  "push_event run event b =
     AList.update run ((case map_of b run of Some es \<Rightarrow> es | None \<Rightarrow> []) @ [event]) b"

definition empty_start :: "(run_id \<times> pending_start) list \<Rightarrow> run_id \<Rightarrow> bool" where
  "empty_start starts i = (case map_of starts i of Some p \<Rightarrow> st_events p = [] | None \<Rightarrow> False)"

definition buffer_handshake_event ::
    "provider_run_ref \<Rightarrow> harness_event \<Rightarrow> sup_state \<Rightarrow> sup_state" where
  "buffer_handshake_event run event s =
     (if su_start_in_progress s \<noteq> None
      then if buffered (su_pending_events s) < ROUTE_CHANNEL_CAPACITY
           then s\<lparr>su_pending_events := push_event run event (su_pending_events s)\<rparr>
           else s\<lparr>su_pending_overflow := True\<rparr>
      else (case List.find (\<lambda>(_, p). run \<in> fst ` set (st_events p)) (su_uncertain_starts s) of
        Some (i, p) \<Rightarrow>
          s\<lparr>su_uncertain_starts := AList.update i
              (if buffered (st_events p) < ROUTE_CHANNEL_CAPACITY
               then p\<lparr>st_events := push_event run event (st_events p)\<rparr>
               else p\<lparr>st_overflow := True\<rparr>) (su_uncertain_starts s)\<rparr>
      | None \<Rightarrow>
          (case List.find (empty_start (su_uncertain_starts s)) (su_uncertain_start_order s) of
             Some i \<Rightarrow>
               s\<lparr>su_uncertain_starts := AList.map_entry i
                   (\<lambda>p. p\<lparr>st_events := [(run, [event])]\<rparr>) (su_uncertain_starts s)\<rparr>
           | None \<Rightarrow> s)))"

definition route_event :: "'z env \<Rightarrow> harness_event \<Rightarrow> unit act" where
  "route_event E event =
     (case event_run event of
        None \<Rightarrow> give ()
      | Some run \<Rightarrow>
          run_then (reads (\<lambda>s. (map_of (su_runs_by_provider s) run, map_of (su_routes s) run))) (\<lambda>(run_id, route).
          run_then (reads (\<lambda>s. Option.bind run_id (map_of (su_work_items s)))) (\<lambda>work_item.
          case route of
            None \<Rightarrow> writes (buffer_handshake_event run event)
          | Some channel \<Rightarrow>
              run_then (try_send channel event) (\<lambda>result.
                case (run_id, work_item) of
                  (Some r, Some i) \<Rightarrow>
                    (case result of
                       Sent \<Rightarrow> give ()
                     | ChannelFull \<Rightarrow> handle_route_overflow E r i
                     | ChannelClosed \<Rightarrow> transition_to_disconnected E r)
                | _ \<Rightarrow> give ()))))"

definition affected_runs :: "sup_state \<Rightarrow> (run_id \<times> work_item_id) list" where
  "affected_runs s =
     List.map_filter (\<lambda>(r, _). map_option (Pair r) (map_of (su_work_items s) r)) (su_runs s)"

definition fail_run :: "'z env \<Rightarrow> string \<Rightarrow> run_id \<times> work_item_id \<Rightarrow> unit act" where
  "fail_run E operation = (\<lambda>(run, i).
     run_then (store (get_run (en_libs E) run)) (\<lambda>r.
     run_then (case r of Inr current \<Rightarrow> fall_back E run (rs_status current) | Inl _ \<Rightarrow> give ()) (\<lambda>_.
     publish E i (RunOutcomeUnknown run operation))))"

definition handle_pump_failure :: "'z env \<Rightarrow> string \<Rightarrow> unit act" where
  "handle_pump_failure E operation =
     run_then (reads affected_runs) (\<lambda>affected.
     run_then (writes (\<lambda>_. empty_state)) (\<lambda>_.
     run_then (\<lambda>w. ((), w\<lparr>w_pump := False\<rparr>)) (\<lambda>_.
     for_each (fail_run E operation) affected)))"

text \<open>One turn of the event pump on what \<open>next_event\<close> returned.\<close>

fun pump_operation :: "port_error \<Rightarrow> string" where
  "pump_operation (PortOutcomeUnknown operation) = operation"
| "pump_operation _ = STREAM_FAILURE_OPERATION"

definition pump_turn :: "'z env \<Rightarrow> port_error + harness_event option \<Rightarrow> unit act" where
  "pump_turn E next =
     (case next of
        Inr (Some event) \<Rightarrow> route_event E event
      | Inr None \<Rightarrow> handle_pump_failure E STREAM_FAILURE_OPERATION
      | Inl e \<Rightarrow> handle_pump_failure E (pump_operation e))"

end
