(* ===== verification/Supervisor_Runs.thy ===== *)
theory Supervisor_Runs
  imports Supervisor
begin

text \<open>
  The supervisor's use cases: feeding the events of a run into the store, starting, steering and
  interrupting runs, answering approvals and user-input requests, and recovering runs after a restart
  or a lost stream (\<^verbatim>\<open>run_supervisor.rs\<close>).
\<close>

section \<open>Deltas\<close>

definition push_message :: "string \<Rightarrow> delta_buffer \<Rightarrow> delta_buffer" where
  "push_message chunk d = d\<lparr>de_chunks := de_chunks d + 1, de_message := de_message d @ chunk\<rparr>"

definition push_command :: "command_ref \<Rightarrow> string \<Rightarrow> string \<Rightarrow> delta_buffer \<Rightarrow> delta_buffer" where
  "push_command command command_text chunk d =
     (let entry = (case map_of (de_commands d) command of
                     Some e \<Rightarrow> e | None \<Rightarrow> (command_text, [])) in
      d\<lparr>de_chunks := de_chunks d + 1,
        de_commands := AList.update command (fst entry, snd entry @ chunk) (de_commands d)\<rparr>)"

definition request_provider_id :: "request_ref \<Rightarrow> orchestration_error + namespaced_provider_id" where
  "request_provider_id r =
     map_err (\<lambda>e. InvalidProviderId (validation_message e))
       (namespaced_provider_id_new (pri_namespace (rq_run r)) (rq_native_id r))"

definition command_provider_id :: "command_ref \<Rightarrow> orchestration_error + namespaced_provider_id" where
  "command_provider_id c =
     map_err (\<lambda>e. InvalidProviderId (validation_message e))
       (namespaced_provider_id_new (pri_namespace (cm_run c)) (cm_native_id c))"

definition lines2 :: "string \<Rightarrow> string \<Rightarrow> string" where
  "lines2 a b = a @ [CHR 0x0A] @ b"

definition message_items :: "'z env \<Rightarrow> string \<Rightarrow> new_timeline_item list act" where
  "message_items E message =
     (if message = [] then give []
      else run_then (generate (en_item_id E)) (\<lambda>i.
        give [\<lparr>ni_id = i, ni_kind = ''message_delta_batch'', ni_body = message,
               ni_provider_id = None\<rparr>]))"

fun command_items ::
    "'z env \<Rightarrow> (command_ref \<times> string \<times> string) list \<Rightarrow>
     (orchestration_error + new_timeline_item list) act" where
  "command_items E [] = give (Ok [])"
| "command_items E ((command, command_text, output) # rest) =
     run_then (generate (en_item_id E)) (\<lambda>i.
     try_then (give (command_provider_id command)) (\<lambda>provider.
     try_then (command_items E rest) (\<lambda>items.
     give (Ok (\<lparr>ni_id = i, ni_kind = ''command_output_delta_batch'',
                ni_body = lines2 command_text output, ni_provider_id = Some provider\<rparr> # items)))))"

text \<open>The items of the buffer; the buffer itself is emptied in every case.\<close>

definition take_items ::
    "'z env \<Rightarrow> delta_buffer \<Rightarrow> (orchestration_error + new_timeline_item list) act" where
  "take_items E d =
     run_then (message_items E (de_message d)) (\<lambda>messages.
     try_then (command_items E (sort_key (\<lambda>(c, _). cm_native_id c) (de_commands d))) (\<lambda>commands.
     give (Ok (messages @ commands))))"

section \<open>Appending to the timeline\<close>

definition store_errors :: "(store_error + 'a) act \<Rightarrow> (orchestration_error + 'a) act" where
  "store_errors m = map_act (map_err StoreFailed) m"

definition append_run_items ::
    "'z env \<Rightarrow> run_id \<Rightarrow> work_item_id \<Rightarrow> new_timeline_item list \<Rightarrow> provider_run_ref option \<Rightarrow>
     (store_error + unit) act" where
  "append_run_items E run i items stream =
     (if items = [] then give (Ok ())
      else
        let source_namespace = (case stream of Some p \<Rightarrow> pri_namespace p | None \<Rightarrow> ''application'');
            stream_id = id_text (en_libs E) run in
        try_then (store (get_run (en_libs E) run)) (\<lambda>snapshot.
        try_then (store (get_stream_cursor (en_libs E)
          \<lparr>gs_connection_id = rs_connection_id snapshot, gs_run_id = run,
           gs_source_namespace = source_namespace, gs_stream_id = stream_id\<rparr>)) (\<lambda>state.
        let cursor = (case state of None \<Rightarrow> 0 | Some c \<Rightarrow> scs_cursor c) in
        run_then (generate (en_batch_id E)) (\<lambda>batch.
        try_then (store (get_run (en_libs E) run)) (\<lambda>snapshot2.
        run_then (generate (en_now E)) (\<lambda>now.
        try_then (store (append_timeline_batch (en_libs E) now
          \<lparr>tb_batch_id = batch, tb_connection_id = rs_connection_id snapshot2, tb_run_id = run,
           tb_source_namespace = source_namespace, tb_stream_id = stream_id,
           tb_expected_stream_revision = cursor, tb_items = items\<rparr>)) (\<lambda>_.
        run_then (publish E i (TimelineBatchAppended run (length items))) (\<lambda>_.
        give (Ok ())))))))))"

definition new_item ::
    "'z env \<Rightarrow> string \<Rightarrow> string \<Rightarrow> namespaced_provider_id option \<Rightarrow> new_timeline_item act" where
  "new_item E kind body provider =
     run_then (generate (en_item_id E)) (\<lambda>i.
     give \<lparr>ni_id = i, ni_kind = kind, ni_body = body, ni_provider_id = provider\<rparr>)"

definition append_to_run ::
    "'z env \<Rightarrow> run_id \<Rightarrow> work_item_id \<Rightarrow> provider_run_ref \<Rightarrow> new_timeline_item list \<Rightarrow>
     (orchestration_error + unit) act" where
  "append_to_run E run i provider items =
     store_errors (append_run_items E run i items (Some provider))"

section \<open>The authoritative events\<close>

definition open_approval ::
    "'z env \<Rightarrow> run_id \<Rightarrow> work_item_id \<Rightarrow> request_ref \<Rightarrow> string \<Rightarrow> (orchestration_error + unit) act" where
  "open_approval E run i request summary =
     run_then (generate (en_approval_id E)) (\<lambda>approval.
     try_then (give (request_provider_id request)) (\<lambda>provider.
     run_then (generate (en_now E)) (\<lambda>now.
     try_then (store_errors (store (record_pending_approval (en_libs E) now
       \<lparr>pa_id = approval, pa_run_id = run, pa_provider_id = provider, pa_kind = ''approval'',
        pa_summary = summary\<rparr>))) (\<lambda>_.
     run_then (writes (\<lambda>s. s\<lparr>su_approvals := AList.update approval (run, request) (su_approvals s)\<rparr>)) (\<lambda>_.
     run_then (publish E i (ApprovalOpened run approval)) (\<lambda>_.
     give (Ok ())))))))"

definition open_user_input ::
    "'z env \<Rightarrow> run_id \<Rightarrow> work_item_id \<Rightarrow> provider_run_ref \<Rightarrow> new_timeline_item list \<Rightarrow> request_ref \<Rightarrow>
     string \<Rightarrow> (orchestration_error + unit) act" where
  "open_user_input E run i provider items request prompt =
     run_then (generate (en_item_id E)) (\<lambda>request_id.
     try_then (give (request_provider_id request)) (\<lambda>request_provider.
     run_then (writes (\<lambda>s.
       s\<lparr>su_user_inputs := AList.update request_id (run, request) (su_user_inputs s)\<rparr>)) (\<lambda>_.
     try_then (append_to_run E run i provider
       (items @ [\<lparr>ni_id = request_id, ni_kind = ''user_input_requested'', ni_body = prompt,
                  ni_provider_id = Some request_provider\<rparr>])) (\<lambda>_.
     run_then (publish E i (UserInputOpened run request_id prompt)) (\<lambda>_.
     give (Ok ()))))))"

fun terminal_status :: "run_terminal \<Rightarrow> run_status" where
  "terminal_status TerminalCompleted = Completed"
| "terminal_status (TerminalFailed _) = Failed"
| "terminal_status (TerminalCrashed _) = Failed"
| "terminal_status TerminalInterrupted = Interrupted"

text \<open>
  What an authoritative event does once the deltas are taken. Deltas and \<open>RunAccepted\<close> never get
  here; the code's match arm for them is unreachable.
\<close>

fun apply_authoritative ::
    "'z env \<Rightarrow> run_id \<Rightarrow> work_item_id \<Rightarrow> provider_run_ref \<Rightarrow> new_timeline_item list \<Rightarrow>
     harness_event \<Rightarrow> (orchestration_error + unit) act" where
  "apply_authoritative E run i provider items (MessageCompleted _ content) =
     run_then (new_item E ''message_completed'' content None) (\<lambda>item.
     append_to_run E run i provider (items @ [item]))"
| "apply_authoritative E run i provider items (CommandOutputCompleted _ command command_text output) =
     try_then (give (command_provider_id command)) (\<lambda>command_id.
     run_then (new_item E ''command_output_completed'' (lines2 command_text output) (Some command_id)) (\<lambda>item.
     append_to_run E run i provider (items @ [item])))"
| "apply_authoritative E run i provider items (FileMutation _ path summary) =
     run_then (new_item E ''file_mutation'' (lines2 path summary) None) (\<lambda>item.
     append_to_run E run i provider (items @ [item]))"
| "apply_authoritative E run i provider items (ApprovalRequested request summary) =
     try_then (append_to_run E run i provider items) (\<lambda>_. open_approval E run i request summary)"
| "apply_authoritative E run i provider items (UserInputRequested request prompt) =
     open_user_input E run i provider items request prompt"
| "apply_authoritative E run i provider items (UnknownEvent _ item_type native) =
     run_then (new_item E (''unknown:'' @ item_type) native None) (\<lambda>item.
     append_to_run E run i provider (items @ [item]))"
| "apply_authoritative E run i provider items (MalformedEvent _ item_type native) =
     run_then (new_item E (''malformed:'' @ item_type) native None) (\<lambda>item.
     append_to_run E run i provider (items @ [item]))"
| "apply_authoritative E run i provider items (RunTerminal _ state) =
     try_then (append_to_run E run i provider items) (\<lambda>_.
     store_errors (transition_to_terminal E run (terminal_status state)))"
| "apply_authoritative E run i provider items _ = give (Ok ())"

text \<open>After a delta: flush once 32 chunks have gathered.\<close>

definition flush_deltas ::
    "'z env \<Rightarrow> run_id \<Rightarrow> work_item_id \<Rightarrow> provider_run_ref \<Rightarrow> delta_buffer \<Rightarrow>
     ((orchestration_error + unit) \<times> delta_buffer) act" where
  "flush_deltas E run i provider d =
     (if de_chunks d \<ge> DELTA_BATCH_CHUNKS
      then map_act (\<lambda>r. (r, empty_deltas))
        (try_then (take_items E d) (append_to_run E run i provider))
      else give (Ok (), d))"

fun apply_event ::
    "'z env \<Rightarrow> run_id \<Rightarrow> work_item_id \<Rightarrow> provider_run_ref \<Rightarrow> delta_buffer \<Rightarrow> harness_event \<Rightarrow>
     ((orchestration_error + unit) \<times> delta_buffer) act" where
  "apply_event E run i provider d (RunAccepted _) = give (Ok (), d)"
| "apply_event E run i provider d (MessageDelta _ chunk) =
     flush_deltas E run i provider (push_message chunk d)"
| "apply_event E run i provider d (CommandOutputDelta _ command command_text chunk) =
     flush_deltas E run i provider (push_command command command_text chunk d)"
| "apply_event E run i provider d event =
     map_act (\<lambda>r. (r, empty_deltas))
       (try_then (take_items E d) (\<lambda>items. apply_authoritative E run i provider items event))"

fun is_terminal_event :: "harness_event \<Rightarrow> bool" where
  "is_terminal_event (RunTerminal _ _) = True"
| "is_terminal_event _ = False"

definition consumption_failed :: "'z env \<Rightarrow> run_id \<Rightarrow> work_item_id \<Rightarrow> unit act" where
  "consumption_failed E run i =
     run_then (store (get_run (en_libs E) run)) (\<lambda>r.
       case r of
         Inr current \<Rightarrow>
           if rs_status current \<in> {Starting, Running}
           then run_then (transition E run (rs_status current) OutcomeUnknown None) (\<lambda>_.
             publish E i (RunOutcomeUnknown run ''run_consumption_failed''))
           else give ()
       | Inl _ \<Rightarrow> give ())"

text \<open>One turn of the loop of \<open>consume_run\<close>: the next event of a consumer, and the end of its task.\<close>

definition end_consumer :: "nat \<Rightarrow> run_id \<Rightarrow> unit act" where
  "end_consumer c run = run_then (drop_receiver c) (\<lambda>_. close_run run)"

definition consume_turn :: "'z env \<Rightarrow> nat \<Rightarrow> unit act" where
  "consume_turn E c w =
     (if \<not> c < length (w_consumers w) then ((), w)
      else
        let k = w_consumers w ! c in
        if \<not> (co_open k \<and> co_spawned k) then ((), w)
        else case co_queue k of
          event # rest \<Rightarrow>
            run_then (update_consumer c (\<lambda>k. k\<lparr>co_queue := rest\<rparr>)) (\<lambda>_.
            run_then (apply_event E (co_run k) (co_work_item k) (co_provider k) (co_deltas k) event) (\<lambda>(r, d).
            run_then (update_consumer c (\<lambda>k. k\<lparr>co_deltas := d\<rparr>)) (\<lambda>_.
            case r of
              Inl _ \<Rightarrow> run_then (consumption_failed E (co_run k) (co_work_item k)) (\<lambda>_.
                end_consumer c (co_run k))
            | Inr _ \<Rightarrow> if is_terminal_event event then end_consumer c (co_run k) else give ()))) w
        | [] \<Rightarrow>
            if c \<in> snd ` set (su_routes (w_state w)) then ((), w)
            else end_consumer c (co_run k) w)"

section \<open>Calls to the harness\<close>

definition active_run ::
    "run_id \<Rightarrow> sup_state \<Rightarrow> orchestration_error + provider_run_ref \<times> work_item_id" where
  "active_run run s =
     (if run \<in> set (su_uncertain_runs s) then Err (RunNeedsReconciliation run)
      else case map_of (su_runs s) run of
        None \<Rightarrow> Err (RunNotActive run)
      | Some p \<Rightarrow>
          (case map_of (su_work_items s) run of
             None \<Rightarrow> Err (RunNotActive run)
           | Some i \<Rightarrow> Ok (p, i)))"

text \<open>What \<open>call_harness\<close> does with the answer.\<close>

definition mark_outcome_unknown :: "'z env \<Rightarrow> run_id \<Rightarrow> unit act" where
  "mark_outcome_unknown E run =
     run_then (store (get_run (en_libs E) run)) (\<lambda>r.
       case r of
         Inr current \<Rightarrow>
           if rs_status current \<noteq> OutcomeUnknown \<and>
              can_transition_to (rs_status current) OutcomeUnknown
           then map_act (\<lambda>_. ()) (transition E run (rs_status current) OutcomeUnknown None)
           else give ()
       | Inl _ \<Rightarrow> give ())"

definition call_answered ::
    "'z env \<Rightarrow> run_id \<Rightarrow> work_item_id \<Rightarrow> port_error + 'a \<Rightarrow> (orchestration_error + 'a) act" where
  "call_answered E run i answer =
     (case answer of
        Inr v \<Rightarrow> give (Ok v)
      | Inl (PortOutcomeUnknown operation) \<Rightarrow>
          run_then (mark_outcome_unknown E run) (\<lambda>_.
          run_then (writes (\<lambda>s. s\<lparr>su_uncertain_runs := List.insert run (su_uncertain_runs s)\<rparr>)) (\<lambda>_.
          run_then (publish E i (RunOutcomeUnknown run operation)) (\<lambda>_.
          give (Err (HarnessFailed (PortOutcomeUnknown operation))))))
      | Inl e \<Rightarrow> give (Err (HarnessFailed e)))"

definition steer_call ::
    "run_id \<Rightarrow> string \<Rightarrow> (orchestration_error + run_id \<times> work_item_id) act" where
  "steer_call run input =
     try_then await_startup (\<lambda>_.
     try_then (reads (active_run run)) (\<lambda>(provider, i).
     run_then (calls (CallSteer provider input)) (\<lambda>_. give (Ok (run, i)))))"

definition interrupt_call :: "run_id \<Rightarrow> (orchestration_error + run_id \<times> work_item_id) act" where
  "interrupt_call run =
     try_then await_startup (\<lambda>_.
     try_then (reads (active_run run)) (\<lambda>(provider, i).
     run_then (calls (CallInterrupt provider)) (\<lambda>_. give (Ok (run, i)))))"

section \<open>Answering approvals and user input\<close>

definition resolve_approval_call ::
    "'z env \<Rightarrow> approval_request_id \<Rightarrow> approval_decision \<Rightarrow>
     (orchestration_error + run_id \<times> work_item_id) act" where
  "resolve_approval_call E approval decision =
     try_then await_startup (\<lambda>_.
     try_then (reads (\<lambda>s. case map_of (su_approvals s) approval of
         Some x \<Rightarrow> Ok x | None \<Rightarrow> Err (ApprovalNotPending approval))) (\<lambda>(run, request).
     try_then (reads (active_run run)) (\<lambda>(_, i).
     run_then (reads (\<lambda>s. map_of (su_approval_responses s) approval)) (\<lambda>responding.
     try_then
       (case responding of
          Some existing \<Rightarrow>
            give (ensure (existing = decision) (ApprovalDecisionConflict approval))
        | None \<Rightarrow>
            run_then (generate (en_audit_id E)) (\<lambda>audit.
            run_then (generate (en_now E)) (\<lambda>now.
            try_then (store_errors (store (begin_approval_response (en_libs E) now
              \<lparr>ba_approval_id = approval, ba_decision = decision, ba_audit_event_id = audit\<rparr>))) (\<lambda>_.
            run_then (writes (\<lambda>s. s\<lparr>su_approval_responses :=
              AList.update approval decision (su_approval_responses s)\<rparr>)) (\<lambda>_.
            give (Ok ())))))) (\<lambda>_.
     run_then (calls (CallRespond request (ApprovalAnswer decision))) (\<lambda>_.
     give (Ok (run, i))))))))"

definition resolve_approval_answered ::
    "'z env \<Rightarrow> approval_request_id \<Rightarrow> run_id \<Rightarrow> work_item_id \<Rightarrow> port_error + unit \<Rightarrow>
     (orchestration_error + unit) act" where
  "resolve_approval_answered E approval run i answer =
     try_then (call_answered E run i answer) (\<lambda>_.
     run_then (generate (en_audit_id E)) (\<lambda>audit.
     run_then (generate (en_now E)) (\<lambda>now.
     try_then (store_errors (store (confirm_approval_response (en_libs E) now
       \<lparr>ca_approval_id = approval, ca_audit_event_id = audit\<rparr>))) (\<lambda>_.
     run_then (writes (\<lambda>s.
       s\<lparr>su_approvals := AList.delete approval (su_approvals s),
         su_approval_responses := AList.delete approval (su_approval_responses s)\<rparr>)) (\<lambda>_.
     run_then (publish E i (ApprovalResolved run approval)) (\<lambda>_.
     give (Ok ())))))))"

definition respond_user_input_call ::
    "timeline_item_id \<Rightarrow> string \<Rightarrow> (orchestration_error + run_id \<times> work_item_id) act" where
  "respond_user_input_call request_id response =
     try_then await_startup (\<lambda>_.
     try_then (reads (\<lambda>s. case map_of (su_user_inputs s) request_id of
         Some x \<Rightarrow> Ok x | None \<Rightarrow> Err (UserInputNotPending request_id))) (\<lambda>(run, request).
     try_then (reads (active_run run)) (\<lambda>(_, i).
     run_then (calls (CallRespond request (UserInputAnswer response))) (\<lambda>_.
     give (Ok (run, i))))))"

definition respond_user_input_answered ::
    "'z env \<Rightarrow> timeline_item_id \<Rightarrow> run_id \<Rightarrow> work_item_id \<Rightarrow> port_error + unit \<Rightarrow>
     (orchestration_error + unit) act" where
  "respond_user_input_answered E request_id run i answer =
     try_then (call_answered E run i answer) (\<lambda>_.
     run_then (new_item E ''user_input_responded'' (id_text (en_libs E) request_id) None) (\<lambda>item.
     try_then (store_errors (append_run_items E run i [item] None)) (\<lambda>_.
     run_then (writes (\<lambda>s. s\<lparr>su_user_inputs := AList.delete request_id (su_user_inputs s)\<rparr>)) (\<lambda>_.
     run_then (publish E i (UserInputResponded run request_id)) (\<lambda>_.
     give (Ok ()))))))"

section \<open>Starting a run\<close>

definition start_run_call ::
    "'z env \<Rightarrow> work_item_id \<Rightarrow> connection_id \<Rightarrow> string \<Rightarrow> (orchestration_error + run_id) act" where
  "start_run_call E i connection input =
     try_then await_startup (\<lambda>_.
     run_then (generate (en_run_id E)) (\<lambda>run.
     run_then (generate (en_now E)) (\<lambda>now.
     try_then (store_errors (store (create_run (en_libs E) now
       \<lparr>cr_id = run, cr_connection_id = connection, cr_work_item_id = i, cr_provider_run = None\<rparr>))) (\<lambda>_.
     run_then (publish E i (RunStatusChanged run Starting)) (\<lambda>_.
     run_then (writes (\<lambda>s.
       s\<lparr>su_work_items := AList.update run i (su_work_items s), su_start_in_progress := Some run,
         su_pending_events := [], su_pending_overflow := False\<rparr>)) (\<lambda>_.
     run_then ensure_event_pump (\<lambda>_.
     run_then (calls (CallStart connection run input)) (\<lambda>_.
     give (Ok run)))))))))"

definition finish_start_handshake :: "unit act" where
  "finish_start_handshake =
     writes (\<lambda>s. s\<lparr>su_start_in_progress := None, su_pending_events := [],
                    su_pending_overflow := False\<rparr>)"

text \<open>An unresolved start keeps its buffered events; the oldest one makes room.\<close>

definition retain_unknown_state :: "run_id \<Rightarrow> sup_state \<Rightarrow> sup_state" where
  "retain_unknown_state run s =
     (let evict = MAX_UNCERTAIN_STARTS \<le> length (su_uncertain_starts s) \<and>
                  su_uncertain_start_order s \<noteq> [];
          starts = (if evict then AList.delete (hd (su_uncertain_start_order s)) (su_uncertain_starts s)
                    else su_uncertain_starts s);
          order = (if evict then tl (su_uncertain_start_order s) else su_uncertain_start_order s) in
      s\<lparr>su_start_in_progress := None, su_pending_events := [], su_pending_overflow := False,
        su_uncertain_starts := AList.update run
          \<lparr>st_events = su_pending_events s, st_overflow = su_pending_overflow s\<rparr> starts,
        su_uncertain_start_order := order @ [run],
        su_uncertain_runs := List.insert run (su_uncertain_runs s)\<rparr>)"

definition retain_unknown_handshake :: "run_id \<Rightarrow> unit act" where
  "retain_unknown_handshake run = writes (retain_unknown_state run)"

text \<open>The events buffered for a provider run, and the end of the handshake.\<close>

definition take_pending :: "provider_run_ref \<Rightarrow> (harness_event list \<times> bool) act" where
  "take_pending provider =
     run_then (reads (\<lambda>s. (case map_of (su_pending_events s) provider of Some es \<Rightarrow> es | None \<Rightarrow> [],
                           su_pending_overflow s))) (\<lambda>r.
     run_then finish_start_handshake (\<lambda>_. give r))"

definition retain_uncertain_start ::
    "'z env \<Rightarrow> run_id \<Rightarrow> work_item_id \<Rightarrow> provider_run_ref \<Rightarrow> unit act" where
  "retain_uncertain_start E run i provider =
     run_then (take_pending provider) (\<lambda>(pending, overflow).
     run_then (calls (CallInterrupt provider)) (\<lambda>_.
     run_then (transition E run Starting OutcomeUnknown (Some provider)) (\<lambda>_.
     run_then (attach_route E run i provider) (\<lambda>_.
     run_then (reads (\<lambda>s. map_of (su_routes s) provider)) (\<lambda>route.
     run_then (case route of
         Some channel \<Rightarrow> map_act (\<lambda>_. ()) (send_all channel pending)
       | None \<Rightarrow> give ()) (\<lambda>_.
     run_then (writes (\<lambda>s. s\<lparr>su_uncertain_runs := List.insert run (su_uncertain_runs s)\<rparr>)) (\<lambda>_.
     run_then (publish E i (RunOutcomeUnknown run ''start_binding_failed'')) (\<lambda>_.
     if overflow then handle_route_overflow E run i else give ()))))))))"

definition attach_started ::
    "'z env \<Rightarrow> run_id \<Rightarrow> work_item_id \<Rightarrow> provider_run_ref \<Rightarrow> unit act" where
  "attach_started E run i provider =
     run_then (new_channel run i provider) (\<lambda>channel.
     run_then (writes (\<lambda>s.
       s\<lparr>su_runs := AList.update run provider (su_runs s),
         su_runs_by_provider := AList.update provider run (su_runs_by_provider s),
         su_routes := AList.update provider channel (su_routes s)\<rparr>)) (\<lambda>_.
     run_then (take_pending provider) (\<lambda>(pending, overflow).
     run_then (spawn_consumer channel) (\<lambda>_.
     run_then ensure_event_pump (\<lambda>_.
     deliver E run i channel overflow pending)))))"

definition start_run_answered ::
    "'z env \<Rightarrow> work_item_id \<Rightarrow> run_id \<Rightarrow> port_error + provider_run_ref \<Rightarrow>
     (orchestration_error + run_snapshot) act" where
  "start_run_answered E i run answer =
     (case answer of
        Inr provider \<Rightarrow>
          run_then (transition E run Starting Running (Some provider)) (\<lambda>r.
          case r of
            Inr snapshot \<Rightarrow>
              run_then (attach_started E run i provider) (\<lambda>_. give (Ok snapshot))
          | Inl e \<Rightarrow>
              run_then (retain_uncertain_start E run i provider) (\<lambda>_. give (Err (StoreFailed e))))
      | Inl (PortOutcomeUnknown operation) \<Rightarrow>
          run_then (retain_unknown_handshake run) (\<lambda>_.
          try_then (store_errors (transition E run Starting OutcomeUnknown None)) (\<lambda>_.
          run_then (publish E i (RunOutcomeUnknown run operation)) (\<lambda>_.
          give (Err (HarnessFailed (PortOutcomeUnknown operation))))))
      | Inl e \<Rightarrow>
          run_then finish_start_handshake (\<lambda>_.
          run_then (close_run run) (\<lambda>_.
          try_then (store_errors (transition E run Starting Failed None)) (\<lambda>_.
          give (Err (HarnessFailed e))))))"

section \<open>Recovery\<close>

text \<open>Reading all pages; one request more than there are rows is enough, so the fuel never ends.\<close>

definition read_pages ::
    "(db \<Rightarrow> nat) \<Rightarrow> ('k option \<Rightarrow> ('k, 'a) page job) \<Rightarrow> (store_error + 'a list) act" where
  "read_pages rows fetch w =
     ((case collect_pages (Suc (rows (w_db w))) (\<lambda>after. fst (fetch after (w_db w))) None of
         Some r \<Rightarrow> r
       | None \<Rightarrow> Err Closed), w)"

definition open_approval_entries ::
    "run_id \<Rightarrow> provider_run_ref \<Rightarrow> approval_snapshot list \<Rightarrow>
     (approval_request_id \<times> run_id \<times> request_ref) list" where
  "open_approval_entries run provider approvals =
     map (\<lambda>a. (as_id a, run, \<lparr>rq_run = provider, rq_native_id = np_value (as_provider_id a)\<rparr>))
       (filter (\<lambda>a. case as_status a of Pending \<Rightarrow> True | Responding _ \<Rightarrow> True | _ \<Rightarrow> False) approvals)"

definition responding_entries ::
    "approval_snapshot list \<Rightarrow> (approval_request_id \<times> approval_decision) list" where
  "responding_entries approvals =
     List.map_filter (\<lambda>a. case as_status a of Responding d \<Rightarrow> Some (as_id a, d) | _ \<Rightarrow> None) approvals"

definition load_requests ::
    "'z env \<Rightarrow> run_id \<Rightarrow> provider_run_ref \<Rightarrow> (store_error + restored_requests) act" where
  "load_requests E run provider =
     try_then (read_pages (\<lambda>db. length (approval_requests db))
       (\<lambda>after. list_approvals_for_run (en_libs E) run after 200)) (\<lambda>approvals.
     try_then (read_pages (\<lambda>db. length (timeline_items db))
       (\<lambda>after. list_pending_user_inputs_for_run (en_libs E) run after 200)) (\<lambda>inputs.
     give (Ok
       \<lparr>re_approvals = insert_all (open_approval_entries run provider approvals) [],
        re_user_inputs = insert_all
          (map (\<lambda>u. (ui_id u, run, \<lparr>rq_run = provider, rq_native_id = np_value (ui_provider_id u)\<rparr>))
            inputs) [],
        re_approval_responses = insert_all (responding_entries approvals) []\<rparr>)))"

record reattach_plan =
  rp_run :: run_snapshot
  rp_provider_run :: provider_run_ref
  rp_receiver :: nat
  rp_publish_status :: bool

definition restore_requests ::
    "'z env \<Rightarrow> run_snapshot \<Rightarrow> provider_run_ref \<Rightarrow> (orchestration_error + restored_requests) act" where
  "restore_requests E run provider =
     run_then (load_requests E (rs_id run) provider) (\<lambda>r.
       case r of
         Inr restored \<Rightarrow> give (Ok restored)
       | Inl e \<Rightarrow>
           run_then (if rs_status run = Running
               then map_act (\<lambda>_. ()) (transition E (rs_id run) Running Disconnected None)
               else give ()) (\<lambda>_.
           give (Err (StoreFailed e))))"

text \<open>The second half of \<open>prepare_startup_reattach\<close>, once the route is prepared.\<close>

definition bind_reattached ::
    "'z env \<Rightarrow> run_snapshot \<Rightarrow> provider_run_ref \<Rightarrow> nat \<Rightarrow> (orchestration_error + reattach_plan) act" where
  "bind_reattached E run provider channel =
     (let publish_status = (rs_status run \<noteq> Running \<or> rs_provider_id run = None) in
     if publish_status
     then
       run_then (generate (en_now E)) (\<lambda>occurred_at.
       run_then (generate (en_audit_id E)) (\<lambda>audit.
       run_then (store (transition_run (en_libs E)
         \<lparr>tr_run_id = rs_id run, tr_expected_current = rs_status run, tr_target = Running,
          tr_provider_id = Some provider, tr_occurred_at = occurred_at,
          tr_audit_event_id = audit\<rparr>)) (\<lambda>r.
       case r of
         Inr current \<Rightarrow>
           give (Ok \<lparr>rp_run = current, rp_provider_run = provider, rp_receiver = channel,
                     rp_publish_status = True\<rparr>)
       | Inl e \<Rightarrow>
           run_then (drop_receiver channel) (\<lambda>_.
           run_then (remove_route_state (rs_id run) provider) (\<lambda>_.
           give (Err (StoreFailed e)))))))
     else give (Ok \<lparr>rp_run = run, rp_provider_run = provider, rp_receiver = channel,
                    rp_publish_status = False\<rparr>))"

definition prepare_startup_reattach ::
    "'z env \<Rightarrow> run_snapshot \<Rightarrow> provider_run_ref \<Rightarrow> (orchestration_error + reattach_plan) act" where
  "prepare_startup_reattach E run provider =
     try_then (restore_requests E run provider) (\<lambda>restored.
     run_then (prepare_route (rs_id run) (rs_work_item_id run) provider restored)
       (bind_reattached E run provider))"

definition deliver_uncertain_start_events ::
    "'z env \<Rightarrow> run_snapshot \<Rightarrow> provider_run_ref \<Rightarrow> unit act" where
  "deliver_uncertain_start_events E run provider =
     run_then (reads (\<lambda>s. map_of (su_uncertain_starts s) (rs_id run))) (\<lambda>pending.
     run_then (writes (\<lambda>s.
       s\<lparr>su_uncertain_start_order := removeAll (rs_id run) (su_uncertain_start_order s),
         su_uncertain_starts := AList.delete (rs_id run) (su_uncertain_starts s)\<rparr>)) (\<lambda>_.
     case pending of
       None \<Rightarrow> give ()
     | Some p \<Rightarrow>
         run_then (reads (\<lambda>s. map_of (su_routes s) provider)) (\<lambda>route.
           case route of
             None \<Rightarrow> handle_route_overflow E (rs_id run) (rs_work_item_id run)
           | Some channel \<Rightarrow>
               deliver E (rs_id run) (rs_work_item_id run) channel (st_overflow p)
                 (case map_of (st_events p) provider of Some es \<Rightarrow> es | None \<Rightarrow> []))))"

definition activate_startup_reattach :: "'z env \<Rightarrow> reattach_plan \<Rightarrow> unit act" where
  "activate_startup_reattach E plan =
     (let run = rp_run plan in
      run_then (activate_route (rs_id run) (rp_receiver plan)) (\<lambda>_.
      run_then (if rp_publish_status plan
          then publish E (rs_work_item_id run) (RunStatusChanged (rs_id run) Running)
          else give ()) (\<lambda>_.
      deliver_uncertain_start_events E run (rp_provider_run plan))))"

definition reattach_run ::
    "'z env \<Rightarrow> run_snapshot \<Rightarrow> provider_run_ref \<Rightarrow> (orchestration_error + run_snapshot) act" where
  "reattach_run E run provider =
     run_then (reads (\<lambda>s. map_of (su_runs s) (rs_id run) \<noteq> None)) (\<lambda>attached.
     if attached
     then run_then (writes (\<lambda>s. s\<lparr>su_uncertain_runs := removeAll (rs_id run) (su_uncertain_runs s)\<rparr>)) (\<lambda>_.
       give (Ok run))
     else try_then (prepare_startup_reattach E run provider) (\<lambda>plan.
       run_then (activate_startup_reattach E plan) (\<lambda>_. give (Ok (rp_run plan)))))"

definition provider_of_run ::
    "(connection_id \<Rightarrow> run_id \<Rightarrow> port_error + provider_run_ref option) \<Rightarrow> run_snapshot \<Rightarrow>
     orchestration_error + provider_run_ref" where
  "provider_of_run lookup_run snapshot =
     (case rs_provider_id snapshot of
        Some p \<Rightarrow> Ok p
      | None \<Rightarrow>
          and_then (map_err HarnessFailed
            (lookup_run (rs_connection_id snapshot) (rs_id snapshot))) (\<lambda>found.
          case found of Some p \<Rightarrow> Ok p | None \<Rightarrow> Err (RunNeedsReconciliation (rs_id snapshot))))"

text \<open>\<open>reconcile_run\<close>: the answers of \<open>lookup_run\<close> and \<open>reconnect\<close> are functions of the request.\<close>

definition reconcile_run ::
    "'z env \<Rightarrow> (connection_id \<Rightarrow> run_id \<Rightarrow> port_error + provider_run_ref option) \<Rightarrow>
     (provider_run_ref \<Rightarrow> port_error + bool) \<Rightarrow> run_id \<Rightarrow> (orchestration_error + run_snapshot) act" where
  "reconcile_run E lookup_run reconnect run =
     try_then await_startup (\<lambda>_.
     try_then (store_errors (store (get_run (en_libs E) run))) (\<lambda>snapshot.
     try_then (give (provider_of_run lookup_run snapshot)) (\<lambda>provider.
     try_then (give (map_err HarnessFailed (reconnect provider))) (\<lambda>reconnected.
     if reconnected then reattach_run E snapshot provider
     else give (Err (RunNeedsReconciliation run))))))"

section \<open>Start-up\<close>

definition drop_plans :: "reattach_plan list \<Rightarrow> unit act" where
  "drop_plans plans =
     for_each (\<lambda>p. run_then (drop_receiver (rp_receiver p)) (\<lambda>_.
       remove_route_state (rs_id (rp_run p)) (rp_provider_run p))) plans"

definition startup_fall_back :: "'z env \<Rightarrow> run_snapshot \<Rightarrow> (store_error + unit) act" where
  "startup_fall_back E run =
     (case lost_target (rs_status run) of
        Some target \<Rightarrow> map_act (map_ok (\<lambda>_. ())) (transition E (rs_id run) (rs_status run) target None)
      | None \<Rightarrow> give (Ok ()))"

definition drop_receivers :: "reattach_plan list \<Rightarrow> unit act" where
  "drop_receivers plans = for_each (\<lambda>p. drop_receiver (rp_receiver p)) plans"

text \<open>
  One run of a page. A failure drops the plans prepared so far; when the run has no provider
  identity, only their receivers.
\<close>

definition recover_run ::
    "'z env \<Rightarrow> (provider_run_ref \<Rightarrow> port_error + bool) \<Rightarrow> reattach_plan list \<Rightarrow> run_snapshot \<Rightarrow>
     (orchestration_error + reattach_plan list) act" where
  "recover_run E reconnect prepared run =
     (case rs_provider_id run of
        None \<Rightarrow>
          run_then (store_errors (startup_fall_back E run)) (\<lambda>r.
          case r of
            Inr _ \<Rightarrow> give (Ok prepared)
          | Inl e \<Rightarrow> run_then (drop_receivers prepared) (\<lambda>_. give (Err e)))
      | Some provider \<Rightarrow>
          let can_reconnect = (case reconnect provider of Inr b \<Rightarrow> b | Inl _ \<Rightarrow> False) in
          run_then (if can_reconnect
              then map_act (map_ok (\<lambda>plan. prepared @ [plan])) (prepare_startup_reattach E run provider)
              else store_errors (map_act (map_ok (\<lambda>_. prepared)) (startup_fall_back E run))) (\<lambda>r.
          case r of
            Inr plans \<Rightarrow> give (Ok plans)
          | Inl e \<Rightarrow> run_then (drop_plans prepared) (\<lambda>_. give (Err e))))"

fun recover_runs ::
    "'z env \<Rightarrow> (provider_run_ref \<Rightarrow> port_error + bool) \<Rightarrow> reattach_plan list \<Rightarrow> run_snapshot list \<Rightarrow>
     (orchestration_error + reattach_plan list) act" where
  "recover_runs E reconnect prepared [] = give (Ok prepared)"
| "recover_runs E reconnect prepared (run # rest) =
     try_then (recover_run E reconnect prepared run) (\<lambda>plans. recover_runs E reconnect plans rest)"

text \<open>The loop over the pages; \<open>None\<close> when the fuel, one request each, is used up.\<close>

fun recover_pages ::
    "nat \<Rightarrow> 'z env \<Rightarrow> (provider_run_ref \<Rightarrow> port_error + bool) \<Rightarrow> reattach_plan list \<Rightarrow> run_id option \<Rightarrow>
     world \<Rightarrow> ((orchestration_error + unit) \<times> world) option" where
  "recover_pages 0 E reconnect prepared after w = None"
| "recover_pages (Suc fuel) E reconnect prepared after w =
     (case store (list_runs_needing_reconciliation (en_libs E) after 200) w of
        (Inl e, w1) \<Rightarrow> Some (run_then (drop_plans prepared) (\<lambda>_. give (Err (StoreFailed e))) w1)
      | (Inr page, w1) \<Rightarrow>
          (case recover_runs E reconnect prepared (pg_items page) w1 of
             (Inl e, w2) \<Rightarrow> Some (Err e, w2)
           | (Inr plans, w2) \<Rightarrow>
               (case pg_next_after page of
                  None \<Rightarrow> Some (run_then (for_each (activate_startup_reattach E) plans) (\<lambda>_. give (Ok ())) w2)
                | Some next \<Rightarrow> recover_pages fuel E reconnect plans (Some next) w2)))"

definition reconcile_startup ::
    "'z env \<Rightarrow> (provider_run_ref \<Rightarrow> port_error + bool) \<Rightarrow> nat \<Rightarrow> world \<Rightarrow>
     ((orchestration_error + unit) \<times> world) option" where
  "reconcile_startup E reconnect fuel w = recover_pages fuel E reconnect [] None w"

definition boot ::
    "'z env \<Rightarrow> (provider_run_ref \<Rightarrow> port_error + bool) \<Rightarrow> nat \<Rightarrow> db \<Rightarrow> nat \<Rightarrow> world option" where
  "boot E reconnect fuel db tick =
     map_option (\<lambda>(r, w). w\<lparr>w_startup_error := (case r of Inl e \<Rightarrow> Some e | Inr _ \<Rightarrow> None)\<rparr>)
       (reconcile_startup E reconnect fuel
         \<lparr>w_db = db, w_state = empty_state, w_consumers = [], w_pump = False, w_events = [],
          w_calls = [], w_startup_error = None, w_tick = tick\<rparr>)"

end
