(* ===== verification/Supervisor_Steps.thy ===== *)
theory Supervisor_Steps
  imports Supervisor_Runs
begin

text \<open>
  The interleavings of the supervisor's handlers, and what every handler preserves.

  A caller that waits for the harness is a flight; the lock of \<open>start_run\<close> admits one start at a
  time. A step runs one handler: a call, the arrival of an answer, a turn of the event pump or of a
  consumer, a reconciliation, or an operation another client runs on the store.

  \<open>steady\<close> is the contract between the handlers and an invariant: an invariant that survives the
  primitive updates survives every handler, hence every run.
\<close>

section \<open>Steps\<close>

datatype flight =
  StartFlight work_item_id run_id
| CallFlight run_id work_item_id
| ApprovalFlight approval_request_id run_id work_item_id
| InputFlight timeline_item_id run_id work_item_id

type_synonym config = "world \<times> flight list"

inductive sup_step :: "'z env \<Rightarrow> config \<Rightarrow> config \<Rightarrow> bool" for E where
  step_start: "(\<And>j r. StartFlight j r \<notin> set fl) \<Longrightarrow>
    start_run_call E i connection input w = (Ok run, w') \<Longrightarrow>
    sup_step E (w, fl) (w', StartFlight i run # fl)"
| step_start_refused: "(\<And>j r. StartFlight j r \<notin> set fl) \<Longrightarrow>
    start_run_call E i connection input w = (Err e, w') \<Longrightarrow> sup_step E (w, fl) (w', fl)"
| step_started: "StartFlight i run \<in> set fl \<Longrightarrow> (\<And>p. answer = Ok p \<Longrightarrow> wf_run_identity p) \<Longrightarrow>
    start_run_answered E i run answer w = (x, w') \<Longrightarrow>
    sup_step E (w, fl) (w', remove1 (StartFlight i run) fl)"
| step_steer: "steer_call run input w = (Ok (run, i), w') \<Longrightarrow>
    sup_step E (w, fl) (w', CallFlight run i # fl)"
| step_interrupt: "interrupt_call run w = (Ok (run, i), w') \<Longrightarrow>
    sup_step E (w, fl) (w', CallFlight run i # fl)"
| step_called: "CallFlight run i \<in> set fl \<Longrightarrow>
    call_answered E run i (answer :: port_error + unit) w = (x, w') \<Longrightarrow>
    sup_step E (w, fl) (w', remove1 (CallFlight run i) fl)"
| step_resolve: "resolve_approval_call E a d w = (Ok (run, i), w') \<Longrightarrow>
    sup_step E (w, fl) (w', ApprovalFlight a run i # fl)"
| step_resolve_refused: "resolve_approval_call E a d w = (Err e, w') \<Longrightarrow> sup_step E (w, fl) (w', fl)"
| step_resolved: "ApprovalFlight a run i \<in> set fl \<Longrightarrow>
    resolve_approval_answered E a run i answer w = (x, w') \<Longrightarrow>
    sup_step E (w, fl) (w', remove1 (ApprovalFlight a run i) fl)"
| step_respond: "respond_user_input_call q response w = (Ok (run, i), w') \<Longrightarrow>
    sup_step E (w, fl) (w', InputFlight q run i # fl)"
| step_responded: "InputFlight q run i \<in> set fl \<Longrightarrow>
    respond_user_input_answered E q run i answer w = (x, w') \<Longrightarrow>
    sup_step E (w, fl) (w', remove1 (InputFlight q run i) fl)"
| step_pump: "w_pump w \<Longrightarrow> pump_turn E next w = (x, w') \<Longrightarrow> sup_step E (w, fl) (w', fl)"
| step_consume: "consume_turn E c w = (x, w') \<Longrightarrow> sup_step E (w, fl) (w', fl)"
| step_reconcile: "(\<And>c r p. lookup_run c r = Ok (Some p) \<Longrightarrow> wf_run_identity p) \<Longrightarrow>
    reconcile_run E lookup_run reconnect run w = (x, w') \<Longrightarrow> sup_step E (w, fl) (w', fl)"
| step_store: "store_step (en_libs E) (w_db w) db' \<Longrightarrow> sup_step E (w, fl) (w\<lparr>w_db := db'\<rparr>, fl)"

inductive sup_run :: "'z env \<Rightarrow> config \<Rightarrow> bool" for E where
  run_boot: "reachable (en_libs E) db \<Longrightarrow> boot E reconnect fuel db tick = Some w \<Longrightarrow> sup_run E (w, [])"
| run_step: "sup_run E c \<Longrightarrow> sup_step E c c' \<Longrightarrow> sup_run E c'"

section \<open>Preservation\<close>

definition preserves :: "(world \<Rightarrow> bool) \<Rightarrow> 'a act \<Rightarrow> bool" where
  "preserves P m \<longleftrightarrow> (\<forall>w. P w \<longrightarrow> P (snd (m w)))"

named_theorems steady_intros

lemma preservesD: "preserves P m \<Longrightarrow> P w \<Longrightarrow> m w = (x, w') \<Longrightarrow> P w'"
  by (force simp: preserves_def)

lemma preserves_give [steady_intros]: "preserves P (give a)"
  by (simp add: preserves_def give_def)

lemma preserves_reads [steady_intros]: "preserves P (reads f)"
  by (simp add: preserves_def reads_def)

lemma preserves_await [steady_intros]: "preserves P await_startup"
  by (simp add: preserves_def await_startup_def)

lemma preserves_run_then [steady_intros]:
  "preserves P m \<Longrightarrow> (\<And>a. preserves P (f a)) \<Longrightarrow> preserves P (run_then m f)"
  by (auto simp: preserves_def run_then_def split: prod.splits)

lemma preserves_try_then [steady_intros]:
  assumes "preserves P m" and "\<And>a. preserves P (f a)"
  shows "preserves P (try_then m f)"
  unfolding preserves_def
proof (intro allI impI)
  fix w
  assume "P w"
  obtain r w' where m: "m w = (r, w')" by (cases "m w")
  with assms(1) \<open>P w\<close> have "P w'" by (force simp: preserves_def)
  with m assms(2) show "P (snd (try_then m f w))"
    by (cases r) (auto simp: try_then_def preserves_def)
qed

lemma preserves_map_act [steady_intros]: "preserves P m \<Longrightarrow> preserves P (map_act f m)"
  by (auto simp: preserves_def map_act_def split: prod.splits)

lemma preserves_read:
  assumes "\<And>db. snd (j db) = db"
  shows "preserves P (store j)"
  unfolding preserves_def store_def
proof (intro allI impI)
  fix w
  assume "P w"
  with assms [of "w_db w"] show "P (snd (case j (w_db w) of (r, db) \<Rightarrow> (r, w\<lparr>w_db := db\<rparr>)))"
    by (cases "j (w_db w)") simp
qed

lemma read_jobs: "snd (get_run L r db) = db" "snd (get_stream_cursor L q db) = db"
  "snd (list_runs_needing_reconciliation L after limit db) = db"
  by (simp_all add: get_run_def get_stream_cursor_def read_only_def validated_def
      list_runs_needing_reconciliation_def list_runs_where_def split: sum.splits)

lemma preserves_read_pages [steady_intros]: "preserves P (read_pages rows fetch)"
  by (simp add: preserves_def read_pages_def)

lemmas preserves_read_jobs [steady_intros] = read_jobs [THEN preserves_read]

lemma preserves_send_result [steady_intros]:
  "preserves P a \<Longrightarrow> preserves P b \<Longrightarrow> preserves P c \<Longrightarrow>
     preserves P (case r of Sent \<Rightarrow> a | ChannelFull \<Rightarrow> b | ChannelClosed \<Rightarrow> c)"
  by (cases r) auto

lemma preserves_store_errors [steady_intros]: "preserves P m \<Longrightarrow> preserves P (store_errors m)"
  by (simp add: store_errors_def preserves_map_act)

lemma preserves_if [steady_intros]:
  "(b \<Longrightarrow> preserves P m) \<Longrightarrow> (\<not> b \<Longrightarrow> preserves P m') \<Longrightarrow> preserves P (if b then m else m')"
  by simp

lemma preserves_option [steady_intros]:
  "(x = None \<Longrightarrow> preserves P m) \<Longrightarrow> (\<And>a. x = Some a \<Longrightarrow> preserves P (f a)) \<Longrightarrow>
     preserves P (case x of None \<Rightarrow> m | Some a \<Rightarrow> f a)"
  by (cases x) auto

lemma preserves_sum [steady_intros]:
  "(\<And>e. x = Inl e \<Longrightarrow> preserves P (g e)) \<Longrightarrow> (\<And>a. x = Inr a \<Longrightarrow> preserves P (f a)) \<Longrightarrow>
     preserves P (case x of Inl e \<Rightarrow> g e | Inr a \<Rightarrow> f a)"
  by (cases x) auto

lemma preserves_prod [steady_intros]:
  "(\<And>a b. x = (a, b) \<Longrightarrow> preserves P (f a b)) \<Longrightarrow> preserves P (case x of (a, b) \<Rightarrow> f a b)"
  by (cases x) auto

lemma preserves_let [steady_intros]: "preserves P (f x) \<Longrightarrow> preserves P (Let x f)"
  by simp

lemma preserves_for_each [steady_intros]:
  "(\<And>x. preserves P (f x)) \<Longrightarrow> preserves P (for_each f xs)"
  by (induction xs) (auto intro: steady_intros)

lemma preserves_generate_frame:
  "(\<And>w. P w \<Longrightarrow> P (w\<lparr>w_tick := w_tick w + 1\<rparr>)) \<Longrightarrow> preserves P (generate g)"
  by (simp add: preserves_def generate_def)

lemma preserves_writes: "(\<And>w. P w \<Longrightarrow> P (w\<lparr>w_state := f (w_state w)\<rparr>)) \<Longrightarrow> preserves P (writes f)"
  by (simp add: preserves_def writes_def)

text \<open>Facts about a handler's result, whatever the world.\<close>

definition yields :: "'a act \<Rightarrow> ('a \<Rightarrow> bool) \<Rightarrow> bool" where
  "yields m Q \<longleftrightarrow> (\<forall>w. Q (fst (m w)))"

definition yields_ok :: "('e + 'a) act \<Rightarrow> ('a \<Rightarrow> bool) \<Rightarrow> bool" where
  "yields_ok m Q \<longleftrightarrow> (\<forall>w a w'. m w = (Ok a, w') \<longrightarrow> Q a)"

lemma preserves_run_then_yields:
  assumes "yields m Q" and "preserves P m" and "\<And>a. Q a \<Longrightarrow> preserves P (f a)"
  shows "preserves P (run_then m f)"
  unfolding preserves_def
proof (intro allI impI)
  fix w
  assume "P w"
  obtain a w' where m: "m w = (a, w')" by (cases "m w")
  from m assms(1) have "Q a" by (metis yields_def fst_conv)
  moreover from m assms(2) \<open>P w\<close> have "P w'" by (metis preserves_def snd_conv)
  ultimately show "P (snd (run_then m f w))" using m assms(3) by (simp add: run_then_def preserves_def)
qed

lemma preserves_try_then_yields:
  assumes "preserves P m" and "yields_ok m Q" and "\<And>a. Q a \<Longrightarrow> preserves P (f a)"
  shows "preserves P (try_then m f)"
  unfolding preserves_def
proof (intro allI impI)
  fix w
  assume "P w"
  obtain r w' where m: "m w = (r, w')" by (cases "m w")
  with assms(1) \<open>P w\<close> have "P w'" by (force simp: preserves_def)
  with m assms(2,3) show "P (snd (try_then m f w))"
    by (cases r) (auto simp: try_then_def preserves_def yields_ok_def)
qed

lemma preserves_try_then_post:
  assumes "preserves P m" and "\<And>w a w'. P w \<Longrightarrow> m w = (Ok a, w') \<Longrightarrow> Q a w'"
    and "\<And>a w. P w \<Longrightarrow> Q a w \<Longrightarrow> P (snd (f a w))"
  shows "preserves P (try_then m f)"
  unfolding preserves_def
proof (intro allI impI)
  fix w
  assume "P w"
  obtain r w' where m: "m w = (r, w')" by (cases "m w")
  with assms(1) \<open>P w\<close> have "P w'" by (auto intro: preservesD)
  with m \<open>P w\<close> assms(2,3) show "P (snd (try_then m f w))"
    by (cases r) (auto simp: try_then_def)
qed

lemma yields_ok_try_then:
  "(\<And>a. yields_ok (f a) Q) \<Longrightarrow> yields_ok (try_then m f) Q"
  by (auto simp: yields_ok_def try_then_def split: prod.splits sum.splits)

definition wf_item :: "new_timeline_item \<Rightarrow> bool" where
  "wf_item x \<longleftrightarrow> (\<forall>p. ni_provider_id x = Some p \<longrightarrow> wf_provider_id p)"

lemma wf_item_simps [simp]:
  "wf_item \<lparr>ni_id = i, ni_kind = k, ni_body = b, ni_provider_id = x\<rparr> \<longleftrightarrow>
     (\<forall>p. x = Some p \<longrightarrow> wf_provider_id p)"
  by (simp add: wf_item_def)

lemma wf_timeline_batch_items: "wf_timeline_batch b \<longleftrightarrow> list_all wf_item (tb_items b)"
  by (simp add: wf_timeline_batch_def wf_item_def [abs_def])

lemma namespaced_provider_id_wf: "namespaced_provider_id_new n v = Ok p \<Longrightarrow> wf_provider_id p"
  by (auto simp: namespaced_provider_id_new_def wf_provider_id_def and_then_eq_Ok)

lemma request_provider_id_wf: "request_provider_id r = Ok p \<Longrightarrow> wf_provider_id p"
  by (auto simp: request_provider_id_def intro: namespaced_provider_id_wf)

lemma command_provider_id_wf: "command_provider_id c = Ok p \<Longrightarrow> wf_provider_id p"
  by (auto simp: command_provider_id_def intro: namespaced_provider_id_wf)

lemma command_items_wf: "yields_ok (command_items E cs) (list_all wf_item)"
proof (induction cs)
  case (Cons x cs)
  obtain c t out where x: "x = (c, t, out)" by (cases x)
  show ?case
    unfolding yields_ok_def
  proof (intro allI impI)
    fix w items w'
    assume "command_items E (x # cs) w = (Ok items, w')"
    then obtain p rest w1 where "command_provider_id c = Ok p" "command_items E cs w1 = (Ok rest, w')"
        "items = \<lparr>ni_id = en_item_id E (w_tick w), ni_kind = ''command_output_delta_batch'',
          ni_body = lines2 t out, ni_provider_id = Some p\<rparr> # rest"
      by (auto simp: x act_defs split: prod.splits sum.splits)
    with Cons show "list_all wf_item items"
      by (auto simp: yields_ok_def command_provider_id_wf)
  qed
qed (simp add: yields_ok_def give_def)

lemma take_items_wf: "yields_ok (take_items E d) (list_all wf_item)"
  unfolding yields_ok_def
proof (intro allI impI)
  fix w items w'
  assume "take_items E d w = (Ok items, w')"
  then obtain ms cs w1 where "fst (message_items E (de_message d) w) = ms"
      "command_items E (sort_key (\<lambda>(c, _). cm_native_id c) (de_commands d)) w1 = (Ok cs, w')"
      "items = ms @ cs"
    by (auto simp: take_items_def act_defs split: prod.splits sum.splits)
  moreover from this have "list_all wf_item ms"
    by (auto simp: message_items_def act_defs)
  ultimately show "list_all wf_item items"
    using command_items_wf [unfolded yields_ok_def] by fastforce
qed

lemma provider_run_identity_new_wf:
  assumes "provider_run_identity_new a b c d = Ok p"
  shows "wf_run_identity p"
proof -
  have "p = \<lparr>pri_namespace = a, pri_runtime_id = b, pri_session_id = c, pri_run_id = d\<rparr>"
    using assms by (auto simp: provider_run_identity_new_def and_then_eq_Ok)
  with assms show ?thesis by (simp add: wf_run_identity_def)
qed

lemma provider_column_wf:
  assumes "provider_run_identity_column a b c d = Ok (Some p)"
  shows "wf_run_identity p"
proof -
  obtain ns rt se r where "a = Some ns" "b = Some rt" "c = Some se" "d = Some r"
    using assms by (cases a; cases b; cases c; cases d) (simp_all add: provider_run_identity_column_def)
  with assms have "provider_run_identity_new ns rt se r = Ok p"
    by (cases "provider_run_identity_new ns rt se r")
      (simp_all add: provider_run_identity_column_def conversion_failure_def)
  then show ?thesis by (rule provider_run_identity_new_wf)
qed

lemma run_from_row_provider:
  "run_from_row row = Ok s \<Longrightarrow> rs_provider_id s = Some p \<Longrightarrow> wf_run_identity p"
  by (auto simp: run_from_row_def and_then_eq_Ok intro: provider_column_wf)

lemma get_run_Ok:
  assumes "get_run L r db = (Ok s, db')"
  obtains row where "row \<in> set (runs db)" "rr_id row = r" "run_from_row row = Ok s" "db' = db"
proof -
  have fetch: "fetch_run L r db = Ok s" and db': "db' = db"
    using assms by (auto simp: get_run_def read_only_def)
  show thesis
  proof (cases "List.find (\<lambda>x. rr_id x = r) (runs db)")
    case None
    with fetch show thesis by (simp add: fetch_run_def find_run_def query_optional_def)
  next
    case (Some row)
    with fetch have "run_from_row row = Ok s"
      by (cases "run_from_row row") (simp_all add: fetch_run_def find_run_def query_optional_def sql_def)
    with Some db' that show thesis by (auto dest: find_Some_iff')
  qed
qed

lemma get_run_wf:
  assumes "get_run L r db = (Ok s, db')"
  shows "\<forall>p. rs_provider_id s = Some p \<longrightarrow> wf_run_identity p"
  using assms by (rule get_run_Ok) (blast intro: run_from_row_provider)

lemma list_page_rows:
  assumes "list_page L key conv cursor P after limit rows = Ok page" and "a \<in> set (pg_items page)"
  shows "\<exists>row\<in>set rows. P row \<and> conv row = Ok a"
proof -
  obtain items where items: "collect_results conv (select_page key P after (limit + 1) rows) = Ok items"
      "pg_items page = take limit items"
    using assms(1) by (auto simp: list_page_def and_then_eq_Ok Let_def)
  with assms(2) have "a \<in> set items" by (auto dest: in_set_takeD)
  moreover have "set (select_page key P after (limit + 1) rows) \<subseteq> {row \<in> set rows. P row}"
    by (auto simp: select_page_def dest: in_set_takeD)
  ultimately show ?thesis
    using items(1) by (fastforce simp: collect_results_eq_Ok list_all2_conv_all_nth in_set_conv_nth)
qed

lemma reconciliation_page_rows:
  assumes "list_runs_needing_reconciliation L after limit db = (Ok page, db')"
    and "run \<in> set (pg_items page)"
  shows "\<exists>row\<in>set (runs db). run_from_row row = Ok run"
  using assms
  by (auto simp: list_runs_needing_reconciliation_def list_runs_where_def read_only_def and_then_eq_Ok
      dest!: list_page_rows)

section \<open>The contract of an invariant\<close>

text \<open>First the updates outside the supervisor's own state.\<close>

locale steady_store =
  fixes E :: "'z env" and P :: "world \<Rightarrow> bool"
  assumes tick: "P w \<Longrightarrow> P (w\<lparr>w_tick := w_tick w + 1\<rparr>)"
    and events: "P w \<Longrightarrow> P (w\<lparr>w_events := es\<rparr>)"
    and pump: "P w \<Longrightarrow> P (w\<lparr>w_pump := b\<rparr>)"
    and quiet_call: "(\<And>request answer. call \<noteq> CallRespond request (ApprovalAnswer answer)) \<Longrightarrow> P w \<Longrightarrow>
      P (w\<lparr>w_calls := w_calls w @ [call]\<rparr>)"
    and db_step: "P w \<Longrightarrow> store_step (en_libs E) (w_db w) db' \<Longrightarrow> P (w\<lparr>w_db := db'\<rparr>)"
begin

lemma preserves_generate [steady_intros]: "preserves P (generate g)"
  using tick by (rule preserves_generate_frame)

lemma preserves_publish [steady_intros]: "preserves P (publish E i k)"
  using events by (simp add: preserves_def publish_def)

lemma preserves_pump [steady_intros]: "preserves P ensure_event_pump"
  using pump by (simp add: preserves_def ensure_event_pump_def)

lemma preserves_pump_off [steady_intros]: "preserves P (\<lambda>w. ((), w\<lparr>w_pump := False\<rparr>))"
  using pump by (simp add: preserves_def)

lemma preserves_quiet_call [steady_intros]:
  "(\<And>request d. c \<noteq> CallRespond request (ApprovalAnswer d)) \<Longrightarrow> preserves P (calls c)"
  using quiet_call by (simp add: preserves_def calls_def)

lemma preserves_store:
  assumes "\<And>db r db'. j db = (r, db') \<Longrightarrow> store_step (en_libs E) db db'"
  shows "preserves P (store j)"
  unfolding preserves_def store_def
proof (intro allI impI)
  fix w
  assume "P w"
  with assms [of "w_db w"] show "P (snd (case j (w_db w) of (r, db) \<Rightarrow> (r, w\<lparr>w_db := db\<rparr>)))"
    by (cases "j (w_db w)") (simp add: db_step)
qed

lemma preserves_transition_run:
  "(\<And>p. provider = Some p \<Longrightarrow> wf_run_identity p) \<Longrightarrow>
     preserves P (store (transition_run (en_libs E)
       \<lparr>tr_run_id = r, tr_expected_current = a, tr_target = b, tr_provider_id = provider,
        tr_occurred_at = t, tr_audit_event_id = u\<rparr>))"
  by (intro preserves_store step_transition_run) (auto simp: wf_transition_run_def)

lemma preserves_transition [steady_intros]:
  "(\<And>p. provider = Some p \<Longrightarrow> wf_run_identity p) \<Longrightarrow> preserves P (transition E r a b provider)"
  unfolding transition_def by (intro steady_intros preserves_transition_run)

lemma preserves_status_handlers [steady_intros]:
  "preserves P (transition_to_terminal E r b)"
  "preserves P (transition_to_disconnected E r)"
  "preserves P (fall_back E r a)"
  "preserves P (startup_fall_back E run)"
  "preserves P (consumption_failed E r i)"
  "preserves P (mark_outcome_unknown E r)"
  unfolding transition_to_terminal_def transition_to_disconnected_def fall_back_def
    startup_fall_back_def consumption_failed_def mark_outcome_unknown_def
  by (intro steady_intros; simp)+

lemma preserves_restore_requests [steady_intros]: "preserves P (restore_requests E run p)"
  unfolding restore_requests_def load_requests_def by (intro steady_intros) simp

end

text \<open>
  Then the state, the channels, and the handlers that send an approval's decision or restore
  approvals, which need more than their parts. \<open>startable\<close> is what is known of a run whose start is
  under way.
\<close>

locale steady = steady_store E P for E :: "'z env" and P :: "world \<Rightarrow> bool" +
  fixes startable :: "run_id \<Rightarrow> world \<Rightarrow> bool"
  assumes channel: "P w \<Longrightarrow> P (snd (new_channel r i p w))"
    and spawned: "P w \<Longrightarrow> P (snd (spawn_consumer c w))"
    and dropped: "P w \<Longrightarrow> P (snd (drop_receiver c w))"
    and sent: "P w \<Longrightarrow> P (snd (try_send c e w))"
    and popped: "P w \<Longrightarrow> c < length (w_consumers w) \<Longrightarrow> co_queue (w_consumers w ! c) = e # rest \<Longrightarrow>
      P (snd (update_consumer c (\<lambda>k. k\<lparr>co_queue := rest\<rparr>) w))"
    and buffered_deltas: "P w \<Longrightarrow> P (snd (update_consumer c (\<lambda>k. k\<lparr>co_deltas := deltas\<rparr>) w))"
    and buffer_handshake: "preserves P (writes (buffer_handshake_event p e))"
    and closed: "preserves P (close_run r)"
    and emptied: "preserves P (writes (\<lambda>_. empty_state))"
    and removed: "preserves P (remove_route_state r p)"
    and attached: "preserves P (writes (\<lambda>s. s\<lparr>su_runs := AList.update r p (su_runs s),
      su_runs_by_provider := AList.update p r (su_runs_by_provider s),
      su_routes := AList.update p c (su_routes s)\<rparr>))"
    and prepared: "preserves P (prepare_route r i p no_requests)"
    and restored: "preserves P (try_then (restore_requests E run p)
      (\<lambda>x. run_then (prepare_route (rs_id run) (rs_work_item_id run) p x) (\<lambda>k. give (Ok k))))"
    and uncertain: "preserves P (writes (\<lambda>s. s\<lparr>su_uncertain_runs := List.insert r (su_uncertain_runs s)\<rparr>))"
    and certain: "preserves P (writes (\<lambda>s. s\<lparr>su_uncertain_runs := removeAll r (su_uncertain_runs s)\<rparr>))"
    and approval_opened: "preserves P (open_approval E r i request summary)"
    and approval_resolving: "preserves P (resolve_approval_call E a d)"
    and approval_done: "preserves P (writes (\<lambda>s. s\<lparr>su_approvals := AList.delete a (su_approvals s),
      su_approval_responses := AList.delete a (su_approval_responses s)\<rparr>))"
    and input_opened: "preserves P (writes (\<lambda>s. s\<lparr>su_user_inputs := AList.update q (r, request) (su_user_inputs s)\<rparr>))"
    and input_done: "preserves P (writes (\<lambda>s. s\<lparr>su_user_inputs := AList.delete q (su_user_inputs s)\<rparr>))"
    and handshake_done: "preserves P finish_start_handshake"
    and starting: "preserves P (writes (\<lambda>s. s\<lparr>su_work_items := AList.update r i (su_work_items s),
      su_start_in_progress := Some r, su_pending_events := [], su_pending_overflow := False\<rparr>))"
    and retained: "P w \<Longrightarrow> startable r w \<Longrightarrow> P (snd (retain_unknown_handshake r w))"
    and forgotten: "preserves P (writes (\<lambda>s. s\<lparr>su_uncertain_start_order := removeAll r (su_uncertain_start_order s),
      su_uncertain_starts := AList.delete r (su_uncertain_starts s)\<rparr>))"
begin

lemma preserves_primitives [steady_intros]:
  "preserves P (new_channel r i p)" "preserves P (spawn_consumer c)" "preserves P (drop_receiver c)"
  "preserves P (try_send c e)" "preserves P (update_consumer c (\<lambda>k. k\<lparr>co_deltas := deltas\<rparr>))"
  using channel spawned dropped sent buffered_deltas by (simp_all add: preserves_def)

lemmas primitive_writes [steady_intros] = buffer_handshake closed emptied removed attached prepared
  uncertain certain approval_opened approval_resolving approval_done input_opened input_done
  handshake_done starting forgotten

lemma preserves_end_consumer [steady_intros]: "preserves P (end_consumer c r)"
  unfolding end_consumer_def by (intro steady_intros)

lemma preserves_routes [steady_intros]:
  "preserves P (activate_route r c)"
  "preserves P (attach_route E r i p)"
  "preserves P (handle_route_overflow E r i)"
  unfolding activate_route_def attach_route_def handle_route_overflow_def
  by (intro steady_intros; simp)+

lemma preserves_send_all [steady_intros]: "preserves P (send_all c es)"
  by (induction es) (auto intro: steady_intros)

lemma preserves_deliver [steady_intros]: "preserves P (deliver E r i c overflow es)"
  unfolding deliver_def by (intro steady_intros)

lemma preserves_pump_turn [steady_intros]: "preserves P (pump_turn E next)"
  unfolding pump_turn_def route_event_def handle_pump_failure_def fail_run_def
  by (intro steady_intros)

lemma preserves_append_run_items:
  "list_all wf_item items \<Longrightarrow> preserves P (append_run_items E r i items stream)"
  unfolding append_run_items_def Let_def
  by (intro steady_intros preserves_store step_append) (auto simp: wf_timeline_batch_items)

lemma preserves_append_to_run:
  "list_all wf_item items \<Longrightarrow> preserves P (append_to_run E r i p items)"
  unfolding append_to_run_def by (intro steady_intros preserves_append_run_items)

lemma preserves_message_items [steady_intros]: "preserves P (message_items E m)"
  unfolding message_items_def by (intro steady_intros)

lemma preserves_command_items [steady_intros]: "preserves P (command_items E cs)"
proof (induction cs)
  case (Cons x cs)
  obtain c t out where "x = (c, t, out)" by (cases x)
  with Cons show ?case by (auto intro!: steady_intros)
qed (auto intro: steady_intros)

lemma preserves_take_items [steady_intros]: "preserves P (take_items E d)"
  unfolding take_items_def by (intro steady_intros)

lemma preserves_new_item [steady_intros]: "preserves P (new_item E k b x)"
  unfolding new_item_def by (intro steady_intros)

lemma preserves_with_item:
  assumes "list_all wf_item items" and "\<And>x. provider = Some x \<Longrightarrow> wf_provider_id x"
  shows "preserves P (run_then (new_item E k b provider) (\<lambda>item. append_to_run E r i p (items @ [item])))"
proof (rule preserves_run_then_yields [where Q = wf_item])
  show "yields (new_item E k b provider) wf_item"
    using assms(2) by (simp add: yields_def new_item_def run_then_def generate_def give_def)
qed (use assms(1) in \<open>auto intro!: steady_intros preserves_append_to_run\<close>)

lemma preserves_open_user_input:
  assumes "list_all wf_item items"
  shows "preserves P (open_user_input E r i p items request prompt)"
  unfolding open_user_input_def
  by (rule steady_intros preserves_try_then_yields [where Q = wf_provider_id])+
    (use assms in \<open>auto simp: yields_ok_def give_def request_provider_id_wf
      intro!: steady_intros preserves_append_to_run\<close>)

lemma preserves_apply_authoritative:
  assumes "list_all wf_item items"
  shows "preserves P (apply_authoritative E r i p items event)"
proof (cases event)
  case (CommandOutputCompleted run c t out)
  have "preserves P (try_then (give (command_provider_id c)) (\<lambda>x.
      run_then (new_item E ''command_output_completed'' (lines2 t out) (Some x)) (\<lambda>item.
      append_to_run E r i p (items @ [item]))))"
    by (rule preserves_try_then_yields [where Q = wf_provider_id])
      (auto simp: yields_ok_def give_def command_provider_id_wf
        intro!: steady_intros preserves_with_item assms)
  with CommandOutputCompleted show ?thesis by simp
qed (auto intro!: steady_intros preserves_with_item preserves_append_to_run
      preserves_open_user_input assms)

lemma preserves_apply_event [steady_intros]: "preserves P (apply_event E r i p d event)"
proof -
  have "preserves P (try_then (take_items E x) (append_to_run E r i p))" for x
    by (rule preserves_try_then_yields [OF _ take_items_wf])
      (auto intro: steady_intros preserves_append_to_run)
  then have "preserves P (flush_deltas E r i p x)" for x
    unfolding flush_deltas_def by (intro preserves_if preserves_map_act preserves_give)
  moreover have "preserves P (map_act (\<lambda>r. (r, empty_deltas))
      (try_then (take_items E d) (\<lambda>items. apply_authoritative E r i p items event)))"
    by (intro preserves_map_act preserves_try_then_yields [OF _ take_items_wf]
        preserves_take_items preserves_apply_authoritative)
  ultimately show ?thesis by (cases event) (auto intro: steady_intros)
qed

lemma preserves_consume_turn: "preserves P (consume_turn E c)"
  unfolding preserves_def
proof (intro allI impI)
  fix w
  assume "P w"
  let ?k = "w_consumers w ! c"
  show "P (snd (consume_turn E c w))"
  proof (cases "co_queue ?k")
    case Nil
    have "P (snd (end_consumer c (co_run ?k) w))"
      using preserves_end_consumer \<open>P w\<close> by (simp add: preserves_def)
    with Nil \<open>P w\<close> show ?thesis by (simp add: consume_turn_def Let_def)
  next
    case (Cons event rest)
    define w1 where "w1 = snd (update_consumer c (\<lambda>k. k\<lparr>co_queue := rest\<rparr>) w)"
    let ?rest = "run_then (apply_event E (co_run ?k) (co_work_item ?k) (co_provider ?k) (co_deltas ?k) event) (\<lambda>(r, d).
         run_then (update_consumer c (\<lambda>k. k\<lparr>co_deltas := d\<rparr>)) (\<lambda>_.
         case r of
           Inl _ \<Rightarrow> run_then (consumption_failed E (co_run ?k) (co_work_item ?k)) (\<lambda>_.
             end_consumer c (co_run ?k))
         | Inr _ \<Rightarrow> if is_terminal_event event then end_consumer c (co_run ?k) else give ()))"
    have "P w1" if "c < length (w_consumers w)"
      unfolding w1_def using \<open>P w\<close> that Cons by (rule popped)
    moreover have "preserves P ?rest" by (intro steady_intros)
    ultimately have "P (snd (?rest w1))" if "c < length (w_consumers w)"
      using that by (simp add: preserves_def)
    moreover have "consume_turn E c w = ((), w) \<or>
        c < length (w_consumers w) \<and> consume_turn E c w = ?rest w1"
      using Cons by (simp add: consume_turn_def Let_def run_then_def [of "update_consumer c f" for f]
          w1_def update_consumer_def)
    ultimately show ?thesis using \<open>P w\<close> by auto
  qed
qed

lemma preserves_call_answered [steady_intros]: "preserves P (call_answered E r i answer)"
proof (cases answer)
  case (Inl e)
  then show ?thesis
    by (cases e) (auto simp: call_answered_def intro!: steady_intros)
qed (auto simp: call_answered_def intro: steady_intros)

lemma preserves_calls:
  "preserves P (steer_call r input)" "preserves P (interrupt_call r)"
  "preserves P (respond_user_input_call q response)"
  unfolding steer_call_def interrupt_call_def respond_user_input_call_def
  by (intro steady_intros; simp)+

lemma preserves_resolved: "preserves P (resolve_approval_answered E a r i answer)"
  unfolding resolve_approval_answered_def
  by (intro steady_intros preserves_store step_confirm_approval)

lemma preserves_responded: "preserves P (respond_user_input_answered E q r i answer)"
proof -
  have "yields (new_item E k b None) wf_item" for k b
    by (simp add: yields_def new_item_def act_defs)
  then show ?thesis
    unfolding respond_user_input_answered_def
    by (intro preserves_try_then preserves_run_then_yields [where Q = wf_item] steady_intros
        preserves_append_run_items) simp_all
qed

lemma preserves_start: "preserves P (start_run_call E i connection input)"
  unfolding start_run_call_def
  by (intro steady_intros preserves_store step_create_run) (auto simp: wf_create_run_def)

lemma preserves_take_pending [steady_intros]: "preserves P (take_pending p)"
  unfolding take_pending_def by (intro steady_intros)

lemma preserves_started:
  assumes "P w" and "startable r w" and "\<And>p. answer = Ok p \<Longrightarrow> wf_run_identity p"
  shows "P (snd (start_run_answered E i r answer w))"
proof (cases answer)
  case (Inr p)
  have "preserves P (retain_uncertain_start E r i p)"
    unfolding retain_uncertain_start_def
    by (intro steady_intros) (use assms(3) Inr in auto)
  moreover have "preserves P (attach_started E r i p)"
    unfolding attach_started_def by (intro steady_intros)
  ultimately have "preserves P (start_run_answered E i r answer)"
    using assms(3) Inr by (auto simp: start_run_answered_def intro!: steady_intros)
  with assms(1) show ?thesis by (simp add: preserves_def)
next
  case (Inl e)
  show ?thesis
  proof (cases "\<exists>operation. e = PortOutcomeUnknown operation")
    case True
    then obtain operation where e: "e = PortOutcomeUnknown operation" by blast
    have "P (snd (retain_unknown_handshake r w))" using assms(1,2) by (rule retained)
    moreover have "preserves P (try_then (store_errors (transition E r Starting OutcomeUnknown None)) (\<lambda>_.
        run_then (publish E i (RunOutcomeUnknown r operation)) (\<lambda>_.
        give (Err (HarnessFailed (PortOutcomeUnknown operation)) :: orchestration_error + run_snapshot))))"
      by (intro steady_intros) simp
    ultimately show ?thesis
      using Inl e
      by (cases "retain_unknown_handshake r w")
        (simp add: start_run_answered_def run_then_def [of "retain_unknown_handshake r"] preserves_def)
  next
    case False
    then have "start_run_answered E i r answer =
        run_then finish_start_handshake (\<lambda>_. run_then (close_run r) (\<lambda>_.
        try_then (store_errors (transition E r Starting Failed None)) (\<lambda>_.
        give (Err (HarnessFailed e)))))"
      using Inl by (cases e) (auto simp: start_run_answered_def)
    moreover have "preserves P \<dots>" by (intro steady_intros) simp
    ultimately show ?thesis using assms(1) by (simp add: preserves_def)
  qed
qed

lemma preserves_prepare_startup_reattach:
  assumes "wf_run_identity p"
  shows "preserves P (prepare_startup_reattach E run p)"
proof -
  have "prepare_startup_reattach E run p =
      try_then (try_then (restore_requests E run p)
        (\<lambda>x. run_then (prepare_route (rs_id run) (rs_work_item_id run) p x) (\<lambda>k. give (Ok k))))
      (bind_reattached E run p)"
    by (rule ext) (auto simp: prepare_startup_reattach_def bind_reattached_def try_then_def
        run_then_def give_def split: prod.splits sum.splits)
  moreover have "preserves P (bind_reattached E run p c)" for c
    unfolding bind_reattached_def
    by (intro steady_intros preserves_transition_run) (use assms in auto)
  ultimately show ?thesis by (simp add: preserves_try_then restored)
qed

lemma preserves_deliver_uncertain [steady_intros]:
  "preserves P (deliver_uncertain_start_events E run p)"
  unfolding deliver_uncertain_start_events_def by (intro steady_intros)

lemma preserves_activate_startup [steady_intros]: "preserves P (activate_startup_reattach E plan)"
  unfolding activate_startup_reattach_def by (intro steady_intros)

lemma preserves_reattach:
  "wf_run_identity p \<Longrightarrow> preserves P (reattach_run E run p)"
  unfolding reattach_run_def by (intro steady_intros preserves_prepare_startup_reattach)

lemma preserves_reconcile:
  assumes "\<And>c r p. lookup_run c r = Ok (Some p) \<Longrightarrow> wf_run_identity p"
  shows "preserves P (reconcile_run E lookup_run reconnect r)"
proof -
  have found: "yields_ok (store_errors (store (get_run (en_libs E) r)))
      (\<lambda>s. \<forall>p. rs_provider_id s = Some p \<longrightarrow> wf_run_identity p)"
    by (auto simp: yields_ok_def store_errors_def map_act_def store_def dest: get_run_wf
        split: prod.splits)
  have body: "preserves P (try_then (give (provider_of_run lookup_run s)) (\<lambda>provider.
      try_then (give (map_err HarnessFailed (reconnect provider))) (\<lambda>reconnected.
      if reconnected then reattach_run E s provider else give (Err (RunNeedsReconciliation r)))))"
    if "\<forall>p. rs_provider_id s = Some p \<longrightarrow> wf_run_identity p" for s
  proof (rule preserves_try_then_yields [where Q = wf_run_identity])
    show "yields_ok (give (provider_of_run lookup_run s)) wf_run_identity"
      using that assms
      by (auto simp: yields_ok_def give_def provider_of_run_def and_then_eq_Ok split: option.splits)
  qed (auto intro!: steady_intros preserves_reattach)
  show ?thesis
    unfolding reconcile_run_def
    by (rule preserves_try_then [OF preserves_await], rule preserves_try_then_yields [OF _ found])
      (simp_all add: preserves_store_errors preserves_read_jobs body)
qed

lemma preserves_drops [steady_intros]:
  "preserves P (drop_plans plans)" "preserves P (drop_receivers plans)"
  unfolding drop_plans_def drop_receivers_def by (intro steady_intros)+

lemma preserves_recover_run:
  assumes "\<And>p. rs_provider_id run = Some p \<Longrightarrow> wf_run_identity p"
  shows "preserves P (recover_run E reconnect plans run)"
  unfolding recover_run_def
  by (intro steady_intros preserves_prepare_startup_reattach assms)

lemma preserves_recover_runs:
  "(\<And>run p. run \<in> set rs \<Longrightarrow> rs_provider_id run = Some p \<Longrightarrow> wf_run_identity p) \<Longrightarrow>
     preserves P (recover_runs E reconnect plans rs)"
  by (induction rs arbitrary: plans) (auto intro!: steady_intros preserves_recover_run)

lemma preserves_recover_pages:
  "P w \<Longrightarrow> recover_pages fuel E reconnect plans after w = Some (x, w') \<Longrightarrow> P w'"
proof (induction fuel arbitrary: plans after w)
  case (Suc fuel)
  let ?fetch = "store (list_runs_needing_reconciliation (en_libs E) after 200)"
  obtain r w1 where fetch: "?fetch w = (r, w1)" by (cases "?fetch w")
  with Suc.prems(1) have w1: "P w1" by (auto intro: preservesD preserves_read_jobs)
  show ?case
  proof (cases r)
    case (Inl e)
    have "preserves P (run_then (drop_plans plans) (\<lambda>_. give (Err (StoreFailed e) :: orchestration_error + unit)))"
      by (intro steady_intros)
    with Inl fetch w1 Suc.prems(2) show ?thesis by (auto intro: preservesD)
  next
    case (Inr page)
    obtain y w2 where runs: "recover_runs E reconnect plans (pg_items page) w1 = (y, w2)"
      by (cases "recover_runs E reconnect plans (pg_items page) w1")
    have "preserves P (recover_runs E reconnect plans (pg_items page))"
    proof (rule preserves_recover_runs)
      fix run p
      assume "run \<in> set (pg_items page)" "rs_provider_id run = Some p"
      moreover have "\<exists>row. run_from_row row = Ok run" if "run \<in> set (pg_items page)" for run
        using fetch Inr that by (auto simp: store_def split: prod.splits dest: reconciliation_page_rows)
      ultimately show "wf_run_identity p" by (blast intro: run_from_row_provider)
    qed
    with runs w1 have w2: "P w2" by (auto intro: preservesD)
    have activate: "preserves P (run_then (for_each (activate_startup_reattach E) ps)
        (\<lambda>_. give (Ok () :: orchestration_error + unit)))" for ps
      by (intro steady_intros)
    show ?thesis
    proof (cases y)
      case (Inl e)
      with fetch Inr runs w2 Suc.prems(2) show ?thesis by simp
    next
      case (Inr ps)
      with fetch \<open>r = Inr page\<close> runs w2 Suc.prems(2) activate show ?thesis
        by (cases "pg_next_after page") (auto intro: preservesD Suc.IH)
    qed
  qed
qed simp

lemma steady_step:
  assumes "sup_step E c c'" and "P (fst c)"
    and "\<And>i r. StartFlight i r \<in> set (snd c) \<Longrightarrow> snd c' = remove1 (StartFlight i r) (snd c) \<Longrightarrow>
      startable r (fst c)"
  shows "P (fst c')"
  using assms
proof cases
  case (step_start fl i connection input w run w')
  with assms(2) show ?thesis by (auto intro: preservesD [OF preserves_start])
next
  case (step_start_refused fl i connection input w e w')
  with assms(2) show ?thesis by (auto intro: preservesD [OF preserves_start])
next
  case (step_started i run fl answer w x w')
  then have "P (snd (start_run_answered E i run answer w))"
    using assms(2,3) by (intro preserves_started) auto
  with step_started show ?thesis by simp
next
  case (step_steer run input w i w' fl)
  with assms(2) show ?thesis by (auto intro: preservesD [OF preserves_calls(1)])
next
  case (step_interrupt run w i w' fl)
  with assms(2) show ?thesis by (auto intro: preservesD [OF preserves_calls(2)])
next
  case (step_called run i fl answer w x w')
  with assms(2) show ?thesis by (auto intro: preservesD [OF preserves_call_answered])
next
  case (step_resolve a d w run i w' fl)
  with assms(2) show ?thesis by (auto intro: preservesD [OF approval_resolving])
next
  case (step_resolve_refused a d w e w' fl)
  with assms(2) show ?thesis by (auto intro: preservesD [OF approval_resolving])
next
  case (step_resolved a run i fl answer w x w')
  with assms(2) show ?thesis by (auto intro: preservesD [OF preserves_resolved])
next
  case (step_respond q response w run i w' fl)
  with assms(2) show ?thesis by (auto intro: preservesD [OF preserves_calls(3)])
next
  case (step_responded q run i fl answer w x w')
  with assms(2) show ?thesis by (auto intro: preservesD [OF preserves_responded])
next
  case (step_pump w "next" x w' fl)
  with assms(2) show ?thesis by (auto intro: preservesD [OF preserves_pump_turn])
next
  case (step_consume k w x w' fl)
  with assms(2) show ?thesis by (auto intro: preservesD [OF preserves_consume_turn])
next
  case (step_reconcile lookup_run reconnect run w x w' fl)
  from step_reconcile(3) have "preserves P (reconcile_run E lookup_run reconnect run)"
    by (rule preserves_reconcile)
  with step_reconcile assms(2) show ?thesis by (auto intro: preservesD)
next
  case (step_store w db' fl)
  with assms(2) show ?thesis by (auto intro: db_step)
qed

end

text \<open>An invariant of the world that a booting supervisor starts in.\<close>

definition boot_world :: "db \<Rightarrow> nat \<Rightarrow> world" where
  "boot_world db tick =
     \<lparr>w_db = db, w_state = empty_state, w_consumers = [], w_pump = False, w_events = [],
      w_calls = [], w_startup_error = None, w_tick = tick\<rparr>"

locale steady_run = steady E P "\<lambda>_ _. True" for E :: "'z env" and P :: "world \<Rightarrow> bool" +
  assumes initial: "reachable (en_libs E) db \<Longrightarrow> P (boot_world db tick)"
    and startup_error: "P w \<Longrightarrow> P (w\<lparr>w_startup_error := e\<rparr>)"
begin

lemma invariant: "sup_run E c \<Longrightarrow> P (fst c)"
proof (induction rule: sup_run.induct)
  case (run_boot db reconnect fuel tick w)
  then obtain x w1 where w1: "recover_pages fuel E reconnect [] None (boot_world db tick) = Some (x, w1)"
      and w: "w = w1\<lparr>w_startup_error := (case x of Inl e \<Rightarrow> Some e | Inr _ \<Rightarrow> None)\<rparr>"
    by (auto simp: boot_def reconcile_startup_def boot_world_def)
  from initial [OF run_boot(1)] w1 have "P w1" by (rule preserves_recover_pages)
  then show ?case by (simp add: w startup_error)
next
  case (run_step c c')
  then show ?case by (blast intro: steady_step)
qed

end

end
