(* ===== verification/Supervisor_Laws.thy ===== *)
theory Supervisor_Laws
  imports Supervisor_Steps
begin

text \<open>
  The invariants of the supervisor as interpretations of the contract \<open>steady\<close>: the database stays
  reachable, and an approval's answer is durable before the harness gets it.
\<close>

section \<open>The database\<close>

definition legal :: "'z env \<Rightarrow> world \<Rightarrow> bool" where
  "legal E w \<longleftrightarrow> reachable (en_libs E) (w_db w)"

lemma legal_updates [simp]:
  "legal E (w\<lparr>w_state := s\<rparr>) = legal E w" "legal E (w\<lparr>w_consumers := k\<rparr>) = legal E w"
  "legal E (w\<lparr>w_pump := b\<rparr>) = legal E w" "legal E (w\<lparr>w_events := es\<rparr>) = legal E w"
  "legal E (w\<lparr>w_calls := cs\<rparr>) = legal E w" "legal E (w\<lparr>w_startup_error := e\<rparr>) = legal E w"
  "legal E (w\<lparr>w_tick := n\<rparr>) = legal E w"
  by (simp_all add: legal_def)

interpretation legal_store: steady_store E "legal E" for E :: "'z env"
  by unfold_locales (auto simp: legal_def intro: reachable_step)

lemmas consumer_defs = new_channel_def spawn_consumer_def drop_receiver_def try_send_def
  update_consumer_def

text \<open>An invariant that does not look at state, channels and calls survives all updates of them.\<close>

lemma preserves_blind:
  assumes state: "\<And>w s. P w \<Longrightarrow> P (w\<lparr>w_state := s\<rparr>)"
    and consumers: "\<And>w k. P w \<Longrightarrow> P (w\<lparr>w_consumers := k\<rparr>)"
  shows "preserves P (writes f)" "preserves P (new_channel r i p)" "preserves P (prepare_route r i p x)"
    "preserves P (close_run r)" "preserves P (remove_route_state r p)"
    "preserves P finish_start_handshake" "preserves P (retain_unknown_handshake r)"
proof -
  show writes: "preserves P (writes f)" for f by (simp add: preserves_writes state)
  show channel: "preserves P (new_channel r i p)" by (simp add: preserves_def new_channel_def consumers)
  show "preserves P (prepare_route r i p x)"
    unfolding prepare_route_def by (intro preserves_run_then channel writes preserves_give)
  show "preserves P (close_run r)" "preserves P (remove_route_state r p)"
    "preserves P finish_start_handshake" "preserves P (retain_unknown_handshake r)"
    unfolding close_run_def remove_route_state_def finish_start_handshake_def
      retain_unknown_handshake_def by (rule writes)+
qed

lemma legal_blind:
  "preserves (legal E) (writes f)" "preserves (legal E) (new_channel r i p)"
  "preserves (legal E) (prepare_route r i p x)" "preserves (legal E) (close_run r)"
  "preserves (legal E) (remove_route_state r p)" "preserves (legal E) finish_start_handshake"
  "preserves (legal E) (retain_unknown_handshake r)"
  by (rule preserves_blind; simp)+

lemma legal_open_approval: "preserves (legal E) (open_approval E r i request summary)"
proof -
  have "preserves (legal E) (store (record_pending_approval (en_libs E) now
      \<lparr>pa_id = a, pa_run_id = r, pa_provider_id = p, pa_kind = ''approval'', pa_summary = summary\<rparr>))"
    if "wf_provider_id p" for now a p
    using that by (intro legal_store.preserves_store step_record_approval) (auto simp: wf_pending_approval_def)
  then show ?thesis
    unfolding open_approval_def
    by (intro preserves_run_then preserves_try_then_yields [where Q = wf_provider_id] preserves_try_then
        preserves_store_errors legal_blind steady_intros)
      (auto simp: yields_ok_def give_def request_provider_id_wf)
qed

lemma legal_calls: "preserves (legal E) (calls c)"
  by (simp add: preserves_def calls_def)

lemma legal_resolve: "preserves (legal E) (resolve_approval_call E a d)"
  unfolding resolve_approval_call_def
  by (intro steady_intros legal_blind legal_calls legal_store.preserves_store step_begin_approval)

interpretation legal_run: steady_run E "legal E" for E :: "'z env"
proof unfold_locales
  show "preserves (legal E) (try_then (restore_requests E run p)
      (\<lambda>x. run_then (prepare_route (rs_id run) (rs_work_item_id run) p x) (\<lambda>k. give (Ok k))))" for run p
    by (intro steady_intros legal_blind)
  show "legal E (snd (retain_unknown_handshake r w))" if "legal E w" for r w
    using legal_blind(7) [of E r] that by (simp add: preserves_def)
  show "reachable (en_libs E) db \<Longrightarrow> legal E (boot_world db tick)" for db tick
    by (simp add: legal_def boot_world_def)
qed (auto simp: consumer_defs legal_open_approval legal_resolve legal_blind)

section \<open>Answers are durable before they are sent\<close>

definition approval_known :: "db \<Rightarrow> approval_request_id \<Rightarrow> request_ref \<Rightarrow> bool" where
  "approval_known db a request \<longleftrightarrow>
     (\<exists>x\<in>set (approval_requests db). ap_id x = a \<and> ap_provider_approval_id x = rq_native_id request)"

definition decided :: "approval_decision \<Rightarrow> approval_row \<Rightarrow> bool" where
  "decided d x \<longleftrightarrow>
     ap_status x \<in> {''responding'', ''resolved''} \<and> ap_decision x = Some (decision_value d)"

definition answers :: "'z env \<Rightarrow> world \<Rightarrow> bool" where
  "answers E w \<longleftrightarrow> legal E w \<and>
     (\<forall>(a, r, request)\<in>set (su_approvals (w_state w)). approval_known (w_db w) a request) \<and>
     (\<forall>(a, d)\<in>set (su_approval_responses (w_state w)).
        \<exists>x\<in>set (approval_requests (w_db w)). ap_id x = a \<and> decided d x) \<and>
     (\<forall>request d. CallRespond request (ApprovalAnswer d) \<in> set (w_calls w) \<longrightarrow>
        (\<exists>x\<in>set (approval_requests (w_db w)).
           ap_provider_approval_id x = rq_native_id request \<and> decided d x))"

lemma approval_le_keys:
  "approval_le x y \<Longrightarrow> ap_id y = ap_id x \<and> ap_provider_approval_id y = ap_provider_approval_id x"
  by (simp add: approval_le_def)

lemma approval_le_decided: "approval_le x y \<Longrightarrow> decided d x \<Longrightarrow> decided d y"
  by (auto simp: approval_le_def decided_def)

lemma evolves_approvals: "evolves db db' \<Longrightarrow> x \<in> set (approval_requests db) \<Longrightarrow>
    \<exists>y\<in>set (approval_requests db'). approval_le x y"
  unfolding evolves_def by (blast intro: grows_member)

lemma answers_evolves:
  assumes "answers E w" and "evolves (w_db w) db'" and "reachable (en_libs E) db'"
  shows "answers E (w\<lparr>w_db := db'\<rparr>)"
proof -
  have up: "\<exists>y\<in>set (approval_requests db'). ap_id y = ap_id x \<and>
      ap_provider_approval_id y = ap_provider_approval_id x \<and> (\<forall>d. decided d x \<longrightarrow> decided d y)"
    if "x \<in> set (approval_requests (w_db w))" for x
    using evolves_approvals [OF assms(2) that] approval_le_keys approval_le_decided by blast
  have known: "approval_known (w_db w) a q \<Longrightarrow> approval_known db' a q" for a q
    unfolding approval_known_def using up by metis
  have sent: "\<exists>y\<in>set (approval_requests db'). ap_provider_approval_id y = n \<and> decided d y"
    if "\<exists>x\<in>set (approval_requests (w_db w)). ap_provider_approval_id x = n \<and> decided d x" for n d
    using that up by metis
  have responding: "\<exists>y\<in>set (approval_requests db'). ap_id y = a \<and> decided d y"
    if "\<exists>x\<in>set (approval_requests (w_db w)). ap_id x = a \<and> decided d x" for a d
    using that up by metis
  show ?thesis
    using assms(1,3) known sent responding unfolding answers_def legal_def by (auto split: prod.splits)
qed

lemma answers_db_step:
  assumes "answers E w" and "store_step (en_libs E) (w_db w) db'"
  shows "answers E (w\<lparr>w_db := db'\<rparr>)"
proof -
  have r: "reachable (en_libs E) (w_db w)" using assms(1) by (simp add: answers_def legal_def)
  then have "store_inv (en_libs E) (w_db w)" by (rule store_inv_reachable)
  then have "evolves (w_db w) db'" using assms(2) by (rule evolves_step)
  with assms r show ?thesis by (intro answers_evolves) (auto intro: reachable_step)
qed

interpretation answers_store: steady_store E "answers E" for E :: "'z env"
  by unfold_locales (auto simp: answers_db_step, auto simp: answers_def)

text \<open>Updates of the state that add no approval and no decision.\<close>

definition adds_no_answers :: "(sup_state \<Rightarrow> sup_state) \<Rightarrow> bool" where
  "adds_no_answers f \<longleftrightarrow>
     (\<forall>s. set (su_approvals (f s)) \<subseteq> set (su_approvals s) \<and>
          set (su_approval_responses (f s)) \<subseteq> set (su_approval_responses s))"

lemma answers_writes: "adds_no_answers f \<Longrightarrow> preserves (answers E) (writes f)"
  unfolding answers_def adds_no_answers_def by (intro preserves_writes) (simp, blast)

lemma answers_consumers [simp]: "answers E (w\<lparr>w_consumers := k\<rparr>) = answers E w"
  by (simp add: answers_def)

lemma drop_requests_adds: "adds_no_answers (drop_requests r)"
  by (auto simp: adds_no_answers_def drop_requests_def Let_def)

lemma insert_all_subset: "set (insert_all new old) \<subseteq> set new \<union> set old"
  unfolding insert_all_def
proof (induction new arbitrary: old)
  case (Cons x new)
  then show ?case using update_subset [of "fst x" "snd x" old] by (cases x) fastforce
qed simp

lemma answers_state_writes:
  "adds_no_answers (buffer_handshake_event p e)" "adds_no_answers (close_run_state r)"
  "adds_no_answers (\<lambda>_. empty_state)"
  "adds_no_answers (\<lambda>s. s\<lparr>su_runs := f1 s, su_runs_by_provider := f2 s, su_routes := f3 s\<rparr>)"
  "adds_no_answers (\<lambda>s. s\<lparr>su_uncertain_runs := f4 s\<rparr>)"
  "adds_no_answers (\<lambda>s. s\<lparr>su_approvals := AList.delete a (su_approvals s),
     su_approval_responses := AList.delete a (su_approval_responses s)\<rparr>)"
  "adds_no_answers (\<lambda>s. s\<lparr>su_user_inputs := f5 s\<rparr>)"
  "adds_no_answers (\<lambda>s. s\<lparr>su_start_in_progress := x, su_pending_events := [], su_pending_overflow := False\<rparr>)"
  "adds_no_answers (\<lambda>s. s\<lparr>su_work_items := f6 s, su_start_in_progress := x, su_pending_events := [],
     su_pending_overflow := False\<rparr>)"
  "adds_no_answers (retain_unknown_state r)"
  "adds_no_answers (\<lambda>s. s\<lparr>su_uncertain_start_order := f7 s, su_uncertain_starts := f8 s\<rparr>)"
  by (auto simp: adds_no_answers_def AList.delete_eq buffer_handshake_event_def close_run_state_def drop_requests_def
      Let_def empty_state_def retain_unknown_state_def split: option.splits)

lemma answers_remove_route: "preserves (answers E) (remove_route_state r p)"
  unfolding remove_route_state_def
  by (rule answers_writes) (auto simp: adds_no_answers_def drop_requests_def Let_def)

lemma answers_new_channel: "preserves (answers E) (new_channel r i p)"
  by (simp add: preserves_def new_channel_def)

lemma answers_prepare_route:
  assumes "answers E w"
    and "\<forall>(a, r, request)\<in>set (re_approvals x). approval_known (w_db w) a request"
    and "\<forall>(a, d)\<in>set (re_approval_responses x).
      \<exists>y\<in>set (approval_requests (w_db w)). ap_id y = a \<and> decided d y"
  shows "answers E (snd (prepare_route r i p x w))"
proof -
  have "set (insert_all (re_approvals x) s) \<subseteq> set (re_approvals x) \<union> set s"
      "set (insert_all (re_approval_responses x) t) \<subseteq> set (re_approval_responses x) \<union> set t" for s t
    by (rule insert_all_subset)+
  with assms show ?thesis
    unfolding answers_def prepare_route_def
    by (simp add: run_then_def new_channel_def writes_def give_def legal_def) blast
qed

text \<open>Requests loaded from the store have rows there.\<close>

lemma collect_pages_items:
  "collect_pages fuel fetch after = Some (Ok xs) \<Longrightarrow> x \<in> set xs \<Longrightarrow>
     \<exists>after' page. fetch after' = Ok page \<and> x \<in> set (pg_items page)"
proof (induction fuel arbitrary: after xs)
  case (Suc fuel)
  then show ?case
    by (auto simp: map_ok_eq_Ok split: sum.splits option.splits) blast
qed simp

lemma approval_from_row_columns:
  assumes "approval_from_row x = Ok s"
  shows "as_id s = ap_id x" and "np_value (as_provider_id s) = ap_provider_approval_id x"
    and "as_status s = Responding d \<Longrightarrow> decided d x"
proof -
  obtain e st q where e: "(case ap_decision x of None \<Rightarrow> Ok None
        | Some v \<Rightarrow> map_ok Some (decision_from_value v)) = Ok e"
      and st: "approval_status_from_columns (ap_status x) e = Ok st"
      and q: "conversion_failure 3
        (namespaced_provider_id_new (ap_provider_namespace x) (ap_provider_approval_id x)) = Ok q"
      and s: "as_id s = ap_id x" "as_provider_id s = q" "as_status s = st"
    using assms by (auto simp: approval_from_row_def and_then_eq_Ok)
  show "as_id s = ap_id x" by (rule s)
  from q have "namespaced_provider_id_new (ap_provider_namespace x) (ap_provider_approval_id x) = Ok q"
    by (simp add: conversion_failure_def split: sum.splits)
  then show "np_value (as_provider_id s) = ap_provider_approval_id x"
    by (auto simp: s namespaced_provider_id_new_def and_then_eq_Ok)
  assume "as_status s = Responding d"
  with st s(3) have "ap_status x = ''responding''" "e = Some d"
    by (auto simp: approval_status_from_columns_def split: if_splits)
  with e show "decided d x"
    by (auto simp: decided_def map_ok_eq_Ok decision_from_value_def split: option.splits if_splits)
qed

lemma read_approvals:
  assumes "read_pages rows (\<lambda>after. list_approvals_for_run L r after limit) w = (Ok xs, w')"
    and "a \<in> set xs"
  shows "\<exists>x\<in>set (approval_requests (w_db w)). approval_from_row x = Ok a"
proof -
  have "collect_pages (Suc (rows (w_db w)))
      (\<lambda>after. fst (list_approvals_for_run L r after limit (w_db w))) None = Some (Ok xs)"
    using assms(1) by (auto simp: read_pages_def split: option.splits)
  from collect_pages_items [OF this assms(2)] obtain after page where
      "fst (list_approvals_for_run L r after limit (w_db w)) = Ok page" "a \<in> set (pg_items page)"
    by blast
  then show ?thesis
    by (auto simp: list_approvals_for_run_def list_approvals_where_def read_only_def and_then_eq_Ok
        dest!: list_page_rows)
qed

lemma load_requests_known:
  assumes "load_requests E r p w = (Ok x, w')"
  shows "w' = w" and "\<forall>(a, r, request)\<in>set (re_approvals x). approval_known (w_db w) a request"
    and "\<forall>(a, d)\<in>set (re_approval_responses x).
      \<exists>y\<in>set (approval_requests (w_db w)). ap_id y = a \<and> decided d y"
proof -
  let ?read = "read_pages (\<lambda>db. length (approval_requests db))
    (\<lambda>after. list_approvals_for_run (en_libs E) r after 200)"
  obtain xs us where xs: "?read w = (Ok xs, w)" and w': "w' = w"
      and x: "re_approvals x = insert_all (open_approval_entries r p xs) []"
        "re_approval_responses x = insert_all (responding_entries xs) []"
    using assms by (auto simp: load_requests_def try_then_def give_def read_pages_def
        split: prod.splits sum.splits)
  show "w' = w" by (rule w')
  have row: "\<exists>y\<in>set (approval_requests (w_db w)). approval_from_row y = Ok a" if "a \<in> set xs" for a
    using read_approvals [OF xs that] .
  show "\<forall>(a, r, request)\<in>set (re_approvals x). approval_known (w_db w) a request"
  proof clarify
    fix a q request
    assume "(a, q, request) \<in> set (re_approvals x)"
    then have "(a, q, request) \<in> set (open_approval_entries r p xs)"
      using insert_all_subset [of "open_approval_entries r p xs" "[]"] by (auto simp: x)
    then obtain s where "s \<in> set xs" "a = as_id s"
        "rq_native_id request = np_value (as_provider_id s)"
      by (auto simp: open_approval_entries_def)
    with row [of s] show "approval_known (w_db w) a request"
      by (auto simp: approval_known_def approval_from_row_columns)
  qed
  show "\<forall>(a, d)\<in>set (re_approval_responses x).
      \<exists>y\<in>set (approval_requests (w_db w)). ap_id y = a \<and> decided d y"
  proof clarify
    fix a d
    assume "(a, d) \<in> set (re_approval_responses x)"
    then have "(a, d) \<in> set (responding_entries xs)"
      using insert_all_subset [of "responding_entries xs" "[]"] by (auto simp: x)
    then obtain s where "s \<in> set xs" "a = as_id s" "as_status s = Responding d"
      by (auto simp: responding_entries_def map_filter_def split: approval_status.splits)
    with row [of s] show "\<exists>y\<in>set (approval_requests (w_db w)). ap_id y = a \<and> decided d y"
      using approval_from_row_columns by metis
  qed
qed

lemma answers_restored:
  "preserves (answers E) (try_then (restore_requests E run p)
     (\<lambda>x. run_then (prepare_route (rs_id run) (rs_work_item_id run) p x) (\<lambda>k. give (Ok k))))"
proof (rule preserves_try_then_post)
  fix w and x :: restored_requests and w'
  assume "restore_requests E run p w = (Ok x, w')"
  then have "load_requests E (rs_id run) p w = (Ok x, w')"
    by (auto simp: restore_requests_def run_then_def give_def split: prod.splits sum.splits if_splits)
  from load_requests_known [OF this] show
      "(\<forall>(a, r, request)\<in>set (re_approvals x). approval_known (w_db w') a request) \<and>
       (\<forall>(a, d)\<in>set (re_approval_responses x).
          \<exists>y\<in>set (approval_requests (w_db w')). ap_id y = a \<and> decided d y)" by simp
next
  fix x :: restored_requests and w
  assume "answers E w" and "(\<forall>(a, r, request)\<in>set (re_approvals x). approval_known (w_db w) a request) \<and>
       (\<forall>(a, d)\<in>set (re_approval_responses x).
          \<exists>y\<in>set (approval_requests (w_db w)). ap_id y = a \<and> decided d y)"
  then show "answers E (snd (run_then (prepare_route (rs_id run) (rs_work_item_id run) p x)
      (\<lambda>k. give (Ok k)) w))"
    using answers_prepare_route [of E w x]
    by (simp add: run_then_def give_def split: prod.splits) (metis snd_conv)
qed (rule answers_store.preserves_restore_requests)

lemma find_approval_row:
  assumes "find_approval L i db = Ok (Some s)"
  obtains x where "x \<in> set (approval_requests db)" "ap_id x = i" "approval_from_row x = Ok s"
proof (cases "List.find (\<lambda>a. ap_id a = i) (approval_requests db)")
  case None
  with assms show thesis by (simp add: find_approval_def query_optional_def)
next
  case (Some x)
  with assms have "approval_from_row x = Ok s"
    by (cases "approval_from_row x") (simp_all add: find_approval_def query_optional_def sql_def)
  with Some that show thesis by (auto dest: find_Some_iff')
qed

lemma recorded_approval_row:
  assumes "record_pending_approval L now a db = (Ok s, db')"
  shows "\<exists>x\<in>set (approval_requests db'). ap_id x = pa_id a \<and>
    ap_provider_approval_id x = np_value (pa_provider_id a)"
proof -
  show ?thesis
    using record_pending_approval_Ok [OF assms]
  proof (elim disjE exE conjE)
    assume found: "find_approval L (pa_id a) db = Ok (Some s)" and "db' = db"
    then have "as_provider_id s = pa_provider_id a"
      using assms by (auto simp: record_pending_approval_def job_simps result_simps split: if_splits)
    moreover obtain x where "x \<in> set (approval_requests db)" "ap_id x = pa_id a"
        "approval_from_row x = Ok s"
      using found by (rule find_approval_row)
    ultimately show ?thesis
      using approval_from_row_columns(2) [of x s] \<open>db' = db\<close> by auto
  next
    fix r db1
    assume ins: "insert_approval (new_approval_row now (rr_connection_id r) a) db = Ok db1"
      and bump: "bump_work_item_revision L (rr_work_item_id r) now db1 = Ok db'"
    let ?x = "new_approval_row now (rr_connection_id r) a"
    have "?x \<in> set (approval_requests db1)" using ins by (auto simp: insert_approval_Ok)
    moreover have "evolves db1 db'" using core_step_bump [OF bump] by (simp add: core_step_def)
    ultimately obtain y where "y \<in> set (approval_requests db')" "approval_le ?x y"
      using evolves_approvals by blast
    then show ?thesis using approval_le_keys [of ?x y] by (auto simp: new_approval_row_def)
  qed
qed

lemma begun_approval_row:
  assumes "begin_approval_response L now c db = (Ok s, db')"
  shows "\<exists>x\<in>set (approval_requests db'). ap_id x = ba_approval_id c \<and> decided (ba_decision c) x"
  using assms
proof (rule begin_approval_response_Ok)
  fix n db1 db2
  assume upd: "update_approvals (\<lambda>a. ap_id a = ba_approval_id c \<and> ap_status a = ''pending'')
       (begin_row now (ba_decision c)) db = Ok (n, db1)" "n \<noteq> 0"
    and audit: "insert_audit (approval_audit L (ba_audit_event_id c) ''approval_response_begun''
       (ba_approval_id c) (ba_decision c) now) db1 = Ok db2"
    and bump: "bump_if_known L (approval_work_item db (ba_approval_id c)) now db2 = Ok db'"
  obtain x where x: "x \<in> set (approval_requests db)" "ap_id x = ba_approval_id c"
      "ap_status x = ''pending''"
    using upd by (auto simp: update_approvals_Ok)
  then have "begin_row now (ba_decision c) x \<in> set (approval_requests db1)"
    using upd(1) by (auto simp: update_approvals_Ok set_update_where)
  moreover have "evolves db1 db'"
    using core_step_inserts(6) [OF audit] core_step_bump_if_known [OF bump]
    by (auto simp: core_step_def intro: evolves_trans)
  ultimately obtain y where y: "y \<in> set (approval_requests db')"
      "approval_le (begin_row now (ba_decision c) x) y"
    using evolves_approvals by blast
  have "decided (ba_decision c) (begin_row now (ba_decision c) x)"
    by (simp add: decided_def begin_row_def)
  with y x(2) show ?thesis
    using approval_le_decided [OF y(2)] approval_le_keys [OF y(2)] by (auto simp: begin_row_def)
qed

lemma request_provider_id_value:
  "request_provider_id r = Ok p \<Longrightarrow> np_value p = rq_native_id r"
  by (auto simp: request_provider_id_def namespaced_provider_id_new_def and_then_eq_Ok)

lemma answers_open_approval: "preserves (answers E) (open_approval E r i request summary)"
proof -
  have recorded: "preserves (answers E) (store_errors (store (record_pending_approval (en_libs E) now
      \<lparr>pa_id = a, pa_run_id = r, pa_provider_id = p, pa_kind = ''approval'', pa_summary = summary\<rparr>)))"
    if "wf_provider_id p" for now a p
    using that
    by (intro steady_intros answers_store.preserves_store step_record_approval)
      (auto simp: wf_pending_approval_def)
  have post: "preserves (answers E) (try_then (store_errors (store (record_pending_approval (en_libs E) now
      \<lparr>pa_id = a, pa_run_id = r, pa_provider_id = p, pa_kind = ''approval'', pa_summary = summary\<rparr>))) (\<lambda>_.
      run_then (writes (\<lambda>s. s\<lparr>su_approvals := AList.update a (r, request) (su_approvals s)\<rparr>)) (\<lambda>_.
      run_then (publish E i (ApprovalOpened r a)) (\<lambda>_. give (Ok ())))))"
    if p: "request_provider_id request = Ok p" for now a p
  proof (rule preserves_try_then_post [where Q = "\<lambda>_ w. approval_known (w_db w) a request"])
    fix w x w'
    assume "store_errors (store (record_pending_approval (en_libs E) now
      \<lparr>pa_id = a, pa_run_id = r, pa_provider_id = p, pa_kind = ''approval'', pa_summary = summary\<rparr>)) w =
      (Ok x, w')"
    then show "approval_known (w_db w') a request"
      using request_provider_id_value [OF p]
      by (auto simp: store_errors_def map_act_def store_def approval_known_def
          dest!: recorded_approval_row split: prod.splits)
  next
    fix w
    assume "answers E w" and known: "approval_known (w_db w) a request"
    have "answers E (w\<lparr>w_state := (w_state w)\<lparr>su_approvals :=
        AList.update a (r, request) (su_approvals (w_state w))\<rparr>\<rparr>)"
      using \<open>answers E w\<close> known update_subset [of a "(r, request)" "su_approvals (w_state w)"]
      by (auto simp: answers_def)
    moreover have "preserves (answers E) (run_then (publish E i (ApprovalOpened r a))
        (\<lambda>_. give (Ok () :: orchestration_error + unit)))"
      by (intro steady_intros)
    ultimately show "answers E (snd (run_then
        (writes (\<lambda>s. s\<lparr>su_approvals := AList.update a (r, request) (su_approvals s)\<rparr>))
        (\<lambda>_. run_then (publish E i (ApprovalOpened r a))
          (\<lambda>_. give (Ok () :: orchestration_error + unit))) w))"
      by (simp add: run_then_def [of "writes f" for f] writes_def preserves_def)
  qed (use p recorded request_provider_id_wf in blast)
  show ?thesis
    unfolding open_approval_def
    by (intro answers_store.preserves_generate preserves_run_then
        preserves_try_then_yields [where Q = "\<lambda>p. request_provider_id request = Ok p"] post preserves_give)
      (auto simp: yields_ok_def give_def)
qed

lemma answers_send:
  assumes "answers E w" and "(a, r, request) \<in> set (su_approvals (w_state w))"
    and "(a, d) \<in> set (su_approval_responses (w_state w))"
  shows "answers E (snd (calls (CallRespond request (ApprovalAnswer d)) w))"
proof -
  have "approval_known (w_db w) a request"
    using assms(1,2) unfolding answers_def by blast
  then obtain x where x: "x \<in> set (approval_requests (w_db w))" "ap_id x = a"
      "ap_provider_approval_id x = rq_native_id request"
    unfolding approval_known_def by blast
  obtain y where y: "y \<in> set (approval_requests (w_db w))" "ap_id y = a" "decided d y"
    using assms(1,3) unfolding answers_def by blast
  have "store_inv (en_libs E) (w_db w)"
    using assms(1) by (intro store_inv_reachable) (simp add: answers_def legal_def)
  then have "distinct (map ap_id (approval_requests (w_db w)))"
    by (simp add: store_inv_def core_inv_def approval_inv_def)
  then have "x = y" using x y distinct_map_inj by metis
  with assms(1) x y show ?thesis by (auto simp: answers_def calls_def legal_def)
qed

definition begin_answer ::
    "'z env \<Rightarrow> approval_request_id \<Rightarrow> approval_decision \<Rightarrow> (orchestration_error + unit) act" where
  "begin_answer E a d =
     run_then (generate (en_audit_id E)) (\<lambda>audit.
     run_then (generate (en_now E)) (\<lambda>now.
     try_then (store_errors (store (begin_approval_response (en_libs E) now
       \<lparr>ba_approval_id = a, ba_decision = d, ba_audit_event_id = audit\<rparr>))) (\<lambda>_.
     run_then (writes (\<lambda>s. s\<lparr>su_approval_responses :=
       AList.update a d (su_approval_responses s)\<rparr>)) (\<lambda>_.
     give (Ok ())))))"

lemma begin_answer_Ok:
  assumes "begin_answer E a d w = (Ok x, w')"
  shows "su_approvals (w_state w') = su_approvals (w_state w)"
    and "(a, d) \<in> set (su_approval_responses (w_state w'))"
  using assms
  by (auto simp: begin_answer_def act_defs store_errors_def update_member split: prod.splits sum.splits)

lemma answers_begin: "preserves (answers E) (begin_answer E a d)"
proof -
  have begun: "preserves (answers E) (try_then (store_errors (store (begin_approval_response (en_libs E) now
       \<lparr>ba_approval_id = a, ba_decision = d, ba_audit_event_id = audit\<rparr>))) (\<lambda>_.
     run_then (writes (\<lambda>s. s\<lparr>su_approval_responses :=
       AList.update a d (su_approval_responses s)\<rparr>)) (\<lambda>_. give (Ok ()))))" for now audit
  proof (rule preserves_try_then_post [where
        Q = "\<lambda>_ w. \<exists>x\<in>set (approval_requests (w_db w)). ap_id x = a \<and> decided d x"])
    show "preserves (answers E) (store_errors (store (begin_approval_response (en_libs E) now
       \<lparr>ba_approval_id = a, ba_decision = d, ba_audit_event_id = audit\<rparr>)))"
      by (intro preserves_store_errors answers_store.preserves_store step_begin_approval)
  next
    fix w x w'
    assume "store_errors (store (begin_approval_response (en_libs E) now
       \<lparr>ba_approval_id = a, ba_decision = d, ba_audit_event_id = audit\<rparr>)) w = (Ok x, w')"
    then show "\<exists>x\<in>set (approval_requests (w_db w')). ap_id x = a \<and> decided d x"
      by (auto simp: store_errors_def map_act_def store_def split: prod.splits
          dest!: begun_approval_row)
  next
    fix w
    assume "answers E w" "\<exists>x\<in>set (approval_requests (w_db w)). ap_id x = a \<and> decided d x"
    then show "answers E (snd (run_then (writes (\<lambda>s. s\<lparr>su_approval_responses :=
        AList.update a d (su_approval_responses s)\<rparr>)) (\<lambda>_. give (Ok () :: orchestration_error + unit)) w))"
      using update_subset [of a d "su_approval_responses (w_state w)"]
      unfolding answers_def by (auto simp: act_defs)
  qed
  show ?thesis
    unfolding begin_answer_def by (intro preserves_run_then answers_store.preserves_generate begun)
qed

text \<open>
  An answer is refused without an effect, sent again, or recorded and then sent.
\<close>

definition send_answer ::
    "request_ref \<Rightarrow> approval_decision \<Rightarrow> run_id \<Rightarrow> work_item_id \<Rightarrow>
     (orchestration_error + run_id \<times> work_item_id) act" where
  "send_answer q d r i =
     run_then (calls (CallRespond q (ApprovalAnswer d))) (\<lambda>_. give (Ok (r, i)))"

lemma resolve_approval_call_cases:
  obtains (refused) e where "resolve_approval_call E a d w = (Err e, w)"
  | (again) r q i where "(a, r, q) \<in> set (su_approvals (w_state w))"
      "(a, d) \<in> set (su_approval_responses (w_state w))"
      "resolve_approval_call E a d w = send_answer q d r i w"
  | (first) r q i where "(a, r, q) \<in> set (su_approvals (w_state w))"
      "resolve_approval_call E a d w = try_then (begin_answer E a d) (\<lambda>_. send_answer q d r i) w"
proof (cases "w_startup_error w = None \<and> (\<exists>r q i p. map_of (su_approvals (w_state w)) a = Some (r, q) \<and>
    active_run r (w_state w) = Ok (p, i))")
  case False
  then have "\<exists>e. resolve_approval_call E a d w = (Err e, w)"
    by (auto simp: resolve_approval_call_def try_then_def await_startup_def reads_def
        split: option.splits sum.splits)
  then show thesis using refused by blast
next
  case True
  then obtain r q i p where e: "w_startup_error w = None"
      "map_of (su_approvals (w_state w)) a = Some (r, q)" "active_run r (w_state w) = Ok (p, i)" by blast
  then have mem: "(a, r, q) \<in> set (su_approvals (w_state w))" by (auto dest: map_of_SomeD)
  show thesis
  proof (cases "map_of (su_approval_responses (w_state w)) a")
    case None
    with e have "resolve_approval_call E a d w = try_then (begin_answer E a d) (\<lambda>_. send_answer q d r i) w"
      by (simp add: resolve_approval_call_def begin_answer_def send_answer_def try_then_def [of await_startup]
          try_then_def [of "reads f" for f] run_then_def [of "reads f" for f] await_startup_def reads_def)
    with mem show thesis by (rule first)
  next
    case (Some x)
    show thesis
    proof (cases "x = d")
      case True
      with e Some have "resolve_approval_call E a d w = send_answer q d r i w"
        by (simp add: resolve_approval_call_def send_answer_def try_then_def run_then_def [of "reads f" for f]
            await_startup_def reads_def give_def [of "Ok ()"])
      with mem Some True show thesis by (intro again) (auto dest: map_of_SomeD)
    next
      case False
      with e Some have "resolve_approval_call E a d w = (Err (ApprovalDecisionConflict a), w)"
        by (simp add: resolve_approval_call_def try_then_def run_then_def [of "reads f" for f]
            await_startup_def reads_def give_def)
      then show thesis by (rule refused)
    qed
  qed
qed

lemma send_answer_effect:
  "snd (send_answer q d r i w) = snd (calls (CallRespond q (ApprovalAnswer d)) w)"
  by (simp add: send_answer_def run_then_def give_def calls_def)

lemma answers_resolve: "preserves (answers E) (resolve_approval_call E a d)"
  unfolding preserves_def
proof (intro allI impI)
  fix w
  assume w: "answers E w"
  show "answers E (snd (resolve_approval_call E a d w))"
  proof (cases rule: resolve_approval_call_cases [of E a d w])
    case (again r q i)
    with answers_send [OF w again(1,2)] show ?thesis by (simp add: send_answer_effect)
  next
    case (first r q i)
    obtain x w' where b: "begin_answer E a d w = (x, w')" by (cases "begin_answer E a d w")
    with answers_begin w have w': "answers E w'" by (auto intro: preservesD)
    show ?thesis
    proof (cases x)
      case (Inl e)
      with b first w' show ?thesis by (simp add: try_then_def)
    next
      case (Inr u)
      with b have "begin_answer E a d w = (Ok u, w')" by simp
      from begin_answer_Ok [OF this] first(1) answers_send [OF w', of a r q d] b first(2) Inr show ?thesis
        by (simp add: try_then_def send_answer_effect)
    qed
  qed (simp add: w)
qed

text \<open>A second decision for an answered approval is refused.\<close>

lemma decided_unique:
  assumes "answers E w" and "x \<in> set (approval_requests (w_db w))" and "decided d x"
    and "y \<in> set (approval_requests (w_db w))" and "decided d' y" and "ap_id x = ap_id y"
  shows "d = d'"
proof -
  have "store_inv (en_libs E) (w_db w)"
    using assms(1) by (intro store_inv_reachable) (simp add: answers_def legal_def)
  then have "distinct (map ap_id (approval_requests (w_db w)))"
    by (simp add: store_inv_def core_inv_def approval_inv_def)
  then have "x = y" using assms(2,4,6) distinct_map_inj by metis
  with assms(3,5) show ?thesis
    by (cases d; cases d') (simp_all add: decided_def)
qed

lemma begin_answer_refused:
  assumes w: "answers E w" and x: "x \<in> set (approval_requests (w_db w))" "ap_id x = a" "decided d x"
    and "d' \<noteq> d" and run: "begin_answer E a d' w = (y, w')"
  shows "is_ok y = False" and "w_calls w' = w_calls w" and "w_db w' = w_db w"
proof -
  define c where "c = \<lparr>ba_approval_id = a, ba_decision = d', ba_audit_event_id = en_audit_id E (w_tick w)\<rparr>"
  obtain z db' where b: "begin_approval_response (en_libs E) (en_now E (Suc (w_tick w))) c (w_db w) = (z, db')"
    by (cases "begin_approval_response (en_libs E) (en_now E (Suc (w_tick w))) c (w_db w)")
  have "is_ok z = False"
  proof (rule ccontr)
    assume "is_ok z \<noteq> False"
    then obtain s where z: "z = Ok s" by (auto simp: is_ok_iff)
    from begun_approval_row [OF b [unfolded z]] obtain v where
        v: "v \<in> set (approval_requests db')" "ap_id v = a" "decided d' v" by (auto simp: c_def)
    have step: "store_step (en_libs E) (w_db w) db'" using b by (rule step_begin_approval)
    from answers_db_step [OF w step] have w1: "answers E (w\<lparr>w_db := db'\<rparr>)" .
    have "store_inv (en_libs E) (w_db w)"
      using w by (intro store_inv_reachable) (simp add: answers_def legal_def)
    from evolves_approvals [OF evolves_step [OF this step] x(1)] obtain u where
        u: "u \<in> set (approval_requests db')" "approval_le x u" by blast
    with decided_unique [OF w1, of u d v d'] v x approval_le_decided [OF u(2)] approval_le_keys [OF u(2)]
      assms(5) show False by simp
  qed
  then obtain e where z: "z = Err e" by (cases z) auto
  then have "db' = w_db w" using b by (auto dest: failed_operations(7))
  with run b z show "is_ok y = False" "w_calls w' = w_calls w" "w_db w' = w_db w"
    by (auto simp: begin_answer_def act_defs store_errors_def c_def)
qed

interpretation answers_run: steady_run E "answers E" for E :: "'z env"
proof unfold_locales
  show "preserves (answers E) (prepare_route r i p no_requests)" for r i p
    unfolding preserves_def by (intro allI impI answers_prepare_route) (simp_all add: no_requests_def)
  show "answers E w \<Longrightarrow> answers E (w\<lparr>w_startup_error := e\<rparr>)" for w e
    by (simp add: answers_def)
  show "answers E (snd (retain_unknown_handshake r w))" if "answers E w" for r w
    using answers_writes [OF answers_state_writes(10), of E r] that
    by (simp add: preserves_def retain_unknown_handshake_def)
  show "reachable (en_libs E) db \<Longrightarrow> answers E (boot_world db tick)" for db tick
    by (simp add: answers_def legal_def boot_world_def empty_state_def)
qed (simp_all add: consumer_defs answers_restored answers_open_approval answers_resolve
      answers_new_channel [unfolded preserves_def] answers_remove_route close_run_def
      finish_start_handshake_def answers_writes answers_state_writes)

end
