(* ===== verification/Supervisor_Bounds.thy ===== *)
theory Supervisor_Bounds
  imports Supervisor_Laws
begin

text \<open>
  The supervisor's buffers are bounded: the events kept during a handshake, the channel of each run,
  and the unresolved starts with their events. An unresolved start makes room by evicting the oldest;
  this needs that no run is retained twice, hence that run identifiers are fresh.
\<close>

section \<open>Buffers\<close>

lemma buffered_update:
  "buffered (AList.update k es b) + length (case map_of b k of Some xs \<Rightarrow> xs | None \<Rightarrow> []) =
     buffered b + length es"
  by (induction b) (auto simp: buffered_def)

lemma buffered_push: "buffered (push_event k e b) = Suc (buffered b)"
  using buffered_update [of k "(case map_of b k of Some es \<Rightarrow> es | None \<Rightarrow> []) @ [e]" b]
  by (simp add: push_event_def)

lemma buffered_delete: "buffered (AList.delete k b) \<le> buffered b"
  unfolding buffered_def by (induction b) (auto simp: AList.delete_eq)

lemma buffered_simps [simp]: "buffered [] = 0" "buffered [(k, es)] = length es"
  by (simp_all add: buffered_def)

definition start_bound :: "(run_id \<times> pending_start) list \<Rightarrow> bool" where
  "start_bound starts \<longleftrightarrow>
     length starts \<le> MAX_UNCERTAIN_STARTS \<and> distinct (map fst starts) \<and>
     (\<forall>(_, p)\<in>set starts. buffered (st_events p) \<le> ROUTE_CHANNEL_CAPACITY)"

definition state_bound :: "'z env \<Rightarrow> nat \<Rightarrow> sup_state \<Rightarrow> bool" where
  "state_bound E tick s \<longleftrightarrow>
     buffered (su_pending_events s) \<le> ROUTE_CHANNEL_CAPACITY \<and>
     start_bound (su_uncertain_starts s) \<and>
     map fst (su_uncertain_starts s) = su_uncertain_start_order s \<and>
     set (su_uncertain_start_order s) \<subseteq> en_run_id E ` {..<tick}"

definition queue_bound :: "consumer list \<Rightarrow> bool" where
  "queue_bound ks \<longleftrightarrow> (\<forall>k\<in>set ks. length (co_queue k) \<le> ROUTE_CHANNEL_CAPACITY)"

definition bounded :: "'z env \<Rightarrow> world \<Rightarrow> bool" where
  "bounded E w \<longleftrightarrow> state_bound E (w_tick w) (w_state w) \<and> queue_bound (w_consumers w)"

lemma start_bound_delete: "start_bound starts \<Longrightarrow> start_bound (AList.delete i starts)"
  by (auto simp: start_bound_def AList.delete_eq distinct_map_filter intro: order_trans [OF length_filter_le])

lemma start_bound_update:
  assumes "start_bound starts" and "i \<in> fst ` set starts \<or> length starts < MAX_UNCERTAIN_STARTS"
    and "buffered (st_events p) \<le> ROUTE_CHANNEL_CAPACITY"
  shows "start_bound (AList.update i p starts)"
proof -
  have keys: "map fst (AList.update i p starts) =
      (if i \<in> set (map fst starts) then map fst starts else map fst starts @ [i])"
    by (rule update_keys)
  have "length (AList.update i p starts) = length (if i \<in> set (map fst starts) then starts else starts @ [undefined])"
    using arg_cong [OF keys, of length] by (simp split: if_splits)
  then have "length (AList.update i p starts) \<le> MAX_UNCERTAIN_STARTS"
    using assms(1,2) by (simp add: start_bound_def split: if_splits)
  moreover have "distinct (map fst (AList.update i p starts))"
    using assms(1) unfolding start_bound_def by (simp add: distinct_update)
  ultimately show ?thesis
    using assms(1,3) update_subset [of i p starts] by (auto simp: start_bound_def)
qed

lemma state_bound_simps [simp]:
  "state_bound E n (s\<lparr>su_routes := x1\<rparr>) = state_bound E n s"
  "state_bound E n (s\<lparr>su_pending_overflow := x2\<rparr>) = state_bound E n s"
  "state_bound E n (s\<lparr>su_start_in_progress := x3\<rparr>) = state_bound E n s"
  "state_bound E n (s\<lparr>su_runs := x4\<rparr>) = state_bound E n s"
  "state_bound E n (s\<lparr>su_runs_by_provider := x5\<rparr>) = state_bound E n s"
  "state_bound E n (s\<lparr>su_work_items := x6\<rparr>) = state_bound E n s"
  "state_bound E n (s\<lparr>su_approvals := x7\<rparr>) = state_bound E n s"
  "state_bound E n (s\<lparr>su_user_inputs := x8\<rparr>) = state_bound E n s"
  "state_bound E n (s\<lparr>su_approval_responses := x9\<rparr>) = state_bound E n s"
  "state_bound E n (s\<lparr>su_uncertain_runs := x10\<rparr>) = state_bound E n s"
  by (simp_all add: state_bound_def)

lemma state_bound_pending: "state_bound E n s \<Longrightarrow> buffered b \<le> ROUTE_CHANNEL_CAPACITY \<Longrightarrow>
    state_bound E n (s\<lparr>su_pending_events := b\<rparr>)"
  by (simp add: state_bound_def)

lemma state_bound_forget: "state_bound E n s \<Longrightarrow> state_bound E n
    (s\<lparr>su_uncertain_start_order := removeAll r (su_uncertain_start_order s),
       su_uncertain_starts := AList.delete r (su_uncertain_starts s)\<rparr>)"
  using delete_keys [of r "su_uncertain_starts s"]
  by (auto simp: state_bound_def start_bound_delete)

lemma state_bound_drop: "state_bound E n (drop_requests r s) = state_bound E n s"
  by (simp add: drop_requests_def Let_def)

lemma state_bound_starts:
  assumes "state_bound E n s" and "i \<in> fst ` set (su_uncertain_starts s)"
    and "buffered (st_events p) \<le> ROUTE_CHANNEL_CAPACITY"
  shows "state_bound E n (s\<lparr>su_uncertain_starts := AList.update i p (su_uncertain_starts s)\<rparr>)"
proof -
  have "i \<in> set (su_uncertain_start_order s)"
    using assms(1,2) unfolding state_bound_def by (metis set_map)
  then show ?thesis
    using assms start_bound_update [of "su_uncertain_starts s" i p]
      update_keys [of i p "su_uncertain_starts s"]
    by (simp add: state_bound_def)
qed

lemma state_bound_entry:
  assumes "state_bound E n s" and "\<And>p. buffered (st_events (f p)) \<le> ROUTE_CHANNEL_CAPACITY"
  shows "state_bound E n (s\<lparr>su_uncertain_starts := AList.map_entry i f (su_uncertain_starts s)\<rparr>)"
proof -
  have keys: "map fst (AList.map_entry i f xs) = map fst xs" for xs :: "(run_id \<times> pending_start) list"
    by (induction xs) auto
  have "x \<in> set xs \<or> (\<exists>p. x = (i, f p))" if "x \<in> set (AList.map_entry i f xs)"
    for x and xs :: "(run_id \<times> pending_start) list"
    using that by (induction xs) (auto split: if_splits)
  moreover have "start_bound (su_uncertain_starts s)" using assms(1) by (simp add: state_bound_def)
  ultimately have "buffered (st_events p) \<le> ROUTE_CHANNEL_CAPACITY"
    if "(j, p) \<in> set (AList.map_entry i f (su_uncertain_starts s))" for j p
    using that assms unfolding state_bound_def start_bound_def by blast
  moreover have "length (AList.map_entry i f (su_uncertain_starts s)) = length (su_uncertain_starts s)"
    using arg_cong [OF keys [of "su_uncertain_starts s"], of length] by simp
  ultimately have "start_bound (AList.map_entry i f (su_uncertain_starts s))"
    using assms(1) keys unfolding state_bound_def start_bound_def by auto
  then show ?thesis using assms(1) keys by (simp add: state_bound_def)
qed

lemma state_bound_buffer:
  assumes "state_bound E n s"
  shows "state_bound E n (buffer_handshake_event run event s)"
proof (cases "su_start_in_progress s")
  case (Some r)
  then show ?thesis
    using assms by (auto simp: buffer_handshake_event_def buffered_push intro: state_bound_pending)
next
  case None
  show ?thesis
  proof (cases "List.find (\<lambda>(_, p). run \<in> fst ` set (st_events p)) (su_uncertain_starts s)")
    case (Some x)
    then obtain i p where x: "x = (i, p)" "(i, p) \<in> set (su_uncertain_starts s)"
      by (cases x) (auto dest: find_Some_iff')
    then have "buffered (st_events p) \<le> ROUTE_CHANNEL_CAPACITY" "i \<in> fst ` set (su_uncertain_starts s)"
      using assms by (auto simp: state_bound_def start_bound_def image_iff intro: bexI [of _ "(i, p)"])
    then show ?thesis
      using assms None Some x(1)
      by (auto simp: buffer_handshake_event_def buffered_push intro!: state_bound_starts)
  next
    case no: None
    have "1 \<le> ROUTE_CHANNEL_CAPACITY" by (simp add: ROUTE_CHANNEL_CAPACITY_def)
    then show ?thesis
      using assms None no
      by (auto simp: buffer_handshake_event_def intro: state_bound_entry split: option.splits)
  qed
qed

lemma state_bound_close:
  assumes "state_bound E n s"
  shows "state_bound E n (close_run_state r s)"
proof -
  have forget: "state_bound E n (u\<lparr>su_uncertain_runs := x, su_uncertain_starts := AList.delete r (su_uncertain_starts u),
      su_uncertain_start_order := removeAll r (su_uncertain_start_order u)\<rparr>)"
    if "state_bound E n u" for u x
    using state_bound_forget [OF that, of r] by (simp add: state_bound_def)
  have pending: "state_bound E n (u\<lparr>su_pending_events := AList.delete p (su_pending_events u)\<rparr>)"
    if "state_bound E n u" for u p
    using that buffered_delete [of p "su_pending_events u"]
    by (intro state_bound_pending) (simp_all add: state_bound_def)
  show ?thesis
  proof (cases "map_of (su_runs s) r")
    case (Some p)
    define u where "u = drop_requests r (s\<lparr>su_routes := AList.delete p (su_routes s),
      su_runs_by_provider := AList.delete p (su_runs_by_provider s), su_runs := AList.delete r (su_runs s),
      su_work_items := AList.delete r (su_work_items s)\<rparr>)"
    have "state_bound E n u" using assms by (simp add: u_def state_bound_drop)
    from pending [OF forget [OF this]] Some show ?thesis
      by (simp add: close_run_state_def Let_def u_def)
  next
    case None
    then show ?thesis
      using assms by (simp add: close_run_state_def Let_def forget state_bound_drop)
  qed
qed

lemma state_bound_retain:
  assumes "state_bound E n s" and "r \<notin> set (su_uncertain_start_order s)" and "r \<in> en_run_id E ` {..<n}"
  shows "state_bound E n (retain_unknown_state r s)"
proof -
  let ?starts = "su_uncertain_starts s" and ?order = "su_uncertain_start_order s"
  have b: "start_bound ?starts" and keys: "map fst ?starts = ?order" and d: "distinct ?order"
    and pend: "buffered (su_pending_events s) \<le> ROUTE_CHANNEL_CAPACITY"
    and sub: "set ?order \<subseteq> en_run_id E ` {..<n}"
    using assms(1) by (auto simp: state_bound_def start_bound_def)
  define evict where "evict \<longleftrightarrow> MAX_UNCERTAIN_STARTS \<le> length ?starts \<and> ?order \<noteq> []"
  define starts where "starts = (if evict then AList.delete (hd ?order) ?starts else ?starts)"
  define order where "order = (if evict then tl ?order else ?order)"
  have k: "map fst starts = order"
    using delete_keys [of "hd ?order" ?starts] keys d
    by (cases ?order) (auto simp: starts_def order_def evict_def)
  have len: "length starts < MAX_UNCERTAIN_STARTS"
  proof (cases evict)
    case True
    then have "length order < length ?order" by (cases ?order) (auto simp: order_def evict_def)
    then have "length starts < length ?starts" using keys k by (metis length_map)
    then show ?thesis using b by (simp add: start_bound_def)
  next
    case False
    then show ?thesis
      using keys by (cases ?order) (auto simp: evict_def starts_def MAX_UNCERTAIN_STARTS_def)
  qed
  have o: "set order \<subseteq> set ?order" by (cases ?order) (auto simp: order_def)
  have "start_bound starts" using b by (simp add: starts_def start_bound_delete)
  then have "start_bound (AList.update r \<lparr>st_events = su_pending_events s, st_overflow = su_pending_overflow s\<rparr> starts)"
    using len pend by (intro start_bound_update) auto
  moreover have "map fst (AList.update r p starts) = order @ [r]" for p
    using update_keys [of r p starts] k o assms(2) by auto
  moreover have "retain_unknown_state r s = s\<lparr>su_start_in_progress := None, su_pending_events := [],
      su_pending_overflow := False,
      su_uncertain_starts := AList.update r
        \<lparr>st_events = su_pending_events s, st_overflow = su_pending_overflow s\<rparr> starts,
      su_uncertain_start_order := order @ [r],
      su_uncertain_runs := List.insert r (su_uncertain_runs s)\<rparr>"
    by (simp add: retain_unknown_state_def Let_def starts_def order_def evict_def)
  ultimately show ?thesis
    using o sub assms(3) by (auto simp: state_bound_def)
qed

section \<open>Every handler keeps the bounds\<close>

definition is_start :: "flight \<Rightarrow> bool" where
  "is_start f \<longleftrightarrow> (case f of StartFlight _ _ \<Rightarrow> True | _ \<Rightarrow> False)"

definition waiting :: "'z env \<Rightarrow> run_id \<Rightarrow> world \<Rightarrow> bool" where
  "waiting E r w \<longleftrightarrow>
     r \<notin> set (su_uncertain_start_order (w_state w)) \<and> r \<in> en_run_id E ` {..<w_tick w}"

lemma state_bound_tick: "state_bound E n s \<Longrightarrow> state_bound E (Suc n) s"
  by (auto simp: state_bound_def)

lemma queue_bound_simps [simp]:
  "queue_bound (ks @ [k]) \<longleftrightarrow> queue_bound ks \<and> length (co_queue k) \<le> ROUTE_CHANNEL_CAPACITY"
  by (auto simp: queue_bound_def)

lemma queue_bound_update:
  "queue_bound ks \<Longrightarrow> length (co_queue k) \<le> ROUTE_CHANNEL_CAPACITY \<Longrightarrow> queue_bound (ks[c := k])"
  using set_update_subset_insert [of ks c k] by (auto simp: queue_bound_def)

lemma queue_bound_nth: "queue_bound ks \<Longrightarrow> c < length ks \<Longrightarrow>
    length (co_queue (ks ! c)) \<le> ROUTE_CHANNEL_CAPACITY"
  by (simp add: queue_bound_def)

text \<open>The bounds together with the runs \<open>R\<close> whose start is still under way.\<close>

definition guarded :: "'z env \<Rightarrow> run_id set \<Rightarrow> world \<Rightarrow> bool" where
  "guarded E R w \<longleftrightarrow> bounded E w \<and> (\<forall>r\<in>R. waiting E r w)"

lemma guarded_updates [simp]:
  "guarded E R (w\<lparr>w_db := x1\<rparr>) = guarded E R w" "guarded E R (w\<lparr>w_pump := x2\<rparr>) = guarded E R w"
  "guarded E R (w\<lparr>w_events := x3\<rparr>) = guarded E R w" "guarded E R (w\<lparr>w_calls := x4\<rparr>) = guarded E R w"
  "guarded E R (w\<lparr>w_startup_error := x5\<rparr>) = guarded E R w"
  by (simp_all add: guarded_def bounded_def waiting_def)

lemma guarded_tick: "guarded E R w \<Longrightarrow> guarded E R (w\<lparr>w_tick := Suc (w_tick w)\<rparr>)"
  by (auto simp: guarded_def bounded_def waiting_def state_bound_tick)

lemma guarded_consumers: "guarded E R w \<Longrightarrow> queue_bound ks \<Longrightarrow> guarded E R (w\<lparr>w_consumers := ks\<rparr>)"
  by (simp add: guarded_def bounded_def waiting_def)

lemma guarded_queues: "guarded E R w \<Longrightarrow> queue_bound (w_consumers w)"
  by (simp add: guarded_def bounded_def)

lemma guarded_writes:
  assumes "\<And>n s. state_bound E n s \<Longrightarrow> state_bound E n (f s)"
    and "\<And>s. set (su_uncertain_start_order (f s)) \<subseteq> set (su_uncertain_start_order s)"
  shows "preserves (guarded E R) (writes f)"
  using assms by (intro preserves_writes) (auto simp: guarded_def bounded_def waiting_def dest!: subsetD)

lemma order_kept [simp]:
  "su_uncertain_start_order (drop_requests r s) = su_uncertain_start_order s"
  "su_uncertain_start_order (buffer_handshake_event p e s) = su_uncertain_start_order s"
  "su_uncertain_start_order (close_run_state r s) = removeAll r (su_uncertain_start_order s)"
  by (simp_all add: drop_requests_def buffer_handshake_event_def close_run_state_def Let_def
      split: option.splits)

lemma state_bound_empty: "state_bound E n empty_state"
  by (simp add: state_bound_def start_bound_def empty_state_def)

lemma guarded_store: "preserves (guarded E R) (store j)"
  by (simp add: preserves_def store_def split: prod.splits)

lemma guarded_calls: "preserves (guarded E R) (calls c)"
  by (simp add: preserves_def calls_def)

interpretation guarded_store: steady_store E "guarded E R" for E :: "'z env" and R
  by unfold_locales (simp_all add: guarded_tick)

lemma guarded_state_writes:
  "preserves (guarded E R) (writes (buffer_handshake_event p e))"
  "preserves (guarded E R) (close_run r)"
  "preserves (guarded E R) (writes (\<lambda>_. empty_state))"
  "preserves (guarded E R) (remove_route_state r p)"
  "preserves (guarded E R) (writes (\<lambda>s. s\<lparr>su_runs := f1 s, su_runs_by_provider := f2 s, su_routes := f3 s\<rparr>))"
  "preserves (guarded E R) (writes (\<lambda>s. s\<lparr>su_uncertain_runs := f4 s\<rparr>))"
  "preserves (guarded E R) (writes (\<lambda>s. s\<lparr>su_approvals := f5 s\<rparr>))"
  "preserves (guarded E R) (writes (\<lambda>s. s\<lparr>su_approval_responses := f6 s\<rparr>))"
  "preserves (guarded E R) (writes (\<lambda>s. s\<lparr>su_approvals := f5 s, su_approval_responses := f6 s\<rparr>))"
  "preserves (guarded E R) (writes (\<lambda>s. s\<lparr>su_user_inputs := f7 s\<rparr>))"
  "preserves (guarded E R) finish_start_handshake"
  "preserves (guarded E R) (writes (\<lambda>s. s\<lparr>su_work_items := f8 s, su_start_in_progress := x,
     su_pending_events := [], su_pending_overflow := False\<rparr>))"
  "preserves (guarded E R) (writes (\<lambda>s.
     s\<lparr>su_uncertain_start_order := removeAll r (su_uncertain_start_order s),
       su_uncertain_starts := AList.delete r (su_uncertain_starts s)\<rparr>))"
  unfolding close_run_def remove_route_state_def finish_start_handshake_def
  by (rule guarded_writes;
      auto simp: state_bound_buffer state_bound_close state_bound_empty Let_def state_bound_drop
        intro: state_bound_pending state_bound_forget; simp add: empty_state_def)+

lemma guarded_prepare: "preserves (guarded E R) (prepare_route r i p x)"
  unfolding prepare_route_def
proof (intro preserves_run_then preserves_give)
  show "preserves (guarded E R) (new_channel r i p)"
    by (auto simp: preserves_def new_channel_def intro!: guarded_consumers dest: guarded_queues)
qed (rule guarded_writes, simp_all)

lemma guarded_retain:
  assumes "guarded E R w" and "waiting E r w" and "r \<notin> R"
  shows "guarded E R (snd (retain_unknown_handshake r w))"
proof -
  have "set (su_uncertain_start_order (retain_unknown_state r s)) \<subseteq> insert r (set (su_uncertain_start_order s))" for s
    by (auto simp: retain_unknown_state_def Let_def dest: list.set_sel(2) [rotated])
  moreover have "state_bound E (w_tick w) (retain_unknown_state r (w_state w))"
    using assms by (intro state_bound_retain) (auto simp: guarded_def bounded_def waiting_def)
  ultimately show ?thesis
    using assms unfolding guarded_def bounded_def waiting_def
    by (auto simp: retain_unknown_handshake_def writes_def dest!: subsetD)
qed

interpretation guarded_run: steady E "guarded E R" "\<lambda>r w. waiting E r w \<and> r \<notin> R" for E :: "'z env" and R
proof unfold_locales
  fix w :: world and c :: nat
  assume w: "guarded E R w"
  note q = guarded_queues [OF w] and nth = queue_bound_nth [OF guarded_queues [OF w]]
  show "guarded E R (snd (new_channel r i p w))" for r i p
    using w q by (auto simp: new_channel_def intro!: guarded_consumers)
  show "guarded E R (snd (spawn_consumer c w))" "guarded E R (snd (drop_receiver c w))"
    "guarded E R (snd (update_consumer c (\<lambda>k. k\<lparr>co_deltas := deltas\<rparr>) w))" for deltas
    using w q nth by (auto simp: consumer_defs intro!: guarded_consumers queue_bound_update)
  show "guarded E R (snd (try_send c e w))" for e
    using w q by (auto simp: consumer_defs intro!: guarded_consumers queue_bound_update)
  show "guarded E R (snd (update_consumer c (\<lambda>k. k\<lparr>co_queue := rest\<rparr>) w))"
    if "c < length (w_consumers w)" "co_queue (w_consumers w ! c) = e # rest" for e rest
    using w q nth [OF that(1)] that by (auto simp: consumer_defs intro!: guarded_consumers queue_bound_update)
next
  show "preserves (guarded E R) (try_then (restore_requests E run p)
      (\<lambda>x. run_then (prepare_route (rs_id run) (rs_work_item_id run) p x) (\<lambda>k. give (Ok k))))" for run p
    by (intro preserves_try_then guarded_store.preserves_restore_requests preserves_run_then
        guarded_prepare preserves_give)
  show "preserves (guarded E R) (open_approval E r i request summary)" for r i request summary
    unfolding open_approval_def
    by (intro steady_intros guarded_store guarded_state_writes guarded_store.preserves_generate
        guarded_store.preserves_publish)
  show "preserves (guarded E R) (resolve_approval_call E a d)" for a d
    unfolding resolve_approval_call_def
    by (intro steady_intros guarded_store guarded_state_writes guarded_store.preserves_generate guarded_calls)
qed (simp_all add: guarded_state_writes guarded_prepare guarded_retain)

section \<open>Every run of the supervisor\<close>

text \<open>At most one start is under way, and its run was never retained.\<close>

definition starts_ok :: "'z env \<Rightarrow> config \<Rightarrow> bool" where
  "starts_ok E c \<longleftrightarrow>
     (\<forall>i r. StartFlight i r \<in> set (snd c) \<longrightarrow>
        waiting E r (fst c) \<and> (\<forall>f\<in>set (remove1 (StartFlight i r) (snd c)). \<not> is_start f))"

lemma start_run_call_fresh:
  assumes "start_run_call E i connection input w = (Ok r, w')"
    and "inj_on (en_run_id E) {..<w_tick w'}" and "bounded E w"
  shows "waiting E r w'"
proof -
  have r: "r = en_run_id E (w_tick w)" and t: "w_tick w < w_tick w'"
    and s: "su_uncertain_start_order (w_state w') = su_uncertain_start_order (w_state w)"
    using assms(1)
    by (auto simp: start_run_call_def await_startup_def act_defs store_errors_def publish_def
        ensure_event_pump_def split: prod.splits sum.splits option.splits)
  have "r \<notin> set (su_uncertain_start_order (w_state w))"
    using assms(2,3) r t by (auto simp: bounded_def state_bound_def inj_on_eq_iff dest!: subsetD)
  with r t s show ?thesis by (simp add: waiting_def)
qed

lemma flights_step:
  assumes "sup_step E c c'"
  shows "(\<exists>f. snd c' = f # snd c \<and> (is_start f \<longrightarrow> (\<forall>g\<in>set (snd c). \<not> is_start g))) \<or>
    snd c' = snd c \<or> (\<exists>f. snd c' = remove1 f (snd c))"
  using assms
proof cases
  case (step_start fl j connection input w q w')
  then show ?thesis by (auto simp: is_start_def split: flight.splits)
qed (auto simp: is_start_def)

lemma start_flight_kept:
  assumes "sup_step E c c'" and "StartFlight i r \<in> set (snd c')"
  shows "StartFlight i r \<in> set (snd c) \<or>
    (\<exists>connection input. (\<forall>f\<in>set (snd c). \<not> is_start f) \<and> snd c' = StartFlight i r # snd c \<and>
      start_run_call E i connection input (fst c) = (Ok r, fst c'))"
  using assms
proof cases
  case (step_start fl j connection input w q w')
  then show ?thesis
    using assms(2) by (auto simp: is_start_def split: flight.splits)
qed (auto dest: notin_set_remove1 set_remove1_subset [THEN subsetD])

text \<open>The clock of the model only moves forward, and channels are never taken away.\<close>

interpretation forward: steady E "\<lambda>w. n \<le> w_tick w \<and> m \<le> length (w_consumers w)" "\<lambda>_ _. True"
  for E :: "'z env" and n m
proof unfold_locales
  let ?P = "\<lambda>w. n \<le> w_tick w \<and> m \<le> length (w_consumers w)"
  have store: "preserves ?P (store j)" for j :: "'a job"
    by (simp add: preserves_def store_def split: prod.splits)
  have generate: "preserves ?P (generate g)" for g :: "nat \<Rightarrow> 'a"
    by (simp add: preserves_def generate_def)
  have publish: "preserves ?P (publish E i k)" for i k by (simp add: preserves_def publish_def)
  have calls: "preserves ?P (calls c)" for c by (simp add: preserves_def calls_def)
  have writes: "preserves ?P (writes f)" for f by (simp add: preserves_def writes_def)
  have route: "preserves ?P (prepare_route r i p x)" for r i p x
    by (simp add: preserves_def prepare_route_def act_defs new_channel_def)
  show "preserves ?P (writes (buffer_handshake_event p e))" "preserves ?P (close_run r)"
    "preserves ?P (writes (\<lambda>_. empty_state))" "preserves ?P (remove_route_state r p)"
    "preserves ?P finish_start_handshake" "preserves ?P (prepare_route r i p no_requests)" for p e r i
    unfolding close_run_def remove_route_state_def finish_start_handshake_def by (rule writes route)+
  show "preserves ?P (try_then (restore_requests E run p)
      (\<lambda>x. run_then (prepare_route (rs_id run) (rs_work_item_id run) p x) (\<lambda>k. give (Ok k))))" for run p
    unfolding restore_requests_def load_requests_def transition_def
    by (intro steady_intros route store generate publish)
  show "preserves ?P (open_approval E r i request summary)" for r i request summary
    unfolding open_approval_def by (intro steady_intros writes store generate publish)
  show "preserves ?P (resolve_approval_call E a d)" for a d
    unfolding resolve_approval_call_def by (intro steady_intros writes store generate calls)
  show "?P (snd (retain_unknown_handshake r w))" if "?P w" for r w
    using that by (simp add: retain_unknown_handshake_def writes_def)
qed (simp_all add: preserves_writes consumer_defs)

theorem bounded_run:
  assumes "sup_run E c" and "inj_on (en_run_id E) {..<w_tick (fst c)}"
  shows "bounded E (fst c) \<and> starts_ok E c"
  using assms
proof (induction rule: sup_run.induct)
  case (run_boot db reconnect fuel tick w)
  then obtain x w1 where w1: "recover_pages fuel E reconnect [] None (boot_world db tick) = Some (x, w1)"
      and w: "w = w1\<lparr>w_startup_error := (case x of Inl e \<Rightarrow> Some e | Inr _ \<Rightarrow> None)\<rparr>"
    by (auto simp: boot_def reconcile_startup_def boot_world_def)
  have "guarded E {} (boot_world db tick)"
    by (simp add: guarded_def bounded_def boot_world_def state_bound_empty queue_bound_def)
  from guarded_run.preserves_recover_pages [OF this w1] show ?case
    by (simp add: w guarded_def starts_ok_def bounded_def)
next
  case (run_step c c')
  have "w_tick (fst c) \<le> w_tick (fst c') \<and> 0 \<le> length (w_consumers (fst c'))"
    using run_step(2) by (rule forward.steady_step) simp_all
  then have "inj_on (en_run_id E) {..<w_tick (fst c)}"
    by (intro inj_on_subset [OF run_step(4)]) auto
  with run_step(3) have b: "bounded E (fst c)" and ok: "starts_ok E c" by auto
  have "guarded E {} (fst c')"
  proof (rule guarded_run.steady_step [OF run_step(2)])
    show "guarded E {} (fst c)" using b by (simp add: guarded_def)
    show "waiting E r (fst c) \<and> r \<notin> {}" if "StartFlight i r \<in> set (snd c)" for i r
      using ok that by (simp add: starts_ok_def)
  qed
  moreover have "starts_ok E c'"
    unfolding starts_ok_def
  proof (intro allI impI)
    fix i r
    assume mem: "StartFlight i r \<in> set (snd c')"
    show "waiting E r (fst c') \<and> (\<forall>f\<in>set (remove1 (StartFlight i r) (snd c')). \<not> is_start f)"
      using start_flight_kept [OF run_step(2) mem]
    proof (elim disjE exE conjE)
      assume old: "StartFlight i r \<in> set (snd c)"
      then have w: "waiting E r (fst c)"
        and rest: "\<forall>f\<in>set (remove1 (StartFlight i r) (snd c)). \<not> is_start f"
        using ok by (auto simp: starts_ok_def)
      have start: "is_start (StartFlight i r)" by (simp add: is_start_def)
      have "guarded E {r} (fst c')"
      proof (rule guarded_run.steady_step [OF run_step(2)])
        show "guarded E {r} (fst c)" using b w by (simp add: guarded_def)
        fix j q
        assume j: "StartFlight j q \<in> set (snd c)" and c': "snd c' = remove1 (StartFlight j q) (snd c)"
        have "\<forall>f\<in>set (snd c'). \<not> is_start f"
          using ok j unfolding starts_ok_def c' by simp
        with mem start show "waiting E q (fst c) \<and> q \<notin> {r}" by simp
      qed
      then have "waiting E r (fst c')" by (simp add: guarded_def)
      moreover have "\<forall>f\<in>set (remove1 (StartFlight i r) (snd c')). \<not> is_start f"
        using flights_step [OF run_step(2)]
      proof (elim disjE exE conjE)
        fix f
        assume "snd c' = f # snd c" "is_start f \<longrightarrow> (\<forall>g\<in>set (snd c). \<not> is_start g)"
        with old start rest show ?thesis by auto
      next
        fix f
        assume c': "snd c' = remove1 f (snd c)"
        have "set (remove1 (StartFlight i r) (snd c')) \<subseteq> set (remove1 (StartFlight i r) (snd c))"
          unfolding c' remove1_commute [of "StartFlight i r"] by (rule set_remove1_subset)
        with rest show ?thesis by blast
      qed (use rest in simp)
      ultimately show ?thesis by blast
    next
      fix connection input
      assume "\<forall>f\<in>set (snd c). \<not> is_start f" "snd c' = StartFlight i r # snd c"
        and "start_run_call E i connection input (fst c) = (Ok r, fst c')"
      then show ?thesis using run_step(4) b by (auto intro: start_run_call_fresh)
    qed
  qed
  ultimately show ?case by (simp add: guarded_def)
qed

end
