(* ===== verification/Supervisor_Samples.thy ===== *)
theory Supervisor_Samples
  imports Store_Samples Supervisor_Bounds
begin

text \<open>
  A concrete supervisor for the witnesses: a database whose run is attached to a provider run and
  waits for an approval, concrete clock and identifiers, and the worlds of one short session.
\<close>

definition sample_provider :: provider_run_ref where
  "sample_provider =
     \<lparr>pri_namespace = ''codex'', pri_runtime_id = ''a'', pri_session_id = ''b'', pri_run_id = ''c''\<rparr>"

definition sample_env :: "unit env" where
  "sample_env =
     \<lparr>en_libs = sample_libs, en_now = (\<lambda>n. 100 + int n), en_run_id = (\<lambda>n. Id (1000 + of_nat n)),
      en_batch_id = (\<lambda>n. Id (1000 + of_nat n)), en_item_id = (\<lambda>n. Id (1000 + of_nat n)),
      en_approval_id = (\<lambda>n. Id (1000 + of_nat n)), en_audit_id = (\<lambda>n. Id (1000 + of_nat n))\<rparr>"

definition db_attached :: db where
  "db_attached = snd (transition_run sample_libs (sample_start\<lparr>tr_provider_id := Some sample_provider\<rparr>)
     db_starting)"

definition db_question :: db where
  "db_question = snd (record_pending_approval sample_libs 12 (sample_approval 40) db_attached)"

definition world_up :: world where
  "world_up = the (boot sample_env (\<lambda>_. Ok True) (Suc (Suc 0)) db_question 0)"

definition world_answered :: world where
  "world_answered = snd (resolve_approval_call sample_env (Id 40) Approved world_up)"

definition world_lost :: world where
  "world_lost = snd (pump_turn sample_env (Ok None) world_up)"

definition world_back :: world where
  "world_back = snd (reconcile_run sample_env (\<lambda>_ _. Ok None) (\<lambda>_. Ok True) (Id 4) world_lost)"

definition world_stale :: world where
  "world_stale = snd (consume_turn sample_env 0 world_back)"

section \<open>Values\<close>

lemma provider_eval: "provider_run_identity_new ''codex'' ''a'' ''b'' ''c'' = Ok
     \<lparr>pri_namespace = ''codex'', pri_runtime_id = ''a'', pri_session_id = ''b'', pri_run_id = ''c''\<rparr>"
  by (simp add: provider_run_identity_new_def string_eval)

lemma db_attached_value: "db_attached =
     \<lparr>projects = [\<lparr>prj_id = Id 1, prj_name = ''demo'', prj_created_at_ms =
     1\<rparr>], work_items = [\<lparr>wi_id = Id 2, wi_project_id = Id 1, wi_title = ''root'',
     wi_status = ''ready'', wi_revision = 1, wi_created_at_ms = 2, wi_updated_at_ms = 2,
     wi_archived_at_ms = None\<rparr>, \<lparr>wi_id = Id 3, wi_project_id = Id 1, wi_title =
     ''child'', wi_status = ''ready'', wi_revision = 3, wi_created_at_ms = 3, wi_updated_at_ms =
     10, wi_archived_at_ms = None\<rparr>], work_edges = [\<lparr>we_parent_id = Id 2,
     we_child_id = Id 3, we_kind = ''parent''\<rparr>], runs = [\<lparr>rr_id = Id 4,
     rr_connection_id = Id 5, rr_work_item_id = Id 3, rr_status = ''running'',
     rr_provider_namespace = Some ''codex'', rr_provider_runtime_id = Some ''a'',
     rr_provider_session_id = Some ''b'', rr_provider_run_id = Some ''c'', rr_created_at_ms = 4,
     rr_ended_at_ms = None\<rparr>], timeline_items = [], approval_requests = [],
     projection_cursors = [], audit_events = [\<lparr>au_id = Id 20, au_event_type =
     ''run_transitioned'', au_entity_type = ''run'', au_entity_id = ''4'', au_body =
     ''starting->running;voided_approvals=0'', au_created_at_ms = 10\<rparr>], artifacts =
     []\<rparr>"
  by (simp add: db_attached_def sample_provider_def provider_eval sample_eval store_eval db_starting_value cong: and_then_weak)

lemma db_question_value: "db_question =
     \<lparr>projects = [\<lparr>prj_id = Id 1, prj_name = ''demo'', prj_created_at_ms =
     1\<rparr>], work_items = [\<lparr>wi_id = Id 2, wi_project_id = Id 1, wi_title = ''root'',
     wi_status = ''ready'', wi_revision = 1, wi_created_at_ms = 2, wi_updated_at_ms = 2,
     wi_archived_at_ms = None\<rparr>, \<lparr>wi_id = Id 3, wi_project_id = Id 1, wi_title =
     ''child'', wi_status = ''ready'', wi_revision = 4, wi_created_at_ms = 3, wi_updated_at_ms =
     12, wi_archived_at_ms = None\<rparr>], work_edges = [\<lparr>we_parent_id = Id 2,
     we_child_id = Id 3, we_kind = ''parent''\<rparr>], runs = [\<lparr>rr_id = Id 4,
     rr_connection_id = Id 5, rr_work_item_id = Id 3, rr_status = ''running'',
     rr_provider_namespace = Some ''codex'', rr_provider_runtime_id = Some ''a'',
     rr_provider_session_id = Some ''b'', rr_provider_run_id = Some ''c'', rr_created_at_ms = 4,
     rr_ended_at_ms = None\<rparr>], timeline_items = [], approval_requests = [\<lparr>ap_id =
     Id 40, ap_connection_id = Id 5, ap_run_id = Id 4, ap_provider_namespace = ''codex'',
     ap_provider_approval_id = ''40'', ap_kind = ''command'', ap_summary = ''run-tests'',
     ap_status = ''pending'', ap_decision = None, ap_requested_at_ms = 12,
     ap_response_started_at_ms = None, ap_resolved_at_ms = None, ap_voided_at_ms =
     None\<rparr>], projection_cursors = [], audit_events = [\<lparr>au_id = Id 20,
     au_event_type = ''run_transitioned'', au_entity_type = ''run'', au_entity_id = ''4'',
     au_body = ''starting->running;voided_approvals=0'', au_created_at_ms = 10\<rparr>],
     artifacts = []\<rparr>"
  by (simp add: db_question_def sample_eval store_eval provider_eval db_attached_value cong: and_then_weak)

lemmas supervisor_eval = act_defs store_errors_def for_each.simps boot_def reconcile_startup_def recover_run_def
  prepare_startup_reattach_def restore_requests_def load_requests_def read_pages_def
  prepare_route_def bind_reattached_def activate_startup_reattach_def activate_route_def
  deliver_uncertain_start_events_def consumer_defs ensure_event_pump_def publish_def
  work_item_revision_def get_work_item_def open_approval_entries_def responding_entries_def
  insert_all_def no_requests_def empty_state_def empty_deltas_def

lemma page_size_200: "validate_page_size 200 = Ok 200"
  using validate_page_size_Ok [of 200 200] by simp

lemmas page_eval = list_runs_needing_reconciliation_def list_runs_where_def list_approvals_for_run_def
  list_approvals_where_def list_pending_user_inputs_for_run_def list_page_def select_page_def
  page_size_200 after_key_def map_filter_def

lemma world_up_boot: "boot sample_env (\<lambda>_. Ok True) (Suc (Suc 0)) db_question 0 = Some
     (\<lparr>w_db = \<lparr>projects = [\<lparr>prj_id = Id 1, prj_name = ''demo'',
     prj_created_at_ms = 1\<rparr>], work_items = [\<lparr>wi_id = Id 2, wi_project_id = Id 1,
     wi_title = ''root'', wi_status = ''ready'', wi_revision = 1, wi_created_at_ms = 2,
     wi_updated_at_ms = 2, wi_archived_at_ms = None\<rparr>, \<lparr>wi_id = Id 3, wi_project_id
     = Id 1, wi_title = ''child'', wi_status = ''ready'', wi_revision = 4, wi_created_at_ms = 3,
     wi_updated_at_ms = 12, wi_archived_at_ms = None\<rparr>], work_edges =
     [\<lparr>we_parent_id = Id 2, we_child_id = Id 3, we_kind = ''parent''\<rparr>], runs =
     [\<lparr>rr_id = Id 4, rr_connection_id = Id 5, rr_work_item_id = Id 3, rr_status =
     ''running'', rr_provider_namespace = Some ''codex'', rr_provider_runtime_id = Some ''a'',
     rr_provider_session_id = Some ''b'', rr_provider_run_id = Some ''c'', rr_created_at_ms = 4,
     rr_ended_at_ms = None\<rparr>], timeline_items = [], approval_requests = [\<lparr>ap_id =
     Id 40, ap_connection_id = Id 5, ap_run_id = Id 4, ap_provider_namespace = ''codex'',
     ap_provider_approval_id = ''40'', ap_kind = ''command'', ap_summary = ''run-tests'',
     ap_status = ''pending'', ap_decision = None, ap_requested_at_ms = 12,
     ap_response_started_at_ms = None, ap_resolved_at_ms = None, ap_voided_at_ms =
     None\<rparr>], projection_cursors = [], audit_events = [\<lparr>au_id = Id 20,
     au_event_type = ''run_transitioned'', au_entity_type = ''run'', au_entity_id = ''4'',
     au_body = ''starting->running;voided_approvals=0'', au_created_at_ms = 10\<rparr>],
     artifacts = []\<rparr>, w_state = \<lparr>su_routes = [(\<lparr>pri_namespace = ''codex'',
     pri_runtime_id = ''a'', pri_session_id = ''b'', pri_run_id = ''c''\<rparr>, 0)],
     su_pending_events = [], su_pending_overflow = False, su_start_in_progress = None,
     su_uncertain_starts = [], su_uncertain_start_order = [], su_runs = [(Id 4,
     \<lparr>pri_namespace = ''codex'', pri_runtime_id = ''a'', pri_session_id = ''b'',
     pri_run_id = ''c''\<rparr>)], su_runs_by_provider = [(\<lparr>pri_namespace = ''codex'',
     pri_runtime_id = ''a'', pri_session_id = ''b'', pri_run_id = ''c''\<rparr>, Id 4)],
     su_work_items = [(Id 4, Id 3)], su_approvals = [(Id 40, Id 4, \<lparr>rq_run =
     \<lparr>pri_namespace = ''codex'', pri_runtime_id = ''a'', pri_session_id = ''b'',
     pri_run_id = ''c''\<rparr>, rq_native_id = ''40''\<rparr>)], su_user_inputs = [],
     su_approval_responses = [], su_uncertain_runs = []\<rparr>, w_consumers = [\<lparr>co_queue
     = [], co_open = True, co_spawned = True, co_run = Id 4, co_work_item = Id 3, co_provider =
     \<lparr>pri_namespace = ''codex'', pri_runtime_id = ''a'', pri_session_id = ''b'',
     pri_run_id = ''c''\<rparr>, co_deltas = \<lparr>de_chunks = 0, de_message = [], de_commands
     = []\<rparr>\<rparr>], w_pump = True, w_events = [], w_calls = [], w_startup_error = None,
     w_tick = 0\<rparr>)"
  by (simp add: supervisor_eval page_eval sample_env_def sample_libs_def store_eval provider_eval db_question_value
      cong: and_then_weak)

lemma world_up_value: "world_up =
     (\<lparr>w_db = \<lparr>projects = [\<lparr>prj_id = Id 1, prj_name = ''demo'',
     prj_created_at_ms = 1\<rparr>], work_items = [\<lparr>wi_id = Id 2, wi_project_id = Id 1,
     wi_title = ''root'', wi_status = ''ready'', wi_revision = 1, wi_created_at_ms = 2,
     wi_updated_at_ms = 2, wi_archived_at_ms = None\<rparr>, \<lparr>wi_id = Id 3, wi_project_id
     = Id 1, wi_title = ''child'', wi_status = ''ready'', wi_revision = 4, wi_created_at_ms = 3,
     wi_updated_at_ms = 12, wi_archived_at_ms = None\<rparr>], work_edges =
     [\<lparr>we_parent_id = Id 2, we_child_id = Id 3, we_kind = ''parent''\<rparr>], runs =
     [\<lparr>rr_id = Id 4, rr_connection_id = Id 5, rr_work_item_id = Id 3, rr_status =
     ''running'', rr_provider_namespace = Some ''codex'', rr_provider_runtime_id = Some ''a'',
     rr_provider_session_id = Some ''b'', rr_provider_run_id = Some ''c'', rr_created_at_ms = 4,
     rr_ended_at_ms = None\<rparr>], timeline_items = [], approval_requests = [\<lparr>ap_id =
     Id 40, ap_connection_id = Id 5, ap_run_id = Id 4, ap_provider_namespace = ''codex'',
     ap_provider_approval_id = ''40'', ap_kind = ''command'', ap_summary = ''run-tests'',
     ap_status = ''pending'', ap_decision = None, ap_requested_at_ms = 12,
     ap_response_started_at_ms = None, ap_resolved_at_ms = None, ap_voided_at_ms =
     None\<rparr>], projection_cursors = [], audit_events = [\<lparr>au_id = Id 20,
     au_event_type = ''run_transitioned'', au_entity_type = ''run'', au_entity_id = ''4'',
     au_body = ''starting->running;voided_approvals=0'', au_created_at_ms = 10\<rparr>],
     artifacts = []\<rparr>, w_state = \<lparr>su_routes = [(\<lparr>pri_namespace = ''codex'',
     pri_runtime_id = ''a'', pri_session_id = ''b'', pri_run_id = ''c''\<rparr>, 0)],
     su_pending_events = [], su_pending_overflow = False, su_start_in_progress = None,
     su_uncertain_starts = [], su_uncertain_start_order = [], su_runs = [(Id 4,
     \<lparr>pri_namespace = ''codex'', pri_runtime_id = ''a'', pri_session_id = ''b'',
     pri_run_id = ''c''\<rparr>)], su_runs_by_provider = [(\<lparr>pri_namespace = ''codex'',
     pri_runtime_id = ''a'', pri_session_id = ''b'', pri_run_id = ''c''\<rparr>, Id 4)],
     su_work_items = [(Id 4, Id 3)], su_approvals = [(Id 40, Id 4, \<lparr>rq_run =
     \<lparr>pri_namespace = ''codex'', pri_runtime_id = ''a'', pri_session_id = ''b'',
     pri_run_id = ''c''\<rparr>, rq_native_id = ''40''\<rparr>)], su_user_inputs = [],
     su_approval_responses = [], su_uncertain_runs = []\<rparr>, w_consumers = [\<lparr>co_queue
     = [], co_open = True, co_spawned = True, co_run = Id 4, co_work_item = Id 3, co_provider =
     \<lparr>pri_namespace = ''codex'', pri_runtime_id = ''a'', pri_session_id = ''b'',
     pri_run_id = ''c''\<rparr>, co_deltas = \<lparr>de_chunks = 0, de_message = [], de_commands
     = []\<rparr>\<rparr>], w_pump = True, w_events = [], w_calls = [], w_startup_error = None,
     w_tick = 0\<rparr>)"
  by (simp add: world_up_def world_up_boot)

lemmas handler_eval = resolve_approval_call_def await_startup_def active_run_def pump_turn_def
  handle_pump_failure_def affected_runs_def fail_run_def fall_back_def transition_def
  STREAM_FAILURE_OPERATION_def reconcile_run_def get_run_def provider_of_run_def reattach_run_def
  consume_turn_def end_consumer_def close_run_def close_run_state_def drop_requests_def

lemma world_answered_value:
  "fst (resolve_approval_call sample_env (Id 40) Approved world_up) = Ok (Id 4, Id 3)"
  "w_calls world_answered = [CallRespond \<lparr>rq_run = sample_provider, rq_native_id = ''40''\<rparr> (ApprovalAnswer Approved)]"
  "\<exists>x\<in>set (approval_requests (w_db world_answered)). ap_id x = Id 40 \<and> ap_status x = ''responding'' \<and>
     ap_decision x = Some (decision_value Approved)"
  "w_tick world_answered = 2"
  unfolding world_answered_def
  by (simp_all add: world_up_value handler_eval supervisor_eval sample_provider_def sample_env_def sample_libs_def
      store_eval cong: and_then_weak)

lemma world_lost_value: "world_lost =
     \<lparr>w_db = \<lparr>projects = [\<lparr>prj_id = Id 1, prj_name = ''demo'',
     prj_created_at_ms = 1\<rparr>], work_items = [\<lparr>wi_id = Id 2, wi_project_id = Id 1,
     wi_title = ''root'', wi_status = ''ready'', wi_revision = 1, wi_created_at_ms = 2,
     wi_updated_at_ms = 2, wi_archived_at_ms = None\<rparr>, \<lparr>wi_id = Id 3, wi_project_id
     = Id 1, wi_title = ''child'', wi_status = ''ready'', wi_revision = 5, wi_created_at_ms = 3,
     wi_updated_at_ms = 100, wi_archived_at_ms = None\<rparr>], work_edges =
     [\<lparr>we_parent_id = Id 2, we_child_id = Id 3, we_kind = ''parent''\<rparr>], runs =
     [\<lparr>rr_id = Id 4, rr_connection_id = Id 5, rr_work_item_id = Id 3, rr_status =
     ''disconnected'', rr_provider_namespace = Some ''codex'', rr_provider_runtime_id = Some
     ''a'', rr_provider_session_id = Some ''b'', rr_provider_run_id = Some ''c'',
     rr_created_at_ms = 4, rr_ended_at_ms = None\<rparr>], timeline_items = [],
     approval_requests = [\<lparr>ap_id = Id 40, ap_connection_id = Id 5, ap_run_id = Id 4,
     ap_provider_namespace = ''codex'', ap_provider_approval_id = ''40'', ap_kind = ''command'',
     ap_summary = ''run-tests'', ap_status = ''pending'', ap_decision = None, ap_requested_at_ms
     = 12, ap_response_started_at_ms = None, ap_resolved_at_ms = None, ap_voided_at_ms =
     None\<rparr>], projection_cursors = [], audit_events = [\<lparr>au_id = Id 20,
     au_event_type = ''run_transitioned'', au_entity_type = ''run'', au_entity_id = ''4'',
     au_body = ''starting->running;voided_approvals=0'', au_created_at_ms = 10\<rparr>,
     \<lparr>au_id = Id 1001, au_event_type = ''run_transitioned'', au_entity_type = ''run'',
     au_entity_id = ''4'', au_body = ''running->disconnected;voided_approvals=0'',
     au_created_at_ms = 100\<rparr>], artifacts = []\<rparr>, w_state = \<lparr>su_routes = [],
     su_pending_events = [], su_pending_overflow = False, su_start_in_progress = None,
     su_uncertain_starts = [], su_uncertain_start_order = [], su_runs = [], su_runs_by_provider
     = [], su_work_items = [], su_approvals = [], su_user_inputs = [], su_approval_responses =
     [], su_uncertain_runs = []\<rparr>, w_consumers = [\<lparr>co_queue = [], co_open = True,
     co_spawned = True, co_run = Id 4, co_work_item = Id 3, co_provider = \<lparr>pri_namespace
     = ''codex'', pri_runtime_id = ''a'', pri_session_id = ''b'', pri_run_id = ''c''\<rparr>,
     co_deltas = \<lparr>de_chunks = 0, de_message = [], de_commands = []\<rparr>\<rparr>],
     w_pump = False, w_events = [\<lparr>ev_work_item_id = Id 3, ev_revision = 5, ev_kind =
     RunStatusChanged (Id 4) Disconnected\<rparr>, \<lparr>ev_work_item_id = Id 3, ev_revision =
     5, ev_kind = RunOutcomeUnknown (Id 4) ''stream_disconnected''\<rparr>], w_calls = [],
     w_startup_error = None, w_tick = 2\<rparr>"
  by (simp add: world_lost_def world_up_value handler_eval supervisor_eval map_filter_def sample_env_def sample_libs_def
      store_eval provider_eval cong: and_then_weak)

lemma world_back_value: "world_back =
     \<lparr>w_db = \<lparr>projects = [\<lparr>prj_id = Id 1, prj_name = ''demo'',
     prj_created_at_ms = 1\<rparr>], work_items = [\<lparr>wi_id = Id 2, wi_project_id = Id 1,
     wi_title = ''root'', wi_status = ''ready'', wi_revision = 1, wi_created_at_ms = 2,
     wi_updated_at_ms = 2, wi_archived_at_ms = None\<rparr>, \<lparr>wi_id = Id 3, wi_project_id
     = Id 1, wi_title = ''child'', wi_status = ''ready'', wi_revision = 6, wi_created_at_ms = 3,
     wi_updated_at_ms = 102, wi_archived_at_ms = None\<rparr>], work_edges =
     [\<lparr>we_parent_id = Id 2, we_child_id = Id 3, we_kind = ''parent''\<rparr>], runs =
     [\<lparr>rr_id = Id 4, rr_connection_id = Id 5, rr_work_item_id = Id 3, rr_status =
     ''running'', rr_provider_namespace = Some ''codex'', rr_provider_runtime_id = Some ''a'',
     rr_provider_session_id = Some ''b'', rr_provider_run_id = Some ''c'', rr_created_at_ms = 4,
     rr_ended_at_ms = None\<rparr>], timeline_items = [], approval_requests = [\<lparr>ap_id =
     Id 40, ap_connection_id = Id 5, ap_run_id = Id 4, ap_provider_namespace = ''codex'',
     ap_provider_approval_id = ''40'', ap_kind = ''command'', ap_summary = ''run-tests'',
     ap_status = ''pending'', ap_decision = None, ap_requested_at_ms = 12,
     ap_response_started_at_ms = None, ap_resolved_at_ms = None, ap_voided_at_ms =
     None\<rparr>], projection_cursors = [], audit_events = [\<lparr>au_id = Id 20,
     au_event_type = ''run_transitioned'', au_entity_type = ''run'', au_entity_id = ''4'',
     au_body = ''starting->running;voided_approvals=0'', au_created_at_ms = 10\<rparr>,
     \<lparr>au_id = Id 1001, au_event_type = ''run_transitioned'', au_entity_type = ''run'',
     au_entity_id = ''4'', au_body = ''running->disconnected;voided_approvals=0'',
     au_created_at_ms = 100\<rparr>, \<lparr>au_id = Id 1003, au_event_type =
     ''run_transitioned'', au_entity_type = ''run'', au_entity_id = ''4'', au_body =
     ''disconnected->running;voided_approvals=0'', au_created_at_ms = 102\<rparr>], artifacts =
     []\<rparr>, w_state = \<lparr>su_routes = [(\<lparr>pri_namespace = ''codex'',
     pri_runtime_id = ''a'', pri_session_id = ''b'', pri_run_id = ''c''\<rparr>, 1)],
     su_pending_events = [], su_pending_overflow = False, su_start_in_progress = None,
     su_uncertain_starts = [], su_uncertain_start_order = [], su_runs = [(Id 4,
     \<lparr>pri_namespace = ''codex'', pri_runtime_id = ''a'', pri_session_id = ''b'',
     pri_run_id = ''c''\<rparr>)], su_runs_by_provider = [(\<lparr>pri_namespace = ''codex'',
     pri_runtime_id = ''a'', pri_session_id = ''b'', pri_run_id = ''c''\<rparr>, Id 4)],
     su_work_items = [(Id 4, Id 3)], su_approvals = [(Id 40, Id 4, \<lparr>rq_run =
     \<lparr>pri_namespace = ''codex'', pri_runtime_id = ''a'', pri_session_id = ''b'',
     pri_run_id = ''c''\<rparr>, rq_native_id = ''40''\<rparr>)], su_user_inputs = [],
     su_approval_responses = [], su_uncertain_runs = []\<rparr>, w_consumers = [\<lparr>co_queue
     = [], co_open = True, co_spawned = True, co_run = Id 4, co_work_item = Id 3, co_provider =
     \<lparr>pri_namespace = ''codex'', pri_runtime_id = ''a'', pri_session_id = ''b'',
     pri_run_id = ''c''\<rparr>, co_deltas = \<lparr>de_chunks = 0, de_message = [], de_commands
     = []\<rparr>\<rparr>, \<lparr>co_queue = [], co_open = True, co_spawned = True, co_run = Id
     4, co_work_item = Id 3, co_provider = \<lparr>pri_namespace = ''codex'', pri_runtime_id =
     ''a'', pri_session_id = ''b'', pri_run_id = ''c''\<rparr>, co_deltas = \<lparr>de_chunks =
     0, de_message = [], de_commands = []\<rparr>\<rparr>], w_pump = True, w_events =
     [\<lparr>ev_work_item_id = Id 3, ev_revision = 5, ev_kind = RunStatusChanged (Id 4)
     Disconnected\<rparr>, \<lparr>ev_work_item_id = Id 3, ev_revision = 5, ev_kind =
     RunOutcomeUnknown (Id 4) ''stream_disconnected''\<rparr>, \<lparr>ev_work_item_id = Id 3,
     ev_revision = 6, ev_kind = RunStatusChanged (Id 4) Running\<rparr>], w_calls = [],
     w_startup_error = None, w_tick = 4\<rparr>"
  by (simp add: world_back_def world_lost_value handler_eval supervisor_eval page_eval map_filter_def
      sample_env_def sample_libs_def store_eval provider_eval cong: and_then_weak)

lemma world_stale_value:
  "map rr_status (runs (w_db world_stale)) = [''running'']"
  "active_run (Id 4) (w_state world_stale) = Err (RunNotActive (Id 4))"
  "co_open (w_consumers world_stale ! 1)"
  by (simp_all add: world_stale_def world_back_value handler_eval supervisor_eval AList.delete_eq)

section \<open>The worlds are reachable\<close>

lemma sample_provider_wf: "wf_run_identity sample_provider"
  by (simp add: wf_run_identity_def sample_provider_def provider_eval)

lemma reachable_question: "reachable sample_libs db_question"
proof -
  have "reachable sample_libs db_attached"
    unfolding db_attached_def
    by (intro reachable_step [OF _ store_steps_wf(2)] reachable_samples)
      (simp add: wf_transition_run_def sample_start_def sample_provider_wf)
  then show ?thesis
    unfolding db_question_def by (intro reachable_step [OF _ store_steps_wf(4)] sample_wf_approvals)
qed

lemma sample_libs_env [simp]: "en_libs sample_env = sample_libs"
  by (simp add: sample_env_def)

lemma sample_run_ids: "n \<le> 1000 \<Longrightarrow> inj_on (en_run_id sample_env) {..<n}"
proof (rule inj_onI)
  fix a b
  assume n: "n \<le> 1000" and ab: "a \<in> {..<n}" "b \<in> {..<n}" "en_run_id sample_env a = en_run_id sample_env b"
  then have "(of_nat a :: uuid) = of_nat b" by (simp add: sample_env_def)
  then have "unat (of_nat a :: uuid) = unat (of_nat b :: uuid)" by simp
  moreover have "a < 2 ^ 128" "b < 2 ^ 128" using n ab(1,2) by simp_all
  ultimately show "a = b" by (simp add: unsigned_of_nat take_bit_nat_eq_self)
qed

lemma run_up: "sup_run sample_env (world_up, [])"
proof (rule run_boot)
  show "boot sample_env (\<lambda>_. Ok True) (Suc (Suc 0)) db_question 0 = Some world_up"
    by (simp add: world_up_def world_up_boot)
qed (simp add: reachable_question)

lemma run_answered: "sup_run sample_env (world_answered, [ApprovalFlight (Id 40) (Id 4) (Id 3)])"
proof (rule run_step [OF run_up])
  have "resolve_approval_call sample_env (Id 40) Approved world_up = (Ok (Id 4, Id 3), world_answered)"
    using world_answered_value(1) unfolding world_answered_def by (metis prod.collapse)
  then show "sup_step sample_env (world_up, []) (world_answered, [ApprovalFlight (Id 40) (Id 4) (Id 3)])"
    by (rule step_resolve)
qed

lemma run_stale: "sup_run sample_env (world_stale, [])"
proof -
  let ?again = "reconcile_run sample_env (\<lambda>_ _. Ok None) (\<lambda>_. Ok True) (Id 4) world_lost"
  have pump: "w_pump world_up" by (simp add: world_up_value)
  have "pump_turn sample_env (Ok None) world_up = ((), world_lost)"
    by (simp add: world_lost_def prod_eq_iff)
  then have "sup_run sample_env (world_lost, [])" by (rule run_step [OF run_up step_pump [OF pump]])
  moreover have "?again = (fst ?again, world_back)" by (simp add: world_back_def)
  then have "sup_step sample_env (world_lost, []) (world_back, [])"
    by (rule step_reconcile [rotated]) simp
  ultimately have "sup_run sample_env (world_back, [])" by (rule run_step)
  moreover have "consume_turn sample_env 0 world_back = ((), world_stale)"
    by (simp add: world_stale_def prod_eq_iff)
  then have "sup_step sample_env (world_back, []) (world_stale, [])" by (rule step_consume)
  ultimately show ?thesis by (rule run_step)
qed

end
