(* ===== verification/Supervisor_Text.thy ===== *)
theory Supervisor_Text
  imports Supervisor_Laws
begin

text \<open>
  What a consumer stores: the text of the message deltas it is fed reaches the run's timeline
  complete and in order, whatever other events come in between, as long as it does not fail.
\<close>

section \<open>One batch\<close>

text \<open>The last batch of every stream had items; the supervisor never appends an empty one.\<close>

definition batches_nonempty :: "db \<Rightarrow> bool" where
  "batches_nonempty db \<longleftrightarrow> (\<forall>c\<in>set (projection_cursors db). pc_last_start_cursor c < pc_cursor c)"

lemma append_items_stored:
  assumes "append_items L b now k xs db = Ok db'"
  shows "\<exists>rows. timeline_items db' = timeline_items db @ rows \<and> map tl_kind rows = map ni_kind xs \<and>
    map tl_body rows = map ni_body xs \<and> (\<forall>t\<in>set rows. tl_run_id t = tb_run_id b) \<and>
    projection_cursors db' = projection_cursors db"
  using assms
proof (induction xs arbitrary: k db)
  case (Cons x xs)
  from Cons.prems obtain db1 where
      ins: "insert_timeline_item (new_timeline_row b now (k + 1) x) db = Ok db1"
    and rest: "append_items L b now (k + 1) xs db1 = Ok db'" by (rule append_items_step)
  from Cons.IH [OF rest] obtain rows where rows: "timeline_items db' = timeline_items db1 @ rows"
      "map tl_kind rows = map ni_kind xs" "map tl_body rows = map ni_body xs"
      "\<forall>t\<in>set rows. tl_run_id t = tb_run_id b" "projection_cursors db' = projection_cursors db1" by blast
  then show ?case
    using ins by (intro exI [of _ "new_timeline_row b now (k + 1) x # rows"])
      (auto simp: insert_timeline_item_Ok new_timeline_row_def)
qed simp

lemma upsert_cursor_rows:
  "upsert_cursor c db = Ok db' \<Longrightarrow> timeline_items db' = timeline_items db \<and>
     set (projection_cursors db') \<subseteq> insert c (set (projection_cursors db))"
  by (auto simp: upsert_cursor_def set_update_where split: if_splits)

lemma bump_tail: "bump_work_item_revision L i t db = Ok db' \<Longrightarrow> same_tail db db'"
  using core_step_bump [of L i t db db'] by (simp add: core_step_def)

text \<open>A batch that names the stream's current cursor is appended, never taken for a replay.\<close>

lemma current_batch_appends:
  assumes inv: "store_inv L db" and ne: "batches_nonempty db"
    and current: "\<And>c. find_stream_cursor L (tb_connection_id b) (tb_run_id b) (tb_source_namespace b)
      (tb_stream_id b) db = Ok (Some c) \<Longrightarrow> tb_expected_stream_revision b = psc_cursor c"
    and res: "append_timeline_batch L now b db = (Ok cur, db')"
  obtains item expected where
    "append_new L now b (timeline_payload_digest L (tb_items b)) expected item db = Ok (cur, db')"
  using res
proof (cases rule: append_timeline_batch_cases)
  case (replay expected cursor)
  then obtain c where c: "cursor = Some c" "psc_last_start_cursor c = tb_expected_stream_revision b"
    by (auto simp: decide_append_def split: option.splits if_splits)
  with current replay(1) have eq: "psc_last_start_cursor c = psc_cursor c" by simp
  from replay(1) c(1) obtain x where x: "x \<in> set (projection_cursors db)" "cursor_from_row L x = Ok c"
    by (auto simp: find_stream_cursor_def query_optional_def sql_def map_ok_eq_Ok dest: find_Some_iff'
        split: option.splits sum.splits)
  have "cursor_ok L db x"
    using inv x(1) by (simp add: store_inv_def timeline_inv_def cursors_inv_def)
  then have "pc_last_start_cursor x \<le> i64_max" "pc_cursor x \<le> i64_max"
    by (auto simp: cursor_ok_def)
  with cursor_from_row_Ok [OF x(2)] eq have "pc_last_start_cursor x = pc_cursor x"
    by (metis u64_of_i64_eq)
  with ne x(1) show thesis by (auto simp: batches_nonempty_def)
next
  case (append r expected cursor)
  from append(7) show thesis by (rule that)
qed

lemma append_batch_rows:
  assumes xs: "tb_items b \<noteq> []" and ne: "batches_nonempty db"
    and res: "append_new L now b digest expected item db = Ok (cur, db')"
  shows "\<exists>rows. timeline_items db' = timeline_items db @ rows \<and>
    map tl_kind rows = map ni_kind (tb_items b) \<and> map tl_body rows = map ni_body (tb_items b) \<and>
    (\<forall>t\<in>set rows. tl_run_id t = tb_run_id b)" and "batches_nonempty db'"
proof -
  have "(\<exists>rows. timeline_items db' = timeline_items db @ rows \<and>
      map tl_kind rows = map ni_kind (tb_items b) \<and> map tl_body rows = map ni_body (tb_items b) \<and>
      (\<forall>t\<in>set rows. tl_run_id t = tb_run_id b)) \<and> batches_nonempty db'"
    using res
  proof (rule append_new_Ok)
    fix db1 db2
    let ?c = "new_cursor_row b now digest expected (expected + int (length (tb_items b)))"
    assume items: "append_items L b now (max_revision (tb_run_id b) db) (tb_items b) db = Ok db1"
      and up: "upsert_cursor ?c db1 = Ok db2"
      and bump: "bump_work_item_revision L item now db2 = Ok db'"
    have "pc_last_start_cursor ?c < pc_cursor ?c"
      using xs by (simp add: new_cursor_row_def)
    then show ?thesis
      using append_items_stored [OF items] upsert_cursor_rows [OF up] bump_tail [OF bump] ne
      by (auto simp: same_tail_def batches_nonempty_def)
  qed
  then show "\<exists>rows. timeline_items db' = timeline_items db @ rows \<and>
      map tl_kind rows = map ni_kind (tb_items b) \<and> map tl_body rows = map ni_body (tb_items b) \<and>
      (\<forall>t\<in>set rows. tl_run_id t = tb_run_id b)" "batches_nonempty db'" by blast+
qed

section \<open>The text of a run\<close>

definition message_kind :: string where
  "message_kind = ''message_delta_batch''"

definition run_text :: "run_id \<Rightarrow> db \<Rightarrow> string" where
  "run_text r db = concat (map tl_body
     (filter (\<lambda>t. tl_run_id t = r \<and> tl_kind t = message_kind) (timeline_items db)))"

definition items_text :: "new_timeline_item list \<Rightarrow> string" where
  "items_text xs = concat (map ni_body (filter (\<lambda>i. ni_kind i = message_kind) xs))"

lemma items_text_simps [simp]:
  "items_text [] = []" "items_text (xs @ ys) = items_text xs @ items_text ys"
  "items_text [\<lparr>ni_id = i, ni_kind = k, ni_body = b, ni_provider_id = p\<rparr>] =
     (if k = message_kind then b else [])"
  by (simp_all add: items_text_def)

lemma rows_text:
  assumes "map tl_kind rows = map ni_kind xs" and "map tl_body rows = map ni_body xs"
    and "\<forall>t\<in>set rows. tl_run_id t = r"
  shows "concat (map tl_body (filter (\<lambda>t. tl_run_id t = r \<and> tl_kind t = message_kind) rows)) =
    items_text xs"
  using assms
proof (induction rows arbitrary: xs)
  case (Cons t rows)
  then obtain x ys where "xs = x # ys" by (cases xs) auto
  with Cons show ?case by (auto simp: items_text_def)
qed (simp add: items_text_def)

definition text_state :: "'z env \<Rightarrow> run_id \<Rightarrow> string \<Rightarrow> world \<Rightarrow> bool" where
  "text_state E r t w \<longleftrightarrow> reachable (en_libs E) (w_db w) \<and> batches_nonempty (w_db w) \<and>
     run_text r (w_db w) = t"

text \<open>\<open>adds m s\<close>: when \<open>m\<close> succeeds, the run's stored text has grown by \<open>s\<close>.\<close>

definition adds :: "'z env \<Rightarrow> run_id \<Rightarrow> ('e + 'a) act \<Rightarrow> string \<Rightarrow> bool" where
  "adds E r m s \<longleftrightarrow>
     (\<forall>t w x w'. text_state E r t w \<longrightarrow> m w = (Ok x, w') \<longrightarrow> text_state E r (t @ s) w')"

lemma text_state_updates [simp]:
  "text_state E r t (w\<lparr>w_state := x1\<rparr>) = text_state E r t w"
  "text_state E r t (w\<lparr>w_events := x2\<rparr>) = text_state E r t w"
  "text_state E r t (w\<lparr>w_tick := x3\<rparr>) = text_state E r t w"
  by (simp_all add: text_state_def)

lemma quiet_primitives:
  "preserves (text_state E r t) (generate g)" "preserves (text_state E r t) (publish E i k)"
  "preserves (text_state E r t) (writes f)"
  by (simp_all add: preserves_def generate_def publish_def writes_def)

lemma quiet_store:
  assumes step: "\<And>db x db'. j db = (x, db') \<Longrightarrow> store_step (en_libs E) db db'"
    and tail: "\<And>db x db'. j db = (x, db') \<Longrightarrow> same_tail db db'"
  shows "preserves (text_state E r t) (store j)"
  unfolding preserves_def
proof (intro allI impI)
  fix w
  assume w: "text_state E r t w"
  obtain x db' where j: "j (w_db w) = (x, db')" by (cases "j (w_db w)")
  with w tail [OF j] step [OF j] show "text_state E r t (snd (store j w))"
    by (auto simp: store_def text_state_def same_tail_def run_text_def batches_nonempty_def
        intro: reachable_step)
qed

lemma same_tail_jobs:
  "transition_run L c db = (x, db') \<Longrightarrow> same_tail db db'"
  "record_pending_approval L now a db = (y, db') \<Longrightarrow> same_tail db db'"
proof -
  show "transition_run L c db = (x, db') \<Longrightarrow> same_tail db db'"
    by (cases x) (auto dest: failed_operations(4) core_step_transition_run simp: core_step_def same_tail_def)
  show "record_pending_approval L now a db = (y, db') \<Longrightarrow> same_tail db db'"
    by (cases y) (auto dest: failed_operations(6) core_step_record_pending_approval
        simp: core_step_def same_tail_def)
qed

lemma quiet_transition: "preserves (text_state E r t) (transition E q a b None)"
  unfolding transition_def
  by (intro steady_intros quiet_primitives quiet_store step_transition_run same_tail_jobs)
    (auto simp: wf_transition_run_def)

lemma quiet_terminal: "preserves (text_state E r t) (transition_to_terminal E q b)"
  unfolding transition_to_terminal_def by (intro steady_intros quiet_transition)

lemma quiet_open_approval: "preserves (text_state E r t) (open_approval E q i request summary)"
proof -
  have "preserves (text_state E r t) (store (record_pending_approval (en_libs E) now
      \<lparr>pa_id = a, pa_run_id = q, pa_provider_id = p, pa_kind = ''approval'', pa_summary = summary\<rparr>))"
    if "wf_provider_id p" for now a p
    using that by (intro quiet_store step_record_approval same_tail_jobs) (auto simp: wf_pending_approval_def)
  then show ?thesis
    unfolding open_approval_def
    by (intro preserves_run_then preserves_try_then_yields [where Q = wf_provider_id] preserves_try_then
        preserves_store_errors quiet_primitives steady_intros)
      (auto simp: yields_ok_def give_def request_provider_id_wf)
qed

lemma adds_quiet: "(\<And>t. preserves (text_state E r t) m) \<Longrightarrow> adds E r m []"
  by (auto simp: adds_def intro: preservesD)

lemma adds_give: "adds E r (give x) []"
  by (intro adds_quiet steady_intros)

lemma adds_try_then:
  assumes "adds E r m s" and "\<And>x. adds E r (f x) u"
  shows "adds E r (try_then m f) (s @ u)"
  unfolding adds_def
proof (intro allI impI)
  fix t w x w'
  assume t: "text_state E r t w" and run: "try_then m f w = (Ok x, w')"
  obtain y w1 where m: "m w = (Ok y, w1)" and f: "f y w1 = (Ok x, w')"
    using run by (cases "m w") (auto simp: try_then_def split: sum.splits)
  from assms(1) t m have "text_state E r (t @ s) w1" by (auto simp: adds_def)
  with assms(2) f have "text_state E r ((t @ s) @ u) w'" unfolding adds_def by blast
  then show "text_state E r (t @ s @ u) w'" by simp
qed

lemma adds_run_then:
  assumes "\<And>t. preserves (text_state E r t) m" and "yields m Q" and "\<And>x. Q x \<Longrightarrow> adds E r (f x) s"
  shows "adds E r (run_then m f) s"
  unfolding adds_def
proof (intro allI impI)
  fix t w x w'
  assume t: "text_state E r t w" and run: "run_then m f w = (Ok x, w')"
  obtain y w1 where m: "m w = (y, w1)" and f: "f y w1 = (Ok x, w')"
    using run by (cases "m w") (auto simp: run_then_def)
  from m assms(2) have "Q y" by (metis yields_def fst_conv)
  moreover from preservesD [OF assms(1) t m] have "text_state E r t w1" .
  ultimately show "text_state E r (t @ s) w'" using assms(3) f unfolding adds_def by blast
qed

lemma adds_try_then_yields:
  assumes "\<And>t. preserves (text_state E r t) m" and "yields_ok m Q" and "\<And>x. Q x \<Longrightarrow> adds E r (f x) s"
  shows "adds E r (try_then m f) s"
  unfolding adds_def
proof (intro allI impI)
  fix t w x w'
  assume t: "text_state E r t w" and run: "try_then m f w = (Ok x, w')"
  obtain y w1 where m: "m w = (Ok y, w1)" and f: "f y w1 = (Ok x, w')"
    using run by (cases "m w") (auto simp: try_then_def split: sum.splits)
  from m assms(2) have "Q y" by (auto simp: yields_ok_def)
  moreover from preservesD [OF assms(1) t m] have "text_state E r t w1" .
  ultimately show "text_state E r (t @ s) w'" using assms(3) f unfolding adds_def by blast
qed

lemma adds_store_errors: "adds E r m s \<Longrightarrow> adds E r (store_errors m) s"
  by (auto simp: adds_def store_errors_def map_act_def split: prod.splits)

section \<open>What the handlers of a consumer add\<close>

lemma stream_cursor_current:
  assumes "get_stream_cursor L q db = (Ok st, db')"
    and "find_stream_cursor L (gs_connection_id q) (gs_run_id q) (gs_source_namespace q)
      (gs_stream_id q) db = Ok (Some c)"
  shows "(case st of None \<Rightarrow> 0 | Some x \<Rightarrow> scs_cursor x) = psc_cursor c"
  using assms by (auto simp: get_stream_cursor_def read_only_def validated_def split: sum.splits if_splits)

lemma append_run_items_Ok:
  assumes "append_run_items E r i items stream w = (Ok x, w')" and "items \<noteq> []"
  obtains b now cur w1 db' where "append_timeline_batch (en_libs E) now b (w_db w) = (Ok cur, db')"
    and "w_db w' = db'" and "tb_items b = items" and "tb_run_id b = r"
    and "\<And>c. find_stream_cursor (en_libs E) (tb_connection_id b) (tb_run_id b) (tb_source_namespace b)
      (tb_stream_id b) (w_db w) = Ok (Some c) \<Longrightarrow> tb_expected_stream_revision b = psc_cursor c"
proof -
  let ?L = "en_libs E" and ?db = "w_db w"
  let ?ns = "case stream of Some p \<Rightarrow> pri_namespace p | None \<Rightarrow> ''application''"
  let ?sid = "id_text (en_libs E) r"
  obtain s where s: "get_run ?L r ?db = (Ok s, ?db)"
    using assms read_jobs(1) [of ?L r ?db]
    by (cases "get_run ?L r ?db") (auto simp: append_run_items_def try_then_def store_def Let_def split: sum.splits)
  define q where "q = \<lparr>gs_connection_id = rs_connection_id s, gs_run_id = r, gs_source_namespace = ?ns,
    gs_stream_id = ?sid\<rparr>"
  obtain st where st: "get_stream_cursor ?L q ?db = (Ok st, ?db)"
    using assms s read_jobs(2) [of ?L q ?db]
    by (cases "get_stream_cursor ?L q ?db")
      (auto simp: append_run_items_def try_then_def store_def Let_def q_def split: sum.splits)
  define b where "b = \<lparr>tb_batch_id = en_batch_id E (w_tick w), tb_connection_id = rs_connection_id s,
    tb_run_id = r, tb_source_namespace = ?ns, tb_stream_id = ?sid,
    tb_expected_stream_revision = (case st of None \<Rightarrow> 0 | Some c \<Rightarrow> scs_cursor c), tb_items = items\<rparr>"
  obtain cur db' where b: "append_timeline_batch ?L (en_now E (Suc (w_tick w))) b ?db = (Ok cur, db')"
      and w': "w_db w' = db'"
    using assms s st [unfolded q_def]
    by (cases "append_timeline_batch ?L (en_now E (Suc (w_tick w))) b ?db")
      (auto simp: append_run_items_def act_defs publish_def Let_def b_def split: sum.splits)
  show thesis
    by (rule that [OF b w'])
      (use stream_cursor_current [OF st] in \<open>simp_all add: b_def q_def\<close>)
qed

lemma adds_append_run_items:
  assumes "list_all wf_item items"
  shows "adds E r (append_run_items E r i items stream) (items_text items)"
  unfolding adds_def
proof (intro allI impI)
  fix t w x w'
  assume t: "text_state E r t w" and run: "append_run_items E r i items stream w = (Ok x, w')"
  show "text_state E r (t @ items_text items) w'"
  proof (cases "items = []")
    case True
    with t run show ?thesis by (simp add: append_run_items_def give_def)
  next
    case False
    with run obtain b now cur db' where b: "append_timeline_batch (en_libs E) now b (w_db w) = (Ok cur, db')"
        and w': "w_db w' = db'" and items: "tb_items b = items" "tb_run_id b = r"
        and current: "\<And>c. find_stream_cursor (en_libs E) (tb_connection_id b) (tb_run_id b)
          (tb_source_namespace b) (tb_stream_id b) (w_db w) = Ok (Some c) \<Longrightarrow>
          tb_expected_stream_revision b = psc_cursor c"
      by (rule append_run_items_Ok) blast
    have reach: "reachable (en_libs E) (w_db w)" and ne: "batches_nonempty (w_db w)"
      and stored: "run_text r (w_db w) = t"
      using t by (auto simp: text_state_def)
    have wf: "wf_timeline_batch b" using assms by (simp add: wf_timeline_batch_items items)
    have xs: "tb_items b \<noteq> []" using False by (simp add: items)
    obtain item expected where new: "append_new (en_libs E) now b
        (timeline_payload_digest (en_libs E) (tb_items b)) expected item (w_db w) = Ok (cur, db')"
      using store_inv_reachable [OF reach] ne current b by (rule current_batch_appends)
    note rows = append_batch_rows [OF xs ne new]
    from rows(1) obtain rows where r: "timeline_items db' = timeline_items (w_db w) @ rows"
        "map tl_kind rows = map ni_kind items" "map tl_body rows = map ni_body items"
        "\<forall>t\<in>set rows. tl_run_id t = r" by (auto simp: items)
    from rows_text [OF r(2,3,4)] r(1) stored have "run_text r db' = t @ items_text items"
      by (simp add: run_text_def)
    moreover have "reachable (en_libs E) db'"
      using reach wf b by (blast intro: reachable_step step_append)
    ultimately show ?thesis using rows(2) by (simp add: text_state_def w')
  qed
qed

lemma adds_append_to_run:
  "list_all wf_item items \<Longrightarrow> adds E r (append_to_run E r i p items) (items_text items)"
  unfolding append_to_run_def by (intro adds_store_errors adds_append_run_items)

lemma quiet_take_items: "preserves (text_state E r t) (take_items E d)"
proof -
  have "preserves (text_state E r t) (command_items E cs)" for cs
  proof (induction cs)
    case (Cons x cs)
    obtain c u out where "x = (c, u, out)" by (cases x)
    with Cons show ?case by (auto intro!: steady_intros quiet_primitives)
  qed (auto intro: steady_intros)
  then show ?thesis
    unfolding take_items_def message_items_def by (intro steady_intros quiet_primitives)
qed

lemma command_items_text: "yields_ok (command_items E cs) (\<lambda>items. items_text items = [])"
proof (induction cs)
  case (Cons x cs)
  obtain c t out where x: "x = (c, t, out)" by (cases x)
  show ?case
    unfolding yields_ok_def
  proof (intro allI impI)
    fix w items w'
    assume "command_items E (x # cs) w = (Ok items, w')"
    then obtain p rest w1 where "command_items E cs w1 = (Ok rest, w')"
        "items = \<lparr>ni_id = en_item_id E (w_tick w), ni_kind = ''command_output_delta_batch'',
          ni_body = lines2 t out, ni_provider_id = Some p\<rparr> # rest"
      by (auto simp: x act_defs split: prod.splits sum.splits)
    moreover from this Cons have "items_text rest = []" by (auto simp: yields_ok_def)
    ultimately show "items_text items = []"
      by (simp add: items_text_def message_kind_def)
  qed
qed (simp add: yields_ok_def give_def)

definition taken :: "delta_buffer \<Rightarrow> new_timeline_item list \<Rightarrow> bool" where
  "taken d items \<longleftrightarrow> list_all wf_item items \<and> items_text items = de_message d"

lemma take_items_taken: "yields_ok (take_items E d) (taken d)"
  unfolding yields_ok_def
proof (intro allI impI)
  fix w items w'
  assume run: "take_items E d w = (Ok items, w')"
  then obtain ms cs w1 where "fst (message_items E (de_message d) w) = ms"
      "command_items E (sort_key (\<lambda>(c, _). cm_native_id c) (de_commands d)) w1 = (Ok cs, w')"
      "items = ms @ cs"
    by (auto simp: take_items_def act_defs split: prod.splits sum.splits)
  moreover from this have "items_text ms = de_message d"
    by (auto simp: message_items_def act_defs message_kind_def split: if_splits)
  ultimately have "items_text items = de_message d"
    using command_items_text [unfolded yields_ok_def] by fastforce
  moreover have "list_all wf_item items"
    using take_items_wf run unfolding yields_ok_def by blast
  ultimately show "taken d items" by (simp add: taken_def)
qed

lemma adds_with_item:
  assumes "list_all wf_item items" and "\<And>x. provider = Some x \<Longrightarrow> wf_provider_id x"
    and "k \<noteq> message_kind"
  shows "adds E r (run_then (new_item E k b provider) (\<lambda>item. append_to_run E r i p (items @ [item])))
    (items_text items)"
proof (rule adds_run_then [where Q = "\<lambda>x. wf_item x \<and> ni_kind x = k"])
  show "preserves (text_state E r t) (new_item E k b provider)" for t
    unfolding new_item_def by (intro steady_intros quiet_primitives)
  show "yields (new_item E k b provider) (\<lambda>x. wf_item x \<and> ni_kind x = k)"
    using assms(2) by (simp add: yields_def new_item_def act_defs)
  fix x
  assume x: "wf_item x \<and> ni_kind x = k"
  then have "items_text (items @ [x]) = items_text items"
    using assms(3) by (simp add: items_text_def)
  with adds_append_to_run [of "items @ [x]" E r i p] x assms(1)
  show "adds E r (append_to_run E r i p (items @ [x])) (items_text items)" by simp
qed

lemma adds_then_quiet:
  assumes "adds E r m s" and "\<And>x t. preserves (text_state E r t) (f x)"
  shows "adds E r (try_then m f) s"
  using adds_try_then [OF assms(1) adds_quiet [OF assms(2)]] by simp

lemma adds_open_user_input:
  assumes "list_all wf_item items"
  shows "adds E r (open_user_input E r i p items request prompt) (items_text items)"
  unfolding open_user_input_def
proof (intro adds_run_then [where Q = "\<lambda>_. True"] adds_try_then_yields [where Q = wf_provider_id]
    adds_then_quiet preserves_give quiet_primitives preserves_run_then)
  fix q x
  assume "wf_provider_id x"
  then have "list_all wf_item (items @ [\<lparr>ni_id = q, ni_kind = ''user_input_requested'', ni_body = prompt,
      ni_provider_id = Some x\<rparr>])" using assms by simp
  from adds_append_to_run [OF this, of E r i p]
  show "adds E r (append_to_run E r i p (items @ [\<lparr>ni_id = q, ni_kind = ''user_input_requested'',
      ni_body = prompt, ni_provider_id = Some x\<rparr>])) (items_text items)"
    by (simp add: message_kind_def)
qed (auto simp: yields_def yields_ok_def give_def request_provider_id_wf)

lemma adds_apply_authoritative:
  assumes "list_all wf_item items"
    and "\<And>q. event \<noteq> RunAccepted q" "\<And>q c. event \<noteq> MessageDelta q c" "\<And>q c t o'. event \<noteq> CommandOutputDelta q c t o'"
  shows "adds E r (apply_authoritative E r i p items event) (items_text items)"
proof (cases event)
  case (CommandOutputCompleted q c t out)
  have "adds E r (try_then (give (command_provider_id c)) (\<lambda>x.
      run_then (new_item E ''command_output_completed'' (lines2 t out) (Some x)) (\<lambda>item.
      append_to_run E r i p (items @ [item])))) (items_text items)"
    by (rule adds_try_then_yields [where Q = wf_provider_id])
      (auto simp: yields_ok_def give_def command_provider_id_wf message_kind_def
        intro!: preserves_give adds_with_item assms(1))
  with CommandOutputCompleted show ?thesis by simp
next
  case (ApprovalRequested request summary)
  then show ?thesis
    by (simp add: adds_then_quiet adds_append_to_run assms(1) quiet_open_approval)
next
  case (RunTerminal q state)
  then show ?thesis
    by (simp add: adds_then_quiet adds_append_to_run assms(1) preserves_store_errors quiet_terminal)
qed (use assms in \<open>auto simp: message_kind_def intro!: adds_with_item adds_open_user_input\<close>)

section \<open>Feeding events to a consumer\<close>

fun delta_text :: "harness_event \<Rightarrow> string" where
  "delta_text (MessageDelta _ chunk) = chunk"
| "delta_text _ = []"

text \<open>The events one consumer takes from its channel, until one fails.\<close>

fun apply_events ::
    "'z env \<Rightarrow> run_id \<Rightarrow> work_item_id \<Rightarrow> provider_run_ref \<Rightarrow> delta_buffer \<Rightarrow> harness_event list \<Rightarrow>
     ((orchestration_error + unit) \<times> delta_buffer) act" where
  "apply_events E r i p d [] = give (Ok (), d)"
| "apply_events E r i p d (e # es) =
     run_then (apply_event E r i p d e) (\<lambda>(x, d1).
       case x of Inl err \<Rightarrow> give (Err err, d1) | Inr _ \<Rightarrow> apply_events E r i p d1 es)"

lemma flushed_text:
  assumes t: "text_state E r t w"
    and run: "map_act (\<lambda>x. (x, empty_deltas)) (try_then (take_items E d) f) w = ((Ok x, d'), w')"
    and f: "\<And>items. taken d items \<Longrightarrow> adds E r (f items) (items_text items)"
  shows "text_state E r (t @ de_message d) w' \<and> de_message d' = []"
proof -
  have "adds E r (try_then (take_items E d) f) (de_message d)"
    by (rule adds_try_then_yields [OF quiet_take_items take_items_taken]) (metis f taken_def)
  then show ?thesis
    using t run by (auto simp: adds_def map_act_def empty_deltas_def split: prod.splits)
qed

lemma apply_event_text:
  assumes t: "text_state E r t w" and run: "apply_event E r i p d e w = ((Ok x, d'), w')"
  shows "\<exists>s. text_state E r (t @ s) w' \<and> s @ de_message d' = de_message d @ delta_text e"
proof -
  let ?thesis' = "\<exists>s. text_state E r (t @ s) w' \<and> s @ de_message d' = de_message d @ delta_text e"
  have deltas: ?thesis' if "flush_deltas E r i p d1 w = ((Ok x, d'), w')"
      "de_message d1 = de_message d @ delta_text e" for d1
  proof (cases "DELTA_BATCH_CHUNKS \<le> de_chunks d1")
    case True
    have "adds E r (append_to_run E r i p items) (items_text items)" if "taken d1 items" for items
      using that adds_append_to_run [of items] by (simp add: taken_def)
    moreover have "map_act (\<lambda>x. (x, empty_deltas)) (try_then (take_items E d1) (append_to_run E r i p)) w
        = ((Ok x, d'), w')" using that(1) True by (simp add: flush_deltas_def)
    ultimately have "text_state E r (t @ de_message d1) w' \<and> de_message d' = []"
      using t by (intro flushed_text)
    with that(2) show ?thesis by (intro exI [of _ "de_message d1"]) simp
  next
    case False
    with that(1) have "d' = d1" "w' = w" by (auto simp: flush_deltas_def give_def)
    with t that(2) show ?thesis by (intro exI [of _ "[]"]) simp
  qed
  have other: ?thesis' if "apply_event E r i p d e = map_act (\<lambda>x. (x, empty_deltas))
        (try_then (take_items E d) (\<lambda>items. apply_authoritative E r i p items e))"
      "delta_text e = []" "\<And>q. e \<noteq> RunAccepted q" "\<And>q c. e \<noteq> MessageDelta q c"
      "\<And>q c u o'. e \<noteq> CommandOutputDelta q c u o'"
  proof -
    have "adds E r (apply_authoritative E r i p items e) (items_text items)" if "taken d items" for items
      using that \<open>\<And>q. e \<noteq> RunAccepted q\<close> \<open>\<And>q c. e \<noteq> MessageDelta q c\<close>
        \<open>\<And>q c u o'. e \<noteq> CommandOutputDelta q c u o'\<close>
      by (intro adds_apply_authoritative) (simp_all add: taken_def)
    then have "text_state E r (t @ de_message d) w' \<and> de_message d' = []"
      using t run that(1)
      by (intro flushed_text [where f = "\<lambda>items. apply_authoritative E r i p items e"]) simp_all
    with that(2) show ?thesis by (intro exI [of _ "de_message d"]) simp
  qed
  show ?thesis
  proof (cases e)
    case (RunAccepted q)
    with run t show ?thesis by (intro exI [of _ "[]"]) (simp add: give_def)
  next
    case (MessageDelta q c)
    with run deltas [of "push_message c d"] show ?thesis by (simp add: push_message_def)
  next
    case (CommandOutputDelta q c u out)
    with run deltas [of "push_command c u out d"] show ?thesis by (simp add: push_command_def Let_def)
  qed (rule other; simp)+
qed

lemma apply_events_text:
  assumes "text_state E r t w" and "apply_events E r i p d es w = ((Ok x, d'), w')"
  obtains s where "text_state E r (t @ s) w'"
    and "s @ de_message d' = de_message d @ concat (map delta_text es)"
  using assms
proof (induction es arbitrary: t w d thesis)
  case Nil
  then show ?case by (auto simp: give_def)
next
  case (Cons e es)
  obtain y d1 w1 where e: "apply_event E r i p d e w = ((y, d1), w1)" by (metis prod.exhaust)
  with Cons.prems(3) have ok: "y = Ok ()" and rest: "apply_events E r i p d1 es w1 = ((Ok x, d'), w')"
    by (auto simp: run_then_def give_def split: sum.splits)
  from apply_event_text [OF Cons.prems(2) e [unfolded ok]] obtain s1 where
      s1: "text_state E r (t @ s1) w1" "s1 @ de_message d1 = de_message d @ delta_text e" by blast
  obtain s2 where s2: "text_state E r ((t @ s1) @ s2) w'"
      "s2 @ de_message d' = de_message d1 @ concat (map delta_text es)"
    using Cons.IH [OF _ s1(1) rest] by blast
  have "(s1 @ s2) @ de_message d' = de_message d @ concat (map delta_text (e # es))"
    using s1(2) s2(2) by simp
  with s2(1) show ?case by (intro Cons.prems(1) [of "s1 @ s2"]) simp_all
qed

text \<open>A buffer is flushed when it holds 32 chunks.\<close>

lemma apply_event_chunks:
  assumes "apply_event E r i p d e w = ((x, d'), w')" and "de_chunks d < DELTA_BATCH_CHUNKS"
  shows "de_chunks d' < DELTA_BATCH_CHUNKS"
proof -
  have "de_chunks d' < DELTA_BATCH_CHUNKS" if "flush_deltas E r i p d1 w = ((x, d'), w')" for d1
    using that
    by (auto simp: flush_deltas_def map_act_def give_def empty_deltas_def DELTA_BATCH_CHUNKS_def
        split: if_splits prod.splits)
  moreover have "de_chunks d' < DELTA_BATCH_CHUNKS"
    if "map_act (\<lambda>x. (x, empty_deltas)) m w = ((x, d'), w')" for m
    using that by (auto simp: map_act_def empty_deltas_def DELTA_BATCH_CHUNKS_def split: prod.splits)
  ultimately show ?thesis using assms by (cases e) (auto simp: give_def)
qed

lemma apply_events_chunks:
  "apply_events E r i p d es w = ((x, d'), w') \<Longrightarrow> de_chunks d < DELTA_BATCH_CHUNKS \<Longrightarrow>
     de_chunks d' < DELTA_BATCH_CHUNKS"
proof (induction es arbitrary: d w)
  case (Cons e es)
  obtain y d1 w1 where e: "apply_event E r i p d e w = ((y, d1), w1)" by (metis prod.exhaust)
  with Cons apply_event_chunks [OF e] show ?case by (auto simp: run_then_def give_def split: sum.splits)
qed (simp add: give_def)

section \<open>The output of a command\<close>

text \<open>A row claims its provider identifier for the run.\<close>

definition claims :: "timeline_batch \<Rightarrow> namespaced_provider_id \<Rightarrow> timeline_row \<Rightarrow> bool" where
  "claims b p t \<longleftrightarrow>
     tl_connection_id t = tb_connection_id b \<and> tl_run_id t = tb_run_id b \<and>
     tl_provider_namespace t = Some (np_namespace p) \<and> tl_provider_item_id t = Some (np_value p)"

lemma append_items_unclaimed:
  assumes "append_items L b now k xs db = Ok db'" and "x \<in> set xs" and "ni_provider_id x = Some p"
    and "t \<in> set (timeline_items db)"
  shows "\<not> claims b p t"
  using assms
proof (induction xs arbitrary: k db)
  case (Cons y ys)
  from Cons.prems(1) obtain db1 where
      ins: "insert_timeline_item (new_timeline_row b now (k + 1) y) db = Ok db1"
    and rest: "append_items L b now (k + 1) ys db1 = Ok db'" by (rule append_items_step)
  show ?case
  proof (cases "x = y")
    case True
    with ins Cons.prems(3,4) show ?thesis
      by (auto simp: insert_timeline_item_Ok timeline_clash_def sql_same_def new_timeline_row_def claims_def)
  next
    case False
    with Cons.prems(2) have "x \<in> set ys" by simp
    moreover have "t \<in> set (timeline_items db1)" using ins Cons.prems(4) by (simp add: insert_timeline_item_Ok)
    ultimately show ?thesis using Cons.IH [OF rest _ Cons.prems(3)] by blast
  qed
qed simp

lemma append_items_once:
  assumes "append_items L b now k (xs @ ys) db = Ok db'" and "x \<in> set xs" and "y \<in> set ys"
    and "ni_provider_id x = Some p"
  shows "ni_provider_id y \<noteq> Some p"
  using assms
proof (induction xs arbitrary: k db)
  case (Cons z zs)
  have "append_items L b now k (z # (zs @ ys)) db = Ok db'" using Cons.prems(1) by simp
  then obtain db1 where
      ins: "insert_timeline_item (new_timeline_row b now (k + 1) z) db = Ok db1"
    and rest: "append_items L b now (k + 1) (zs @ ys) db1 = Ok db'" by (rule append_items_step)
  show ?case
  proof (cases "x = z")
    case True
    have "new_timeline_row b now (k + 1) z \<in> set (timeline_items db1)"
      using ins by (simp add: insert_timeline_item_Ok)
    moreover have "claims b p (new_timeline_row b now (k + 1) z)"
      using Cons.prems(4) True by (simp add: claims_def new_timeline_row_def)
    ultimately show ?thesis
      using append_items_unclaimed [OF rest, of y p] Cons.prems(3) by auto
  next
    case False
    with Cons.prems(2) Cons.IH [OF rest _ Cons.prems(3,4)] show ?thesis by simp
  qed
qed simp

lemma command_items_provider:
  assumes "command_items E cs w = (Ok items, w')" and "c \<in> fst ` set cs"
  shows "\<exists>x\<in>set items. \<exists>p. command_provider_id c = Ok p \<and> ni_provider_id x = Some p"
  using assms
proof (induction cs arbitrary: w items)
  case (Cons y cs)
  obtain k t out where y: "y = (k, t, out)" by (cases y)
  obtain p rest w1 where p: "command_provider_id k = Ok p" and rest: "command_items E cs w1 = (Ok rest, w')"
      and items: "items = \<lparr>ni_id = en_item_id E (w_tick w), ni_kind = ''command_output_delta_batch'',
          ni_body = lines2 t out, ni_provider_id = Some p\<rparr> # rest"
    using Cons.prems(1) by (auto simp: y act_defs split: prod.splits sum.splits)
  show ?case
  proof (cases "c = k")
    case True
    with p items show ?thesis by simp
  next
    case False
    with Cons.IH [OF rest] Cons.prems(2) items y show ?thesis by auto
  qed
qed simp

lemma take_items_provider:
  assumes "take_items E d w = (Ok items, w')" and "map_of (de_commands d) c \<noteq> None"
  shows "\<exists>x\<in>set items. \<exists>p. command_provider_id c = Ok p \<and> ni_provider_id x = Some p"
proof -
  obtain ms cs w1 where "command_items E (sort_key (\<lambda>(c, _). cm_native_id c) (de_commands d)) w1 = (Ok cs, w')"
      "items = ms @ cs"
    using assms(1) by (auto simp: take_items_def act_defs split: prod.splits sum.splits)
  moreover have "c \<in> fst ` set (sort_key (\<lambda>(c, _). cm_native_id c) (de_commands d))"
    using assms(2) by (force dest: map_of_SomeD)
  ultimately show ?thesis using command_items_provider by fastforce
qed

lemma append_run_items_keeps:
  assumes "append_run_items E r i items stream w = (Err e, w')"
  shows "w_db w' = w_db w"
proof -
  have reads: "get_run L q db = (x, db') \<Longrightarrow> db' = db"
    "get_stream_cursor L u db = (y, db') \<Longrightarrow> db' = db" for L q u db db' x y
    using read_jobs(1) [of L q db] read_jobs(2) [of L u db] by simp_all
  show ?thesis
    using assms
    by (auto simp: append_run_items_def act_defs publish_def Let_def split: if_splits prod.splits sum.splits
        dest!: failed_operations(5) reads)
qed

lemma generate_db: "preserves (\<lambda>u. w_db u = db) (generate g)"
  by (simp add: preserves_def generate_def)

lemma take_items_db: "take_items E d w = (x, w') \<Longrightarrow> w_db w' = w_db w"
proof -
  have "preserves (\<lambda>u. w_db u = w_db w) (command_items E cs)" for cs
  proof (induction cs)
    case (Cons x cs)
    obtain c u out where "x = (c, u, out)" by (cases x)
    with Cons show ?case by (auto intro!: steady_intros generate_db)
  qed (auto intro: steady_intros)
  then have "preserves (\<lambda>u. w_db u = w_db w) (take_items E d)"
    unfolding take_items_def message_items_def by (intro steady_intros generate_db)
  then show "take_items E d w = (x, w') \<Longrightarrow> w_db w' = w_db w" by (auto dest: preservesD)
qed

lemma append_twice_fails:
  assumes inv: "store_inv (en_libs E) (w_db w)" and ne: "batches_nonempty (w_db w)"
    and x: "x \<in> set items" "ni_provider_id x = Some p" and y: "ni_provider_id y = Some p"
    and run: "append_run_items E r i (items @ [y]) stream w = (z, w')"
  shows "is_ok z = False" and "w_db w' = w_db w"
proof -
  have "z \<noteq> Ok u" for u
  proof
    assume "z = Ok u"
    with run have "append_run_items E r i (items @ [y]) stream w = (Ok u, w')" by simp
    then obtain b now cur db' where b: "append_timeline_batch (en_libs E) now b (w_db w) = (Ok cur, db')"
        and items: "tb_items b = items @ [y]"
        and current: "\<And>c. find_stream_cursor (en_libs E) (tb_connection_id b) (tb_run_id b)
          (tb_source_namespace b) (tb_stream_id b) (w_db w) = Ok (Some c) \<Longrightarrow>
          tb_expected_stream_revision b = psc_cursor c"
      by (rule append_run_items_Ok) auto
    obtain item expected where "append_new (en_libs E) now b
        (timeline_payload_digest (en_libs E) (tb_items b)) expected item (w_db w) = Ok (cur, db')"
      using inv ne current b by (rule current_batch_appends)
    then obtain db1 k where "append_items (en_libs E) b now k (items @ [y]) (w_db w) = Ok db1"
      by (auto simp: items elim: append_new_Ok)
    from append_items_once [OF this x(1) _ x(2)] y show False by simp
  qed
  then show "is_ok z = False" by (cases z) auto
  then show "w_db w' = w_db w" using run by (cases z) (auto dest: append_run_items_keeps)
qed

lemma completion_fails:
  assumes inv: "store_inv (en_libs E) (w_db w)" and ne: "batches_nonempty (w_db w)"
    and c: "map_of (de_commands d) c \<noteq> None"
    and run: "apply_event E r i p d (CommandOutputCompleted q c t out) w = ((x, d'), w')"
  shows "is_ok x = False" and "w_db w' = w_db w"
proof -
  obtain y w1 where take: "take_items E d w = (y, w1)" by (cases "take_items E d w")
  note db1 = take_items_db [OF take]
  have "is_ok x = False \<and> w_db w' = w_db w"
  proof (cases y)
    case (Inl e)
    with run take db1 show ?thesis by (auto simp: map_act_def try_then_def)
  next
    case (Inr items)
    from take_items_provider [OF take [unfolded Inr] c] obtain a pid where
      a: "a \<in> set items" "command_provider_id c = Ok pid" "ni_provider_id a = Some pid" by blast
    define item where "item = \<lparr>ni_id = en_item_id E (w_tick w1), ni_kind = ''command_output_completed'',
      ni_body = lines2 t out, ni_provider_id = Some pid\<rparr>"
    define w2 where "w2 = w1\<lparr>w_tick := Suc (w_tick w1)\<rparr>"
    obtain z w3 where append: "append_run_items E r i (items @ [item]) (Some p) w2 = (z, w3)"
      by (cases "append_run_items E r i (items @ [item]) (Some p) w2")
    have db2: "w_db w2 = w_db w" by (simp add: w2_def db1)
    have "x = map_err StoreFailed z \<and> w' = w3"
      using run take Inr a(2) append
      by (auto simp: map_act_def try_then_def give_def run_then_def new_item_def generate_def
          append_to_run_def store_errors_def item_def w2_def)
    moreover from append_twice_fails [OF _ _ a(1,3) _ append] inv ne db2
    have "is_ok z = False" "w_db w3 = w_db w" by (simp_all add: item_def)
    ultimately show ?thesis by (cases z) auto
  qed
  then show "is_ok x = False" "w_db w' = w_db w" by blast+
qed

end
