(* ===== verification/Supervisor_Startup.thy ===== *)
theory Supervisor_Startup
  imports Supervisor_Bounds
begin

text \<open>
  What start-up reconciliation achieves: it reads every page, whatever it changes on the way, and
  when it succeeds no run is left starting and every run left running is attached to a consumer.
\<close>

section \<open>Pages of an ordered selection\<close>

lemma page_of_rest:
  assumes "sorted_wrt (<) (map key sel)" and "0 < n"
  shows "a \<in> set sel \<Longrightarrow> after_key after (key a) \<Longrightarrow> a \<in> set (pg_items (page_of key after n sel)) \<or>
      (\<exists>k. pg_next_after (page_of key after n sel) = Some k \<and> k < key a)"
    and "pg_next_after (page_of key after n sel) = Some k \<Longrightarrow>
      after_key after k \<and> k \<in> key ` set sel \<and> (\<forall>a\<in>set (pg_items (page_of key after n sel)). key a \<le> k)"
    and "a \<in> set (pg_items (page_of key after n sel)) \<Longrightarrow> a \<in> set sel \<and> after_key after (key a)"
    and "distinct (map key (pg_items (page_of key after n sel)))"
proof -
  define rest where "rest = filter (\<lambda>a. after_key after (key a)) sel"
  have sorted: "sorted_wrt (<) (map key rest)"
    using assms(1) by (simp add: rest_def sorted_wrt_map sorted_wrt_filter)
  have page: "page_of key after n sel =
      \<lparr>pg_items = take n rest, pg_next_after = (if n < length rest then Some (key (last (take n rest))) else None)\<rparr>"
    by (simp add: page_of_def rest_def Let_def)
  have last: "last (take n rest) = rest ! (n - 1)" if "n < length rest"
    using that assms(2) take_Suc_conv_app_nth [of "n - 1" rest] by simp
  have less: "key (rest ! i) < key (rest ! j)" if "i < j" "j < length rest" for i j
    using sorted_wrt_nth_less [OF sorted, of i j] that by simp
  {
    fix a
    assume "a \<in> set sel" "after_key after (key a)"
    then have "a \<in> set rest" by (simp add: rest_def)
    then obtain j where j: "j < length rest" "rest ! j = a" by (auto simp: in_set_conv_nth)
    show "a \<in> set (pg_items (page_of key after n sel)) \<or>
        (\<exists>k. pg_next_after (page_of key after n sel) = Some k \<and> k < key a)"
    proof (cases "j < n")
      case True
      with j show ?thesis by (auto simp: page in_set_conv_nth)
    next
      case False
      then show ?thesis using j less [of "n - 1" j] last assms(2) by (auto simp: page)
    qed
  next
    assume "pg_next_after (page_of key after n sel) = Some k"
    then have n: "n < length rest" and k: "k = key (rest ! (n - 1))"
      using last by (auto simp: page split: if_splits)
    have "rest ! (n - 1) \<in> set rest" using n by simp
    moreover have "key a \<le> k" if a: "a \<in> set (take n rest)" for a
    proof -
      from a obtain i where "i < n" "a = rest ! i" using n by (auto simp: in_set_conv_nth)
      then show ?thesis using n k by (cases "i = n - 1") (auto intro!: less_imp_le less)
    qed
    ultimately show "after_key after k \<and> k \<in> key ` set sel \<and>
        (\<forall>a\<in>set (pg_items (page_of key after n sel)). key a \<le> k)"
      by (auto simp: page k rest_def)
  next
    show "a \<in> set (pg_items (page_of key after n sel)) \<Longrightarrow> a \<in> set sel \<and> after_key after (key a)"
      by (auto simp: page rest_def dest: in_set_takeD)
    have "distinct (map key rest)" using sorted by (simp add: strict_sorted_iff)
    then show "distinct (map key (pg_items (page_of key after n sel)))"
      by (simp add: page take_map [symmetric] del: distinct_map)
  }
qed

section \<open>What a transition does to the runs\<close>

definition same_others :: "run_id \<Rightarrow> db \<Rightarrow> db \<Rightarrow> bool" where
  "same_others i db db' \<longleftrightarrow>
     (\<exists>P f. runs db' = update_where (\<lambda>r. rr_id r = i \<and> P r) f (runs db) \<and>
        (\<forall>r. rr_id (f r) = rr_id r \<and> rr_work_item_id (f r) = rr_work_item_id r))"

lemma same_others_refl [simp]: "same_others i db db"
  unfolding same_others_def
  by (rule exI [of _ "\<lambda>_. False"], rule exI [of _ id]) (simp add: update_where_def)

lemma same_others_keys: "same_others i db db' \<Longrightarrow> map rr_id (runs db') = map rr_id (runs db)"
  by (auto simp: same_others_def update_where_def)

lemma same_others_row:
  "same_others i db db' \<Longrightarrow> rr_id r \<noteq> i \<Longrightarrow> r \<in> set (runs db') \<longleftrightarrow> r \<in> set (runs db)"
  by (auto simp: same_others_def update_where_def image_iff split: if_splits)

lemma transition_run_effect:
  assumes "transition_run L c db = (Ok s, db')"
  shows "runs db' = update_where
      (\<lambda>r. rr_id r = tr_run_id c \<and> rr_status r = run_status_value (tr_expected_current c))
      (transition_row c) (runs db)"
    and "rs_id s = tr_run_id c" and "\<exists>r\<in>set (runs db'). run_from_row r = Ok s"
proof -
  have "apply_run_transition L c db = Ok (s, db')"
    using assms by (auto simp: transition_run_def job_simps)
  then obtain run n db1 voided db2 db3 where "fetch_run L (tr_run_id c) db = Ok run"
    and upd: "update_runs (\<lambda>r. rr_id r = tr_run_id c \<and> rr_status r = run_status_value (tr_expected_current c))
       (transition_row c) db = Ok (n, db1)" and "n \<noteq> 0"
    and void: "void_pending_approvals L c db1 = Ok (voided, db2)"
    and audit: "insert_audit (run_transition_audit L c voided) db2 = Ok db3"
    and bump: "bump_work_item_revision L (rs_work_item_id run) (tr_occurred_at c) db3 = Ok db'"
    and row: "query_row L run_from_row (\<lambda>r. rr_id r = tr_run_id c) (runs db') = Ok s"
    by (rule apply_run_transition_Ok)
  have "runs db2 = runs db1" using arg_cong [OF void_frame [OF void], of runs] by simp
  then show "runs db' = update_where
      (\<lambda>r. rr_id r = tr_run_id c \<and> rr_status r = run_status_value (tr_expected_current c))
      (transition_row c) (runs db)"
    using upd audit bump
    by (auto simp: update_runs_Ok bump_work_item_revision_Ok update_work_items_Ok elim!: insert_audit_frame)
  from row obtain r where r: "r \<in> set (runs db')" "rr_id r = tr_run_id c" "run_from_row r = Ok s"
    by (auto simp: query_row_def query_optional_def sql_def dest: find_Some_iff'
        split: option.splits sum.splits)
  then show "\<exists>r\<in>set (runs db'). run_from_row r = Ok s" by blast
  from r show "rs_id s = tr_run_id c" by (auto simp: run_from_row_def and_then_eq_Ok)
qed

lemma transition_run_others: "transition_run L c db = (Ok s, db') \<Longrightarrow> same_others (tr_run_id c) db db'"
  unfolding same_others_def using transition_run_effect(1)
  by (intro exI [of _ "\<lambda>r. rr_status r = run_status_value (tr_expected_current c)"] exI [of _ "transition_row c"])
    simp

lemma legal_rows: "legal E w \<Longrightarrow> distinct (map rr_id (runs (w_db w)))"
  using store_inv_reachable [of "en_libs E" "w_db w"]
  by (simp add: legal_def store_inv_def core_inv_def run_inv_def)

lemma run_status_text: "run_status_from_value v = Ok s \<Longrightarrow> v = run_status_value s"
  by (auto simp: run_status_from_value_def split: if_splits)

lemma run_from_row_columns:
  "run_from_row r = Ok s \<Longrightarrow> rs_id s = rr_id r \<and> rs_work_item_id s = rr_work_item_id r \<and>
     rr_status r = run_status_value (rs_status s)"
  by (auto simp: run_from_row_def and_then_eq_Ok dest: run_status_text)

text \<open>The row of a run, once its transition succeeded.\<close>

lemma transition_run_row:
  assumes res: "transition_run L c db = (Ok s, db')" and d: "distinct (map rr_id (runs db))"
    and r: "r \<in> set (runs db)" "rr_id r = tr_run_id c" "rr_status r = run_status_value (tr_expected_current c)"
    and r': "r' \<in> set (runs db')" "rr_id r' = tr_run_id c"
  shows "rr_status r' = run_status_value (tr_target c)"
proof -
  obtain x where x: "x \<in> set (runs db)" "rr_id x = rr_id r'"
      "r' = (if rr_id x = tr_run_id c \<and> rr_status x = run_status_value (tr_expected_current c)
             then transition_row c x else x)"
    using r'(1) by (auto simp: transition_run_effect(1) [OF res] update_where_def)
  have "x = r" using distinct_map_inj [OF d x(1) r(1)] x(2) r(2) r'(2) by simp
  with x(3) r(2,3) show ?thesis by simp
qed

lemma transition_Ok:
  assumes "transition E i a b p w = (Ok s, w')"
  obtains c where "transition_run (en_libs E) c (w_db w) = (Ok s, w_db w')" and "tr_run_id c = i"
    and "tr_expected_current c = a" and "tr_target c = b"
    and "w_state w' = w_state w" and "w_consumers w' = w_consumers w"
proof -
  let ?c = "\<lparr>tr_run_id = i, tr_expected_current = a, tr_target = b, tr_provider_id = p,
    tr_occurred_at = en_now E (w_tick w), tr_audit_event_id = en_audit_id E (Suc (w_tick w))\<rparr>"
  show thesis
    using assms
    by (intro that [of ?c])
      (auto simp: transition_def act_defs publish_def split: prod.splits sum.splits)
qed

section \<open>One run\<close>

definition settled :: "reattach_plan list \<Rightarrow> db \<Rightarrow> run_id \<Rightarrow> bool" where
  "settled plans db i \<longleftrightarrow>
     (\<forall>row\<in>set (runs db). rr_id row = i \<longrightarrow>
        rr_status row \<noteq> ''starting'' \<and>
        (rr_status row = ''running'' \<longrightarrow> (\<exists>p\<in>set plans. rs_id (rp_run p) = i)))"

definition held :: "world \<Rightarrow> run_id \<Rightarrow> nat \<Rightarrow> bool" where
  "held w i c \<longleftrightarrow>
     (\<forall>row\<in>set (runs (w_db w)). rr_id row = i \<longrightarrow>
        map_of (su_work_items (w_state w)) i = Some (rr_work_item_id row)) \<and>
     map_of (su_runs (w_state w)) i \<noteq> None \<and>
     c < length (w_consumers w) \<and> co_run (w_consumers w ! c) = i \<and> co_open (w_consumers w ! c)"

definition recovering :: "'z env \<Rightarrow> run_id set \<Rightarrow> reattach_plan list \<Rightarrow> world \<Rightarrow> bool" where
  "recovering E D plans w \<longleftrightarrow>
     legal E w \<and> su_uncertain_starts (w_state w) = [] \<and>
     (\<forall>i\<in>D. settled plans (w_db w) i) \<and>
     (\<forall>p\<in>set plans. rs_id (rp_run p) \<in> D \<and> held w (rs_id (rp_run p)) (rp_receiver p))"

lemma settled_others:
  assumes "same_others i db db'" and "settled plans db j" and "j \<noteq> i" and "set plans \<subseteq> set plans'"
  shows "settled plans' db' j"
  using assms same_others_row [OF assms(1)] unfolding settled_def by blast

lemma same_others_items:
  assumes "same_others i db db'" and "row \<in> set (runs db')"
  shows "\<exists>r\<in>set (runs db). rr_id r = rr_id row \<and> rr_work_item_id r = rr_work_item_id row"
proof -
  obtain P f where P: "runs db' = update_where (\<lambda>r. rr_id r = i \<and> P r) f (runs db)"
      "\<And>r. rr_id (f r) = rr_id r \<and> rr_work_item_id (f r) = rr_work_item_id r"
    using assms(1) unfolding same_others_def by blast
  with assms(2) obtain x where "x \<in> set (runs db)" "row = (if rr_id x = i \<and> P x then f x else x)"
    by (auto simp: update_where_def)
  with P(2) show ?thesis by (intro bexI [of _ x]) auto
qed

text \<open>A run falls back, and nothing but its row changes.\<close>

lemma startup_fall_back_Ok:
  assumes "startup_fall_back E run w = (Ok u, w')" and d: "distinct (map rr_id (runs (w_db w)))"
    and row: "row \<in> set (runs (w_db w))" "run_from_row row = Ok run"
  shows "same_others (rs_id run) (w_db w) (w_db w')" and "settled [] (w_db w') (rs_id run)"
    and "w_state w' = w_state w" and "w_consumers w' = w_consumers w"
proof -
  note cols = run_from_row_columns [OF row(2)]
  have "same_others (rs_id run) (w_db w) (w_db w') \<and> settled [] (w_db w') (rs_id run) \<and>
      w_state w' = w_state w \<and> w_consumers w' = w_consumers w"
  proof (cases "lost_target (rs_status run)")
    case None
    then have "w' = w" using assms(1) by (simp add: startup_fall_back_def give_def)
    moreover have "rr_status r \<noteq> ''starting'' \<and> rr_status r \<noteq> ''running''"
      if "r \<in> set (runs (w_db w))" "rr_id r = rs_id run" for r
    proof -
      have "r = row" using distinct_map_inj [OF d that(1) row(1)] that(2) cols by simp
      with cols None show ?thesis by (cases "rs_status run") auto
    qed
    ultimately show ?thesis by (auto simp: settled_def)
  next
    case (Some t)
    with assms(1) obtain s where "transition E (rs_id run) (rs_status run) t None w = (Ok s, w')"
      by (auto simp: startup_fall_back_def map_act_def map_ok_eq_Ok split: prod.splits)
    then obtain c where c: "transition_run (en_libs E) c (w_db w) = (Ok s, w_db w')"
        "tr_run_id c = rs_id run" "tr_expected_current c = rs_status run" "tr_target c = t"
        "w_state w' = w_state w" "w_consumers w' = w_consumers w" by (rule transition_Ok)
    have "rr_status r = run_status_value t" if "r \<in> set (runs (w_db w'))" "rr_id r = rs_id run" for r
      using transition_run_row [OF c(1) d row(1) _ _ that(1)] cols that c by simp
    moreover have "run_status_value t \<noteq> ''starting''" "run_status_value t \<noteq> ''running''"
      using Some by (cases "rs_status run"; auto)+
    ultimately show ?thesis
      using transition_run_others [OF c(1)] c by (auto simp: settled_def)
  qed
  then show "same_others (rs_id run) (w_db w) (w_db w')" "settled [] (w_db w') (rs_id run)"
    "w_state w' = w_state w" "w_consumers w' = w_consumers w" by blast+
qed

text \<open>A run is attached again: its route is prepared, its row says running.\<close>

lemma prepare_route_effect:
  assumes "prepare_route r i p x w = (c, w')"
  shows "c = length (w_consumers w)" and "w_db w' = w_db w"
    and "map_of (su_runs (w_state w')) = (map_of (su_runs (w_state w)))(r \<mapsto> p)"
    and "map_of (su_work_items (w_state w')) = (map_of (su_work_items (w_state w)))(r \<mapsto> i)"
    and "su_uncertain_starts (w_state w') = su_uncertain_starts (w_state w)"
    and "\<exists>k. w_consumers w' = w_consumers w @ [k] \<and> co_run k = r \<and> co_open k"
  using assms by (auto simp: prepare_route_def act_defs new_channel_def update_conv')

lemma restore_requests_Ok:
  assumes "restore_requests E run p w = (Ok x, w')"
  shows "w' = w"
proof -
  have "load_requests E (rs_id run) p w = (Ok x, w')"
    using assms by (auto simp: restore_requests_def run_then_def give_def split: prod.splits sum.splits if_splits)
  then show ?thesis by (rule load_requests_known(1))
qed

lemma prepare_startup_reattach_Ok:
  assumes run: "prepare_startup_reattach E run p w = (Ok plan, w')"
    and d: "distinct (map rr_id (runs (w_db w)))"
    and row: "row \<in> set (runs (w_db w))" "run_from_row row = Ok run"
  shows "same_others (rs_id run) (w_db w) (w_db w')" and "rs_id (rp_run plan) = rs_id run"
    and "\<And>r. r \<in> set (runs (w_db w')) \<Longrightarrow> rr_id r = rs_id run \<Longrightarrow> rr_status r = ''running''"
    and "held w' (rs_id run) (rp_receiver plan)"
    and "\<And>j c. j \<noteq> rs_id run \<Longrightarrow> held w j c \<Longrightarrow> held w' j c"
    and "su_uncertain_starts (w_state w') = su_uncertain_starts (w_state w)"
proof -
  note cols = run_from_row_columns [OF row(2)]
  obtain x w2 where x2: "restore_requests E run p w = (Ok x, w2)"
    using run by (auto simp: prepare_startup_reattach_def try_then_def split: prod.splits sum.splits)
  then have x: "restore_requests E run p w = (Ok x, w)" using restore_requests_Ok by blast
  obtain k w1 where route: "prepare_route (rs_id run) (rs_work_item_id run) p x w = (k, w1)"
    by (cases "prepare_route (rs_id run) (rs_work_item_id run) p x w")
  note effect = prepare_route_effect [OF route]
  have bind: "bind_reattached E run p k w1 = (Ok plan, w')"
    using run x route by (simp add: prepare_startup_reattach_def try_then_def run_then_def)
  have b: "same_others (rs_id run) (w_db w) (w_db w') \<and> rs_id (rp_run plan) = rs_id run \<and>
      rp_receiver plan = k \<and> w_state w' = w_state w1 \<and> w_consumers w' = w_consumers w1 \<and>
      (\<forall>r\<in>set (runs (w_db w')). rr_id r = rs_id run \<longrightarrow> rr_status r = ''running'')"
  proof (cases "rs_status run \<noteq> Running \<or> rs_provider_id run = None")
    case False
    then have "plan = \<lparr>rp_run = run, rp_provider_run = p, rp_receiver = k, rp_publish_status = False\<rparr>" "w' = w1"
      using bind by (auto simp: bind_reattached_def give_def)
    moreover have "rr_status r = ''running''" if "r \<in> set (runs (w_db w))" "rr_id r = rs_id run" for r
      using distinct_map_inj [OF d that(1) row(1)] that(2) cols False by simp
    ultimately show ?thesis by (simp add: effect)
  next
    case True
    define c where "c = \<lparr>tr_run_id = rs_id run, tr_expected_current = rs_status run, tr_target = Running,
      tr_provider_id = Some p, tr_occurred_at = en_now E (w_tick w1),
      tr_audit_event_id = en_audit_id E (Suc (w_tick w1))\<rparr>"
    obtain s where s: "transition_run (en_libs E) c (w_db w1) = (Ok s, w_db w')"
        "plan = \<lparr>rp_run = s, rp_provider_run = p, rp_receiver = k, rp_publish_status = True\<rparr>"
        "w_state w' = w_state w1" "w_consumers w' = w_consumers w1"
      using bind True
      by (auto simp: bind_reattached_def Let_def act_defs c_def drop_receiver_def update_consumer_def
          split: prod.splits sum.splits)
    have "rr_status r = ''running''" if "r \<in> set (runs (w_db w'))" "rr_id r = rs_id run" for r
      using transition_run_row [OF s(1) _ _ _ _ that(1)] d row(1) cols that(2)
      by (simp add: c_def effect(2))
    then show ?thesis
      using transition_run_others [OF s(1)] transition_run_effect(2) [OF s(1)] s
      by (simp add: c_def effect(2))
  qed
  then show "same_others (rs_id run) (w_db w) (w_db w')" "rs_id (rp_run plan) = rs_id run"
    "su_uncertain_starts (w_state w') = su_uncertain_starts (w_state w)"
    "\<And>r. r \<in> set (runs (w_db w')) \<Longrightarrow> rr_id r = rs_id run \<Longrightarrow> rr_status r = ''running''"
    by (simp_all add: effect)
  note so = conjunct1 [OF b]
  have items: "\<exists>r\<in>set (runs (w_db w)). rr_id r = rr_id row' \<and> rr_work_item_id r = rr_work_item_id row'"
    if "row' \<in> set (runs (w_db w'))" for row'
    using same_others_items [OF so that] .
  obtain kk where kk: "w_consumers w1 = w_consumers w @ [kk]" "co_run kk = rs_id run" "co_open kk"
    using effect(6) by blast
  have own: "rr_work_item_id row' = rs_work_item_id run"
    if row': "row' \<in> set (runs (w_db w'))" "rr_id row' = rs_id run" for row'
  proof -
    from items [OF row'(1)] obtain r where r: "r \<in> set (runs (w_db w))" "rr_id r = rr_id row'"
        "rr_work_item_id r = rr_work_item_id row'" by blast
    then show ?thesis using distinct_map_inj [OF d r(1) row(1)] row'(2) cols by simp
  qed
  show "held w' (rs_id run) (rp_receiver plan)"
    using b own kk by (simp add: held_def effect nth_append)
  show "held w' j c" if "j \<noteq> rs_id run" "held w j c" for j c
    using b that kk items by (auto simp: held_def effect nth_append) metis
qed

lemma held_others:
  assumes "held w j c" and "w_state w' = w_state w" and "w_consumers w' = w_consumers w"
    and "same_others i (w_db w) (w_db w')"
  shows "held w' j c"
proof -
  have "map_of (su_work_items (w_state w)) j = Some (rr_work_item_id row)"
    if "row \<in> set (runs (w_db w'))" "rr_id row = j" for row
    using same_others_items [OF assms(4) that(1)] assms(1) that(2) unfolding held_def by metis
  with assms show ?thesis by (simp add: held_def)
qed

lemma recover_run_step:
  assumes run: "recover_run E reconnect plans run w = (Ok plans', w')" and inv: "recovering E D plans w"
    and row: "row \<in> set (runs (w_db w))" "run_from_row row = Ok run" and new: "rs_id run \<notin> D"
  shows "recovering E (insert (rs_id run) D) plans' w'" and "same_others (rs_id run) (w_db w) (w_db w')"
proof -
  have legal: "legal E w" and starts: "su_uncertain_starts (w_state w) = []"
    and past: "\<And>i. i \<in> D \<Longrightarrow> settled plans (w_db w) i"
    and hold: "\<And>p. p \<in> set plans \<Longrightarrow> rs_id (rp_run p) \<in> D \<and> held w (rs_id (rp_run p)) (rp_receiver p)"
    using inv by (auto simp: recovering_def)
  note d = legal_rows [OF legal]
  have "preserves (legal E) (recover_run E reconnect plans run)"
    by (rule legal_run.preserves_recover_run) (rule run_from_row_provider [OF row(2)])
  then have legal': "legal E w'" using legal run by (rule preservesD)
  have "recovering E (insert (rs_id run) D) plans' w' \<and> same_others (rs_id run) (w_db w) (w_db w')"
  proof (cases "\<exists>p. rs_provider_id run = Some p \<and> reconnect p = Ok True")
    case True
    then obtain p where p: "rs_provider_id run = Some p" "reconnect p = Ok True" by blast
    with run obtain plan where plan: "prepare_startup_reattach E run p w = (Ok plan, w')"
        and plans': "plans' = plans @ [plan]"
      by (auto simp: recover_run_def Let_def run_then_def map_act_def give_def map_ok_eq_Ok
          split: prod.splits sum.splits)
    note e = prepare_startup_reattach_Ok [OF plan d row]
    have "settled plans' (w_db w') (rs_id run)"
      using e(2,3) by (auto simp: settled_def plans')
    moreover have "settled plans' (w_db w') i" if "i \<in> D" for i
      by (rule settled_others [OF e(1) past [OF that]]) (use that new plans' in auto)
    moreover have "held w' (rs_id (rp_run q)) (rp_receiver q)" if "q \<in> set plans" for q
      by (intro e(5)) (use hold [OF that] new in auto)
    ultimately show ?thesis
      using e(1,2,4,6) starts legal' hold plans' by (auto simp: recovering_def)
  next
    case False
    then have "store_errors (map_act (map_ok (\<lambda>_. plans)) (startup_fall_back E run)) w = (Ok plans', w') \<or>
        (\<exists>u. store_errors (startup_fall_back E run) w = (Ok u, w') \<and> plans' = plans)"
      using run
      by (cases "rs_provider_id run")
        (auto simp: recover_run_def Let_def run_then_def give_def map_act_def store_errors_def
          split: prod.splits sum.splits if_splits)
    then obtain u where u: "startup_fall_back E run w = (Ok u, w')" and plans': "plans' = plans"
      by (auto simp: store_errors_def map_act_def map_ok_eq_Ok split: prod.splits)
    note e = startup_fall_back_Ok [OF u d row]
    have "settled plans (w_db w') (rs_id run)" using e(2) by (auto simp: settled_def)
    moreover have "settled plans (w_db w') i" if "i \<in> D" for i
      by (rule settled_others [OF e(1) past [OF that]]) (use that new in auto)
    moreover have "held w' (rs_id (rp_run q)) (rp_receiver q)" if "q \<in> set plans" for q
      using held_others [OF _ e(3,4,1)] hold [OF that] by blast
    ultimately show ?thesis
      using e starts legal' hold plans' by (auto simp: recovering_def)
  qed
  then show "recovering E (insert (rs_id run) D) plans' w'" "same_others (rs_id run) (w_db w) (w_db w')"
    by blast+
qed

lemma recover_runs_step:
  assumes "recover_runs E reconnect plans rs w = (Ok plans', w')" and "recovering E D plans w"
    and "\<And>run. run \<in> set rs \<Longrightarrow> \<exists>row\<in>set (runs (w_db w)). run_from_row row = Ok run"
    and "distinct (map rs_id rs)" and "rs_id ` set rs \<inter> D = {}"
  shows "recovering E (D \<union> rs_id ` set rs) plans' w' \<and>
    map rr_id (runs (w_db w')) = map rr_id (runs (w_db w))"
  using assms
proof (induction rs arbitrary: plans w D)
  case Nil
  then show ?case by (simp add: give_def)
next
  case (Cons run rs)
  obtain plans1 w1 where run: "recover_run E reconnect plans run w = (Ok plans1, w1)"
      and rest: "recover_runs E reconnect plans1 rs w1 = (Ok plans', w')"
    using Cons.prems(1) by (auto simp: try_then_def split: prod.splits sum.splits)
  obtain row where row: "row \<in> set (runs (w_db w))" "run_from_row row = Ok run"
    using Cons.prems(3) by auto
  have "rs_id run \<notin> D" using Cons.prems(5) by auto
  note step = recover_run_step [OF run Cons.prems(2) row this]
  have "\<exists>row\<in>set (runs (w_db w1)). run_from_row row = Ok q" if q: "q \<in> set rs" for q
  proof -
    obtain x where x: "x \<in> set (runs (w_db w))" "run_from_row x = Ok q" using Cons.prems(3) q by auto
    moreover have "rr_id x \<noteq> rs_id run"
      using Cons.prems(4) q run_from_row_columns [OF x(2)] by (auto simp: image_iff)
    ultimately show ?thesis using same_others_row [OF step(2)] by blast
  qed
  with Cons.IH [OF rest step(1)] Cons.prems(4,5) same_others_keys [OF step(2)] show ?case by auto
qed

section \<open>All pages\<close>

definition needs_reconciliation :: "run_row \<Rightarrow> bool" where
  "needs_reconciliation r \<longleftrightarrow>
     rr_status r \<in> {''starting'', ''running'', ''disconnected'', ''outcome_unknown''}"

lemma reconciliation_page:
  assumes "store_inv L db" and "list_runs_needing_reconciliation L after 200 db = (x, db')"
  shows "x = Ok (page_of rs_id after 200
    (table_selection rr_id run_from_row needs_reconciliation (runs db)))" and "db' = db"
proof -
  have "list_runs_needing_reconciliation L after 200 = list_runs_where L needs_reconciliation after 200"
    by (simp add: list_runs_needing_reconciliation_def needs_reconciliation_def [abs_def])
  then have "(x, db') = (Ok (page_of rs_id after 200
      (table_selection rr_id run_from_row needs_reconciliation (runs db))), db)"
    using run_pages.page [OF assms(1), where P = needs_reconciliation and limit = 200 and after = after] assms(2)
    by (cases x) simp_all
  then show "x = Ok (page_of rs_id after 200
      (table_selection rr_id run_from_row needs_reconciliation (runs db)))" "db' = db" by blast+
qed

lemma reconciliation_selection:
  assumes "store_inv L db"
  shows "sorted_wrt (<) (map rs_id (table_selection rr_id run_from_row P (runs db)))"
    and "run \<in> set (table_selection rr_id run_from_row P (runs db)) \<longleftrightarrow>
      (\<exists>row\<in>set (runs db). P row \<and> run_from_row row = Ok run)"
proof -
  show "sorted_wrt (<) (map rs_id (table_selection rr_id run_from_row P (runs db)))"
    using run_pages.ordered [OF assms, of P] .
  have "is_ok (run_from_row row)" if "row \<in> set (runs db)" for row
    using assms that by (simp add: store_inv_def core_inv_def run_inv_def)
  then show "run \<in> set (table_selection rr_id run_from_row P (runs db)) \<longleftrightarrow>
      (\<exists>row\<in>set (runs db). P row \<and> run_from_row row = Ok run)"
    by (fastforce simp: table_selection_def decoded_def is_ok_iff image_iff)
qed

definition passed :: "run_id option \<Rightarrow> run_id set" where
  "passed after = {i. \<not> after_key after i}"

lemma passed_simps: "i \<in> passed after \<longleftrightarrow> \<not> after_key after i" "passed None = {}"
  by (simp_all add: passed_def after_key_def)

lemma passed_next: "after_key after k \<Longrightarrow> passed after \<subseteq> passed (Some k)"
  by (auto simp: passed_def after_key_def split: option.splits)

text \<open>The runs a page settles: those up to its cursor that it does not list need nothing.\<close>

lemma page_settles:
  assumes inv: "recovering E (passed after) plans w"
    and page: "store (list_runs_needing_reconciliation (en_libs E) after 200) w = (Ok page, w1)"
    and runs: "recover_runs E reconnect plans (pg_items page) w1 = (Ok plans', w2)"
    and upto: "\<And>i. i \<in> U \<Longrightarrow> i \<in> passed after \<or>
      (\<forall>k. pg_next_after page = Some k \<longrightarrow> \<not> k < i)"
    and U: "passed after \<subseteq> U" "rs_id ` set (pg_items page) \<subseteq> U"
  shows "recovering E U plans' w2" and "map rr_id (runs (w_db w2)) = map rr_id (runs (w_db w))"
proof -
  let ?L = "en_libs E" and ?db = "w_db w"
  let ?sel = "table_selection rr_id run_from_row needs_reconciliation (runs ?db)"
  have legal: "legal E w" using inv by (simp add: recovering_def)
  then have si: "store_inv ?L ?db" by (simp add: legal_def store_inv_reachable)
  obtain db1 where fetch: "list_runs_needing_reconciliation ?L after 200 ?db = (Ok page, db1)"
      and "w1 = w\<lparr>w_db := db1\<rparr>"
    using page by (auto simp: store_def split: prod.splits)
  with reconciliation_page [OF si fetch] have p: "page = page_of rs_id after 200 ?sel" and w1: "w1 = w"
    by auto
  note sel = reconciliation_selection [OF si, where P = needs_reconciliation]
  note rest = page_of_rest [where after = after and n = 200, OF sel(1), simplified, folded p]
  let ?ids = "rs_id ` set (pg_items page)"
  have "recovering E (U - ?ids) plans w"
    unfolding recovering_def
  proof (intro conjI ballI)
    fix i
    assume i: "i \<in> U - ?ids"
    show "settled plans ?db i"
    proof (cases "i \<in> passed after")
      case True
      with inv show ?thesis by (simp add: recovering_def)
    next
      case False
      have "\<not> needs_reconciliation row" if row: "row \<in> set (runs ?db)" "rr_id row = i" for row
      proof
        assume n: "needs_reconciliation row"
        have "is_ok (run_from_row row)"
          using si row(1) by (simp add: store_inv_def core_inv_def run_inv_def)
        then obtain run where run: "run_from_row row = Ok run" by (auto simp: is_ok_iff)
        have id: "rs_id run = i" using run_from_row_columns [OF run] row(2) by simp
        have "run \<in> set ?sel" using sel(2) row(1) n run by blast
        moreover have "after_key after (rs_id run)" using False id by (simp add: passed_simps)
        ultimately show False using rest(1) [of run] upto [of i] i id False by auto
      qed
      then show ?thesis by (auto simp: settled_def needs_reconciliation_def)
    qed
  next
    fix q
    assume "q \<in> set plans"
    then have "rs_id (rp_run q) \<in> passed after" and "held w (rs_id (rp_run q)) (rp_receiver q)"
      using inv by (auto simp: recovering_def)
    with U(1) rest(3) show "rs_id (rp_run q) \<in> U - ?ids" "held w (rs_id (rp_run q)) (rp_receiver q)"
      by (auto simp: passed_simps)
  qed (use inv in \<open>auto simp: recovering_def\<close>)
  moreover have "\<exists>row\<in>set (runs ?db). run_from_row row = Ok run" if "run \<in> set (pg_items page)" for run
    using rest(3) [OF that] sel(2) by blast
  ultimately have "recovering E ((U - ?ids) \<union> ?ids) plans' w2 \<and>
      map rr_id (runs (w_db w2)) = map rr_id (runs ?db)"
    using rest(4) by (intro recover_runs_step [OF runs [unfolded w1]]) auto
  moreover have "(U - ?ids) \<union> ?ids = U" using U(2) by blast
  ultimately show "recovering E U plans' w2" "map rr_id (runs (w_db w2)) = map rr_id (runs ?db)" by simp_all
qed

lemma next_page:
  assumes inv: "recovering E (passed after) plans w"
    and page: "store (list_runs_needing_reconciliation (en_libs E) after 200) w = (Ok page, w1)"
  shows "pg_next_after page = Some k \<Longrightarrow> after_key after k \<and> k \<in> set (map rr_id (runs (w_db w))) \<and>
      rs_id ` set (pg_items page) \<subseteq> passed (Some k)"
proof -
  have si: "store_inv (en_libs E) (w_db w)"
    using inv by (simp add: recovering_def legal_def store_inv_reachable)
  obtain db1 where fetch: "list_runs_needing_reconciliation (en_libs E) after 200 (w_db w) = (Ok page, db1)"
    using page by (auto simp: store_def split: prod.splits)
  let ?sel = "table_selection rr_id run_from_row needs_reconciliation (runs (w_db w))"
  note sel = reconciliation_selection [OF si, where P = needs_reconciliation]
  assume "pg_next_after page = Some k"
  with page_of_rest(2) [OF sel(1), of 200 after k] reconciliation_page(1) [OF si fetch]
  have k: "after_key after k" "k \<in> rs_id ` set ?sel" "\<forall>a\<in>set (pg_items page). rs_id a \<le> k" by auto
  from k(2) have "k \<in> set (map rr_id (runs (w_db w)))"
    using sel(2) by (auto dest: run_from_row_columns)
  with k show "after_key after k \<and> k \<in> set (map rr_id (runs (w_db w))) \<and>
      rs_id ` set (pg_items page) \<subseteq> passed (Some k)"
    by (auto simp: passed_def after_key_def)
qed

definition remaining :: "run_id option \<Rightarrow> world \<Rightarrow> nat" where
  "remaining after w = length (filter (after_key after) (map rr_id (runs (w_db w))))"

lemma remaining_next:
  assumes "after_key after k" and "k \<in> set (map rr_id (runs (w_db w)))"
    and "map rr_id (runs (w_db w')) = map rr_id (runs (w_db w))"
  shows "remaining (Some k) w' < remaining after w"
proof -
  let ?rest = "filter (after_key after) (map rr_id (runs (w_db w)))"
  have "filter (after_key (Some k)) (map rr_id (runs (w_db w))) = filter (after_key (Some k)) ?rest"
    using assms(1) unfolding filter_filter
    by (intro filter_cong) (auto simp: after_key_def split: option.splits)
  moreover have "length (filter (after_key (Some k)) ?rest) < length ?rest"
    using assms(1,2) by (intro length_filter_less [of k]) (auto simp: after_key_def)
  ultimately show ?thesis by (simp only: remaining_def assms(3))
qed

lemma recover_pages_Ok:
  assumes "recover_pages fuel E reconnect plans after w = Some (Ok x, w')"
    and "recovering E (passed after) plans w"
  shows "\<exists>plans' w2. recovering E UNIV plans' w2 \<and>
    for_each (activate_startup_reattach E) plans' w2 = ((), w')"
  using assms
proof (induction fuel arbitrary: plans after w)
  case (Suc fuel)
  let ?fetch = "store (list_runs_needing_reconciliation (en_libs E) after 200) w"
  obtain page w1 where page: "?fetch = (Ok page, w1)"
    using Suc.prems(1) by (cases ?fetch) (auto simp: run_then_def give_def split: sum.splits prod.splits)
  obtain plans' w2 where runs: "recover_runs E reconnect plans (pg_items page) w1 = (Ok plans', w2)"
    using Suc.prems(1) page by (auto split: sum.splits prod.splits)
  show ?case
  proof (cases "pg_next_after page")
    case None
    have "recovering E UNIV plans' w2"
      by (rule page_settles(1) [OF Suc.prems(2) page runs]) (simp_all add: None)
    moreover have "for_each (activate_startup_reattach E) plans' w2 = ((), w')"
      using Suc.prems(1) page runs None by (auto simp: run_then_def give_def split: prod.splits)
    ultimately show ?thesis by blast
  next
    case (Some k)
    note n = next_page [OF Suc.prems(2) page Some]
    have "recovering E (passed (Some k)) plans' w2"
      by (rule page_settles(1) [OF Suc.prems(2) page runs])
        (use n Some passed_next in \<open>auto simp: passed_simps after_key_def\<close>)
    moreover have "recover_pages fuel E reconnect plans' (Some k) w2 = Some (Ok x, w')"
      using Suc.prems(1) page runs Some by simp
    ultimately show ?thesis by (rule Suc.IH [rotated])
  qed
qed simp

lemma recover_pages_ends:
  assumes "recovering E (passed after) plans w" and "remaining after w < fuel"
  shows "recover_pages fuel E reconnect plans after w \<noteq> None"
  using assms
proof (induction fuel arbitrary: plans after w)
  case (Suc fuel)
  obtain r w1 where fetch: "store (list_runs_needing_reconciliation (en_libs E) after 200) w = (r, w1)"
    by (cases "store (list_runs_needing_reconciliation (en_libs E) after 200) w")
  show ?case
  proof (cases r)
    case (Inl e)
    with fetch show ?thesis by simp
  next
    case (Inr page)
    obtain y w2 where runs: "recover_runs E reconnect plans (pg_items page) w1 = (y, w2)"
      by (cases "recover_runs E reconnect plans (pg_items page) w1")
    show ?thesis
    proof (cases "\<exists>plans' k. y = Ok plans' \<and> pg_next_after page = Some k")
      case True
      then obtain plans' k where y: "y = Ok plans'" and k: "pg_next_after page = Some k" by blast
      note page = fetch [unfolded Inr]
      note n = next_page [OF Suc.prems(1) page k]
      have "recovering E (passed (Some k)) plans' w2"
        by (rule page_settles(1) [OF Suc.prems(1) page runs [unfolded y]])
          (use n k passed_next in \<open>auto simp: passed_simps after_key_def\<close>)
      moreover have "map rr_id (runs (w_db w2)) = map rr_id (runs (w_db w))"
        by (rule page_settles(2) [OF Suc.prems(1) page runs [unfolded y], of "passed (Some k)"])
          (use n k passed_next in \<open>auto simp: passed_simps after_key_def\<close>)
      then have "remaining (Some k) w2 < remaining after w"
        using n by (intro remaining_next) auto
      ultimately show ?thesis using Suc.IH Suc.prems(2) fetch Inr runs y k by simp
    next
      case False
      with fetch Inr runs show ?thesis by (cases y) (auto split: option.splits)
    qed
  qed
qed simp

section \<open>Activation\<close>

definition live :: "world \<Rightarrow> run_id \<Rightarrow> nat \<Rightarrow> bool" where
  "live w i c \<longleftrightarrow> held w i c \<and> i \<notin> set (su_uncertain_runs (w_state w)) \<and> co_spawned (w_consumers w ! c)"

lemma activate_step:
  assumes "activate_startup_reattach E plan w = (x, w')" and "su_uncertain_starts (w_state w) = []"
  shows "w_db w' = w_db w" and "su_uncertain_starts (w_state w') = []"
    and "held w j c \<Longrightarrow> held w' j c" and "live w j c \<Longrightarrow> live w' j c"
    and "held w (rs_id (rp_run plan)) (rp_receiver plan) \<Longrightarrow>
      live w' (rs_id (rp_run plan)) (rp_receiver plan)"
  using assms
  by (auto simp: activate_startup_reattach_def deliver_uncertain_start_events_def activate_route_def
      spawn_consumer_def update_consumer_def ensure_event_pump_def publish_def act_defs Let_def
      held_def live_def nth_list_update split: if_splits)

lemma activate_all:
  assumes "for_each (activate_startup_reattach E) plans w = ((), w')"
    and "su_uncertain_starts (w_state w) = []"
    and "\<And>p. p \<in> set plans \<Longrightarrow> held w (rs_id (rp_run p)) (rp_receiver p)"
  shows "w_db w' = w_db w \<and> (\<forall>p\<in>set plans. live w' (rs_id (rp_run p)) (rp_receiver p)) \<and>
    (\<forall>j c. live w j c \<longrightarrow> live w' j c)"
  using assms
proof (induction plans arbitrary: w)
  case Nil
  then show ?case by (simp add: give_def)
next
  case (Cons plan plans)
  obtain x w1 where one: "activate_startup_reattach E plan w = (x, w1)"
      and rest: "for_each (activate_startup_reattach E) plans w1 = ((), w')"
    using Cons.prems(1) by (auto simp: run_then_def split: prod.splits)
  note s = activate_step [OF one Cons.prems(2)]
  have "held w1 (rs_id (rp_run p)) (rp_receiver p)" if "p \<in> set plans" for p
    using Cons.prems(3) that by (intro s(3)) simp
  moreover have "held w (rs_id (rp_run plan)) (rp_receiver plan)" using Cons.prems(3) by simp
  ultimately show ?case using Cons.IH [OF rest s(2)] s(1,4,5) by auto
qed

section \<open>Booting\<close>

lemma recovering_boot: "reachable (en_libs E) db \<Longrightarrow> recovering E (passed None) [] (boot_world db tick)"
  by (simp add: recovering_def passed_simps legal_def boot_world_def empty_state_def)

lemma boot_pages:
  assumes "boot E reconnect fuel db tick = Some w" and "w_startup_error w = None"
  obtains x w1 where "recover_pages fuel E reconnect [] None (boot_world db tick) = Some (Ok x, w1)"
    and "w = w1\<lparr>w_startup_error := None\<rparr>"
proof -
  obtain r w1 where r: "recover_pages fuel E reconnect [] None (boot_world db tick) = Some (r, w1)"
      and w: "w = w1\<lparr>w_startup_error := (case r of Inl e \<Rightarrow> Some e | Inr _ \<Rightarrow> None)\<rparr>"
    using assms(1) by (auto simp: boot_def reconcile_startup_def boot_world_def)
  with assms(2) that show thesis by (cases r) auto
qed

lemma boot_ends: "reachable (en_libs E) db \<Longrightarrow> length (runs db) < fuel \<Longrightarrow>
    boot E reconnect fuel db tick \<noteq> None"
  using recover_pages_ends [OF recovering_boot, of E db tick fuel reconnect]
    length_filter_le [of "after_key None \<circ> rr_id" "runs db"]
  by (auto simp: boot_def reconcile_startup_def boot_world_def remaining_def filter_map)

lemma boot_attaches:
  assumes "reachable (en_libs E) db" and "boot E reconnect fuel db tick = Some w"
    and "w_startup_error w = None" and row: "row \<in> set (runs (w_db w))"
  shows "rr_status row \<noteq> ''starting'' \<and> (rr_status row = ''running'' \<longrightarrow> (\<exists>c. live w (rr_id row) c))"
proof -
  obtain x w1 where pages: "recover_pages fuel E reconnect [] None (boot_world db tick) = Some (Ok x, w1)"
      and w: "w = w1\<lparr>w_startup_error := None\<rparr>"
    using assms(2,3) by (rule boot_pages)
  from recover_pages_Ok [OF pages recovering_boot [OF assms(1)]] obtain plans w2 where
      inv: "recovering E UNIV plans w2" and all: "for_each (activate_startup_reattach E) plans w2 = ((), w1)"
    by blast
  have "su_uncertain_starts (w_state w2) = []"
    and hold: "\<And>p. p \<in> set plans \<Longrightarrow> held w2 (rs_id (rp_run p)) (rp_receiver p)"
    and settled: "settled plans (w_db w2) (rr_id row)"
    using inv by (auto simp: recovering_def)
  from activate_all [OF all this(1) hold] have db: "w_db w1 = w_db w2"
      and live: "\<And>p. p \<in> set plans \<Longrightarrow> live w1 (rs_id (rp_run p)) (rp_receiver p)" by auto
  have "live w i c = live w1 i c" for i c by (simp add: w live_def held_def)
  with live settled row db show ?thesis by (fastforce simp: settled_def w)
qed

end
