(* ===== verification/Supervisor_Endings.thy ===== *)
theory Supervisor_Endings
  imports Supervisor_Startup Supervisor_Bounds
begin

text \<open>
  How a run ends: the terminal event stores the terminal status, and the end of a consumer closes its
  channel and forgets the run.
\<close>

lemma close_run_inactive: "active_run r (close_run_state r s) = Err (RunNotActive r)"
proof -
  have "r \<notin> set (su_uncertain_runs (close_run_state r s))"
    by (simp add: close_run_state_def drop_requests_def Let_def split: option.splits)
  moreover have "map_of (su_runs (close_run_state r s)) r = None"
    by (simp add: close_run_state_def drop_requests_def Let_def AList.delete_conv split: option.splits)
  ultimately show ?thesis by (simp add: active_run_def)
qed

lemma end_consumer_closes:
  assumes "end_consumer c r w = (x, w')" and "c < length (w_consumers w)"
  shows "w_db w' = w_db w" and "active_run r (w_state w') = Err (RunNotActive r)"
    and "\<not> co_open (w_consumers w' ! c) \<and> co_queue (w_consumers w' ! c) = []"
  using assms
  by (auto simp: end_consumer_def drop_receiver_def update_consumer_def close_run_def close_run_inactive act_defs)

lemma transition_to_terminal_row:
  assumes legal: "legal E w" and run: "transition_to_terminal E r s w = (Ok u, w')"
    and row: "row \<in> set (runs (w_db w'))" "rr_id row = r"
  shows "rr_status row = run_status_value s"
proof -
  obtain snapshot db1 v where get: "get_run (en_libs E) r (w_db w) = (Ok snapshot, db1)"
      and t: "transition E r (rs_status snapshot) s None (w\<lparr>w_db := db1\<rparr>) = (Ok v, w')"
    using run by (auto simp: transition_to_terminal_def act_defs map_ok_eq_Ok split: prod.splits sum.splits)
  have db1: "db1 = w_db w" using get read_jobs(1) [of "en_libs E" r "w_db w"] by simp
  from get obtain x where x: "x \<in> set (runs (w_db w))" "rr_id x = r" "run_from_row x = Ok snapshot"
    by (rule get_run_Ok)
  from t obtain c where c: "transition_run (en_libs E) c (w_db (w\<lparr>w_db := db1\<rparr>)) = (Ok v, w_db w')"
      "tr_run_id c = r" "tr_expected_current c = rs_status snapshot" "tr_target c = s"
    by (rule transition_Ok)
  have "rr_status x = run_status_value (tr_expected_current c)"
    using run_from_row_columns [OF x(3)] c(3) by simp
  with transition_run_row [OF c(1) _ _ _ _ row(1)] c x row(2) db1 legal_rows [OF legal]
  show ?thesis by simp
qed

lemma apply_event_channels:
  assumes "apply_event E r i p d e w = (x, w')"
  shows "length (w_consumers w) \<le> length (w_consumers w')"
  using preservesD [OF forward.preserves_apply_event [where n = 0 and m = "length (w_consumers w)"] _ assms]
  by simp

lemma apply_event_terminal:
  assumes legal: "legal E w"
    and run: "apply_event E r i p d (RunTerminal q state) w = ((Ok u, d'), w')"
    and row: "row \<in> set (runs (w_db w'))" "rr_id row = r"
  shows "rr_status row = run_status_value (terminal_status state)"
proof -
  obtain items w1 v w2 where take: "take_items E d w = (Ok items, w1)"
      and append: "append_to_run E r i p items w1 = (Ok v, w2)"
      and last: "transition_to_terminal E r (terminal_status state) w2 = (Ok u, w')"
    using run by (auto simp: map_act_def try_then_def store_errors_def split: prod.splits sum.splits)
  have "legal E w1" using preservesD [OF legal_run.preserves_take_items legal take] .
  moreover have "list_all wf_item items" using take_items_wf [of E d] take by (auto simp: yields_ok_def)
  ultimately have "legal E w2" using preservesD [OF legal_run.preserves_append_to_run _ append] by blast
  from transition_to_terminal_row [OF this last row] show ?thesis .
qed

end
