(* ===== verification/Supervisor_Properties.thy ===== *)
theory Supervisor_Properties
  imports Supervisor_Samples Supervisor_Text Supervisor_Endings
begin

text \<open>
  The properties of the run supervisor: what every execution keeps (\<open>sup_run\<close> is reached by booting
  and then running handlers, answers and other clients' store operations in any order), what its
  handlers do, and what start-up achieves. Each is followed by a witness on the sample session.
\<close>

text \<open>C16: An approval's answer is durable before it is sent: for every answer the harness has been
given, the database holds the approval with that decision, as responding or resolved.\<close>

theorem sent_answers_are_durable:
  assumes "sup_run E (w, fl)" and "CallRespond request (ApprovalAnswer d) \<in> set (w_calls w)"
  shows "\<exists>x\<in>set (approval_requests (w_db w)).
    ap_provider_approval_id x = rq_native_id request \<and>
    ap_status x \<in> {''responding'', ''resolved''} \<and> ap_decision x = Some (decision_value d)"
  using answers_run.invariant [OF assms(1)] assms(2) unfolding answers_def decided_def by fastforce

theorem sent_answers_are_durable_witness:
  "\<exists>x\<in>set (approval_requests (w_db world_answered)).
    ap_provider_approval_id x = ''40'' \<and>
    ap_status x \<in> {''responding'', ''resolved''} \<and> ap_decision x = Some (decision_value Approved)"
  using sent_answers_are_durable [OF run_answered, of "\<lparr>rq_run = sample_provider, rq_native_id = ''40''\<rparr>" Approved]
  by (simp add: world_answered_value)

text \<open>An answered approval keeps its answer: a call that resolves it with another decision is
refused, sends nothing to the harness and changes nothing in the database.\<close>

theorem conflicting_answer_is_refused:
  assumes "sup_run E (w, fl)" and "x \<in> set (approval_requests (w_db w))" and "ap_id x = a"
    and "ap_status x \<in> {''responding'', ''resolved''}" and "ap_decision x = Some (decision_value d)"
    and "d' \<noteq> d" and "resolve_approval_call E a d' w = (y, w')"
  shows "\<not> is_ok y \<and> w_calls w' = w_calls w \<and> w_db w' = w_db w"
proof -
  have w: "answers E w" using answers_run.invariant [OF assms(1)] by simp
  have x: "decided d x" using assms(4,5) by (simp add: decided_def)
  show ?thesis
  proof (cases rule: resolve_approval_call_cases [of E a d' w])
    case (refused e)
    with assms(7) show ?thesis by auto
  next
    case (again r q i)
    then obtain v where "v \<in> set (approval_requests (w_db w))" "ap_id v = a" "decided d' v"
      using w unfolding answers_def by blast
    with decided_unique [OF w assms(2) x, of v d'] assms(3,6) show ?thesis by simp
  next
    case (first r q i)
    obtain z w1 where b: "begin_answer E a d' w = (z, w1)" by (cases "begin_answer E a d' w")
    with begin_answer_refused [OF w assms(2,3) x assms(6) b] first(2) assms(7) show ?thesis
      by (cases z) (auto simp: try_then_def)
  qed
qed

theorem conflicting_answer_is_refused_witness:
  "\<not> is_ok (fst (resolve_approval_call sample_env (Id 40) Denied world_answered))"
proof -
  obtain x where x: "x \<in> set (approval_requests (w_db world_answered))" "ap_id x = Id 40"
      "ap_status x \<in> {''responding'', ''resolved''}" "ap_decision x = Some (decision_value Approved)"
    using world_answered_value(3) by auto
  from conflicting_answer_is_refused [OF run_answered x, of Denied]
  show ?thesis by (cases "resolve_approval_call sample_env (Id 40) Denied world_answered") simp
qed

text \<open>C17: The supervisor's memory is bounded: as long as the identifiers it has generated for runs are
distinct, at most 64 events are buffered for a start under way, at most 64 for each run in its
channel, and at most 64 unresolved starts are kept, each with at most 64 events.\<close>

theorem supervisor_buffers_are_bounded:
  assumes "sup_run E (w, fl)" and "inj_on (en_run_id E) {..<w_tick w}"
  shows "buffered (su_pending_events (w_state w)) \<le> 64 \<and>
    (\<forall>k\<in>set (w_consumers w). length (co_queue k) \<le> 64) \<and>
    length (su_uncertain_starts (w_state w)) \<le> 64 \<and>
    (\<forall>(_, p)\<in>set (su_uncertain_starts (w_state w)). buffered (st_events p) \<le> 64)"
proof -
  have "bounded E w" using bounded_run [OF assms(1)] assms(2) by simp
  then show ?thesis
    by (auto simp: bounded_def state_bound_def start_bound_def queue_bound_def
        ROUTE_CHANNEL_CAPACITY_def MAX_UNCERTAIN_STARTS_def)
qed

theorem supervisor_buffers_are_bounded_witness:
  "buffered (su_pending_events (w_state world_answered)) \<le> 64 \<and>
    length (su_uncertain_starts (w_state world_answered)) \<le> 64"
proof -
  have "inj_on (en_run_id sample_env) {..<w_tick world_answered}"
    using sample_run_ids [of 2] by (simp only: world_answered_value(4))
  from supervisor_buffers_are_bounded [OF run_answered this] show ?thesis by blast
qed

text \<open>C18: The text of message deltas is stored complete, in order and once: when a consumer has applied
a sequence of events without a failure, the run's stored text followed by the text still buffered is
what was there before followed by the chunks of the sequence, whatever other events came in between,
and fewer than 32 chunks are buffered.\<close>

theorem delta_text_is_stored_in_order:
  assumes "reachable (en_libs E) (w_db w)" and "batches_nonempty (w_db w)"
    and "de_chunks d < DELTA_BATCH_CHUNKS" and "apply_events E r i p d es w = ((Ok x, d'), w')"
  shows "run_text r (w_db w') @ de_message d' =
      run_text r (w_db w) @ de_message d @ concat (map delta_text es) \<and>
    de_chunks d' < DELTA_BATCH_CHUNKS"
proof (rule conjI)
  have "text_state E r (run_text r (w_db w)) w" using assms(1,2) by (simp add: text_state_def)
  from this assms(4) obtain s where s: "text_state E r (run_text r (w_db w) @ s) w'"
    "s @ de_message d' = de_message d @ concat (map delta_text es)" by (rule apply_events_text)
  then show "run_text r (w_db w') @ de_message d' =
      run_text r (w_db w) @ de_message d @ concat (map delta_text es)"
    by (simp only: text_state_def) simp
  from apply_events_chunks [OF assms(4,3)] show "de_chunks d' < DELTA_BATCH_CHUNKS" .
qed

theorem delta_text_is_stored_in_order_witness:
  "\<exists>(d' :: delta_buffer) (w' :: world). run_text (Id 4) (w_db w') @ de_message d' = ''abcd'' \<and> de_chunks d' < DELTA_BATCH_CHUNKS"
proof -
  obtain x d' w' where run: "apply_events sample_env (Id 4) (Id 3) sample_provider empty_deltas
      [MessageDelta sample_provider ''ab'', RunAccepted sample_provider, MessageDelta sample_provider ''cd'']
      world_up = ((Ok x, d'), w')"
    by (simp add: push_message_def flush_deltas_def DELTA_BATCH_CHUNKS_def empty_deltas_def act_defs)
  have "reachable (en_libs sample_env) (w_db world_up)"
    using legal_run.invariant [OF run_up] by (simp add: legal_def)
  moreover have "batches_nonempty (w_db world_up)" "run_text (Id 4) (w_db world_up) = []"
    by (simp_all add: world_up_value batches_nonempty_def run_text_def)
  moreover have "de_chunks empty_deltas < DELTA_BATCH_CHUNKS" "de_message empty_deltas = []"
    by (simp_all add: empty_deltas_def DELTA_BATCH_CHUNKS_def)
  ultimately have "run_text (Id 4) (w_db w') @ de_message d' = ''abcd'' \<and> de_chunks d' < DELTA_BATCH_CHUNKS"
    using delta_text_is_stored_in_order [OF _ _ _ run] by simp
  then show ?thesis by blast
qed

text \<open>A terminal event ends its run: the consumer's channel is closed, the supervisor forgets the
run, and when the event was applied without a failure the run is stored with the terminal status.\<close>

theorem terminal_event_ends_the_run:
  assumes "sup_run E (w, fl)" and "c < length (w_consumers w)" and "k = w_consumers w ! c"
    and "co_open k" and "co_spawned k" and "co_queue k = RunTerminal q state # rest"
    and "apply_event E (co_run k) (co_work_item k) (co_provider k) (co_deltas k) (RunTerminal q state)
      (snd (update_consumer c (\<lambda>k. k\<lparr>co_queue := rest\<rparr>) w)) = ((Ok u, d), w1)"
    and "consume_turn E c w = (x, w')"
  shows "\<not> co_open (w_consumers w' ! c) \<and>
    active_run (co_run k) (w_state w') = Err (RunNotActive (co_run k)) \<and>
    (\<forall>row\<in>set (runs (w_db w')). rr_id row = co_run k \<longrightarrow>
       rr_status row = run_status_value (terminal_status state))"
proof -
  define w0 where "w0 = snd (update_consumer c (\<lambda>k. k\<lparr>co_queue := rest\<rparr>) w)"
  note applied = assms(7) [folded w0_def]
  have "legal E w" using legal_run.invariant [OF assms(1)] by simp
  then have legal: "legal E w0" by (simp add: w0_def update_consumer_def legal_def)
  have "length (w_consumers w0) = length (w_consumers w)" by (simp add: w0_def update_consumer_def)
  moreover have "length (w_consumers w0) \<le> length (w_consumers w1)"
    using apply_event_channels [OF applied] .
  moreover define w2 where "w2 = snd (update_consumer c (\<lambda>k. k\<lparr>co_deltas := d\<rparr>) w1)"
  ultimately have c: "c < length (w_consumers w2)" and db: "w_db w2 = w_db w1"
    using assms(2) by (simp_all add: update_consumer_def)
  have "end_consumer c (co_run k) w2 = (x, w')"
    using assms applied by (simp add: consume_turn_def w2_def w0_def run_then_def update_consumer_def)
  note closes = end_consumer_closes [OF this c]
  show ?thesis using closes apply_event_terminal [OF legal applied] db by simp
qed

definition world_told :: world where
  "world_told = snd (pump_turn sample_env (Ok (Some (RunTerminal sample_provider TerminalCompleted))) world_up)"

lemma run_told: "sup_run sample_env (world_told, [])"
proof -
  have "w_pump world_up" by (simp add: world_up_value)
  moreover have "pump_turn sample_env (Ok (Some (RunTerminal sample_provider TerminalCompleted))) world_up =
      ((), world_told)" by (simp add: world_told_def prod_eq_iff)
  ultimately show ?thesis using run_step [OF run_up step_pump] by blast
qed

lemma world_told_value: "world_told = world_up\<lparr>w_consumers :=
    [(hd (w_consumers world_up))\<lparr>co_queue := [RunTerminal sample_provider TerminalCompleted]\<rparr>]\<rparr>"
  by (simp add: world_told_def world_up_value route_event_def deliver_def ROUTE_CHANNEL_CAPACITY_def handler_eval
      supervisor_eval sample_provider_def)

theorem terminal_event_ends_the_run_witness:
  "active_run (Id 4) (w_state (snd (consume_turn sample_env 0 world_told))) = Err (RunNotActive (Id 4))"
proof -
  obtain u d w1 where "apply_event sample_env (Id 4) (Id 3) sample_provider empty_deltas
      (RunTerminal sample_provider TerminalCompleted)
      (snd (update_consumer 0 (\<lambda>k. k\<lparr>co_queue := []\<rparr>) world_told)) = ((Ok u, d), w1)"
    by (simp add: world_told_value world_up_value handler_eval supervisor_eval sample_provider_def
        sample_env_def sample_libs_def store_eval take_items_def message_items_def append_to_run_def
        append_run_items_def transition_to_terminal_def get_run_def transition_def provider_eval cong: and_then_weak)
  moreover obtain x w' where "consume_turn sample_env 0 world_told = (x, w')"
    by (cases "consume_turn sample_env 0 world_told")
  ultimately show ?thesis
    using terminal_event_ends_the_run [OF run_told, of 0 "w_consumers world_told ! 0"]
    by (simp add: world_told_value world_up_value sample_provider_def empty_deltas_def)
qed

text \<open>C19: The completion of a command whose output deltas are still buffered is never stored: the
buffered output and the completion claim the same provider item identifier, so applying the event fails
and leaves the database as it was.\<close>

theorem completed_command_output_is_rejected:
  assumes "sup_run E (w, fl)" and "batches_nonempty (w_db w)" and "map_of (de_commands d) c \<noteq> None"
    and "apply_event E r i p d (CommandOutputCompleted q c text output) w = ((x, d'), w')"
  shows "\<not> is_ok x \<and> w_db w' = w_db w"
  using completion_fails [OF _ assms(2-4)] legal_run.invariant [OF assms(1)]
  by (simp add: legal_def store_inv_reachable)

theorem completed_command_output_is_rejected_witness:
  "\<not> is_ok (fst (fst (apply_event sample_env (Id 4) (Id 3) sample_provider
      (push_command \<lparr>cm_run = sample_provider, cm_native_id = ''7''\<rparr> ''ls'' ''out'' empty_deltas)
      (CommandOutputCompleted sample_provider \<lparr>cm_run = sample_provider, cm_native_id = ''7''\<rparr> ''ls'' ''out'')
      world_up)))"
proof -
  let ?c = "\<lparr>cm_run = sample_provider, cm_native_id = ''7''\<rparr>"
  let ?d = "push_command ?c ''ls'' ''out'' empty_deltas"
  obtain x d' w' where run: "apply_event sample_env (Id 4) (Id 3) sample_provider ?d
      (CommandOutputCompleted sample_provider ?c ''ls'' ''out'') world_up = ((x, d'), w')"
    by (metis prod.exhaust)
  have "batches_nonempty (w_db world_up)" by (simp add: world_up_value batches_nonempty_def)
  moreover have "map_of (de_commands ?d) ?c \<noteq> None" by (simp add: push_command_def empty_deltas_def)
  ultimately show ?thesis
    using completed_command_output_is_rejected [OF run_up _ _ run] run by simp
qed

text \<open>C20: Start-up ends: on every database the store can reach, paging through the runs to be
reconciled ends after at most one page more than there are runs, whatever the provider answers.\<close>

theorem startup_ends:
  assumes "reachable (en_libs E) db" and "length (runs db) < fuel"
  shows "\<exists>w. boot E reconnect fuel db tick = Some w"
  using boot_ends [OF assms, of reconnect tick] by blast

theorem startup_ends_witness: "\<exists>w. boot sample_env (\<lambda>_. Err (PortTransport ''lost'')) 2 db_question 0 = Some w"
  using startup_ends [of sample_env db_question 2] reachable_question by (simp add: db_question_value)

text \<open>C21: After a start-up without an error no stored run is left starting, and every run stored as
running is attached: the supervisor knows its provider run and work item, its consumer is live, and it
is not marked uncertain.\<close>

theorem startup_attaches_running_runs:
  assumes "reachable (en_libs E) db" and "boot E reconnect fuel db tick = Some w"
    and "w_startup_error w = None" and "row \<in> set (runs (w_db w))"
  shows "rr_status row \<noteq> ''starting'' \<and>
    (rr_status row = ''running'' \<longrightarrow>
      (\<exists>p. active_run (rr_id row) (w_state w) = Ok (p, rr_work_item_id row)) \<and>
      (\<exists>k\<in>set (w_consumers w). co_run k = rr_id row \<and> co_open k \<and> co_spawned k))"
proof -
  have "(\<exists>p. active_run (rr_id row) (w_state w) = Ok (p, rr_work_item_id row)) \<and>
      (\<exists>k\<in>set (w_consumers w). co_run k = rr_id row \<and> co_open k \<and> co_spawned k)"
    if "live w (rr_id row) c" for c
    using that assms(4) by (auto simp: live_def held_def active_run_def intro: nth_mem)
  with boot_attaches [OF assms] show ?thesis by blast
qed

theorem startup_attaches_running_runs_witness:
  "\<exists>p. active_run (Id 4) (w_state world_up) = Ok (p, Id 3)"
proof -
  obtain row where "row \<in> set (runs (w_db world_up))" "rr_status row = ''running''" "rr_id row = Id 4"
      "rr_work_item_id row = Id 3"
    by (simp add: world_up_value)
  moreover have "boot sample_env (\<lambda>_. Ok True) (Suc (Suc 0)) db_question 0 = Some world_up"
    by (simp add: world_up_def world_up_boot)
  moreover have "w_startup_error world_up = None" by (simp add: world_up_value)
  ultimately show ?thesis
    using startup_attaches_running_runs [of sample_env db_question] reachable_question by fastforce
qed

text \<open>
  A run can stay stored as running while the supervisor no longer knows it: the consumer of a lost
  connection ends only when it next looks at its channel, and then closes whatever route the run has
  by then, the one of a successful reconciliation included.
\<close>

lemma late_consumer_closes_new_route:
  "\<exists>w fl. sup_run sample_env (w, fl) \<and> map rr_status (runs (w_db w)) = [''running''] \<and>
     active_run (Id 4) (w_state w) = Err (RunNotActive (Id 4))"
  by (intro exI [of _ world_stale] exI [of _ "[]"] conjI run_stale world_stale_value)

end
