(* ===== verification/Domain_Properties.thy ===== *)
theory Domain_Properties
  imports Domain
begin

text \<open>
  What the validated types of the domain guarantee about their values
  (\<^verbatim>\<open>crates/yakshed-domain/src/lib.rs\<close>).
\<close>

text \<open>Lowercase ASCII letters, digits, dash, underscore and dot.\<close>

definition component_char :: "char \<Rightarrow> bool" where
  "component_char c \<longleftrightarrow> ascii_digit c \<or> (97 \<le> (of_char c :: nat) \<and> (of_char c :: nat) \<le> 122) \<or>
     c \<in> {CHR ''-'', CHR ''_'', CHR ''.''}"

lemma component_char_code:
  assumes "identifier_char (of_char c)" and "\<not> ascii_upper c"
  shows "component_char c"
proof -
  have "c = d" if "(of_char c :: nat) = of_char d" for d using that by (simp only: of_char_eq_iff)
  from this [of "CHR ''-''"] this [of "CHR ''_''"] this [of "CHR ''.''"] show ?thesis
    using assms by (auto simp: component_char_def identifier_char_def ascii_upper_def ascii_digit_def)
qed

text \<open>The device names that Windows reserves, whatever extension follows.\<close>

definition windows_devices :: "string list" where
  "windows_devices = [''con'', ''prn'', ''aux'', ''nul''] @
     map (\<lambda>d. ''com'' @ [d]) ''123456789'' @ map (\<lambda>d. ''lpt'' @ [d]) ''123456789''"

lemma windows_devices_reserved:
  assumes "takeWhile (\<lambda>c. c \<noteq> CHR ''.'') v \<in> set windows_devices"
  shows "is_windows_reserved_name v"
  using assms
  by (auto simp: windows_devices_def is_windows_reserved_name_def Let_def starts_with_def less_eq_char_def)

text \<open>C22: A provider state root identifier is one safe path component: it is not empty, holds only
lowercase ASCII letters, digits, dash, underscore and dot, is neither a dot entry nor a Windows device name
(con, prn, aux, nul, com1 to com9, lpt1 to lpt9) with or without an extension, does not end in a dot, and no
other identifier equals it when case is ignored.\<close>

theorem state_root_is_one_path_component:
  assumes "provider_state_root_id_new v = Ok r"
  shows "root_str r = v \<and> v \<noteq> [] \<and> list_all component_char v \<and> v \<notin> {''.'', ''..''} \<and>
    last v \<noteq> CHR ''.'' \<and> takeWhile (\<lambda>c. c \<noteq> CHR ''.'') v \<notin> set windows_devices \<and>
    (provider_state_root_id_new w = Ok s \<and> to_ascii_lowercase w = to_ascii_lowercase v \<longrightarrow> s = r)"
proof -
  have v: "r = ProviderStateRootId v" "\<not> trim_is_empty v" "list_all identifier_char (chars v)"
      "to_ascii_lowercase v = v" "v \<notin> {''.'', ''..''}" "\<not> ends_with_char v [CHR ''.'', CHR '' '']"
      "\<not> is_windows_reserved_name v"
    using assms by (simp_all add: provider_state_root_id_new_Ok)
  have "list_all component_char v"
    using identifier_bytes [OF v(3)] lowercase_fixed_no_upper [OF v(4)]
    by (auto simp: list_all_iff intro: component_char_code)
  moreover have "trim_is_empty []" by (simp add: trim_is_empty_def trim_def chars_def bytes_def)
  with v(2) have "v \<noteq> []" by auto
  moreover from this v(6) have "last v \<noteq> CHR ''.''" by (simp add: ends_with_char_def)
  moreover have "s = r" if "provider_state_root_id_new w = Ok s" "to_ascii_lowercase w = to_ascii_lowercase v"
    using that v(1,4) by (simp add: provider_state_root_id_new_Ok)
  ultimately show ?thesis using v(1,5,7) windows_devices_reserved [of v] by auto
qed

theorem state_root_is_one_path_component_witness:
  "list_all component_char ''a-1'' \<and> last ''a-1'' \<noteq> CHR ''.'' \<and>
     takeWhile (\<lambda>c. c \<noteq> CHR ''.'') ''a-1'' \<notin> set windows_devices"
proof -
  have "provider_state_root_id_new ''a-1'' = Ok (ProviderStateRootId ''a-1'')"
    by (simp add: provider_state_root_id_new_Ok trim_is_empty_def trim_def chars_def bytes_def
        char_is_whitespace_def identifier_char_def to_ascii_lowercase_def ascii_upper_def
        ends_with_char_def is_windows_reserved_name_def)
  from state_root_is_one_path_component [OF this] show ?thesis by blast
qed

end
