(* ===== verification/Json.thy ===== *)
theory Json
  imports Prelude
begin

text \<open>
  JSON values as the code reads them through \<^verbatim>\<open>serde_json::Value\<close>. Integers are unbounded here and
  the accessors check their width; other numbers carry their text. An object is an association list;
  \<open>get\<close> on anything else answers \<open>None\<close>, as the crate's does.
\<close>

datatype json =
  JNull
| JBool bool
| JInt int
| JFloat string
| JStr string
| JArr "json list"
| JObj "(string \<times> json) list"

fun as_object :: "json \<Rightarrow> (string \<times> json) list option" where
  "as_object (JObj kvs) = Some kvs"
| "as_object _ = None"

fun as_array :: "json \<Rightarrow> json list option" where
  "as_array (JArr vs) = Some vs"
| "as_array _ = None"

fun as_str :: "json \<Rightarrow> string option" where
  "as_str (JStr s) = Some s"
| "as_str _ = None"

fun as_bool :: "json \<Rightarrow> bool option" where
  "as_bool (JBool b) = Some b"
| "as_bool _ = None"

fun as_i64 :: "json \<Rightarrow> int option" where
  "as_i64 (JInt i) = (if - (2 ^ 63) \<le> i \<and> i < 2 ^ 63 then Some i else None)"
| "as_i64 _ = None"

fun as_u64 :: "json \<Rightarrow> int option" where
  "as_u64 (JInt i) = (if 0 \<le> i \<and> i < 2 ^ 64 then Some i else None)"
| "as_u64 _ = None"

fun is_string :: "json \<Rightarrow> bool" where
  "is_string (JStr _) = True"
| "is_string _ = False"

definition get :: "string \<Rightarrow> json \<Rightarrow> json option" where
  "get field v = Option.bind (as_object v) (\<lambda>kvs. map_of kvs field)"

definition get_str :: "string \<Rightarrow> json \<Rightarrow> string option" where
  "get_str field v = Option.bind (get field v) as_str"

definition get_array :: "string \<Rightarrow> json \<Rightarrow> json list option" where
  "get_array field v = Option.bind (get field v) as_array"

text \<open>\<open>Option::is_none_or\<close> and \<open>Option::is_some_and\<close>.\<close>

definition none_or :: "'a option \<Rightarrow> ('a \<Rightarrow> bool) \<Rightarrow> bool" where
  "none_or x P = (case x of None \<Rightarrow> True | Some v \<Rightarrow> P v)"

definition some_and :: "'a option \<Rightarrow> ('a \<Rightarrow> bool) \<Rightarrow> bool" where
  "some_and x P = (case x of None \<Rightarrow> False | Some v \<Rightarrow> P v)"

lemma option_tests [simp]:
  "none_or None P" "none_or (Some v) P = P v" "\<not> some_and None P" "some_and (Some v) P = P v"
  by (simp_all add: none_or_def some_and_def)

lemma get_simps [simp]:
  "get field (JObj kvs) = map_of kvs field" "get field JNull = None" "get field (JStr s) = None"
  "get field (JArr vs) = None" "get field (JBool b) = None" "get field (JInt i) = None"
  "get field (JFloat t) = None"
  by (simp_all add: get_def)

lemma get_str_Some: "get_str field v = Some s \<longleftrightarrow> get field v = Some (JStr s)"
proof -
  have "as_str j = Some s \<longleftrightarrow> j = JStr s" for j by (cases j) auto
  then show ?thesis by (auto simp: get_str_def Option.bind_eq_Some_conv)
qed

end
