(* ===== verification/Harness.thy ===== *)
theory Harness
  imports Domain
begin

text \<open>
  The contract between the application and its providers (\<^verbatim>\<open>crates/yakshed-harness/src/lib.rs\<close>):
  opaque provider identifiers, run, request and command handles, session and input values, the
  normalised events and the errors, with their constructors. The names carry the prefix of the
  crate's \<open>Provider\<close> and \<open>Harness\<close> types; the traits themselves are implemented by the adapters.
\<close>

section \<open>Errors\<close>

datatype sanitized_diagnostic = SanitizedDiagnostic (sanitized_text: string)

datatype harness_error =
  HarnessInvalidInput string
| HarnessNotFound string string
| HarnessConflict string
| HarnessUnsupported string
| HarnessOverloaded
| HarnessDisconnected
| HarnessNotAuthenticated
| HarnessOutcomeUnknown string
| HarnessClosed
| HarnessProtocol sanitized_diagnostic
| HarnessTransport sanitized_diagnostic
| HarnessRuntime sanitized_diagnostic

text \<open>The \<open>Display\<close> of an error, as the \<open>thiserror\<close> attributes give it.\<close>

fun harness_error_text :: "harness_error \<Rightarrow> string" where
  "harness_error_text (HarnessInvalidInput m) = ''invalid input: '' @ m"
| "harness_error_text (HarnessNotFound entity i) = entity @ '' not found: '' @ i"
| "harness_error_text (HarnessConflict m) = ''conflict: '' @ m"
| "harness_error_text (HarnessUnsupported m) = ''operation is unsupported: '' @ m"
| "harness_error_text HarnessOverloaded = ''runtime is overloaded''"
| "harness_error_text HarnessDisconnected = ''runtime is disconnected''"
| "harness_error_text HarnessNotAuthenticated = ''provider account is not authenticated''"
| "harness_error_text (HarnessOutcomeUnknown operation) =
     ''outcome is unknown for mutating operation: '' @ operation"
| "harness_error_text HarnessClosed = ''harness event stream is closed''"
| "harness_error_text (HarnessProtocol d) = ''provider protocol failure: '' @ sanitized_text d"
| "harness_error_text (HarnessTransport d) = ''provider transport failure: '' @ sanitized_text d"
| "harness_error_text (HarnessRuntime d) = ''provider runtime failure: '' @ sanitized_text d"

section \<open>Identifiers\<close>

definition validate_opaque_id :: "string \<Rightarrow> string \<Rightarrow> harness_error + string" where
  "validate_opaque_id label v =
     (if trim_is_empty v \<or> length v > 4096 \<or> has_control v
      then Err (HarnessInvalidInput (''invalid '' @ label)) else Ok v)"

datatype runtime_handle = RuntimeHandle (runtime_str: string)
datatype provider_session_id = ProviderSessionId (session_str: string)
datatype provider_run_id = ProviderRunId (run_str: string)
datatype provider_request_id = ProviderRequestId (request_str: string)
datatype provider_command_id = ProviderCommandId (command_str: string)
datatype session_page_cursor = SessionPageCursor (page_str: string)

definition runtime_handle_new :: "string \<Rightarrow> harness_error + runtime_handle" where
  "runtime_handle_new v = map_ok RuntimeHandle (validate_opaque_id ''runtime'' v)"

text \<open>The macro \<^verbatim>\<open>opaque_provider_id!\<close>.\<close>

definition provider_session_id_new :: "string \<Rightarrow> harness_error + provider_session_id" where
  "provider_session_id_new v = map_ok ProviderSessionId (validate_opaque_id ''provider session id'' v)"

definition provider_run_id_new :: "string \<Rightarrow> harness_error + provider_run_id" where
  "provider_run_id_new v = map_ok ProviderRunId (validate_opaque_id ''provider run id'' v)"

definition provider_request_id_new :: "string \<Rightarrow> harness_error + provider_request_id" where
  "provider_request_id_new v = map_ok ProviderRequestId (validate_opaque_id ''provider request id'' v)"

definition provider_command_id_new :: "string \<Rightarrow> harness_error + provider_command_id" where
  "provider_command_id_new v = map_ok ProviderCommandId (validate_opaque_id ''provider command id'' v)"

definition session_page_cursor_new :: "string \<Rightarrow> harness_error + session_page_cursor" where
  "session_page_cursor_new v = map_ok SessionPageCursor (validate_opaque_id ''session page cursor'' v)"

lemma opaque_id_new_Ok:
  "provider_session_id_new v = Ok s \<Longrightarrow> s = ProviderSessionId v"
  "provider_run_id_new v = Ok r \<Longrightarrow> r = ProviderRunId v"
  "provider_request_id_new v = Ok q \<Longrightarrow> q = ProviderRequestId v"
  "provider_command_id_new v = Ok c \<Longrightarrow> c = ProviderCommandId v"
  by (auto simp: provider_session_id_new_def provider_run_id_new_def provider_request_id_new_def
      provider_command_id_new_def validate_opaque_id_def map_ok_eq_Ok split: if_splits)

record provider_run_handle =
  ph_runtime :: runtime_handle
  ph_session_id :: provider_session_id
  ph_native_id :: provider_run_id

record provider_request_handle =
  qh_run :: provider_run_handle
  qh_native_id :: provider_request_id

record provider_command_handle =
  ch_run :: provider_run_handle
  ch_native_id :: provider_command_id

definition run_handle_text :: "provider_run_handle \<Rightarrow> string" where
  "run_handle_text h =
     runtime_str (ph_runtime h) @ ''/'' @ session_str (ph_session_id h) @ ''/'' @ run_str (ph_native_id h)"

definition request_handle_text :: "provider_request_handle \<Rightarrow> string" where
  "request_handle_text q = run_handle_text (qh_run q) @ ''/'' @ request_str (qh_native_id q)"

section \<open>Sessions and input\<close>

datatype runtime_path = RuntimePath (path_str: string)

definition runtime_path_new :: "string \<Rightarrow> harness_error + runtime_path" where
  "runtime_path_new v =
     (if v = [] \<or> length v > 32768 \<or> CHR 0x00 \<in> set v
      then Err (HarnessInvalidInput ''invalid runtime path'') else Ok (RuntimePath v))"

datatype harness_input = HarnessInput (input_str: string)

definition harness_input_new :: "string \<Rightarrow> harness_error + harness_input" where
  "harness_input_new v =
     (if trim_is_empty v then Err (HarnessInvalidInput ''harness input cannot be empty'')
      else Ok (HarnessInput v))"

record session_query =
  sq_after :: "session_page_cursor option"
  sq_limit :: u32

record provider_session_summary =
  psm_id :: provider_session_id
  psm_title :: string
  psm_connection_id :: connection_id

record session_page =
  sp_items :: "provider_session_summary list"
  sp_next :: "session_page_cursor option"

record provider_session =
  ps_id :: provider_session_id
  ps_runtime :: runtime_handle
  ps_connection_id :: connection_id
  ps_working_directory :: runtime_path
  ps_title :: string

datatype provider_response = ApprovalResponse approval_decision | UserInputResponse string

datatype harness_account_status =
  NotAuthenticated
| LoginInProgress string string
| Authenticated "string option" string
| AccountUnknown

datatype credential_delivery =
  HarnessManaged
| DelegatedTo string
| ProcessEnvironment string

record credential_requirement =
  crq_slot :: credential_slot
  crq_delivery :: credential_delivery
  crq_required :: bool

section \<open>Events\<close>

datatype native_payload = NativePayload (sanitized_raw: string)

datatype harness_run_terminal =
  TermCompleted
| TermFailed sanitized_diagnostic
| TermInterrupted
| TermCrashed sanitized_diagnostic

datatype provider_event =
  HRunAccepted provider_run_handle (native_payload: native_payload)
| HMessageDelta provider_run_handle string (native_payload: native_payload)
| HMessageCompleted provider_run_handle string (native_payload: native_payload)
| HApprovalRequested provider_request_handle string (native_payload: native_payload)
| HUserInputRequested provider_request_handle string (native_payload: native_payload)
| HFileMutation provider_run_handle string string (native_payload: native_payload)
| HCommandOutputDelta provider_run_handle provider_command_handle string string (native_payload: native_payload)
| HCommandOutputCompleted provider_run_handle provider_command_handle string string (native_payload: native_payload)
| HRunTerminal provider_run_handle harness_run_terminal (native_payload: native_payload)
| HUnknown "provider_run_handle option" string (native_payload: native_payload)
| HMalformed "provider_run_handle option" string (native_payload: native_payload)

definition EVENT_BUFFER_CAPACITY :: nat where
  "EVENT_BUFFER_CAPACITY = 64"

end
