(* ===== verification/Codex_Reducer.thy ===== *)
theory Codex_Reducer
  imports Json Harness "HOL-Library.AList"
begin

text \<open>
  The reduction of Codex protocol messages to harness events
  (\<^verbatim>\<open>crates/provider-codex/src/reducer.rs\<close>). The reducer's state is the map from started commands to
  their text. The macro \<^verbatim>\<open>require!\<close>, which returns a malformed event early, is the function
  \<open>require\<close> with the rest of the arm as its continuation.
\<close>

type_synonym commands = "(provider_command_handle \<times> string) list"

definition retire_run :: "provider_run_handle \<Rightarrow> commands \<Rightarrow> commands" where
  "retire_run run cs = filter (\<lambda>(h, _). ch_run h \<noteq> run) cs"

definition malformed ::
    "provider_run_handle option \<Rightarrow> string \<Rightarrow> native_payload \<Rightarrow> provider_event" where
  "malformed run item_type native = HMalformed run item_type native"

type_synonym reduction = "provider_event list \<times> commands"

definition rejected ::
    "provider_run_handle option \<Rightarrow> string \<Rightarrow> native_payload \<Rightarrow> commands \<Rightarrow> reduction" where
  "rejected run item_type native cs = ([malformed run item_type native], cs)"

definition require :: "reduction \<Rightarrow> 'a option \<Rightarrow> ('a \<Rightarrow> reduction) \<Rightarrow> reduction" where
  "require otherwise x k = (case x of Some v \<Rightarrow> k v | None \<Rightarrow> otherwise)"

definition started_item ::
    "json \<Rightarrow> provider_run_handle option \<Rightarrow> native_payload \<Rightarrow> string \<Rightarrow> commands \<Rightarrow> reduction" where
  "started_item params run native method cs =
     (let bad = rejected run method native cs in
      require bad (get ''item'' params) (\<lambda>item.
      require bad (get_str ''type'' item) (\<lambda>item_type.
      require bad run (\<lambda>event_run.
      require bad (get_str ''id'' item) (\<lambda>i.
      if item_type = ''commandExecution''
      then require bad (get_str ''command'' item) (\<lambda>command.
        case provider_command_id_new i of
          Inl _ \<Rightarrow> rejected (Some event_run) method native cs
        | Inr command_id \<Rightarrow>
            ([], AList.update \<lparr>ch_run = event_run, ch_native_id = command_id\<rparr> command cs))
      else if item_type \<in> {''agentMessage'', ''fileChange''} then ([], cs)
      else ([HUnknown (Some event_run) item_type native], cs))))))"

definition command_delta ::
    "json \<Rightarrow> provider_run_handle option \<Rightarrow> native_payload \<Rightarrow> string \<Rightarrow> commands \<Rightarrow> reduction" where
  "command_delta params run native method cs =
     (let bad = rejected run method native cs in
      require bad run (\<lambda>event_run.
      require bad (get_str ''itemId'' params) (\<lambda>item_id.
      require bad (get_str ''delta'' params) (\<lambda>chunk.
      case provider_command_id_new item_id of
        Inl _ \<Rightarrow> rejected (Some event_run) method native cs
      | Inr command_id \<Rightarrow>
          let handle = \<lparr>ch_run = event_run, ch_native_id = command_id\<rparr> in
          require (rejected (Some event_run) method native cs) (map_of cs handle) (\<lambda>command_text.
          ([HCommandOutputDelta event_run handle command_text chunk native], cs))))))"

definition completed_item ::
    "json \<Rightarrow> provider_run_handle option \<Rightarrow> native_payload \<Rightarrow> string \<Rightarrow> commands \<Rightarrow> reduction" where
  "completed_item params run native method cs =
     (let bad = rejected run method native cs in
      require bad run (\<lambda>event_run.
      require bad (get ''item'' params) (\<lambda>item.
      require bad (get_str ''id'' item) (\<lambda>item_id.
      require bad (get_str ''type'' item) (\<lambda>item_type.
      if item_type = ''agentMessage''
      then require bad (get_str ''text'' item) (\<lambda>t. ([HMessageCompleted event_run t native], cs))
      else if item_type = ''fileChange''
      then require bad (get_array ''changes'' item) (\<lambda>changes.
        require bad (those (map (get_str ''path'') changes)) (\<lambda>paths.
        (map2 (\<lambda>change path. HFileMutation event_run path
            (case get_str ''diff'' change of Some d \<Rightarrow> d | None \<Rightarrow> ''file changed'') native) changes paths,
         cs)))
      else if item_type = ''commandExecution''
      then (case provider_command_id_new item_id of
          Inl _ \<Rightarrow> rejected (Some event_run) method native cs
        | Inr command_id \<Rightarrow>
            let command = \<lparr>ch_run = event_run, ch_native_id = command_id\<rparr>;
                cs1 = AList.delete command cs in
            require (rejected (Some event_run) method native cs1) (map_of cs command) (\<lambda>command_text.
            if get_str ''command'' item \<noteq> Some command_text
            then rejected (Some event_run) method native cs1
            else ([HCommandOutputCompleted event_run command command_text
                (case get_str ''aggregatedOutput'' item of Some out \<Rightarrow> out | None \<Rightarrow> []) native], cs1)))
      else ([HUnknown run item_type native], cs))))))"

definition first_string :: "string list \<Rightarrow> json \<Rightarrow> string \<Rightarrow> string" where
  "first_string names v default_text =
     (case List.map_filter (\<lambda>f. get_str f v) names of s # _ \<Rightarrow> s | [] \<Rightarrow> default_text)"

fun join_lines :: "string list \<Rightarrow> string" where
  "join_lines [] = []"
| "join_lines [l] = l"
| "join_lines (l # ls) = l @ [CHR 0x0A] @ join_lines ls"

definition user_input_request ::
    "json \<Rightarrow> provider_run_handle option \<Rightarrow> provider_request_handle option \<Rightarrow> native_payload \<Rightarrow> string \<Rightarrow>
     commands \<Rightarrow> reduction" where
  "user_input_request params run request native method cs =
     (let bad = rejected run method native cs in
      require bad request (\<lambda>request.
      require bad (get_array ''questions'' params) (\<lambda>questions.
      require bad (those (map (get_str ''question'') questions)) (\<lambda>prompts.
      let prompt = join_lines prompts in
      if prompt = [] then bad else ([HUserInputRequested request prompt native], cs)))))"

definition turn_completed ::
    "json \<Rightarrow> provider_run_handle option \<Rightarrow> native_payload \<Rightarrow> string \<Rightarrow> commands \<Rightarrow> reduction" where
  "turn_completed params run native method cs =
     require (rejected run method native cs) run (\<lambda>event_run.
       let cs1 = retire_run event_run cs;
           status = Option.bind (get ''turn'' params) (get_str ''status'') in
       if status = Some ''completed'' then ([HRunTerminal event_run TermCompleted native], cs1)
       else if status = Some ''interrupted'' then ([HRunTerminal event_run TermInterrupted native], cs1)
       else if status = Some ''failed''
       then ([HRunTerminal event_run (TermFailed (SanitizedDiagnostic ''Codex turn failed'')) native], cs1)
       else rejected run method native cs1)"

definition reduce_method ::
    "string \<Rightarrow> json \<Rightarrow> provider_run_handle option \<Rightarrow> provider_request_handle option \<Rightarrow> native_payload \<Rightarrow>
     commands \<Rightarrow> reduction" where
  "reduce_method method params run request native cs =
     (let bad = rejected run method native cs in
      if method = ''item/started'' then started_item params run native method cs
      else if method = ''item/agentMessage/delta'' then
        require bad run (\<lambda>event_run.
        require bad (get_str ''delta'' params) (\<lambda>chunk. ([HMessageDelta event_run chunk native], cs)))
      else if method = ''item/commandExecution/outputDelta'' then command_delta params run native method cs
      else if method = ''item/fileChange/outputDelta'' then
        require bad run (\<lambda>event_run.
        require bad (get_str ''itemId'' params) (\<lambda>_.
        require bad (get_str ''delta'' params) (\<lambda>_. ([HUnknown (Some event_run) method native], cs))))
      else if method = ''item/completed'' then completed_item params run native method cs
      else if method = ''item/commandExecution/requestApproval'' then
        require bad request (\<lambda>q. ([HApprovalRequested q
          (first_string [''reason'', ''command''] params ''Codex requests command approval'') native], cs))
      else if method = ''item/fileChange/requestApproval'' then
        require bad request (\<lambda>q. ([HApprovalRequested q
          (first_string [''reason''] params ''Codex requests file-change approval'') native], cs))
      else if method = ''item/tool/requestUserInput'' then
        user_input_request params run request native method cs
      else if method = ''turn/completed'' then turn_completed params run native method cs
      else ([HUnknown run method native], cs))"

definition reduce ::
    "string \<Rightarrow> json \<Rightarrow> provider_run_handle option \<Rightarrow> provider_request_handle option \<Rightarrow> commands \<Rightarrow>
     reduction" where
  "reduce raw message run request cs =
     (let params = (case get ''params'' message of Some p \<Rightarrow> p | None \<Rightarrow> JNull);
          native = NativePayload raw in
      case get_str ''method'' message of
        Some method \<Rightarrow> reduce_method method params run request native cs
      | None \<Rightarrow>
          if get ''id'' message \<noteq> None then ([], cs)
          else reduce_method ''codex.missing-method'' params run request native cs)"

end
