(* ===== verification/Codex_Text.thy ===== *)
theory Codex_Text
  imports Json "HOL-Library.Sublist"
begin

text \<open>
  Redaction (\<^verbatim>\<open>Sanitizer\<close> of \<^verbatim>\<open>crates/provider-codex/src/actor.rs\<close>) and the comparison of the
  Codex home directory, on top of Rust's \<open>str::replace\<close> and \<open>str::contains\<close>.
\<close>

section \<open>Replacing and searching\<close>

function replace_nonempty :: "string \<Rightarrow> string \<Rightarrow> string \<Rightarrow> string" where
  "replace_nonempty pat by [] = []"
| "replace_nonempty pat by (c # cs) =
     (if pat \<noteq> [] \<and> starts_with (c # cs) pat
      then by @ replace_nonempty pat by (drop (length pat) (c # cs))
      else c # replace_nonempty pat by cs)"
  by pat_completeness auto
termination
  by (relation "measure (\<lambda>(_, _, s). length s)") auto

text \<open>An empty pattern matches between any two characters; a continuation byte starts none.\<close>

definition continuation :: "char \<Rightarrow> bool" where
  "continuation c \<longleftrightarrow> 128 \<le> (of_char c :: nat) \<and> (of_char c :: nat) < 192"

definition str_replace :: "string \<Rightarrow> string \<Rightarrow> string \<Rightarrow> string" where
  "str_replace pat by s =
     (if pat = [] then concat (map (\<lambda>c. if continuation c then [c] else by @ [c]) s) @ by
      else replace_nonempty pat by s)"

fun str_contains :: "string \<Rightarrow> string \<Rightarrow> bool" where
  "str_contains pat [] = (pat = [])"
| "str_contains pat (c # cs) = (starts_with (c # cs) pat \<or> str_contains pat cs)"

lemma str_contains_sublist: "str_contains pat s \<longleftrightarrow> sublist pat s"
proof (induction s)
  case (Cons c cs)
  have "starts_with (c # cs) pat \<longleftrightarrow> prefix pat (c # cs)"
    by (metis starts_with_def append_eq_conv_conj prefix_def append_take_drop_id)
  with Cons show ?case by (simp add: sublist_Cons_right)
qed simp

section \<open>Redaction\<close>

record sanitizer =
  sz_redactions :: "string list"
  sz_environment :: "(string \<times> string) option"

definition redacted :: string where
  "redacted = ''[REDACTED]''"

definition sanitize :: "sanitizer \<Rightarrow> string \<Rightarrow> string" where
  "sanitize S v =
     (let v1 = fold (\<lambda>secret. str_replace secret redacted) (sz_redactions S) v in
      case sz_environment S of
        Some (_, secret) \<Rightarrow> str_replace secret redacted v1
      | None \<Rightarrow> v1)"

primrec sanitize_value :: "sanitizer \<Rightarrow> json \<Rightarrow> json" where
  "sanitize_value S JNull = JNull"
| "sanitize_value S (JBool b) = JBool b"
| "sanitize_value S (JInt i) = JInt i"
| "sanitize_value S (JFloat t) = JFloat t"
| "sanitize_value S (JStr t) = JStr (sanitize S t)"
| "sanitize_value S (JArr vs) = JArr (map (sanitize_value S) vs)"
| "sanitize_value S (JObj kvs) = JObj (map (map_prod id (sanitize_value S)) kvs)"

text \<open>
  What redaction achieves. A secret without brackets that is not part of the word REDACTED can only
  occur in a text that is left between two marks.
\<close>

definition redactable :: "string \<Rightarrow> bool" where
  "redactable secret \<longleftrightarrow>
     secret \<noteq> [] \<and> CHR ''['' \<notin> set secret \<and> CHR '']'' \<notin> set secret \<and> \<not> sublist secret ''REDACTED''"

lemma sublist_separator:
  assumes "c \<notin> set p" and "sublist p (xs @ c # ys)"
  shows "sublist p xs \<or> sublist p ys"
proof -
  from assms(2) obtain us vs where eq: "xs @ c # ys = us @ p @ vs" by (auto simp: sublist_def)
  then consider ws where "us = xs @ c # ws" "ys = ws @ p @ vs"
    | ws where "xs = us @ p @ ws"
    | ws zs where "p = ws @ c # zs"
    by (fastforce simp: append_eq_append_conv2 append_eq_Cons_conv Cons_eq_append_conv)
  then show ?thesis
    using assms(1) by cases (auto simp: sublist_def)
qed

lemma sublist_mark:
  assumes "redactable p" and "sublist p (xs @ redacted @ ys)"
  shows "sublist p xs \<or> sublist p ys"
proof -
  have "sublist p (xs @ CHR ''['' # (''REDACTED'' @ CHR '']'' # ys))"
    using assms(2) by (simp add: redacted_def)
  with assms(1) show ?thesis
    unfolding redactable_def by (meson sublist_separator)
qed

lemma sublist_grow: "sublist p xs \<Longrightarrow> sublist p (xs @ ys)" "sublist p ys \<Longrightarrow> sublist p (xs @ ys)"
  unfolding sublist_def by (metis append_assoc)+

text \<open>Replacing removes the secret, and does not bring back one that was absent.\<close>

lemma replace_nonempty_prefix:
  assumes "redactable p" and "q \<noteq> []" and "\<not> sublist p (xs @ s)"
  shows "\<not> sublist p (xs @ replace_nonempty q redacted s)"
  using assms(3)
proof (induction s arbitrary: xs rule: measure_induct_rule [of length])
  case (less s)
  show ?case
  proof (cases s)
    case Nil
    with less.prems show ?thesis by simp
  next
    case (Cons c cs)
    show ?thesis
    proof (cases "starts_with (c # cs) q")
      case True
      have "\<not> sublist p xs" using less.prems by (meson sublist_grow(1))
      moreover have "\<not> sublist p (drop (length q) (c # cs))"
      proof
        assume "sublist p (drop (length q) (c # cs))"
        then have "sublist p (take (length q) (c # cs) @ drop (length q) (c # cs))" by (rule sublist_grow)
        then have "sublist p (xs @ c # cs)" unfolding append_take_drop_id by (rule sublist_grow)
        with less.prems Cons show False by simp
      qed
      then have "\<not> sublist p ([] @ replace_nonempty q redacted (drop (length q) (c # cs)))"
        using Cons assms(2) by (intro less.IH) simp_all
      ultimately show ?thesis using True assms(2) Cons sublist_mark [OF assms(1)] by auto
    next
      case False
      with less.IH [of cs "xs @ [c]"] less.prems Cons show ?thesis by simp
    qed
  qed
qed

lemma starts_with_prefix: "starts_with s p \<longleftrightarrow> prefix p s"
  by (metis starts_with_def append_eq_conv_conj prefix_def append_take_drop_id)

lemma replace_nonempty_pieces:
  assumes p: "redactable p" and "\<And>us vs. us @ vs = xs \<Longrightarrow> vs \<noteq> [] \<Longrightarrow> \<not> prefix p (vs @ s)"
  shows "\<not> sublist p (xs @ replace_nonempty p redacted s)"
  using assms(2)
proof (induction s arbitrary: xs rule: measure_induct_rule [of length])
  case (less s)
  have p': "p \<noteq> []" using p by (simp add: redactable_def)
  have xs: "\<not> sublist p xs"
  proof
    assume "sublist p xs"
    then obtain us vs where "us @ p @ vs = xs" by (auto simp: sublist_def)
    with less.prems [of us "p @ vs"] p' show False by simp
  qed
  show ?case
  proof (cases s)
    case Nil
    with xs show ?thesis by simp
  next
    case (Cons c cs)
    show ?thesis
    proof (cases "prefix p s")
      case True
      have "\<not> sublist p ([] @ replace_nonempty p redacted (drop (length p) s))"
        using Cons p' by (intro less.IH) simp_all
      then show ?thesis
        using True p' Cons xs sublist_mark [OF p] by (auto simp: starts_with_prefix)
    next
      case False
      have "\<not> prefix p (vs @ cs)" if "us @ vs = xs @ [c]" "vs \<noteq> []" for us vs
      proof -
        from that(2) obtain ws d where vs: "vs = ws @ [d]" by (cases vs rule: rev_cases) auto
        with that(1) have "us @ ws = xs" "d = c" by (simp_all flip: append_assoc)
        with less.prems [of us ws] False show ?thesis by (cases "ws = []") (simp_all add: vs Cons)
      qed
      then have "\<not> sublist p ((xs @ [c]) @ replace_nonempty p redacted cs)"
        using Cons by (intro less.IH) simp_all
      with False Cons show ?thesis by (simp add: starts_with_prefix)
    qed
  qed
qed

lemma str_replace_clean:
  assumes "redactable p" and "q = p \<or> q \<noteq> [] \<and> \<not> sublist p s"
  shows "\<not> sublist p (str_replace q redacted s)"
  using assms replace_nonempty_pieces [OF assms(1), of "[]" s]
    replace_nonempty_prefix [OF assms(1), of q "[]" s]
  by (auto simp: str_replace_def redactable_def)

definition secrets :: "sanitizer \<Rightarrow> string set" where
  "secrets S = set (sz_redactions S) \<union> (case sz_environment S of Some (_, v) \<Rightarrow> {v} | None \<Rightarrow> {})"

lemma fold_replace_clean:
  assumes "redactable p" and "[] \<notin> set qs" and "p \<in> set qs \<or> \<not> sublist p s"
  shows "\<not> sublist p (fold (\<lambda>q. str_replace q redacted) qs s)"
  using assms(2,3)
proof (induction qs arbitrary: s)
  case (Cons q qs)
  have "p \<in> set qs \<or> \<not> sublist p (str_replace q redacted s)"
    using Cons.prems str_replace_clean [OF assms(1), of q s] by auto
  with Cons show ?case by simp
qed simp

lemma sanitize_clean:
  assumes "redactable p" and "p \<in> secrets S" and "[] \<notin> secrets S"
  shows "\<not> sublist p (sanitize S t)"
proof (cases "sz_environment S")
  case None
  with assms show ?thesis
    by (simp add: sanitize_def secrets_def fold_replace_clean)
next
  case (Some e)
  then obtain n v where e: "sz_environment S = Some (n, v)" by (cases e) simp
  show ?thesis
  proof (cases "p = v")
    case True
    with e str_replace_clean [OF assms(1)] show ?thesis by (simp add: sanitize_def Let_def)
  next
    case False
    with assms e have "\<not> sublist p (fold (\<lambda>q. str_replace q redacted) (sz_redactions S) t)"
      by (intro fold_replace_clean) (auto simp: secrets_def)
    moreover have "v \<noteq> []" using assms(3) e by (auto simp: secrets_def)
    ultimately show ?thesis
      using str_replace_clean [OF assms(1)] e by (simp add: sanitize_def Let_def)
  qed
qed

end
