(* ===== verification/Utf8.thy ===== *)
theory Utf8
  imports Prelude
begin

text \<open>
  Rust's conversions between bytes and UTF-8 text, on strings that stand for bytes.
\<close>

section \<open>\<open>String::from_utf8_lossy\<close>\<close>

text \<open>The ranges of the bytes that follow a leading byte; \<open>None\<close> when no sequence starts with it.\<close>

definition utf8_following :: "nat \<Rightarrow> (nat \<times> nat) list option" where
  "utf8_following b =
     (let tail = (128, 191) in
      if b < 128 then Some []
      else if b < 194 then None
      else if b < 224 then Some [tail]
      else if b = 224 then Some [(160, 191), tail]
      else if b = 237 then Some [(128, 159), tail]
      else if b < 240 then Some [tail, tail]
      else if b = 240 then Some [(144, 191), tail, tail]
      else if b < 244 then Some [tail, tail, tail]
      else if b = 244 then Some [(128, 143), tail, tail]
      else None)"

fun matching :: "(nat \<times> nat) list \<Rightarrow> string \<Rightarrow> nat" where
  "matching ((lo, hi) # rs) (c # cs) =
     (if lo \<le> of_char c \<and> of_char c \<le> hi then Suc (matching rs cs) else 0)"
| "matching _ _ = 0"

definition replacement :: string where
  "replacement = [CHR 0xEF, CHR 0xBF, CHR 0xBD]"

function utf8_lossy :: "string \<Rightarrow> string" where
  "utf8_lossy [] = []"
| "utf8_lossy (c # cs) =
     (case utf8_following (of_char c) of
        None \<Rightarrow> replacement @ utf8_lossy cs
      | Some rs \<Rightarrow>
          let n = matching rs cs in
          (if n = length rs then c # take n cs else replacement) @ utf8_lossy (drop n cs))"
  by pat_completeness auto
termination
  by (relation "measure length") (auto simp: Let_def)

lemma utf8_lossy_ascii: "list_all (\<lambda>c. of_char c < (128 :: nat)) s \<Longrightarrow> utf8_lossy s = s"
  by (induction s) (auto simp: utf8_following_def)

text \<open>
  \<open>str::from_utf8\<close> and \<open>OsStr::to_str\<close> accept exactly the bytes that the lossy conversion keeps.
\<close>

definition utf8_text :: "string \<Rightarrow> string option" where
  "utf8_text b = (if utf8_lossy b = b then Some b else None)"

lemma utf8_text_ascii: "list_all (\<lambda>c. of_char c < (128 :: nat)) b \<Longrightarrow> utf8_text b = Some b"
  by (simp add: utf8_text_def utf8_lossy_ascii)

end
