(* ===== verification/Codex_Frames.thy ===== *)
theory Codex_Frames
  imports Json Utf8
begin

text \<open>
  The line framing of the Codex App Server's standard streams
  (\<^verbatim>\<open>crates/provider-codex/src/actor.rs\<close>, \<open>write_frame\<close>, \<open>frame_stream\<close>, \<open>read_stdout\<close> and
  \<open>read_stderr\<close>). A stream is the list of chunks that its reads return; parsing and printing of
  JSON (\<^verbatim>\<open>serde_json\<close>) are arguments. Sending to the actor's channel does not fail while the actor
  listens.
\<close>

section \<open>Reading\<close>

datatype inbound =
  InFrame string json
| InMalformed string
| InOversized string
| InStderr string
| InEof

definition newline :: char where
  "newline = CHR 0x0A"

text \<open>The reader's buffer: the bytes of the current frame and whether it was cut.\<close>

type_synonym frame_buffer = "string \<times> bool"

definition frame_message :: "(string \<Rightarrow> json option) \<Rightarrow> frame_buffer \<Rightarrow> inbound" where
  "frame_message parse = (\<lambda>(frame, oversized).
     if oversized then InOversized (utf8_lossy frame)
     else case parse frame of
       Some v \<Rightarrow> InFrame (utf8_lossy frame) v
     | None \<Rightarrow> InMalformed (utf8_lossy frame))"

definition frame_byte ::
    "(string \<Rightarrow> json option) \<Rightarrow> nat \<Rightarrow> char \<Rightarrow> frame_buffer \<Rightarrow> inbound list \<times> frame_buffer" where
  "frame_byte parse max_frame_size b = (\<lambda>(frame, oversized).
     if b = newline
     then (if frame \<noteq> [] \<or> oversized then [frame_message parse (frame, oversized)] else [], ([], False))
     else if length frame < max_frame_size then ([], (frame @ [b], oversized))
     else ([], (frame, True)))"

fun frame_bytes ::
    "(string \<Rightarrow> json option) \<Rightarrow> nat \<Rightarrow> string \<Rightarrow> frame_buffer \<Rightarrow> inbound list \<times> frame_buffer" where
  "frame_bytes parse m [] buffer = ([], buffer)"
| "frame_bytes parse m (b # bs) buffer =
     (let (sent, buffer1) = frame_byte parse m b buffer;
          (rest, buffer2) = frame_bytes parse m bs buffer1
      in (sent @ rest, buffer2))"

text \<open>The end of the stream: a partial frame is reported, never parsed.\<close>

definition frame_end :: "frame_buffer \<Rightarrow> inbound list" where
  "frame_end = (\<lambda>(frame, oversized).
     (if frame = [] then []
      else [if oversized then InOversized (utf8_lossy frame) else InMalformed (utf8_lossy frame)]) @
     [InEof])"

text \<open>One read of at most 4096 bytes after the other; an empty read or a failure ends the loop.\<close>

fun frame_chunks ::
    "(string \<Rightarrow> json option) \<Rightarrow> nat \<Rightarrow> string list \<Rightarrow> frame_buffer \<Rightarrow> inbound list" where
  "frame_chunks parse m [] buffer = frame_end buffer"
| "frame_chunks parse m (chunk # chunks) buffer =
     (if chunk = [] then frame_end buffer
      else let (sent, buffer1) = frame_bytes parse m chunk buffer
           in sent @ frame_chunks parse m chunks buffer1)"

definition frame_stream :: "(string \<Rightarrow> json option) \<Rightarrow> nat \<Rightarrow> string list \<Rightarrow> inbound list" where
  "frame_stream parse max_frame_size chunks = frame_chunks parse max_frame_size chunks ([], False)"

fun read_stderr :: "string list \<Rightarrow> inbound list" where
  "read_stderr [] = []"
| "read_stderr (chunk # chunks) =
     (if chunk = [] then [] else InStderr (utf8_lossy chunk) # read_stderr chunks)"

section \<open>Writing\<close>

definition frame_text :: "(json \<Rightarrow> string) \<Rightarrow> json \<Rightarrow> string" where
  "frame_text render v = render v @ [newline]"

section \<open>The reader as a function of the lines\<close>

text \<open>
  The reference: split the stream at newlines, skip empty lines, cut a line that is too long, parse
  the others; the unfinished last line is never parsed.
\<close>

fun split_lines :: "string \<Rightarrow> string \<Rightarrow> string list \<times> string" where
  "split_lines acc [] = ([], acc)"
| "split_lines acc (b # bs) =
     (if b = newline
      then let (ls, rest) = split_lines [] bs in (acc # ls, rest)
      else split_lines (acc @ [b]) bs)"

definition cut_line :: "nat \<Rightarrow> string \<Rightarrow> frame_buffer" where
  "cut_line m l = (take m l, m < length l)"

definition line_message :: "(string \<Rightarrow> json option) \<Rightarrow> nat \<Rightarrow> string \<Rightarrow> inbound list" where
  "line_message parse m l = (if l = [] then [] else [frame_message parse (cut_line m l)])"

definition lines_messages :: "(string \<Rightarrow> json option) \<Rightarrow> nat \<Rightarrow> string \<Rightarrow> inbound list" where
  "lines_messages parse m bs =
     (let (ls, rest) = split_lines [] bs
      in concat (map (line_message parse m) ls) @ frame_end (cut_line m rest))"

lemma cut_line_Nil [simp]: "cut_line m [] = ([], False)"
  by (simp add: cut_line_def)

lemma frame_byte_cut:
  assumes "0 < m"
  shows "frame_byte parse m b (cut_line m l) =
    (if b = newline then (line_message parse m l, cut_line m []) else ([], cut_line m (l @ [b])))"
  using assms
  by (auto simp: frame_byte_def cut_line_def line_message_def min_def take_all)

lemma frame_bytes_lines:
  assumes "0 < m"
  shows "frame_bytes parse m bs (cut_line m l) =
    (let (ls, rest) = split_lines l bs in (concat (map (line_message parse m) ls), cut_line m rest))"
proof (induction bs arbitrary: l)
  case (Cons b bs)
  show ?case
    using Cons.IH [of "[]"] Cons.IH [of "l @ [b]"]
    by (auto simp: frame_byte_cut [OF assms] Let_def split: prod.splits)
qed simp

lemma frame_chunks_bytes:
  assumes "[] \<notin> set chunks"
  shows "frame_chunks parse m chunks buffer =
    (let (sent, buffer1) = frame_bytes parse m (concat chunks) buffer in sent @ frame_end buffer1)"
proof -
  have append: "frame_bytes parse m (xs @ ys) buffer =
      (let (a, buffer1) = frame_bytes parse m xs buffer;
           (b, buffer2) = frame_bytes parse m ys buffer1 in (a @ b, buffer2))" for xs ys buffer
    by (induction xs arbitrary: buffer) (auto simp: Let_def split: prod.splits)
  show ?thesis
    using assms by (induction chunks arbitrary: buffer) (auto simp: append Let_def split: prod.splits)
qed

lemma split_lines_append:
  "newline \<notin> set l \<Longrightarrow> split_lines acc (l @ newline # bs) =
     (let (ls, rest) = split_lines [] bs in ((acc @ l) # ls, rest))"
  by (induction l arbitrary: acc) auto

lemma lines_messages_line:
  "newline \<notin> set l \<Longrightarrow> lines_messages parse m (l @ newline # bs) =
     line_message parse m l @ lines_messages parse m bs"
  by (auto simp: lines_messages_def split_lines_append split: prod.splits)

lemma frame_stream_lines:
  assumes "0 < m" and "[] \<notin> set chunks"
  shows "frame_stream parse m chunks = lines_messages parse m (concat chunks)"
  using frame_bytes_lines [OF assms(1), of parse "concat chunks" "[]"]
  by (auto simp: frame_stream_def frame_chunks_bytes [OF assms(2)] lines_messages_def Let_def
      split: prod.splits)

text \<open>The buffer never holds more than one frame's bytes.\<close>

lemma frame_byte_bounded:
  "length (fst buffer) \<le> m \<Longrightarrow> length (fst (snd (frame_byte parse m b buffer))) \<le> m"
  by (auto simp: frame_byte_def split: prod.splits)

end
