(* ===== verification/Codex_Actor.thy ===== *)
theory Codex_Actor
  imports Codex_Reducer Codex_Text Codex_Frames
begin

text \<open>
  The actor that owns one Codex App Server process (\<^verbatim>\<open>crates/provider-codex/src/actor.rs\<close>): its
  commands, the validation of the server's messages, and one handler per branch of its loop.

  The actor's variables are the record \<open>actor\<close>; a \<open>HashMap\<close> is an association list. What it sends is
  logged: events to the harness, frames to the process, replies to callers. A reply channel is a
  number. Whether a write to the process succeeds is an argument of the handler, so is the printing
  of JSON by \<^verbatim>\<open>serde_json\<close>. The request counter is unbounded; the code's is a \<open>u64\<close>, which no process
  lives long enough to exhaust.
\<close>

section \<open>Configuration\<close>

record runtime_key =
  rk_connection_id :: connection_id
  rk_binary_digest :: string
  rk_codex_home :: string
  rk_execution_runtime :: string

record codex_spec =
  sc_handle :: runtime_handle
  sc_key :: runtime_key
  sc_program :: string
  sc_args :: "string list"
  sc_max_frame_size :: nat
  sc_startup_timeout_ms :: nat
  sc_redactions :: "string list"

record codex_env =
  ce_spec :: codex_spec
  ce_environment :: "(string \<times> string) option"
  ce_render :: "json \<Rightarrow> string"

definition sanitizer_of :: "codex_env \<Rightarrow> sanitizer" where
  "sanitizer_of E =
     \<lparr>sz_redactions = sc_redactions (ce_spec E), sz_environment = ce_environment E\<rparr>"

definition DIAGNOSTIC_CAPACITY :: nat where
  "DIAGNOSTIC_CAPACITY = 32"

section \<open>Commands and state\<close>

datatype request_kind =
  EmptyObject
| AccountRead
| AccountLoginStart
| AccountLogout
| ThreadList
| Session "string option"
| StartRun provider_session_id
| TurnSteer provider_run_id

datatype command_message =
  Request string json bool request_kind nat
| Respond provider_request_handle provider_response nat
| Diagnostics nat
| RecordDiagnostic string
| Health nat
| AccountLoginStatus nat
| StartAccountLogin nat
| Shutdown nat
| CommandsClosed

datatype reply =
  ReplyValue nat "harness_error + json"
| ReplyUnit nat "harness_error + unit"
| ReplyDiagnostics nat "string list"
| ReplyHealth nat
| ReplyLoginStatus nat "harness_account_status option"
| ReplyLogin nat "harness_error + harness_account_status"
| ReplyShutdown nat

record pending_client =
  pe_method :: string
  pe_mutation :: bool
  pe_kind :: request_kind
  pe_reply :: "nat option"

datatype account_login_state =
  LoginStarting "nat list" "(string \<times> bool) option" bool
| LoginPending string string
| LoginFailed

fun login_status :: "account_login_state \<Rightarrow> harness_account_status option" where
  "login_status (LoginStarting _ _ _) = None"
| "login_status (LoginPending login_id auth_url) = Some (LoginInProgress login_id auth_url)"
| "login_status LoginFailed = Some AccountUnknown"

datatype server_request_kind = ApprovalKind | UserInputKind "string list"

record pending_server =
  sv_rpc_id :: json
  sv_kind :: server_request_kind
  sv_uncertain :: bool

record actor =
  ac_next_id :: nat
  ac_pending :: "(nat \<times> pending_client) list"
  ac_requests :: "(provider_request_handle \<times> pending_server) list"
  ac_sessions :: "string list"
  ac_runs :: "((string \<times> string) \<times> provider_run_handle) list"
  ac_diagnostics :: "string list"
  ac_commands :: commands
  ac_login :: "account_login_state option"
  ac_events :: "provider_event list"
  ac_written :: "json list"
  ac_replies :: "reply list"
  ac_running :: bool

definition initial_actor :: actor where
  "initial_actor =
     \<lparr>ac_next_id = 2, ac_pending = [], ac_requests = [], ac_sessions = [], ac_runs = [],
      ac_diagnostics = [], ac_commands = [], ac_login = None, ac_events = [], ac_written = [],
      ac_replies = [], ac_running = True\<rparr>"

definition send_event :: "provider_event \<Rightarrow> actor \<Rightarrow> actor" where
  "send_event e a = a\<lparr>ac_events := ac_events a @ [e]\<rparr>"

definition send_reply :: "reply \<Rightarrow> actor \<Rightarrow> actor" where
  "send_reply r a = a\<lparr>ac_replies := ac_replies a @ [r]\<rparr>"

definition write_frame :: "json \<Rightarrow> actor \<Rightarrow> actor" where
  "write_frame v a = a\<lparr>ac_written := ac_written a @ [v]\<rparr>"

definition push_diagnostic :: "string \<Rightarrow> actor \<Rightarrow> actor" where
  "push_diagnostic v a =
     (let ds = (if length (ac_diagnostics a) = DIAGNOSTIC_CAPACITY then tl (ac_diagnostics a)
                else ac_diagnostics a)
      in a\<lparr>ac_diagnostics := ds @ [v]\<rparr>)"

section \<open>The Codex home\<close>

text \<open>Unix paths: components between slashes, without the empty ones and \<open>.\<close>.\<close>

fun path_segments :: "string \<Rightarrow> string \<Rightarrow> string list" where
  "path_segments acc [] = [acc]"
| "path_segments acc (c # cs) =
     (if c = CHR ''/'' then acc # path_segments [] cs else path_segments (acc @ [c]) cs)"

definition path_components :: "string \<Rightarrow> string list" where
  "path_components p = filter (\<lambda>s. s \<noteq> [] \<and> s \<noteq> ''.'') (path_segments [] p)"

definition push_component :: "string \<Rightarrow> string \<Rightarrow> string" where
  "push_component component normalized =
     (if ends_with_char normalized [CHR ''/''] then normalized else normalized @ ''/'') @ component"

definition normalize_codex_home :: "string \<Rightarrow> string option" where
  "normalize_codex_home raw =
     (if raw = [] \<or> \<not> starts_with raw ''/'' then None
      else Some (fold push_component (path_components raw) ''/''))"

definition normalize_path_matches :: "string \<Rightarrow> string \<Rightarrow> bool" where
  "normalize_path_matches expected reported =
     (case (normalize_codex_home expected, normalize_codex_home reported) of
        (Some e, Some r) \<Rightarrow> e = r
      | _ \<Rightarrow> False)"

definition valid_initialize_response :: "json \<Rightarrow> string \<Rightarrow> bool" where
  "valid_initialize_response v expected_home =
     some_and (get_str ''codexHome'' v) (\<lambda>home.
       normalize_path_matches expected_home home \<and> get_str ''platformFamily'' v \<noteq> None \<and>
       get_str ''platformOs'' v \<noteq> None \<and> get_str ''userAgent'' v \<noteq> None)"

section \<open>Validation of results\<close>

definition has_fields :: "json \<Rightarrow> string list \<Rightarrow> bool" where
  "has_fields v names = list_all (\<lambda>f. get f v \<noteq> None) names"

definition valid_turn :: "json \<Rightarrow> bool" where
  "valid_turn v \<longleftrightarrow>
     as_object v \<noteq> None \<and> has_fields v [''id'', ''items'', ''status''] \<and>
     some_and (get_str ''id'' v) (\<lambda>i. is_ok (provider_run_id_new i)) \<and>
     get_array ''items'' v \<noteq> None \<and>
     some_and (get_str ''status'' v) (\<lambda>s. s \<in> {''completed'', ''interrupted'', ''failed'', ''inProgress''})"

definition valid_thread :: "json \<Rightarrow> bool" where
  "valid_thread v \<longleftrightarrow>
     as_object v \<noteq> None \<and>
     has_fields v [''cliVersion'', ''createdAt'', ''cwd'', ''ephemeral'', ''id'', ''modelProvider'',
       ''preview'', ''sessionId'', ''source'', ''status'', ''turns'', ''updatedAt''] \<and>
     get_str ''cliVersion'' v \<noteq> None \<and> Option.bind (get ''createdAt'' v) as_i64 \<noteq> None \<and>
     get_str ''cwd'' v \<noteq> None \<and> Option.bind (get ''ephemeral'' v) as_bool \<noteq> None \<and>
     some_and (get_str ''id'' v) (\<lambda>i. is_ok (provider_session_id_new i)) \<and>
     get_str ''modelProvider'' v \<noteq> None \<and> get_str ''preview'' v \<noteq> None \<and>
     get_str ''sessionId'' v \<noteq> None \<and>
     some_and (get ''source'' v) (\<lambda>s. is_string s \<or> some_and (as_object s) (\<lambda>kvs. kvs \<noteq> [])) \<and>
     some_and (Option.bind (get ''status'' v) (get_str ''type''))
       (\<lambda>s. s \<in> {''notLoaded'', ''idle'', ''systemError'', ''active''}) \<and>
     some_and (get_array ''turns'' v) (list_all valid_turn) \<and>
     Option.bind (get ''updatedAt'' v) as_i64 \<noteq> None"

fun valid_response_result :: "request_kind \<Rightarrow> json \<Rightarrow> bool" where
  "valid_response_result EmptyObject v = (as_object v = Some [])"
| "valid_response_result AccountLogout v = (as_object v = Some [])"
| "valid_response_result AccountRead v =
     (as_object v \<noteq> None \<and> Option.bind (get ''requiresOpenaiAuth'' v) as_bool \<noteq> None \<and>
      none_or (get ''account'' v) (\<lambda>account. account = JNull \<or>
        some_and (get_str ''type'' account) (\<lambda>k. k \<in> {''apiKey'', ''chatgpt'', ''amazonBedrock''})))"
| "valid_response_result AccountLoginStart v =
     (get_str ''type'' v = Some ''chatgpt'' \<and> get_str ''loginId'' v \<noteq> None \<and> get_str ''authUrl'' v \<noteq> None)"
| "valid_response_result ThreadList v =
     (some_and (get_array ''data'' v) (list_all valid_thread) \<and>
      none_or (get ''nextCursor'' v) (\<lambda>c. c = JNull \<or> is_string c))"
| "valid_response_result (Session expected_thread_id) v =
     (has_fields v [''approvalPolicy'', ''approvalsReviewer'', ''cwd'', ''model'', ''modelProvider'',
        ''sandbox'', ''thread''] \<and>
      get_str ''cwd'' v \<noteq> None \<and> get_str ''model'' v \<noteq> None \<and> get_str ''modelProvider'' v \<noteq> None \<and>
      Option.bind (get ''sandbox'' v) as_object \<noteq> None \<and> some_and (get ''thread'' v) valid_thread \<and>
      none_or expected_thread_id (\<lambda>expected.
        Option.bind (get ''thread'' v) (get_str ''id'') = Some expected))"
| "valid_response_result (StartRun _) v = some_and (get ''turn'' v) valid_turn"
| "valid_response_result (TurnSteer expected_turn_id) v =
     (get_str ''turnId'' v = Some (run_str expected_turn_id))"

definition classify_protocol_error :: "codex_env \<Rightarrow> json \<Rightarrow> harness_error" where
  "classify_protocol_error E error =
     (let raw = ce_render E error in
      if str_contains ''serverOverloaded'' raw \<or> str_contains ''overload'' (to_ascii_lowercase raw)
      then HarnessOverloaded
      else HarnessProtocol (SanitizedDiagnostic (sanitize (sanitizer_of E) raw)))"

definition malformed_ack_error :: "pending_client \<Rightarrow> harness_error" where
  "malformed_ack_error p =
     (if pe_mutation p then HarnessOutcomeUnknown (pe_method p)
      else HarnessProtocol (SanitizedDiagnostic ''Codex response did not match the pinned schema''))"

section \<open>Account notifications\<close>

definition account_login_completion :: "json \<Rightarrow> (string \<times> bool) option" where
  "account_login_completion v =
     Option.bind (get ''params'' v) (\<lambda>params.
     Option.bind (get_str ''loginId'' params) (\<lambda>login_id.
     Option.bind (Option.bind (get ''success'' params) as_bool) (\<lambda>success.
     if none_or (get ''error'' params) (\<lambda>e. e = JNull \<or> is_string e) \<and>
        none_or (get ''onboardingEntrypoint'' params) (\<lambda>e. e = JNull \<or> as_str e = Some ''life_sciences'')
     then Some (login_id, success) else None)))"

definition auth_modes :: "string list" where
  "auth_modes = [''apikey'', ''chatgpt'', ''chatgptAuthTokens'', ''headers'', ''agentIdentity'',
     ''personalAccessToken'', ''bedrockApiKey'']"

definition plan_types :: "string list" where
  "plan_types = [''free'', ''go'', ''plus'', ''pro'', ''prolite'', ''team'', ''self_serve_business_prolite'',
     ''self_serve_business_usage_based'', ''business'', ''ent26'', ''enterprise_cbp_automation'',
     ''enterprise_cbp_usage_based'', ''enterprise'', ''edu'', ''unknown'']"

definition valid_account_updated :: "json \<Rightarrow> bool" where
  "valid_account_updated v \<longleftrightarrow>
     some_and (Option.bind (get ''params'' v) as_object) (\<lambda>kvs.
       none_or (map_of kvs ''authMode'') (\<lambda>m. m = JNull \<or> some_and (as_str m) (\<lambda>s. s \<in> set auth_modes)) \<and>
       none_or (map_of kvs ''planType'') (\<lambda>p. p = JNull \<or> some_and (as_str p) (\<lambda>s. s \<in> set plan_types)))"

section \<open>Replies to clients\<close>

definition settle_login_start :: "harness_error + harness_account_status \<Rightarrow> actor \<Rightarrow> actor" where
  "settle_login_start result a =
     (case ac_login a of
        Some (LoginStarting waiters completion updated) \<Rightarrow>
          let login = (case result of
                Inr (LoginInProgress login_id auth_url) \<Rightarrow>
                  if updated then None
                  else if completion = Some (login_id, True) then None
                  else if completion = Some (login_id, False) then Some LoginFailed
                  else Some (LoginPending login_id auth_url)
              | _ \<Rightarrow> None)
          in fold (\<lambda>w. send_reply (ReplyLogin w result)) waiters (a\<lparr>ac_login := login\<rparr>)
      | _ \<Rightarrow> a\<lparr>ac_login := None\<rparr>)"

definition complete_client_request :: "pending_client \<Rightarrow> harness_error + json \<Rightarrow> actor \<Rightarrow> actor" where
  "complete_client_request p result a =
     (if pe_kind p = AccountLoginStart
      then settle_login_start (map_ok (\<lambda>v. LoginInProgress
          (the (get_str ''loginId'' v)) (the (get_str ''authUrl'' v))) result) a
      else case pe_reply p of
        Some reply \<Rightarrow> send_reply (ReplyValue reply result) a
      | None \<Rightarrow> a)"

section \<open>Runs and server requests\<close>

definition run_for_message ::
    "json \<Rightarrow> ((string \<times> string) \<times> provider_run_handle) list \<Rightarrow> provider_run_handle option" where
  "run_for_message v runs =
     Option.bind (get ''params'' v) (\<lambda>params.
     Option.bind (get_str ''threadId'' params) (\<lambda>thread.
     Option.bind (case get_str ''turnId'' params of
         Some turn \<Rightarrow> Some turn
       | None \<Rightarrow> Option.bind (get ''turn'' params) (get_str ''id'')) (\<lambda>turn.
     map_of runs (thread, turn))))"

definition message_has_run_identity :: "json \<Rightarrow> bool" where
  "message_has_run_identity v =
     some_and (get ''params'' v) (\<lambda>params.
       get ''threadId'' params \<noteq> None \<and> (get ''turnId'' params \<noteq> None \<or> get ''turn'' params \<noteq> None))"

definition operation_run_identity :: "string \<Rightarrow> json \<Rightarrow> (string \<times> string) option" where
  "operation_run_identity method params =
     Option.bind (get_str ''threadId'' params) (\<lambda>thread.
     Option.bind (if method = ''turn/steer'' then get_str ''expectedTurnId'' params
        else if method = ''turn/interrupt'' then get_str ''turnId'' params else None) (\<lambda>turn.
     Some (thread, turn)))"

record rejection =
  rj_code :: int
  rj_message :: string

definition invalid_params :: rejection where
  "invalid_params = \<lparr>rj_code = -32602, rj_message = ''invalid request parameters''\<rparr>"

definition invalid_request :: "string \<Rightarrow> rejection" where
  "invalid_request message = \<lparr>rj_code = -32600, rj_message = message\<rparr>"

definition request_params :: "json \<Rightarrow> rejection + json" where
  "request_params v =
     (case get ''params'' v of
        Some params \<Rightarrow>
          if as_object params = None \<or> get_str ''threadId'' params = None \<or> get_str ''turnId'' params = None
          then Err invalid_params else Ok params
      | None \<Rightarrow> Err invalid_params)"

definition validate_command_approval_params :: "json \<Rightarrow> rejection + unit" where
  "validate_command_approval_params v =
     and_then (request_params v) (\<lambda>params.
     ensure (get_str ''itemId'' params \<noteq> None \<and> Option.bind (get ''startedAtMs'' params) as_i64 \<noteq> None)
       invalid_params)"

definition validate_file_approval_params :: "json \<Rightarrow> rejection + unit" where
  "validate_file_approval_params v =
     and_then (request_params v) (\<lambda>params. ensure (get_str ''itemId'' params \<noteq> None) invalid_params)"

definition question_id :: "json \<Rightarrow> rejection + string" where
  "question_id question =
     (if get_str ''header'' question = None \<or> get_str ''question'' question = None then Err invalid_params
      else case get_str ''id'' question of Some i \<Rightarrow> Ok i | None \<Rightarrow> Err invalid_params)"

definition validate_user_input_params :: "json \<Rightarrow> rejection + string list" where
  "validate_user_input_params v =
     and_then (request_params v) (\<lambda>params.
     and_then (ensure (get_str ''itemId'' params \<noteq> None \<and> Option.bind (get ''isBlocking'' params) as_bool \<noteq> None)
       invalid_params) (\<lambda>_.
     case get_array ''questions'' params of
       Some (q # qs) \<Rightarrow> collect_results question_id (q # qs)
     | _ \<Rightarrow> Err invalid_params))"

fun rpc_id_text :: "json \<Rightarrow> string option" where
  "rpc_id_text (JStr s) = Some s"
| "rpc_id_text (JInt i) = (if - (2 ^ 63) \<le> i \<and> i < 2 ^ 64 then Some (decimal i) else None)"
| "rpc_id_text _ = None"

definition server_request_kind_of :: "json \<Rightarrow> rejection + server_request_kind" where
  "server_request_kind_of v =
     (case get_str ''method'' v of
        None \<Rightarrow> Err (invalid_request ''invalid request'')
      | Some method \<Rightarrow>
          if method = ''item/commandExecution/requestApproval''
          then map_ok (\<lambda>_. ApprovalKind) (validate_command_approval_params v)
          else if method = ''item/fileChange/requestApproval''
          then map_ok (\<lambda>_. ApprovalKind) (validate_file_approval_params v)
          else if method = ''item/tool/requestUserInput''
          then map_ok UserInputKind (validate_user_input_params v)
          else Err \<lparr>rj_code = -32601, rj_message = ''method not supported''\<rparr>)"

definition validate_server_request ::
    "json \<Rightarrow> provider_run_handle option \<Rightarrow> (provider_request_handle \<times> pending_server) list \<Rightarrow>
     rejection + provider_request_handle \<times> pending_server" where
  "validate_server_request v run requests =
     and_then (server_request_kind_of v) (\<lambda>kind.
     case run of
       None \<Rightarrow> Err \<lparr>rj_code = -32602, rj_message = ''request does not identify an active run''\<rparr>
     | Some r \<Rightarrow>
         (case Option.bind (get ''id'' v) (\<lambda>i. map_option (Pair i) (rpc_id_text i)) of
            None \<Rightarrow> Err (invalid_request ''invalid request id'')
          | Some (rpc_id, native_id) \<Rightarrow>
              and_then (map_err (\<lambda>_. invalid_request ''invalid request id'') (provider_request_id_new native_id))
                (\<lambda>request_id.
              let handle = \<lparr>qh_run = r, qh_native_id = request_id\<rparr> in
              if map_of requests handle \<noteq> None then Err (invalid_request ''duplicate request id'')
              else Ok (handle, \<lparr>sv_rpc_id = rpc_id, sv_kind = kind, sv_uncertain = False\<rparr>))))"

definition emit_terminal_and_retire ::
    "provider_run_handle \<Rightarrow> harness_run_terminal \<Rightarrow> native_payload \<Rightarrow> actor \<Rightarrow> actor" where
  "emit_terminal_and_retire run state native a =
     (let a1 = send_event (HRunTerminal run state native) a in
      a1\<lparr>ac_runs := AList.delete (session_str (ph_session_id run), run_str (ph_native_id run)) (ac_runs a1),
         ac_requests := filter (\<lambda>(q, _). qh_run q \<noteq> run) (ac_requests a1),
         ac_commands := retire_run run (ac_commands a1)\<rparr>)"

end
