(* ===== verification/Codex_Loop.thy ===== *)
theory Codex_Loop
  imports Codex_Actor
begin

text \<open>
  The loop of the Codex actor (\<^verbatim>\<open>crates/provider-codex/src/actor.rs\<close>): the start of the process'
  session, the responses, notifications and requests of the server (\<open>handle_frame\<close>), the commands of
  the adapter, and the settlement when the process ends. The argument \<open>ok\<close> tells whether the handler's
  write to the process succeeds; no handler writes twice.
\<close>

section \<open>Settlement\<close>

datatype settlement = SettleShutdown | SettleCrashed

definition settle_pending :: "pending_client \<Rightarrow> actor \<Rightarrow> actor" where
  "settle_pending p a =
     (case pe_reply p of
        Some reply \<Rightarrow> send_reply (ReplyValue reply (Err
          (if pe_mutation p then HarnessOutcomeUnknown (pe_method p) else HarnessDisconnected))) a
      | None \<Rightarrow> a)"

definition settle_run :: "codex_env \<Rightarrow> settlement \<Rightarrow> provider_run_handle \<Rightarrow> actor \<Rightarrow> actor" where
  "settle_run E s run =
     (case s of
        SettleShutdown \<Rightarrow>
          emit_terminal_and_retire run TermInterrupted (NativePayload ''{\"event\":\"runtime-shutdown\"}'')
      | SettleCrashed \<Rightarrow>
          emit_terminal_and_retire run
            (TermCrashed (SanitizedDiagnostic
              (sanitize (sanitizer_of E) ''Codex App Server disconnected'')))
            (NativePayload ''{\"event\":\"process-exited\"}''))"

definition settle_runtime :: "codex_env \<Rightarrow> settlement \<Rightarrow> actor \<Rightarrow> actor" where
  "settle_runtime E s a =
     (let a1 = fold (\<lambda>(_, p). settle_pending p) (ac_pending a) (a\<lparr>ac_pending := []\<rparr>);
          a2 = a1\<lparr>ac_requests := []\<rparr>
      in fold (settle_run E s) (map snd (ac_runs a2)) a2)"

definition crash :: "codex_env \<Rightarrow> actor \<Rightarrow> actor" where
  "crash E a = (settle_runtime E SettleCrashed a)\<lparr>ac_running := False\<rparr>"

section \<open>Responses of the server\<close>

definition accept_result :: "codex_env \<Rightarrow> string \<Rightarrow> pending_client \<Rightarrow> json \<Rightarrow> actor \<Rightarrow> actor" where
  "accept_result E raw p result a =
     (case pe_kind p of
        Session expected_thread_id \<Rightarrow>
          (case Option.bind (get ''thread'' result) (get_str ''id'') of
             Some thread_id \<Rightarrow>
               if expected_thread_id \<noteq> None \<and> expected_thread_id \<noteq> Some thread_id
               then complete_client_request p
                 (Err (HarnessProtocol (SanitizedDiagnostic ''session resume returned mismatched thread id'')))
                 (push_diagnostic (''session resume returned mismatched thread id: expected '' @
                    the expected_thread_id @ '', got '' @ thread_id) a)
               else complete_client_request p (Ok result)
                 (a\<lparr>ac_sessions := List.insert thread_id (ac_sessions a)\<rparr>)
           | None \<Rightarrow> complete_client_request p (Ok result) a)
      | StartRun session_id \<Rightarrow>
          (case Option.bind (get ''turn'' result) (get_str ''id'') of
             Some turn_id \<Rightarrow>
               (case provider_run_id_new turn_id of
                  Inr native_id \<Rightarrow>
                    let run = \<lparr>ph_runtime = sc_handle (ce_spec E), ph_session_id = session_id,
                               ph_native_id = native_id\<rparr>
                    in complete_client_request p (Ok result)
                      (send_event (HRunAccepted run (NativePayload (sanitize (sanitizer_of E) raw)))
                        (a\<lparr>ac_runs := AList.update (session_str session_id, turn_id) run (ac_runs a)\<rparr>))
                | Inl _ \<Rightarrow> complete_client_request p (Ok result) a)
           | None \<Rightarrow> complete_client_request p (Ok result) a)
      | AccountRead \<Rightarrow>
          complete_client_request p (Ok result)
            (if none_or (get ''account'' result) (\<lambda>v. v = JNull) then a else a\<lparr>ac_login := None\<rparr>)
      | AccountLogout \<Rightarrow> complete_client_request p (Ok result) (a\<lparr>ac_login := None\<rparr>)
      | _ \<Rightarrow> complete_client_request p (Ok result) a)"

definition reject_result :: "codex_env \<Rightarrow> string \<Rightarrow> pending_client \<Rightarrow> actor \<Rightarrow> actor" where
  "reject_result E raw p a =
     complete_client_request p (Err (malformed_ack_error p))
       (push_diagnostic (sanitize (sanitizer_of E) raw) a)"

definition handle_response :: "codex_env \<Rightarrow> string \<Rightarrow> json \<Rightarrow> actor \<Rightarrow> actor" where
  "handle_response E raw v a =
     (case Option.bind (get ''id'' v) as_u64 of
        None \<Rightarrow> a
      | Some i \<Rightarrow>
          (case map_of (ac_pending a) (nat i) of
             None \<Rightarrow> a
           | Some p \<Rightarrow>
               let a1 = a\<lparr>ac_pending := AList.delete (nat i) (ac_pending a)\<rparr> in
               (case (get ''error'' v, get ''result'' v) of
                  (Some error, None) \<Rightarrow>
                    let e = classify_protocol_error E error
                    in complete_client_request p (Err e) (push_diagnostic (harness_error_text e) a1)
                | (_, None) \<Rightarrow> reject_result E raw p a1
                | (error, Some r) \<Rightarrow>
                    let result = sanitize_value (sanitizer_of E) r
                    in if error \<noteq> None \<or> \<not> valid_response_result (pe_kind p) result
                       then reject_result E raw p a1
                       else accept_result E raw p result a1)))"

section \<open>Notifications and requests of the server\<close>

definition login_completed :: "json \<Rightarrow> actor \<Rightarrow> actor" where
  "login_completed v a =
     (case account_login_completion v of
        None \<Rightarrow> (push_diagnostic ''Codex emitted a malformed account/login/completed notification'' a)
          \<lparr>ac_login := None\<rparr>
      | Some (login_id, success) \<Rightarrow>
          (case ac_login a of
             Some (LoginStarting waiters _ updated) \<Rightarrow>
               a\<lparr>ac_login := Some (LoginStarting waiters (Some (login_id, success)) updated)\<rparr>
           | Some (LoginPending pending _) \<Rightarrow>
               if pending = login_id
               then a\<lparr>ac_login := (if success then None else Some LoginFailed)\<rparr> else a
           | _ \<Rightarrow> a))"

definition account_updated :: "json \<Rightarrow> actor \<Rightarrow> actor" where
  "account_updated v a =
     (if \<not> valid_account_updated v
      then push_diagnostic ''Codex emitted a malformed account/updated notification'' a
      else case ac_login a of
        Some (LoginStarting waiters completion _) \<Rightarrow>
          a\<lparr>ac_login := Some (LoginStarting waiters completion True)\<rparr>
      | _ \<Rightarrow> a\<lparr>ac_login := None\<rparr>)"

definition malformed_terminal :: native_payload where
  "malformed_terminal = NativePayload ''{\"event\":\"malformed-terminal-frame\"}''"

definition emit_reduced ::
    "bool \<Rightarrow> provider_run_handle option \<Rightarrow> provider_event \<Rightarrow> actor \<Rightarrow> actor" where
  "emit_reduced completes_run run event a =
     (case event of
        HRunTerminal r state native \<Rightarrow> emit_terminal_and_retire r state native a
      | HMalformed _ _ _ \<Rightarrow>
          (case (completes_run, run) of
             (True, Some r) \<Rightarrow>
               emit_terminal_and_retire r
                 (TermCrashed (SanitizedDiagnostic ''Codex emitted a malformed terminal frame''))
                 malformed_terminal (send_event event a)
           | _ \<Rightarrow> send_event event a)
      | _ \<Rightarrow> send_event event a)"

definition reduce_message ::
    "string \<Rightarrow> string \<Rightarrow> json \<Rightarrow> provider_run_handle option \<Rightarrow> provider_request_handle option \<Rightarrow>
     actor \<Rightarrow> actor" where
  "reduce_message method sanitized v run request a =
     (let (events, cs) = reduce sanitized v run request (ac_commands a)
      in fold (emit_reduced (method = ''turn/completed'') run) events (a\<lparr>ac_commands := cs\<rparr>))"

definition reject_request ::
    "codex_env \<Rightarrow> bool \<Rightarrow> string \<Rightarrow> string \<Rightarrow> json \<Rightarrow> provider_run_handle option \<Rightarrow> rejection \<Rightarrow>
     actor \<Rightarrow> bool \<times> actor" where
  "reject_request E ok method sanitized v run rejection a =
     (if \<not> ok then (False, a)
      else
        let i = (case get ''id'' v of Some i \<Rightarrow> i | None \<Rightarrow> JNull);
            a1 = push_diagnostic sanitized (write_frame (JObj [(''id'', i), (''error'',
              JObj [(''code'', JInt (rj_code rejection)), (''message'', JStr (rj_message rejection))])]) a)
        in (True, send_event (if rj_code rejection = -32601
             then HUnknown run method (NativePayload sanitized)
             else HMalformed run method (NativePayload sanitized)) a1))"

text \<open>Any other message with a method. The result tells whether the write, if any, succeeded.\<close>

definition handle_message :: "codex_env \<Rightarrow> bool \<Rightarrow> string \<Rightarrow> string \<Rightarrow> json \<Rightarrow> actor \<Rightarrow> bool \<times> actor" where
  "handle_message E ok method raw value a =
     (let v = sanitize_value (sanitizer_of E) value;
          run = run_for_message v (ac_runs a);
          sanitized = sanitize (sanitizer_of E) raw in
      if get ''id'' v \<noteq> None
      then (case validate_server_request v run (ac_requests a) of
          Inr (handle, pending) \<Rightarrow>
            (True, reduce_message method sanitized v run (Some handle)
              (a\<lparr>ac_requests := AList.update handle pending (ac_requests a)\<rparr>))
        | Inl rejection \<Rightarrow> reject_request E ok method sanitized v run rejection a)
      else if message_has_run_identity v \<and> run = None
      then (True, send_event (HUnknown None method (NativePayload sanitized)) a)
      else (True, reduce_message method sanitized v run None a))"

definition handle_frame :: "codex_env \<Rightarrow> bool \<Rightarrow> string \<Rightarrow> json \<Rightarrow> actor \<Rightarrow> bool \<times> actor" where
  "handle_frame E ok raw v a =
     (if get ''method'' v = None then (True, handle_response E raw v a)
      else
        let method = (case get_str ''method'' v of Some m \<Rightarrow> m | None \<Rightarrow> ''codex.unknown'') in
        if method = ''account/login/completed''
        then (True, login_completed (sanitize_value (sanitizer_of E) v) a)
        else if method = ''account/updated''
        then (True, account_updated (sanitize_value (sanitizer_of E) v) a)
        else handle_message E ok method raw v a)"

definition handle_inbound :: "codex_env \<Rightarrow> bool \<Rightarrow> inbound \<Rightarrow> actor \<Rightarrow> actor" where
  "handle_inbound E ok m a =
     (case m of
        InFrame raw v \<Rightarrow>
          (case handle_frame E ok raw v a of (sent, a1) \<Rightarrow> if sent then a1 else crash E a1)
      | InMalformed raw \<Rightarrow>
          let text = sanitize (sanitizer_of E) raw
          in send_event (HMalformed None ''codex.malformed-frame'' (NativePayload text)) (push_diagnostic text a)
      | InOversized raw \<Rightarrow>
          let text = sanitize (sanitizer_of E) raw
          in send_event (HMalformed None ''codex.oversized-frame'' (NativePayload text)) (push_diagnostic text a)
      | InStderr chunk \<Rightarrow> push_diagnostic (sanitize (sanitizer_of E) chunk) a
      | InEof \<Rightarrow> crash E a)"

section \<open>Commands of the adapter\<close>

definition request_frame :: "nat \<Rightarrow> string \<Rightarrow> json \<Rightarrow> json" where
  "request_frame i method params =
     JObj [(''id'', JInt (int i)), (''method'', JStr method), (''params'', params)]"

definition send_checked_request ::
    "codex_env \<Rightarrow> bool \<Rightarrow> string \<Rightarrow> json \<Rightarrow> bool \<Rightarrow> request_kind \<Rightarrow> nat \<Rightarrow> actor \<Rightarrow> actor" where
  "send_checked_request E ok method params mutation kind reply a =
     (let i = ac_next_id a; a1 = a\<lparr>ac_next_id := Suc i\<rparr> in
      if ok
      then (write_frame (request_frame i method params) a1)\<lparr>ac_pending := AList.update i
        \<lparr>pe_method = method, pe_mutation = mutation, pe_kind = kind, pe_reply = Some reply\<rparr> (ac_pending a1)\<rparr>
      else crash E (send_reply (ReplyValue reply (Err
        (if mutation then HarnessOutcomeUnknown method else HarnessDisconnected))) a1))"

definition send_request ::
    "codex_env \<Rightarrow> bool \<Rightarrow> string \<Rightarrow> json \<Rightarrow> bool \<Rightarrow> request_kind \<Rightarrow> nat \<Rightarrow> actor \<Rightarrow> actor" where
  "send_request E ok method params mutation kind reply a =
     (case operation_run_identity method params of
        Some (thread, turn) \<Rightarrow>
          if map_of (ac_runs a) (thread, turn) = None
          then send_reply (ReplyValue reply (Err (HarnessNotFound ''run'' (thread @ ''/'' @ turn)))) a
          else send_checked_request E ok method params mutation kind reply a
      | None \<Rightarrow> send_checked_request E ok method params mutation kind reply a)"

fun response_result :: "server_request_kind \<Rightarrow> provider_response \<Rightarrow> json option" where
  "response_result ApprovalKind (ApprovalResponse decision) =
     Some (JObj [(''decision'', JStr (case decision of Approved \<Rightarrow> ''accept'' | Denied \<Rightarrow> ''decline''))])"
| "response_result (UserInputKind question_ids) (UserInputResponse answer) =
     Some (JObj [(''answers'', JObj (fold (\<lambda>i. AList.update i (JObj [(''answers'', JArr [JStr answer])]))
       question_ids []))])"
| "response_result _ _ = None"

definition respond_to_server_request ::
    "codex_env \<Rightarrow> bool \<Rightarrow> provider_request_handle \<Rightarrow> provider_response \<Rightarrow> nat \<Rightarrow> actor \<Rightarrow> actor" where
  "respond_to_server_request E ok request response reply a =
     (case map_of (ac_requests a) request of
        None \<Rightarrow> send_reply (ReplyUnit reply
          (Err (HarnessNotFound ''provider request'' (request_handle_text request)))) a
      | Some pending \<Rightarrow>
          if sv_uncertain pending
          then send_reply (ReplyUnit reply (Err (HarnessOutcomeUnknown ''provider/request/respond''))) a
          else (case response_result (sv_kind pending) response of
            None \<Rightarrow> send_reply (ReplyUnit reply
              (Err (HarnessInvalidInput ''provider response does not match request kind''))) a
          | Some result \<Rightarrow>
              if ok
              then send_reply (ReplyUnit reply (Ok ()))
                ((write_frame (JObj [(''id'', sv_rpc_id pending), (''result'', result)]) a)
                  \<lparr>ac_requests := AList.delete request (ac_requests a)\<rparr>)
              else crash E (send_reply (ReplyUnit reply (Err (HarnessOutcomeUnknown ''provider/request/respond'')))
                (a\<lparr>ac_requests := AList.update request (pending\<lparr>sv_uncertain := True\<rparr>) (ac_requests a)\<rparr>))))"

definition login_params :: json where
  "login_params = JObj [(''type'', JStr ''chatgpt''), (''useHostedLoginSuccessPage'', JBool True)]"

definition start_account_login :: "codex_env \<Rightarrow> bool \<Rightarrow> nat \<Rightarrow> actor \<Rightarrow> actor" where
  "start_account_login E ok reply a =
     (case ac_login a of
        Some (LoginStarting waiters completion updated) \<Rightarrow>
          a\<lparr>ac_login := Some (LoginStarting (waiters @ [reply]) completion updated)\<rparr>
      | Some (LoginPending login_id auth_url) \<Rightarrow>
          send_reply (ReplyLogin reply (Ok (LoginInProgress login_id auth_url))) a
      | _ \<Rightarrow>
          let i = ac_next_id a;
              a1 = a\<lparr>ac_next_id := Suc i, ac_login := Some (LoginStarting [reply] None False)\<rparr> in
          if ok
          then (write_frame (request_frame i ''account/login/start'' login_params) a1)\<lparr>ac_pending := AList.update i
            \<lparr>pe_method = ''account/login/start'', pe_mutation = True, pe_kind = AccountLoginStart,
             pe_reply = None\<rparr> (ac_pending a1)\<rparr>
          else crash E (settle_login_start (Err (HarnessOutcomeUnknown ''account/login/start'')) a1))"

definition handle_command :: "codex_env \<Rightarrow> bool \<Rightarrow> command_message \<Rightarrow> actor \<Rightarrow> actor" where
  "handle_command E ok c a =
     (case c of
        Request method params mutation kind reply \<Rightarrow> send_request E ok method params mutation kind reply a
      | Respond request response reply \<Rightarrow> respond_to_server_request E ok request response reply a
      | Diagnostics reply \<Rightarrow> send_reply (ReplyDiagnostics reply (ac_diagnostics a)) a
      | RecordDiagnostic text \<Rightarrow> push_diagnostic text a
      | Health reply \<Rightarrow> send_reply (ReplyHealth reply) a
      | AccountLoginStatus reply \<Rightarrow>
          send_reply (ReplyLoginStatus reply (Option.bind (ac_login a) login_status)) a
      | StartAccountLogin reply \<Rightarrow> start_account_login E ok reply a
      | Shutdown reply \<Rightarrow>
          send_reply (ReplyShutdown reply) ((settle_runtime E SettleShutdown a)\<lparr>ac_running := False\<rparr>)
      | CommandsClosed \<Rightarrow> (settle_runtime E SettleShutdown a)\<lparr>ac_running := False\<rparr>)"

section \<open>The start of a session\<close>

definition initialize_frame :: "string \<Rightarrow> json" where
  "initialize_frame version =
     JObj [(''id'', JInt 1), (''method'', JStr ''initialize''),
       (''params'', JObj [(''clientInfo'', JObj [(''name'', JStr ''yakshed''), (''version'', JStr version)]),
         (''capabilities'', JObj [(''experimentalApi'', JBool True)])])]"

definition initialize_answer :: "codex_env \<Rightarrow> bool \<Rightarrow> string \<Rightarrow> json \<Rightarrow> harness_error + unit" where
  "initialize_answer E ok expected_home v =
     (case get ''error'' v of
        Some error \<Rightarrow> Err (classify_protocol_error E error)
      | None \<Rightarrow>
          if \<not> some_and (get ''result'' v) (\<lambda>r. valid_initialize_response r expected_home)
          then Err (HarnessProtocol (SanitizedDiagnostic
            ''Codex initialize response did not match the pinned schema''))
          else if ok then Ok ()
          else Err (HarnessTransport (SanitizedDiagnostic ''Codex stdin write failed'')))"

text \<open>
  What the process says before it answers request 1 is dropped; \<open>None\<close> is the time-out. The rest of
  the messages goes to the loop.
\<close>

fun await_initialize ::
    "codex_env \<Rightarrow> bool \<Rightarrow> string \<Rightarrow> inbound list \<Rightarrow> ((harness_error + unit) \<times> inbound list) option" where
  "await_initialize E ok home [] = None"
| "await_initialize E ok home (InFrame raw v # rest) =
     (if get ''id'' v = Some (JInt 1) then Some (initialize_answer E ok home v, rest)
      else await_initialize E ok home rest)"
| "await_initialize E ok home (InEof # rest) = Some (Err HarnessDisconnected, rest)"
| "await_initialize E ok home (_ # rest) = await_initialize E ok home rest"

end
