(* ===== verification/Codex_Laws.thy ===== *)
theory Codex_Laws
  imports Codex_Loop
begin

text \<open>
  The executions of the Codex actor and what they keep: events only about open runs, nothing retained
  for runs that ended, and one reply for every command.
\<close>

section \<open>Executions\<close>

text \<open>
  The reply channel of a command. The adapter never sends a plain request of the kind that
  \<open>StartAccountLogin\<close> uses.
\<close>

fun command_reply :: "command_message \<Rightarrow> nat option" where
  "command_reply (Request _ _ _ _ reply) = Some reply"
| "command_reply (Respond _ _ reply) = Some reply"
| "command_reply (Diagnostics reply) = Some reply"
| "command_reply (RecordDiagnostic _) = None"
| "command_reply (Health reply) = Some reply"
| "command_reply (AccountLoginStatus reply) = Some reply"
| "command_reply (StartAccountLogin reply) = Some reply"
| "command_reply (Shutdown reply) = Some reply"
| "command_reply CommandsClosed = None"

fun plain_command :: "command_message \<Rightarrow> bool" where
  "plain_command (StartAccountLogin _) = False"
| "plain_command c = (command_reply c \<noteq> None)"

fun wf_command :: "command_message \<Rightarrow> bool" where
  "wf_command (Request _ _ _ kind _) = (kind \<noteq> AccountLoginStart)"
| "wf_command _ = True"

text \<open>
  A configuration holds the number of commands so far, which names the next reply channel, the
  channels of the commands other than a login, and the actor.
\<close>

inductive codex_step ::
    "codex_env \<Rightarrow> nat \<times> nat list \<times> actor \<Rightarrow> nat \<times> nat list \<times> actor \<Rightarrow> bool" for E where
  step_command: "ac_running a \<Longrightarrow> wf_command c \<Longrightarrow> command_reply c \<in> {None, Some n} \<Longrightarrow>
    codex_step E (n, issued, a)
      (Suc n, (if plain_command c then n # issued else issued), handle_command E ok c a)"
| step_inbound: "ac_running a \<Longrightarrow> codex_step E (n, issued, a) (n, issued, handle_inbound E ok m a)"

inductive codex_run :: "codex_env \<Rightarrow> nat \<times> nat list \<times> actor \<Rightarrow> bool" for E where
  run_start: "codex_run E (0, [], initial_actor)"
| run_next: "codex_run E c \<Longrightarrow> codex_step E c c' \<Longrightarrow> codex_run E c'"

inductive_cases codex_stepE: "codex_step E (n, issued, a) c"

text \<open>The contract of an invariant of the actor: it holds at the start and every step keeps it.\<close>

locale codex_invariant =
  fixes E :: codex_env and P :: "nat \<Rightarrow> nat list \<Rightarrow> actor \<Rightarrow> bool"
  assumes start: "P 0 [] initial_actor"
    and command: "P n issued a \<Longrightarrow> ac_running a \<Longrightarrow> wf_command c \<Longrightarrow> command_reply c \<in> {None, Some n} \<Longrightarrow>
      P (Suc n) (if plain_command c then n # issued else issued) (handle_command E ok c a)"
    and inbound: "P n issued a \<Longrightarrow> ac_running a \<Longrightarrow> P n issued (handle_inbound E ok m a)"
begin

lemma invariant: "codex_run E (n, issued, a) \<Longrightarrow> P n issued a"
proof (induction "(n, issued, a)" arbitrary: n issued a rule: codex_run.induct)
  case run_start
  show ?case by (rule start)
next
  case (run_next c)
  obtain m js b where c: "c = (m, js, b)" by (cases c)
  from run_next(3) show ?case
    unfolding c using run_next(2) [OF c]
    by (cases rule: codex_step.cases) (simp_all add: command inbound split del: if_split)
qed

end

section \<open>The log of events\<close>

fun event_about :: "provider_event \<Rightarrow> provider_run_handle option" where
  "event_about (HRunAccepted r _) = Some r"
| "event_about (HMessageDelta r _ _) = Some r"
| "event_about (HMessageCompleted r _ _) = Some r"
| "event_about (HApprovalRequested q _ _) = Some (qh_run q)"
| "event_about (HUserInputRequested q _ _) = Some (qh_run q)"
| "event_about (HFileMutation r _ _ _) = Some r"
| "event_about (HCommandOutputDelta r _ _ _ _) = Some r"
| "event_about (HCommandOutputCompleted r _ _ _ _) = Some r"
| "event_about (HRunTerminal r _ _) = Some r"
| "event_about (HUnknown r _ _) = r"
| "event_about (HMalformed r _ _) = r"

fun accepts :: "provider_event \<Rightarrow> bool" where
  "accepts (HRunAccepted _ _) = True"
| "accepts _ = False"

fun terminates :: "provider_event \<Rightarrow> bool" where
  "terminates (HRunTerminal _ _ _) = True"
| "terminates _ = False"

text \<open>The runs that are open after an event, and after a log.\<close>

fun open_after :: "provider_run_handle set \<Rightarrow> provider_event \<Rightarrow> provider_run_handle set" where
  "open_after rs (HRunAccepted r _) = insert r rs"
| "open_after rs (HRunTerminal r _ _) = rs - {r}"
| "open_after rs _ = rs"

definition open_runs :: "provider_event list \<Rightarrow> provider_run_handle set" where
  "open_runs es = foldl open_after {} es"

definition admissible :: "provider_run_handle set \<Rightarrow> provider_event \<Rightarrow> bool" where
  "admissible rs e \<longleftrightarrow> accepts e \<or> (case event_about e of None \<Rightarrow> True | Some r \<Rightarrow> r \<in> rs)"

definition log_ok :: "provider_event list \<Rightarrow> bool" where
  "log_ok es \<longleftrightarrow> (\<forall>i<length es. admissible (open_runs (take i es)) (es ! i))"

lemma open_runs_simps [simp]:
  "open_runs [] = {}" "open_runs (es @ [e]) = open_after (open_runs es) e"
  by (simp_all add: open_runs_def)

lemma log_ok_simps [simp]:
  "log_ok []" "log_ok (es @ [e]) \<longleftrightarrow> log_ok es \<and> admissible (open_runs es) e"
proof -
  show "log_ok []" by (simp add: log_ok_def)
  show "log_ok (es @ [e]) \<longleftrightarrow> log_ok es \<and> admissible (open_runs es) e"
    by (auto simp: log_ok_def nth_append less_Suc_eq)
qed

lemma open_after_quiet: "\<not> accepts e \<Longrightarrow> \<not> terminates e \<Longrightarrow> open_after rs e = rs"
  by (cases e) simp_all

text \<open>A run that is not open after a later part of the log ended, unless it was accepted again.\<close>

lemma open_runs_later:
  "r \<notin> open_runs xs \<Longrightarrow> r \<in> open_runs (xs @ ys) \<Longrightarrow> \<exists>n. HRunAccepted r n \<in> set ys"
proof (induction ys rule: rev_induct)
  case (snoc y ys)
  have "r \<in> open_after (open_runs (xs @ ys)) y"
    using snoc.prems(2) by (simp flip: append_assoc)
  then have "r \<in> open_runs (xs @ ys) \<or> (\<exists>n. y = HRunAccepted r n)" by (cases y) auto
  with snoc show ?case by auto
qed simp

lemma open_runs_closed:
  "r \<in> open_runs xs \<Longrightarrow> r \<notin> open_runs (xs @ ys) \<Longrightarrow> \<exists>s n. HRunTerminal r s n \<in> set ys"
proof (induction ys rule: rev_induct)
  case (snoc y ys)
  have "r \<notin> open_after (open_runs (xs @ ys)) y"
    using snoc.prems(2) by (simp flip: append_assoc)
  then have "r \<notin> open_runs (xs @ ys) \<or> (\<exists>s n. y = HRunTerminal r s n)" by (cases y) auto
  with snoc show ?case by auto
qed simp

lemma log_ok_at: "log_ok (xs @ e # ys) \<Longrightarrow> admissible (open_runs xs) e"
  unfolding log_ok_def by (drule spec [of _ "length xs"]) simp

section \<open>What the actor retains\<close>

definition registered :: "actor \<Rightarrow> provider_run_handle set" where
  "registered a = snd ` set (ac_runs a)"

definition run_key :: "provider_run_handle \<Rightarrow> string \<times> string" where
  "run_key r = (session_str (ph_session_id r), run_str (ph_native_id r))"

definition runs_keyed :: "codex_env \<Rightarrow> actor \<Rightarrow> bool" where
  "runs_keyed E a \<longleftrightarrow> distinct (map fst (ac_runs a)) \<and>
     (\<forall>(k, r)\<in>set (ac_runs a). k = run_key r \<and> ph_runtime r = sc_handle (ce_spec E))"

definition retains_open :: "actor \<Rightarrow> bool" where
  "retains_open a \<longleftrightarrow> (\<forall>x\<in>set (ac_requests a). qh_run (fst x) \<in> registered a) \<and>
     (\<forall>x\<in>set (ac_commands a). ch_run (fst x) \<in> registered a)"

definition events_inv :: "codex_env \<Rightarrow> actor \<Rightarrow> bool" where
  "events_inv E a \<longleftrightarrow>
     log_ok (ac_events a) \<and> open_runs (ac_events a) = registered a \<and> runs_keyed E a \<and> retains_open a"

lemma run_key_inj:
  assumes "run_key r = run_key s" and "ph_runtime r = ph_runtime s"
  shows "r = s"
  using assms by (cases r, cases s)
    (auto simp: run_key_def intro: provider_session_id.expand provider_run_id.expand)

lemma registered_delete:
  assumes "runs_keyed E a" and "r \<in> registered a"
  shows "snd ` set (AList.delete (run_key r) (ac_runs a)) = registered a - {r}"
proof -
  have runtime: "ph_runtime r = sc_handle (ce_spec E)"
    using assms by (auto simp: runs_keyed_def registered_def)
  have "k = run_key s \<and> ph_runtime s = ph_runtime r" if "(k, s) \<in> set (ac_runs a)" for k s
    using assms(1) that unfolding runs_keyed_def runtime by blast
  then have same: "run_key r \<noteq> k \<longleftrightarrow> s \<noteq> r" if "(k, s) \<in> set (ac_runs a)" for k s
    using that run_key_inj by metis
  have "set (AList.delete (run_key r) (ac_runs a)) = {x \<in> set (ac_runs a). snd x \<noteq> r}"
  proof (rule set_eqI)
    fix x :: "(string \<times> string) \<times> provider_run_handle"
    obtain k s where "x = (k, s)" by (cases x)
    then show "x \<in> set (AList.delete (run_key r) (ac_runs a)) \<longleftrightarrow> x \<in> {x \<in> set (ac_runs a). snd x \<noteq> r}"
      using same [of k s] by (simp add: AList.delete_eq) blast
  qed
  then show ?thesis by (auto simp: registered_def)
qed

lemma events_inv_frame:
  "events_inv E (a\<lparr>ac_next_id := x1\<rparr>) = events_inv E a"
  "events_inv E (a\<lparr>ac_pending := x2\<rparr>) = events_inv E a"
  "events_inv E (a\<lparr>ac_sessions := x3\<rparr>) = events_inv E a"
  "events_inv E (a\<lparr>ac_diagnostics := x4\<rparr>) = events_inv E a"
  "events_inv E (a\<lparr>ac_login := x5\<rparr>) = events_inv E a"
  "events_inv E (a\<lparr>ac_written := x6\<rparr>) = events_inv E a"
  "events_inv E (a\<lparr>ac_replies := x7\<rparr>) = events_inv E a"
  "events_inv E (a\<lparr>ac_running := x8\<rparr>) = events_inv E a"
  by (simp_all add: events_inv_def registered_def runs_keyed_def retains_open_def)

lemma events_inv_event:
  assumes "events_inv E a" and "\<not> accepts e" and "\<not> terminates e"
    and "admissible (registered a) e"
  shows "events_inv E (send_event e a)"
  using assms
  by (simp add: events_inv_def send_event_def registered_def runs_keyed_def retains_open_def open_after_quiet)

lemma events_inv_terminal:
  assumes inv: "events_inv E a" and r: "r \<in> registered a"
  shows "events_inv E (emit_terminal_and_retire r s n a)"
    and "registered (emit_terminal_and_retire r s n a) = registered a - {r}"
proof -
  let ?a = "emit_terminal_and_retire r s n a"
  have runs: "ac_runs ?a = AList.delete (run_key r) (ac_runs a)"
    by (simp add: emit_terminal_and_retire_def send_event_def run_key_def Let_def)
  then show reg: "registered ?a = registered a - {r}"
    using registered_delete [of E a r] inv r by (simp add: events_inv_def registered_def)
  have "runs_keyed E ?a"
    using inv unfolding events_inv_def runs_keyed_def runs
    by (auto simp: AList.delete_eq distinct_map_filter)
  moreover have kept: "ac_requests ?a = filter (\<lambda>(q, _). qh_run q \<noteq> r) (ac_requests a)"
      "ac_commands ?a = filter (\<lambda>(h, _). ch_run h \<noteq> r) (ac_commands a)"
    by (simp_all add: emit_terminal_and_retire_def retire_run_def send_event_def Let_def)
  have "retains_open a" using inv by (simp add: events_inv_def)
  then have "retains_open ?a" unfolding retains_open_def kept reg by auto
  moreover have log: "ac_events ?a = ac_events a @ [HRunTerminal r s n]"
    by (simp add: emit_terminal_and_retire_def send_event_def Let_def)
  have "log_ok (ac_events a)" "open_runs (ac_events a) = registered a" using inv by (simp_all add: events_inv_def)
  then have "log_ok (ac_events ?a)" "open_runs (ac_events ?a) = registered ?a"
    unfolding log reg using r by (simp_all add: admissible_def)
  ultimately show "events_inv E ?a" unfolding events_inv_def by blast
qed

lemma registered_frame [simp]:
  "registered (a\<lparr>ac_commands := x1\<rparr>) = registered a" "registered (a\<lparr>ac_requests := x2\<rparr>) = registered a"
  "registered (send_event e a) = registered a" "registered (push_diagnostic t a) = registered a"
  "registered (send_reply r a) = registered a" "registered (write_frame v a) = registered a"
  by (simp_all add: registered_def send_event_def push_diagnostic_def send_reply_def write_frame_def Let_def)

lemma events_inv_quiet [simp]:
  "events_inv E (push_diagnostic t a) = events_inv E a"
  "events_inv E (send_reply r a) = events_inv E a"
  "events_inv E (write_frame v a) = events_inv E a"
  by (simp_all add: push_diagnostic_def send_reply_def write_frame_def events_inv_frame Let_def)

section \<open>Messages\<close>

text \<open>What the reducer emits and keeps.\<close>

definition concerns ::
    "provider_run_handle option \<Rightarrow> provider_request_handle option \<Rightarrow> native_payload \<Rightarrow> provider_event \<Rightarrow> bool" where
  "concerns run request n e \<longleftrightarrow> \<not> accepts e \<and> native_payload e = n \<and>
     event_about e \<in> {None, run} \<union> (case request of Some q \<Rightarrow> {Some (qh_run q)} | None \<Rightarrow> {})"

fun is_mutation :: "provider_event \<Rightarrow> bool" where
  "is_mutation (HFileMutation _ _ _ _) = True"
| "is_mutation _ = False"

definition reduction_ok ::
    "provider_run_handle option \<Rightarrow> provider_request_handle option \<Rightarrow> native_payload \<Rightarrow> commands \<Rightarrow>
     reduction \<Rightarrow> bool" where
  "reduction_ok run request n cs r \<longleftrightarrow>
     list_all (concerns run request n) (fst r) \<and> (length (fst r) \<le> 1 \<or> list_all is_mutation (fst r)) \<and>
     (\<forall>x\<in>set (snd r). x \<in> set cs \<or> Some (ch_run (fst x)) = run)"

lemma reduction_ok_rejected:
  "run' = run \<Longrightarrow> (\<forall>x\<in>set cs'. x \<in> set cs \<or> Some (ch_run (fst x)) = run) \<Longrightarrow>
     reduction_ok run request n cs (rejected run' m n cs')"
  by (auto simp: reduction_ok_def rejected_def malformed_def concerns_def)

lemma reduction_ok_require:
  "reduction_ok run request n cs other \<Longrightarrow> (\<And>v. x = Some v \<Longrightarrow> reduction_ok run request n cs (k v)) \<Longrightarrow>
     reduction_ok run request n cs (require other x k)"
  by (cases x) (simp_all add: require_def)

lemma reduction_ok_single:
  "concerns run request n e \<Longrightarrow> (\<forall>x\<in>set cs'. x \<in> set cs \<or> Some (ch_run (fst x)) = run) \<Longrightarrow>
     reduction_ok run request n cs ([e], cs')"
  "(\<forall>x\<in>set cs'. x \<in> set cs \<or> Some (ch_run (fst x)) = run) \<Longrightarrow> reduction_ok run request n cs ([], cs')"
  by (auto simp: reduction_ok_def)

lemma reduction_ok_if:
  "(b \<Longrightarrow> reduction_ok run request n cs x) \<Longrightarrow> (\<not> b \<Longrightarrow> reduction_ok run request n cs y) \<Longrightarrow>
     reduction_ok run request n cs (if b then x else y)"
  by simp

lemma reduction_ok_id:
  "(\<And>i. r = Inl i \<Longrightarrow> reduction_ok run request n cs (f i)) \<Longrightarrow>
     (\<And>c. r = Inr c \<Longrightarrow> reduction_ok run request n cs (g c)) \<Longrightarrow>
     reduction_ok run request n cs (case r of Inl i \<Rightarrow> f i | Inr c \<Rightarrow> g c)"
  by (cases r) simp_all

lemmas reduction_intros =
  reduction_ok_rejected reduction_ok_require reduction_ok_single reduction_ok_if reduction_ok_id

lemma started_item_ok: "reduction_ok run request n cs (started_item params run n m cs)"
  unfolding started_item_def Let_def
  by (intro reduction_intros) (auto simp: concerns_def dest!: subsetD [OF update_subset])

lemma command_delta_ok: "reduction_ok run request n cs (command_delta params run n m cs)"
  unfolding command_delta_def Let_def by (intro reduction_intros) (auto simp: concerns_def)

lemma turn_completed_ok: "reduction_ok run request n cs (turn_completed params run n m cs)"
  unfolding turn_completed_def Let_def
  by (intro reduction_intros) (auto simp: concerns_def retire_run_def)

lemma user_input_request_ok: "reduction_ok run request n cs (user_input_request params run request n m cs)"
  unfolding user_input_request_def Let_def by (intro reduction_intros) (auto simp: concerns_def)

lemma completed_item_ok: "reduction_ok run request n cs (completed_item params run n m cs)"
  unfolding completed_item_def Let_def
  by (intro reduction_intros)
    (auto simp: concerns_def AList.delete_eq reduction_ok_def list_all_iff set_zip)

lemma reduce_method_ok: "reduction_ok run request n cs (reduce_method m params run request n cs)"
  unfolding reduce_method_def Let_def
  by (intro reduction_intros)
    (auto simp: concerns_def started_item_ok command_delta_ok turn_completed_ok user_input_request_ok
      completed_item_ok)

lemma reduce_ok: "reduction_ok run request (NativePayload raw) cs (reduce raw v run request cs)"
  unfolding reduce_def Let_def
  by (auto split: option.split simp: reduce_method_ok reduction_ok_single)

text \<open>The handling of a reduced event, and of all events of a message.\<close>

lemma events_inv_reduced:
  assumes inv: "events_inv E a" and e: "concerns run request n e"
    and reg: "set_option run \<union> qh_run ` set_option request \<subseteq> registered a"
  shows "events_inv E (emit_reduced final run e a)"
proof -
  have quiet: "events_inv E (send_event e a)" if "\<not> terminates e"
    using that e reg
    by (intro events_inv_event [OF inv])
      (auto simp: concerns_def admissible_def split: option.splits)
  show ?thesis
  proof (cases e)
    case (HRunTerminal r s m)
    then have "r \<in> registered a"
      using e reg by (auto simp: concerns_def split: option.splits)
    then show ?thesis
      using events_inv_terminal(1) [OF inv] by (simp add: HRunTerminal emit_reduced_def)
  next
    case (HMalformed r i m)
    then have sent: "events_inv E (send_event e a)" using quiet by simp
    show ?thesis
    proof (cases "final \<and> run \<noteq> None")
      case True
      then obtain x where x: "run = Some x" by blast
      then have "x \<in> registered (send_event e a)" using reg by simp
      from events_inv_terminal(1) [OF sent this] True show ?thesis
        by (simp add: emit_reduced_def HMalformed x)
    next
      case False
      then show ?thesis using sent by (auto simp: emit_reduced_def HMalformed split: option.split bool.split)
    qed
  qed (use quiet in \<open>simp_all add: emit_reduced_def\<close>)
qed

lemma emit_reduced_mutation: "is_mutation e \<Longrightarrow> emit_reduced final run e a = send_event e a"
  by (cases e) (simp_all add: emit_reduced_def)

lemma events_inv_reduced_all:
  assumes "events_inv E a" and "list_all (concerns run request n) es"
    and "length es \<le> 1 \<or> list_all is_mutation es"
    and "set_option run \<union> qh_run ` set_option request \<subseteq> registered a"
  shows "events_inv E (fold (emit_reduced final run) es a)"
  using assms
proof (induction es arbitrary: a)
  case (Cons e es)
  have "events_inv E (emit_reduced final run e a)"
    using Cons.prems by (intro events_inv_reduced) auto
  moreover have "es = [] \<or> registered (emit_reduced final run e a) = registered a"
    using Cons.prems(3) by (cases es) (auto simp: emit_reduced_mutation)
  ultimately show ?case using Cons.prems Cons.IH by (cases es) auto
qed simp

lemma events_inv_commands:
  assumes "events_inv E a" and "\<forall>x\<in>set cs. x \<in> set (ac_commands a) \<or> Some (ch_run (fst x)) = run"
    and "set_option run \<subseteq> registered a"
  shows "events_inv E (a\<lparr>ac_commands := cs\<rparr>)"
proof -
  have "ch_run (fst x) \<in> registered a" if "x \<in> set cs" for x
    using assms that unfolding events_inv_def retains_open_def by (cases run) auto
  then show ?thesis
    using assms(1) by (simp add: events_inv_def retains_open_def runs_keyed_def registered_def)
qed

lemma events_inv_message:
  assumes inv: "events_inv E a"
    and reg: "set_option run \<union> qh_run ` set_option request \<subseteq> registered a"
  shows "events_inv E (reduce_message m raw v run request a)"
proof -
  obtain es cs where red: "reduce raw v run request (ac_commands a) = (es, cs)" by fastforce
  from reduce_ok [of run request raw "ac_commands a" v] have
      es: "list_all (concerns run request (NativePayload raw)) es" "length es \<le> 1 \<or> list_all is_mutation es"
    and cs: "\<forall>x\<in>set cs. x \<in> set (ac_commands a) \<or> Some (ch_run (fst x)) = run"
    by (simp_all add: red reduction_ok_def)
  have "events_inv E (a\<lparr>ac_commands := cs\<rparr>)"
    using reg by (intro events_inv_commands [OF inv cs]) simp
  then show ?thesis
    using es reg by (simp add: reduce_message_def red events_inv_reduced_all)
qed

section \<open>Settlement\<close>

definition settled_reply :: "pending_client \<Rightarrow> reply option" where
  "settled_reply p = map_option (\<lambda>reply. ReplyValue reply (Err
     (if pe_mutation p then HarnessOutcomeUnknown (pe_method p) else HarnessDisconnected))) (pe_reply p)"

lemma settle_pending_eq:
  "settle_pending p a = (case settled_reply p of Some r \<Rightarrow> send_reply r a | None \<Rightarrow> a)"
  by (simp add: settle_pending_def settled_reply_def split: option.split)

lemma settle_pending_replies:
  "fold (\<lambda>(i, p). settle_pending p) ps a =
     a\<lparr>ac_replies := ac_replies a @ List.map_filter (\<lambda>(i, p). settled_reply p) ps\<rparr>"
proof (induction ps arbitrary: a)
  case (Cons x ps)
  obtain i p where "x = (i, p)" by (cases x)
  then show ?case
    using Cons.IH [of "settle_pending p a"]
    by (simp add: settle_pending_eq send_reply_def List.map_filter_simps split: option.split)
qed (simp add: List.map_filter_simps)

definition closed :: "actor \<Rightarrow> bool" where
  "closed a \<longleftrightarrow> ac_runs a = [] \<and> ac_pending a = [] \<and> ac_requests a = []"

lemma settle_run_frame:
  "ac_requests (settle_run E s r a) = filter (\<lambda>(q, _). qh_run q \<noteq> r) (ac_requests a)"
  "ac_pending (settle_run E s r a) = ac_pending a" "ac_replies (settle_run E s r a) = ac_replies a"
  "ac_login (settle_run E s r a) = ac_login a" "ac_next_id (settle_run E s r a) = ac_next_id a"
  "ac_diagnostics (settle_run E s r a) = ac_diagnostics a"
  by (cases s; simp add: settle_run_def emit_terminal_and_retire_def send_event_def Let_def)+

lemma settle_runs_frame:
  "ac_pending (fold (settle_run E s) rs a) = ac_pending a" "ac_replies (fold (settle_run E s) rs a) = ac_replies a"
  "ac_login (fold (settle_run E s) rs a) = ac_login a" "ac_next_id (fold (settle_run E s) rs a) = ac_next_id a"
  "ac_diagnostics (fold (settle_run E s) rs a) = ac_diagnostics a"
  "ac_requests a = [] \<Longrightarrow> ac_requests (fold (settle_run E s) rs a) = []"
  by (induction rs arbitrary: a) (simp_all add: settle_run_frame)

lemma events_inv_settle_runs:
  "events_inv E a \<Longrightarrow> distinct rs \<Longrightarrow> set rs = registered a \<Longrightarrow>
     events_inv E (fold (settle_run E s) rs a) \<and> registered (fold (settle_run E s) rs a) = {}"
proof (induction rs arbitrary: a)
  case (Cons r rs)
  then have r: "r \<in> registered a" by auto
  have "settle_run E s r a = emit_terminal_and_retire r
      (case s of SettleShutdown \<Rightarrow> TermInterrupted | SettleCrashed \<Rightarrow> TermCrashed (SanitizedDiagnostic
         (sanitize (sanitizer_of E) ''Codex App Server disconnected'')))
      (case s of SettleShutdown \<Rightarrow> NativePayload ''{\"event\":\"runtime-shutdown\"}''
         | SettleCrashed \<Rightarrow> NativePayload ''{\"event\":\"process-exited\"}'') a"
    by (cases s) (simp_all add: settle_run_def)
  then have "events_inv E (settle_run E s r a)" "registered (settle_run E s r a) = registered a - {r}"
    using events_inv_terminal [OF Cons.prems(1) r] by simp_all
  moreover have "set rs = registered a - {r}" using Cons.prems by auto
  ultimately show ?case using Cons.IH Cons.prems(2) by simp
qed simp

lemma registered_distinct: "runs_keyed E a \<Longrightarrow> distinct (map snd (ac_runs a))"
proof -
  assume "runs_keyed E a"
  then have "distinct (map fst (ac_runs a))" "map fst (ac_runs a) = map run_key (map snd (ac_runs a))"
    by (auto simp: runs_keyed_def)
  then show ?thesis by (metis distinct_map)
qed

lemma settle_runtime_ok:
  assumes inv: "events_inv E a"
  shows "events_inv E (settle_runtime E s a)" and "closed (settle_runtime E s a)"
proof -
  define b where "b = (fold (\<lambda>(_, p). settle_pending p) (ac_pending a) (a\<lparr>ac_pending := []\<rparr>))\<lparr>ac_requests := []\<rparr>"
  have settle: "settle_runtime E s a = fold (settle_run E s) (map snd (ac_runs b)) b"
    by (simp add: settle_runtime_def b_def Let_def)
  have b: "events_inv E b"
    using inv unfolding b_def settle_pending_replies
    by (simp add: events_inv_def registered_def runs_keyed_def retains_open_def)
  have "set (map snd (ac_runs b)) = registered b" "distinct (map snd (ac_runs b))"
    using b registered_distinct [of E b] by (simp_all add: registered_def events_inv_def)
  from events_inv_settle_runs [OF b this(2,1)]
  show "events_inv E (settle_runtime E s a)" "closed (settle_runtime E s a)"
    unfolding settle closed_def settle_runs_frame
    by (auto simp: b_def settle_pending_replies settle_runs_frame registered_def)
qed

definition actor_ok :: "codex_env \<Rightarrow> actor \<Rightarrow> bool" where
  "actor_ok E a \<longleftrightarrow> events_inv E a \<and> (ac_running a \<or> closed a)"

lemma actor_ok_stop: "events_inv E a \<Longrightarrow> actor_ok E ((settle_runtime E s a)\<lparr>ac_running := False\<rparr>)"
  using settle_runtime_ok [of E a s] by (simp add: actor_ok_def events_inv_frame closed_def)

lemma actor_ok_crash: "events_inv E a \<Longrightarrow> actor_ok E (crash E a)"
  by (simp add: crash_def actor_ok_stop)

section \<open>Handlers\<close>

lemma settle_login_frame:
  "events_inv E (settle_login_start result a) = events_inv E a"
  "ac_running (settle_login_start result a) = ac_running a"
proof -
  have *: "fold (\<lambda>w. send_reply (ReplyLogin w result)) ws b =
      b\<lparr>ac_replies := ac_replies b @ map (\<lambda>w. ReplyLogin w result) ws\<rparr>" for ws b
    by (induction ws arbitrary: b) (simp_all add: send_reply_def)
  show "events_inv E (settle_login_start result a) = events_inv E a"
    "ac_running (settle_login_start result a) = ac_running a"
    by (auto simp: settle_login_start_def * events_inv_frame Let_def split: option.split account_login_state.split)
qed

lemma complete_frame:
  "events_inv E (complete_client_request p result a) = events_inv E a"
  "ac_running (complete_client_request p result a) = ac_running a"
  by (simp_all add: complete_client_request_def settle_login_frame send_reply_def events_inv_frame
      split: option.split)

lemma snd_image_update:
  assumes new: "A \<subseteq> insert (k, v) B" "(k, v) \<in> A" and old: "\<And>l w. (l, w) \<in> B \<Longrightarrow> w \<noteq> v \<Longrightarrow> (l, w) \<in> A"
  shows "snd ` A = insert v (snd ` B)"
proof (intro equalityI subsetI)
  fix w
  assume "w \<in> snd ` A"
  then obtain l where "(l, w) \<in> A" by auto
  then have "w = v \<or> (l, w) \<in> B" using new(1) by blast
  then show "w \<in> insert v (snd ` B)" by force
next
  fix w
  assume "w \<in> insert v (snd ` B)"
  then have "w = v \<or> (\<exists>l. (l, w) \<in> B \<and> w \<noteq> v)" by auto
  then show "w \<in> snd ` A" using new(2) old by force
qed

lemma events_inv_accepted:
  assumes "events_inv E a" and run: "ph_runtime run = sc_handle (ce_spec E)"
  shows "events_inv E (send_event (HRunAccepted run n) (a\<lparr>ac_runs := AList.update (run_key run) run (ac_runs a)\<rparr>))"
    (is "events_inv E ?a")
proof -
  have keyed: "runs_keyed E a" and log: "log_ok (ac_events a)" "open_runs (ac_events a) = registered a"
    and retains: "retains_open a"
    using assms(1) by (simp_all add: events_inv_def)
  have runs: "ac_runs ?a = AList.update (run_key run) run (ac_runs a)" by (simp add: send_event_def)
  have "\<forall>(k, r)\<in>insert (run_key run, run) (set (ac_runs a)). k = run_key r \<and> ph_runtime r = sc_handle (ce_spec E)"
    using keyed run by (simp add: runs_keyed_def)
  then have "\<forall>(k, r)\<in>set (ac_runs ?a). k = run_key r \<and> ph_runtime r = sc_handle (ce_spec E)"
    unfolding runs using update_subset [of "run_key run" run "ac_runs a"] by blast
  then have "runs_keyed E ?a"
    using keyed unfolding runs_keyed_def runs by (simp add: distinct_update)
  moreover have reg: "registered ?a = insert run (registered a)"
    unfolding registered_def runs
  proof (rule snd_image_update [OF update_subset update_member])
    fix k s
    assume old: "(k, s) \<in> set (ac_runs a)" "s \<noteq> run"
    have "k = run_key s" "ph_runtime s = ph_runtime run"
      using old keyed unfolding runs_keyed_def run by blast+
    then have "k \<noteq> run_key run" using run_key_inj [of s run] old(2) by auto
    moreover have "map_of (ac_runs a) k = Some s" using keyed old by (simp add: runs_keyed_def)
    ultimately have "map_of (AList.update (run_key run) run (ac_runs a)) k = Some s"
      by (simp add: update_Some_unfold)
    then show "(k, s) \<in> set (AList.update (run_key run) run (ac_runs a))" by (rule map_of_SomeD)
  qed
  moreover have "retains_open ?a"
    using retains unfolding retains_open_def reg by (simp add: send_event_def)
  ultimately show ?thesis
    using log by (simp add: events_inv_def send_event_def admissible_def)
qed

lemma accept_result_ok: "events_inv E a \<Longrightarrow> events_inv E (accept_result E raw p result a)"
proof -
  assume inv: "events_inv E a"
  have "events_inv E (accept_result E raw p result a)" if kind: "pe_kind p = StartRun session_id" for session_id
  proof (cases "Option.bind (get ''turn'' result) (get_str ''id'')")
    case (Some turn_id)
    show ?thesis
    proof (cases "provider_run_id_new turn_id")
      case (Inr native_id)
      then have "native_id = ProviderRunId turn_id" by (rule opaque_id_new_Ok)
      with Inr show ?thesis
        using events_inv_accepted [OF inv, of "\<lparr>ph_runtime = sc_handle (ce_spec E),
          ph_session_id = session_id, ph_native_id = native_id\<rparr>"]
        by (simp add: accept_result_def kind Some Let_def complete_frame run_key_def)
    qed (use inv in \<open>simp add: accept_result_def kind Some complete_frame\<close>)
  qed (use inv in \<open>simp add: accept_result_def kind complete_frame\<close>)
  then show ?thesis
    using inv by (cases "pe_kind p")
      (auto simp: accept_result_def complete_frame events_inv_frame split: option.split)
qed

lemma accept_result_running: "ac_running (accept_result E raw p result a) = ac_running a"
  by (auto simp: accept_result_def complete_frame push_diagnostic_def send_event_def Let_def
      split: request_kind.split option.split sum.split)

lemma handle_response_ok:
  "events_inv E a \<Longrightarrow> events_inv E (handle_response E raw v a)"
  by (auto simp: handle_response_def Let_def complete_frame reject_result_def accept_result_ok events_inv_frame
      split: option.split)

lemma events_inv_request:
  "events_inv E a \<Longrightarrow> qh_run q \<in> registered a \<Longrightarrow>
     events_inv E (a\<lparr>ac_requests := AList.update q pending (ac_requests a)\<rparr>)"
proof -
  assume inv: "events_inv E a" and q: "qh_run q \<in> registered a"
  have "\<forall>x\<in>insert (q, pending) (set (ac_requests a)). qh_run (fst x) \<in> registered a"
    using inv q by (simp add: events_inv_def retains_open_def)
  then have "\<forall>x\<in>set (AList.update q pending (ac_requests a)). qh_run (fst x) \<in> registered a"
    using update_subset [of q pending "ac_requests a"] by blast
  then show ?thesis using inv by (simp add: events_inv_def registered_def runs_keyed_def retains_open_def)
qed

lemma run_for_message_registered: "run_for_message v (ac_runs a) = Some r \<Longrightarrow> r \<in> registered a"
  by (force simp: run_for_message_def registered_def bind_eq_Some_conv dest!: map_of_SomeD)

lemma validated_request_run:
  "validate_server_request v run requests = Ok (handle, pending) \<Longrightarrow> run = Some (qh_run handle)"
proof (cases run)
  case (Some r)
  assume "validate_server_request v run requests = Ok (handle, pending)"
  then show ?thesis
    by (cases "Option.bind (get ''id'' v) (\<lambda>i. map_option (Pair i) (rpc_id_text i))")
      (auto simp: Some validate_server_request_def Let_def and_then_eq_Ok split: if_splits)
qed (simp add: validate_server_request_def and_then_eq_Ok)

lemma reject_request_ok:
  "events_inv E a \<Longrightarrow> set_option run \<subseteq> registered a \<Longrightarrow>
     events_inv E (snd (reject_request E ok m s v run rejection a))"
  by (auto simp: reject_request_def Let_def admissible_def intro!: events_inv_event split: option.splits)

lemma handle_message_ok:
  assumes inv: "events_inv E a"
  shows "events_inv E (snd (handle_message E ok m raw v a))"
proof -
  let ?v = "sanitize_value (sanitizer_of E) v"
  let ?run = "run_for_message ?v (ac_runs a)"
  have reg: "set_option ?run \<subseteq> registered a"
    using run_for_message_registered by (cases ?run) auto
  have plain: "events_inv E (reduce_message m s ?v ?run None a)" for s
    using reg by (intro events_inv_message [OF inv]) simp
  have requested: "events_inv E (reduce_message m s ?v ?run (Some handle)
      (a\<lparr>ac_requests := AList.update handle pending (ac_requests a)\<rparr>))"
    if "validate_server_request ?v ?run (ac_requests a) = Ok (handle, pending)" for s handle pending
    using reg validated_request_run [OF that]
    by (intro events_inv_message events_inv_request [OF inv]) (simp_all add: registered_def)
  have unknown: "events_inv E (send_event (HUnknown None m s) a)" for s
    by (intro events_inv_event [OF inv]) (simp_all add: admissible_def)
  show ?thesis
  proof (cases "get ''id'' ?v = None")
    case True
    then show ?thesis by (simp add: handle_message_def Let_def plain unknown)
  next
    case False
    then show ?thesis
      by (cases "validate_server_request ?v ?run (ac_requests a)")
        (auto simp: handle_message_def Let_def requested reject_request_ok [OF inv reg])
  qed
qed

lemma login_frame:
  "events_inv E (login_completed v a) = events_inv E a" "events_inv E (account_updated v a) = events_inv E a"
  by (simp_all add: login_completed_def account_updated_def events_inv_frame
      split: option.split account_login_state.split)

lemma handle_frame_ok: "events_inv E a \<Longrightarrow> events_inv E (snd (handle_frame E ok raw v a))"
  by (simp add: handle_frame_def Let_def handle_response_ok handle_message_ok login_frame)

lemma handle_inbound_ok:
  assumes "events_inv E a"
  shows "events_inv E (handle_inbound E ok m a)" 
proof -
  have crash: "events_inv E (crash E b)" if "events_inv E b" for b
    using actor_ok_crash [OF that] by (simp add: actor_ok_def)
  have malformed: "events_inv E (send_event (HMalformed None t n) (push_diagnostic d a))" for t n d
    using assms by (intro events_inv_event) (simp_all add: admissible_def)
  have frame: "events_inv E b" if "handle_frame E ok raw v a = (sent, b)" for raw v sent b
    using handle_frame_ok [OF assms, of ok raw v] that by simp
  show ?thesis
    using assms by (auto simp: handle_inbound_def Let_def malformed crash frame split: inbound.split prod.split)
qed

section \<open>The client side of the actor\<close>

text \<open>What the handlers of the server's notifications and requests leave alone.\<close>

definition calls ::
    "actor \<Rightarrow> nat \<times> (nat \<times> pending_client) list \<times> account_login_state option \<times> reply list \<times> bool" where
  "calls a = (ac_next_id a, ac_pending a, ac_login a, ac_replies a, ac_running a)"

lemma calls_frame [simp]:
  "calls (send_event e a) = calls a" "calls (push_diagnostic t a) = calls a" "calls (write_frame v a) = calls a"
  "calls (emit_terminal_and_retire r s n a) = calls a" "calls (a\<lparr>ac_commands := x1\<rparr>) = calls a"
  "calls (a\<lparr>ac_requests := x2\<rparr>) = calls a" "calls (a\<lparr>ac_runs := x3\<rparr>) = calls a"
  "calls (a\<lparr>ac_sessions := x4\<rparr>) = calls a"
  by (simp_all add: calls_def send_event_def push_diagnostic_def write_frame_def emit_terminal_and_retire_def Let_def)

lemma calls_emit_reduced [simp]: "calls (emit_reduced final run e a) = calls a"
  by (cases e) (simp_all add: emit_reduced_def split: bool.split option.split)

lemma calls_emit_all: "calls (fold (emit_reduced final run) es a) = calls a"
  by (induction es arbitrary: a) simp_all

lemma calls_message [simp]: "calls (snd (handle_message E ok m raw v a)) = calls a"
  by (simp add: handle_message_def reduce_message_def calls_emit_all reject_request_def Let_def
      split: prod.split sum.split)

lemma running_calls: "ac_running a = snd (snd (snd (snd (calls a))))"
  by (simp add: calls_def)

lemma running_frame:
  "ac_running (handle_response E raw v a) = ac_running a"
  "ac_running (snd (handle_frame E ok raw v a)) = ac_running a"
proof -
  show response: "ac_running (handle_response E raw v a) = ac_running a" for raw v a
    by (simp add: handle_response_def Let_def complete_frame reject_result_def accept_result_running
        push_diagnostic_def split: option.split)
  have "ac_running (login_completed w a) = ac_running a" "ac_running (account_updated w a) = ac_running a" for w
    by (simp_all add: login_completed_def account_updated_def push_diagnostic_def Let_def
        split: option.split account_login_state.split)
  then show "ac_running (snd (handle_frame E ok raw v a)) = ac_running a"
    using calls_message [of E ok _ raw v a] response by (simp add: handle_frame_def Let_def running_calls)
qed

section \<open>The invariant of runs and events\<close>

lemma actor_ok_running: "events_inv E a \<Longrightarrow> ac_running a \<Longrightarrow> actor_ok E a"
  by (simp add: actor_ok_def)

lemma running_sends [simp]:
  "ac_running (send_reply r a) = ac_running a" "ac_running (write_frame v a) = ac_running a"
  "ac_running (push_diagnostic t a) = ac_running a"
  by (simp_all add: send_reply_def write_frame_def push_diagnostic_def Let_def)

lemma actor_ok_inbound:
  assumes "actor_ok E a" and "ac_running a"
  shows "actor_ok E (handle_inbound E ok m a)"
proof (cases m)
  case (InFrame raw v)
  obtain sent b where b: "handle_frame E ok raw v a = (sent, b)" by (cases "handle_frame E ok raw v a")
  then have "events_inv E b" "ac_running b"
    using handle_frame_ok [of E a ok raw v] running_frame(2) [of E ok raw v a] assms by (simp_all add: actor_ok_def)
  then show ?thesis
    by (simp add: InFrame handle_inbound_def b actor_ok_def) (use actor_ok_crash [of E b] in \<open>simp add: actor_ok_def\<close>)
next
  case InEof
  then show ?thesis using actor_ok_crash [of E a] assms by (simp add: handle_inbound_def actor_ok_def)
qed (use handle_inbound_ok [of E a ok m] assms in
    \<open>simp_all add: actor_ok_def handle_inbound_def send_event_def push_diagnostic_def Let_def\<close>)

lemma actor_ok_request:
  assumes "events_inv E a" and "ac_running a"
  shows "actor_ok E (send_checked_request E ok method params mutation kind reply a)"
    and "actor_ok E (send_request E ok method params mutation kind reply a)"
proof -
  have crash: "actor_ok E (crash E (send_reply r (a\<lparr>ac_next_id := i\<rparr>)))" for r i
    using assms by (intro actor_ok_crash) (simp add: events_inv_frame)
  show checked: "actor_ok E (send_checked_request E ok method params mutation kind reply a)"
    using assms by (auto simp: send_checked_request_def Let_def events_inv_frame crash intro!: actor_ok_running)
  have refused: "actor_ok E (send_reply r a)" for r
    using assms by (intro actor_ok_running) simp_all
  show "actor_ok E (send_request E ok method params mutation kind reply a)"
    by (simp add: send_request_def checked refused split: option.split)
qed

lemma events_inv_request_subset:
  "events_inv E a \<Longrightarrow> set qs \<subseteq> set (ac_requests a) \<Longrightarrow> events_inv E (a\<lparr>ac_requests := qs\<rparr>)"
  by (auto simp: events_inv_def registered_def runs_keyed_def retains_open_def)

lemma actor_ok_respond:
  assumes inv: "events_inv E a" and run: "ac_running a"
  shows "actor_ok E (respond_to_server_request E ok request response reply a)"
proof -
  have refused: "actor_ok E (send_reply r a)" for r
    using assms by (intro actor_ok_running) simp_all
  have sent: "actor_ok E (send_reply r ((write_frame v a)\<lparr>ac_requests := AList.delete request (ac_requests a)\<rparr>))" for r v
    using events_inv_request_subset [of E "write_frame v a" "AList.delete request (ac_requests a)"] assms
      delete_subset [of request "ac_requests a"]
    by (intro actor_ok_running) (simp_all add: write_frame_def events_inv_frame)
  have failed: "actor_ok E (crash E (send_reply r (a\<lparr>ac_requests := AList.update request p (ac_requests a)\<rparr>)))"
    if "map_of (ac_requests a) request = Some q" for r p q
  proof -
    have "qh_run request \<in> registered a"
      using map_of_SomeD [OF that] inv by (force simp: events_inv_def retains_open_def)
    then show ?thesis using events_inv_request [OF inv] by (intro actor_ok_crash) simp
  qed
  show ?thesis
  proof (cases "map_of (ac_requests a) request")
    case (Some p)
    then show ?thesis
      by (auto simp: respond_to_server_request_def refused sent failed split: option.split)
  qed (simp add: respond_to_server_request_def refused)
qed

lemma actor_ok_login:
  assumes inv: "events_inv E a" and run: "ac_running a"
  shows "actor_ok E (start_account_login E ok reply a)"
proof -
  have crash: "actor_ok E (crash E (settle_login_start r (a\<lparr>ac_next_id := i, ac_login := l\<rparr>)))" for r i l
    using inv by (intro actor_ok_crash) (simp add: settle_login_frame events_inv_frame)
  show ?thesis
    using assms
    by (auto simp: start_account_login_def Let_def events_inv_frame crash intro!: actor_ok_running
        split: option.split account_login_state.split)
qed

lemma actor_ok_command:
  assumes "actor_ok E a" and run: "ac_running a"
  shows "actor_ok E (handle_command E ok c a)"
proof -
  have inv: "events_inv E a"
    using assms by (simp add: actor_ok_def)
  have sends: "actor_ok E (send_reply r a)" "actor_ok E (push_diagnostic t a)" for r t
    using inv run by (simp_all add: actor_ok_running)
  have stop: "actor_ok E (send_reply r ((settle_runtime E s a)\<lparr>ac_running := False\<rparr>))" for r s
    using actor_ok_stop [OF inv, of s] by (simp add: actor_ok_def closed_def send_reply_def)
      (simp add: events_inv_frame)
  show ?thesis
    unfolding handle_command_def
    by (cases c) (simp_all add: sends stop actor_ok_stop [OF inv] actor_ok_request [OF inv run]
        actor_ok_respond [OF inv run] actor_ok_login [OF inv run])
qed

lemma actor_ok_initial: "actor_ok E initial_actor"
  by (simp add: actor_ok_def events_inv_def initial_actor_def registered_def runs_keyed_def retains_open_def)

interpretation cx_events: codex_invariant E "\<lambda>_ _. actor_ok E" for E
  by unfold_locales (simp_all add: actor_ok_initial actor_ok_command actor_ok_inbound)

end
