(* ===== verification/Codex_Replies.thy ===== *)
theory Codex_Replies
  imports Codex_Laws "HOL-Library.Multiset"
begin

text \<open>
  The replies of the Codex actor: every reply channel is in one place at a time (a request that waits
  for the server, a login that waits for the first one, or the replies sent), and no channel of a
  command other than a login is dropped.
\<close>

section \<open>Where the reply channels are\<close>

fun reply_tag :: "reply \<Rightarrow> nat" where
  "reply_tag (ReplyValue n _) = n"
| "reply_tag (ReplyUnit n _) = n"
| "reply_tag (ReplyDiagnostics n _) = n"
| "reply_tag (ReplyHealth n) = n"
| "reply_tag (ReplyLoginStatus n _) = n"
| "reply_tag (ReplyLogin n _) = n"
| "reply_tag (ReplyShutdown n) = n"

definition answered :: "actor \<Rightarrow> nat multiset" where
  "answered a = mset (map reply_tag (ac_replies a))"

definition tags :: "pending_client \<Rightarrow> nat multiset" where
  "tags p = (case pe_reply p of Some n \<Rightarrow> {#n#} | None \<Rightarrow> {#})"

definition waiting_tags :: "(nat \<times> pending_client) list \<Rightarrow> nat multiset" where
  "waiting_tags ps = sum_list (map (\<lambda>(i, p). tags p) ps)"

fun login_waiters :: "account_login_state option \<Rightarrow> nat list" where
  "login_waiters (Some (LoginStarting ws _ _)) = ws"
| "login_waiters _ = []"

definition queued :: "actor \<Rightarrow> nat multiset" where
  "queued a = mset (login_waiters (ac_login a))"

definition firm :: "actor \<Rightarrow> nat multiset" where
  "firm a = waiting_tags (ac_pending a) + answered a"

definition pending_ok :: "actor \<Rightarrow> bool" where
  "pending_ok a \<longleftrightarrow> distinct (map fst (ac_pending a)) \<and>
     (\<forall>(i, p)\<in>set (ac_pending a). i < ac_next_id a \<and> (pe_kind p = AccountLoginStart \<longrightarrow> pe_reply p = None))"

text \<open>
  A handler that may take on the channels \<open>M\<close>: no channel is duplicated, and the channels \<open>N\<close> and
  those of requests are kept.
\<close>

definition moves :: "nat multiset \<Rightarrow> nat multiset \<Rightarrow> actor \<Rightarrow> actor \<Rightarrow> bool" where
  "moves M N a b \<longleftrightarrow> firm b + queued b \<subseteq># firm a + queued a + M \<and> firm a + N \<subseteq># firm b \<and> pending_ok b"

lemma moves_trans: "moves M N a b \<Longrightarrow> moves K L b c \<Longrightarrow> moves (M + K) (N + L) a c"
proof -
  assume ab: "moves M N a b" and bc: "moves K L b c"
  have "firm c + queued c \<subseteq># firm b + queued b + K" using bc by (simp add: moves_def)
  also have "\<dots> \<subseteq># firm a + queued a + M + K" using ab by (simp add: moves_def)
  finally have "firm c + queued c \<subseteq># firm a + queued a + (M + K)" by (simp add: ac_simps)
  moreover have "firm a + (N + L) \<subseteq># firm c"
  proof -
    have "firm a + (N + L) \<subseteq># firm b + L" using ab by (simp add: moves_def flip: add.assoc)
    also have "\<dots> \<subseteq># firm c" using bc by (simp add: moves_def)
    finally show ?thesis .
  qed
  ultimately show ?thesis using bc by (simp add: moves_def)
qed

lemma moves_same: "calls b = calls a \<Longrightarrow> pending_ok a \<Longrightarrow> moves {#} {#} a b"
  by (simp add: moves_def calls_def firm_def answered_def queued_def pending_ok_def)

lemma moves_calls: "calls c = calls b \<Longrightarrow> moves M N a b \<Longrightarrow> moves M N a c"
  by (simp add: moves_def calls_def firm_def answered_def queued_def pending_ok_def)

lemma waiting_tags_simps [simp]:
  "waiting_tags [] = {#}" "waiting_tags (ps @ qs) = waiting_tags ps + waiting_tags qs"
  "waiting_tags ((i, p) # ps) = tags p + waiting_tags ps"
  by (simp_all add: waiting_tags_def)

lemma waiting_tags_delete:
  "distinct (map fst ps) \<Longrightarrow> map_of ps i = Some p \<Longrightarrow> waiting_tags (AList.delete i ps) + tags p = waiting_tags ps"
proof (induction ps)
  case (Cons x ps)
  obtain j q where "x = (j, q)" by (cases x)
  with Cons show ?case by (cases "j = i") (auto simp: delete_id ac_simps dom_map_of_conv_image_fst)
qed simp

lemma update_new: "i \<notin> fst ` set ps \<Longrightarrow> AList.update i p ps = ps @ [(i, p)]"
  by (induction ps) auto

lemma answered_send [simp]: "answered (send_reply r a) = answered a + {#reply_tag r#}"
  by (simp add: answered_def send_reply_def)

lemma calls_parts:
  "firm (send_reply r a) = firm a + {#reply_tag r#}" "queued (send_reply r a) = queued a"
  "pending_ok (send_reply r a) = pending_ok a"
  by (simp_all add: firm_def queued_def pending_ok_def) (simp_all add: send_reply_def)

lemma moves_reply: "pending_ok a \<Longrightarrow> moves {#reply_tag r#} {#reply_tag r#} a (send_reply r a)"
  by (simp add: moves_def calls_parts)

lemma moves_then_reply:
  assumes "moves {#} {#} a b" and "reply_tag r = n"
  shows "moves {#n#} {#n#} a (send_reply r b)"
  using moves_trans [OF assms(1) moves_reply [of b r]] assms by (simp add: moves_def)

lemma moves_after: "moves {#} {#} a b \<Longrightarrow> moves M N b c \<Longrightarrow> moves M N a c"
  using moves_trans [of "{#}" "{#}" a b M N c] by simp

section \<open>Settlement\<close>

lemma settled_tags:
  "image_mset reply_tag (mset (List.map_filter (\<lambda>(i, p). settled_reply p) ps)) = waiting_tags ps"
proof (induction ps)
  case (Cons x ps)
  then show ?case
    by (cases x) (simp add: List.map_filter_simps settled_reply_def tags_def split: option.split)
qed (simp add: List.map_filter_simps)

lemma settle_runtime_calls:
  "ac_pending (settle_runtime E s a) = []" "ac_login (settle_runtime E s a) = ac_login a"
  "answered (settle_runtime E s a) = answered a + waiting_tags (ac_pending a)"
  by (simp_all add: settle_runtime_def Let_def settle_runs_frame settle_pending_replies answered_def settled_tags)

lemma moves_settle:
  "pending_ok a \<Longrightarrow> moves {#} {#} a ((settle_runtime E s a)\<lparr>ac_running := False\<rparr>)"
  using settle_runtime_calls [of E s a]
  by (simp add: moves_def firm_def queued_def answered_def pending_ok_def add.commute)

lemma moves_crash: "pending_ok a \<Longrightarrow> moves {#} {#} a (crash E a)"
  by (simp add: crash_def moves_settle)

lemma moves_then_crash: "moves M N a b \<Longrightarrow> moves M N a (crash E b)"
  using moves_trans [of M N a b "{#}" "{#}"] moves_crash [of b E] by (simp add: moves_def)

section \<open>Responses\<close>

lemma settle_login_replies:
  "fold (\<lambda>w. send_reply (ReplyLogin w result)) ws a =
     a\<lparr>ac_replies := ac_replies a @ map (\<lambda>w. ReplyLogin w result) ws\<rparr>"
  by (induction ws arbitrary: a) (simp_all add: send_reply_def)

lemma login_waiters_settled:
  "login_waiters (case result of
     Inr (LoginInProgress i u) \<Rightarrow> if b then None else if c = Some (i, True) then None
       else if c = Some (i, False) then Some LoginFailed else Some (LoginPending i u)
   | _ \<Rightarrow> None) = []"
  by (simp split: sum.split harness_account_status.split)

lemma moves_login: "pending_ok a \<Longrightarrow> moves {#} {#} a (settle_login_start result a)"
proof (cases "\<exists>ws c u. ac_login a = Some (LoginStarting ws c u)")
  case True
  then obtain ws c u where login: "ac_login a = Some (LoginStarting ws c u)" by blast
  assume "pending_ok a"
  then show ?thesis
    by (simp add: login settle_login_start_def settle_login_replies Let_def login_waiters_settled moves_def firm_def
        answered_def queued_def pending_ok_def comp_def ac_simps)
next
  case False
  then have settled: "settle_login_start result a = a\<lparr>ac_login := None\<rparr>"
    by (auto simp: settle_login_start_def split: option.split account_login_state.split)
  assume "pending_ok a"
  then show ?thesis by (simp add: settled moves_def firm_def answered_def queued_def pending_ok_def)
qed

text \<open>The reply to a request that has been taken off the pending ones.\<close>

lemma moves_complete:
  assumes ok: "pending_ok a" and p: "pe_kind p = AccountLoginStart \<longrightarrow> pe_reply p = None"
  shows "moves (tags p) (tags p) a (complete_client_request p result a)"
  using assms moves_login [OF ok] moves_reply [OF ok, of "ReplyValue _ result"] moves_same [OF refl ok]
  by (cases "pe_reply p") (auto simp: complete_client_request_def tags_def)

definition popped :: "nat \<Rightarrow> actor \<Rightarrow> actor" where
  "popped i a = a\<lparr>ac_pending := AList.delete i (ac_pending a)\<rparr>"

lemma moves_popped:
  assumes ok: "pending_ok a" and p: "map_of (ac_pending a) i = Some p"
    and rest: "moves (tags p) (tags p) (popped i a) b"
  shows "moves {#} {#} a b"
proof -
  have "waiting_tags (ac_pending (popped i a)) + tags p = waiting_tags (ac_pending a)"
    using ok p by (simp add: popped_def pending_ok_def waiting_tags_delete)
  then have "firm (popped i a) + tags p = firm a"
    by (simp add: firm_def popped_def answered_def ac_simps)
  moreover have "queued (popped i a) = queued a" by (simp add: queued_def popped_def)
  ultimately show ?thesis using rest by (simp add: moves_def ac_simps)
qed

lemma pending_ok_popped: "pending_ok a \<Longrightarrow> pending_ok (popped i a)"
  using delete_subset [of i "ac_pending a"] by (auto simp: pending_ok_def popped_def distinct_delete)

lemma queued_dropped: "queued b \<subseteq># queued a \<Longrightarrow> firm b = firm a \<Longrightarrow> pending_ok b \<Longrightarrow> moves {#} {#} a b"
  by (simp add: moves_def subset_mset.add_mono)

lemma moves_complete_after:
  assumes ok: "pending_ok a" and p: "pe_kind p = AccountLoginStart \<longrightarrow> pe_reply p = None"
    and step: "moves {#} {#} a b"
  shows "moves (tags p) (tags p) a (complete_client_request p result b)"
  using moves_trans [OF step moves_complete [of b p result]] step p by (simp add: moves_def)

lemma moves_accept:
  assumes ok: "pending_ok a" and p: "pe_kind p = AccountLoginStart \<longrightarrow> pe_reply p = None"
  shows "moves (tags p) (tags p) a (accept_result E raw p result a)"
proof -
  have same: "moves (tags p) (tags p) a (complete_client_request p r b)" if "calls b = calls a" for b r
    using moves_complete_after [OF assms moves_same [OF that ok]] .
  have "moves {#} {#} a (a\<lparr>ac_login := None\<rparr>)"
    using ok by (intro queued_dropped) (simp_all add: queued_def firm_def answered_def pending_ok_def)
  then have dropped: "moves (tags p) (tags p) a (complete_client_request p r (a\<lparr>ac_login := None\<rparr>))" for r
    using moves_complete_after [OF assms] by blast
  show ?thesis
    by (cases "pe_kind p") (auto simp: accept_result_def Let_def dropped intro!: same split: option.split sum.split)
qed

lemma moves_response:
  assumes ok: "pending_ok a"
  shows "moves {#} {#} a (handle_response E raw v a)"
proof (cases "Option.bind (get ''id'' v) as_u64")
  case (Some i)
  show ?thesis
  proof (cases "map_of (ac_pending a) (nat i)")
    case p: (Some p)
    have kind: "pe_kind p = AccountLoginStart \<longrightarrow> pe_reply p = None"
      using map_of_SomeD [OF p] ok by (auto simp: pending_ok_def)
    have ok': "pending_ok (popped (nat i) a)" by (rule pending_ok_popped [OF ok])
    have "moves (tags p) (tags p) (popped (nat i) a) (complete_client_request p r (push_diagnostic t (popped (nat i) a)))"
      for r t
      using moves_complete_after [OF ok' kind moves_same [OF _ ok']] by simp
    with moves_popped [OF ok p] have failed:
      "moves {#} {#} a (complete_client_request p r (push_diagnostic t (popped (nat i) a)))" for r t by blast
    have accepted: "moves {#} {#} a (accept_result E raw p r (popped (nat i) a))" for r
      using moves_popped [OF ok p moves_accept [OF ok' kind]] .
    have popped: "a\<lparr>ac_pending := AList.delete (nat i) (ac_pending a)\<rparr> = popped (nat i) a"
      by (simp add: popped_def)
    show ?thesis
      by (simp add: handle_response_def Some p popped reject_result_def Let_def failed accepted split: option.split)
  qed (simp add: handle_response_def Some moves_same ok)
qed (simp add: handle_response_def moves_same ok)

section \<open>The handlers\<close>

lemma moves_notifications:
  assumes ok: "pending_ok a"
  shows "moves {#} {#} a (login_completed v a)" and "moves {#} {#} a (account_updated v a)"
proof -
  have login: "moves {#} {#} a b"
    if "ac_pending b = ac_pending a" "ac_next_id b = ac_next_id a" "ac_replies b = ac_replies a"
      "mset (login_waiters (ac_login b)) \<subseteq># mset (login_waiters (ac_login a))" for b
    using ok that by (intro queued_dropped) (simp_all add: queued_def firm_def answered_def pending_ok_def)
  show "moves {#} {#} a (login_completed v a)" "moves {#} {#} a (account_updated v a)"
    by (rule login; simp add: login_completed_def account_updated_def push_diagnostic_def Let_def
        split: option.split account_login_state.split)+
qed

lemma moves_frame: "pending_ok a \<Longrightarrow> moves {#} {#} a (snd (handle_frame E ok raw v a))"
  by (simp add: handle_frame_def Let_def moves_response moves_notifications moves_same)

lemma moves_inbound:
  assumes ok: "pending_ok a"
  shows "moves {#} {#} a (handle_inbound E k m a)"
proof (cases m)
  case (InFrame raw v)
  then show ?thesis
    using moves_frame [OF ok, of E k raw v] moves_then_crash [OF moves_frame [OF ok, of E k raw v], of E]
    by (auto simp: handle_inbound_def split: prod.split)
qed (simp_all add: handle_inbound_def Let_def moves_same moves_crash ok)

lemma moves_checked_request:
  assumes ok: "pending_ok a" and kind: "kind \<noteq> AccountLoginStart"
  shows "moves {#n#} {#n#} a (send_checked_request E k method params mutation kind n a)"
proof (cases k)
  case True
  have new: "ac_next_id a \<notin> fst ` set (ac_pending a)" using ok by (auto simp: pending_ok_def)
  show ?thesis
    using ok kind new
    by (auto simp: True send_checked_request_def Let_def write_frame_def moves_def firm_def queued_def answered_def
        pending_ok_def update_new tags_def less_Suc_eq)
next
  case False
  have "moves {#} {#} a (a\<lparr>ac_next_id := Suc (ac_next_id a)\<rparr>)"
    using ok by (auto simp: moves_def firm_def queued_def answered_def pending_ok_def)
  then show ?thesis
    by (simp add: False send_checked_request_def Let_def moves_then_crash moves_then_reply)
qed

lemma moves_send_request:
  assumes "pending_ok a" and "kind \<noteq> AccountLoginStart"
  shows "moves {#n#} {#n#} a (send_request E k method params mutation kind n a)"
proof -
  have "moves {#n#} {#n#} a (send_reply (ReplyValue n r) a)" for r
    by (rule moves_then_reply [OF moves_same [OF refl assms(1)]]) simp
  with moves_checked_request [OF assms] show ?thesis
    by (simp add: send_request_def split: option.split)
qed

lemma moves_respond:
  assumes ok: "pending_ok a"
  shows "moves {#n#} {#n#} a (respond_to_server_request E k request response n a)"
proof -
  have sent: "moves {#n#} {#n#} a (send_reply (ReplyUnit n r) b)" if "calls b = calls a" for r b
    by (rule moves_then_reply [OF moves_same [OF that ok]]) simp
  show ?thesis
    by (simp add: respond_to_server_request_def sent moves_then_crash split: option.split)
qed

lemma moves_start_login:
  assumes ok: "pending_ok a"
  shows "moves {#n#} {#} a (start_account_login E k n a)"
proof -
  have reply: "moves {#n#} {#} a (send_reply (ReplyLogin n r) a)" for r
    using ok by (simp add: moves_def calls_parts)
  have join: "moves {#n#} {#} a (a\<lparr>ac_login := Some (LoginStarting (login_waiters (ac_login a) @ [n]) c u)\<rparr>)" for c u
    using ok by (simp add: moves_def firm_def queued_def answered_def pending_ok_def)
  have first: "moves {#n#} {#} a (a\<lparr>ac_next_id := Suc (ac_next_id a), ac_login := Some (LoginStarting [n] None False)\<rparr>)"
    (is "moves _ _ a ?b")
    using ok by (auto simp: moves_def firm_def queued_def answered_def pending_ok_def)
  have failed: "moves {#n#} {#} a (crash E (settle_login_start r ?b))" for r
    using moves_trans [OF first moves_login [of ?b r]] first by (intro moves_then_crash) (simp add: moves_def)
  have new: "ac_next_id a \<notin> fst ` set (ac_pending a)" using ok by (auto simp: pending_ok_def)
  have "moves {#n#} {#} a ((write_frame v ?b)\<lparr>ac_pending := AList.update (ac_next_id a)
      \<lparr>pe_method = m, pe_mutation = True, pe_kind = AccountLoginStart, pe_reply = None\<rparr> (ac_pending a)\<rparr>)" for v m
    using ok new
    by (auto simp: write_frame_def moves_def firm_def queued_def answered_def pending_ok_def update_new tags_def less_Suc_eq)
  with failed have fresh: "ac_login a = None \<or> ac_login a = Some LoginFailed \<Longrightarrow> ?thesis"
    by (auto simp: start_account_login_def Let_def write_frame_def)
  show ?thesis
  proof (cases "ac_login a")
    case (Some l)
    then show ?thesis
      using fresh reply join by (cases l) (simp_all add: start_account_login_def)
  qed (use fresh in simp)
qed

section \<open>The invariant\<close>

definition replies_inv :: "nat \<Rightarrow> nat list \<Rightarrow> actor \<Rightarrow> bool" where
  "replies_inv n issued a \<longleftrightarrow>
     firm a + queued a \<subseteq># mset_set {..<n} \<and> mset issued \<subseteq># firm a \<and> pending_ok a"

lemma replies_inv_moves:
  assumes inv: "replies_inv n issued a" and step: "moves M N a b"
    and M: "mset_set {..<n} + M \<subseteq># mset_set {..<m}" and N: "mset issued' \<subseteq># mset issued + N"
  shows "replies_inv m issued' b"
proof -
  have "firm b + queued b \<subseteq># firm a + queued a + M" using step by (simp add: moves_def)
  also have "\<dots> \<subseteq># mset_set {..<n} + M" using inv by (simp add: replies_inv_def)
  also note M
  finally have "firm b + queued b \<subseteq># mset_set {..<m}" .
  moreover have "mset issued' \<subseteq># firm b"
  proof -
    note N
    also have "mset issued + N \<subseteq># firm a + N" using inv by (simp add: replies_inv_def)
    also have "\<dots> \<subseteq># firm b" using step by (simp add: moves_def)
    finally show ?thesis .
  qed
  ultimately show ?thesis using step by (simp add: replies_inv_def moves_def)
qed

lemma subset_mset_set_distinct: "finite A \<Longrightarrow> mset xs \<subseteq># mset_set A \<Longrightarrow> distinct xs"
proof -
  assume A: "finite A" "mset xs \<subseteq># mset_set A"
  have "count (mset xs) x = (if x \<in> set xs then 1 else 0)" for x
  proof -
    have "count (mset xs) x \<le> count (mset_set A) x" by (rule mset_subset_eq_count [OF A(2)])
    also have "\<dots> \<le> 1" using A(1) by (cases "x \<in> A") simp_all
    finally have "count (mset xs) x \<le> 1" .
    moreover have "x \<in> set xs \<longleftrightarrow> 0 < count (mset xs) x" by simp
    ultimately show ?thesis by (cases "count (mset xs) x") auto
  qed
  then show "distinct xs" by (simp add: distinct_count_atmost_1)
qed

lemma next_tag: "mset_set {..<n} + {#n#} = mset_set {..<Suc n}" "mset_set {..<n} \<subseteq># mset_set {..<Suc n}"
  by (simp_all add: lessThan_Suc)

lemma replies_inv_command:
  assumes inv: "replies_inv n issued a" and c: "wf_command c" "command_reply c \<in> {None, Some n}"
  shows "replies_inv (Suc n) (if plain_command c then n # issued else issued) (handle_command E k c a)"
proof -
  have ok: "pending_ok a" using inv by (simp add: replies_inv_def)
  have plain: "replies_inv (Suc n) (n # issued) b" if "moves {#n#} {#n#} a b" for b
    by (rule replies_inv_moves [OF inv that]) (simp only: next_tag(1) subset_mset.order_refl, simp)
  have other: "replies_inv (Suc n) issued b" if "moves M {#} a b" "M \<subseteq># {#n#}" for b M
    by (rule replies_inv_moves [OF inv that(1)])
      (use that(2) in \<open>auto simp flip: next_tag(1) intro: subset_mset.add_mono\<close>)
  have send: "moves {#n#} {#n#} a (send_reply r a)" if "reply_tag r = n" for r
    using moves_then_reply [OF moves_same [OF refl ok] that] .
  have stop: "moves {#n#} {#n#} a (send_reply r ((settle_runtime E s a)\<lparr>ac_running := False\<rparr>))" if "reply_tag r = n" for r s
    using moves_then_reply [OF moves_settle [OF ok] that] .
  show ?thesis
    using c
    by (cases c) (simp_all add: handle_command_def plain send stop moves_send_request [OF ok] moves_respond [OF ok]
        other [OF moves_start_login [OF ok]] other [OF moves_settle [OF ok]] other [OF moves_same [OF _ ok]])
qed

lemma replies_inv_inbound: "replies_inv n issued a \<Longrightarrow> replies_inv n issued (handle_inbound E k m a)"
proof -
  assume inv: "replies_inv n issued a"
  then have "moves {#} {#} a (handle_inbound E k m a)" by (simp add: replies_inv_def moves_inbound)
  then show ?thesis by (rule replies_inv_moves [OF inv]) simp_all
qed

lemma replies_inv_initial: "replies_inv 0 [] initial_actor"
  by (simp add: replies_inv_def firm_def queued_def answered_def pending_ok_def initial_actor_def)

interpretation cx_replies: codex_invariant E replies_inv for E
  by unfold_locales (simp_all only: replies_inv_initial replies_inv_command replies_inv_inbound)

end
