(* ===== verification/Codex_Output.thy ===== *)
theory Codex_Output
  imports Codex_Laws
begin

text \<open>
  What leaves the Codex actor towards the harness: the payload of every event is a sanitized text or one
  of three constants, and the diagnostics never exceed their capacity.
\<close>

definition own_payloads :: "native_payload list" where
  "own_payloads = [malformed_terminal, NativePayload ''{\"event\":\"runtime-shutdown\"}'',
     NativePayload ''{\"event\":\"process-exited\"}'']"

definition clean_payload :: "codex_env \<Rightarrow> native_payload \<Rightarrow> bool" where
  "clean_payload E n \<longleftrightarrow> n \<in> set own_payloads \<or> (\<exists>t. n = NativePayload (sanitize (sanitizer_of E) t))"

definition output_ok :: "codex_env \<Rightarrow> actor \<Rightarrow> bool" where
  "output_ok E a \<longleftrightarrow> list_all (\<lambda>e. clean_payload E (native_payload e)) (ac_events a) \<and>
     length (ac_diagnostics a) \<le> DIAGNOSTIC_CAPACITY"

lemma clean_payload_intros [simp]:
  "clean_payload E (NativePayload (sanitize (sanitizer_of E) t))" "clean_payload E malformed_terminal"
  "clean_payload E (NativePayload ''{\"event\":\"runtime-shutdown\"}'')"
  "clean_payload E (NativePayload ''{\"event\":\"process-exited\"}'')"
  by (auto simp: clean_payload_def own_payloads_def)

lemma output_ok_frame [simp]:
  "output_ok E (a\<lparr>ac_next_id := x1\<rparr>) = output_ok E a" "output_ok E (a\<lparr>ac_pending := x2\<rparr>) = output_ok E a"
  "output_ok E (a\<lparr>ac_sessions := x3\<rparr>) = output_ok E a" "output_ok E (a\<lparr>ac_runs := x4\<rparr>) = output_ok E a"
  "output_ok E (a\<lparr>ac_requests := x5\<rparr>) = output_ok E a" "output_ok E (a\<lparr>ac_commands := x6\<rparr>) = output_ok E a"
  "output_ok E (a\<lparr>ac_login := x7\<rparr>) = output_ok E a" "output_ok E (a\<lparr>ac_written := x8\<rparr>) = output_ok E a"
  "output_ok E (a\<lparr>ac_replies := x9\<rparr>) = output_ok E a" "output_ok E (a\<lparr>ac_running := x10\<rparr>) = output_ok E a"
  by (simp_all add: output_ok_def)

lemma output_ok_sends [simp]:
  "output_ok E (send_reply r a) = output_ok E a" "output_ok E (write_frame v a) = output_ok E a"
  "output_ok E a \<Longrightarrow> output_ok E (push_diagnostic t a)"
  "output_ok E a \<Longrightarrow> clean_payload E (native_payload e) \<Longrightarrow> output_ok E (send_event e a)"
  "output_ok E a \<Longrightarrow> clean_payload E n \<Longrightarrow> output_ok E (emit_terminal_and_retire x st n a)"
  by (simp_all add: output_ok_def send_reply_def write_frame_def push_diagnostic_def send_event_def
      emit_terminal_and_retire_def DIAGNOSTIC_CAPACITY_def Let_def)

lemma output_ok_settle: "output_ok E a \<Longrightarrow> output_ok E (settle_runtime E s a)"
proof -
  have run: "output_ok E (settle_run E s r b)" if "output_ok E b" for r b
    using that by (cases s) (simp_all add: settle_run_def)
  have runs: "output_ok E (fold (settle_run E s) rs b)" if "output_ok E b" for rs b
    using that by (induction rs arbitrary: b) (simp_all add: run)
  assume "output_ok E a"
  then show ?thesis by (simp add: settle_runtime_def settle_pending_replies Let_def runs)
qed

lemma output_ok_crash: "output_ok E a \<Longrightarrow> output_ok E (crash E a)"
  by (simp add: crash_def output_ok_settle)

lemma output_ok_login [simp]: "output_ok E (settle_login_start r a) = output_ok E a"
proof -
  have "output_ok E (fold (\<lambda>w. send_reply (ReplyLogin w r)) ws b) = output_ok E b" for ws b
    by (induction ws arbitrary: b) simp_all
  then show ?thesis
    by (simp add: settle_login_start_def Let_def split: option.split account_login_state.split)
qed

lemma output_ok_complete [simp]: "output_ok E (complete_client_request p r a) = output_ok E a"
  by (simp add: complete_client_request_def split: option.split)

lemma output_ok_response: "output_ok E a \<Longrightarrow> output_ok E (handle_response E raw v a)"
  by (simp add: handle_response_def accept_result_def reject_result_def Let_def
      split: option.split request_kind.split sum.split)

lemma output_ok_reduced:
  "output_ok E a \<Longrightarrow> clean_payload E (native_payload e) \<Longrightarrow> output_ok E (emit_reduced final run e a)"
  by (cases e) (simp_all add: emit_reduced_def split: option.split bool.split)

lemma output_ok_message:
  assumes "output_ok E a"
  shows "output_ok E (reduce_message m (sanitize (sanitizer_of E) raw) v run request a)"
proof -
  let ?n = "NativePayload (sanitize (sanitizer_of E) raw)"
  obtain es cs where red: "reduce (sanitize (sanitizer_of E) raw) v run request (ac_commands a) = (es, cs)"
    by fastforce
  then have "list_all (\<lambda>e. native_payload e = ?n) es"
    using reduce_ok [of run request "sanitize (sanitizer_of E) raw" "ac_commands a" v]
    by (auto simp: reduction_ok_def concerns_def list_all_iff)
  then have "output_ok E (fold (emit_reduced final run) es b)" if "output_ok E b" for final b
    using that by (induction es arbitrary: b) (simp_all add: output_ok_reduced)
  then show ?thesis using assms by (simp add: reduce_message_def red)
qed

lemma output_ok_handle_message: "output_ok E a \<Longrightarrow> output_ok E (snd (handle_message E ok m raw v a))"
  by (simp add: handle_message_def output_ok_message reject_request_def Let_def split: sum.split prod.split)

lemma output_ok_inbound: "output_ok E a \<Longrightarrow> output_ok E (handle_inbound E ok m a)"
proof -
  assume ok: "output_ok E a"
  have "output_ok E (login_completed v a)" "output_ok E (account_updated v a)" for v
    using ok by (simp_all add: login_completed_def account_updated_def
        split: option.split account_login_state.split)
  then have "output_ok E (snd (handle_frame E ok' raw v a))" for ok' raw v
    using ok by (simp add: handle_frame_def Let_def output_ok_response output_ok_handle_message)
  then have "output_ok E b" if "handle_frame E ok' raw v a = (sent, b)" for ok' raw v sent b
    using that by (metis snd_conv)
  then show ?thesis
    using ok by (auto simp: handle_inbound_def Let_def output_ok_crash split: inbound.split prod.split)
qed

lemma output_ok_command: "output_ok E a \<Longrightarrow> output_ok E (handle_command E ok c a)"
  by (simp add: handle_command_def send_request_def send_checked_request_def respond_to_server_request_def
      start_account_login_def Let_def output_ok_crash output_ok_settle
      split: command_message.split option.split account_login_state.split)

interpretation cx_output: codex_invariant E "\<lambda>_ _. output_ok E" for E
  by unfold_locales (simp_all add: output_ok_command output_ok_inbound, simp add: output_ok_def initial_actor_def)

end
