(* ===== verification/Codex_Samples.thy ===== *)
theory Codex_Samples
  imports Codex_Replies Codex_Output
begin

text \<open>
  A concrete Codex actor for the witnesses: it starts a turn, the server accepts it and completes it,
  the same turn is started again, and the adapter shuts the process down.
\<close>

definition codex_sample_env :: codex_env where
  "codex_sample_env =
     \<lparr>ce_spec = \<lparr>sc_handle = RuntimeHandle ''m'',
        sc_key = \<lparr>rk_connection_id = Id 1, rk_binary_digest = ''d'', rk_codex_home = ''/h'',
          rk_execution_runtime = ''local''\<rparr>,
        sc_program = ''codex'', sc_args = [''app-server''], sc_max_frame_size = 1024,
        sc_startup_timeout_ms = 10, sc_redactions = [''abc'']\<rparr>,
      ce_environment = None, ce_render = (\<lambda>_. [])\<rparr>"

definition sample_turn_start :: "nat \<Rightarrow> command_message" where
  "sample_turn_start n = Request ''turn/start'' JNull True (StartRun (ProviderSessionId ''s'')) n"

definition sample_turn :: "string \<Rightarrow> json" where
  "sample_turn status = JObj [(''id'', JStr ''t''), (''items'', JArr []), (''status'', JStr status)]"

definition sample_turn_answer :: "nat \<Rightarrow> inbound" where
  "sample_turn_answer i = InFrame ''{}''
     (JObj [(''id'', JInt (int i)), (''result'', JObj [(''turn'', sample_turn ''inProgress'')])])"

definition sample_turn_end :: inbound where
  "sample_turn_end = InFrame ''xabc'' (JObj [(''method'', JStr ''turn/completed''),
     (''params'', JObj [(''threadId'', JStr ''s''), (''turn'', sample_turn ''completed'')])])"

abbreviation sample_command :: "command_message \<Rightarrow> actor \<Rightarrow> actor" where
  "sample_command c a \<equiv> handle_command codex_sample_env True c a"

abbreviation sample_inbound :: "inbound \<Rightarrow> actor \<Rightarrow> actor" where
  "sample_inbound m a \<equiv> handle_inbound codex_sample_env True m a"

definition codex_started :: actor where
  "codex_started = sample_command (sample_turn_start 0) initial_actor"

definition codex_accepted :: actor where
  "codex_accepted = sample_inbound (sample_turn_answer 2) codex_started"

definition codex_ended :: actor where
  "codex_ended = sample_inbound sample_turn_end codex_accepted"

definition codex_restarted :: actor where
  "codex_restarted = sample_inbound (sample_turn_answer 3) (sample_command (sample_turn_start 1) codex_ended)"

definition codex_stopped :: actor where
  "codex_stopped = sample_command (Shutdown 2) codex_restarted"

lemmas sample_text_eval = provider_run_id_new_def validate_opaque_id_def trim_is_empty_def has_control_def
  chars_def bytes_def trim_def char_is_whitespace_def char_is_control_def

lemmas codex_eval = Let_def codex_sample_env_def sample_turn_start_def sample_turn_def sample_turn_answer_def
  sample_turn_end_def handle_command_def send_request_def operation_run_identity_def
  send_checked_request_def write_frame_def request_frame_def handle_inbound_def handle_frame_def
  handle_response_def handle_message_def reduce_message_def reduce_def reduce_method_def turn_completed_def
  accept_result_def complete_client_request_def send_event_def send_reply_def emit_reduced_def
  emit_terminal_and_retire_def retire_run_def require_def settle_runtime_def settle_run_def
  run_for_message_def message_has_run_identity_def has_fields_def valid_turn_def sanitize_def sanitizer_of_def
  str_replace_def starts_with_def redacted_def get_str_def get_array_def sample_text_eval

lemma codex_started_value: "codex_started =
     \<lparr>ac_next_id = 3, ac_pending = [(2, \<lparr>pe_method = ''turn/start'', pe_mutation =
     True, pe_kind = StartRun (ProviderSessionId ''s''), pe_reply = Some 0\<rparr>)], ac_requests =
     [], ac_sessions = [], ac_runs = [], ac_diagnostics = [], ac_commands = [], ac_login = None,
     ac_events = [], ac_written = [JObj [(''id'', JInt 2), (''method'', JStr ''turn/start''),
     (''params'', JNull)]], ac_replies = [], ac_running = True\<rparr>"
  by (simp add: codex_started_def codex_eval initial_actor_def)

lemma codex_accepted_value: "codex_accepted =
     \<lparr>ac_next_id = 3, ac_pending = [], ac_requests = [], ac_sessions = [], ac_runs =
     [((''s'', ''t''), \<lparr>ph_runtime = RuntimeHandle ''m'', ph_session_id = ProviderSessionId
     ''s'', ph_native_id = ProviderRunId ''t''\<rparr>)], ac_diagnostics = [], ac_commands = [],
     ac_login = None, ac_events = [HRunAccepted \<lparr>ph_runtime = RuntimeHandle ''m'',
     ph_session_id = ProviderSessionId ''s'', ph_native_id = ProviderRunId ''t''\<rparr>
     (NativePayload ''{}'')], ac_written = [JObj [(''id'', JInt 2), (''method'', JStr
     ''turn/start''), (''params'', JNull)]], ac_replies = [ReplyValue 0 (Ok (JObj [(''turn'', JObj
     [(''id'', JStr ''t''), (''items'', JArr []), (''status'', JStr ''inProgress'')])]))],
     ac_running = True\<rparr>"
  by (simp add: codex_accepted_def codex_eval codex_started_value)

lemma codex_ended_value: "codex_ended =
     \<lparr>ac_next_id = 3, ac_pending = [], ac_requests = [], ac_sessions = [], ac_runs = [],
     ac_diagnostics = [], ac_commands = [], ac_login = None, ac_events = [HRunAccepted
     \<lparr>ph_runtime = RuntimeHandle ''m'', ph_session_id = ProviderSessionId ''s'', ph_native_id
     = ProviderRunId ''t''\<rparr> (NativePayload ''{}''), HRunTerminal \<lparr>ph_runtime =
     RuntimeHandle ''m'', ph_session_id = ProviderSessionId ''s'', ph_native_id = ProviderRunId
     ''t''\<rparr> TermCompleted (NativePayload ''x[REDACTED]'')], ac_written = [JObj [(''id'', JInt
     2), (''method'', JStr ''turn/start''), (''params'', JNull)]], ac_replies = [ReplyValue 0 (Ok
     (JObj [(''turn'', JObj [(''id'', JStr ''t''), (''items'', JArr []), (''status'', JStr
     ''inProgress'')])]))], ac_running = True\<rparr>"
  by (simp add: codex_ended_def codex_eval codex_accepted_value)

lemma codex_restarted_value: "codex_restarted =
     \<lparr>ac_next_id = 4, ac_pending = [], ac_requests = [], ac_sessions = [], ac_runs =
     [((''s'', ''t''), \<lparr>ph_runtime = RuntimeHandle ''m'', ph_session_id = ProviderSessionId
     ''s'', ph_native_id = ProviderRunId ''t''\<rparr>)], ac_diagnostics = [], ac_commands = [],
     ac_login = None, ac_events = [HRunAccepted \<lparr>ph_runtime = RuntimeHandle ''m'',
     ph_session_id = ProviderSessionId ''s'', ph_native_id = ProviderRunId ''t''\<rparr>
     (NativePayload ''{}''), HRunTerminal \<lparr>ph_runtime = RuntimeHandle ''m'', ph_session_id =
     ProviderSessionId ''s'', ph_native_id = ProviderRunId ''t''\<rparr> TermCompleted
     (NativePayload ''x[REDACTED]''), HRunAccepted \<lparr>ph_runtime = RuntimeHandle ''m'',
     ph_session_id = ProviderSessionId ''s'', ph_native_id = ProviderRunId ''t''\<rparr>
     (NativePayload ''{}'')], ac_written = [JObj [(''id'', JInt 2), (''method'', JStr
     ''turn/start''), (''params'', JNull)], JObj [(''id'', JInt 3), (''method'', JStr
     ''turn/start''), (''params'', JNull)]], ac_replies = [ReplyValue 0 (Ok (JObj [(''turn'', JObj
     [(''id'', JStr ''t''), (''items'', JArr []), (''status'', JStr ''inProgress'')])])), ReplyValue
     (Suc 0) (Ok (JObj [(''turn'', JObj [(''id'', JStr ''t''), (''items'', JArr []), (''status'',
     JStr ''inProgress'')])]))], ac_running = True\<rparr>"
  by (simp add: codex_restarted_def codex_eval codex_ended_value)

lemma codex_stopped_value: "codex_stopped =
     \<lparr>ac_next_id = 4, ac_pending = [], ac_requests = [], ac_sessions = [], ac_runs = [],
     ac_diagnostics = [], ac_commands = [], ac_login = None, ac_events = [HRunAccepted
     \<lparr>ph_runtime = RuntimeHandle ''m'', ph_session_id = ProviderSessionId ''s'', ph_native_id
     = ProviderRunId ''t''\<rparr> (NativePayload ''{}''), HRunTerminal \<lparr>ph_runtime =
     RuntimeHandle ''m'', ph_session_id = ProviderSessionId ''s'', ph_native_id = ProviderRunId
     ''t''\<rparr> TermCompleted (NativePayload ''x[REDACTED]''), HRunAccepted \<lparr>ph_runtime =
     RuntimeHandle ''m'', ph_session_id = ProviderSessionId ''s'', ph_native_id = ProviderRunId
     ''t''\<rparr> (NativePayload ''{}''), HRunTerminal \<lparr>ph_runtime = RuntimeHandle ''m'',
     ph_session_id = ProviderSessionId ''s'', ph_native_id = ProviderRunId ''t''\<rparr>
     TermInterrupted (NativePayload [CHR ''{'', CHR 0x22, CHR ''e'', CHR ''v'', CHR ''e'', CHR
     ''n'', CHR ''t'', CHR 0x22, CHR '':'', CHR 0x22, CHR ''r'', CHR ''u'', CHR ''n'', CHR ''t'',
     CHR ''i'', CHR ''m'', CHR ''e'', CHR ''-'', CHR ''s'', CHR ''h'', CHR ''u'', CHR ''t'', CHR
     ''d'', CHR ''o'', CHR ''w'', CHR ''n'', CHR 0x22, CHR ''}''])], ac_written = [JObj [(''id'',
     JInt 2), (''method'', JStr ''turn/start''), (''params'', JNull)], JObj [(''id'', JInt 3),
     (''method'', JStr ''turn/start''), (''params'', JNull)]], ac_replies = [ReplyValue 0 (Ok (JObj
     [(''turn'', JObj [(''id'', JStr ''t''), (''items'', JArr []), (''status'', JStr
     ''inProgress'')])])), ReplyValue (Suc 0) (Ok (JObj [(''turn'', JObj [(''id'', JStr ''t''),
     (''items'', JArr []), (''status'', JStr ''inProgress'')])])), ReplyShutdown 2], ac_running =
     False\<rparr>"
  by (simp add: codex_stopped_def codex_eval codex_restarted_value)

section \<open>The execution\<close>

lemma codex_run_command:
  assumes "codex_run codex_sample_env (n, issued, a)" and "ac_running a" and "wf_command c"
    and "command_reply c = Some n" and "plain_command c"
  shows "codex_run codex_sample_env (Suc n, n # issued, sample_command c a)"
  using run_next [OF assms(1) step_command [OF assms(2,3), of n codex_sample_env issued True]] assms(4,5) by simp

lemma codex_run_inbound:
  assumes "codex_run codex_sample_env (n, issued, a)" and "ac_running a"
  shows "codex_run codex_sample_env (n, issued, sample_inbound m a)"
  using run_next [OF assms(1) step_inbound [OF assms(2)]] .

lemma codex_restarted_run: "codex_run codex_sample_env (2, [1, 0], codex_restarted)"
proof -
  have "codex_run codex_sample_env (1, [0], codex_started)"
    unfolding codex_started_def
    using codex_run_command [OF run_start, of "sample_turn_start 0"]
    by (simp add: sample_turn_start_def initial_actor_def)
  then have "codex_run codex_sample_env (1, [0], codex_accepted)"
    unfolding codex_accepted_def by (rule codex_run_inbound) (simp add: codex_started_value)
  then have "codex_run codex_sample_env (1, [0], codex_ended)"
    unfolding codex_ended_def by (rule codex_run_inbound) (simp add: codex_accepted_value)
  from codex_run_command [OF this, of "sample_turn_start 1"]
  have "codex_run codex_sample_env (2, [1, 0], sample_command (sample_turn_start 1) codex_ended)"
    by (simp add: sample_turn_start_def codex_ended_value numeral_2_eq_2)
  then show ?thesis
    unfolding codex_restarted_def
    by (rule codex_run_inbound) (simp add: codex_ended_value codex_eval)
qed

lemma codex_stopped_run: "codex_run codex_sample_env (3, [2, 1, 0], codex_stopped)"
  using codex_run_command [OF codex_restarted_run, of "Shutdown 2"]
  by (simp add: codex_stopped_def codex_restarted_value numeral_3_eq_3 numeral_2_eq_2)

end
