(* ===== verification/Codex_Properties.thy ===== *)
theory Codex_Properties
  imports Codex_Samples
begin

text \<open>
  What the Codex provider guarantees to the harness, to its callers and about the secrets it is
  configured with.
\<close>

section \<open>Framing\<close>

text \<open>C23: However the output of the server is cut into reads, the reader yields what its lines
yield: empty lines nothing, a line that exceeds the frame limit its first bytes as an oversized frame, any
other line a frame or a malformed frame, and the unfinished last line is reported but never parsed.\<close>

theorem frames_are_the_lines:
  assumes "0 < max_frame_size" and "[] \<notin> set chunks"
  shows "frame_stream parse max_frame_size chunks =
    (let (lines, rest) = split_lines [] (concat chunks)
     in concat (map (line_message parse max_frame_size) lines) @ frame_end (cut_line max_frame_size rest))"
  using frame_stream_lines [OF assms, of parse] by (simp add: lines_messages_def)

theorem frames_are_the_lines_witness:
  "frame_stream (\<lambda>t. if t = ''1'' then Some (JInt 1) else None) 2
     [''1'', [newline, newline, CHR ''a'', CHR ''b''], ''c'' @ [newline, CHR ''1'']] =
   [InFrame ''1'' (JInt 1), InOversized ''ab'', InMalformed ''1'', InEof]"
  by (subst frames_are_the_lines)
    (simp_all add: newline_def line_message_def cut_line_def frame_message_def frame_end_def utf8_following_def)

section \<open>Runs and their events\<close>

text \<open>C24: After the terminal event of a run the actor never sends an event about this run again,
unless the server accepted a turn with the same identifiers anew in between.\<close>

theorem ended_run_is_silent:
  assumes run: "codex_run E (n, issued, a)"
    and log: "ac_events a = xs @ HRunTerminal r s p # ys @ e # zs" and e: "event_about e = Some r"
  shows "accepts e \<or> (\<exists>q. HRunAccepted r q \<in> set ys)"
proof -
  let ?before = "xs @ HRunTerminal r s p # ys"
  have "log_ok (?before @ e # zs)"
    using cx_events.invariant [OF run] log by (simp add: actor_ok_def events_inv_def)
  then have "admissible (open_runs ?before) e" by (rule log_ok_at)
  then have "accepts e \<or> r \<in> open_runs ((xs @ [HRunTerminal r s p]) @ ys)"
    using e by (simp add: admissible_def)
  then show ?thesis using open_runs_later [of r "xs @ [HRunTerminal r s p]" ys] by auto
qed

theorem ended_run_is_silent_witness:
  "\<exists>r s p q. ac_events codex_restarted = [HRunAccepted r q] @ HRunTerminal r s p # [] @ HRunAccepted r q # [] \<and>
     accepts (HRunAccepted r q)"
proof -
  define r where "r = \<lparr>ph_runtime = RuntimeHandle ''m'', ph_session_id = ProviderSessionId ''s'',
    ph_native_id = ProviderRunId ''t''\<rparr>"
  define p where "p = NativePayload ''x[REDACTED]''"
  define q where "q = NativePayload ''{}''"
  have log: "ac_events codex_restarted =
      [HRunAccepted r q] @ HRunTerminal r TermCompleted p # [] @ HRunAccepted r q # []"
    by (simp add: codex_restarted_value r_def p_def q_def)
  from ended_run_is_silent [OF codex_restarted_run log] have "accepts (HRunAccepted r q)" by simp
  with log show ?thesis by blast
qed

text \<open>C25: When the actor has stopped, by a crash or by a shutdown, every run it ever reported as
accepted has got a terminal event after that.\<close>

theorem accepted_runs_end:
  assumes run: "codex_run E (n, issued, a)" and stopped: "\<not> ac_running a"
    and log: "ac_events a = xs @ HRunAccepted r p # ys"
  shows "\<exists>s q. HRunTerminal r s q \<in> set ys"
proof -
  have "open_runs ((xs @ [HRunAccepted r p]) @ ys) = {}"
    using cx_events.invariant [OF run] log stopped
    by (simp add: actor_ok_def events_inv_def closed_def registered_def)
  then show ?thesis using open_runs_closed [of r "xs @ [HRunAccepted r p]" ys] by auto
qed

theorem accepted_runs_end_witness:
  "\<exists>r p xs s q. ac_events codex_stopped = xs @ HRunAccepted r p # [HRunTerminal r s q] \<and>
     (\<exists>t o'. HRunTerminal r t o' \<in> set [HRunTerminal r s q])"
proof -
  define r where "r = \<lparr>ph_runtime = RuntimeHandle ''m'', ph_session_id = ProviderSessionId ''s'',
    ph_native_id = ProviderRunId ''t''\<rparr>"
  obtain xs q where log: "ac_events codex_stopped =
      xs @ HRunAccepted r (NativePayload ''{}'') # [HRunTerminal r TermInterrupted q]"
    by (simp add: codex_stopped_value r_def)
  have "\<not> ac_running codex_stopped" by (simp add: codex_stopped_value)
  from accepted_runs_end [OF codex_stopped_run this log] log show ?thesis by blast
qed

section \<open>Replies\<close>

text \<open>C26: No command is answered twice, and when the actor has stopped every command other than a
login start has been answered, whether or not the server ever responded.\<close>

theorem commands_are_answered_once:
  assumes run: "codex_run E (n, issued, a)" and stopped: "\<not> ac_running a"
  shows "distinct (map reply_tag (ac_replies a)) \<and> set issued \<subseteq> reply_tag ` set (ac_replies a)"
proof -
  have inv: "replies_inv n issued a" by (rule cx_replies.invariant [OF run])
  have "answered a \<subseteq># firm a + queued a" by (simp add: firm_def)
  also have "\<dots> \<subseteq># mset_set {..<n}" using inv by (simp add: replies_inv_def)
  finally have "distinct (map reply_tag (ac_replies a))"
    unfolding answered_def by (rule subset_mset_set_distinct [OF finite_lessThan])
  moreover have "ac_pending a = []"
    using cx_events.invariant [OF run] stopped by (simp add: actor_ok_def closed_def)
  then have "set issued \<subseteq> set_mset (answered a)"
    using inv set_mset_mono by (fastforce simp: replies_inv_def firm_def)
  ultimately show ?thesis by (simp add: answered_def)
qed

theorem commands_are_answered_once_witness:
  "distinct (map reply_tag (ac_replies codex_stopped)) \<and> {0, 1, 2} \<subseteq> reply_tag ` set (ac_replies codex_stopped)"
  using commands_are_answered_once [OF codex_stopped_run] by (simp add: codex_stopped_value)

section \<open>Secrets\<close>

text \<open>C27: The native payload of an event carries no configured secret that redaction can handle, whatever the
server sends: when no configured secret is empty, a redaction or environment secret that holds no bracket and is
no part of the word REDACTED occurs in the payload of no event. Exempt are the three payloads that the actor
writes itself, which are constants and hold nothing configured.\<close>

theorem payloads_hide_secrets:
  assumes run: "codex_run E (n, issued, a)" and e: "e \<in> set (ac_events a)"
    and secret: "secret \<in> secrets (sanitizer_of E)" "redactable secret" "[] \<notin> secrets (sanitizer_of E)"
    and other: "native_payload e \<notin> set own_payloads"
  shows "\<not> sublist secret (sanitized_raw (native_payload e))"
proof -
  have "clean_payload E (native_payload e)"
    using cx_output.invariant [OF run] e by (simp add: output_ok_def list_all_iff)
  with other show ?thesis using sanitize_clean [OF secret(2,1,3)] by (auto simp: clean_payload_def)
qed

theorem payloads_hide_secrets_witness:
  "\<exists>e. e \<in> set (ac_events codex_restarted) \<and> sanitized_raw (native_payload e) = ''x[REDACTED]'' \<and>
     \<not> sublist ''abc'' (sanitized_raw (native_payload e))"
proof -
  define e where "e = ac_events codex_restarted ! 1"
  have e: "e \<in> set (ac_events codex_restarted)" "native_payload e = NativePayload ''x[REDACTED]''"
    by (simp_all add: e_def codex_restarted_value)
  have other: "native_payload e \<notin> set own_payloads"
    unfolding e(2) by (simp add: own_payloads_def malformed_terminal_def)
  have S: "secrets (sanitizer_of codex_sample_env) = {''abc''}"
    by (simp add: secrets_def sanitizer_of_def codex_sample_env_def)
  have "redactable ''abc''" by (simp add: redactable_def sublist_code)
  then have "\<not> sublist ''abc'' (sanitized_raw (native_payload e))"
    by (rule payloads_hide_secrets [OF codex_restarted_run e(1) _ _ _ other, rotated]) (simp_all add: S)
  moreover have "sanitized_raw (native_payload e) = ''x[REDACTED]''" by (simp only: e(2) native_payload.sel)
  ultimately show ?thesis using e(1) by blast
qed

end
