(* ===== verification/Secrets.thy ===== *)
theory Secrets
  imports Config Paths Utf8
begin

text \<open>
  The contracts of secret backends (\<^verbatim>\<open>crates/yakshed-secrets/src/lib.rs\<close>): the capabilities of a
  build, operations, errors with their texts and their image at the application port, audit events,
  and the environment of a child process (\<open>shape_process_environment\<close> of \<^verbatim>\<open>broker.rs\<close>).
  A \<open>SecretString\<close> is its text; the texts of Rust's derived \<open>Debug\<close> are written out.
\<close>

section \<open>Capabilities\<close>

definition LOCAL_FILE_BACKEND_KIND :: string where "LOCAL_FILE_BACKEND_KIND = ''local-file''"
definition LOCAL_OS_BACKEND_KIND :: string where "LOCAL_OS_BACKEND_KIND = ''local-os''"
definition ONEPASSWORD_BACKEND_KIND :: string where "ONEPASSWORD_BACKEND_KIND = ''onepassword''"

definition has_empty_component :: "string list \<Rightarrow> bool" where
  "has_empty_component parts \<longleftrightarrow> [] \<in> set parts"

fun split_slash :: "string \<Rightarrow> string \<Rightarrow> string list" where
  "split_slash acc [] = [acc]"
| "split_slash acc (c # cs) = (if c = CHR ''/'' then acc # split_slash [] cs else split_slash (acc @ [c]) cs)"

definition onepassword_validate_locator :: "secret_locator \<Rightarrow> string + unit" where
  "onepassword_validate_locator l =
     (if \<not> starts_with (locator_str l) ''op://'' then Err ''onepassword locator must start with op://''
      else
        let reference = drop 5 (locator_str l); parts = split_slash [] reference in
        if length parts \<noteq> 3 \<or> has_empty_component parts \<or> CHR ''?'' \<in> set reference \<or> CHR ''#'' \<in> set reference
        then Err ''onepassword locator must be op://vault/item/field'' else Ok ())"

definition unavailable :: "string \<Rightarrow> backend_availability \<Rightarrow> backend_access \<Rightarrow> backend_capability" where
  "unavailable kind availability access =
     \<lparr>cap_kind = kind, cap_availability = availability, cap_access = access, cap_validate_locator = None\<rparr>"

definition local_os_capability :: "target_os \<Rightarrow> backend_capability" where
  "local_os_capability os =
     (if os = MacOs then capability_available LOCAL_OS_BACKEND_KIND
      else unavailable LOCAL_OS_BACKEND_KIND NotOnPlatform ReadWrite)"

definition onepassword_capability :: "target_os \<Rightarrow> backend_capability" where
  "onepassword_capability os =
     (if os \<noteq> Windows
      then with_locator_validator (capability_resolve_only ONEPASSWORD_BACKEND_KIND) onepassword_validate_locator
      else unavailable ONEPASSWORD_BACKEND_KIND NotOnPlatform ResolveOnly)"

definition backend_capabilities :: "bool \<Rightarrow> target_os \<Rightarrow> backend_capability list" where
  "backend_capabilities dev_secrets os =
     (if \<not> dev_secrets
      then [unavailable ''memory'' (NeedsFeature ''dev-secrets'') ReadWrite,
            unavailable LOCAL_FILE_BACKEND_KIND (NeedsFeature ''dev-secrets'') ReadWrite]
      else [capability_available ''memory'',
            if os \<in> {MacOs, Linux} then capability_available LOCAL_FILE_BACKEND_KIND
            else unavailable LOCAL_FILE_BACKEND_KIND NotOnPlatform ReadWrite]) @
     [local_os_capability os, onepassword_capability os]"

section \<open>Operations\<close>

datatype secret_operation = OpProbe | OpResolve | OpPut | OpDelete

fun secret_operation_debug :: "secret_operation \<Rightarrow> string" where
  "secret_operation_debug OpProbe = ''Probe''"
| "secret_operation_debug OpResolve = ''Resolve''"
| "secret_operation_debug OpPut = ''Put''"
| "secret_operation_debug OpDelete = ''Delete''"

datatype access_purpose =
  StartHarness
| RefreshHarness
| ProviderHttpRequest
| GitHostRequest
| McpConnection
| ValidateCredential

record access_context =
  ax_connection_id :: connection_id
  ax_slot :: credential_slot
  ax_purpose :: access_purpose
  ax_request_id :: operation_id

datatype put_outcome = Written | Replaced
datatype delete_outcome = Deleted | NothingDeleted

text \<open>A lease: the value, the backend it came from, and an expiry in nanoseconds of Unix time.\<close>

record resolved_secret =
  rs_value :: string
  rs_source :: secret_backend_id
  rs_expires_at :: "int option"

record backend_descriptor =
  bd_id :: secret_backend_id
  bd_kind :: string

section \<open>Errors\<close>

record reference_summary =
  sm_backend :: secret_backend_id
  sm_locator :: secret_locator

definition summary_of_reference :: "secret_reference \<Rightarrow> reference_summary" where
  "summary_of_reference r = \<lparr>sm_backend = ref_backend_id r, sm_locator = ref_locator r\<rparr>"

definition summary_text :: "reference_summary \<Rightarrow> string" where
  "summary_text s = backend_id_str (sm_backend s) @ '':'' @ locator_str (sm_locator s)"

datatype authentication_action = SignIn | Unlock | Reauthenticate

datatype invalid_binding_reason =
  UnknownConnection
| UnknownSlot
| StaleBinding
| BindingDisabled
| NotSecretBacked

fun invalid_binding_debug :: "invalid_binding_reason \<Rightarrow> string" where
  "invalid_binding_debug UnknownConnection = ''UnknownConnection''"
| "invalid_binding_debug UnknownSlot = ''UnknownSlot''"
| "invalid_binding_debug StaleBinding = ''StaleBinding''"
| "invalid_binding_debug BindingDisabled = ''Disabled''"
| "invalid_binding_debug NotSecretBacked = ''NotSecretBacked''"

datatype secret_error =
  SecretNotFound reference_summary
| SecretAlreadyExists reference_summary
| SecretUnavailable secret_backend_id "string option"
| SecretLocked secret_backend_id "string option"
| SecretDenied secret_backend_id "string option"
| SecretAuthenticationRequired secret_backend_id authentication_action
| SecretInvalidLocator secret_backend_id string
| SecretUnsupported secret_backend_id secret_operation
| SecretTimedOut secret_backend_id
| SecretCancelled secret_backend_id
| SecretProtocolViolation secret_backend_id string
| SecretBackendFailure secret_backend_id string
| SecretUncertainWrite secret_backend_id
| SecretInvalidBinding connection_id credential_slot invalid_binding_reason

fun secret_error_text :: "'z libs_scheme \<Rightarrow> secret_error \<Rightarrow> string" where
  "secret_error_text L (SecretNotFound s) = ''secret not found: '' @ summary_text s"
| "secret_error_text L (SecretAlreadyExists s) = ''secret already exists: '' @ summary_text s"
| "secret_error_text L (SecretUnavailable b _) = ''secret backend unavailable: '' @ backend_id_str b"
| "secret_error_text L (SecretLocked b remediation) =
     ''secret backend locked: '' @ backend_id_str b @
     (case remediation of Some r \<Rightarrow> '': '' @ r | None \<Rightarrow> [])"
| "secret_error_text L (SecretDenied b remediation) =
     ''secret backend denied access: '' @ backend_id_str b @
     (case remediation of Some r \<Rightarrow> '': '' @ r | None \<Rightarrow> [])"
| "secret_error_text L (SecretAuthenticationRequired b _) =
     ''secret backend authentication required: '' @ backend_id_str b"
| "secret_error_text L (SecretInvalidLocator b _) =
     ''invalid secret locator for backend: '' @ backend_id_str b"
| "secret_error_text L (SecretUnsupported b operation) =
     ''unsupported secret operation '' @ secret_operation_debug operation @ '': '' @ backend_id_str b"
| "secret_error_text L (SecretTimedOut b) = ''secret operation timed out: '' @ backend_id_str b"
| "secret_error_text L (SecretCancelled b) = ''secret operation cancelled: '' @ backend_id_str b"
| "secret_error_text L (SecretProtocolViolation b _) =
     ''secret backend protocol violation: '' @ backend_id_str b"
| "secret_error_text L (SecretBackendFailure b _) = ''secret backend failure: '' @ backend_id_str b"
| "secret_error_text L (SecretUncertainWrite b) =
     ''secret backend write outcome uncertain: '' @ backend_id_str b"
| "secret_error_text L (SecretInvalidBinding c slot reason) =
     ''invalid credential binding '' @ id_text L c @ ''/'' @ slot_str slot @ '': '' @
     invalid_binding_debug reason"

datatype secret_port_error =
  PortConnectionNotFound
| PortBindingNotFound
| PortNotSecretBacked
| PortResolveOnly
| PortBackendUnavailable
| PortLocked
| PortDenied
| PortAuthenticationRequired
| PortAlreadyExists
| PortUncertainWrite
| PortMigrationPending
| PortFailed

fun port_error_of_secret :: "secret_error \<Rightarrow> secret_port_error" where
  "port_error_of_secret (SecretAlreadyExists _) = PortAlreadyExists"
| "port_error_of_secret (SecretUnavailable _ _) = PortBackendUnavailable"
| "port_error_of_secret (SecretTimedOut _) = PortBackendUnavailable"
| "port_error_of_secret (SecretCancelled _) = PortBackendUnavailable"
| "port_error_of_secret (SecretLocked _ _) = PortLocked"
| "port_error_of_secret (SecretDenied _ _) = PortDenied"
| "port_error_of_secret (SecretAuthenticationRequired _ _) = PortAuthenticationRequired"
| "port_error_of_secret (SecretUncertainWrite _) = PortUncertainWrite"
| "port_error_of_secret (SecretInvalidBinding _ _ UnknownConnection) = PortConnectionNotFound"
| "port_error_of_secret (SecretInvalidBinding _ _ UnknownSlot) = PortBindingNotFound"
| "port_error_of_secret (SecretInvalidBinding _ _ _) = PortNotSecretBacked"
| "port_error_of_secret _ = PortFailed"

section \<open>Audit\<close>

datatype audit_outcome =
  AuditSucceeded
| AuditDelegated
| AuditNotFound
| AuditRejected
| AuditFailed
| AuditUncertain
| AuditTimedOut
| AuditCancelled

record secret_audit_event =
  sa_connection_id :: connection_id
  sa_slot :: credential_slot
  sa_purpose :: access_purpose
  sa_request_id :: operation_id
  sa_backend :: "secret_backend_id option"
  sa_operation :: secret_operation
  sa_outcome :: audit_outcome

section \<open>The environment of a child process\<close>

text \<open>An \<open>OsString\<close> is its bytes; a \<open>HashMap\<close> is an association list.\<close>

definition is_runtime_environment_variable :: "string \<Rightarrow> bool" where
  "is_runtime_environment_variable name \<longleftrightarrow>
     name \<in> {''PATH'', ''HOME'', ''LANG'', ''LANGUAGE'', ''TMPDIR'', ''TMP'', ''TEMP''} \<or> starts_with name ''LC_''"

definition shape_process_environment ::
    "(string \<times> string) list \<Rightarrow> string \<Rightarrow> resolved_secret \<Rightarrow> string + (string \<times> string) list" where
  "shape_process_environment ambient variable secret =
     (if variable = [] \<or> CHR ''='' \<in> set variable \<or> CHR 0x00 \<in> set variable \<or>
         \<not> list_all (\<lambda>c. (of_char c :: nat) < 128) variable
      then Err ''invalid environment variable name''
      else Ok (AList.update variable (rs_value secret)
        (filter (\<lambda>(name, _). case utf8_text name of Some n \<Rightarrow> is_runtime_environment_variable n | None \<Rightarrow> False) ambient)))"

end
