(* ===== verification/Secrets_Memory.thy ===== *)
theory Secrets_Memory
  imports Secrets
begin

text \<open>
  The in-memory secret backend with its planned faults (\<^verbatim>\<open>crates/yakshed-secrets/src/memory.rs\<close>).
  An operation that never returns (\<open>pending().await\<close>) answers \<open>None\<close>.
\<close>

datatype memory_fault = FaultNotFound | FaultLocked | FaultDenied | FaultTimeout | FailNextWrite | UncertainFault

record memory_backend =
  mb_id :: secret_backend_id
  mb_values :: "(secret_locator \<times> string) list"
  mb_faults :: "memory_fault list"

definition memory_backend_new :: "secret_backend_id \<Rightarrow> memory_backend" where
  "memory_backend_new i = \<lparr>mb_id = i, mb_values = [], mb_faults = []\<rparr>"

definition plan_faults :: "memory_fault list \<Rightarrow> memory_backend \<Rightarrow> memory_backend" where
  "plan_faults fs m = m\<lparr>mb_faults := mb_faults m @ fs\<rparr>"

definition memory_summary :: "secret_locator \<Rightarrow> memory_backend \<Rightarrow> reference_summary" where
  "memory_summary l m = \<lparr>sm_backend = mb_id m, sm_locator = l\<rparr>"

definition next_fault :: "secret_operation \<Rightarrow> memory_backend \<Rightarrow> memory_fault option \<times> memory_backend" where
  "next_fault operation m =
     (case mb_faults m of
        [] \<Rightarrow> (None, m)
      | f # fs \<Rightarrow>
          if f = FaultNotFound \<and> operation = OpProbe then (None, m)
          else if f \<in> {FailNextWrite, UncertainFault} \<and> operation \<noteq> OpPut then (None, m)
          else (Some f, m\<lparr>mb_faults := fs\<rparr>))"

text \<open>
  A not-found fault needs a locator; \<open>probe\<close> passes none and never meets this fault (the code would
  panic, which is \<open>None\<close> here as well).
\<close>

definition apply_common_fault ::
    "secret_locator option \<Rightarrow> secret_operation \<Rightarrow> memory_backend \<Rightarrow>
     (secret_error + memory_fault option) option \<times> memory_backend" where
  "apply_common_fault l operation m =
     (case next_fault operation m of
        (None, m1) \<Rightarrow> (Some (Ok None), m1)
      | (Some FaultNotFound, m1) \<Rightarrow> (map_option (\<lambda>l. Err (SecretNotFound (memory_summary l m1))) l, m1)
      | (Some FaultLocked, m1) \<Rightarrow> (Some (Err (SecretLocked (mb_id m1) None)), m1)
      | (Some FaultDenied, m1) \<Rightarrow> (Some (Err (SecretDenied (mb_id m1) None)), m1)
      | (Some FaultTimeout, m1) \<Rightarrow> (None, m1)
      | (Some f, m1) \<Rightarrow> (Some (Ok (Some f)), m1))"

definition memory_probe :: "memory_backend \<Rightarrow> (secret_error + unit) option \<times> memory_backend" where
  "memory_probe m =
     (case apply_common_fault None OpProbe m of
        (r, m1) \<Rightarrow> (map_option (map_ok (\<lambda>_. ())) r, m1))"

definition memory_resolve ::
    "secret_locator \<Rightarrow> memory_backend \<Rightarrow> (secret_error + resolved_secret) option \<times> memory_backend" where
  "memory_resolve l m =
     (case apply_common_fault (Some l) OpResolve m of
        (None, m1) \<Rightarrow> (None, m1)
      | (Some (Inl e), m1) \<Rightarrow> (Some (Err e), m1)
      | (Some (Inr _), m1) \<Rightarrow>
          (Some (case map_of (mb_values m1) l of
             None \<Rightarrow> Err (SecretNotFound (memory_summary l m1))
           | Some v \<Rightarrow> Ok \<lparr>rs_value = v, rs_source = mb_id m1, rs_expires_at = None\<rparr>), m1))"

definition memory_put ::
    "secret_locator \<Rightarrow> string \<Rightarrow> bool \<Rightarrow> memory_backend \<Rightarrow>
     (secret_error + put_outcome) option \<times> memory_backend" where
  "memory_put l v overwrite m =
     (case apply_common_fault (Some l) OpPut m of
        (None, m1) \<Rightarrow> (None, m1)
      | (Some (Inl e), m1) \<Rightarrow> (Some (Err e), m1)
      | (Some (Inr fault), m1) \<Rightarrow>
          if fault = Some FailNextWrite
          then (Some (Err (SecretBackendFailure (mb_id m1) ''planned memory write failure'')), m1)
          else
            let existed = map_of (mb_values m1) l \<noteq> None in
            if existed \<and> \<not> overwrite then (Some (Err (SecretAlreadyExists (memory_summary l m1))), m1)
            else
              let m2 = m1\<lparr>mb_values := AList.update l v (mb_values m1)\<rparr> in
              if fault = Some UncertainFault then (Some (Err (SecretTimedOut (mb_id m2))), m2)
              else (Some (Ok (if existed then Replaced else Written)), m2))"

definition memory_delete ::
    "secret_locator \<Rightarrow> memory_backend \<Rightarrow> (secret_error + delete_outcome) option \<times> memory_backend" where
  "memory_delete l m =
     (case apply_common_fault (Some l) OpDelete m of
        (None, m1) \<Rightarrow> (None, m1)
      | (Some (Inl e), m1) \<Rightarrow> (Some (Err e), m1)
      | (Some (Inr _), m1) \<Rightarrow>
          (Some (Ok (if map_of (mb_values m1) l \<noteq> None then Deleted else NothingDeleted)),
           m1\<lparr>mb_values := AList.delete l (mb_values m1)\<rparr>))"

end
