(* ===== verification/Secrets_Broker.thy ===== *)
theory Secrets_Broker
  imports Secrets_Memory
begin

text \<open>
  The credential broker (\<^verbatim>\<open>crates/yakshed-secrets/src/broker.rs\<close>). A backend is a record of its
  operations on a state \<open>'w\<close> shared by all backends; an operation that never returns answers
  \<open>None\<close>. How an operation ends is an argument: it finishes, or the timeout or the cancellation comes
  first, before or after the operation got the lock of its reference, and a dropped operation may or
  may not have taken effect. The audit sink and the operations that backends were asked for are logs.
\<close>

section \<open>Backends\<close>

record 'w administrator =
  ad_backend_id :: secret_backend_id
  ad_put :: "secret_locator \<Rightarrow> string \<Rightarrow> bool \<Rightarrow> 'w \<Rightarrow> (secret_error + put_outcome) option \<times> 'w"
  ad_delete :: "secret_locator \<Rightarrow> 'w \<Rightarrow> (secret_error + delete_outcome) option \<times> 'w"

record 'w backend_handle =
  bh_descriptor :: backend_descriptor
  bh_resolve ::
    "secret_locator \<Rightarrow> access_context \<Rightarrow> 'w \<Rightarrow> (secret_error + resolved_secret) option \<times> 'w"
  bh_administrator :: "'w administrator option"

type_synonym 'w registry = "(secret_backend_id \<times> 'w backend_handle) list"

datatype credential_status = Present | Missing | DelegatedStatus string | DisabledStatus

datatype credential_resolution = SecretResolution resolved_secret | DelegatedResolution string

record 'w vault =
  va_state :: 'w
  va_audit :: "secret_audit_event list"
  va_asked :: "(secret_reference \<times> secret_operation) list"

definition broker_id :: secret_backend_id where
  "broker_id = SecretBackendId ''broker''"

section \<open>Construction\<close>

fun secret_reference_of :: "credential_binding \<Rightarrow> secret_reference option" where
  "secret_reference_of (Secret r) = Some r"
| "secret_reference_of _ = None"

definition required_reference :: "credential_binding \<Rightarrow> secret_error + secret_reference" where
  "required_reference b =
     (case secret_reference_of b of
        Some r \<Rightarrow> Ok r
      | None \<Rightarrow> Err (SecretBackendFailure broker_id ''credential is not secret-backed''))"

fun validate_references ::
    "secret_reference list \<Rightarrow> credential_binding_record list \<Rightarrow> secret_error + secret_reference list" where
  "validate_references seen [] = Ok seen"
| "validate_references seen (b # bs) =
     (case secret_reference_of (cb_binding b) of
        None \<Rightarrow> validate_references seen bs
      | Some r \<Rightarrow>
          if r \<in> set seen then Err (SecretBackendFailure broker_id ''duplicate secret reference'')
          else validate_references (r # seen) bs)"

fun broker_validate_connections ::
    "secret_reference list \<Rightarrow> connection list \<Rightarrow> secret_error + unit" where
  "broker_validate_connections seen [] = Ok ()"
| "broker_validate_connections seen (c # cs) =
     and_then (map_err (\<lambda>_. SecretBackendFailure broker_id ''invalid connection credential configuration'')
       (connection_validate c)) (\<lambda>_.
     and_then (validate_references seen (conn_credentials c)) (\<lambda>seen'.
     broker_validate_connections seen' cs))"

definition broker_validate_bindings :: "connection list \<Rightarrow> secret_error + unit" where
  "broker_validate_bindings connections = broker_validate_connections [] connections"

fun register_backends ::
    "(secret_backend_id \<times> 'w backend_handle) list \<Rightarrow> 'w registry \<Rightarrow> secret_error + 'w registry" where
  "register_backends [] registry = Ok registry"
| "register_backends ((registered_id, handle) # rest) registry =
     (let descriptor_id = bd_id (bh_descriptor handle) in
      if registered_id \<noteq> descriptor_id
      then Err (SecretBackendFailure registered_id ''backend registry key does not match descriptor'')
      else if (case bh_administrator handle of Some a \<Rightarrow> ad_backend_id a \<noteq> descriptor_id | None \<Rightarrow> False)
      then Err (SecretBackendFailure descriptor_id ''administrator identity does not match resolver'')
      else if map_of registry descriptor_id \<noteq> None
      then Err (SecretBackendFailure descriptor_id ''duplicate backend ID'')
      else register_backends rest (AList.update descriptor_id handle registry))"

definition broker_new ::
    "(secret_backend_id \<times> 'w backend_handle) list \<Rightarrow> connection list \<Rightarrow> secret_error + 'w registry" where
  "broker_new backends connections =
     and_then (broker_validate_bindings connections) (\<lambda>_. register_backends backends [])"

section \<open>Audit and lookup\<close>

definition invalid_binding :: "access_context \<Rightarrow> invalid_binding_reason \<Rightarrow> secret_error" where
  "invalid_binding c reason = SecretInvalidBinding (ax_connection_id c) (ax_slot c) reason"

definition audit ::
    "access_context \<Rightarrow> secret_backend_id option \<Rightarrow> secret_operation \<Rightarrow> audit_outcome \<Rightarrow> 'w vault \<Rightarrow> 'w vault" where
  "audit c backend operation outcome v =
     v\<lparr>va_audit := va_audit v @ [\<lparr>sa_connection_id = ax_connection_id c, sa_slot = ax_slot c,
       sa_purpose = ax_purpose c, sa_request_id = ax_request_id c, sa_backend = backend,
       sa_operation = operation, sa_outcome = outcome\<rparr>]\<rparr>"

definition find_binding ::
    "connection list \<Rightarrow> credential_binding_record \<Rightarrow> access_context \<Rightarrow> secret_error + credential_binding" where
  "find_binding connections supplied c =
     and_then (broker_validate_bindings connections) (\<lambda>_.
     case find (\<lambda>connection. conn_id connection = ax_connection_id c) connections of
       None \<Rightarrow> Err (invalid_binding c UnknownConnection)
     | Some connection \<Rightarrow>
         (case find (\<lambda>b. cb_slot b = ax_slot c) (conn_credentials connection) of
            None \<Rightarrow> Err (invalid_binding c UnknownSlot)
          | Some current \<Rightarrow>
              if current \<noteq> supplied then Err (invalid_binding c StaleBinding) else Ok (cb_binding current)))"

definition current_binding ::
    "connection list \<Rightarrow> credential_binding_record \<Rightarrow> access_context \<Rightarrow> secret_operation \<Rightarrow> 'w vault \<Rightarrow>
     (secret_error + credential_binding) \<times> 'w vault" where
  "current_binding connections supplied c operation v =
     (case find_binding connections supplied c of
        Inl e \<Rightarrow> (Err e, audit c None operation AuditRejected v)
      | Inr b \<Rightarrow> (Ok b, v))"

definition audited_backend ::
    "'w registry \<Rightarrow> secret_reference \<Rightarrow> access_context \<Rightarrow> secret_operation \<Rightarrow> 'w vault \<Rightarrow>
     (secret_error + 'w backend_handle) \<times> 'w vault" where
  "audited_backend registry r c operation v =
     (case map_of registry (ref_backend_id r) of
        Some handle \<Rightarrow> (Ok handle, v)
      | None \<Rightarrow> (Err (SecretUnavailable (ref_backend_id r) None),
          audit c (Some (ref_backend_id r)) operation AuditFailed v))"

section \<open>Running an operation\<close>

datatype progress = NotDispatched | DroppedBefore | DroppedAfter

datatype ending = Finishes | Elapses progress | IsCancelled progress

text \<open>The result of the race and whether the operation was dispatched.\<close>

definition dropped ::
    "secret_reference \<Rightarrow> secret_operation \<Rightarrow> progress \<Rightarrow> ('w \<Rightarrow> 'r option \<times> 'w) \<Rightarrow> 'w vault \<Rightarrow> bool \<times> 'w vault" where
  "dropped r operation p action v =
     (let asked = v\<lparr>va_asked := va_asked v @ [(r, operation)]\<rparr> in
      case p of
        NotDispatched \<Rightarrow> (False, v)
      | DroppedBefore \<Rightarrow> (True, asked)
      | DroppedAfter \<Rightarrow> (True, asked\<lparr>va_state := snd (action (va_state v))\<rparr>))"

definition race ::
    "secret_reference \<Rightarrow> secret_operation \<Rightarrow> ending \<Rightarrow> ('w \<Rightarrow> (secret_error + 'a) option \<times> 'w) \<Rightarrow> 'w vault \<Rightarrow>
     (secret_error + 'a) \<times> bool \<times> 'w vault" where
  "race r operation ending action v =
     (case ending of
        Finishes \<Rightarrow>
          (case action (va_state v) of (result, w) \<Rightarrow>
            (case result of Some x \<Rightarrow> x | None \<Rightarrow> Err (SecretTimedOut (ref_backend_id r)), True,
             v\<lparr>va_asked := va_asked v @ [(r, operation)], va_state := w\<rparr>))
      | Elapses p \<Rightarrow> (Err (SecretTimedOut (ref_backend_id r)), dropped r operation p action v)
      | IsCancelled p \<Rightarrow> (Err (SecretCancelled (ref_backend_id r)), dropped r operation p action v))"

fun unfinished :: "secret_error + 'a \<Rightarrow> bool" where
  "unfinished (Inl (SecretTimedOut _)) = True"
| "unfinished (Inl (SecretCancelled _)) = True"
| "unfinished _ = False"

fun audit_outcome_of :: "secret_error + 'a \<Rightarrow> audit_outcome" where
  "audit_outcome_of (Inr _) = AuditSucceeded"
| "audit_outcome_of (Inl (SecretNotFound _)) = AuditNotFound"
| "audit_outcome_of (Inl (SecretUncertainWrite _)) = AuditUncertain"
| "audit_outcome_of (Inl (SecretTimedOut _)) = AuditTimedOut"
| "audit_outcome_of (Inl (SecretCancelled _)) = AuditCancelled"
| "audit_outcome_of (Inl _) = AuditFailed"

definition broker_run ::
    "access_context \<Rightarrow> secret_reference \<Rightarrow> secret_operation \<Rightarrow> bool \<Rightarrow> ending \<Rightarrow>
     ('w \<Rightarrow> (secret_error + 'a) option \<times> 'w) \<Rightarrow> 'w vault \<Rightarrow> (secret_error + 'a) \<times> 'w vault" where
  "broker_run c r operation cancelled ending action v =
     (let backend = ref_backend_id r in
      if cancelled
      then (Err (SecretCancelled backend), audit c (Some backend) operation AuditCancelled v)
      else
        (case race r operation ending action v of (result, dispatched, v1) \<Rightarrow>
          let result1 = (if operation \<in> {OpPut, OpDelete} \<and> dispatched \<and> unfinished result
                         then Err (SecretUncertainWrite backend) else result)
          in (result1, audit c (Some backend) operation (audit_outcome_of result1) v1)))"

section \<open>The operations of the broker\<close>

definition broker_status ::
    "'w registry \<Rightarrow> connection list \<Rightarrow> credential_binding_record \<Rightarrow> access_context \<Rightarrow> bool \<Rightarrow> ending \<Rightarrow> 'w vault \<Rightarrow>
     (secret_error + credential_status) \<times> 'w vault" where
  "broker_status registry connections supplied c cancelled ending v =
     (case current_binding connections supplied c OpProbe v of
        (Inl e, v1) \<Rightarrow> (Err e, v1)
      | (Inr (Delegated authority), v1) \<Rightarrow>
          (Ok (DelegatedStatus authority), audit c None OpProbe AuditDelegated v1)
      | (Inr Disabled, v1) \<Rightarrow> (Ok DisabledStatus, audit c None OpProbe AuditRejected v1)
      | (Inr (Secret r), v1) \<Rightarrow>
          (case audited_backend registry r c OpResolve v1 of
             (Inl e, v2) \<Rightarrow> (Err e, v2)
           | (Inr handle, v2) \<Rightarrow>
               (case broker_run c r OpResolve cancelled ending (bh_resolve handle (ref_locator r) c) v2 of
                  (Inr _, v3) \<Rightarrow> (Ok Present, v3)
                | (Inl (SecretNotFound _), v3) \<Rightarrow> (Ok Missing, v3)
                | (Inl e, v3) \<Rightarrow> (Err e, v3))))"

definition broker_resolve ::
    "'w registry \<Rightarrow> connection list \<Rightarrow> credential_binding_record \<Rightarrow> access_context \<Rightarrow> bool \<Rightarrow> ending \<Rightarrow> 'w vault \<Rightarrow>
     (secret_error + credential_resolution) \<times> 'w vault" where
  "broker_resolve registry connections supplied c cancelled ending v =
     (case current_binding connections supplied c OpResolve v of
        (Inl e, v1) \<Rightarrow> (Err e, v1)
      | (Inr (Delegated authority), v1) \<Rightarrow>
          (Ok (DelegatedResolution authority), audit c None OpResolve AuditDelegated v1)
      | (Inr Disabled, v1) \<Rightarrow>
          (Err (invalid_binding c BindingDisabled), audit c None OpResolve AuditRejected v1)
      | (Inr (Secret r), v1) \<Rightarrow>
          (case audited_backend registry r c OpResolve v1 of
             (Inl e, v2) \<Rightarrow> (Err e, v2)
           | (Inr handle, v2) \<Rightarrow>
               (case broker_run c r OpResolve cancelled ending (bh_resolve handle (ref_locator r) c) v2 of
                  (result, v3) \<Rightarrow> (map_ok SecretResolution result, v3))))"

text \<open>The part that \<open>put\<close> and \<open>delete\<close> share in the code's text.\<close>

definition broker_write ::
    "'w registry \<Rightarrow> connection list \<Rightarrow> credential_binding_record \<Rightarrow> access_context \<Rightarrow> secret_operation \<Rightarrow> bool \<Rightarrow>
     ending \<Rightarrow> ('w administrator \<Rightarrow> secret_locator \<Rightarrow> 'w \<Rightarrow> (secret_error + 'a) option \<times> 'w) \<Rightarrow> 'w vault \<Rightarrow>
     (secret_error + 'a) \<times> 'w vault" where
  "broker_write registry connections supplied c operation cancelled ending action v =
     (case current_binding connections supplied c operation v of
        (Inl e, v1) \<Rightarrow> (Err e, v1)
      | (Inr (Delegated _), v1) \<Rightarrow>
          (Err (invalid_binding c NotSecretBacked), audit c None operation AuditRejected v1)
      | (Inr Disabled, v1) \<Rightarrow>
          (Err (invalid_binding c BindingDisabled), audit c None operation AuditRejected v1)
      | (Inr (Secret r), v1) \<Rightarrow>
          (case audited_backend registry r c operation v1 of
             (Inl e, v2) \<Rightarrow> (Err e, v2)
           | (Inr handle, v2) \<Rightarrow>
               (case bh_administrator handle of
                  None \<Rightarrow> (Err (SecretUnsupported (ref_backend_id r) operation),
                    audit c (Some (ref_backend_id r)) operation AuditFailed v2)
                | Some a \<Rightarrow> broker_run c r operation cancelled ending (action a (ref_locator r)) v2)))"

definition broker_put ::
    "'w registry \<Rightarrow> connection list \<Rightarrow> credential_binding_record \<Rightarrow> access_context \<Rightarrow> string \<Rightarrow> bool \<Rightarrow> bool \<Rightarrow>
     ending \<Rightarrow> 'w vault \<Rightarrow> (secret_error + put_outcome) \<times> 'w vault" where
  "broker_put registry connections supplied c value overwrite cancelled ending v =
     broker_write registry connections supplied c OpPut cancelled ending
       (\<lambda>a l. ad_put a l value overwrite) v"

definition broker_delete ::
    "'w registry \<Rightarrow> connection list \<Rightarrow> credential_binding_record \<Rightarrow> access_context \<Rightarrow> bool \<Rightarrow> ending \<Rightarrow> 'w vault \<Rightarrow>
     (secret_error + delete_outcome) \<times> 'w vault" where
  "broker_delete registry connections supplied c cancelled ending v =
     broker_write registry connections supplied c OpDelete cancelled ending (\<lambda>a l. ad_delete a l) v"

section \<open>The memory backend as a handle\<close>

definition memory_handle :: "memory_backend \<Rightarrow> memory_backend backend_handle" where
  "memory_handle m =
     \<lparr>bh_descriptor = \<lparr>bd_id = mb_id m, bd_kind = ''memory''\<rparr>, bh_resolve = (\<lambda>l _. memory_resolve l),
      bh_administrator = Some \<lparr>ad_backend_id = mb_id m, ad_put = memory_put, ad_delete = memory_delete\<rparr>\<rparr>"

end
