(* ===== verification/Secrets_Laws.thy ===== *)
theory Secrets_Laws
  imports Secrets_Broker Config_Laws
begin

text \<open>
  The contract of a writable secret store, what the broker makes of it, and what every call of the
  broker does to the audit log and to the backends.
\<close>

section \<open>What running an operation does\<close>

definition leaves_open_write :: "secret_error \<Rightarrow> bool" where
  "leaves_open_write e \<longleftrightarrow> (\<exists>b. e = SecretUncertainWrite b)"

lemma race_state:
  "race r op ending action v = (result, d, v') \<Longrightarrow> va_state v' \<in> {va_state v, snd (action (va_state v))}"
  by (auto simp: race_def dropped_def Let_def split: ending.splits progress.splits prod.splits)

lemma race_finished:
  "race r op ending action v = (Ok y, d, v') \<Longrightarrow>
     va_state v' = snd (action (va_state v)) \<and> fst (action (va_state v)) = Some (Ok y)"
  by (auto simp: race_def split: ending.splits prod.splits option.splits)

lemma race_failed:
  assumes "race r op ending action v = (Err e, d, v')" and "\<not> (d \<and> unfinished (Err e :: secret_error + 'a))"
  shows "va_state v' = va_state v \<or> \<not> unfinished (Err e :: secret_error + 'a) \<and>
    va_state v' = snd (action (va_state v)) \<and> fst (action (va_state v)) = Some (Err e :: secret_error + 'a)"
  using assms
  by (auto simp: race_def dropped_def Let_def split: ending.splits progress.splits prod.splits option.splits)

lemma audit_frame [simp]:
  "va_state (audit c b op out v) = va_state v" "va_asked (audit c b op out v) = va_asked v"
  by (simp_all add: audit_def)

lemma run_state:
  "broker_run c r op cancelled ending action v = (result, v') \<Longrightarrow> va_state v' \<in> {va_state v, snd (action (va_state v))}"
  using race_state [of r op ending action v]
  by (auto simp: broker_run_def Let_def split: if_splits prod.splits)

lemma run_finished:
  "broker_run c r op cancelled ending action v = (result, v') \<Longrightarrow> result = Ok y \<Longrightarrow>
     va_state v' = snd (action (va_state v)) \<and> fst (action (va_state v)) = Some (Ok y)"
  using race_finished [of r op ending action v]
  by (auto simp: broker_run_def Let_def split: if_splits prod.splits)

lemma run_failed:
  fixes action :: "'w \<Rightarrow> (secret_error + 'a) option \<times> 'w"
  assumes run: "broker_run c r op cancelled ending action v = (result, v')" and e: "result = Err e"
    and certain: "\<not> leaves_open_write e" and op: "op \<in> {OpPut, OpDelete}"
  shows "va_state v' = va_state v \<or> \<not> unfinished (Err e :: secret_error + 'a) \<and>
    va_state v' = snd (action (va_state v)) \<and> fst (action (va_state v)) = Some (Err e)"
proof (cases cancelled)
  case True
  then show ?thesis using run by (auto simp: broker_run_def Let_def)
next
  case False
  obtain res d w where race: "race r op ending action v = (res, d, w)" by (metis prod_cases3)
  have v': "va_state v' = va_state w" and res: "res = Err e" "\<not> (d \<and> unfinished (Err e :: secret_error + 'a))"
    using run e certain op False by (auto simp: broker_run_def race Let_def leaves_open_write_def split: if_splits)
  show ?thesis using race_failed [of r op ending action v e d w] race res by (simp add: v')
qed

section \<open>The contract of a store\<close>

text \<open>
  \<open>stored\<close> is what the store holds. A failed write may have happened only when the failure leaves it
  open (a timeout, a cancellation or an uncertain write).
\<close>

definition leaves_open :: "secret_error \<Rightarrow> bool" where
  "leaves_open e \<longleftrightarrow> unfinished (Err e :: secret_error + unit) \<or> leaves_open_write e"

lemma unfinished_error: "unfinished (Err e :: secret_error + 'a) = unfinished (Err e :: secret_error + unit)"
  by (cases e) simp_all

locale secret_store =
  fixes stored :: "'w \<Rightarrow> secret_locator \<Rightarrow> string option"
    and resolve :: "secret_locator \<Rightarrow> access_context \<Rightarrow> 'w \<Rightarrow> (secret_error + resolved_secret) option \<times> 'w"
    and put :: "secret_locator \<Rightarrow> string \<Rightarrow> bool \<Rightarrow> 'w \<Rightarrow> (secret_error + put_outcome) option \<times> 'w"
    and delete :: "secret_locator \<Rightarrow> 'w \<Rightarrow> (secret_error + delete_outcome) option \<times> 'w"
  assumes resolve_keeps: "stored (snd (resolve l c w)) = stored w"
    and resolve_reads: "fst (resolve l c w) = Some (Ok s) \<Longrightarrow> stored w l = Some (rs_value s)"
    and put_touches: "stored (snd (put l x o' w)) \<in> {stored w, (stored w)(l \<mapsto> x)}"
    and put_writes: "fst (put l x o' w) = Some (Ok r) \<Longrightarrow> stored (snd (put l x o' w)) = (stored w)(l \<mapsto> x)"
    and put_fails: "fst (put l x o' w) = Some (Err e) \<Longrightarrow> \<not> leaves_open e \<Longrightarrow>
      stored (snd (put l x o' w)) = stored w"
    and put_respects: "\<not> o' \<Longrightarrow> stored w l \<noteq> None \<Longrightarrow> stored (snd (put l x o' w)) = stored w"
    and delete_touches: "stored (snd (delete l w)) \<in> {stored w, (stored w)(l := None)}"
    and delete_removes: "fst (delete l w) = Some (Ok d) \<Longrightarrow> stored (snd (delete l w)) = (stored w)(l := None)"
    and delete_fails: "fst (delete l w) = Some (Err e) \<Longrightarrow> \<not> leaves_open e \<Longrightarrow>
      stored (snd (delete l w)) = stored w"
begin

lemma run_put:
  assumes run: "broker_run c r OpPut cancelled ending (put l x o') v = (result, v')"
  shows "stored (va_state v') \<in> {stored (va_state v), (stored (va_state v))(l \<mapsto> x)}"
    and "result = Ok y \<Longrightarrow> stored (va_state v') = (stored (va_state v))(l \<mapsto> x)"
    and "result = Err e \<Longrightarrow> \<not> leaves_open_write e \<Longrightarrow> stored (va_state v') = stored (va_state v)"
    and "\<not> o' \<Longrightarrow> stored (va_state v) l \<noteq> None \<Longrightarrow> stored (va_state v') = stored (va_state v)"
  using run_state [OF run] run_finished [OF run] run_failed [OF run]
    put_touches [of l x o' "va_state v"] put_writes [of l x o' "va_state v"]
    put_fails [of l x o' "va_state v"] put_respects [of o' "va_state v" l x]
    unfinished_error [of e, where ?'a = put_outcome]
  by (auto simp: leaves_open_def)

lemma run_delete:
  assumes run: "broker_run c r OpDelete cancelled ending (delete l) v = (result, v')"
  shows "stored (va_state v') \<in> {stored (va_state v), (stored (va_state v))(l := None)}"
    and "result = Ok y \<Longrightarrow> stored (va_state v') = (stored (va_state v))(l := None)"
    and "result = Err e \<Longrightarrow> \<not> leaves_open_write e \<Longrightarrow> stored (va_state v') = stored (va_state v)"
  using run_state [OF run] run_finished [OF run] run_failed [OF run]
    delete_touches [of l "va_state v"] delete_removes [of l "va_state v"] delete_fails [of l "va_state v"]
    unfinished_error [of e, where ?'a = delete_outcome]
  by (auto simp: leaves_open_def)

lemma run_resolve:
  assumes run: "broker_run c r OpResolve cancelled ending (resolve l c') v = (result, v')"
  shows "stored (va_state v') = stored (va_state v)"
    and "result = Ok s \<Longrightarrow> stored (va_state v) l = Some (rs_value s)"
  using run_state [OF run] run_finished [OF run] resolve_keeps [of l c' "va_state v"] resolve_reads [of l c' "va_state v"]
  by auto

end

section \<open>The memory backend\<close>

lemma next_fault_values: "next_fault op m = (f, m') \<Longrightarrow> mb_values m' = mb_values m"
  by (auto simp: next_fault_def split: list.splits if_splits)

lemma apply_common_fault_values:
  "apply_common_fault l op m = (r, m') \<Longrightarrow> mb_values m' = mb_values m"
  by (cases "next_fault op m")
    (auto simp: apply_common_fault_def dest: next_fault_values split: option.splits memory_fault.splits)

lemma memory_put_values:
  assumes put: "memory_put l x o' m = (r, m')"
  shows "map_of (mb_values m') \<in> {map_of (mb_values m), (map_of (mb_values m))(l \<mapsto> x)}"
    and "r = Some (Ok y) \<Longrightarrow> map_of (mb_values m') = (map_of (mb_values m))(l \<mapsto> x)"
    and "r = Some (Err e) \<Longrightarrow> \<not> leaves_open e \<Longrightarrow> mb_values m' = mb_values m"
    and "\<not> o' \<Longrightarrow> map_of (mb_values m) l \<noteq> None \<Longrightarrow> mb_values m' = mb_values m"
proof -
  obtain f m1 where f: "apply_common_fault (Some l) OpPut m = (f, m1)" by fastforce
  note facts = apply_common_fault_values [OF f]
  show "map_of (mb_values m') \<in> {map_of (mb_values m), (map_of (mb_values m))(l \<mapsto> x)}"
    "r = Some (Ok y) \<Longrightarrow> map_of (mb_values m') = (map_of (mb_values m))(l \<mapsto> x)"
    "r = Some (Err e) \<Longrightarrow> \<not> leaves_open e \<Longrightarrow> mb_values m' = mb_values m"
    "\<not> o' \<Longrightarrow> map_of (mb_values m) l \<noteq> None \<Longrightarrow> mb_values m' = mb_values m"
    using put facts
    by (auto simp: memory_put_def f Let_def update_conv leaves_open_def split: option.splits sum.splits if_splits)
qed

lemma memory_delete_values:
  assumes delete: "memory_delete l m = (r, m')"
  shows "map_of (mb_values m') \<in> {map_of (mb_values m), (map_of (mb_values m))(l := None)}"
    and "r = Some (Ok y) \<Longrightarrow> map_of (mb_values m') = (map_of (mb_values m))(l := None)"
    and "r = Some (Err e) \<Longrightarrow> mb_values m' = mb_values m"
proof -
  obtain f m1 where f: "apply_common_fault (Some l) OpDelete m = (f, m1)" by fastforce
  note facts = apply_common_fault_values [OF f]
  show "map_of (mb_values m') \<in> {map_of (mb_values m), (map_of (mb_values m))(l := None)}"
    "r = Some (Ok y) \<Longrightarrow> map_of (mb_values m') = (map_of (mb_values m))(l := None)"
    "r = Some (Err e) \<Longrightarrow> mb_values m' = mb_values m"
    using delete facts
    by (auto simp: memory_delete_def f delete_conv split: option.splits sum.splits if_splits)
qed

lemma memory_resolve_values:
  assumes resolve: "memory_resolve l m = (r, m')"
  shows "mb_values m' = mb_values m" and "r = Some (Ok s) \<Longrightarrow> map_of (mb_values m) l = Some (rs_value s)"
proof -
  obtain f m1 where f: "apply_common_fault (Some l) OpResolve m = (f, m1)" by fastforce
  note facts = apply_common_fault_values [OF f]
  show "mb_values m' = mb_values m" "r = Some (Ok s) \<Longrightarrow> map_of (mb_values m) l = Some (rs_value s)"
    using resolve facts by (auto simp: memory_resolve_def f split: option.splits sum.splits)
qed

interpretation memory: secret_store "\<lambda>m. map_of (mb_values m)" "\<lambda>l _. memory_resolve l" memory_put memory_delete
proof
  fix l c x o' m s r e d
  show "map_of (mb_values (snd (memory_resolve l m))) = map_of (mb_values m)"
    using memory_resolve_values(1) [of l m] by (cases "memory_resolve l m") simp
  show "fst (memory_resolve l m) = Some (Ok s) \<Longrightarrow> map_of (mb_values m) l = Some (rs_value s)"
    using memory_resolve_values(2) [of l m] by (cases "memory_resolve l m") simp
  show "map_of (mb_values (snd (memory_put l x o' m))) \<in> {map_of (mb_values m), (map_of (mb_values m))(l \<mapsto> x)}"
    using memory_put_values(1) [of l x o' m] by (cases "memory_put l x o' m") simp
  show "fst (memory_put l x o' m) = Some (Ok r) \<Longrightarrow>
      map_of (mb_values (snd (memory_put l x o' m))) = (map_of (mb_values m))(l \<mapsto> x)"
    using memory_put_values(2) [of l x o' m] by (cases "memory_put l x o' m") simp
  show "fst (memory_put l x o' m) = Some (Err e) \<Longrightarrow> \<not> leaves_open e \<Longrightarrow>
      map_of (mb_values (snd (memory_put l x o' m))) = map_of (mb_values m)"
    using memory_put_values(3) [of l x o' m] by (cases "memory_put l x o' m") simp
  show "\<not> o' \<Longrightarrow> map_of (mb_values m) l \<noteq> None \<Longrightarrow>
      map_of (mb_values (snd (memory_put l x o' m))) = map_of (mb_values m)"
    using memory_put_values(4) [of l x o' m] by (cases "memory_put l x o' m") simp
  show "map_of (mb_values (snd (memory_delete l m))) \<in> {map_of (mb_values m), (map_of (mb_values m))(l := None)}"
    using memory_delete_values(1) [of l m] by (cases "memory_delete l m") simp
  show "fst (memory_delete l m) = Some (Ok d) \<Longrightarrow>
      map_of (mb_values (snd (memory_delete l m))) = (map_of (mb_values m))(l := None)"
    using memory_delete_values(2) [of l m] by (cases "memory_delete l m") simp
  show "fst (memory_delete l m) = Some (Err e) \<Longrightarrow> \<not> leaves_open e \<Longrightarrow>
      map_of (mb_values (snd (memory_delete l m))) = map_of (mb_values m)"
    using memory_delete_values(3) [of l m] by (cases "memory_delete l m") simp
qed

text \<open>\<open>probe\<close> never panics: a planned not-found fault does not concern it.\<close>

lemma memory_probe_returns:
  "fst (memory_probe m) = None \<longleftrightarrow> mb_faults m \<noteq> [] \<and> hd (mb_faults m) = FaultTimeout"
  by (cases "mb_faults m"; cases "hd (mb_faults m)")
    (auto simp: memory_probe_def apply_common_fault_def next_fault_def)

section \<open>Every call of the broker\<close>

datatype broker_call = StatusCall | ResolveCall | PutCall string bool | DeleteCall

fun call_operation :: "broker_call \<Rightarrow> secret_operation" where
  "call_operation StatusCall = OpResolve"
| "call_operation ResolveCall = OpResolve"
| "call_operation (PutCall _ _) = OpPut"
| "call_operation DeleteCall = OpDelete"

text \<open>The error of a call, if it fails, and the vault after it.\<close>

definition failure :: "secret_error + 'a \<Rightarrow> secret_error option" where
  "failure r = (case r of Inl e \<Rightarrow> Some e | Inr _ \<Rightarrow> None)"

fun broker_effect ::
    "'w registry \<Rightarrow> connection list \<Rightarrow> credential_binding_record \<Rightarrow> access_context \<Rightarrow> bool \<Rightarrow> ending \<Rightarrow>
     broker_call \<Rightarrow> 'w vault \<Rightarrow> secret_error option \<times> 'w vault" where
  "broker_effect B cs b c cancelled ending StatusCall v = map_prod failure id (broker_status B cs b c cancelled ending v)"
| "broker_effect B cs b c cancelled ending ResolveCall v = map_prod failure id (broker_resolve B cs b c cancelled ending v)"
| "broker_effect B cs b c cancelled ending (PutCall x o') v =
     map_prod failure id (broker_put B cs b c x o' cancelled ending v)"
| "broker_effect B cs b c cancelled ending DeleteCall v = map_prod failure id (broker_delete B cs b c cancelled ending v)"

definition audits_once :: "access_context \<Rightarrow> 'w vault \<Rightarrow> 'w vault \<Rightarrow> bool" where
  "audits_once c v v' \<longleftrightarrow> (\<exists>e. va_audit v' = va_audit v @ [e] \<and> sa_connection_id e = ax_connection_id c \<and>
     sa_slot e = ax_slot c \<and> sa_purpose e = ax_purpose c \<and> sa_request_id e = ax_request_id c)"

definition asks_only :: "secret_reference set \<Rightarrow> secret_operation \<Rightarrow> 'w vault \<Rightarrow> 'w vault \<Rightarrow> bool" where
  "asks_only rs op v v' \<longleftrightarrow> va_asked v' = va_asked v \<or> (\<exists>r\<in>rs. va_asked v' = va_asked v @ [(r, op)])"

text \<open>The references that the configuration binds to the context, given the supplied binding.\<close>

definition bound_references ::
    "connection list \<Rightarrow> credential_binding_record \<Rightarrow> access_context \<Rightarrow> secret_reference set" where
  "bound_references cs b c = {r. cb_binding b = Secret r \<and> cb_slot b = ax_slot c \<and>
     (\<exists>connection\<in>set cs. conn_id connection = ax_connection_id c \<and> b \<in> set (conn_credentials connection))}"

lemma audits_once_intros [simp]:
  "audits_once c v (audit c b op out v)"
  "va_audit w = va_audit v \<Longrightarrow> audits_once c v (audit c b op out w)"
  "asks_only rs op v (audit c b op' out v)" "asks_only rs op v v"
  by (simp_all add: audits_once_def asks_only_def) (simp_all add: audit_def)

lemma race_logs:
  "race r op ending action v = (result, d, v') \<Longrightarrow>
     va_audit v' = va_audit v \<and> va_asked v' \<in> {va_asked v, va_asked v @ [(r, op)]}"
  by (auto simp: race_def dropped_def Let_def split: ending.splits progress.splits prod.splits)

lemma run_logs:
  assumes "broker_run c r op cancelled ending action v = (result, v')" and "r \<in> rs"
  shows "audits_once c v v' \<and> asks_only rs op v v'"
proof (cases cancelled)
  case True
  then show ?thesis using assms(1) by (auto simp: broker_run_def Let_def)
next
  case False
  obtain res d w where race: "race r op ending action v = (res, d, w)" by (metis prod_cases3)
  have v': "\<exists>out. v' = audit c (Some (ref_backend_id r)) op out w"
    using assms(1) False by (auto simp: broker_run_def race Let_def)
  show ?thesis using race_logs [OF race] v' assms(2) by (auto simp: asks_only_def)
qed

lemma find_binding_bound:
  assumes "find_binding cs b c = Ok (Secret r)"
  shows "r \<in> bound_references cs b c"
proof -
  obtain connection where connection: "find (\<lambda>connection. conn_id connection = ax_connection_id c) cs = Some connection"
    using assms by (auto simp: find_binding_def and_then_eq_Ok split: option.splits)
  then obtain current where current: "find (\<lambda>b. cb_slot b = ax_slot c) (conn_credentials connection) = Some current"
    using assms by (auto simp: find_binding_def and_then_eq_Ok split: option.splits)
  have "current = b" "cb_binding b = Secret r"
    using assms connection current by (auto simp: find_binding_def and_then_eq_Ok split: if_splits)
  then show ?thesis
    using connection current by (auto simp: bound_references_def find_Some_iff)
qed

lemma current_binding_cases:
  obtains (rejected) e where "current_binding cs b c op v = (Err e, audit c None op AuditRejected v)"
      "find_binding cs b c = Err e"
    | (found) x where "current_binding cs b c op v = (Ok x, v)" "find_binding cs b c = Ok x"
  by (cases "find_binding cs b c") (auto simp: current_binding_def)

lemma audited_backend_cases:
  obtains (missing) e where "audited_backend B r c op v =
      (Err e, audit c (Some (ref_backend_id r)) op AuditFailed v)"
    | (known) h where "audited_backend B r c op v = (Ok h, v)" "map_of B (ref_backend_id r) = Some h"
  by (cases "map_of B (ref_backend_id r)") (auto simp: audited_backend_def)

lemma write_logs:
  assumes "broker_write B cs b c op cancelled ending action v = (result, v')"
  shows "audits_once c v v' \<and> asks_only (bound_references cs b c) op v v'"
proof (cases rule: current_binding_cases [of cs b c op v])
  case (found x)
  show ?thesis
  proof (cases x)
    case (Secret r)
    note bound = find_binding_bound [OF found(2) [unfolded Secret]]
    show ?thesis
    proof (cases rule: audited_backend_cases [of B r c op v])
      case (known h)
      show ?thesis
        using assms run_logs [OF _ bound, of c op cancelled ending _ v result v']
        by (auto simp: broker_write_def found Secret known split: option.splits)
    qed (use assms in \<open>auto simp: broker_write_def found Secret\<close>)
  qed (use assms in \<open>auto simp: broker_write_def found\<close>)
qed (use assms in \<open>auto simp: broker_write_def\<close>)

lemma resolve_logs:
  assumes "broker_resolve B cs b c cancelled ending v = (result, v')"
  shows "audits_once c v v' \<and> asks_only (bound_references cs b c) OpResolve v v'"
proof (cases rule: current_binding_cases [of cs b c OpResolve v])
  case (found x)
  show ?thesis
  proof (cases x)
    case (Secret r)
    note bound = find_binding_bound [OF found(2) [unfolded Secret]]
    show ?thesis
    proof (cases rule: audited_backend_cases [of B r c OpResolve v])
      case (known h)
      show ?thesis
        using assms run_logs [OF _ bound, of c OpResolve cancelled ending "bh_resolve h (ref_locator r) c" v]
        by (auto simp: broker_resolve_def found Secret known split: prod.splits)
    qed (use assms in \<open>auto simp: broker_resolve_def found Secret\<close>)
  qed (use assms in \<open>auto simp: broker_resolve_def found\<close>)
qed (use assms in \<open>auto simp: broker_resolve_def\<close>)

lemma status_logs:
  assumes "broker_status B cs b c cancelled ending v = (result, v')"
  shows "audits_once c v v' \<and> asks_only (bound_references cs b c) OpResolve v v'"
proof (cases rule: current_binding_cases [of cs b c OpProbe v])
  case (found x)
  show ?thesis
  proof (cases x)
    case (Secret r)
    note bound = find_binding_bound [OF found(2) [unfolded Secret]]
    show ?thesis
    proof (cases rule: audited_backend_cases [of B r c OpResolve v])
      case (known h)
      show ?thesis
        using assms run_logs [OF _ bound, of c OpResolve cancelled ending "bh_resolve h (ref_locator r) c" v]
        by (auto simp: broker_status_def found Secret known split: prod.splits sum.splits secret_error.splits)
    qed (use assms in \<open>auto simp: broker_status_def found Secret\<close>)
  qed (use assms in \<open>auto simp: broker_status_def found\<close>)
qed (use assms in \<open>auto simp: broker_status_def\<close>)

lemma effect_logs:
  "audits_once c v (snd (broker_effect B cs b c cancelled ending call v)) \<and>
     asks_only (bound_references cs b c) (call_operation call) v (snd (broker_effect B cs b c cancelled ending call v))"
  using status_logs [of B cs b c cancelled ending v] resolve_logs [of B cs b c cancelled ending v]
  by (cases call) (auto simp: broker_put_def broker_delete_def map_prod_def write_logs split: prod.split)

section \<open>What the broker asks of the configuration\<close>

definition all_references :: "connection list \<Rightarrow> secret_reference list" where
  "all_references cs = List.map_filter (\<lambda>b. secret_reference_of (cb_binding b)) (concat (map conn_credentials cs))"

lemma validate_references_Ok:
  "validate_references seen bs = Ok seen' \<longleftrightarrow>
     (let rs = List.map_filter (\<lambda>b. secret_reference_of (cb_binding b)) bs
      in distinct rs \<and> set seen \<inter> set rs = {} \<and> seen' = rev rs @ seen)"
proof (induction bs arbitrary: seen)
  case (Cons b bs)
  show ?case
    by (cases "secret_reference_of (cb_binding b)") (auto simp: Cons.IH map_filter_simps Let_def)
qed (auto simp: map_filter_simps)

lemma broker_validate_connections_Ok:
  "broker_validate_connections seen cs = Ok () \<longleftrightarrow>
     (\<forall>x\<in>set cs. connection_ok x) \<and> distinct (all_references cs) \<and> set seen \<inter> set (all_references cs) = {}"
proof (induction cs arbitrary: seen)
  case (Cons x cs)
  have split: "all_references (x # cs) =
      List.map_filter (\<lambda>b. secret_reference_of (cb_binding b)) (conn_credentials x) @ all_references cs"
    by (simp add: all_references_def List.map_filter_def)
  show ?case
    unfolding split
    by (auto simp: and_then_eq_Ok map_err_eq_Ok connection_validate_Ok validate_references_Ok Let_def Cons.IH)
qed (simp add: all_references_def map_filter_simps)

lemma broker_validate_bindings_Ok:
  "broker_validate_bindings cs = Ok () \<longleftrightarrow> (\<forall>x\<in>set cs. connection_ok x) \<and> distinct (all_references cs)"
  by (simp add: broker_validate_bindings_def broker_validate_connections_Ok)

end
