(* ===== verification/Secrets_Properties.thy ===== *)
theory Secrets_Properties
  imports Secrets_Laws Config_Properties
begin

text \<open>
  What the credential broker promises about writes, about who asks a backend for what, and how it
  fits the configuration.
\<close>

section \<open>Samples\<close>

definition sample_context :: access_context where
  "sample_context =
     \<lparr>ax_connection_id = Id 1, ax_slot = CredentialSlot ''key'', ax_purpose = StartHarness,
      ax_request_id = OperationId ''o''\<rparr>"

definition sample_memory :: memory_backend where
  "sample_memory = \<lparr>mb_id = SecretBackendId ''file'', mb_values = [], mb_faults = [UncertainFault]\<rparr>"

definition sample_vault :: "memory_backend vault" where
  "sample_vault = \<lparr>va_state = sample_memory, va_audit = [], va_asked = []\<rparr>"

definition sample_binding :: credential_binding_record where
  "sample_binding = hd (conn_credentials sample_connection)"

lemma sample_broker_config:
  "broker_validate_bindings [sample_connection] = Ok ()"
  by (simp add: broker_validate_bindings_Ok connection_ok_def all_references_def sample_connection_def
      text_eval map_filter_simps)

lemma sample_find_binding:
  "find_binding [sample_connection] sample_binding sample_context =
     Ok (Secret \<lparr>ref_backend_id = SecretBackendId ''file'', ref_locator = SecretLocator ''t''\<rparr>)"
  by (simp add: find_binding_def sample_broker_config sample_binding_def sample_context_def)
    (simp add: sample_connection_def)

section \<open>Writes\<close>

text \<open>A put is refused, changing no backend, or it asks the administrator of the backend of its binding.\<close>

lemma broker_put_cases:
  assumes put: "broker_put registry cs b c x o' cancelled ending v = (result, v')" and binding: "cb_binding b = Secret r"
  obtains (refused) "va_state v' = va_state v" "\<not> is_ok result"
    | (asked) h a where "map_of registry (ref_backend_id r) = Some h" "bh_administrator h = Some a"
        "broker_run c r OpPut cancelled ending (ad_put a (ref_locator r) x o') v = (result, v')"
proof (cases rule: current_binding_cases [of cs b c OpPut v])
  case (found y)
  show ?thesis
  proof (cases y)
    case (Secret s)
    have "s = r" using find_binding_bound [of cs b c s] found(2) binding Secret by (simp add: bound_references_def)
    note found = found(1) [unfolded Secret this]
    show ?thesis
    proof (cases rule: audited_backend_cases [of registry r c OpPut v])
      case (known h)
      show ?thesis
      proof (cases "bh_administrator h")
        case None
        then show ?thesis using put by (intro refused) (auto simp: broker_put_def broker_write_def found known)
      next
        case (Some a)
        then show ?thesis using put by (intro asked [OF known(2)]) (auto simp: broker_put_def broker_write_def found known)
      qed
    qed (use put in \<open>auto simp: broker_put_def broker_write_def found intro: refused\<close>)
  qed (use put in \<open>auto simp: broker_put_def broker_write_def found intro: refused\<close>)
qed (use put in \<open>auto simp: broker_put_def broker_write_def intro: refused\<close>)

text \<open>C28: A put through the broker, whatever backends are registered and however it ends (it finishes,
times out or is cancelled, before or after the backend was asked), stores the value when it answers Ok, stores
nothing when it answers any error but an uncertain write, touches no other locator, and without permission to
overwrite never changes a stored value. The binding's backend, when it is registered and can write, has to
keep the contract of a store, \<open>secret_store\<close>, for the contents \<open>stored\<close>; the memory backend does.\<close>

theorem put_is_certain_or_flagged:
  assumes put: "broker_put registry cs b c x o' cancelled ending v = (result, v')"
    and binding: "cb_binding b = Secret r"
    and backend: "\<And>h a. map_of registry (ref_backend_id r) = Some h \<Longrightarrow> bh_administrator h = Some a \<Longrightarrow>
      secret_store stored (bh_resolve h) (ad_put a) (ad_delete a)"
  shows "let old = stored (va_state v); new = stored (va_state v'); l = ref_locator r in
    new \<in> {old, old(l \<mapsto> x)} \<and> (is_ok result \<longrightarrow> new = old(l \<mapsto> x)) \<and>
    (\<forall>e. result = Err e \<longrightarrow> \<not> leaves_open_write e \<longrightarrow> new = old) \<and> (\<not> o' \<longrightarrow> old l \<noteq> None \<longrightarrow> new = old)"
  using put binding
proof (cases rule: broker_put_cases)
  case refused
  then show ?thesis by (cases result) (simp_all add: Let_def)
next
  case (asked h a)
  from secret_store.run_put [OF backend [OF asked(1,2)] asked(3)] show ?thesis
    by (cases result) (simp_all add: Let_def)
qed

theorem put_is_certain_or_flagged_witness:
  "\<exists>v'. broker_put [(mb_id sample_memory, memory_handle sample_memory)] [sample_connection] sample_binding
     sample_context ''x'' False False Finishes sample_vault =
       (Err (SecretUncertainWrite (SecretBackendId ''file'')), v') \<and>
     map_of (mb_values (va_state v')) = [SecretLocator ''t'' \<mapsto> ''x'']"
proof -
  let ?put = "broker_put [(mb_id sample_memory, memory_handle sample_memory)] [sample_connection] sample_binding
     sample_context ''x'' False False Finishes sample_vault"
  let ?r = "\<lparr>ref_backend_id = SecretBackendId ''file'', ref_locator = SecretLocator ''t''\<rparr>"
  have "?put = broker_run sample_context ?r OpPut False Finishes (memory_put (SecretLocator ''t'') ''x'' False) sample_vault"
    by (simp add: broker_put_def broker_write_def current_binding_def sample_find_binding audited_backend_def
        memory_handle_def sample_memory_def)
  moreover have "memory_put (SecretLocator ''t'') ''x'' False sample_memory =
      (Some (Err (SecretTimedOut (SecretBackendId ''file''))),
       sample_memory\<lparr>mb_values := [(SecretLocator ''t'', ''x'')], mb_faults := []\<rparr>)"
    by (simp add: memory_put_def apply_common_fault_def next_fault_def sample_memory_def Let_def)
  ultimately obtain v' where put: "?put = (Err (SecretUncertainWrite (SecretBackendId ''file'')), v')"
      and new: "mb_values (va_state v') = [(SecretLocator ''t'', ''x'')]"
    by (simp add: broker_run_def race_def Let_def sample_vault_def)
  have bound: "cb_binding sample_binding = Secret ?r"
    by (simp add: sample_binding_def sample_connection_def)
  have store: "secret_store (\<lambda>m. map_of (mb_values m)) (bh_resolve h) (ad_put a) (ad_delete a)"
    if "map_of [(mb_id sample_memory, memory_handle sample_memory)] (ref_backend_id ?r) = Some h"
      and "bh_administrator h = Some a" for h a
    using that memory.secret_store_axioms by (auto simp: memory_handle_def split: if_splits)
  note put_is_certain_or_flagged [OF put bound store]
  then have "map_of (mb_values (va_state v')) \<in> {Map.empty, [SecretLocator ''t'' \<mapsto> ''x'']}"
    by (simp add: Let_def sample_vault_def sample_memory_def)
  then have "map_of (mb_values (va_state v')) = [SecretLocator ''t'' \<mapsto> ''x'']" using new by auto
  with put show ?thesis by blast
qed

section \<open>Who asks for what\<close>

text \<open>C29: Every call of the broker (status, resolve, put or delete) leaves exactly one audit event, under
the connection, slot, purpose and request of its context, and asks backends at most once, only with its own
operation and only for the reference that the current configuration binds to this connection and slot.\<close>

theorem calls_are_audited_and_confined:
  "(\<exists>e. va_audit (snd (broker_effect B cs b c cancelled ending call v)) = va_audit v @ [e] \<and>
      (sa_connection_id e, sa_slot e, sa_purpose e, sa_request_id e) =
        (ax_connection_id c, ax_slot c, ax_purpose c, ax_request_id c)) \<and>
   (va_asked (snd (broker_effect B cs b c cancelled ending call v)) = va_asked v \<or>
    (\<exists>r x. x \<in> set cs \<and> conn_id x = ax_connection_id c \<and> b \<in> set (conn_credentials x) \<and>
       cb_slot b = ax_slot c \<and> cb_binding b = Secret r \<and>
       va_asked (snd (broker_effect B cs b c cancelled ending call v)) = va_asked v @ [(r, call_operation call)]))"
  using effect_logs [of c v B cs b cancelled ending call]
  unfolding audits_once_def asks_only_def bound_references_def by blast

section \<open>The broker and the configuration\<close>

lemma all_references_rebind:
  "all_references (map (rebind_connection from to) cs) =
     map (\<lambda>r. if ref_backend_id r = from then r\<lparr>ref_backend_id := to\<rparr> else r) (all_references cs)"
proof -
  have one: "secret_reference_of (cb_binding (rebind from to b)) =
      map_option (\<lambda>r. if ref_backend_id r = from then r\<lparr>ref_backend_id := to\<rparr> else r)
        (secret_reference_of (cb_binding b))" for b
    by (cases "cb_binding b") (simp_all add: rebind_def)
  have "List.map_filter (\<lambda>b. secret_reference_of (cb_binding b)) (map (rebind from to) bs) =
      map (\<lambda>r. if ref_backend_id r = from then r\<lparr>ref_backend_id := to\<rparr> else r)
        (List.map_filter (\<lambda>b. secret_reference_of (cb_binding b)) bs)" for bs
    by (induction bs) (simp_all add: map_filter_simps one split: option.split)
  moreover have "concat (map (\<lambda>x. map (rebind from to) (conn_credentials x)) cs) =
      map (rebind from to) (concat (map conn_credentials cs))"
    by (induction cs) simp_all
  ultimately show ?thesis by (simp add: all_references_def rebind_connection_def comp_def)
qed

lemma rebinding_inj:
  fixes R :: "secret_reference set"
  assumes "from \<noteq> to"
  shows "inj_on (\<lambda>r. if ref_backend_id r = from then r\<lparr>ref_backend_id := to\<rparr> else r) R \<longleftrightarrow>
    (\<nexists>l. {\<lparr>ref_backend_id = from, ref_locator = l\<rparr>, \<lparr>ref_backend_id = to, ref_locator = l\<rparr>} \<subseteq> R)"
    (is "inj_on ?f R \<longleftrightarrow> ?apart")
proof
  assume inj: "inj_on ?f R"
  show ?apart
  proof (intro notI, elim exE)
    fix l
    let ?a = "\<lparr>ref_backend_id = from, ref_locator = l\<rparr>" and ?b = "\<lparr>ref_backend_id = to, ref_locator = l\<rparr>"
    assume "{?a, ?b} \<subseteq> R"
    then have "?a \<in> R" "?b \<in> R" by blast+
    moreover have "?f ?a = ?f ?b" by simp
    ultimately have "?a = ?b" using inj_onD [OF inj] by blast
    with assms show False by simp
  qed
next
  assume apart: ?apart
  show "inj_on ?f R"
  proof (rule inj_onI)
    fix r s
    assume rs: "r \<in> R" "s \<in> R" and eq: "?f r = ?f s"
    obtain b l where r: "r = \<lparr>ref_backend_id = b, ref_locator = l\<rparr>" by (cases r) simp
    obtain b' l' where s: "s = \<lparr>ref_backend_id = b', ref_locator = l'\<rparr>" by (cases s) simp
    have "l = l'" using eq by (auto simp: r s split: if_splits)
    moreover have "b = b' \<or> (b = from \<and> b' = to) \<or> (b = to \<and> b' = from)"
      using eq by (auto simp: r s split: if_splits)
    ultimately show "r = s" using apart rs by (auto simp: r s)
  qed
qed

text \<open>C30: A checkpoint of the credential migration keeps a configuration that the broker accepts acceptable
exactly when no locator is bound at both the source and the target backend; otherwise two credentials share
one secret from then on and the broker refuses the configuration that the checkpoint accepted.\<close>

theorem checkpoint_may_lock_out_the_broker:
  assumes valid: "config_ok caps c" and migration: "ac_credential_migration c = Some m"
    and broker: "broker_validate_bindings (ac_connections c) = Ok ()"
    and step: "apply_change CheckpointCredentialMigration c = Ok c'"
  shows "broker_validate_bindings (ac_connections c') = Ok () \<longleftrightarrow>
    (\<nexists>l. {\<lparr>ref_backend_id = sb_id (mg_source m), ref_locator = l\<rparr>,
          \<lparr>ref_backend_id = sb_id (mg_target m), ref_locator = l\<rparr>} \<subseteq> set (all_references (ac_connections c)))"
proof -
  let ?from = "sb_id (mg_source m)" and ?to = "sb_id (mg_target m)" and ?rs = "all_references (ac_connections c)"
  define f where "f r = (if ref_backend_id r = ?from then r\<lparr>ref_backend_id := ?to\<rparr> else r)" for r :: secret_reference
  have apart: "?from \<noteq> ?to" using valid migration by (simp add: config_ok_def migration_ok_def)
  have cs: "ac_connections c' = map (rebind_connection ?from ?to) (ac_connections c)"
    using step migration by (auto simp: checkpoint_migration_Ok)
  have ok: "\<forall>x\<in>set (ac_connections c'). connection_ok x"
    using broker by (simp add: cs broker_validate_bindings_Ok rebind_connection_ok)
  have refs: "all_references (ac_connections c') = map f ?rs"
    unfolding cs all_references_rebind f_def ..
  have "distinct ?rs" using broker by (simp add: broker_validate_bindings_Ok)
  then have "broker_validate_bindings (ac_connections c') = Ok () \<longleftrightarrow> inj_on f (set ?rs)"
    using ok by (simp add: broker_validate_bindings_Ok refs distinct_map)
  also have "\<dots> \<longleftrightarrow> (\<nexists>l. {\<lparr>ref_backend_id = ?from, ref_locator = l\<rparr>, \<lparr>ref_backend_id = ?to, ref_locator = l\<rparr>} \<subseteq> set ?rs)"
    unfolding f_def using apart by (rule rebinding_inj)
  finally show ?thesis .
qed

definition shared_config :: app_config where
  "shared_config = sample_config
     \<lparr>ac_connections := [sample_connection,
        \<lparr>conn_id = Id 2, conn_name = ''b'', conn_harness = ''codex'', conn_model_provider = ''p'',
         conn_provider_state = ProviderStateRootId ''q'',
         conn_credentials = [\<lparr>cb_slot = CredentialSlot ''key'',
           cb_binding = Secret \<lparr>ref_backend_id = SecretBackendId ''os'', ref_locator = SecretLocator ''t''\<rparr>\<rparr>]\<rparr>],
      ac_secret_backends := [file_backend, os_backend]\<rparr>"

lemma shared_config_ok: "config_ok sample_caps shared_config"
  by (simp add: shared_config_def config_ok_def sample_config_defs backend_ok_def secret_backend_validate_def
      require_nonempty_def text_eval path_is_absolute_def starts_with_def sample_caps_def
      capability_of_def secret_backend_kind_def capability_available_def connection_ok_def
      binding_ok_def locator_validator_def backend_with_id_def migration_ok_def
      map_filter_simps)

theorem checkpoint_may_lock_out_the_broker_witness:
  "\<exists>c. apply_change CheckpointCredentialMigration shared_config = Ok c \<and>
     broker_validate_bindings (ac_connections shared_config) = Ok () \<and>
     broker_validate_bindings (ac_connections c) \<noteq> Ok ()"
proof -
  obtain c where c: "apply_change CheckpointCredentialMigration shared_config = Ok c"
    by (simp add: shared_config_def checkpoint_migration_def sample_config_def sample_record_def all_copied_def Let_def)
  have refs: "all_references (ac_connections shared_config) =
      [\<lparr>ref_backend_id = SecretBackendId ''file'', ref_locator = SecretLocator ''t''\<rparr>,
       \<lparr>ref_backend_id = SecretBackendId ''os'', ref_locator = SecretLocator ''t''\<rparr>]"
    by (simp add: shared_config_def sample_connection_def all_references_def map_filter_simps)
  have accepted: "broker_validate_bindings (ac_connections shared_config) = Ok ()"
    unfolding broker_validate_bindings_Ok refs
    using shared_config_ok by (simp add: config_ok_def)
  have migration: "ac_credential_migration shared_config = Some sample_record"
    by (simp add: shared_config_def sample_config_def)
  from checkpoint_may_lock_out_the_broker [OF shared_config_ok migration accepted c]
  have "broker_validate_bindings (ac_connections c) \<noteq> Ok ()"
    unfolding refs by (auto simp: sample_record_def file_backend_def os_backend_def)
  with c accepted show ?thesis by blast
qed

end
