(* ===== verification/Secrets_OnePassword.thy ===== *)
theory Secrets_OnePassword
  imports Secrets_Laws
begin

text \<open>
  The resolve-only backend on the 1Password command line tool
  (\<^verbatim>\<open>crates/yakshed-secrets/src/onepassword.rs\<close>). What the operating system makes of the child process
  is an argument: whether it started, whether its process group was cleaned up, and how it ended with
  which bytes on its streams.
\<close>

definition MAX_OUTPUT_BYTES :: nat where
  "MAX_OUTPUT_BYTES = 64 * 1024"

datatype process_end =
  ProcessTimedOut
| ProcessFailed
| Exited bool string string

record process_outcome =
  po_spawned :: bool
  po_cleaned :: bool
  po_end :: process_end

record onepassword_backend =
  op_id :: secret_backend_id
  op_command :: string
  op_owner :: string

definition onepassword_from_config ::
    "backend_capability list \<Rightarrow> secret_backend \<Rightarrow> backend_configuration_error + onepassword_backend" where
  "onepassword_from_config caps config =
     (case sb_settings config of
        OnePassword account executable \<Rightarrow>
          map_ok (\<lambda>_. \<lparr>op_id = sb_id config,
            op_command = (case executable of Some e \<Rightarrow> e | None \<Rightarrow> ''op''), op_owner = account\<rparr>)
            (validate_backend_configuration config caps)
      | _ \<Rightarrow> Err (WrongKind (sb_id config) ONEPASSWORD_BACKEND_KIND))"

text \<open>The arguments of the command line, after the executable.\<close>

definition onepassword_arguments :: "onepassword_backend \<Rightarrow> string \<Rightarrow> string list \<Rightarrow> string list" where
  "onepassword_arguments b operation args = operation # args @ [''--account'', op_owner b]"

definition contains_ascii_case_insensitive :: "string \<Rightarrow> string \<Rightarrow> bool" where
  "contains_ascii_case_insensitive haystack needle =
     list_ex (\<lambda>i. to_ascii_lowercase (take (length needle) (drop i haystack)) = to_ascii_lowercase needle)
       [0..<Suc (length haystack - length needle)]"

definition redacted_locator :: secret_locator where
  "redacted_locator = SecretLocator ''op://redacted/redacted/redacted''"

definition classify_exit :: "secret_backend_id \<Rightarrow> string \<Rightarrow> secret_error" where
  "classify_exit backend stderr =
     (let says = contains_ascii_case_insensitive stderr in
      if says ''not signed in'' \<or> says ''not currently signed in'' \<or> says ''authentication required'' \<or>
         says ''locked''
      then SecretLocked backend (Some ''sign in to the 1Password CLI'')
      else if says ''permission denied'' \<or> says ''not authorized'' \<or> says ''forbidden'' \<or>
         says ''does not have access''
      then SecretDenied backend (Some ''grant the account access to the 1Password item'')
      else if says ''not found'' \<or> says (''isn'' @ [CHR 0x27] @ ''t an item'')
      then SecretNotFound \<lparr>sm_backend = backend, sm_locator = redacted_locator\<rparr>
      else SecretBackendFailure backend ''1Password command failed'')"

text \<open>Reading more than the limit from either stream is a failure of the process.\<close>

definition read_bounded :: "string \<Rightarrow> string option" where
  "read_bounded input = (if length (take (MAX_OUTPUT_BYTES + 1) input) > MAX_OUTPUT_BYTES then None else Some input)"

definition onepassword_run :: "onepassword_backend \<Rightarrow> process_outcome \<Rightarrow> secret_error + string" where
  "onepassword_run b p =
     (if \<not> po_spawned p then Err (SecretUnavailable (op_id b) (Some ''install the 1Password CLI''))
      else if \<not> po_cleaned p then Err (SecretBackendFailure (op_id b) ''1Password process cleanup failed'')
      else case po_end p of
        ProcessTimedOut \<Rightarrow> Err (SecretTimedOut (op_id b))
      | ProcessFailed \<Rightarrow> Err (SecretBackendFailure (op_id b) ''1Password process failed'')
      | Exited success stdout stderr \<Rightarrow>
          (case (read_bounded stdout, read_bounded stderr) of
             (Some out, Some err) \<Rightarrow> if success then Ok out else Err (classify_exit (op_id b) err)
           | _ \<Rightarrow> Err (SecretBackendFailure (op_id b) ''1Password process failed'')))"

definition secret_bytes :: "string \<Rightarrow> string option" where
  "secret_bytes out = (if out = [] then None else utf8_text out)"

definition onepassword_probe :: "onepassword_backend \<Rightarrow> process_outcome \<Rightarrow> secret_error + unit" where
  "onepassword_probe b p = map_ok (\<lambda>_. ()) (onepassword_run b p)"

definition onepassword_resolve ::
    "onepassword_backend \<Rightarrow> secret_locator \<Rightarrow> process_outcome \<Rightarrow> secret_error + resolved_secret" where
  "onepassword_resolve b l p =
     (case onepassword_validate_locator l of
        Inl _ \<Rightarrow> Err (SecretInvalidLocator (op_id b) ''locator must be an op secret reference'')
      | Inr _ \<Rightarrow>
          and_then (onepassword_run b p) (\<lambda>out.
          case secret_bytes out of
            Some v \<Rightarrow> Ok \<lparr>rs_value = v, rs_source = op_id b, rs_expires_at = None\<rparr>
          | None \<Rightarrow> Err (SecretProtocolViolation (op_id b) ''1Password returned invalid secret bytes'')))"

text \<open>
  No error repeats what the tool printed or the locator that was asked for: the errors of a backend are
  these.
\<close>

definition onepassword_errors :: "secret_backend_id \<Rightarrow> secret_error set" where
  "onepassword_errors i =
     {SecretInvalidLocator i ''locator must be an op secret reference'',
      SecretUnavailable i (Some ''install the 1Password CLI''),
      SecretBackendFailure i ''1Password process cleanup failed'', SecretTimedOut i,
      SecretBackendFailure i ''1Password process failed'',
      SecretLocked i (Some ''sign in to the 1Password CLI''),
      SecretDenied i (Some ''grant the account access to the 1Password item''),
      SecretNotFound \<lparr>sm_backend = i, sm_locator = redacted_locator\<rparr>,
      SecretBackendFailure i ''1Password command failed'',
      SecretProtocolViolation i ''1Password returned invalid secret bytes''}"

lemma classify_exit_error: "classify_exit i err \<in> onepassword_errors i"
  by (simp add: classify_exit_def onepassword_errors_def Let_def)

lemma onepassword_run_error: "onepassword_run b p = Err e \<Longrightarrow> e \<in> onepassword_errors (op_id b)"
  using classify_exit_error [of "op_id b"]
  by (auto simp: onepassword_run_def split: if_splits process_end.splits option.splits)
    (simp_all add: onepassword_errors_def)

lemma onepassword_resolve_error: "onepassword_resolve b l p = Err e \<Longrightarrow> e \<in> onepassword_errors (op_id b)"
  using onepassword_run_error [of b p]
  by (auto simp: onepassword_resolve_def and_then_eq_Err split: sum.splits option.splits)
    (simp_all add: onepassword_errors_def)

lemma onepassword_resolve_bounded:
  "onepassword_resolve b l p = Ok s \<Longrightarrow> 0 < length (rs_value s) \<and> length (rs_value s) \<le> MAX_OUTPUT_BYTES"
  by (auto simp: onepassword_resolve_def onepassword_run_def and_then_eq_Ok secret_bytes_def utf8_text_def
      read_bounded_def split: sum.splits if_splits process_end.splits option.splits)

end
