(* ===== verification/Work_View.thy ===== *)
theory Work_View
  imports Paging
begin

text \<open>
  What the store shows of one work item: its row and parent, its runs, and the approvals and timeline
  items of those runs. \<^verbatim>\<open>yakshed-desktop-api\<close> reads it in several calls between which other operations
  run, and takes the revision of the work item as a version of the whole. This theory proves that it
  is one: an operation either leaves the view alone or increases the revision.
\<close>

section \<open>The view of a work item\<close>

record work_view =
  wv_item :: "work_item_row option"
  wv_parent :: "work_item_id option"
  wv_runs :: "run_row list"
  wv_approvals :: "approval_row list"
  wv_items :: "timeline_row list"

definition item_row :: "work_item_id \<Rightarrow> db \<Rightarrow> work_item_row option" where
  "item_row w db = List.find (\<lambda>r. wi_id r = w) (work_items db)"

definition work_view :: "work_item_id \<Rightarrow> db \<Rightarrow> work_view" where
  "work_view w db =
     \<lparr>wv_item = item_row w db,
      wv_parent = parent_of (work_edges db) w,
      wv_runs = filter (\<lambda>r. rr_work_item_id r = w) (runs db),
      wv_approvals = filter (\<lambda>a. owns_run w (ap_run_id a) db) (approval_requests db),
      wv_items = filter (\<lambda>t. owns_run w (tl_run_id t) db) (timeline_items db)\<rparr>"

definition advances :: "work_item_id \<Rightarrow> db \<Rightarrow> db \<Rightarrow> bool" where
  "advances w db db' \<longleftrightarrow>
     (\<exists>a b. item_row w db = Some a \<and> item_row w db' = Some b \<and> wi_revision a < wi_revision b)"

text \<open>The statements before the revision is bumped touch the view of one work item only.\<close>

definition confined :: "work_item_id \<Rightarrow> db \<Rightarrow> db \<Rightarrow> bool" where
  "confined x db db' \<longleftrightarrow>
     work_items db' = work_items db \<and> (\<forall>w. w \<noteq> x \<longrightarrow> work_view w db' = work_view w db)"

lemma confined_refl: "confined x db db"
  by (simp add: confined_def)

lemma confined_trans [trans]: "confined x a b \<Longrightarrow> confined x b c \<Longrightarrow> confined x a c"
  by (simp add: confined_def)

lemma item_row_member: "item_row w db = Some r \<Longrightarrow> r \<in> set (work_items db) \<and> wi_id r = w"
  by (auto simp: item_row_def find_Some_iff)

lemma item_row_key: "w \<in> work_keys db \<longleftrightarrow> (\<exists>r. item_row w db = Some r)"
proof -
  have "w \<notin> work_keys db \<longleftrightarrow> item_row w db = None"
    by (auto simp: item_row_def work_keys_def find_None_iff)
  then show ?thesis by (cases "item_row w db") auto
qed

section \<open>Statements\<close>

lemma view_insert_audit: "insert_audit u db = Ok db' \<Longrightarrow> work_view w db' = work_view w db"
  by (auto simp: insert_audit_Ok work_view_def item_row_def owns_run_def)

lemma view_upsert_cursor: "upsert_cursor c db = Ok db' \<Longrightarrow> work_view w db' = work_view w db"
  by (auto simp: upsert_cursor_def work_view_def item_row_def owns_run_def split: if_splits)

lemma confined_audit: "insert_audit u db = Ok db' \<Longrightarrow> confined x db db'"
  by (auto simp: confined_def view_insert_audit) (simp add: insert_audit_Ok)

lemma confined_cursor: "upsert_cursor c db = Ok db' \<Longrightarrow> confined x db db'"
  by (auto simp: confined_def view_upsert_cursor) (auto simp: upsert_cursor_def split: if_splits)

lemma owner_unique:
  assumes "distinct (map rr_id (runs db))" and "owns_run x i db" and "owns_run w i db"
  shows "w = x"
proof -
  from assms(2,3) obtain a b where ab: "a \<in> set (runs db)" "b \<in> set (runs db)" "rr_id a = rr_id b"
    "rr_work_item_id a = x" "rr_work_item_id b = w"
    by (auto simp: owns_run_def list_ex_iff)
  then have "a = b" using assms(1) by (intro distinct_map_inj [of rr_id "runs db"])
  with ab show ?thesis by simp
qed

lemma confined_insert_run:
  "insert_run r db = Ok db' \<Longrightarrow> rr_work_item_id r = x \<Longrightarrow> confined x db db'"
  by (auto simp: confined_def insert_run_Ok work_view_def item_row_def owns_run_def)

lemma owns_run_update:
  assumes "update_runs P f db = Ok (n, db')"
    and "\<And>r. rr_id (f r) = rr_id r" "\<And>r. rr_work_item_id (f r) = rr_work_item_id r"
  shows "owns_run w i db' = owns_run w i db"
proof -
  have "map (\<lambda>r. (rr_id r, rr_work_item_id r)) (runs db') = map (\<lambda>r. (rr_id r, rr_work_item_id r)) (runs db)"
    using assms by (simp add: update_runs_Ok update_where_def)
  then show ?thesis
    unfolding owns_run_iff run_owners_def set_map [symmetric] by simp
qed

lemma filter_update_where:
  assumes "\<And>r. r \<in> set rows \<Longrightarrow> P r \<Longrightarrow> \<not> Q r" and "\<And>r. Q (f r) = Q r"
  shows "filter Q (update_where P f rows) = filter Q rows"
  using assms(1) by (induction rows) (auto simp: update_where_def assms(2))

lemma confined_update_runs:
  assumes upd: "update_runs P f db = Ok (n, db')"
    and own: "\<And>r. r \<in> set (runs db) \<Longrightarrow> P r \<Longrightarrow> rr_work_item_id r = x"
    and keep: "\<And>r. rr_id (f r) = rr_id r" "\<And>r. rr_work_item_id (f r) = rr_work_item_id r"
  shows "confined x db db'"
proof -
  have db': "db' = db\<lparr>runs := update_where P f (runs db)\<rparr>" using upd by (simp add: update_runs_Ok)
  note owns = owns_run_update [OF upd keep]
  have "filter (\<lambda>r. rr_work_item_id r = w) (update_where P f (runs db)) =
      filter (\<lambda>r. rr_work_item_id r = w) (runs db)" if "w \<noteq> x" for w
  proof (rule filter_update_where)
    show "rr_work_item_id r \<noteq> w" if "r \<in> set (runs db)" "P r" for r
      using own [OF that] \<open>w \<noteq> x\<close> by simp
  qed (simp add: keep)
  then show ?thesis by (simp add: confined_def work_view_def item_row_def owns) (simp add: db')
qed

lemma confined_insert_approval:
  assumes "insert_approval a db = Ok db'" and "distinct (map rr_id (runs db))"
    and "owns_run x (ap_run_id a) db"
  shows "confined x db db'"
proof -
  have "\<not> owns_run w (ap_run_id a) db" if "w \<noteq> x" for w
    using owner_unique [OF assms(2,3)] that by blast
  moreover have "owns_run w i db' = owns_run w i db" for w i
    using assms(1) by (simp add: insert_approval_Ok owns_run_def)
  ultimately show ?thesis
    using assms(1) by (simp add: confined_def insert_approval_Ok work_view_def item_row_def)
qed

lemma confined_update_approvals:
  assumes upd: "update_approvals P f db = Ok (n, db')"
    and own: "\<And>a w. a \<in> set (approval_requests db) \<Longrightarrow> P a \<Longrightarrow> owns_run w (ap_run_id a) db \<Longrightarrow> w = x"
    and keep: "\<And>a. ap_run_id (f a) = ap_run_id a"
  shows "confined x db db'"
proof -
  have db': "db' = db\<lparr>approval_requests := update_where P f (approval_requests db)\<rparr>"
    using upd by (simp add: update_approvals_Ok)
  have owns: "owns_run w i db' = owns_run w i db" for w i by (simp add: owns_run_def db')
  have "filter (\<lambda>a. owns_run w (ap_run_id a) db) (update_where P f (approval_requests db)) =
      filter (\<lambda>a. owns_run w (ap_run_id a) db) (approval_requests db)" if "w \<noteq> x" for w
  proof (rule filter_update_where)
    show "\<not> owns_run w (ap_run_id a) db" if "a \<in> set (approval_requests db)" "P a" for a
      using own [OF that, of w] \<open>w \<noteq> x\<close> by blast
  qed (simp add: keep)
  then show ?thesis by (simp add: confined_def work_view_def item_row_def owns) (simp add: db')
qed

lemma confined_insert_timeline_item:
  assumes "insert_timeline_item t db = Ok db'" and "distinct (map rr_id (runs db))"
    and "owns_run x (tl_run_id t) db"
  shows "confined x db db'"
proof -
  have "\<not> owns_run w (tl_run_id t) db" if "w \<noteq> x" for w
    using owner_unique [OF assms(2,3)] that by blast
  moreover have "owns_run w i db' = owns_run w i db" for w i
    using assms(1) by (simp add: insert_timeline_item_Ok owns_run_def)
  ultimately show ?thesis
    using assms(1) by (simp add: confined_def insert_timeline_item_Ok work_view_def item_row_def)
qed

lemma confined_append_items:
  assumes "append_items L b now k is db = Ok db'" and "distinct (map rr_id (runs db))"
    and "owns_run x (tb_run_id b) db"
  shows "confined x db db'"
  using assms
proof (induction "is" arbitrary: k db)
  case Nil
  then show ?case by (simp add: confined_refl)
next
  case (Cons i "is")
  from Cons.prems(1) obtain db1 where
    ins: "insert_timeline_item (new_timeline_row b now (k + 1) i) db = Ok db1"
    and rest: "append_items L b now (k + 1) is db1 = Ok db'" by (rule append_items_step)
  have "confined x db db1"
    by (rule confined_insert_timeline_item [OF ins Cons.prems(2)])
      (simp add: new_timeline_row_def Cons.prems(3))
  moreover have "runs db1 = runs db" using ins by (simp add: insert_timeline_item_Ok)
  then have "confined x db1 db'" using Cons.IH [OF rest] Cons.prems(2,3) by (simp add: owns_run_def)
  ultimately show ?case by (rule confined_trans)
qed

text \<open>The bump itself.\<close>

lemma find_update_where:
  assumes "\<And>r. k (f r) = k r"
  shows "List.find (\<lambda>r. k r = i) (update_where P f rows) =
    map_option (\<lambda>r. if P r then f r else r) (List.find (\<lambda>r. k r = i) rows)"
  using assms by (induction rows) (auto simp: update_where_def)

lemma view_update_items:
  assumes "update_work_items P f db = Ok (n, db')" and "\<And>r. wi_id (f r) = wi_id r"
  shows "item_row w db' = map_option (\<lambda>r. if P r then f r else r) (item_row w db)"
    and "work_view w db' = (work_view w db)\<lparr>wv_item := item_row w db'\<rparr>"
proof -
  have db': "db' = db\<lparr>work_items := update_where P f (work_items db)\<rparr>"
    using assms(1) by (simp add: update_work_items_Ok)
  show "item_row w db' = map_option (\<lambda>r. if P r then f r else r) (item_row w db)"
    using assms(2) by (simp add: item_row_def db' find_update_where)
  show "work_view w db' = (work_view w db)\<lparr>wv_item := item_row w db'\<rparr>"
    by (simp add: work_view_def owns_run_def) (simp add: db')
qed

lemma view_same_item:
  "work_view w db' = (work_view w db)\<lparr>wv_item := item_row w db'\<rparr> \<Longrightarrow> item_row w db' = item_row w db \<Longrightarrow>
     work_view w db' = work_view w db"
  by (simp add: work_view_def)

lemma bump_view:
  assumes "bump_work_item_revision L x t db = Ok db'"
  shows "w \<noteq> x \<Longrightarrow> work_view w db' = work_view w db" and "advances x db db'"
proof -
  from assms obtain n where n: "n \<noteq> 0" and upd: "update_work_items (\<lambda>r. wi_id r = x)
      (\<lambda>r. r\<lparr>wi_revision := wi_revision r + 1, wi_updated_at_ms := t\<rparr>) db = Ok (n, db')"
    by (auto simp: bump_work_item_revision_Ok)
  note v = view_update_items [OF upd, simplified]
  show "work_view w db' = work_view w db" if "w \<noteq> x"
  proof (rule view_same_item [OF v(2)])
    show "item_row w db' = item_row w db"
      using that item_row_member [of w db] by (cases "item_row w db") (auto simp: v(1))
  qed
  have "x \<in> work_keys db"
    using upd n by (auto simp: update_work_items_Ok work_keys_def)
  then obtain r where r: "item_row x db = Some r" by (auto simp: item_row_key)
  with item_row_member [OF r] show "advances x db db'" by (simp add: advances_def v(1))
qed

lemma confined_bump:
  assumes "confined x db db1" and "bump_work_item_revision L x t db1 = Ok db'"
  shows "work_view w db' = work_view w db \<or> advances w db db'"
proof (cases "w = x")
  case True
  have "item_row x db1 = item_row x db" using assms(1) by (simp add: confined_def item_row_def)
  then show ?thesis using bump_view(2) [OF assms(2)] True by (simp add: advances_def)
next
  case False
  then show ?thesis using bump_view(1) [OF assms(2) False] assms(1) by (simp add: confined_def)
qed

section \<open>Operations\<close>

lemma run_ids_distinct: "store_inv L db \<Longrightarrow> distinct (map rr_id (runs db))"
  by (simp add: store_inv_def core_inv_def run_inv_def)

lemma found_run_owned:
  "List.find (\<lambda>r. rr_id r = i) (runs db) = Some r \<Longrightarrow> owns_run (rr_work_item_id r) i db"
  by (auto simp: owns_run_def list_ex_iff find_Some_iff intro!: bexI [of _ r])

lemma view_create_work_item:
  assumes inv: "store_inv L db" and res: "create_work_item L now c db = (Ok s, db')"
    and w: "w \<in> work_keys db"
  shows "work_view w db' = work_view w db"
  using create_work_item_Ok [OF res]
proof (elim disjE exE conjE)
  fix db1
  assume ins: "insert_work_item (new_work_item_row now c) db = Ok db1"
    and edge: "insert_parent_edge L c db1 = Ok db'"
  have fresh: "cw_id c \<notin> work_keys db" and db1: "db1 = db\<lparr>work_items := work_items db @ [new_work_item_row now c]\<rparr>"
    using ins by (auto simp: insert_work_item_Ok new_work_item_row_def work_keys_def)
  have wc: "cw_id c \<noteq> w" using fresh w by auto
  have "work_view w db1 = work_view w db"
    using w by (auto simp: work_view_def item_row_def owns_run_def db1 find_append item_row_key
        [unfolded item_row_def])
  moreover have "work_view w db' = work_view w db1"
    using edge wc
    by (auto simp: insert_parent_edge_def insert_work_edge_Ok work_view_def item_row_def owns_run_def
        parent_of_def find_append split: option.splits)
  ultimately show ?thesis by simp
qed simp

lemma view_archive:
  assumes inv: "store_inv L db" and res: "archive_work_subtree L now root db = Some (Ok n, db')"
  shows "work_view w db' = work_view w db \<or> advances w db db'"
proof -
  have "work_inv db" using inv by (simp add: store_inv_def core_inv_def)
  then obtain sub m where upd: "update_work_items (\<lambda>r. wi_id r \<in> set sub \<and> wi_status r \<noteq> ''archived'')
      (archive_row now) db = Ok (m, db')"
    using res by (rule archive_work_subtree_Ok)
  have "wi_id (archive_row now r) = wi_id r" for r by (simp add: archive_row_def)
  note v = view_update_items [OF upd this]
  show ?thesis
  proof (cases "item_row w db")
    case None
    then show ?thesis using view_same_item [OF v(2)] by (simp add: v(1))
  next
    case (Some r)
    show ?thesis
    proof (cases "wi_id r \<in> set sub \<and> wi_status r \<noteq> ''archived''")
      case True
      then show ?thesis using Some by (simp add: advances_def v(1) archive_row_def)
    next
      case False
      then show ?thesis using view_same_item [OF v(2)] Some by (auto simp: v(1))
    qed
  qed
qed

lemma view_create_run:
  assumes "create_run L now c db = (Ok s, db')"
  shows "work_view w db' = work_view w db \<or> advances w db db'"
  using create_run_Ok [OF assms]
proof (elim disjE exE conjE)
  fix db1
  assume "insert_run (new_run_row now c) db = Ok db1"
  then have "confined (cr_work_item_id c) db db1"
    by (rule confined_insert_run) (simp add: new_run_row_def)
  moreover assume "bump_work_item_revision L (cr_work_item_id c) now db1 = Ok db'"
  ultimately show ?thesis by (rule confined_bump)
qed simp

lemma fetched_run_owned:
  "fetch_run L i db = Ok run \<Longrightarrow> owns_run (rs_work_item_id run) i db"
  by (auto simp: fetch_run_def find_run_def query_optional_def sql_def run_from_row_def result_simps
      case_option_Ok dest!: found_run_owned split: option.splits)

lemma view_transition:
  assumes inv: "store_inv L db" and res: "apply_run_transition L c db = Ok (s, db')"
  shows "work_view w db' = work_view w db \<or> advances w db db'"
  using res
proof (rule apply_run_transition_Ok)
  fix run :: run_snapshot and n db1 voided db2 db3
  let ?x = "rs_work_item_id run"
  assume fetch: "fetch_run L (tr_run_id c) db = Ok run"
    and upd: "update_runs (\<lambda>r. rr_id r = tr_run_id c \<and>
      rr_status r = run_status_value (tr_expected_current c)) (transition_row c) db = Ok (n, db1)"
    and void: "void_pending_approvals L c db1 = Ok (voided, db2)"
    and audit: "insert_audit (run_transition_audit L c voided) db2 = Ok db3"
    and bump: "bump_work_item_revision L ?x (tr_occurred_at c) db3 = Ok db'"
  have dist: "distinct (map rr_id (runs db))" using inv by (rule run_ids_distinct)
  have own: "owns_run ?x (tr_run_id c) db" using fetch by (rule fetched_run_owned)
  have 1: "confined ?x db db1"
    using upd
  proof (rule confined_update_runs)
    fix r assume r: "r \<in> set (runs db)" "rr_id r = tr_run_id c \<and> rr_status r = run_status_value (tr_expected_current c)"
    then have "owns_run (rr_work_item_id r) (tr_run_id c) db" by (auto simp: owns_run_def list_ex_iff)
    then show "rr_work_item_id r = ?x" using dist own by (blast dest: owner_unique)
  qed simp_all
  have dist1: "distinct (map rr_id (runs db1))"
    using upd dist by (simp add: update_runs_Ok map_update_where)
  have own1: "owns_run ?x (tr_run_id c) db1"
    using own owns_run_update [OF upd] by simp
  have "confined ?x db1 db2"
  proof (cases "is_terminal (tr_target c)")
    case True
    with void have "update_approvals (\<lambda>a. ap_run_id a = tr_run_id c \<and> ap_status a = ''pending'')
        (void_row (tr_occurred_at c)) db1 = Ok (voided, db2)"
      by (simp add: void_pending_approvals_def)
    then show ?thesis
    proof (rule confined_update_approvals)
      fix a v assume "ap_run_id a = tr_run_id c \<and> ap_status a = ''pending''" "owns_run v (ap_run_id a) db1"
      then show "v = ?x" using owner_unique [OF dist1 own1] by simp
    qed simp
  next
    case False
    with void show ?thesis by (simp add: void_pending_approvals_def confined_refl)
  qed
  with 1 have "confined ?x db db2" by (rule confined_trans)
  then have "confined ?x db db3" using confined_audit [OF audit] by (rule confined_trans)
  then show ?thesis using bump by (rule confined_bump)
qed

lemma view_transition_run:
  "store_inv L db \<Longrightarrow> transition_run L c db = (Ok s, db') \<Longrightarrow>
     work_view w db' = work_view w db \<or> advances w db db'"
  by (auto simp: transition_run_def job_simps dest: view_transition)

lemma view_append:
  assumes inv: "store_inv L db" and res: "append_timeline_batch L now b db = (Ok cur, db')"
  shows "work_view w db' = work_view w db \<or> advances w db db'"
  using res
proof (cases rule: append_timeline_batch_cases)
  case (append r expected cursor)
  let ?x = "rr_work_item_id r"
  from append(7) obtain db1 db2 where
    items: "append_items L b now (max_revision (tb_run_id b) db) (tb_items b) db = Ok db1"
    and up: "upsert_cursor (new_cursor_row b now (timeline_payload_digest L (tb_items b)) expected
        (expected + int (length (tb_items b)))) db1 = Ok db2"
    and bump: "bump_work_item_revision L ?x now db2 = Ok db'"
    by (rule append_new_Ok)
  have "confined ?x db db1"
    using items run_ids_distinct [OF inv] found_run_owned [OF append(2)] by (rule confined_append_items)
  then have "confined ?x db db2" using confined_cursor [OF up] by (rule confined_trans)
  then show ?thesis using bump by (rule confined_bump)
qed simp

lemma view_record_approval:
  assumes inv: "store_inv L db" and res: "record_pending_approval L now a db = (Ok s, db')"
  shows "work_view w db' = work_view w db \<or> advances w db db'"
  using record_pending_approval_Ok [OF res]
proof (elim disjE exE conjE)
  fix r db1
  assume ins: "insert_approval (new_approval_row now (rr_connection_id r) a) db = Ok db1"
    and find: "List.find (\<lambda>r. rr_id r = pa_run_id a) (runs db) = Some r"
  have "confined (rr_work_item_id r) db db1"
    by (rule confined_insert_approval [OF ins run_ids_distinct [OF inv]])
      (simp add: new_approval_row_def found_run_owned [OF find])
  moreover assume "bump_work_item_revision L (rr_work_item_id r) now db1 = Ok db'"
  ultimately show ?thesis by (rule confined_bump)
qed simp

text \<open>An approval's run exists, so the join of the two tables finds its work item.\<close>

lemma approval_owner:
  assumes inv: "store_inv L db" and a: "a \<in> set (approval_requests db)"
  obtains x where "approval_work_item db (ap_id a) = Some x" "owns_run x (ap_run_id a) db"
proof -
  have dist: "distinct (map ap_id (approval_requests db))" and "approval_check db a"
    using inv a by (auto simp: store_inv_def core_inv_def approval_inv_def)
  then have "\<exists>r\<in>set (runs db). rr_id r = ap_run_id a"
    by (auto simp: approval_check_def has_run_def)
  then obtain r where r: "List.find (\<lambda>r. rr_id r = ap_run_id a) (runs db) = Some r"
    using find_None_iff' [of "\<lambda>r. rr_id r = ap_run_id a" "runs db"] by fastforce
  have "List.find (\<lambda>b. ap_id b = ap_id a) (approval_requests db) = Some a"
    using dist a by (rule find_key)
  with r found_run_owned [OF r] show thesis by (intro that) (auto simp: approval_work_item_def)
qed

lemma confined_one_approval:
  assumes inv: "store_inv L db"
    and upd: "update_approvals (\<lambda>a. ap_id a = i \<and> Q a) f db = Ok (n, db1)" and n: "n \<noteq> 0"
    and keep: "\<And>a. ap_run_id (f a) = ap_run_id a"
  obtains x where "approval_work_item db i = Some x" "confined x db db1"
proof -
  obtain a where a: "a \<in> set (approval_requests db)" "ap_id a = i"
    using upd n by (auto simp: update_approvals_Ok)
  obtain x where x: "approval_work_item db (ap_id a) = Some x" "owns_run x (ap_run_id a) db"
    using inv a(1) by (rule approval_owner)
  have dist: "distinct (map ap_id (approval_requests db))"
    using inv by (auto simp: store_inv_def core_inv_def approval_inv_def)
  have "confined x db db1"
    using upd
  proof (rule confined_update_approvals)
    fix b w assume b: "b \<in> set (approval_requests db)" "ap_id b = i \<and> Q b" "owns_run w (ap_run_id b) db"
    then have "b = a" using a dist by (intro distinct_map_inj [of ap_id "approval_requests db"]) auto
    with b x(2) show "w = x" using owner_unique [OF run_ids_distinct [OF inv]] by blast
  qed (rule keep)
  with x(1) a(2) show thesis by (intro that) simp_all
qed

lemma view_begin_approval:
  assumes inv: "store_inv L db" and res: "begin_approval_response L now c db = (Ok s, db')"
  shows "work_view w db' = work_view w db \<or> advances w db db'"
  using res
proof (rule begin_approval_response_Ok)
  fix n db1 db2
  assume upd: "update_approvals (\<lambda>a. ap_id a = ba_approval_id c \<and> ap_status a = ''pending'')
      (begin_row now (ba_decision c)) db = Ok (n, db1)" "n \<noteq> 0"
    and audit: "insert_audit (approval_audit L (ba_audit_event_id c) ''approval_response_begun''
      (ba_approval_id c) (ba_decision c) now) db1 = Ok db2"
    and bump: "bump_if_known L (approval_work_item db (ba_approval_id c)) now db2 = Ok db'"
  obtain x where x: "approval_work_item db (ba_approval_id c) = Some x" "confined x db db1"
    using inv upd by (rule confined_one_approval) simp
  from x(2) confined_audit [OF audit] have "confined x db db2" by (rule confined_trans)
  moreover have "bump_work_item_revision L x now db2 = Ok db'"
    using bump by (simp add: x(1) bump_if_known_def)
  ultimately show ?thesis by (rule confined_bump)
qed

lemma view_confirm_approval:
  assumes inv: "store_inv L db" and res: "confirm_approval_response L now c db = (Ok s, db')"
  shows "work_view w db' = work_view w db \<or> advances w db db'"
  using res
proof (rule confirm_approval_response_Ok)
  fix n db1 db2 d
  assume upd: "update_approvals (\<lambda>a. ap_id a = ca_approval_id c \<and> ap_status a = ''responding'')
      (resolve_row now) db = Ok (n, db1)" "n \<noteq> 0"
    and bump: "bump_if_known L (approval_work_item db (ca_approval_id c)) now db1 = Ok db2"
    and audit: "insert_audit (approval_audit L (ca_audit_event_id c) ''approval_response_confirmed''
      (ca_approval_id c) d now) db2 = Ok db'"
  obtain x where x: "approval_work_item db (ca_approval_id c) = Some x" "confined x db db1"
    using inv upd by (rule confined_one_approval) simp
  have "bump_work_item_revision L x now db1 = Ok db2"
    using bump by (simp add: x(1) bump_if_known_def)
  with x(2) have "work_view w db2 = work_view w db \<or> advances w db db2" by (rule confined_bump)
  moreover have "work_view w db' = work_view w db2" "item_row w db' = item_row w db2"
    using view_insert_audit [OF audit] audit by (simp_all add: item_row_def insert_audit_Ok)
  ultimately show ?thesis by (simp add: advances_def)
qed

section \<open>The revision is a version of the view\<close>

lemma view_unchanged: "work_view w db' = work_view w db \<Longrightarrow> item_row w db' = item_row w db"
  by (simp add: work_view_def)

lemma view_result:
  assumes "\<And>e. r = Err e \<Longrightarrow> db' = db"
    and "\<And>s. r = Ok s \<Longrightarrow> work_view w db' = work_view w db \<or> advances w db db'"
  shows "work_view w db' = work_view w db \<or> advances w db db'"
proof (cases r)
  case (Inl e)
  then have "db' = db" by (rule assms(1))
  then show ?thesis by simp
next
  case (Inr s)
  then show ?thesis by (rule assms(2))
qed

lemma view_create_project:
  assumes "create_project L now c db = (Ok s, db')"
  shows "work_view w db' = work_view w db"
proof -
  from assms have "db' = db \<or> (\<exists>p. db' = db\<lparr>projects := p\<rparr>)"
    by (auto simp: create_project_def job_simps result_simps insert_project_Ok
        split: option.splits if_splits)
  then show ?thesis by (auto simp: work_view_def item_row_def owns_run_def)
qed

lemma view_put_artifact:
  assumes "put_artifact_metadata L a db = (Ok s, db')"
  shows "work_view w db' = work_view w db"
proof -
  obtain t where "db' = db\<lparr>artifacts := t\<rparr>"
    using put_artifact_metadata_effect(1) [OF assms] ..
  then show ?thesis by (simp add: work_view_def item_row_def owns_run_def)
qed

lemma view_step:
  assumes inv: "store_inv L db" and step: "store_step L db db'" and w: "w \<in> work_keys db"
  shows "work_view w db' = work_view w db \<or> advances w db db'"
  using step
proof cases
  case (step_create_project now c r)
  show ?thesis
    by (rule view_result [of r]) (use step_create_project failed_operations(1) in blast, use step_create_project view_create_project in blast)
next
  case (step_create_work_item now c r)
  show ?thesis
    by (rule view_result [of r]) (use step_create_work_item failed_operations(2) in blast, use step_create_work_item view_create_work_item [OF inv _ w] in blast)
next
  case (step_archive now root r)
  show ?thesis
    by (rule view_result [of r]) (use step_archive archive_Err in blast, use step_archive view_archive [OF inv] in blast)
next
  case (step_create_run c now r)
  show ?thesis
    by (rule view_result [of r]) (use step_create_run failed_operations(3) in blast, use step_create_run view_create_run in blast)
next
  case (step_transition_run c r)
  show ?thesis
    by (rule view_result [of r]) (use step_transition_run failed_operations(4) in blast, use step_transition_run view_transition_run [OF inv] in blast)
next
  case (step_append b now r)
  show ?thesis
    by (rule view_result [of r]) (use step_append failed_operations(5) in blast, use step_append view_append [OF inv] in blast)
next
  case (step_record_approval a now r)
  show ?thesis
    by (rule view_result [of r]) (use step_record_approval failed_operations(6) in blast, use step_record_approval view_record_approval [OF inv] in blast)
next
  case (step_begin_approval now c r)
  show ?thesis
    by (rule view_result [of r]) (use step_begin_approval failed_operations(7) in blast, use step_begin_approval view_begin_approval [OF inv] in blast)
next
  case (step_confirm_approval now c r)
  show ?thesis
    by (rule view_result [of r]) (use step_confirm_approval failed_operations(8) in blast, use step_confirm_approval view_confirm_approval [OF inv] in blast)
next
  case (step_put_artifact a r)
  show ?thesis
    by (rule view_result [of r]) (use step_put_artifact failed_operations(9) in blast, use step_put_artifact view_put_artifact in blast)
qed

lemma advances_keys: "advances w db db' \<Longrightarrow> w \<in> work_keys db'"
  by (auto simp: advances_def item_row_key)

lemma advances_trans: "advances w a b \<Longrightarrow> advances w b c \<Longrightarrow> advances w a c"
  by (auto simp: advances_def)

lemma view_steps:
  assumes "reachable L db" and "(store_step L)\<^sup>*\<^sup>* db db'" and "w \<in> work_keys db"
  shows "work_view w db' = work_view w db \<or> advances w db db'"
  using assms(2)
proof (induction rule: rtranclp_induct)
  case base
  then show ?case by simp
next
  case (step y z)
  have y: "store_inv L y" using assms(1) step(1) reachable_steps store_inv_reachable by blast
  have wy: "w \<in> work_keys y"
    using step.IH assms(3) advances_keys view_unchanged [of w y db] by (auto simp: item_row_key)
  have "work_view w z = work_view w y \<or> advances w y z" using y step(2) wy by (rule view_step)
  then show ?case
    using step.IH advances_trans view_unchanged [of w y db] view_unchanged [of w z y]
    by (auto simp: advances_def)
qed

end
