(* ===== verification/Ports.thy ===== *)
theory Ports
  imports Secrets
begin

text \<open>
  The ports through which the desktop interface reaches the configuration, the secrets, the cache and
  the artifacts (\<^verbatim>\<open>crates/yakshed-application/src/lib.rs\<close>): the values they exchange and their errors.
  A port is a record of operations on a state of its provider. The errors of the secret port are in
  \<^verbatim>\<open>Secrets\<close>, which produces them.
\<close>

section \<open>Public connections\<close>

datatype public_credential_source =
  PublicDelegated string
| PublicSecret secret_backend_id secret_locator
| PublicDisabled

record public_credential_binding =
  pcb_slot :: credential_slot
  pcb_source :: public_credential_source

record public_connection =
  pc_id :: connection_id
  pc_name :: string
  pc_harness :: string
  pc_model_provider :: string
  pc_provider_state :: provider_state_root_id
  pc_credentials :: "public_credential_binding list"

datatype migration_pending_reason =
  MigrationLocked | MigrationDenied | MigrationUnavailable | MigrationCollision
| MigrationMissingSource | MigrationSourceInUse | MigrationTargetInUse | MigrationFailed
| MigrationCleanupRequired

datatype credential_migration_status =
  MigrationReady
| MigrationPending migration_pending_reason

record public_connection_list =
  pcl_config_revision :: config_revision
  pcl_connections :: "public_connection list"
  pcl_credential_migration :: credential_migration_status

record config_connection_snapshot =
  ccs_config_revision :: config_revision
  ccs_connection :: public_connection

section \<open>Commands and errors\<close>

record put_connection_cmd =
  pcc_expected_config_revision :: config_revision
  pcc_connection :: connection

record set_connection_credential_cmd =
  scc_connection_id :: connection_id
  scc_slot :: credential_slot
  scc_value :: string
  scc_overwrite :: bool

record secret_write_outcome =
  swo_overwritten :: bool

record open_artifact_cmd =
  oa_artifact_id :: artifact_id
  oa_max_bytes :: u64

record open_artifact_payload =
  oap_artifact :: artifact_record
  oap_bytes :: "byte list"

datatype config_port_error =
  ConfigPortConflict config_revision config_revision
| ConfigPortValidation
| ConfigPortCredentialRequirement string
| ConfigPortNotFound
| ConfigPortUnsupported
| ConfigPortMigrationPending
| ConfigPortUnavailable

datatype cache_port_error = CachePortFailed

datatype artifact_port_error = ArtifactPortNotFound | ArtifactPortTooLarge | ArtifactPortFailed

section \<open>The ports\<close>

record 's config_port =
  cp_put_connection :: "put_connection_cmd \<Rightarrow> 's \<Rightarrow> (config_port_error + config_snapshot) \<times> 's"
  cp_get_connection :: "connection_id \<Rightarrow> 's \<Rightarrow> config_port_error + config_connection_snapshot"
  cp_list_connections :: "'s \<Rightarrow> config_port_error + public_connection_list"

record 's secret_port =
  sp_set_connection_credential ::
    "set_connection_credential_cmd \<Rightarrow> 's \<Rightarrow> (secret_port_error + secret_write_outcome) \<times> 's"

record 's cache_port =
  ca_clear :: "'s \<Rightarrow> (cache_port_error + unit) \<times> 's"

record 's artifact_port =
  ap_list :: "work_item_id \<Rightarrow> 's \<Rightarrow> artifact_port_error + artifact_record list"
  ap_open :: "open_artifact_cmd \<Rightarrow> 's \<Rightarrow> artifact_port_error + open_artifact_payload"

section \<open>Accounts\<close>

text \<open>\<open>AccountStatus\<close> of \<^verbatim>\<open>run_supervisor.rs\<close>.\<close>

datatype account_status =
  AccountNotAuthenticated
| AccountLoginInProgress string string
| AccountAuthenticated "string option" string
| AccountStatusUnknown

end
