(* ===== verification/Desktop.thy ===== *)
theory Desktop
  imports Ports Supervisor_Runs
begin

text \<open>
  The frontend-safe types of \<^verbatim>\<open>crates/yakshed-desktop-api/src/lib.rs\<close> and \<^verbatim>\<open>ipc.rs\<close>, the translation
  of the application's values, events and errors into them, and of the front end's connections back
  into the domain. The \<^verbatim>\<open>url\<close> crate is a parameter: a parser that returns the parts the code looks at.
\<close>

section \<open>Errors\<close>

datatype desktop_error_code =
  CodeInvalidRequest | CodeConflict | CodeNotFound | CodeUnsupported | CodeBackendUnavailable
| CodeNotAuthenticated | CodePersistenceError | CodeOutcomeUnknown | CodeInternalError

datatype startup_error_code = StartupCodePersistence | StartupCodeInternal

record startup_error =
  se_code :: startup_error_code
  se_message :: string

definition startup_error_persistence :: startup_error where
  "startup_error_persistence =
     \<lparr>se_code = StartupCodePersistence, se_message = ''persistence startup failed''\<rparr>"

definition startup_error_internal :: startup_error where
  "startup_error_internal =
     \<lparr>se_code = StartupCodeInternal, se_message = ''desktop startup failed''\<rparr>"

record desktop_error =
  de_code :: desktop_error_code
  de_message :: string
  de_detail :: "string option"

definition desktop_error_new :: "desktop_error_code \<Rightarrow> string \<Rightarrow> desktop_error" where
  "desktop_error_new c m = \<lparr>de_code = c, de_message = m, de_detail = None\<rparr>"

definition invalid_request_error :: "string \<Rightarrow> desktop_error" where
  "invalid_request_error m = desktop_error_new CodeInvalidRequest m"

definition not_found_error :: "string \<Rightarrow> desktop_error" where
  "not_found_error m = desktop_error_new CodeNotFound m"

definition conflict_error :: "string \<Rightarrow> desktop_error" where
  "conflict_error m = desktop_error_new CodeConflict m"

definition unsupported_error :: "string \<Rightarrow> desktop_error" where
  "unsupported_error m = desktop_error_new CodeUnsupported m"

definition outcome_unknown_error :: "string \<Rightarrow> desktop_error" where
  "outcome_unknown_error operation =
     \<lparr>de_code = CodeOutcomeUnknown, de_message = ''operation outcome is uncertain'',
      de_detail = Some operation\<rparr>"

fun map_startup_error :: "orchestration_error \<Rightarrow> startup_error" where
  "map_startup_error (StoreFailed _) = startup_error_persistence"
| "map_startup_error _ = startup_error_internal"

fun map_store_error :: "store_error \<Rightarrow> desktop_error" where
  "map_store_error (NotFound _ _) = not_found_error ''record not found''"
| "map_store_error (Conflict _) = conflict_error ''state conflict''"
| "map_store_error (UnsupportedNewerSchema _ _) = unsupported_error ''unsupported persistence schema''"
| "map_store_error Closed = unsupported_error ''persistence backend closed''"
| "map_store_error (Open _) = desktop_error_new CodePersistenceError ''persistence failure''"
| "map_store_error (Migration _) = desktop_error_new CodePersistenceError ''persistence failure''"
| "map_store_error (Integrity _) = desktop_error_new CodePersistenceError ''persistence failure''"
| "map_store_error (Backend _) = desktop_error_new CodeInternalError ''persistence failed''"

fun map_run_error :: "orchestration_error \<Rightarrow> desktop_error" where
  "map_run_error (HarnessFailed e) =
     (case e of
        PortOutcomeUnknown operation \<Rightarrow> outcome_unknown_error operation
      | PortNotFound _ \<Rightarrow> not_found_error ''run artifact not found''
      | PortConflict _ \<Rightarrow> conflict_error ''run action conflicts with current state''
      | PortUnsupported _ \<Rightarrow> unsupported_error ''operation unsupported''
      | PortNotAuthenticated \<Rightarrow>
          desktop_error_new CodeNotAuthenticated ''connection is not authenticated''
      | PortDisconnected \<Rightarrow> unsupported_error ''harness disconnected''
      | PortOverloaded \<Rightarrow> unsupported_error ''harness overloaded''
      | PortInvalidInput _ \<Rightarrow> invalid_request_error ''request is invalid''
      | PortProtocol _ \<Rightarrow> invalid_request_error ''request is invalid''
      | PortTransport _ \<Rightarrow> invalid_request_error ''request is invalid''
      | PortRuntime _ \<Rightarrow> invalid_request_error ''request is invalid''
      | PortClosed \<Rightarrow> unsupported_error ''harness closed'')"
| "map_run_error (StoreFailed e) = map_store_error e"
| "map_run_error (RunNotActive _) = not_found_error ''run is not active''"
| "map_run_error (RunNeedsReconciliation _) = outcome_unknown_error ''reconcile_run''"
| "map_run_error (ApprovalNotPending _) = invalid_request_error ''approval is not pending''"
| "map_run_error (ApprovalDecisionConflict _) =
     conflict_error ''approval decision conflicts with in-flight response''"
| "map_run_error (UserInputNotPending _) = invalid_request_error ''user input is not pending''"
| "map_run_error (InvalidProviderId _) = invalid_request_error ''provider identifier is invalid''"

fun map_config_error :: "config_port_error \<Rightarrow> desktop_error" where
  "map_config_error (ConfigPortConflict _ _) = conflict_error ''configuration revision conflict''"
| "map_config_error ConfigPortValidation = invalid_request_error ''configuration is invalid''"
| "map_config_error (ConfigPortCredentialRequirement remediation) =
     \<lparr>de_code = CodeInvalidRequest, de_message = ''credential requirement is not satisfied'',
      de_detail = Some remediation\<rparr>"
| "map_config_error ConfigPortMigrationPending = conflict_error ''credential migration is pending''"
| "map_config_error ConfigPortNotFound = not_found_error ''configuration entry not found''"
| "map_config_error ConfigPortUnsupported = unsupported_error ''configuration unavailable''"
| "map_config_error ConfigPortUnavailable = unsupported_error ''configuration unavailable''"

fun map_secret_error :: "secret_port_error \<Rightarrow> desktop_error" where
  "map_secret_error PortConnectionNotFound = not_found_error ''connection or binding not found''"
| "map_secret_error PortBindingNotFound = not_found_error ''connection or binding not found''"
| "map_secret_error PortBackendUnavailable =
     desktop_error_new CodeBackendUnavailable ''secret backend unavailable''"
| "map_secret_error PortLocked = invalid_request_error ''secret backend is locked''"
| "map_secret_error PortDenied = unsupported_error ''secret backend denied access''"
| "map_secret_error PortAuthenticationRequired =
     unsupported_error ''secret backend authentication required''"
| "map_secret_error PortAlreadyExists = conflict_error ''credential already exists''"
| "map_secret_error PortUncertainWrite = outcome_unknown_error ''secret write uncertain''"
| "map_secret_error PortMigrationPending = conflict_error ''credential migration is pending''"
| "map_secret_error PortNotSecretBacked =
     unsupported_error ''credential binding is not secret-backed''"
| "map_secret_error PortResolveOnly = unsupported_error ''secret backend is resolve-only''"
| "map_secret_error PortFailed = desktop_error_new CodePersistenceError ''secret write failed''"

fun map_cache_error :: "cache_port_error \<Rightarrow> desktop_error" where
  "map_cache_error CachePortFailed = desktop_error_new CodePersistenceError ''cache write failed''"

fun map_artifact_error :: "artifact_port_error \<Rightarrow> desktop_error" where
  "map_artifact_error ArtifactPortNotFound = not_found_error ''artifact not found''"
| "map_artifact_error ArtifactPortTooLarge = unsupported_error ''artifact exceeds requested size''"
| "map_artifact_error ArtifactPortFailed =
     desktop_error_new CodePersistenceError ''artifact operation failed''"

section \<open>Accounts\<close>

record parsed_url =
  url_scheme :: string
  url_host :: "string option"
  url_port :: "nat option"
  url_username :: string
  url_password :: "string option"

definition MAX_AUTH_URL_BYTES :: nat where
  "MAX_AUTH_URL_BYTES = 8 * 1024"

definition invalid_account_auth_url :: desktop_error where
  "invalid_account_auth_url = invalid_request_error ''provider returned an invalid authentication URL''"

definition validate_account_auth_url ::
    "(string \<Rightarrow> string + parsed_url) \<Rightarrow> string \<Rightarrow> desktop_error + string" where
  "validate_account_auth_url parse auth_url =
     and_then (ensure (\<not> length auth_url > MAX_AUTH_URL_BYTES) invalid_account_auth_url) (\<lambda>_.
     and_then (map_err (\<lambda>_. invalid_account_auth_url) (parse auth_url)) (\<lambda>u.
     if url_scheme u \<noteq> ''https'' \<or>
        url_host u \<notin> {Some ''auth.openai.com'', Some ''chatgpt.com''} \<or>
        url_port u \<noteq> None \<or> url_username u \<noteq> [] \<or> url_password u \<noteq> None
     then Err invalid_account_auth_url else Ok auth_url))"

datatype frontend_account_status =
  FrontNotAuthenticated
| FrontLoginInProgress string string
| FrontAuthenticated "string option" string
| FrontAccountUnknown

fun frontend_account_status_of ::
    "(string \<Rightarrow> string + parsed_url) \<Rightarrow> account_status \<Rightarrow> desktop_error + frontend_account_status" where
  "frontend_account_status_of parse AccountNotAuthenticated = Ok FrontNotAuthenticated"
| "frontend_account_status_of parse (AccountLoginInProgress login_id auth_url) =
     map_ok (FrontLoginInProgress login_id) (validate_account_auth_url parse auth_url)"
| "frontend_account_status_of parse (AccountAuthenticated email plan) = Ok (FrontAuthenticated email plan)"
| "frontend_account_status_of parse AccountStatusUnknown = Ok FrontAccountUnknown"

section \<open>Snapshots\<close>

datatype frontend_run_status =
  FrontStarting | FrontRunning | FrontCompleted | FrontFailed | FrontInterrupted
| FrontDisconnected | FrontOutcomeUnknown

fun map_run_status :: "run_status \<Rightarrow> frontend_run_status" where
  "map_run_status Starting = FrontStarting"
| "map_run_status Running = FrontRunning"
| "map_run_status Completed = FrontCompleted"
| "map_run_status Failed = FrontFailed"
| "map_run_status Interrupted = FrontInterrupted"
| "map_run_status Disconnected = FrontDisconnected"
| "map_run_status OutcomeUnknown = FrontOutcomeUnknown"

record frontend_work_item_snapshot =
  fw_id :: string
  fw_project_id :: string
  fw_title :: string
  fw_status :: string
  fw_parent_id :: "string option"
  fw_revision :: u64
  fw_created_at_ms :: int
  fw_updated_at_ms :: int

definition frontend_work_item :: "'z libs_scheme \<Rightarrow> work_item_snapshot \<Rightarrow> frontend_work_item_snapshot" where
  "frontend_work_item L i =
     \<lparr>fw_id = id_text L (ws_id i), fw_project_id = id_text L (ws_project_id i),
      fw_title = ws_title i,
      fw_status = (case ws_status i of Ready \<Rightarrow> ''ready'' | Archived \<Rightarrow> ''archived''),
      fw_parent_id = map_option (id_text L) (ws_parent_id i), fw_revision = ws_revision i,
      fw_created_at_ms = ws_created_at i, fw_updated_at_ms = ws_updated_at i\<rparr>"

record frontend_run_snapshot =
  fr_id :: string
  fr_connection_id :: string
  fr_work_item_id :: string
  fr_status :: frontend_run_status
  fr_created_at_ms :: int
  fr_ended_at_ms :: "int option"

definition frontend_run :: "'z libs_scheme \<Rightarrow> run_snapshot \<Rightarrow> frontend_run_snapshot" where
  "frontend_run L r =
     \<lparr>fr_id = id_text L (rs_id r), fr_connection_id = id_text L (rs_connection_id r),
      fr_work_item_id = id_text L (rs_work_item_id r), fr_status = map_run_status (rs_status r),
      fr_created_at_ms = rs_created_at r, fr_ended_at_ms = rs_ended_at r\<rparr>"

fun approval_decision_text :: "approval_decision \<Rightarrow> string" where
  "approval_decision_text Approved = ''approved''"
| "approval_decision_text Denied = ''denied''"

record frontend_approval_snapshot =
  fa_id :: string
  fa_connection_id :: string
  fa_run_id :: string
  fa_kind :: string
  fa_summary :: string
  fa_status :: string
  fa_decision :: "string option"
  fa_requested_at_ms :: int
  fa_response_started_at_ms :: "int option"
  fa_resolved_at_ms :: "int option"
  fa_voided_at_ms :: "int option"

definition frontend_approval :: "'z libs_scheme \<Rightarrow> approval_snapshot \<Rightarrow> frontend_approval_snapshot" where
  "frontend_approval L a =
     (let (status, decision) =
        (case as_status a of
           Pending \<Rightarrow> (''pending'', None)
         | Responding d \<Rightarrow> (''responding'', Some (approval_decision_text d))
         | Resolved d \<Rightarrow> (''resolved'', Some (approval_decision_text d))
         | Voided d \<Rightarrow> (''voided'', map_option approval_decision_text d)) in
      \<lparr>fa_id = id_text L (as_id a), fa_connection_id = id_text L (as_connection_id a),
       fa_run_id = id_text L (as_run_id a), fa_kind = as_kind a, fa_summary = as_summary a,
       fa_status = status, fa_decision = decision, fa_requested_at_ms = as_requested_at a,
       fa_response_started_at_ms = as_response_started_at a, fa_resolved_at_ms = as_resolved_at a,
       fa_voided_at_ms = as_voided_at a\<rparr>)"

record frontend_timeline_item_snapshot =
  ft_id :: string
  ft_connection_id :: string
  ft_run_id :: string
  ft_revision :: u64
  ft_kind :: string
  ft_body :: string
  ft_created_at_ms :: int

definition frontend_timeline_item ::
    "'z libs_scheme \<Rightarrow> timeline_item_snapshot \<Rightarrow> frontend_timeline_item_snapshot" where
  "frontend_timeline_item L t =
     \<lparr>ft_id = id_text L (ts_id t), ft_connection_id = id_text L (ts_connection_id t),
      ft_run_id = id_text L (ts_run_id t), ft_revision = ts_revision t, ft_kind = ts_kind t,
      ft_body = ts_body t, ft_created_at_ms = ts_created_at t\<rparr>"

record frontend_pending_user_input =
  fu_id :: string
  fu_run_id :: string
  fu_prompt :: string

definition frontend_user_input ::
    "'z libs_scheme \<Rightarrow> pending_user_input_snapshot \<Rightarrow> frontend_pending_user_input" where
  "frontend_user_input L u =
     \<lparr>fu_id = id_text L (ui_id u), fu_run_id = id_text L (ui_run_id u), fu_prompt = ui_prompt u\<rparr>"

fun artifact_kind_text :: "artifact_kind \<Rightarrow> string" where
  "artifact_kind_text Plan = ''plan''"
| "artifact_kind_text Diff = ''diff''"
| "artifact_kind_text File = ''file''"
| "artifact_kind_text Image = ''image''"
| "artifact_kind_text CommandLog = ''command_log''"
| "artifact_kind_text BrowserCapture = ''browser_capture''"
| "artifact_kind_text ProviderPayload = ''provider_payload''"

record artifact_list_item =
  al_id :: string
  al_kind :: string
  al_byte_len :: u64
  al_work_item_id :: string

definition frontend_artifact :: "'z libs_scheme \<Rightarrow> artifact_record \<Rightarrow> artifact_list_item" where
  "frontend_artifact L a =
     \<lparr>al_id = id_text L (art_id a), al_kind = artifact_kind_text (art_kind a),
      al_byte_len = art_byte_len a, al_work_item_id = id_text L (art_work_item_id a)\<rparr>"

section \<open>Events\<close>

datatype frontend_event_kind =
  FrontWorkItemPatched
| FrontTimelineBatchAppended string nat
| FrontApprovalOpened string string
| FrontApprovalResolved string string
| FrontUserInputOpened string string string
| FrontUserInputResponded string string
| FrontRunStatusChanged string frontend_run_status
| FrontRunOutcomeUnknown string string

record frontend_event =
  fe_work_item_id :: string
  fe_revision :: u64
  fe_kind :: frontend_event_kind

fun map_event_kind :: "'z libs_scheme \<Rightarrow> app_event_kind \<Rightarrow> frontend_event_kind" where
  "map_event_kind L WorkItemPatched = FrontWorkItemPatched"
| "map_event_kind L (TimelineBatchAppended run n) = FrontTimelineBatchAppended (id_text L run) n"
| "map_event_kind L (ApprovalOpened run a) = FrontApprovalOpened (id_text L run) (id_text L a)"
| "map_event_kind L (ApprovalResolved run a) = FrontApprovalResolved (id_text L run) (id_text L a)"
| "map_event_kind L (UserInputOpened run q prompt) =
     FrontUserInputOpened (id_text L run) (id_text L q) prompt"
| "map_event_kind L (UserInputResponded run q) = FrontUserInputResponded (id_text L run) (id_text L q)"
| "map_event_kind L (RunStatusChanged run st) = FrontRunStatusChanged (id_text L run) (map_run_status st)"
| "map_event_kind L (RunOutcomeUnknown run operation) = FrontRunOutcomeUnknown (id_text L run) operation"

definition map_frontend_event :: "'z libs_scheme \<Rightarrow> app_event \<Rightarrow> frontend_event" where
  "map_frontend_event L e =
     \<lparr>fe_work_item_id = id_text L (ev_work_item_id e), fe_revision = ev_revision e,
      fe_kind = map_event_kind L (ev_kind e)\<rparr>"

text \<open>
  The relay task: it forwards what it receives and skips the gap a lagging receiver reports; the
  source closes when the supervisor is gone.
\<close>

datatype 'a received = Received 'a | Lagged u64 | SourceClosed

fun relay_events :: "'z libs_scheme \<Rightarrow> app_event received list \<Rightarrow> frontend_event list" where
  "relay_events L [] = []"
| "relay_events L (Received e # rest) = map_frontend_event L e # relay_events L rest"
| "relay_events L (Lagged _ # rest) = relay_events L rest"
| "relay_events L (SourceClosed # _) = []"

section \<open>Connections\<close>

record frontend_credential_binding =
  fc_slot :: string
  fc_source :: string
  fc_authority :: "string option"
  fc_backend :: "string option"
  fc_locator :: "string option"

record frontend_connection =
  fn_id :: string
  fn_name :: string
  fn_harness :: string
  fn_model_provider :: string
  fn_provider_state :: string
  fn_credentials :: "frontend_credential_binding list"

definition frontend_binding :: "public_credential_binding \<Rightarrow> frontend_credential_binding" where
  "frontend_binding b =
     (let (source, authority, backend, locator) =
        (case pcb_source b of
           PublicDelegated authority \<Rightarrow> (''delegated'', Some authority, None, None)
         | PublicSecret backend locator \<Rightarrow>
             (''secret'', None, Some (backend_id_str backend), Some (locator_str locator))
         | PublicDisabled \<Rightarrow> (''disabled'', None, None, None)) in
      \<lparr>fc_slot = slot_str (pcb_slot b), fc_source = source, fc_authority = authority,
       fc_backend = backend, fc_locator = locator\<rparr>)"

definition frontend_connection_from :: "'z libs_scheme \<Rightarrow> public_connection \<Rightarrow> frontend_connection" where
  "frontend_connection_from L c =
     \<lparr>fn_id = id_text L (pc_id c), fn_name = pc_name c, fn_harness = pc_harness c,
      fn_model_provider = pc_model_provider c, fn_provider_state = root_str (pc_provider_state c),
      fn_credentials = map frontend_binding (pc_credentials c)\<rparr>"

definition binding_source_invalid :: desktop_error where
  "binding_source_invalid = invalid_request_error ''credential binding source is invalid''"

definition to_domain_binding ::
    "public_credential_binding \<Rightarrow> desktop_error + credential_binding_record" where
  "to_domain_binding b =
     and_then
       (case pcb_source b of
          PublicDelegated authority \<Rightarrow> Ok (Delegated authority)
        | PublicSecret backend locator \<Rightarrow>
            and_then (map_err (\<lambda>_. binding_source_invalid)
              (secret_backend_id_new (backend_id_str backend))) (\<lambda>i.
            and_then (map_err (\<lambda>_. binding_source_invalid)
              (secret_locator_new (locator_str locator))) (\<lambda>l.
            Ok (Secret \<lparr>ref_backend_id = i, ref_locator = l\<rparr>)))
        | PublicDisabled \<Rightarrow> Ok Disabled) (\<lambda>source.
     Ok \<lparr>cb_slot = pcb_slot b, cb_binding = source\<rparr>)"

definition to_domain_connection :: "public_connection \<Rightarrow> desktop_error + connection" where
  "to_domain_connection c =
     and_then (collect_results to_domain_binding (pc_credentials c)) (\<lambda>credentials.
     let connection =
       \<lparr>conn_id = pc_id c, conn_name = pc_name c, conn_harness = pc_harness c,
        conn_model_provider = pc_model_provider c, conn_provider_state = pc_provider_state c,
        conn_credentials = credentials\<rparr> in
     and_then (map_err (\<lambda>_. invalid_request_error ''connection is invalid'')
       (connection_validate connection)) (\<lambda>_.
     Ok connection))"

fun public_source :: "credential_binding \<Rightarrow> public_credential_source" where
  "public_source (Delegated authority) = PublicDelegated authority"
| "public_source (Secret r) = PublicSecret (ref_backend_id r) (ref_locator r)"
| "public_source Disabled = PublicDisabled"

definition to_public_connection :: "connection \<Rightarrow> public_connection" where
  "to_public_connection c =
     \<lparr>pc_id = conn_id c, pc_name = conn_name c, pc_harness = conn_harness c,
      pc_model_provider = conn_model_provider c, pc_provider_state = conn_provider_state c,
      pc_credentials =
        map (\<lambda>b. \<lparr>pcb_slot = cb_slot b, pcb_source = public_source (cb_binding b)\<rparr>)
          (conn_credentials c)\<rparr>"

section \<open>Input from the web view\<close>

datatype approval_decision_input = InputApproved | InputDenied

fun approval_decision_from :: "approval_decision_input \<Rightarrow> approval_decision" where
  "approval_decision_from InputApproved = Approved"
| "approval_decision_from InputDenied = Denied"

datatype credential_source_input =
  DelegatedInput string
| SecretInput string string
| DisabledInput

record credential_binding_input =
  cbi_slot :: string
  cbi_source :: credential_source_input

record connection_input =
  ci_id :: string
  ci_name :: string
  ci_harness :: string
  ci_model_provider :: string
  ci_provider_state :: string
  ci_credentials :: "credential_binding_input list"

definition invalid_input :: "string \<Rightarrow> desktop_error" where
  "invalid_input detail =
     \<lparr>de_code = CodeInvalidRequest, de_message = ''invalid connection'', de_detail = Some detail\<rparr>"

definition checked_input :: "validation_error + 'a \<Rightarrow> desktop_error + 'a" where
  "checked_input r = map_err (\<lambda>e. invalid_input (validation_message e)) r"

definition binding_into_public ::
    "credential_binding_input \<Rightarrow> desktop_error + public_credential_binding" where
  "binding_into_public b =
     and_then (checked_input (credential_slot_new (cbi_slot b))) (\<lambda>slot.
     and_then
       (case cbi_source b of
          DelegatedInput authority \<Rightarrow> Ok (PublicDelegated authority)
        | SecretInput backend locator \<Rightarrow>
            and_then (checked_input (secret_backend_id_new backend)) (\<lambda>i.
            and_then (checked_input (secret_locator_new locator)) (\<lambda>l.
            Ok (PublicSecret i l)))
        | DisabledInput \<Rightarrow> Ok PublicDisabled) (\<lambda>source.
     Ok \<lparr>pcb_slot = slot, pcb_source = source\<rparr>))"

definition into_public :: "'z libs_scheme \<Rightarrow> connection_input \<Rightarrow> desktop_error + public_connection" where
  "into_public L c =
     and_then (checked_input (connection_id_from_str L (ci_id c))) (\<lambda>i.
     and_then (checked_input (provider_state_root_id_new (ci_provider_state c))) (\<lambda>root.
     and_then (collect_results binding_into_public (ci_credentials c)) (\<lambda>credentials.
     Ok \<lparr>pc_id = i, pc_name = ci_name c, pc_harness = ci_harness c,
         pc_model_provider = ci_model_provider c, pc_provider_state = root,
         pc_credentials = credentials\<rparr>)))"

end
