(* ===== verification/Desktop_Api.thy ===== *)
theory Desktop_Api
  imports Desktop
begin

text \<open>
  The commands of \<open>DesktopApi\<close> (\<^verbatim>\<open>crates/yakshed-desktop-api/src/lib.rs\<close>).

  A command that reads the store in several calls sees, with each call, the database of that moment:
  its argument \<open>seen\<close> gives the database the \<open>n\<close>-th call finds. Nothing but the store's own steps
  relates one to the next, so every interleaving with other clients is covered. Commands that go
  through the run supervisor are cut where the supervisor's handlers are.
\<close>

definition MAX_OPEN_ARTIFACT_BYTES :: u64 where
  "MAX_OPEN_ARTIFACT_BYTES = 8 * 1024 * 1024"

definition MAX_RUN_INPUT_BYTES :: nat where
  "MAX_RUN_INPUT_BYTES = 256 * 1024"

definition MAX_STEER_INPUT_BYTES :: nat where
  "MAX_STEER_INPUT_BYTES = 64 * 1024"

definition MAX_USER_INPUT_RESPONSE_BYTES :: nat where
  "MAX_USER_INPUT_RESPONSE_BYTES = 64 * 1024"

definition SNAPSHOT_RETRIES :: nat where
  "SNAPSHOT_RETRIES = 256"

definition RECOVERY_PAGE_SIZE :: u32 where
  "RECOVERY_PAGE_SIZE = 50"

section \<open>Reads\<close>

definition read_store :: "'a job \<Rightarrow> db \<Rightarrow> desktop_error + 'a" where
  "read_store j db = map_err map_store_error (fst (j db))"

text \<open>
  The loop shared by the four snapshot commands: read the work item, compare its revision with the
  expected one, read the page, read the work item again; a page between two equal revisions is
  returned with the work item read first, another one is thrown away.
\<close>

fun snapshot_loop ::
    "'z store_libs_scheme \<Rightarrow> work_item_id \<Rightarrow> u64 option \<Rightarrow> 'p job \<Rightarrow> nat \<Rightarrow> (nat \<Rightarrow> db) \<Rightarrow> nat \<Rightarrow>
     desktop_error + (work_item_snapshot \<times> 'p)" where
  "snapshot_loop L w expected page 0 seen k =
     Err (conflict_error ''work item changed during snapshot'')"
| "snapshot_loop L w expected page (Suc retries) seen k =
     and_then (read_store (get_work_item L w) (seen k)) (\<lambda>item.
     if expected \<noteq> None \<and> expected \<noteq> Some (ws_revision item)
     then Err (conflict_error ''work item revision changed'')
     else
     and_then (read_store page (seen (k + 1))) (\<lambda>p.
     and_then (read_store (get_work_item L w) (seen (k + 2))) (\<lambda>current.
     if ws_revision current = ws_revision item then Ok (item, p)
     else snapshot_loop L w expected page retries seen (k + 3))))"

record work_item_snapshot_envelope =
  we_revision :: u64
  we_work_item :: frontend_work_item_snapshot
  we_runs :: "frontend_run_snapshot list"
  we_next_run_after :: "string option"

definition get_work_item_snapshot_page ::
    "'z store_libs_scheme \<Rightarrow> work_item_id \<Rightarrow> run_id option \<Rightarrow> u32 \<Rightarrow> u64 option \<Rightarrow> (nat \<Rightarrow> db) \<Rightarrow>
     desktop_error + work_item_snapshot_envelope" where
  "get_work_item_snapshot_page L w after limit expected seen =
     map_ok (\<lambda>(item, page).
       \<lparr>we_revision = ws_revision item, we_work_item = frontend_work_item L item,
        we_runs = map (frontend_run L) (pg_items page),
        we_next_run_after = map_option (id_text L) (pg_next_after page)\<rparr>)
     (snapshot_loop L w expected (list_runs_for_work_item L w after (min limit RECOVERY_PAGE_SIZE))
       SNAPSHOT_RETRIES seen 0)"

definition get_work_item_snapshot ::
    "'z store_libs_scheme \<Rightarrow> work_item_id \<Rightarrow> (nat \<Rightarrow> db) \<Rightarrow> desktop_error + work_item_snapshot_envelope" where
  "get_work_item_snapshot L w seen =
     get_work_item_snapshot_page L w None RECOVERY_PAGE_SIZE None seen"

text \<open>The check that opens the commands about one run; it takes one call.\<close>

definition run_of_work_item ::
    "'z store_libs_scheme \<Rightarrow> work_item_id \<Rightarrow> run_id \<Rightarrow> db \<Rightarrow> desktop_error + unit" where
  "run_of_work_item L w run db =
     and_then (read_store (get_run L run) db) (\<lambda>r.
     ensure (rs_work_item_id r = w) (invalid_request_error ''run does not belong to work item''))"

record run_approval_page_envelope =
  ra_work_item_revision :: u64
  ra_approvals :: "frontend_approval_snapshot list"
  ra_next_after :: "string option"

definition get_run_approval_page ::
    "'z store_libs_scheme \<Rightarrow> work_item_id \<Rightarrow> run_id \<Rightarrow> approval_request_id option \<Rightarrow> u32 \<Rightarrow>
     u64 option \<Rightarrow> (nat \<Rightarrow> db) \<Rightarrow> desktop_error + run_approval_page_envelope" where
  "get_run_approval_page L w run after limit expected seen =
     and_then (run_of_work_item L w run (seen 0)) (\<lambda>_.
     map_ok (\<lambda>(item, page).
       \<lparr>ra_work_item_revision = ws_revision item,
        ra_approvals = map (frontend_approval L) (pg_items page),
        ra_next_after = map_option (id_text L) (pg_next_after page)\<rparr>)
     (snapshot_loop L w expected (list_approvals_for_run L run after (min limit RECOVERY_PAGE_SIZE))
       SNAPSHOT_RETRIES seen 1))"

record pending_user_input_page_envelope =
  pu_work_item_revision :: u64
  pu_inputs :: "frontend_pending_user_input list"
  pu_next_after :: "string option"

definition get_pending_user_input_page ::
    "'z store_libs_scheme \<Rightarrow> work_item_id \<Rightarrow> run_id \<Rightarrow> timeline_item_id option \<Rightarrow> u32 \<Rightarrow>
     u64 option \<Rightarrow> (nat \<Rightarrow> db) \<Rightarrow> desktop_error + pending_user_input_page_envelope" where
  "get_pending_user_input_page L w run after limit expected seen =
     and_then (run_of_work_item L w run (seen 0)) (\<lambda>_.
     map_ok (\<lambda>(item, page).
       \<lparr>pu_work_item_revision = ws_revision item,
        pu_inputs = map (frontend_user_input L) (pg_items page),
        pu_next_after = map_option (id_text L) (pg_next_after page)\<rparr>)
     (snapshot_loop L w expected
       (list_pending_user_inputs_for_run L run after (min limit RECOVERY_PAGE_SIZE))
       SNAPSHOT_RETRIES seen 1))"

record work_item_timeline_envelope =
  wt_run_id :: string
  wt_work_item_revision :: u64
  wt_items :: "frontend_timeline_item_snapshot list"
  wt_next_after :: "u64 option"

definition get_work_item_timeline_page_at_revision ::
    "'z store_libs_scheme \<Rightarrow> work_item_id \<Rightarrow> run_id \<Rightarrow> timeline_revision option \<Rightarrow> u32 \<Rightarrow>
     u64 option \<Rightarrow> (nat \<Rightarrow> db) \<Rightarrow> desktop_error + work_item_timeline_envelope" where
  "get_work_item_timeline_page_at_revision L w run after limit expected seen =
     and_then (run_of_work_item L w run (seen 0)) (\<lambda>_.
     map_ok (\<lambda>(item, page).
       \<lparr>wt_run_id = id_text L run, wt_work_item_revision = ws_revision item,
        wt_items = map (frontend_timeline_item L) (pg_items page),
        wt_next_after = pg_next_after page\<rparr>)
     (snapshot_loop L w expected
       (list_timeline_page L \<lparr>lt_run_id = run, lt_after = after, lt_limit = limit\<rparr>)
       SNAPSHOT_RETRIES seen 1))"

definition get_work_item_timeline_page ::
    "'z store_libs_scheme \<Rightarrow> work_item_id \<Rightarrow> run_id \<Rightarrow> timeline_revision option \<Rightarrow> u32 \<Rightarrow>
     (nat \<Rightarrow> db) \<Rightarrow> desktop_error + work_item_timeline_envelope" where
  "get_work_item_timeline_page L w run after limit seen =
     get_work_item_timeline_page_at_revision L w run after limit None seen"

record work_item_list_item =
  wl_work_item :: frontend_work_item_snapshot
  wl_revision :: u64

record work_item_list_envelope =
  wle_items :: "work_item_list_item list"
  wle_next_after :: "string option"

definition api_list_work_items ::
    "'z store_libs_scheme \<Rightarrow> project_id \<Rightarrow> work_item_id option \<Rightarrow> u32 \<Rightarrow> db \<Rightarrow>
     desktop_error + work_item_list_envelope" where
  "api_list_work_items L project after limit db =
     map_ok (\<lambda>page.
       \<lparr>wle_items = map (\<lambda>i. \<lparr>wl_work_item = frontend_work_item L i, wl_revision = ws_revision i\<rparr>)
          (pg_items page),
        wle_next_after = map_option (id_text L) (pg_next_after page)\<rparr>)
     (read_store (list_work_items L
       \<lparr>lw_project_id = project, lw_after = after, lw_limit = limit, lw_include_archived = False\<rparr>) db)"

section \<open>Creating\<close>

definition api_create_project ::
    "'z store_libs_scheme \<Rightarrow> utc_timestamp \<Rightarrow> project_id \<Rightarrow> string \<Rightarrow> db \<Rightarrow> (desktop_error + unit) \<times> db" where
  "api_create_project L now project name db =
     (case create_project L now \<lparr>cp_id = project, cp_name = name\<rparr> db of
        (r, db') \<Rightarrow> (map_ok (\<lambda>_. ()) (map_err map_store_error r), db'))"

text \<open>The fresh id is an argument; the snapshot's calls come after the creation.\<close>

definition api_create_work_item ::
    "'z store_libs_scheme \<Rightarrow> utc_timestamp \<Rightarrow> work_item_id \<Rightarrow> project_id \<Rightarrow> string \<Rightarrow>
     work_item_id option \<Rightarrow> (nat \<Rightarrow> db) \<Rightarrow> db \<Rightarrow>
     (desktop_error + work_item_snapshot_envelope) \<times> db" where
  "api_create_work_item L now fresh project title parent seen db =
     (case create_work_item L now
         \<lparr>cw_id = fresh, cw_project_id = project, cw_title = title, cw_parent_id = parent\<rparr> db of
        (Inl e, db') \<Rightarrow> (Err (map_store_error e), db')
      | (Inr item, db') \<Rightarrow> (get_work_item_snapshot L (ws_id item) seen, db'))"

section \<open>Connections, credentials and the cache\<close>

record connection_envelope =
  ce_config_revision :: config_revision
  ce_connection :: frontend_connection

definition connection_put ::
    "'z libs_scheme \<Rightarrow> 's config_port \<Rightarrow> config_revision \<Rightarrow> public_connection \<Rightarrow> 's \<Rightarrow>
     (desktop_error + connection_envelope) \<times> 's" where
  "connection_put L port expected c s =
     (case to_domain_connection c of
        Inl e \<Rightarrow> (Err e, s)
      | Inr connection \<Rightarrow>
          (case cp_put_connection port
              \<lparr>pcc_expected_config_revision = expected, pcc_connection = connection\<rparr> s of
             (Inl e, s') \<Rightarrow> (Err (map_config_error e), s')
           | (Inr snapshot, s') \<Rightarrow>
               ((case List.find (\<lambda>x. conn_id x = pc_id c) (ac_connections (sn_config snapshot)) of
                   None \<Rightarrow> Err (invalid_request_error ''stored connection missing'')
                 | Some x \<Rightarrow>
                     Ok \<lparr>ce_config_revision = sn_revision snapshot,
                         ce_connection = frontend_connection_from L (to_public_connection x)\<rparr>), s')))"

definition connection_get ::
    "'z libs_scheme \<Rightarrow> 's config_port \<Rightarrow> connection_id \<Rightarrow> 's \<Rightarrow> desktop_error + connection_envelope" where
  "connection_get L port i s =
     map_ok (\<lambda>c. \<lparr>ce_config_revision = ccs_config_revision c,
                  ce_connection = frontend_connection_from L (ccs_connection c)\<rparr>)
       (map_err map_config_error (cp_get_connection port i s))"

datatype frontend_pending_reason =
  FrontLocked | FrontDenied | FrontUnavailable | FrontCollision | FrontMissingSource
| FrontSourceInUse | FrontTargetInUse | FrontMigrationFailed | FrontCleanupRequired

datatype frontend_migration_status = FrontReady | FrontPending frontend_pending_reason

fun frontend_pending_reason_of :: "migration_pending_reason \<Rightarrow> frontend_pending_reason" where
  "frontend_pending_reason_of MigrationLocked = FrontLocked"
| "frontend_pending_reason_of MigrationDenied = FrontDenied"
| "frontend_pending_reason_of MigrationUnavailable = FrontUnavailable"
| "frontend_pending_reason_of MigrationCollision = FrontCollision"
| "frontend_pending_reason_of MigrationMissingSource = FrontMissingSource"
| "frontend_pending_reason_of MigrationSourceInUse = FrontSourceInUse"
| "frontend_pending_reason_of MigrationTargetInUse = FrontTargetInUse"
| "frontend_pending_reason_of MigrationFailed = FrontMigrationFailed"
| "frontend_pending_reason_of MigrationCleanupRequired = FrontCleanupRequired"

fun frontend_migration_status_of :: "credential_migration_status \<Rightarrow> frontend_migration_status" where
  "frontend_migration_status_of MigrationReady = FrontReady"
| "frontend_migration_status_of (MigrationPending r) = FrontPending (frontend_pending_reason_of r)"

record connection_list_envelope =
  cl_config_revision :: config_revision
  cl_connections :: "frontend_connection list"
  cl_credential_migration :: frontend_migration_status

definition api_list_connections ::
    "'z libs_scheme \<Rightarrow> 's config_port \<Rightarrow> 's \<Rightarrow> desktop_error + connection_list_envelope" where
  "api_list_connections L port s =
     map_ok (\<lambda>l. \<lparr>cl_config_revision = pcl_config_revision l,
                  cl_connections = map (frontend_connection_from L) (pcl_connections l),
                  cl_credential_migration =
                    frontend_migration_status_of (pcl_credential_migration l)\<rparr>)
       (map_err map_config_error (cp_list_connections port s))"

definition api_set_connection_credential ::
    "'s secret_port \<Rightarrow> connection_id \<Rightarrow> credential_slot \<Rightarrow> string \<Rightarrow> bool \<Rightarrow> 's \<Rightarrow>
     (desktop_error + bool) \<times> 's" where
  "api_set_connection_credential port i slot v overwrite s =
     (case sp_set_connection_credential port
         \<lparr>scc_connection_id = i, scc_slot = slot, scc_value = v, scc_overwrite = overwrite\<rparr> s of
        (r, s') \<Rightarrow> (map_ok swo_overwritten (map_err map_secret_error r), s'))"

definition api_clear_cache :: "'s cache_port \<Rightarrow> 's \<Rightarrow> (desktop_error + unit) \<times> 's" where
  "api_clear_cache port s =
     (case ca_clear port s of (r, s') \<Rightarrow> (map_err map_cache_error r, s'))"

section \<open>Artifacts\<close>

record artifact_list_envelope =
  ae_revision :: u64
  ae_artifacts :: "artifact_list_item list"

text \<open>The artifacts are read first, the revision after them.\<close>

definition api_list_artifacts ::
    "'z store_libs_scheme \<Rightarrow> 's artifact_port \<Rightarrow> work_item_id \<Rightarrow> 's \<Rightarrow> db \<Rightarrow>
     desktop_error + artifact_list_envelope" where
  "api_list_artifacts L port w s db =
     and_then (map_err map_artifact_error (ap_list port w s)) (\<lambda>artifacts.
     and_then (read_store (get_work_item L w) db) (\<lambda>item.
     Ok \<lparr>ae_revision = ws_revision item, ae_artifacts = map (frontend_artifact L) artifacts\<rparr>))"

record open_artifact_envelope =
  oe_artifact :: artifact_list_item
  oe_bytes :: "byte list"
  oe_media_type :: string

definition api_open_artifact ::
    "'z libs_scheme \<Rightarrow> 's artifact_port \<Rightarrow> work_item_id \<Rightarrow> artifact_id \<Rightarrow> u64 \<Rightarrow> 's \<Rightarrow>
     desktop_error + open_artifact_envelope" where
  "api_open_artifact L port w i max_bytes s =
     (if max_bytes = 0 \<or> max_bytes > MAX_OPEN_ARTIFACT_BYTES
      then Err (invalid_request_error ''artifact byte limit must be 1..8MiB'')
      else
      and_then (map_err map_artifact_error
        (ap_open port \<lparr>oa_artifact_id = i, oa_max_bytes = max_bytes\<rparr> s)) (\<lambda>payload.
      let artifact = oap_artifact payload in
      if art_work_item_id artifact \<noteq> w
      then Err (not_found_error ''artifact not on requested work item'')
      else Ok \<lparr>oe_artifact = frontend_artifact L artifact, oe_bytes = oap_bytes payload,
               oe_media_type = art_media_type artifact\<rparr>))"

section \<open>Commands of the run supervisor\<close>

definition validate_text_limit :: "string \<Rightarrow> nat \<Rightarrow> string \<Rightarrow> desktop_error + unit" where
  "validate_text_limit v max_bytes message =
     (if length v > max_bytes then Err (invalid_request_error message) else Ok ())"

text \<open>An input that is too large never reaches the supervisor.\<close>

definition within_limit ::
    "desktop_error + unit \<Rightarrow> (orchestration_error + 'a) act \<Rightarrow> (desktop_error + 'a) act" where
  "within_limit check m =
     (case check of
        Inl e \<Rightarrow> give (Err e)
      | Inr _ \<Rightarrow> map_act (map_err map_run_error) m)"

definition api_start_run ::
    "'z env \<Rightarrow> work_item_id \<Rightarrow> connection_id \<Rightarrow> string \<Rightarrow> (desktop_error + run_id) act" where
  "api_start_run E w connection input =
     within_limit (validate_text_limit input MAX_RUN_INPUT_BYTES ''run input is too large'')
       (start_run_call E w connection input)"

definition api_start_run_answered ::
    "'z env \<Rightarrow> work_item_id \<Rightarrow> run_id \<Rightarrow> port_error + provider_run_ref \<Rightarrow> (desktop_error + run_id) act" where
  "api_start_run_answered E w run answer =
     map_act (\<lambda>r. map_ok rs_id (map_err map_run_error r)) (start_run_answered E w run answer)"

definition api_steer_run ::
    "run_id \<Rightarrow> string \<Rightarrow> (desktop_error + run_id \<times> work_item_id) act" where
  "api_steer_run run message =
     within_limit (validate_text_limit message MAX_STEER_INPUT_BYTES ''steering input is too large'')
       (steer_call run message)"

definition api_interrupt_run :: "run_id \<Rightarrow> (desktop_error + run_id \<times> work_item_id) act" where
  "api_interrupt_run run = map_act (map_err map_run_error) (interrupt_call run)"

text \<open>What the harness answers to steering and interrupting.\<close>

definition api_call_answered ::
    "'z env \<Rightarrow> run_id \<Rightarrow> work_item_id \<Rightarrow> port_error + unit \<Rightarrow> (desktop_error + unit) act" where
  "api_call_answered E run w answer = map_act (map_err map_run_error) (call_answered E run w answer)"

definition api_reconcile_run ::
    "'z env \<Rightarrow> (connection_id \<Rightarrow> run_id \<Rightarrow> port_error + provider_run_ref option) \<Rightarrow>
     (provider_run_ref \<Rightarrow> port_error + bool) \<Rightarrow> run_id \<Rightarrow> (desktop_error + frontend_run_snapshot) act" where
  "api_reconcile_run E lookup_run reconnect run =
     map_act (\<lambda>r. map_err map_run_error (map_ok (frontend_run (en_libs E)) r))
       (reconcile_run E lookup_run reconnect run)"

definition api_resolve_approval ::
    "'z env \<Rightarrow> approval_request_id \<Rightarrow> approval_decision \<Rightarrow> (desktop_error + run_id \<times> work_item_id) act" where
  "api_resolve_approval E approval decision =
     map_act (map_err map_run_error) (resolve_approval_call E approval decision)"

definition api_resolve_approval_answered ::
    "'z env \<Rightarrow> approval_request_id \<Rightarrow> run_id \<Rightarrow> work_item_id \<Rightarrow> port_error + unit \<Rightarrow>
     (desktop_error + unit) act" where
  "api_resolve_approval_answered E approval run w answer =
     map_act (map_err map_run_error) (resolve_approval_answered E approval run w answer)"

definition api_respond_user_input ::
    "timeline_item_id \<Rightarrow> string \<Rightarrow> (desktop_error + run_id \<times> work_item_id) act" where
  "api_respond_user_input request response =
     within_limit (validate_text_limit response MAX_USER_INPUT_RESPONSE_BYTES
         ''user-input response is too large'')
       (respond_user_input_call request response)"

definition api_respond_user_input_answered ::
    "'z env \<Rightarrow> timeline_item_id \<Rightarrow> run_id \<Rightarrow> work_item_id \<Rightarrow> port_error + unit \<Rightarrow>
     (desktop_error + unit) act" where
  "api_respond_user_input_answered E request run w answer =
     map_act (map_err map_run_error) (respond_user_input_answered E request run w answer)"

text \<open>
  The account commands wait for start-up and pass the call on; \<open>answer\<close> is what the harness says. The
  trait's default methods refuse them.
\<close>

definition supervisor_account :: "port_error + 'a \<Rightarrow> (orchestration_error + 'a) act" where
  "supervisor_account answer =
     try_then await_startup (\<lambda>_. give (map_err HarnessFailed answer))"

definition default_account_status :: "port_error + account_status" where
  "default_account_status = Err (PortUnsupported ''account status'')"

definition default_account_login_start :: "port_error + account_status" where
  "default_account_login_start = Err (PortUnsupported ''account login'')"

definition default_account_logout :: "port_error + unit" where
  "default_account_logout = Err (PortUnsupported ''account logout'')"

definition api_account_status ::
    "(string \<Rightarrow> string + parsed_url) \<Rightarrow> port_error + account_status \<Rightarrow>
     (desktop_error + frontend_account_status) act" where
  "api_account_status parse answer =
     map_act (\<lambda>r. and_then (map_err map_run_error r) (frontend_account_status_of parse))
       (supervisor_account answer)"

definition api_account_login_start ::
    "(string \<Rightarrow> string + parsed_url) \<Rightarrow> port_error + account_status \<Rightarrow>
     (desktop_error + frontend_account_status) act" where
  "api_account_login_start parse answer =
     map_act (\<lambda>r. and_then (map_err map_run_error r) (frontend_account_status_of parse))
       (supervisor_account answer)"

definition api_account_logout :: "port_error + unit \<Rightarrow> (desktop_error + unit) act" where
  "api_account_logout answer = map_act (map_err map_run_error) (supervisor_account answer)"

section \<open>Start-up\<close>

definition desktop_ready :: "(startup_error + unit) act" where
  "desktop_ready = map_act (map_err map_startup_error) await_startup"

end
