(* ===== verification/Desktop_Reads.thy ===== *)
theory Desktop_Reads
  imports Work_View Desktop_Api
begin

text \<open>
  Reading one work item in several calls. A read that depends on the view of the item only is a
  \<open>view_read\<close>; the loop of the snapshot commands returns such a page together with the state it
  belongs to, and fails only when the item kept changing. The four commands are its instances.
\<close>

section \<open>Reads determined by the view\<close>

lemma get_work_item_row:
  assumes "fst (get_work_item L w db) = Ok s"
  obtains r where "item_row w db = Some r" "u64_of_i64 (wi_revision r) = Some (ws_revision s)"
  using assms
  by (auto simp: get_work_item_def read_only_def find_work_item_def query_optional_def item_row_def
      work_item_from_row_def result_simps u64_column_def sql_def split: option.splits)

lemma get_work_item_view:
  assumes "work_view w db' = work_view w db"
  shows "fst (get_work_item L w db') = fst (get_work_item L w db)"
proof -
  have item: "item_row w db' = item_row w db" and parent: "parent_of (work_edges db') w = parent_of (work_edges db) w"
    using assms by (simp_all add: work_view_def)
  have "wi_id r = w" if "item_row w db = Some r" for r
    using item_row_member [OF that] by simp
  with item parent show ?thesis
    by (cases "item_row w db")
      (simp_all add: get_work_item_def read_only_def find_work_item_def query_optional_def
        item_row_def [symmetric] work_item_from_row_def)
qed

lemma owns_run_view:
  assumes "work_view w db' = work_view w db"
  shows "owns_run w i db' = owns_run w i db"
proof -
  have "owns_run w i d \<longleftrightarrow> (\<exists>r\<in>set (wv_runs (work_view w d)). rr_id r = i)" for d
    by (auto simp: owns_run_def list_ex_iff work_view_def)
  with assms show ?thesis by simp
qed

lemma filter_of_view:
  assumes "filter Q rows' = filter Q rows" and "\<And>r. P r \<Longrightarrow> Q r"
  shows "filter P rows' = filter P rows"
proof -
  have "filter P xs = filter P (filter Q xs)" for xs
    unfolding filter_filter using assms(2) by (intro filter_cong) auto
  then show ?thesis by (metis assms(1))
qed

lemma list_page_view:
  assumes "filter P rows' = filter P rows"
  shows "list_page L key conv cursor P after n rows' = list_page L key conv cursor P after n rows"
proof -
  have "filter (\<lambda>r. P r \<and> after_key after (key r)) rows' = filter (\<lambda>r. P r \<and> after_key after (key r)) rows"
    using assms by (rule filter_of_view) simp
  then show ?thesis by (simp add: list_page_def select_page_def)
qed

locale view_read =
  fixes w :: work_item_id and page :: "'p job" and valid :: "db \<Rightarrow> bool"
  assumes determined: "valid db \<Longrightarrow> work_view w db' = work_view w db \<Longrightarrow> fst (page db') = fst (page db)"

lemma runs_view_read: "view_read w (list_runs_for_work_item L w after limit) (\<lambda>_. True)"
proof
  fix db db'
  assume "work_view w db' = work_view w db"
  then have "filter (\<lambda>r. rr_work_item_id r = w) (runs db') = filter (\<lambda>r. rr_work_item_id r = w) (runs db)"
    by (simp add: work_view_def)
  then show "fst (list_runs_for_work_item L w after limit db') = fst (list_runs_for_work_item L w after limit db)"
    by (simp add: list_runs_for_work_item_def list_runs_where_def read_only_def
        list_page_view [where rows' = "runs db'" and rows = "runs db"])
qed

lemma run_reads:
  assumes own: "owns_run w run db" and same: "work_view w db' = work_view w db"
  shows "filter (\<lambda>a. ap_run_id a = run) (approval_requests db') =
      filter (\<lambda>a. ap_run_id a = run) (approval_requests db)"
    and "filter (\<lambda>t. tl_run_id t = run) (timeline_items db') = filter (\<lambda>t. tl_run_id t = run) (timeline_items db)"
proof -
  have owns: "owns_run w i db' = owns_run w i db" for i using same by (rule owns_run_view)
  have "filter (\<lambda>a. owns_run w (ap_run_id a) db) (approval_requests db') =
      filter (\<lambda>a. owns_run w (ap_run_id a) db) (approval_requests db)"
    using same by (simp add: work_view_def owns)
  then show "filter (\<lambda>a. ap_run_id a = run) (approval_requests db') =
      filter (\<lambda>a. ap_run_id a = run) (approval_requests db)"
    by (rule filter_of_view) (simp add: own)
  have "filter (\<lambda>t. owns_run w (tl_run_id t) db) (timeline_items db') =
      filter (\<lambda>t. owns_run w (tl_run_id t) db) (timeline_items db)"
    using same by (simp add: work_view_def owns)
  then show "filter (\<lambda>t. tl_run_id t = run) (timeline_items db') = filter (\<lambda>t. tl_run_id t = run) (timeline_items db)"
    by (rule filter_of_view) (simp add: own)
qed

lemma approvals_view_read: "view_read w (list_approvals_for_run L run after limit) (owns_run w run)"
proof
  fix db db'
  assume own: "owns_run w run db" and same: "work_view w db' = work_view w db"
  show "fst (list_approvals_for_run L run after limit db') = fst (list_approvals_for_run L run after limit db)"
    by (simp add: list_approvals_for_run_def list_approvals_where_def read_only_def
        list_page_view [OF run_reads(1) [OF own same]])
qed

lemma timeline_view_read:
  "view_read w (list_timeline_page L \<lparr>lt_run_id = run, lt_after = after, lt_limit = limit\<rparr>) (owns_run w run)"
proof
  fix db db'
  assume own: "owns_run w run db" and same: "work_view w db' = work_view w db"
  show "fst (list_timeline_page L \<lparr>lt_run_id = run, lt_after = after, lt_limit = limit\<rparr> db') =
      fst (list_timeline_page L \<lparr>lt_run_id = run, lt_after = after, lt_limit = limit\<rparr> db)"
    by (simp add: list_timeline_page_def read_only_def list_page_view [OF run_reads(2) [OF own same]])
qed

lemma pending_input_run:
  "pending_input L run rows = pending_input L run (filter (\<lambda>t. tl_run_id t = run) rows)"
  by (auto simp: pending_input_def list_ex_iff fun_eq_iff)

lemma inputs_view_read: "view_read w (list_pending_user_inputs_for_run L run after limit) (owns_run w run)"
proof
  fix db db'
  assume own: "owns_run w run db" and same: "work_view w db' = work_view w db"
  note rows = run_reads(2) [OF own same]
  have "pending_input L run (timeline_items db') = pending_input L run (timeline_items db)"
    by (subst pending_input_run, subst (2) pending_input_run, simp only: rows)
  moreover have "filter (pending_input L run (timeline_items db)) (timeline_items db') =
      filter (pending_input L run (timeline_items db)) (timeline_items db)"
    using rows by (rule filter_of_view) (simp add: pending_input_def)
  ultimately show "fst (list_pending_user_inputs_for_run L run after limit db') =
      fst (list_pending_user_inputs_for_run L run after limit db)"
    by (simp add: list_pending_user_inputs_for_run_def read_only_def
        list_page_view [where rows' = "timeline_items db'" and rows = "timeline_items db"])
qed

interpretation runs_page: view_read w "list_runs_for_work_item L w after limit" "\<lambda>_. True"
  for w L after limit by (rule runs_view_read)

interpretation approvals_page: view_read w "list_approvals_for_run L run after limit" "owns_run w run"
  for w L run after limit by (rule approvals_view_read)

interpretation inputs_page: view_read w "list_pending_user_inputs_for_run L run after limit" "owns_run w run"
  for w L run after limit by (rule inputs_view_read)

interpretation timeline_page: view_read w
    "list_timeline_page L \<lparr>lt_run_id = run, lt_after = after, lt_limit = limit\<rparr>" "owns_run w run"
  for w L run after limit by (rule timeline_view_read)

section \<open>Equal revisions, equal views\<close>

text \<open>A revision that SQLite can store; the column is a 64-bit integer.\<close>

definition storable_revision :: "work_item_id \<Rightarrow> db \<Rightarrow> bool" where
  "storable_revision w db \<longleftrightarrow> (case item_row w db of None \<Rightarrow> True | Some r \<Rightarrow> wi_revision r \<le> i64_max)"

lemma u64_of_i64_inj:
  assumes "u64_of_i64 i = Some v" "u64_of_i64 j = Some v" "i \<le> i64_max" "j \<le> i64_max"
  shows "i = j"
proof -
  have "0 \<le> i" "0 \<le> j" "(word_of_int i :: u64) = word_of_int j"
    using assms(1,2) by (auto simp: u64_of_i64_def split: if_splits)
  then show ?thesis using assms(3,4) i64_of_u64_of_i64 by metis
qed

lemma revision_view:
  assumes reach: "reachable L db" and steps: "(store_step L)\<^sup>*\<^sup>* db db'"
    and "fst (get_work_item L w db) = Ok a" and "fst (get_work_item L w db') = Ok b"
    and rev: "ws_revision b = ws_revision a" and max: "storable_revision w db'"
  shows "work_view w db' = work_view w db"
proof -
  obtain r where r: "item_row w db = Some r" "u64_of_i64 (wi_revision r) = Some (ws_revision a)"
    using assms(3) by (rule get_work_item_row)
  obtain r' where r': "item_row w db' = Some r'" "u64_of_i64 (wi_revision r') = Some (ws_revision b)"
    using assms(4) by (rule get_work_item_row)
  have "w \<in> work_keys db" using r(1) by (auto simp: item_row_key)
  then have "work_view w db' = work_view w db \<or> advances w db db'"
    using reach steps by (intro view_steps)
  moreover have "\<not> advances w db db'"
  proof
    assume "advances w db db'"
    then have "wi_revision r < wi_revision r'" using r(1) r'(1) by (simp add: advances_def)
    moreover have "wi_revision r' \<le> i64_max" using max r'(1) by (simp add: storable_revision_def)
    ultimately show False using u64_of_i64_inj [OF r(2) r'(2) [unfolded rev]] by simp
  qed
  ultimately show ?thesis by simp
qed

text \<open>Whatever lies between two databases that show the same view shows it too.\<close>

lemma view_between:
  assumes reach: "reachable L a" and 1: "(store_step L)\<^sup>*\<^sup>* a b" and 2: "(store_step L)\<^sup>*\<^sup>* b c"
    and w: "w \<in> work_keys a" and same: "work_view w c = work_view w a"
  shows "work_view w b = work_view w a"
proof (rule ccontr)
  assume "work_view w b \<noteq> work_view w a"
  then have ab: "advances w a b" using view_steps [OF reach 1 w] by simp
  have "reachable L b" using reach 1 reachable_steps by blast
  then have "work_view w c = work_view w b \<or> advances w b c"
    using 2 advances_keys [OF ab] by (intro view_steps)
  then have "advances w a c"
    using ab advances_trans view_unchanged [of w c b] by (auto simp: advances_def)
  moreover have "item_row w c = item_row w a" using same by (rule view_unchanged)
  ultimately show False by (auto simp: advances_def)
qed

section \<open>The loop\<close>

text \<open>A history of the store as the calls of one command see it.\<close>

definition store_history :: "'z store_libs_scheme \<Rightarrow> work_item_id \<Rightarrow> (nat \<Rightarrow> db) \<Rightarrow> bool" where
  "store_history L w seen \<longleftrightarrow>
     reachable L (seen 0) \<and>
     (\<forall>n. (store_step L)\<^sup>*\<^sup>* (seen n) (seen (Suc n)) \<and> storable_revision w (seen n))"

lemma history_steps: "store_history L w seen \<Longrightarrow> (store_step L)\<^sup>*\<^sup>* (seen n) (seen (n + m))"
  by (induction m) (auto simp: store_history_def intro: rtranclp_trans)

lemma history_reachable: "store_history L w seen \<Longrightarrow> reachable L (seen n)"
  using history_steps [of L w seen 0 n] reachable_steps by (auto simp: store_history_def)

lemma read_store_Ok [simp]: "read_store j db = Ok a \<longleftrightarrow> fst (j db) = Ok a"
  by (simp add: read_store_def)

context view_read
begin

text \<open>What the loop returns is what one database of the history shows.\<close>

lemma loop_reads_one_state:
  assumes hist: "store_history L w seen" and res: "snapshot_loop L w expected page n seen k = Ok (item, p)"
    and valid: "\<And>m. valid (seen m)"
  shows "\<exists>m. k \<le> m \<and> fst (get_work_item L w (seen m)) = Ok item \<and> fst (page (seen m)) = Ok p \<and>
    (expected = None \<or> expected = Some (ws_revision item))"
  using res
proof (induction n arbitrary: k)
  case 0
  then show ?case by simp
next
  case (Suc n)
  from Suc.prems obtain i q c where i: "fst (get_work_item L w (seen k)) = Ok i"
    and exp: "expected = None \<or> expected = Some (ws_revision i)"
    and q: "fst (page (seen (k + 1))) = Ok q"
    and c: "fst (get_work_item L w (seen (k + 2))) = Ok c"
    and rest: "if ws_revision c = ws_revision i then (i, q) = (item, p)
      else snapshot_loop L w expected page n seen (k + 3) = Ok (item, p)"
    by (auto simp: and_then_eq_Ok split: if_splits)
  show ?case
  proof (cases "ws_revision c = ws_revision i")
    case False
    with rest have "snapshot_loop L w expected page n seen (k + 3) = Ok (item, p)" by simp
    then obtain m where "k + 3 \<le> m" "fst (get_work_item L w (seen m)) = Ok item \<and> fst (page (seen m)) = Ok p \<and>
        (expected = None \<or> expected = Some (ws_revision item))"
      using Suc.IH by blast
    then show ?thesis by (intro exI [of _ m]) simp
  next
    case True
    have 1: "(store_step L)\<^sup>*\<^sup>* (seen k) (seen (k + 1))" and 2: "(store_step L)\<^sup>*\<^sup>* (seen (k + 1)) (seen (k + 2))"
      using history_steps [OF hist, of k 1] history_steps [OF hist, of "k + 1" 1] by simp_all
    have reach: "reachable L (seen k)" using hist by (rule history_reachable)
    have same: "work_view w (seen (k + 2)) = work_view w (seen k)"
      using hist by (intro revision_view [OF reach rtranclp_trans [OF 1 2] i c True]) (simp add: store_history_def)
    obtain r where "item_row w (seen k) = Some r" using i by (rule get_work_item_row)
    then have key: "w \<in> work_keys (seen k)" by (auto simp: item_row_key)
    have "work_view w (seen (k + 1)) = work_view w (seen k)"
      using view_between [OF reach 1 2 key same] .
    then have "fst (page (seen (k + 1))) = fst (page (seen k))"
      by (rule determined [OF valid])
    moreover have "item = i" "p = q" using rest True by simp_all
    ultimately show ?thesis
      using i q exp by (intro exI [of _ k] conjI) simp_all
  qed
qed

end

lemma read_store_no_conflict:
  "read_store j db \<noteq> Err (conflict_error ''work item changed during snapshot'')"
proof
  assume "read_store j db = Err (conflict_error ''work item changed during snapshot'')"
  then obtain e where e: "conflict_error ''work item changed during snapshot'' = map_store_error e"
    by (auto simp: read_store_def map_err_eq_Err)
  then show False
    by (cases e) (simp_all add: not_found_error_def conflict_error_def unsupported_error_def desktop_error_new_def)
qed

text \<open>The loop gives up only when each attempt saw the item change.\<close>

lemma loop_conflict:
  assumes "snapshot_loop L w expected page n seen k = Err (conflict_error ''work item changed during snapshot'')"
    and "i < n"
  shows "\<exists>a b. fst (get_work_item L w (seen (k + 3 * i))) = Ok a \<and>
    fst (get_work_item L w (seen (k + 3 * i + 2))) = Ok b \<and> ws_revision b \<noteq> ws_revision a"
  using assms
proof (induction n arbitrary: k i)
  case (Suc n)
  from Suc.prems(1) obtain a p b where ab: "fst (get_work_item L w (seen k)) = Ok a"
    "fst (page (seen (k + 1))) = Ok p" "fst (get_work_item L w (seen (k + 2))) = Ok b"
    "ws_revision b \<noteq> ws_revision a"
    and rest: "snapshot_loop L w expected page n seen (k + 3) = Err (conflict_error ''work item changed during snapshot'')"
    by (auto simp: and_then_eq_Err read_store_no_conflict [unfolded conflict_error_def desktop_error_new_def]
        conflict_error_def desktop_error_new_def split: if_splits)
  show ?case
  proof (cases i)
    case 0
    with ab show ?thesis by auto
  next
    case (Suc j)
    with Suc.prems(2) Suc.IH [OF rest, of j] show ?thesis by (simp add: algebra_simps)
  qed
qed simp

lemma run_of_work_item_owns: "run_of_work_item L w run db = Ok u \<Longrightarrow> owns_run w run db"
  by (auto simp: run_of_work_item_def get_run_def read_only_def and_then_eq_Ok dest: fetched_run_owned)

text \<open>A run never changes its work item.\<close>

lemma owns_run_kept:
  assumes hist: "store_history L w seen" and own: "owns_run w run (seen 0)"
  shows "owns_run w run (seen m)"
proof -
  have "evolves (seen 0) (seen m)"
    using history_steps [OF hist, of 0 m] history_reachable [OF hist, of 0] reachable_steps by auto
  then have "run_owners (seen 0) \<subseteq> run_owners (seen m)" by (rule evolves_run_owners)
  with own show ?thesis by (auto simp: owns_run_iff)
qed

end
