(* ===== verification/Desktop_Properties.thy ===== *)
theory Desktop_Properties
  imports Desktop_Reads Store_Properties Config_Store_Laws
begin

text \<open>
  The properties of the desktop interface: what the front end reads about one work item in several
  calls belongs together, and what it was shown of a connection it can send back unchanged.
\<close>

section \<open>Snapshots of a work item\<close>

text \<open>
  C31: Two reads of a work item that return the same revision return the same work item, and between
  them its runs and, for each of its runs, the approvals, the pending user inputs and the timeline
  are unchanged, whatever other operations the store executed in between. This is what makes the
  revision usable as \<open>expected_revision\<close> across pages and for recovering from missed events.
\<close>

theorem revision_is_a_version_of_the_work_item:
  assumes "reachable L db" and "(store_step L)\<^sup>*\<^sup>* db db'" and "storable_revision w db'"
    and "fst (get_work_item L w db) = Ok a" and "fst (get_work_item L w db') = Ok b"
    and "ws_revision b = ws_revision a"
    and "fst (get_run L run db) = Ok r" and "rs_work_item_id r = w"
  shows "b = a \<and>
    fst (list_runs_for_work_item L w after_run limit db') = fst (list_runs_for_work_item L w after_run limit db) \<and>
    fst (list_approvals_for_run L run after_approval limit db') =
      fst (list_approvals_for_run L run after_approval limit db) \<and>
    fst (list_pending_user_inputs_for_run L run after_input limit db') =
      fst (list_pending_user_inputs_for_run L run after_input limit db) \<and>
    fst (list_timeline_page L \<lparr>lt_run_id = run, lt_after = after_item, lt_limit = limit\<rparr> db') =
      fst (list_timeline_page L \<lparr>lt_run_id = run, lt_after = after_item, lt_limit = limit\<rparr> db)"
proof -
  have same: "work_view w db' = work_view w db"
    by (rule revision_view [OF assms(1,2,4,5,6,3)])
  have own: "owns_run w run db"
    using assms(7,8) by (auto simp: get_run_def read_only_def dest: fetched_run_owned)
  have "fst (get_work_item L w db') = fst (get_work_item L w db)" using same by (rule get_work_item_view)
  then have "b = a" using assms(4,5) by simp
  then show ?thesis
    using runs_page.determined [OF TrueI same] approvals_page.determined [OF own same]
      inputs_page.determined [OF own same] timeline_page.determined [OF own same] by blast
qed

lemma child_reads:
  "fst (get_work_item sample_libs (Id 3) db_finished) = fst (get_work_item sample_libs (Id 3) db_artifact)"
  "fst (get_work_item sample_libs (Id 3) db_starting) =
     Ok \<lparr>ws_id = Id 3, ws_project_id = Id 1, ws_title = ''child'', ws_status = Ready,
         ws_parent_id = Some (Id 2), ws_revision = 2, ws_created_at = 3, ws_updated_at = 4\<rparr>"
  "fst (get_work_item sample_libs (Id 3) db_running) =
     Ok \<lparr>ws_id = Id 3, ws_project_id = Id 1, ws_title = ''child'', ws_status = Ready,
         ws_parent_id = Some (Id 2), ws_revision = 3, ws_created_at = 3, ws_updated_at = 10\<rparr>"
  "fst (get_work_item sample_libs (Id 3) db_finished) =
     Ok \<lparr>ws_id = Id 3, ws_project_id = Id 1, ws_title = ''child'', ws_status = Ready,
         ws_parent_id = Some (Id 2), ws_revision = 11, ws_created_at = 3, ws_updated_at = 30\<rparr>"
  by (simp_all add: get_work_item_def read_only_def store_eval db_finished_value db_artifact_value
      db_starting_value db_running_value)

lemma child_storable:
  "storable_revision (Id 3) db_finished" "storable_revision (Id 3) db_artifact"
  by (simp_all add: storable_revision_def item_row_def db_finished_value db_artifact_value i64_max_def)

theorem revision_is_a_version_of_the_work_item_witness:
  "fst (list_approvals_for_run sample_libs (Id 4) None 50 db_artifact) =
     fst (list_approvals_for_run sample_libs (Id 4) None 50 db_finished)"
proof -
  have run: "fst (get_run sample_libs (Id 4) db_finished) =
      Ok \<lparr>rs_id = Id 4, rs_connection_id = Id 5, rs_work_item_id = Id 3, rs_status = Completed,
          rs_provider_id = None, rs_created_at = 4, rs_ended_at = Some 30\<rparr>"
    by (simp add: get_run_def read_only_def store_eval db_finished_value)
  show ?thesis
    using revision_is_a_version_of_the_work_item [OF reachable_samples(8) transition_sample child_storable(2)
        child_reads(4) child_reads(4) [unfolded child_reads(1)] refl run, of None 50 None None None]
    by simp
qed

text \<open>
  C32: A snapshot page of a work item that was read in several calls, with any other operations of the
  store between them, is what one database of that history holds: the work item and the page of runs
  were true together, at the revision the envelope names, which is the expected one if one was given.
\<close>

theorem snapshot_page_shows_one_state:
  assumes "store_history L w seen"
    and "get_work_item_snapshot_page L w after limit expected seen = Ok env"
  shows "\<exists>m item page. fst (get_work_item L w (seen m)) = Ok item \<and>
    fst (list_runs_for_work_item L w after (min limit RECOVERY_PAGE_SIZE) (seen m)) = Ok page \<and>
    (expected = None \<or> expected = Some (ws_revision item)) \<and>
    env = \<lparr>we_revision = ws_revision item, we_work_item = frontend_work_item L item,
           we_runs = map (frontend_run L) (pg_items page),
           we_next_run_after = map_option (id_text L) (pg_next_after page)\<rparr>"
proof -
  from assms(2) obtain item page where loop:
    "snapshot_loop L w expected (list_runs_for_work_item L w after (min limit RECOVERY_PAGE_SIZE))
       SNAPSHOT_RETRIES seen 0 = Ok (item, page)"
    and env: "env = \<lparr>we_revision = ws_revision item, we_work_item = frontend_work_item L item,
           we_runs = map (frontend_run L) (pg_items page),
           we_next_run_after = map_option (id_text L) (pg_next_after page)\<rparr>"
    by (auto simp: get_work_item_snapshot_page_def map_ok_eq_Ok)
  show ?thesis using runs_page.loop_reads_one_state [OF assms(1) loop] env by blast
qed

definition sample_seen :: "nat \<Rightarrow> db" where
  "sample_seen n = (if n = 0 then db_starting else db_running)"

lemma sample_seen_history: "store_history sample_libs (Id 3) sample_seen"
proof -
  have "(store_step sample_libs)\<^sup>*\<^sup>* db_starting db_running"
    unfolding db_running_def by (intro r_into_rtranclp store_steps_wf sample_wf)
  moreover have "storable_revision (Id 3) db_starting" "storable_revision (Id 3) db_running"
    by (simp_all add: storable_revision_def item_row_def db_starting_value db_running_value i64_max_def)
  ultimately show ?thesis
    using reachable_samples(2) by (simp add: store_history_def sample_seen_def)
qed

lemma running_runs:
  "fst (list_runs_for_work_item sample_libs (Id 3) None 50 db_running) =
     Ok \<lparr>pg_items = [\<lparr>rs_id = Id 4, rs_connection_id = Id 5, rs_work_item_id = Id 3, rs_status = Running,
            rs_provider_id = None, rs_created_at = 4, rs_ended_at = None\<rparr>], pg_next_after = None\<rparr>"
  by (simp add: list_runs_for_work_item_def list_runs_where_def read_only_def validate_page_size_def
      MAX_PAGE_SIZE_def list_page_def select_page_def after_key_def db_running_value store_eval)

theorem snapshot_page_shows_one_state_witness:
  "\<exists>m item page. fst (get_work_item sample_libs (Id 3) (sample_seen m)) = Ok item \<and>
     fst (list_runs_for_work_item sample_libs (Id 3) None (min 50 RECOVERY_PAGE_SIZE) (sample_seen m)) = Ok page \<and>
     (None = (None :: u64 option) \<or> None = Some (ws_revision item)) \<and>
     projr (get_work_item_snapshot_page sample_libs (Id 3) None 50 None sample_seen) =
       \<lparr>we_revision = ws_revision item, we_work_item = frontend_work_item sample_libs item,
        we_runs = map (frontend_run sample_libs) (pg_items page),
        we_next_run_after = map_option (id_text sample_libs) (pg_next_after page)\<rparr>"
proof -
  have "\<exists>env. get_work_item_snapshot_page sample_libs (Id 3) None 50 None sample_seen = Ok env"
    by (auto simp: get_work_item_snapshot_page_def SNAPSHOT_RETRIES_def RECOVERY_PAGE_SIZE_def
        eval_nat_numeral running_runs sample_seen_def read_store_def child_reads)
  then obtain env where env: "get_work_item_snapshot_page sample_libs (Id 3) None 50 None sample_seen = Ok env" ..
  then have "projr (get_work_item_snapshot_page sample_libs (Id 3) None 50 None sample_seen) = env" by simp
  with snapshot_page_shows_one_state [OF sample_seen_history env] show ?thesis by blast
qed

text \<open>
  A page of the pending user inputs of a run, read in several calls, is what one database of the
  history holds together with the work item at the envelope's revision; the run belongs to the item.
\<close>

theorem input_page_shows_one_state:
  assumes "store_history L w seen"
    and "get_pending_user_input_page L w run after limit expected seen = Ok env"
  shows "\<exists>m item page. fst (get_work_item L w (seen m)) = Ok item \<and> owns_run w run (seen m) \<and>
    fst (list_pending_user_inputs_for_run L run after (min limit RECOVERY_PAGE_SIZE) (seen m)) = Ok page \<and>
    (expected = None \<or> expected = Some (ws_revision item)) \<and>
    env = \<lparr>pu_work_item_revision = ws_revision item,
           pu_inputs = map (frontend_user_input L) (pg_items page),
           pu_next_after = map_option (id_text L) (pg_next_after page)\<rparr>"
proof -
  from assms(2) obtain item page where run: "run_of_work_item L w run (seen 0) = Ok ()"
    and loop: "snapshot_loop L w expected
       (list_pending_user_inputs_for_run L run after (min limit RECOVERY_PAGE_SIZE))
       SNAPSHOT_RETRIES seen 1 = Ok (item, page)"
    and env: "env = \<lparr>pu_work_item_revision = ws_revision item,
           pu_inputs = map (frontend_user_input L) (pg_items page),
           pu_next_after = map_option (id_text L) (pg_next_after page)\<rparr>"
    by (auto simp: get_pending_user_input_page_def map_ok_eq_Ok and_then_eq_Ok)
  have own: "owns_run w run (seen m)" for m
    using assms(1) run_of_work_item_owns [OF run] by (rule owns_run_kept)
  show ?thesis using inputs_page.loop_reads_one_state [OF assms(1) loop own] own env by blast
qed

lemma running_inputs:
  "fst (list_pending_user_inputs_for_run sample_libs (Id 4) None 50 db_running) =
     Ok \<lparr>pg_items = [], pg_next_after = None\<rparr>"
  by (simp add: list_pending_user_inputs_for_run_def read_only_def validate_page_size_def
      MAX_PAGE_SIZE_def list_page_def select_page_def after_key_def db_running_value store_eval)

lemma starting_run:
  "fst (get_run sample_libs (Id 4) db_starting) =
     Ok \<lparr>rs_id = Id 4, rs_connection_id = Id 5, rs_work_item_id = Id 3, rs_status = Starting,
         rs_provider_id = None, rs_created_at = 4, rs_ended_at = None\<rparr>"
  by (simp add: get_run_def read_only_def store_eval db_starting_value)

theorem input_page_shows_one_state_witness:
  "\<exists>m item page. fst (get_work_item sample_libs (Id 3) (sample_seen m)) = Ok item \<and>
     owns_run (Id 3) (Id 4) (sample_seen m) \<and>
     fst (list_pending_user_inputs_for_run sample_libs (Id 4) None (min 50 RECOVERY_PAGE_SIZE) (sample_seen m)) =
       Ok page \<and>
     (Some 3 = None \<or> Some 3 = Some (ws_revision item)) \<and>
     projr (get_pending_user_input_page sample_libs (Id 3) (Id 4) None 50 (Some 3) sample_seen) =
       \<lparr>pu_work_item_revision = ws_revision item, pu_inputs = map (frontend_user_input sample_libs) (pg_items page),
        pu_next_after = map_option (id_text sample_libs) (pg_next_after page)\<rparr>"
proof -
  have "\<exists>env. get_pending_user_input_page sample_libs (Id 3) (Id 4) None 50 (Some 3) sample_seen = Ok env"
    by (auto simp: get_pending_user_input_page_def run_of_work_item_def SNAPSHOT_RETRIES_def
        RECOVERY_PAGE_SIZE_def eval_nat_numeral running_inputs starting_run sample_seen_def
        read_store_def child_reads)
  then obtain env where
    env: "get_pending_user_input_page sample_libs (Id 3) (Id 4) None 50 (Some 3) sample_seen = Ok env" ..
  then have "projr (get_pending_user_input_page sample_libs (Id 3) (Id 4) None 50 (Some 3) sample_seen) = env"
    by simp
  with input_page_shows_one_state [OF sample_seen_history env] show ?thesis by blast
qed

text \<open>
  The snapshot command gives up only when the item changed during each of its 256 attempts: an
  attempt whose two reads of the work item agree ends the loop.
\<close>

theorem snapshot_gives_up_after_256_changes:
  assumes "get_work_item_snapshot_page L w after limit expected seen =
      Err (conflict_error ''work item changed during snapshot'')"
    and "i < 256"
  shows "\<exists>a b. fst (get_work_item L w (seen (3 * i))) = Ok a \<and>
    fst (get_work_item L w (seen (3 * i + 2))) = Ok b \<and> ws_revision b \<noteq> ws_revision a"
proof -
  have "snapshot_loop L w expected (list_runs_for_work_item L w after (min limit RECOVERY_PAGE_SIZE))
      SNAPSHOT_RETRIES seen 0 = Err (conflict_error ''work item changed during snapshot'')"
    using assms(1) by (cases "snapshot_loop L w expected
      (list_runs_for_work_item L w after (min limit RECOVERY_PAGE_SIZE)) SNAPSHOT_RETRIES seen 0")
      (auto simp: get_work_item_snapshot_page_def)
  from loop_conflict [OF this, of i] assms(2) show ?thesis by (simp add: SNAPSHOT_RETRIES_def)
qed

definition busy_seen :: "nat \<Rightarrow> db" where
  "busy_seen n = (if n mod 3 = 2 then db_running else db_starting)"

lemma starting_runs:
  "fst (list_runs_for_work_item sample_libs (Id 3) None 50 db_starting) =
     Ok \<lparr>pg_items = [\<lparr>rs_id = Id 4, rs_connection_id = Id 5, rs_work_item_id = Id 3, rs_status = Starting,
            rs_provider_id = None, rs_created_at = 4, rs_ended_at = None\<rparr>], pg_next_after = None\<rparr>"
  by (simp add: list_runs_for_work_item_def list_runs_where_def read_only_def validate_page_size_def
      MAX_PAGE_SIZE_def list_page_def select_page_def after_key_def db_starting_value store_eval)

lemma busy_loop:
  "snapshot_loop sample_libs (Id 3) None (list_runs_for_work_item sample_libs (Id 3) None 50) n busy_seen (3 * k) =
     Err (conflict_error ''work item changed during snapshot'')"
proof (induction n arbitrary: k)
  case (Suc n)
  have "busy_seen (3 * k) = db_starting" "busy_seen (3 * k + 1) = db_starting" "busy_seen (3 * k + 2) = db_running"
    by (simp_all add: busy_seen_def mod_mult_self2 mod_Suc)
  with Suc.IH [of "Suc k"] show ?case
    by (simp add: read_store_def child_reads starting_runs add.commute [of 3])
qed simp

theorem snapshot_gives_up_after_256_changes_witness:
  "\<exists>a b. fst (get_work_item sample_libs (Id 3) (busy_seen (3 * 255))) = Ok a \<and>
     fst (get_work_item sample_libs (Id 3) (busy_seen (3 * 255 + 2))) = Ok b \<and> ws_revision b \<noteq> ws_revision a"
proof -
  have "get_work_item_snapshot_page sample_libs (Id 3) None 50 None busy_seen =
      Err (conflict_error ''work item changed during snapshot'')"
    using busy_loop [of SNAPSHOT_RETRIES 0] by (simp add: get_work_item_snapshot_page_def RECOVERY_PAGE_SIZE_def)
  then show ?thesis by (rule snapshot_gives_up_after_256_changes) simp
qed

section \<open>Connections\<close>

text \<open>
  The front end sends back what it was shown: the derived \<open>Deserialize\<close> of \<open>ConnectionInput\<close> on the
  derived \<open>Serialize\<close> of \<open>FrontendConnection\<close>. The tag \<open>source\<close> selects the variant, whose fields are
  the ones the other type stores as options.
\<close>

definition binding_input_of :: "frontend_credential_binding \<Rightarrow> credential_binding_input option" where
  "binding_input_of b =
     map_option (\<lambda>source. \<lparr>cbi_slot = fc_slot b, cbi_source = source\<rparr>)
       (if fc_source b = ''delegated'' then map_option DelegatedInput (fc_authority b)
        else if fc_source b = ''secret'' then
          (case (fc_backend b, fc_locator b) of
             (Some backend, Some locator) \<Rightarrow> Some (SecretInput backend locator)
           | _ \<Rightarrow> None)
        else if fc_source b = ''disabled'' then Some DisabledInput
        else None)"

definition connection_input_of :: "frontend_connection \<Rightarrow> connection_input option" where
  "connection_input_of c =
     map_option (\<lambda>credentials.
       \<lparr>ci_id = fn_id c, ci_name = fn_name c, ci_harness = fn_harness c,
        ci_model_provider = fn_model_provider c, ci_provider_state = fn_provider_state c,
        ci_credentials = credentials\<rparr>)
     (those (map binding_input_of (fn_credentials c)))"

text \<open>The values of a stored connection came out of their constructors.\<close>

definition connection_constructed :: "'z libs_scheme \<Rightarrow> connection \<Rightarrow> bool" where
  "connection_constructed L c \<longleftrightarrow>
     connection_id_from_str L (id_text L (conn_id c)) = Ok (conn_id c) \<and>
     provider_state_root_id_new (root_str (conn_provider_state c)) = Ok (conn_provider_state c) \<and>
     connection_typed c \<and>
     (\<forall>b\<in>set (conn_credentials c). credential_slot_new (slot_str (cb_slot b)) = Ok (cb_slot b))"

definition shown_binding :: "credential_binding_record \<Rightarrow> public_credential_binding" where
  "shown_binding b = \<lparr>pcb_slot = cb_slot b, pcb_source = public_source (cb_binding b)\<rparr>"

definition sent_binding :: "credential_binding_record \<Rightarrow> credential_binding_input" where
  "sent_binding b =
     \<lparr>cbi_slot = slot_str (cb_slot b),
      cbi_source = (case cb_binding b of
         Delegated authority \<Rightarrow> DelegatedInput authority
       | Secret r \<Rightarrow> SecretInput (backend_id_str (ref_backend_id r)) (locator_str (ref_locator r))
       | Disabled \<Rightarrow> DisabledInput)\<rparr>"

lemma binding_input_shown: "binding_input_of (frontend_binding (shown_binding b)) = Some (sent_binding b)"
  by (cases "cb_binding b")
    (simp_all add: binding_input_of_def frontend_binding_def shown_binding_def sent_binding_def)

lemma those_map_Some: "(\<And>x. f x = Some (g x)) \<Longrightarrow> those (map f xs) = Some (map g xs)"
  by (induction xs) simp_all

lemma checked_input_Ok [simp]: "checked_input (Ok x) = Ok x"
  by (simp add: checked_input_def)

lemma sent_binding_public:
  assumes "credential_slot_new (slot_str (cb_slot b)) = Ok (cb_slot b)" and "binding_typed b"
  shows "binding_into_public (sent_binding b) = Ok (shown_binding b)"
  using assms
  by (cases "cb_binding b")
    (simp_all add: binding_into_public_def sent_binding_def shown_binding_def binding_typed_def
      locator_typed_def)

lemma shown_binding_domain:
  assumes "binding_typed b"
  shows "to_domain_binding (shown_binding b) = Ok b"
  using assms
  by (cases "cb_binding b")
    (simp_all add: to_domain_binding_def shown_binding_def binding_typed_def locator_typed_def)

lemma collect_map_round_trip:
  "(\<And>x. x \<in> set xs \<Longrightarrow> f (g x) = Ok (h x)) \<Longrightarrow> collect_results f (map g xs) = Ok (map h xs)"
  by (induction xs) auto

text \<open>
  C33: A stored connection that the front end was shown and sends back unchanged passes the checks of
  both layers and is the stored connection again: nothing is lost or altered on the way through the
  public type, the front end's type and the input type.
\<close>

theorem shown_connection_round_trip:
  assumes "connection_constructed L c" and "connection_validate c = Ok ()"
  shows "\<exists>input public. connection_input_of (frontend_connection_from L (to_public_connection c)) = Some input \<and>
    into_public L input = Ok public \<and> to_domain_connection public = Ok c"
proof -
  let ?public = "to_public_connection c"
  let ?input = "\<lparr>ci_id = id_text L (conn_id c), ci_name = conn_name c, ci_harness = conn_harness c,
    ci_model_provider = conn_model_provider c, ci_provider_state = root_str (conn_provider_state c),
    ci_credentials = map sent_binding (conn_credentials c)\<rparr>"
  have shown: "pc_credentials ?public = map shown_binding (conn_credentials c)"
    by (simp add: to_public_connection_def shown_binding_def)
  have "those (map (binding_input_of \<circ> frontend_binding \<circ> shown_binding) (conn_credentials c)) =
      Some (map sent_binding (conn_credentials c))"
    by (rule those_map_Some) (simp add: binding_input_shown)
  then have "connection_input_of (frontend_connection_from L ?public) = Some ?input"
    by (simp add: connection_input_of_def frontend_connection_from_def shown o_assoc)
      (simp add: to_public_connection_def)
  moreover have "collect_results binding_into_public (map sent_binding (conn_credentials c)) =
      Ok (map shown_binding (conn_credentials c))"
    using assms(1) by (intro collect_map_round_trip sent_binding_public)
      (simp_all add: connection_constructed_def connection_typed_def)
  then have "into_public L ?input = Ok ?public"
    using assms(1) shown
    by (simp add: into_public_def connection_constructed_def) (simp add: to_public_connection_def shown_binding_def)
  moreover have "to_domain_connection ?public = Ok c"
  proof -
    have "collect_results to_domain_binding (map shown_binding (conn_credentials c)) =
        Ok (map (\<lambda>b. b) (conn_credentials c))"
      using assms(1) by (intro collect_map_round_trip shown_binding_domain)
        (simp add: connection_constructed_def connection_typed_def)
    then show ?thesis
      using assms(2)
      by (cases c) (simp add: to_domain_connection_def to_public_connection_def Let_def shown_binding_def [symmetric])
  qed
  ultimately show ?thesis by blast
qed

definition sample_uuid_libs :: libs where
  "sample_uuid_libs =
     \<lparr>lib_version_num = (\<lambda>_. 7), lib_is_rfc4122 = (\<lambda>_. True),
      lib_parse_uuid = (\<lambda>s. Ok (of_nat (length s))), lib_uuid_text = (\<lambda>u. replicate (unat u) (CHR ''x''))\<rparr>"

definition sample_connection :: connection where
  "sample_connection =
     \<lparr>conn_id = Id 5, conn_name = ''work'', conn_harness = ''codex'', conn_model_provider = ''openai'',
      conn_provider_state = ProviderStateRootId ''main'',
      conn_credentials =
        [\<lparr>cb_slot = CredentialSlot ''key'',
          cb_binding = Secret \<lparr>ref_backend_id = SecretBackendId ''local-os'', ref_locator = SecretLocator ''k''\<rparr>\<rparr>]\<rparr>"

theorem shown_connection_round_trip_witness:
  "\<exists>input public. connection_input_of (frontend_connection_from sample_uuid_libs
       (to_public_connection sample_connection)) = Some input \<and>
     into_public sample_uuid_libs input = Ok public \<and> to_domain_connection public = Ok sample_connection"
proof (rule shown_connection_round_trip)
  note eval = sample_connection_def sample_uuid_libs_def string_eval require_identifier_def identifier_char_def
  show "connection_constructed sample_uuid_libs sample_connection"
    by (simp add: connection_constructed_def id_text_def connection_id_from_str_def parse_uuid_v7_def
        validate_uuid_v7_def connection_typed_def binding_typed_def locator_typed_def
        provider_state_root_id_new_def credential_slot_new_def secret_backend_id_new_def
        secret_locator_new_def eval to_ascii_lowercase_def ascii_upper_def ends_with_char_def
        is_windows_reserved_name_def starts_with_def)
  show "connection_validate sample_connection = Ok ()"
    by (simp add: connection_validate_def credential_binding_record_validate_def eval)
qed

end
