(* ===== verification/Ops.thy ===== *)
theory Ops
  imports Prelude
begin

text \<open>
  Operations that change a state and may fail, for the components whose functions are sequences of
  calls: composition as Rust's \<open>?\<close> and \<open>match\<close> do it, and the calls an operation logs.
\<close>

section \<open>Composition\<close>

type_synonym ('s, 'e, 'a) op = "'s \<Rightarrow> ('e + 'a) \<times> 's"

definition op_ok :: "'a \<Rightarrow> ('s, 'e, 'a) op" where
  "op_ok x s = (Ok x, s)"

definition op_err :: "'e \<Rightarrow> ('s, 'e, 'a) op" where
  "op_err e s = (Err e, s)"

definition op_lift :: "'e + 'a \<Rightarrow> ('s, 'e, 'a) op" where
  "op_lift r s = (r, s)"

definition op_match ::
    "('s, 'e, 'a) op \<Rightarrow> ('a \<Rightarrow> ('s, 'd, 'b) op) \<Rightarrow> ('e \<Rightarrow> ('s, 'd, 'b) op) \<Rightarrow> ('s, 'd, 'b) op" where
  "op_match p f g s = (case p s of (Inl e, s') \<Rightarrow> g e s' | (Inr x, s') \<Rightarrow> f x s')"

definition op_then :: "('s, 'e, 'a) op \<Rightarrow> ('a \<Rightarrow> ('s, 'e, 'b) op) \<Rightarrow> ('s, 'e, 'b) op" where
  "op_then p f = op_match p f op_err"

lemma op_then_eq_Ok:
  "op_then p f s = (Inr y, s'') \<longleftrightarrow> (\<exists>x s'. p s = (Inr x, s') \<and> f x s' = (Inr y, s''))"
  by (auto simp: op_then_def op_match_def op_err_def split: prod.splits sum.splits)

lemma op_ok_eq [simp]: "op_ok x s = (r, s') \<longleftrightarrow> r = Inr x \<and> s' = s"
  by (auto simp: op_ok_def)

lemma op_err_eq [simp]: "op_err e s = (r, s') \<longleftrightarrow> r = Inl e \<and> s' = s"
  by (auto simp: op_err_def)

lemma op_lift_eq [simp]: "op_lift q s = (r, s') \<longleftrightarrow> r = q \<and> s' = s"
  by (auto simp: op_lift_def)

text \<open>\<open>ensures p S\<close>: when \<open>p\<close> succeeds, its value and the state after it satisfy \<open>S\<close>.\<close>

definition ensures :: "('s, 'e, 'a) op \<Rightarrow> ('a \<Rightarrow> 's \<Rightarrow> bool) \<Rightarrow> bool" where
  "ensures p S \<longleftrightarrow> (\<forall>s x s'. p s = (Inr x, s') \<longrightarrow> S x s')"

lemma ensures_then: "(\<And>x. ensures (f x) S) \<Longrightarrow> ensures (op_then p f) S"
  by (auto simp: ensures_def op_then_eq_Ok)

lemma ensures_err: "ensures (op_err e) S"
  by (simp add: ensures_def)

section \<open>The calls an operation logs\<close>

text \<open>
  \<open>traced log f p P Q\<close>: \<open>p\<close> extends the log, and what \<open>f\<close> makes of the new calls satisfies \<open>P x\<close> when \<open>p\<close>
  returns \<open>x\<close>, and \<open>Q\<close> when it fails.
\<close>

fun traced_as :: "('a \<Rightarrow> 'm list \<Rightarrow> bool) \<Rightarrow> ('m list \<Rightarrow> bool) \<Rightarrow> 'e + 'a \<Rightarrow> 'm list \<Rightarrow> bool" where
  "traced_as P Q (Inl _) ms = Q ms"
| "traced_as P Q (Inr x) ms = P x ms"

definition calls_of :: "('c \<Rightarrow> 'm list) \<Rightarrow> 'c list \<Rightarrow> 'm list" where
  "calls_of f cs = concat (map f cs)"

lemma calls_of_simps [simp]:
  "calls_of f [] = []" "calls_of f (c # cs) = f c @ calls_of f cs"
  "calls_of f (cs @ ds) = calls_of f cs @ calls_of f ds"
  by (simp_all add: calls_of_def)

definition traced ::
    "('s \<Rightarrow> 'c list) \<Rightarrow> ('c \<Rightarrow> 'm list) \<Rightarrow> ('s, 'e, 'a) op \<Rightarrow> ('a \<Rightarrow> 'm list \<Rightarrow> bool) \<Rightarrow> ('m list \<Rightarrow> bool) \<Rightarrow> bool" where
  "traced log f p P Q \<longleftrightarrow>
     (\<forall>s. \<exists>new. log (snd (p s)) = log s @ new \<and> traced_as P Q (fst (p s)) (calls_of f new))"

lemma tracedI:
  assumes "\<And>s. \<exists>new. log (snd (p s)) = log s @ new \<and> traced_as P Q (fst (p s)) (calls_of f new)"
  shows "traced log f p P Q"
  using assms unfolding traced_def by blast

lemma tracedE:
  assumes "traced log f p P Q"
  obtains new where "log (snd (p s)) = log s @ new" "traced_as P Q (fst (p s)) (calls_of f new)"
  using assms unfolding traced_def by blast

lemma traced_now:
  assumes "\<And>s. log (snd (p s)) = log s" and "\<And>s. traced_as P Q (fst (p s)) []"
  shows "traced log f p P Q"
  by (rule tracedI, rule exI [of _ "[]"]) (simp add: assms)

lemma traced_ok: "P x [] \<Longrightarrow> traced log f (op_ok x) P Q"
  by (rule traced_now) (simp_all add: op_ok_def)

lemma traced_err: "Q [] \<Longrightarrow> traced log f (op_err e) P Q"
  by (rule traced_now) (simp_all add: op_err_def)

lemma traced_lift: "(\<And>x. r = Inr x \<Longrightarrow> P x []) \<Longrightarrow> Q [] \<Longrightarrow> traced log f (op_lift r) P Q"
  by (rule traced_now) (simp_all add: op_lift_def, cases r, simp_all)

lemma traced_weaken:
  assumes p: "traced log f p P Q" and "\<And>x ms. P x ms \<Longrightarrow> P' x ms" and "\<And>ms. Q ms \<Longrightarrow> Q' ms"
  shows "traced log f p P' Q'"
proof (rule tracedI)
  fix s
  have weaker: "traced_as P Q r ms \<Longrightarrow> traced_as P' Q' r ms" for r ms
    using assms(2,3) by (cases r) simp_all
  obtain new where "log (snd (p s)) = log s @ new" "traced_as P Q (fst (p s)) (calls_of f new)"
    using p by (rule tracedE)
  then show "\<exists>new. log (snd (p s)) = log s @ new \<and> traced_as P' Q' (fst (p s)) (calls_of f new)"
    using weaker by blast
qed

lemma traced_match:
  assumes p: "traced log f p P Q"
    and h: "\<And>x ms. P x ms \<Longrightarrow> traced log f (h x) (\<lambda>y ns. P' y (ms @ ns)) (\<lambda>ns. Q' (ms @ ns))"
    and g: "\<And>e ms. Q ms \<Longrightarrow> traced log f (g e) (\<lambda>y ns. P' y (ms @ ns)) (\<lambda>ns. Q' (ms @ ns))"
  shows "traced log f (op_match p h g) P' Q'"
proof (rule tracedI)
  fix s
  obtain new where new: "log (snd (p s)) = log s @ new" and res: "traced_as P Q (fst (p s)) (calls_of f new)"
    using p by (rule tracedE)
  define k where "k = (case fst (p s) of Inl e \<Rightarrow> g e | Inr x \<Rightarrow> h x)"
  have step: "op_match p h g s = k (snd (p s))"
    by (cases "p s") (simp add: op_match_def k_def split: sum.split)
  have "traced log f k (\<lambda>y ns. P' y (calls_of f new @ ns)) (\<lambda>ns. Q' (calls_of f new @ ns))"
    using res h g by (cases "fst (p s)") (simp_all add: k_def)
  then obtain new' where "log (snd (k (snd (p s)))) = log (snd (p s)) @ new'"
    "traced_as (\<lambda>y ns. P' y (calls_of f new @ ns)) (\<lambda>ns. Q' (calls_of f new @ ns)) (fst (k (snd (p s)))) (calls_of f new')"
    by (rule tracedE)
  then show "\<exists>new. log (snd (op_match p h g s)) = log s @ new \<and>
      traced_as P' Q' (fst (op_match p h g s)) (calls_of f new)"
    unfolding step using new by (intro exI [of _ "new @ new'"]) (cases "fst (k (snd (p s)))"; simp)
qed

lemma traced_then:
  assumes "traced log f p P Q"
    and "\<And>x ms. P x ms \<Longrightarrow> traced log f (h x) (\<lambda>y ns. P' y (ms @ ns)) (\<lambda>ns. Q' (ms @ ns))"
    and "\<And>ms. Q ms \<Longrightarrow> Q' ms"
  shows "traced log f (op_then p h) P' Q'"
  unfolding op_then_def using assms by (intro traced_match [OF assms(1)]) (auto intro: traced_err)

end
