(* ===== verification/Codex_Adapter.thy ===== *)
theory Codex_Adapter
  imports Codex_Actor Config Ops
begin

text \<open>
  The Codex adapter (\<^verbatim>\<open>crates/provider-codex/src/lib.rs\<close>): its configuration and validation, the
  runtime it owns, and the operations of the harness contract, each a sequence of commands to the
  runtime's actor. The client's methods (\<^verbatim>\<open>RuntimeClient\<close> in \<^verbatim>\<open>actor.rs\<close>) are here too.

  An operation acts on the adapter and on a log of the commands sent. What the rest of the program
  answers is the record \<open>codex_world\<close>: whether a process starts, whether the actor takes a command
  and what it replies, and what the operations that run while this one waits make of the runtime.
  Each answer may depend on all that was sent before, so a world stands for any behaviour of actor and
  process.
\<close>

section \<open>Configuration\<close>

definition LAST_VALIDATED_CODEX_VERSION :: string where
  "LAST_VALIDATED_CODEX_VERSION = ''0.147.0''"

definition DEFAULT_MAX_FRAME_SIZE :: nat where
  "DEFAULT_MAX_FRAME_SIZE = 1024 * 1024"

definition spec_local :: "runtime_handle \<Rightarrow> runtime_key \<Rightarrow> string \<Rightarrow> string list \<Rightarrow> codex_spec" where
  "spec_local handle key program args =
     \<lparr>sc_handle = handle, sc_key = key, sc_program = program, sc_args = args,
      sc_max_frame_size = DEFAULT_MAX_FRAME_SIZE, sc_startup_timeout_ms = 5000, sc_redactions = []\<rparr>"

definition spec_validate :: "codex_spec \<Rightarrow> harness_error + unit" where
  "spec_validate s =
     (let key = sc_key s in
      if \<not> path_is_absolute (rk_codex_home key) then Err (HarnessInvalidInput ''Codex home must be absolute'')
      else if trim_is_empty (rk_binary_digest key) \<or> trim_is_empty (rk_execution_runtime key) \<or>
              has_control (rk_binary_digest key) \<or> has_control (rk_execution_runtime key)
      then Err (HarnessInvalidInput ''invalid Codex runtime identity'')
      else if sc_max_frame_size s = 0 \<or> sc_max_frame_size s > 16 * 1024 * 1024
      then Err (HarnessInvalidInput ''invalid Codex maximum frame size'')
      else if list_ex (\<lambda>v. v = [] \<or> length v > sc_max_frame_size s) (sc_redactions s)
      then Err (HarnessInvalidInput ''invalid Codex redaction value'')
      else Ok ())"

definition codex_requirements_for :: "string \<Rightarrow> credential_requirement list option" where
  "codex_requirements_for model_provider =
     (if model_provider = ''openai''
      then Some [\<lparr>crq_slot = CredentialSlot ''codex.account'', crq_delivery = DelegatedTo ''codex-app-server'',
                  crq_required = True\<rparr>]
      else if model_provider = ''fireworks''
      then Some [\<lparr>crq_slot = CredentialSlot ''fireworks.api_key'',
                  crq_delivery = ProcessEnvironment ''FIREWORKS_API_KEY'', crq_required = True\<rparr>]
      else None)"

definition codex_requirements :: "credential_requirement list" where
  "codex_requirements =
     map (\<lambda>r. r\<lparr>crq_required := False\<rparr>)
       (concat (map (\<lambda>p. the (codex_requirements_for p)) [''openai'', ''fireworks'']))"

section \<open>The adapter and the world\<close>

text \<open>The runtime owned: its client, a number, and whether it was started with a credential.\<close>

record owned_runtime =
  or_client :: nat
  or_credential_environment :: bool

datatype codex_call =
  Started nat "(string \<times> string) option"
| Sent nat command_message

record codex_adapter =
  ad_spec :: codex_spec
  ad_runtime :: "owned_runtime option"
  ad_events_taken :: bool
  ad_log :: "codex_call list"

record codex_world =
  cw_starts :: "codex_call list \<Rightarrow> harness_error + unit"
  cw_closed :: "codex_call list \<Rightarrow> nat \<Rightarrow> bool"
  cw_accepts :: "codex_call list \<Rightarrow> bool"
  cw_value :: "codex_call list \<Rightarrow> (harness_error + json) option"
  cw_unit :: "codex_call list \<Rightarrow> (harness_error + unit) option"
  cw_texts :: "codex_call list \<Rightarrow> string list option"
  cw_done :: "codex_call list \<Rightarrow> bool"
  cw_login_status :: "codex_call list \<Rightarrow> harness_account_status option option"
  cw_login :: "codex_call list \<Rightarrow> (harness_error + harness_account_status) option"
  cw_meanwhile :: "codex_call list \<Rightarrow> owned_runtime option \<Rightarrow> owned_runtime option"

type_synonym 'a adapter_op = "(codex_adapter, harness_error, 'a) op"

definition with_spec :: "(codex_spec \<Rightarrow> 'a adapter_op) \<Rightarrow> 'a adapter_op" where
  "with_spec f a = f (ad_spec a) a"

definition adapter_new :: "codex_spec \<Rightarrow> harness_error + codex_adapter" where
  "adapter_new spec =
     and_then (spec_validate spec) (\<lambda>_.
       Ok \<lparr>ad_spec = spec, ad_runtime = None, ad_events_taken = False, ad_log = []\<rparr>)"

definition adapter_subscribe :: "unit adapter_op" where
  "adapter_subscribe a =
     (if ad_events_taken a then (Err HarnessClosed, a) else (Ok (), a\<lparr>ad_events_taken := True\<rparr>))"

section \<open>The client\<close>

text \<open>
  \<open>send_command\<close> logs a command; the actor may be gone. A call that waits for the actor's reply ends
  with \<open>after_wait\<close>, where other operations may have changed the runtime. The reply channel is the
  length of the log.
\<close>

definition send_command :: "codex_world \<Rightarrow> nat \<Rightarrow> (nat \<Rightarrow> command_message) \<Rightarrow> codex_adapter \<Rightarrow> bool \<times> codex_adapter" where
  "send_command W client message a =
     (let log = ad_log a @ [Sent client (message (length (ad_log a)))]
      in (cw_accepts W log, a\<lparr>ad_log := log\<rparr>))"

definition after_wait :: "codex_world \<Rightarrow> codex_adapter \<Rightarrow> codex_adapter" where
  "after_wait W a = a\<lparr>ad_runtime := cw_meanwhile W (ad_log a) (ad_runtime a)\<rparr>"

definition await_reply ::
    "codex_world \<Rightarrow> nat \<Rightarrow> (nat \<Rightarrow> command_message) \<Rightarrow> harness_error \<Rightarrow> harness_error \<Rightarrow>
     (codex_call list \<Rightarrow> (harness_error + 'a) option) \<Rightarrow> 'a adapter_op" where
  "await_reply W client message unsent unanswered answer a =
     (case send_command W client message a of
        (False, a') \<Rightarrow> (Err unsent, a')
      | (True, a') \<Rightarrow>
          (case answer (ad_log a') of
             Some r \<Rightarrow> (r, after_wait W a')
           | None \<Rightarrow> (Err unanswered, after_wait W a')))"

definition client_request ::
    "codex_world \<Rightarrow> nat \<Rightarrow> string \<Rightarrow> json \<Rightarrow> bool \<Rightarrow> request_kind \<Rightarrow> json adapter_op" where
  "client_request W client method params mutation kind =
     await_reply W client (Request method params mutation kind) HarnessDisconnected HarnessDisconnected (cw_value W)"

definition provider_request_not_found :: "provider_request_handle \<Rightarrow> harness_error" where
  "provider_request_not_found request = HarnessNotFound ''provider request'' (request_handle_text request)"

definition client_respond ::
    "codex_world \<Rightarrow> nat \<Rightarrow> provider_request_handle \<Rightarrow> provider_response \<Rightarrow> unit adapter_op" where
  "client_respond W client request response =
     await_reply W client (Respond request response) (provider_request_not_found request)
       (provider_request_not_found request) (cw_unit W)"

definition client_diagnostics :: "codex_world \<Rightarrow> nat \<Rightarrow> string list adapter_op" where
  "client_diagnostics W client =
     await_reply W client Diagnostics HarnessDisconnected HarnessDisconnected
       (\<lambda>log. map_option Ok (cw_texts W log))"

definition client_record_diagnostic :: "codex_world \<Rightarrow> nat \<Rightarrow> string \<Rightarrow> unit adapter_op" where
  "client_record_diagnostic W client diagnostic a =
     (Ok (), snd (send_command W client (\<lambda>_. RecordDiagnostic diagnostic) a))"

definition client_health :: "codex_world \<Rightarrow> nat \<Rightarrow> unit adapter_op" where
  "client_health W client =
     await_reply W client Health HarnessDisconnected HarnessDisconnected
       (\<lambda>log. if cw_done W log then Some (Ok ()) else None)"

definition client_login_status :: "codex_world \<Rightarrow> nat \<Rightarrow> harness_account_status option adapter_op" where
  "client_login_status W client =
     await_reply W client AccountLoginStatus HarnessDisconnected HarnessDisconnected
       (\<lambda>log. map_option Ok (cw_login_status W log))"

definition client_login_start :: "codex_world \<Rightarrow> nat \<Rightarrow> harness_account_status adapter_op" where
  "client_login_start W client =
     await_reply W client StartAccountLogin HarnessDisconnected
       (HarnessOutcomeUnknown ''account/login/start'') (cw_login W)"

definition client_shutdown :: "codex_world \<Rightarrow> nat \<Rightarrow> unit adapter_op" where
  "client_shutdown W client =
     await_reply W client Shutdown HarnessDisconnected HarnessDisconnected
       (\<lambda>log. if cw_done W log then Some (Ok ()) else None)"

section \<open>The runtime\<close>

definition check_handle :: "runtime_handle \<Rightarrow> unit adapter_op" where
  "check_handle handle a =
     (if handle \<noteq> sc_handle (ad_spec a) then (Err (HarnessNotFound ''runtime'' (runtime_str handle)), a)
      else (Ok (), a))"

definition start_owned :: "codex_world \<Rightarrow> (string \<times> string) option \<Rightarrow> nat adapter_op" where
  "start_owned W environment a =
     (let client = length (ad_log a); log = ad_log a @ [Started client environment] in
      case cw_starts W log of
        Inl e \<Rightarrow> (Err e, a\<lparr>ad_log := log\<rparr>)
      | Inr _ \<Rightarrow>
          (Ok client, a\<lparr>ad_log := log,
             ad_runtime := Some \<lparr>or_client = client, or_credential_environment = environment \<noteq> None\<rparr>\<rparr>))"

definition runtime_with_environment ::
    "codex_world \<Rightarrow> runtime_handle \<Rightarrow> (string \<times> string) option \<Rightarrow> nat adapter_op" where
  "runtime_with_environment W handle environment =
     op_then (check_handle handle) (\<lambda>_ a.
       case ad_runtime a of
         Some owned \<Rightarrow>
           if \<not> cw_closed W (ad_log a) (or_client owned) then (Ok (or_client owned), a)
           else start_owned W environment a
       | None \<Rightarrow> start_owned W environment a)"

definition adapter_runtime :: "codex_world \<Rightarrow> runtime_handle \<Rightarrow> nat adapter_op" where
  "adapter_runtime W handle = runtime_with_environment W handle None"

definition has_live_credential_environment :: "codex_world \<Rightarrow> runtime_handle \<Rightarrow> bool adapter_op" where
  "has_live_credential_environment W handle =
     op_then (check_handle handle) (\<lambda>_ a.
       (Ok (some_and (ad_runtime a)
          (\<lambda>r. or_credential_environment r \<and> \<not> cw_closed W (ad_log a) (or_client r))), a))"

definition start_with_environment :: "codex_world \<Rightarrow> runtime_handle \<Rightarrow> string \<Rightarrow> string \<Rightarrow> unit adapter_op" where
  "start_with_environment W handle variable secret =
     op_then (runtime_with_environment W handle (Some (variable, secret))) (\<lambda>_. op_ok ())"

definition adapter_diagnostics :: "codex_world \<Rightarrow> string list adapter_op" where
  "adapter_diagnostics W =
     with_spec (\<lambda>spec. op_then (adapter_runtime W (sc_handle spec)) (client_diagnostics W))"

definition adapter_shutdown :: "codex_world \<Rightarrow> unit adapter_op" where
  "adapter_shutdown W a =
     (case ad_runtime a of
        Some owned \<Rightarrow> client_shutdown W (or_client owned) (a\<lparr>ad_runtime := None\<rparr>)
      | None \<Rightarrow> (Ok (), a))"

section \<open>Accounts\<close>

definition read_account :: "codex_world \<Rightarrow> runtime_handle \<Rightarrow> (nat \<times> json) adapter_op" where
  "read_account W handle =
     op_then (adapter_runtime W handle) (\<lambda>client.
     op_then (client_request W client ''account/read'' (JObj [(''refreshToken'', JBool False)]) False AccountRead)
       (\<lambda>result. op_ok (client, result)))"

definition account_read :: "codex_world \<Rightarrow> runtime_handle \<Rightarrow> (nat \<times> json) adapter_op" where
  "account_read W handle =
     op_then (adapter_runtime W handle) (\<lambda>client.
     op_match (client_request W client ''account/read'' (JObj [(''refreshToken'', JBool False)]) False AccountRead)
       (\<lambda>result. op_ok (client, result))
       (\<lambda>e. if e = HarnessDisconnected then read_account W handle else op_err e))"

definition account_of :: "json \<Rightarrow> harness_account_status" where
  "account_of account =
     (case get_str ''type'' account of
        Some kind \<Rightarrow>
          if kind = ''chatgpt''
          then Authenticated (get_str ''email'' account)
                 (case get_str ''planType'' account of Some plan \<Rightarrow> plan | None \<Rightarrow> ''unknown'')
          else if kind = ''apiKey'' then Authenticated None ''api_key''
          else AccountUnknown
      | None \<Rightarrow> AccountUnknown)"

definition no_account :: "codex_world \<Rightarrow> nat \<Rightarrow> json \<Rightarrow> harness_account_status adapter_op" where
  "no_account W client result =
     (if Option.bind (get ''requiresOpenaiAuth'' result) as_bool = Some False
      then op_ok (Authenticated None ''auth_not_required'')
      else
        op_then (client_login_status W client) (\<lambda>status.
        op_ok (case status of Some s \<Rightarrow> s | None \<Rightarrow> NotAuthenticated)))"

definition adapter_account_status :: "codex_world \<Rightarrow> runtime_handle \<Rightarrow> harness_account_status adapter_op" where
  "adapter_account_status W handle =
     op_then (account_read W handle) (\<lambda>(client, result).
       case get ''account'' result of
         Some account \<Rightarrow>
           if account \<noteq> JNull then op_ok (account_of account) else no_account W client result
       | None \<Rightarrow> no_account W client result)"

definition adapter_login_start :: "codex_world \<Rightarrow> runtime_handle \<Rightarrow> harness_account_status adapter_op" where
  "adapter_login_start W handle = op_then (adapter_runtime W handle) (client_login_start W)"

definition adapter_logout :: "codex_world \<Rightarrow> runtime_handle \<Rightarrow> unit adapter_op" where
  "adapter_logout W handle =
     op_then (adapter_runtime W handle) (\<lambda>client.
     op_then (client_request W client ''account/logout'' (JObj []) True AccountLogout) (\<lambda>_. op_ok ()))"

section \<open>Sessions\<close>

definition codex_protocol_error :: "string \<Rightarrow> harness_error" where
  "codex_protocol_error message = HarnessProtocol (SanitizedDiagnostic message)"

definition required_string :: "json \<Rightarrow> string \<Rightarrow> harness_error + string" where
  "required_string v field =
     (case get_str field v of
        Some s \<Rightarrow> Ok s
      | None \<Rightarrow> Err (codex_protocol_error ''Codex response omitted a required string''))"

definition first_text :: "string option \<Rightarrow> string option \<Rightarrow> string \<Rightarrow> string" where
  "first_text a b fallback = (case a of Some s \<Rightarrow> s | None \<Rightarrow> (case b of Some s \<Rightarrow> s | None \<Rightarrow> fallback))"

definition parse_session :: "codex_spec \<Rightarrow> json \<Rightarrow> string \<Rightarrow> harness_error + provider_session" where
  "parse_session spec v fallback_title =
     (let thread = (case get ''thread'' v of Some t \<Rightarrow> t | None \<Rightarrow> v) in
      and_then (required_string thread ''id'') (\<lambda>i.
      and_then (required_string thread ''cwd'') (\<lambda>cwd.
      let name = Option.bind (get_str ''name'' thread) (\<lambda>s. if s \<noteq> [] then Some s else None);
          title = first_text name (get_str ''preview'' thread) fallback_title in
      and_then (provider_session_id_new i) (\<lambda>session.
      and_then (runtime_path_new cwd) (\<lambda>path.
      Ok \<lparr>ps_id = session, ps_runtime = sc_handle spec, ps_connection_id = rk_connection_id (sc_key spec),
          ps_working_directory = path, ps_title = title\<rparr>)))))"

definition session_summary :: "codex_spec \<Rightarrow> json \<Rightarrow> harness_error + provider_session_summary" where
  "session_summary spec thread =
     and_then (required_string thread ''id'') (\<lambda>i.
     and_then (provider_session_id_new i) (\<lambda>session.
     Ok \<lparr>psm_id = session, psm_title = first_text (get_str ''name'' thread) (get_str ''preview'' thread) ''Codex thread'',
         psm_connection_id = rk_connection_id (sc_key spec)\<rparr>))"

definition list_sessions :: "codex_world \<Rightarrow> runtime_handle \<Rightarrow> session_query \<Rightarrow> session_page adapter_op" where
  "list_sessions W handle query = with_spec (\<lambda>spec.
     op_then (adapter_runtime W handle) (\<lambda>client.
     op_then (client_request W client ''thread/list''
       (JObj [(''cursor'', case sq_after query of Some c \<Rightarrow> JStr (page_str c) | None \<Rightarrow> JNull),
              (''limit'', JInt (uint (sq_limit query))), (''sortDirection'', JStr ''asc'')]) False ThreadList) (\<lambda>result.
     op_lift
      (case get_array ''data'' result of
         None \<Rightarrow> Err (codex_protocol_error ''thread/list omitted data'')
       | Some data \<Rightarrow>
           and_then (collect_results (session_summary spec) data) (\<lambda>items.
           and_then (case get_str ''nextCursor'' result of
               Some c \<Rightarrow> map_ok Some (session_page_cursor_new c) | None \<Rightarrow> Ok None) (\<lambda>next_cursor.
           Ok \<lparr>sp_items = items, sp_next = next_cursor\<rparr>))))))"

record start_session_spec =
  ss_working_directory :: runtime_path
  ss_title :: string

definition start_session :: "codex_world \<Rightarrow> runtime_handle \<Rightarrow> start_session_spec \<Rightarrow> provider_session adapter_op" where
  "start_session W handle wanted = with_spec (\<lambda>spec.
     let cwd = path_str (ss_working_directory wanted) in
      if \<not> path_is_absolute cwd
      then op_err (HarnessInvalidInput ''local Codex working directory must be absolute'')
      else
        op_then (adapter_runtime W handle) (\<lambda>client.
        op_then (client_request W client ''thread/start'' (JObj [(''cwd'', JStr cwd)]) True (Session None)) (\<lambda>result.
        op_then (op_lift (parse_session spec result (ss_title wanted))) (\<lambda>session.
        op_match (client_request W client ''thread/name/set''
            (JObj [(''threadId'', JStr (session_str (ps_id session))), (''name'', JStr (ss_title wanted))])
            True EmptyObject)
          (\<lambda>_. op_ok (session\<lparr>ps_title := ss_title wanted\<rparr>))
          (\<lambda>e. op_then (client_record_diagnostic W client (harness_error_text e)) (\<lambda>_. op_ok session))))))"

definition resume_session :: "codex_world \<Rightarrow> runtime_handle \<Rightarrow> provider_session_id \<Rightarrow> provider_session adapter_op" where
  "resume_session W handle i = with_spec (\<lambda>spec.
     op_then (adapter_runtime W handle) (\<lambda>client.
     op_then (client_request W client ''thread/resume'' (JObj [(''threadId'', JStr (session_str i))]) False
       (Session (Some (session_str i)))) (\<lambda>result.
     op_lift (parse_session spec result ''Codex thread''))))"

section \<open>Runs\<close>

fun is_authenticated :: "harness_account_status \<Rightarrow> bool" where
  "is_authenticated (Authenticated _ _) = True"
| "is_authenticated _ = False"

definition text_input :: "harness_input \<Rightarrow> json" where
  "text_input input = JArr [JObj [(''type'', JStr ''text''), (''text'', JStr (input_str input))]]"

definition started_run :: "codex_spec \<Rightarrow> provider_session \<Rightarrow> json \<Rightarrow> harness_error + provider_run_handle" where
  "started_run spec session result =
     (case get ''turn'' result of
        None \<Rightarrow> Err (codex_protocol_error ''turn/start omitted turn'')
      | Some turn \<Rightarrow>
          and_then (required_string turn ''id'') (\<lambda>i.
          and_then (provider_run_id_new i) (\<lambda>native.
          Ok \<lparr>ph_runtime = sc_handle spec, ph_session_id = ps_id session, ph_native_id = native\<rparr>)))"

definition adapter_start_run ::
    "codex_world \<Rightarrow> provider_session \<Rightarrow> harness_input \<Rightarrow> string option \<Rightarrow> provider_run_handle adapter_op" where
  "adapter_start_run W session input model = with_spec (\<lambda>spec.
      if ps_runtime session \<noteq> sc_handle spec \<or> ps_connection_id session \<noteq> rk_connection_id (sc_key spec)
      then op_err (HarnessInvalidInput ''session does not belong to this Codex runtime'')
      else
        op_then (adapter_account_status W (ps_runtime session)) (\<lambda>status.
        if \<not> is_authenticated status then op_err HarnessNotAuthenticated
        else
          op_then (adapter_runtime W (ps_runtime session)) (\<lambda>client.
          op_then (client_request W client ''turn/start''
            (JObj [(''threadId'', JStr (session_str (ps_id session))), (''input'', text_input input),
                   (''model'', case model of Some m \<Rightarrow> JStr m | None \<Rightarrow> JNull)])
            True (StartRun (ps_id session))) (\<lambda>result.
          op_lift (started_run spec session result)))))"

definition adapter_steer :: "codex_world \<Rightarrow> provider_run_handle \<Rightarrow> harness_input \<Rightarrow> unit adapter_op" where
  "adapter_steer W run input =
     op_then (adapter_runtime W (ph_runtime run)) (\<lambda>client.
     op_then (client_request W client ''turn/steer''
       (JObj [(''threadId'', JStr (session_str (ph_session_id run))),
              (''expectedTurnId'', JStr (run_str (ph_native_id run))), (''input'', text_input input)])
       True (TurnSteer (ph_native_id run))) (\<lambda>_. op_ok ()))"

definition adapter_interrupt :: "codex_world \<Rightarrow> provider_run_handle \<Rightarrow> unit adapter_op" where
  "adapter_interrupt W run =
     op_then (adapter_runtime W (ph_runtime run)) (\<lambda>client.
     op_then (client_request W client ''turn/interrupt''
       (JObj [(''threadId'', JStr (session_str (ph_session_id run))), (''turnId'', JStr (run_str (ph_native_id run)))])
       True EmptyObject) (\<lambda>_. op_ok ()))"

definition respond_to_request :: "codex_world \<Rightarrow> provider_request_handle \<Rightarrow> provider_response \<Rightarrow> unit adapter_op" where
  "respond_to_request W request response =
     op_then (adapter_runtime W (ph_runtime (qh_run request))) (\<lambda>client. client_respond W client request response)"

section \<open>What the adapter offers\<close>

record harness_descriptor =
  hd_id :: string
  hd_name :: string
  hd_version :: string

definition adapter_descriptor :: harness_descriptor where
  "adapter_descriptor =
     \<lparr>hd_id = ''codex'', hd_name = ''Codex App Server'', hd_version = LAST_VALIDATED_CODEX_VERSION\<rparr>"

record harness_capabilities =
  hc_persistent_sessions :: bool
  hc_session_listing :: bool
  hc_native_fork :: bool
  hc_session_archive :: bool
  hc_mid_run_steering :: bool
  hc_client_approvals :: bool
  hc_user_input_requests :: bool
  hc_structured_file_changes :: bool
  hc_command_output_streaming :: bool
  hc_native_subagent_lineage :: bool
  hc_images :: bool
  hc_skills :: bool
  hc_mcp :: bool
  hc_account_ui :: bool
  hc_model_discovery :: bool

definition capabilities_value :: harness_capabilities where
  "capabilities_value =
     \<lparr>hc_persistent_sessions = True, hc_session_listing = True, hc_native_fork = False,
      hc_session_archive = True, hc_mid_run_steering = True, hc_client_approvals = True,
      hc_user_input_requests = True, hc_structured_file_changes = True,
      hc_command_output_streaming = True, hc_native_subagent_lineage = True, hc_images = True,
      hc_skills = True, hc_mcp = True, hc_account_ui = True, hc_model_discovery = True\<rparr>"

definition adapter_capabilities :: "codex_world \<Rightarrow> runtime_handle \<Rightarrow> harness_capabilities adapter_op" where
  "adapter_capabilities W handle =
     op_then (adapter_runtime W handle) (\<lambda>client.
     op_then (client_health W client) (\<lambda>_. op_ok capabilities_value))"

end
