(* ===== verification/Codex_Adapter_Laws.thy ===== *)
theory Codex_Adapter_Laws
  imports Codex_Adapter Codex_Loop
begin

text \<open>
  What an operation of the Codex adapter sends. A request that changes the provider's state is sent at
  most once per operation; the only request repeated after a lost connection is \<^verbatim>\<open>account/read\<close>, which
  reads. \<open>sends\<close> is \<open>traced\<close> for the mutating requests.
\<close>

section \<open>Requests of an operation\<close>

fun mutation_of :: "codex_call \<Rightarrow> string list" where
  "mutation_of (Sent _ (Request method _ mutation _ _)) = (if mutation then [method] else [])"
| "mutation_of (Sent _ (StartAccountLogin _)) = [''account/login/start'']"
| "mutation_of (Sent _ (Respond _ _ _)) = [''respond'']"
| "mutation_of _ = []"

abbreviation mutations :: "codex_call list \<Rightarrow> string list" where
  "mutations \<equiv> calls_of mutation_of"

abbreviation sends :: "'a adapter_op \<Rightarrow> ('a \<Rightarrow> string list \<Rightarrow> bool) \<Rightarrow> (string list \<Rightarrow> bool) \<Rightarrow> bool" where
  "sends \<equiv> traced ad_log mutation_of"

lemma sends_spec: "(\<And>spec. sends (f spec) P Q) \<Longrightarrow> sends (with_spec f) P Q"
  unfolding traced_def with_spec_def by blast

section \<open>The client and the runtime\<close>

abbreviation "quiet \<equiv> (\<lambda>ms :: string list. ms = [])"
abbreviation "quietly \<equiv> (\<lambda>_ (ms :: string list). ms = [])"

lemma sends_await:
  assumes "\<And>n. mutation_of (Sent client (message n)) = ms"
  shows "sends (await_reply W client message unsent unanswered answer) (\<lambda>_ ns. ns = ms) (\<lambda>ns. ns = ms)"
proof (rule tracedI)
  fix a
  have all: "traced_as (\<lambda>_ ns. ns = ms) (\<lambda>ns. ns = ms) r ms" for r :: "harness_error + 'a"
    by (cases r) simp_all
  show "\<exists>new. ad_log (snd (await_reply W client message unsent unanswered answer a)) = ad_log a @ new \<and>
     traced_as (\<lambda>_ ns. ns = ms) (\<lambda>ns. ns = ms)
       (fst (await_reply W client message unsent unanswered answer a)) (mutations new)"
    by (rule exI [of _ "[Sent client (message (length (ad_log a)))]"])
      (simp add: await_reply_def send_command_def after_wait_def assms Let_def all
        split: option.split bool.split)
qed

lemma sends_request:
  "sends (client_request W client method params mutation kind)
     (\<lambda>_ ms. ms = (if mutation then [method] else [])) (\<lambda>ms. ms = (if mutation then [method] else []))"
  unfolding client_request_def by (rule sends_await) simp

lemma sends_login_status: "sends (client_login_status W client) quietly quiet"
  unfolding client_login_status_def by (rule sends_await) simp

lemma sends_record: "sends (client_record_diagnostic W client d) quietly (\<lambda>_. False)"
  by (rule tracedI) (simp add: client_record_diagnostic_def send_command_def Let_def)

lemma sends_check_handle: "sends (check_handle handle) quietly quiet"
  by (rule traced_now) (simp_all add: check_handle_def)

lemma sends_start_owned: "sends (start_owned W environment) quietly quiet"
  by (rule tracedI) (simp add: start_owned_def Let_def split: sum.split)

lemma sends_runtime: "sends (adapter_runtime W handle) quietly quiet"
proof -
  have "sends (\<lambda>a. case ad_runtime a of
         Some owned \<Rightarrow>
           if \<not> cw_closed W (ad_log a) (or_client owned) then (Ok (or_client owned), a)
           else start_owned W environment a
       | None \<Rightarrow> start_owned W environment a) quietly quiet" for environment
  proof (rule tracedI)
    fix a
    obtain new where started: "ad_log (snd (start_owned W environment a)) = ad_log a @ new"
      "traced_as quietly quiet (fst (start_owned W environment a)) (mutations new)"
      using sends_start_owned by (rule tracedE)
    let ?r = "case ad_runtime a of
         Some owned \<Rightarrow>
           if \<not> cw_closed W (ad_log a) (or_client owned) then (Ok (or_client owned), a)
           else start_owned W environment a
       | None \<Rightarrow> start_owned W environment a"
    have "?r = start_owned W environment a \<or> (\<exists>client. ?r = (Ok client, a))"
      by (simp split: option.split)
    then show "\<exists>new. ad_log (snd ?r) = ad_log a @ new \<and>
        traced_as quietly quiet (fst ?r) (mutations new)"
    proof
      assume "?r = start_owned W environment a"
      with started show ?thesis by auto
    next
      assume "\<exists>client. ?r = (Ok client, a)"
      then obtain client where "?r = (Ok client, a)" ..
      then show ?thesis by simp
    qed
  qed
  then show ?thesis
    unfolding adapter_runtime_def runtime_with_environment_def
    by (intro traced_then [OF sends_check_handle]) auto
qed

lemma sends_account_read: "sends (account_read W handle) quietly quiet"
  unfolding account_read_def read_account_def
  by (rule traced_then [OF sends_runtime], rule traced_match [OF sends_request])
    (auto intro!: traced_ok traced_err traced_then [OF sends_runtime] traced_then [OF sends_request])

lemma sends_account_status: "sends (adapter_account_status W handle) quietly quiet"
proof -
  have none: "sends (no_account W client result) quietly quiet" for client result
    unfolding no_account_def
    by (auto intro!: traced_ok traced_then [OF sends_login_status])
  show ?thesis
    unfolding adapter_account_status_def
    by (rule traced_then [OF sends_account_read]) (auto split: option.split intro!: traced_ok none)
qed

section \<open>The operations\<close>

lemma started_run_Ok:
  "started_run spec session result = Ok h \<Longrightarrow> ph_runtime h = sc_handle spec \<and> ph_session_id h = ps_id session"
  by (auto simp: started_run_def and_then_eq_Ok split: option.splits)

lemma sends_start_run:
  "sends (adapter_start_run W session input model)
     (\<lambda>h ms. ms = [''turn/start''] \<and> ph_runtime h = ps_runtime session \<and> ph_session_id h = ps_id session)
     (\<lambda>ms. ms = [] \<or> ms = [''turn/start''])"
  unfolding adapter_start_run_def
  by (rule sends_spec)
    (auto intro!: traced_err traced_lift traced_then [OF sends_account_status] traced_then [OF sends_runtime]
      traced_then [OF sends_request] dest: started_run_Ok)

lemma sends_start_session:
  "sends (start_session W handle wanted)
     (\<lambda>_ ms. ms = [''thread/start'', ''thread/name/set'']) (\<lambda>ms. ms = [] \<or> ms = [''thread/start''])"
proof -
  have parsed: "sends (op_lift (parse_session spec result title)) quietly quiet" for spec result title
    by (rule traced_lift) simp_all
  show ?thesis
    unfolding start_session_def
    by (rule sends_spec)
      (auto simp: Let_def intro!: traced_err traced_ok traced_then [OF sends_runtime]
        traced_then [OF sends_request] traced_match [OF sends_request] traced_then [OF sends_record]
        traced_then [OF parsed])
qed

lemma sends_steer:
  "sends (adapter_steer W run input) (\<lambda>_ ms. ms = [''turn/steer'']) (\<lambda>ms. ms = [] \<or> ms = [''turn/steer''])"
  unfolding adapter_steer_def
  by (rule traced_then [OF sends_runtime], rule traced_then [OF sends_request]) (auto intro: traced_ok)

lemma sends_interrupt:
  "sends (adapter_interrupt W run) (\<lambda>_ ms. ms = [''turn/interrupt'']) (\<lambda>ms. ms = [] \<or> ms = [''turn/interrupt''])"
  unfolding adapter_interrupt_def
  by (rule traced_then [OF sends_runtime], rule traced_then [OF sends_request]) (auto intro: traced_ok)

lemma sends_respond:
  "sends (respond_to_request W request response) (\<lambda>_ ms. ms = [''respond'']) (\<lambda>ms. ms = [] \<or> ms = [''respond''])"
  unfolding respond_to_request_def client_respond_def
  by (rule traced_then [OF sends_runtime])
    (auto intro!: sends_await [THEN traced_weaken])

end
