(* ===== verification/Shell.thy ===== *)
theory Shell
  imports Supervisor Codex_Adapter Secrets_Broker Paths
begin

text \<open>
  The harness of the desktop shell (\<^verbatim>\<open>CodexHarness\<close> of \<^verbatim>\<open>crates/yakshed-desktop/src/macos.rs\<close>): the
  registry of adapters and runs behind one lock, and \<open>next_event\<close>, which hands the events of all
  adapters to the supervisor.

  The registry's \<open>HashMap\<close>s are association lists. A function of the code that holds the lock from
  its first to its last line is one definition. \<open>next_event\<close> gives the lock back several times and
  waits, so it is a machine whose turns (\<open>event_turn\<close>) are the stretches between two such points;
  other tasks change the registry and the channel between its turns. \<open>convert_event\<close> looks up the
  run's reference and retires the run under separate locks; only the pump retires runs and no task
  changes an entry of \<open>native_refs\<close> that exists to another value, so it is one turn. The channel is
  never closed while the harness lives, which keeps a sender itself.
\<close>

section \<open>State\<close>

record shell_provider =
  pv_provider_state :: string
  pv_credential_generation :: "u64 option"
  pv_adapter :: nat

record run_state =
  ru_providers :: "(connection_id \<times> shell_provider) list"
  ru_runs :: "(provider_run_ref \<times> connection_id \<times> run_id \<times> provider_run_handle) list"
  ru_native_refs :: "(provider_run_handle \<times> provider_run_ref) list"
  ru_correlations :: "(run_id \<times> provider_run_ref) list"
  ru_pending_events :: "(provider_run_handle \<times> provider_event list) list"
  ru_replay_events :: "provider_event list"

definition run_state_default :: run_state where
  "run_state_default =
     \<lparr>ru_providers = [], ru_runs = [], ru_native_refs = [], ru_correlations = [],
      ru_pending_events = [], ru_replay_events = []\<rparr>"

definition PENDING_EVENT_CAPACITY :: nat where
  "PENDING_EVENT_CAPACITY = 128"

definition SHELL_CHANNEL_CAPACITY :: nat where
  "SHELL_CHANNEL_CAPACITY = 128"

text \<open>
  Where \<open>next_event\<close> stands: before the replayed events, before the test of the pending ones, waiting
  for a notification alone or together with the channel, or with an event received from the channel
  and not yet the lock.
\<close>

datatype pump_at = AtReplay | AtPending | AtNotified | AtSelect | Holding provider_event

text \<open>
  \<open>sh_ready\<close> is the permit that \<open>notify_one\<close> leaves in \<open>event_ready\<close>; \<open>sh_adapters\<close> counts the
  adapters created, an adapter (an \<open>Arc\<close>) being its number.
\<close>

record shell =
  sh_state :: run_state
  sh_channel :: "provider_event list"
  sh_ready :: bool
  sh_pump :: pump_at
  sh_adapters :: nat

definition shell_new :: shell where
  "shell_new =
     \<lparr>sh_state = run_state_default, sh_channel = [], sh_ready = False, sh_pump = AtReplay, sh_adapters = 0\<rparr>"

section \<open>Errors and accounts\<close>

fun shell_harness_error :: "harness_error \<Rightarrow> port_error" where
  "shell_harness_error (HarnessInvalidInput message) = PortInvalidInput message"
| "shell_harness_error (HarnessNotFound entity i) = PortNotFound (entity @ '': '' @ i)"
| "shell_harness_error (HarnessConflict message) = PortConflict message"
| "shell_harness_error (HarnessUnsupported message) = PortUnsupported message"
| "shell_harness_error HarnessOverloaded = PortOverloaded"
| "shell_harness_error HarnessDisconnected = PortDisconnected"
| "shell_harness_error HarnessNotAuthenticated = PortNotAuthenticated"
| "shell_harness_error (HarnessOutcomeUnknown operation) = PortOutcomeUnknown operation"
| "shell_harness_error HarnessClosed = PortClosed"
| "shell_harness_error (HarnessProtocol d) = PortProtocol (sanitized_text d)"
| "shell_harness_error (HarnessTransport d) = PortTransport (sanitized_text d)"
| "shell_harness_error (HarnessRuntime d) = PortRuntime (sanitized_text d)"

section \<open>The registry of runs\<close>

definition owns_runs :: "connection_id \<Rightarrow> run_state \<Rightarrow> bool" where
  "owns_runs i s = list_ex (\<lambda>(_, owner, _, _). owner = i) (ru_runs s)"

definition native_ref_parts :: "provider_run_handle \<Rightarrow> orchestration_error + provider_run_ref" where
  "native_ref_parts native =
     provider_run_ref_from_parts ''codex'' (runtime_str (ph_runtime native))
       (session_str (ph_session_id native)) (run_str (ph_native_id native))"

text \<open>\<open>from_parts\<close> fails with no other error than an invalid identifier, whose text is put here.\<close>

fun provider_id_error :: "orchestration_error \<Rightarrow> port_error" where
  "provider_id_error (InvalidProviderId message) = PortInvalidInput (''invalid provider identifier: '' @ message)"
| "provider_id_error _ = PortInvalidInput []"

definition register_run_state ::
    "connection_id \<Rightarrow> run_id \<Rightarrow> provider_run_handle \<Rightarrow> provider_run_ref \<Rightarrow> run_state \<Rightarrow> bool \<times> run_state" where
  "register_run_state connection correlation native run s =
     (let s1 = s\<lparr>ru_native_refs := AList.update native run (ru_native_refs s),
                 ru_runs := AList.update run (connection, correlation, native) (ru_runs s),
                 ru_correlations := AList.update correlation run (ru_correlations s)\<rparr>
      in case map_of (ru_pending_events s1) native of
           Some events \<Rightarrow>
             (True, s1\<lparr>ru_pending_events := AList.delete native (ru_pending_events s1),
                       ru_replay_events := ru_replay_events s1 @ events\<rparr>)
         | None \<Rightarrow> (False, s1))"

definition register_run ::
    "connection_id \<Rightarrow> run_id \<Rightarrow> provider_run_handle \<Rightarrow> shell \<Rightarrow> (port_error + provider_run_ref) \<times> shell" where
  "register_run connection correlation native w =
     (case map_err provider_id_error (native_ref_parts native) of
        Inl e \<Rightarrow> (Err e, w)
      | Inr run \<Rightarrow>
          (let (notify, s) = register_run_state connection correlation native run (sh_state w)
           in (Ok run, w\<lparr>sh_state := s, sh_ready := sh_ready w \<or> notify\<rparr>)))"

definition evict_idle_adapter :: "connection_id \<Rightarrow> nat \<Rightarrow> run_state \<Rightarrow> bool \<times> run_state" where
  "evict_idle_adapter i adapter s =
     (let idle = \<not> owns_runs i s;
          current = some_and (map_of (ru_providers s) i) (\<lambda>p. pv_adapter p = adapter)
      in if idle \<and> current then (True, s\<lparr>ru_providers := AList.delete i (ru_providers s)\<rparr>) else (False, s))"

definition native_run :: "'z libs_scheme \<Rightarrow> provider_run_ref \<Rightarrow> run_state \<Rightarrow> port_error + nat \<times> provider_run_handle" where
  "native_run L run s =
     (case map_of (ru_runs s) run of
        None \<Rightarrow> Err (PortNotFound (pri_run_id run))
      | Some (connection, _, native) \<Rightarrow>
          (case map_of (ru_providers s) connection of
             None \<Rightarrow> Err (PortNotFound (id_text L connection))
           | Some p \<Rightarrow> Ok (pv_adapter p, native)))"

definition run_ref :: "provider_run_handle \<Rightarrow> run_state \<Rightarrow> port_error + provider_run_ref" where
  "run_ref native s =
     (case map_of (ru_native_refs s) native of
        Some run \<Rightarrow> Ok run
      | None \<Rightarrow> Err (PortNotFound (run_handle_text native)))"

definition retire_native :: "provider_run_handle \<Rightarrow> bool \<Rightarrow> run_state \<Rightarrow> run_state" where
  "retire_native native runtime_failed s =
     (case map_of (ru_native_refs s) native of
        None \<Rightarrow> s
      | Some run \<Rightarrow>
          (let s1 = s\<lparr>ru_native_refs := AList.delete native (ru_native_refs s)\<rparr> in
           case map_of (ru_runs s1) run of
             None \<Rightarrow> s1
           | Some (connection, correlation, _) \<Rightarrow>
               (let s2 = s1\<lparr>ru_runs := AList.delete run (ru_runs s1),
                           ru_correlations := AList.delete correlation (ru_correlations s1)\<rparr>
                in if runtime_failed \<and> \<not> owns_runs connection s2
                   then s2\<lparr>ru_providers := AList.delete connection (ru_providers s2)\<rparr>
                   else s2)))"

definition lookup_run :: "connection_id \<Rightarrow> run_id \<Rightarrow> run_state \<Rightarrow> provider_run_ref option" where
  "lookup_run connection correlation s =
     (case map_of (ru_correlations s) correlation of
        Some run \<Rightarrow>
          if some_and (map_of (ru_runs s) run) (\<lambda>(owner, _, _). owner = connection) then Some run else None
      | None \<Rightarrow> None)"

definition shell_reconnect :: "provider_run_ref \<Rightarrow> run_state \<Rightarrow> bool" where
  "shell_reconnect run s = (map_of (ru_runs s) run \<noteq> None)"

section \<open>Events\<close>

fun native_event_run :: "provider_event \<Rightarrow> provider_run_handle option" where
  "native_event_run (HRunAccepted run _) = Some run"
| "native_event_run (HMessageDelta run _ _) = Some run"
| "native_event_run (HMessageCompleted run _ _) = Some run"
| "native_event_run (HFileMutation run _ _ _) = Some run"
| "native_event_run (HCommandOutputDelta run _ _ _ _) = Some run"
| "native_event_run (HCommandOutputCompleted run _ _ _ _) = Some run"
| "native_event_run (HRunTerminal run _ _) = Some run"
| "native_event_run (HApprovalRequested request _ _) = Some (qh_run request)"
| "native_event_run (HUserInputRequested request _ _) = Some (qh_run request)"
| "native_event_run (HUnknown run _ _) = run"
| "native_event_run (HMalformed run _ _) = run"

definition shell_request_ref :: "provider_request_handle \<Rightarrow> run_state \<Rightarrow> port_error + request_ref" where
  "shell_request_ref request s =
     map_ok (\<lambda>run. \<lparr>rq_run = run, rq_native_id = request_str (qh_native_id request)\<rparr>) (run_ref (qh_run request) s)"

definition command_ref_of :: "provider_command_handle \<Rightarrow> run_state \<Rightarrow> port_error + command_ref" where
  "command_ref_of command s =
     map_ok (\<lambda>run. \<lparr>cm_run = run, cm_native_id = command_str (ch_native_id command)\<rparr>) (run_ref (ch_run command) s)"

definition optional_ref :: "provider_run_handle option \<Rightarrow> run_state \<Rightarrow> port_error + provider_run_ref option" where
  "optional_ref run s = (case run of Some r \<Rightarrow> map_ok Some (run_ref r s) | None \<Rightarrow> Ok None)"

fun terminal_of :: "harness_run_terminal \<Rightarrow> run_terminal" where
  "terminal_of TermCompleted = TerminalCompleted"
| "terminal_of (TermFailed d) = TerminalFailed (sanitized_text d)"
| "terminal_of TermInterrupted = TerminalInterrupted"
| "terminal_of (TermCrashed d) = TerminalCrashed (sanitized_text d)"

fun converted :: "provider_event \<Rightarrow> run_state \<Rightarrow> port_error + harness_event" where
  "converted (HRunAccepted run _) s = map_ok RunAccepted (run_ref run s)"
| "converted (HMessageDelta run chunk _) s = map_ok (\<lambda>r. MessageDelta r chunk) (run_ref run s)"
| "converted (HMessageCompleted run content _) s = map_ok (\<lambda>r. MessageCompleted r content) (run_ref run s)"
| "converted (HApprovalRequested request summary _) s =
     map_ok (\<lambda>q. ApprovalRequested q summary) (shell_request_ref request s)"
| "converted (HUserInputRequested request prompt _) s =
     map_ok (\<lambda>q. UserInputRequested q prompt) (shell_request_ref request s)"
| "converted (HFileMutation run path summary _) s = map_ok (\<lambda>r. FileMutation r path summary) (run_ref run s)"
| "converted (HCommandOutputDelta run command command_text chunk _) s =
     and_then (run_ref run s) (\<lambda>r. map_ok (\<lambda>c. CommandOutputDelta r c command_text chunk) (command_ref_of command s))"
| "converted (HCommandOutputCompleted run command command_text output _) s =
     and_then (run_ref run s) (\<lambda>r. map_ok (\<lambda>c. CommandOutputCompleted r c command_text output) (command_ref_of command s))"
| "converted (HRunTerminal run state _) s = map_ok (\<lambda>r. RunTerminal r (terminal_of state)) (run_ref run s)"
| "converted (HUnknown run item_type native) s =
     map_ok (\<lambda>r. UnknownEvent r item_type (sanitized_raw native)) (optional_ref run s)"
| "converted (HMalformed run item_type native) s =
     map_ok (\<lambda>r. MalformedEvent r item_type (sanitized_raw native)) (optional_ref run s)"

fun is_crash :: "harness_run_terminal \<Rightarrow> bool" where
  "is_crash (TermCrashed _) = True"
| "is_crash _ = False"

fun terminal_run :: "provider_event \<Rightarrow> (provider_run_handle \<times> bool) option" where
  "terminal_run (HRunTerminal run state _) = Some (run, is_crash state)"
| "terminal_run _ = None"

definition convert_event :: "provider_event \<Rightarrow> run_state \<Rightarrow> (port_error + harness_event) \<times> run_state" where
  "convert_event event s =
     (case converted event s of
        Inl e \<Rightarrow> (Err e, s)
      | Inr c \<Rightarrow>
          (Ok c, case terminal_run event of
             Some (native, runtime_failed) \<Rightarrow> retire_native native runtime_failed s
           | None \<Rightarrow> s))"

section \<open>The event stream\<close>

definition pending_total :: "run_state \<Rightarrow> nat" where
  "pending_total s = sum_list (map (length \<circ> snd) (ru_pending_events s))"

definition hold_back :: "provider_run_handle \<Rightarrow> provider_event \<Rightarrow> run_state \<Rightarrow> run_state" where
  "hold_back native event s =
     s\<lparr>ru_pending_events := AList.update native
        ((case map_of (ru_pending_events s) native of Some es \<Rightarrow> es | None \<Rightarrow> []) @ [event]) (ru_pending_events s)\<rparr>"

definition deliver_event :: "provider_event \<Rightarrow> shell \<Rightarrow> (provider_event \<times> (port_error + harness_event)) option \<times> shell" where
  "deliver_event event w =
     (case convert_event event (sh_state w) of
        (r, s) \<Rightarrow> (Some (event, r), w\<lparr>sh_state := s, sh_pump := AtReplay\<rparr>))"

text \<open>
  A turn gives what it returns to the caller, with the provider's event it comes from, and the next
  state; \<open>None\<close> where the pump waits and nothing wakes it. After a return the next call of
  \<open>next_event\<close> begins. A notification is looked at before the channel (\<open>biased\<close>).
\<close>

definition event_turn :: "shell \<Rightarrow> ((provider_event \<times> (port_error + harness_event)) option \<times> shell) option" where
  "event_turn w =
     (case sh_pump w of
        AtReplay \<Rightarrow>
          (case ru_replay_events (sh_state w) of
             event # rest \<Rightarrow>
               Some (deliver_event event (w\<lparr>sh_state := (sh_state w)\<lparr>ru_replay_events := rest\<rparr>\<rparr>))
           | [] \<Rightarrow> Some (None, w\<lparr>sh_pump := AtPending\<rparr>))
      | AtPending \<Rightarrow>
          Some (None, w\<lparr>sh_pump := (if pending_total (sh_state w) \<ge> PENDING_EVENT_CAPACITY
                                   then AtNotified else AtSelect)\<rparr>)
      | AtNotified \<Rightarrow>
          (if sh_ready w then Some (None, w\<lparr>sh_ready := False, sh_pump := AtReplay\<rparr>) else None)
      | AtSelect \<Rightarrow>
          (if sh_ready w then Some (None, w\<lparr>sh_ready := False, sh_pump := AtReplay\<rparr>)
           else case sh_channel w of
                  event # rest \<Rightarrow> Some (None, w\<lparr>sh_channel := rest, sh_pump := Holding event\<rparr>)
                | [] \<Rightarrow> None)
      | Holding event \<Rightarrow>
          (case native_event_run event of
             Some native \<Rightarrow>
               if map_of (ru_native_refs (sh_state w)) native = None
               then Some (None, w\<lparr>sh_state := hold_back native event (sh_state w), sh_pump := AtReplay\<rparr>)
               else Some (deliver_event event w)
           | None \<Rightarrow> Some (deliver_event event w)))"

text \<open>\<open>forward\<close>: a task of each adapter passes its events on, waiting while the channel is full.\<close>

definition forward_event :: "provider_event \<Rightarrow> shell \<Rightarrow> shell option" where
  "forward_event event w =
     (if length (sh_channel w) < SHELL_CHANNEL_CAPACITY
      then Some (w\<lparr>sh_channel := sh_channel w @ [event]\<rparr>) else None)"

end
