(* ===== verification/Shell_Stream.thy ===== *)
theory Shell_Stream
  imports Shell
begin

text \<open>
  Executions of the shell's event stream: the adapters' tasks forward events, \<open>next_event\<close> takes its
  turns, and runs are registered in between. \<open>calm\<close> executions are those in which no run is registered
  in the moment the pump holds one of the run's events while earlier ones wait; in them every run's
  events are delivered in the order they arrived and none is refused. The moment left out is real: the
  last section shows what happens there, and that events of a run which is never registered can stop
  the stream.
\<close>

section \<open>Executions\<close>

record stream =
  st_shell :: shell
  st_arrived :: "provider_event list"
  st_delivered :: "(provider_event \<times> (port_error + harness_event)) list"

datatype shell_action =
  Forwarded provider_event
| Turned
| RunRegistered connection_id run_id provider_run_handle
| AdapterEvicted connection_id nat

definition stream_new :: stream where
  "stream_new = \<lparr>st_shell = shell_new, st_arrived = [], st_delivered = []\<rparr>"

fun stream_step :: "shell_action \<Rightarrow> stream \<Rightarrow> stream option" where
  "stream_step (Forwarded event) t =
     map_option (\<lambda>w. t\<lparr>st_shell := w, st_arrived := st_arrived t @ [event]\<rparr>) (forward_event event (st_shell t))"
| "stream_step Turned t =
     map_option (\<lambda>(out, w). t\<lparr>st_shell := w,
         st_delivered := st_delivered t @ (case out of Some d \<Rightarrow> [d] | None \<Rightarrow> [])\<rparr>) (event_turn (st_shell t))"
| "stream_step (RunRegistered connection correlation native) t =
     Some (t\<lparr>st_shell := snd (register_run connection correlation native (st_shell t))\<rparr>)"
| "stream_step (AdapterEvicted connection adapter) t =
     Some (t\<lparr>st_shell := (st_shell t)\<lparr>sh_state :=
       snd (evict_idle_adapter connection adapter (sh_state (st_shell t)))\<rparr>\<rparr>)"

fun stream_run :: "shell_action list \<Rightarrow> stream \<Rightarrow> stream option" where
  "stream_run [] t = Some t"
| "stream_run (a # as) t = Option.bind (stream_step a t) (stream_run as)"

definition of_run :: "provider_run_handle \<Rightarrow> provider_event list \<Rightarrow> provider_event list" where
  "of_run n = filter (\<lambda>e. native_event_run e = Some n)"

fun in_hand :: "pump_at \<Rightarrow> provider_event list" where
  "in_hand (Holding e) = [e]"
| "in_hand _ = []"

definition waiting_of :: "provider_run_handle \<Rightarrow> run_state \<Rightarrow> provider_event list" where
  "waiting_of n s = (case map_of (ru_pending_events s) n of Some es \<Rightarrow> es | None \<Rightarrow> [])"

text \<open>A registration that would overtake: the pump holds an event of the run and older ones wait.\<close>

fun overtakes :: "shell_action \<Rightarrow> shell \<Rightarrow> bool" where
  "overtakes (RunRegistered _ _ native) w = (of_run native (in_hand (sh_pump w)) \<noteq> [] \<and> waiting_of native (sh_state w) \<noteq> [])"
| "overtakes _ _ = False"

inductive calm :: "stream \<Rightarrow> bool" where
  calm_new: "calm stream_new"
| calm_step: "calm t \<Longrightarrow> \<not> overtakes a (st_shell t) \<Longrightarrow> stream_step a t = Some t' \<Longrightarrow> calm t'"

inductive streamed :: "stream \<Rightarrow> bool" where
  streamed_new: "streamed stream_new"
| streamed_step: "streamed t \<Longrightarrow> stream_step a t = Some t' \<Longrightarrow> streamed t'"

section \<open>The registry\<close>

text \<open>The three tables of the registry agree.\<close>

definition tables_ok ::
    "(provider_run_handle \<rightharpoonup> provider_run_ref) \<Rightarrow> (provider_run_ref \<rightharpoonup> connection_id \<times> run_id \<times> provider_run_handle) \<Rightarrow>
     (run_id \<rightharpoonup> provider_run_ref) \<Rightarrow> bool" where
  "tables_ok refs entries linked \<longleftrightarrow>
     (\<forall>n r. refs n = Some r \<longrightarrow> native_ref_parts n = Ok r \<and> (\<exists>c i. entries r = Some (c, i, n))) \<and>
     (\<forall>r c i n. entries r = Some (c, i, n) \<longrightarrow> refs n = Some r) \<and>
     (\<forall>i r. linked i = Some r \<longrightarrow> (\<exists>c n. entries r = Some (c, i, n)))"

definition registry_ok :: "run_state \<Rightarrow> bool" where
  "registry_ok s = tables_ok (map_of (ru_native_refs s)) (map_of (ru_runs s)) (map_of (ru_correlations s))"

lemma native_ref_parts_Ok:
  "native_ref_parts n = Ok r \<Longrightarrow>
     r = \<lparr>pri_namespace = ''codex'', pri_runtime_id = runtime_str (ph_runtime n),
          pri_session_id = session_str (ph_session_id n), pri_run_id = run_str (ph_native_id n)\<rparr>"
  by (auto simp: native_ref_parts_def provider_run_ref_from_parts_def provider_run_identity_new_def
      and_then_eq_Ok map_err_eq_Ok)

lemma native_ref_parts_inj: "native_ref_parts n = Ok r \<Longrightarrow> native_ref_parts m = Ok r \<Longrightarrow> n = m"
  by (drule native_ref_parts_Ok, drule native_ref_parts_Ok, cases n, cases m)
    (auto intro: runtime_handle.expand provider_session_id.expand provider_run_id.expand)

lemma map_of_update: "map_of (AList.update k v xs) = (map_of xs)(k \<mapsto> v)"
  by (rule AList.update_conv')

lemma map_of_delete: "map_of (AList.delete k xs) = (map_of xs)(k := None)"
  by (rule AList.delete_conv')

lemma tables_ok_register:
  assumes ok: "tables_ok N R C" and ref: "native_ref_parts n = Ok r" and fresh: "N n = None"
  shows "tables_ok (N(n \<mapsto> r)) (R(r \<mapsto> (c, i, n))) (C(i \<mapsto> r))"
proof -
  have refs: "N m = Some s \<Longrightarrow> native_ref_parts m = Ok s" "N m = Some s \<Longrightarrow> \<exists>c i. R s = Some (c, i, m)"
    and runs: "R s = Some (d, j, m) \<Longrightarrow> N m = Some s"
    and correlations: "C j = Some s \<Longrightarrow> \<exists>d m. R s = Some (d, j, m)" for m s d j
    using ok unfolding tables_ok_def by blast+
  have new: "R r = None"
  proof (cases "R r")
    case (Some x)
    then obtain d j m where "R r = Some (d, j, m)" by (cases x) auto
    then have "N m = Some r" by (rule runs)
    then have "m = n" using refs(1) ref native_ref_parts_inj by blast
    with \<open>N m = Some r\<close> fresh show ?thesis by simp
  qed simp
  have "m \<noteq> n" if "R s = Some (d, j, m)" for s d j m
    using runs [OF that] fresh by auto
  moreover have "s \<noteq> r" if "R s = Some x" for s x
    using that new by auto
  ultimately show ?thesis
    using ref refs runs correlations unfolding tables_ok_def by (auto simp: new) (metis option.distinct(1))+
qed

lemma tables_ok_retire:
  assumes ok: "tables_ok N R C" and ref: "N n = Some r" and run: "R r = Some (c, i, n)"
  shows "tables_ok (N(n := None)) (R(r := None)) (C(i := None))"
proof -
  have refs: "N m = Some s \<Longrightarrow> native_ref_parts m = Ok s" "N m = Some s \<Longrightarrow> \<exists>c i. R s = Some (c, i, m)"
    and runs: "R s = Some (d, j, m) \<Longrightarrow> N m = Some s"
    and correlations: "C j = Some s \<Longrightarrow> \<exists>d m. R s = Some (d, j, m)" for m s d j
    using ok unfolding tables_ok_def by blast+
  have away: "s \<noteq> r" if "N m = Some s" "m \<noteq> n" for m s
    using refs(2) [OF that(1)] run that by auto
  have fwd: "m \<noteq> n" if "R s = Some (d, j, m)" "s \<noteq> r" for s d j m
    using runs [OF that(1)] ref that(2) by auto
  have corr: "s \<noteq> r" if "C j = Some s" "j \<noteq> i" for j s
    using correlations [OF that(1)] run that by auto
  show ?thesis
    unfolding tables_ok_def
  proof (intro conjI allI impI)
    fix m s assume "(N(n := None)) m = Some s"
    then have "N m = Some s" "m \<noteq> n" by (auto split: if_splits)
    then show "native_ref_parts m = Ok s" "\<exists>d j. (R(r := None)) s = Some (d, j, m)"
      using refs away by auto
  next
    fix s d j m assume "(R(r := None)) s = Some (d, j, m)"
    then show "(N(n := None)) m = Some s" using runs fwd by (auto split: if_splits)
  next
    fix j s assume "(C(i := None)) j = Some s"
    then show "\<exists>d m. (R(r := None)) s = Some (d, j, m)" using correlations corr by (auto split: if_splits)
  qed
qed

lemma registry_ok_register:
  assumes "registry_ok s" and "native_ref_parts n = Ok r" and "map_of (ru_native_refs s) n = None"
  shows "registry_ok (snd (register_run_state c i n r s))"
  using tables_ok_register [OF assms(1) [unfolded registry_ok_def] assms(2, 3)]
  by (simp add: registry_ok_def register_run_state_def Let_def map_of_update split: option.split)

lemma registry_ok_retire:
  assumes ok: "registry_ok s"
  shows "registry_ok (retire_native n failed s)"
proof (cases "map_of (ru_native_refs s) n")
  case (Some r)
  then obtain c i where run: "map_of (ru_runs s) r = Some (c, i, n)"
    using ok unfolding registry_ok_def tables_ok_def by blast
  show ?thesis
    using tables_ok_retire [OF ok [unfolded registry_ok_def] Some run]
    by (simp add: retire_native_def Some run Let_def registry_ok_def map_of_delete)
qed (use ok in \<open>simp add: retire_native_def\<close>)

lemma registered_run_is_found:
  assumes "register_run c i n w = (Ok r, w')"
  shows "lookup_run c i (sh_state w') = Some r" "run_ref n (sh_state w') = Ok r" "shell_reconnect r (sh_state w')"
  using assms
  by (auto simp: register_run_def register_run_state_def Let_def map_of_update lookup_run_def run_ref_def
      shell_reconnect_def some_and_def split: sum.splits option.splits)

section \<open>Order\<close>

lemma of_run_simps [simp]:
  "of_run n [] = []" "of_run n (xs @ ys) = of_run n xs @ of_run n ys"
  "of_run n (e # es) = (if native_event_run e = Some n then e # of_run n es else of_run n es)"
  by (simp_all add: of_run_def)

lemma retire_native_keeps:
  "ru_replay_events (retire_native n failed s) = ru_replay_events s"
  "ru_pending_events (retire_native n failed s) = ru_pending_events s"
  "map_of (ru_native_refs s) m = None \<Longrightarrow> map_of (ru_native_refs (retire_native n failed s)) m = None"
  by (auto simp: retire_native_def Let_def map_of_delete split: option.split)

lemma convert_event_keeps:
  "ru_replay_events (snd (convert_event e s)) = ru_replay_events s"
  "ru_pending_events (snd (convert_event e s)) = ru_pending_events s"
  "map_of (ru_native_refs s) m = None \<Longrightarrow> map_of (ru_native_refs (snd (convert_event e s))) m = None"
  by (auto simp: convert_event_def retire_native_keeps split: sum.split option.split)

lemma deliver_event_shape:
  "deliver_event e w = (Some (e, fst (convert_event e (sh_state w))),
     w\<lparr>sh_state := snd (convert_event e (sh_state w)), sh_pump := AtReplay\<rparr>)"
  by (simp add: deliver_event_def split: prod.split)

lemma evict_keeps:
  "ru_replay_events (snd (evict_idle_adapter c k s)) = ru_replay_events s"
  "ru_pending_events (snd (evict_idle_adapter c k s)) = ru_pending_events s"
  "ru_native_refs (snd (evict_idle_adapter c k s)) = ru_native_refs s"
  "ru_runs (snd (evict_idle_adapter c k s)) = ru_runs s"
  "ru_correlations (snd (evict_idle_adapter c k s)) = ru_correlations s"
  by (simp_all add: evict_idle_adapter_def Let_def)

text \<open>
  \<open>in_shell n w\<close>: the run's events inside the shell, oldest first. \<open>parted\<close>: what waits belongs to runs
  not registered; the permit announces replayed events; an event in hand has none of its run's before it.
\<close>

definition in_shell :: "provider_run_handle \<Rightarrow> shell \<Rightarrow> provider_event list" where
  "in_shell n w = of_run n (ru_replay_events (sh_state w)) @ waiting_of n (sh_state w) @
     of_run n (in_hand (sh_pump w)) @ of_run n (sh_channel w)"

definition parted :: "run_state \<Rightarrow> bool" where
  "parted s \<longleftrightarrow> (\<forall>n es. map_of (ru_pending_events s) n = Some es \<longrightarrow>
     map_of (ru_native_refs s) n = None \<and> es \<noteq> [] \<and> (\<forall>e\<in>set es. native_event_run e = Some n))"

definition announced :: "shell \<Rightarrow> bool" where
  "announced w \<longleftrightarrow>
     (ru_replay_events (sh_state w) \<noteq> [] \<and> sh_pump w \<in> {AtPending, AtNotified, AtSelect} \<longrightarrow> sh_ready w)"

definition first_held :: "shell \<Rightarrow> bool" where
  "first_held w \<longleftrightarrow>
     (\<forall>n. of_run n (in_hand (sh_pump w)) \<noteq> [] \<longrightarrow> of_run n (ru_replay_events (sh_state w)) = [])"

lemma of_run_none: "(\<forall>e\<in>set es. native_event_run e = Some n) \<Longrightarrow> of_run m es = (if m = n then es else [])"
  by (induction es) auto

lemma partedD:
  assumes "parted s" and "map_of (ru_pending_events s) n = Some es"
  shows "map_of (ru_native_refs s) n = None" "es \<noteq> []" "e \<in> set es \<Longrightarrow> native_event_run e = Some n"
  using assms unfolding parted_def by blast+

lemma waiting_parted:
  assumes "parted s" shows "of_run m (waiting_of n s) = (if m = n then waiting_of n s else [])"
proof (cases "map_of (ru_pending_events s) n")
  case (Some es)
  then have "\<forall>e\<in>set es. native_event_run e = Some n" using partedD(3) [OF assms] by blast
  then show ?thesis using of_run_none [of es n m] by (simp add: waiting_of_def Some)
qed (simp add: waiting_of_def)

lemma waiting_registered:
  assumes "parted s" and "map_of (ru_native_refs s) n \<noteq> None"
  shows "waiting_of n s = []"
  using partedD(1) [OF assms(1)] assms(2) by (cases "map_of (ru_pending_events s) n") (auto simp: waiting_of_def)

lemma waiting_cong: "ru_pending_events s = ru_pending_events s' \<Longrightarrow> waiting_of n s = waiting_of n s'"
  by (simp add: waiting_of_def)

lemma parted_less:
  assumes "parted s" and "ru_pending_events s' = ru_pending_events s"
    and "\<And>n. map_of (ru_native_refs s) n = None \<Longrightarrow> map_of (ru_native_refs s') n = None"
  shows "parted s'"
  using assms unfolding parted_def by auto

lemma parted_hold_back:
  assumes parted: "parted s" and e: "native_event_run e = Some n" and none: "map_of (ru_native_refs s) n = None"
  shows "parted (hold_back n e s)"
  unfolding parted_def
proof (intro allI impI)
  fix m es
  assume pending: "map_of (ru_pending_events (hold_back n e s)) m = Some es"
  show "map_of (ru_native_refs (hold_back n e s)) m = None \<and> es \<noteq> [] \<and> (\<forall>e\<in>set es. native_event_run e = Some m)"
  proof (cases "m = n")
    case True
    then have "es = waiting_of n s @ [e]" using pending by (simp add: hold_back_def map_of_update waiting_of_def)
    moreover have "\<forall>e\<in>set (waiting_of n s). native_event_run e = Some n"
      using partedD(3) [OF parted, of n] by (cases "map_of (ru_pending_events s) n") (auto simp: waiting_of_def)
    ultimately show ?thesis using True e none by (auto simp: hold_back_def)
  next
    case False
    then have "map_of (ru_pending_events s) m = Some es" using pending by (simp add: hold_back_def map_of_update)
    then show ?thesis using partedD [OF parted] by (simp add: hold_back_def)
  qed
qed

lemma waiting_hold_back:
  "waiting_of m (hold_back n e s) = (if m = n then waiting_of n s @ [e] else waiting_of m s)"
  by (simp add: waiting_of_def hold_back_def map_of_update)

lemma hold_back_keeps:
  "ru_replay_events (hold_back n e s) = ru_replay_events s" "ru_native_refs (hold_back n e s) = ru_native_refs s"
  "ru_runs (hold_back n e s) = ru_runs s" "ru_correlations (hold_back n e s) = ru_correlations s"
  by (simp_all add: hold_back_def)

text \<open>A turn of the pump.\<close>

lemma turn_queue:
  assumes turn: "event_turn w = Some (out, w')" and parted: "parted (sh_state w)"
    and ann: "announced w" and first: "first_held w"
  shows "of_run n (case out of Some d \<Rightarrow> [fst d] | None \<Rightarrow> []) @ in_shell n w' = in_shell n w"
proof (cases "sh_pump w")
  case (Holding e)
  show ?thesis
  proof (cases "native_event_run e")
    case None
    then have "out = Some (e, fst (convert_event e (sh_state w)))"
      "w' = w\<lparr>sh_state := snd (convert_event e (sh_state w)), sh_pump := AtReplay\<rparr>"
      using turn by (simp_all add: event_turn_def Holding deliver_event_shape)
    then show ?thesis
      using None by (simp add: in_shell_def Holding convert_event_keeps waiting_cong [OF convert_event_keeps(2)])
  next
    case (Some m)
    show ?thesis
    proof (cases "map_of (ru_native_refs (sh_state w)) m")
      case None
      then have "out = None" "w' = w\<lparr>sh_state := hold_back m e (sh_state w), sh_pump := AtReplay\<rparr>"
        using turn Some by (simp_all add: event_turn_def Holding)
      then show ?thesis
        using Some by (simp add: in_shell_def Holding waiting_hold_back hold_back_keeps)
    next
      case (Some r)
      then have eqs: "out = Some (e, fst (convert_event e (sh_state w)))"
        "w' = w\<lparr>sh_state := snd (convert_event e (sh_state w)), sh_pump := AtReplay\<rparr>"
        using turn \<open>native_event_run e = Some m\<close> by (simp_all add: event_turn_def Holding deliver_event_shape)
      have "waiting_of m (sh_state w) = []" using parted Some by (simp add: waiting_registered)
      moreover have "of_run m (ru_replay_events (sh_state w)) = []"
        using first \<open>native_event_run e = Some m\<close> by (simp add: first_held_def Holding)
      ultimately show ?thesis
        using \<open>native_event_run e = Some m\<close>
        by (cases "m = n") (simp_all add: eqs in_shell_def Holding convert_event_keeps waiting_cong [OF convert_event_keeps(2)])
    qed
  qed
qed (use turn in \<open>auto simp: event_turn_def deliver_event_shape in_shell_def convert_event_keeps waiting_of_def
    split: list.splits if_splits\<close>)

lemma turn_parted:
  assumes turn: "event_turn w = Some (out, w')" and parted: "parted (sh_state w)"
  shows "parted (sh_state w')"
proof -
  have converted: "parted (snd (convert_event e s))" if "parted s" for e s
    using that by (rule parted_less) (simp_all add: convert_event_keeps)
  have popped: "parted (sh_state w\<lparr>ru_replay_events := es\<rparr>)" for es
    using parted by (rule parted_less) simp_all
  show ?thesis
    using turn parted converted popped parted_hold_back
    by (auto simp: event_turn_def deliver_event_shape split: pump_at.splits list.splits if_splits option.splits)
qed

lemma turn_announced:
  "event_turn w = Some (out, w') \<Longrightarrow> announced w \<Longrightarrow> announced w'"
  by (auto simp: event_turn_def announced_def deliver_event_shape split: pump_at.splits list.splits if_splits option.splits)

lemma turn_first:
  "event_turn w = Some (out, w') \<Longrightarrow> announced w \<Longrightarrow> first_held w \<Longrightarrow> first_held w'"
  by (auto simp: event_turn_def announced_def first_held_def deliver_event_shape
      split: pump_at.splits list.splits if_splits option.splits)

text \<open>A registration, and an event forwarded.\<close>

lemma register_shape:
  "register_run c i n w = (Ok r, w') \<Longrightarrow>
     w' = w\<lparr>sh_state := snd (register_run_state c i n r (sh_state w)),
            sh_ready := sh_ready w \<or> map_of (ru_pending_events (sh_state w)) n \<noteq> None\<rparr>"
  by (auto simp: register_run_def register_run_state_def Let_def split: sum.splits option.splits)

lemma register_refused: "register_run c i n w = (Err e, w') \<Longrightarrow> w' = w"
  by (auto simp: register_run_def Let_def split: sum.splits prod.splits)

lemma register_state:
  "ru_replay_events (snd (register_run_state c i n r s)) = ru_replay_events s @ waiting_of n s"
  "waiting_of m (snd (register_run_state c i n r s)) = (if m = n then [] else waiting_of m s)"
  "map_of (ru_pending_events (snd (register_run_state c i n r s))) m =
     (if m = n then None else map_of (ru_pending_events s) m)"
  "map_of (ru_native_refs (snd (register_run_state c i n r s))) m =
     (if m = n then Some r else map_of (ru_native_refs s) m)"
  by (simp_all add: register_run_state_def Let_def waiting_of_def map_of_delete map_of_update split: option.split)

lemma register_keeps:
  assumes reg: "register_run c i n w = (res, w')" and parted: "parted (sh_state w)"
    and ann: "announced w" and first: "first_held w" and calm: "\<not> overtakes (RunRegistered c i n) w"
  shows "in_shell m w' = in_shell m w" "parted (sh_state w')" "announced w'" "first_held w'"
proof -
  have "in_shell m w' = in_shell m w \<and> parted (sh_state w') \<and> announced w' \<and> first_held w'"
  proof (cases res)
    case (Inr r)
    then have w': "w' = w\<lparr>sh_state := snd (register_run_state c i n r (sh_state w)),
        sh_ready := sh_ready w \<or> map_of (ru_pending_events (sh_state w)) n \<noteq> None\<rparr>"
      using register_shape [of c i n w r w'] reg Inr by blast
    have "in_shell m w' = in_shell m w"
      using waiting_parted [OF parted, of m n] by (cases "m = n") (simp_all add: w' in_shell_def register_state)
    moreover have "parted (sh_state w')"
      using partedD [OF parted] by (simp add: w' parted_def register_state)
    moreover have "announced w'"
      using ann by (auto simp: w' announced_def register_state waiting_of_def split: option.splits)
    moreover have "first_held w'"
      using first calm waiting_parted [OF parted, of _ n]
      by (auto simp: w' first_held_def register_state)
    ultimately show ?thesis by blast
  qed (use reg parted ann first register_refused in blast)
  then show "in_shell m w' = in_shell m w" "parted (sh_state w')" "announced w'" "first_held w'" by blast+
qed

lemma forward_keeps:
  assumes "forward_event e w = Some w'"
  shows "in_shell n w' = in_shell n w @ of_run n [e]" "sh_state w' = sh_state w"
    "announced w' = announced w" "first_held w' = first_held w"
  using assms by (auto simp: forward_event_def in_shell_def announced_def first_held_def split: if_splits)

lemma evict_stream:
  assumes "w' = w\<lparr>sh_state := snd (evict_idle_adapter c k (sh_state w))\<rparr>"
  shows "in_shell n w' = in_shell n w" "parted (sh_state w') = parted (sh_state w)"
    "announced w' = announced w" "first_held w' = first_held w"
  by (simp_all add: assms in_shell_def evict_keeps waiting_of_def parted_def announced_def first_held_def)

lemma evict_parted: "parted (snd (evict_idle_adapter c k s)) = parted s"
  by (simp add: parted_def evict_keeps)

definition stream_inv :: "stream \<Rightarrow> bool" where
  "stream_inv t \<longleftrightarrow> parted (sh_state (st_shell t)) \<and> announced (st_shell t) \<and> first_held (st_shell t) \<and>
     (\<forall>n. of_run n (map fst (st_delivered t)) @ in_shell n (st_shell t) = of_run n (st_arrived t))"

lemma stream_inv_step:
  assumes inv: "stream_inv t" and calm: "\<not> overtakes a (st_shell t)" and step: "stream_step a t = Some t'"
  shows "stream_inv t'"
proof (cases a)
  case (Forwarded e)
  with step obtain w' where "forward_event e (st_shell t) = Some w'"
    "t' = t\<lparr>st_shell := w', st_arrived := st_arrived t @ [e]\<rparr>" by auto
  then show ?thesis
    using inv forward_keeps [of e "st_shell t" w'] by (simp add: stream_inv_def flip: append_assoc)
next
  case Turned
  with step obtain out w' where turn: "event_turn (st_shell t) = Some (out, w')"
    and t': "t' = t\<lparr>st_shell := w', st_delivered := st_delivered t @ (case out of Some d \<Rightarrow> [d] | None \<Rightarrow> [])\<rparr>"
    by auto
  have inv': "parted (sh_state (st_shell t))" "announced (st_shell t)" "first_held (st_shell t)"
    using inv by (simp_all add: stream_inv_def)
  have "of_run n (map fst (st_delivered t')) @ in_shell n w' = of_run n (st_arrived t)" for n
    using turn_queue [OF turn inv', of n] inv
    by (cases out) (simp_all add: stream_inv_def t')
  then show ?thesis
    using turn_parted [OF turn inv'(1)] turn_announced [OF turn inv'(2)] turn_first [OF turn inv'(2,3)]
    by (simp add: stream_inv_def t')
next
  case (RunRegistered c i n)
  obtain res w' where reg: "register_run c i n (st_shell t) = (res, w')" by (cases "register_run c i n (st_shell t)")
  then have "t' = t\<lparr>st_shell := w'\<rparr>" using step RunRegistered by simp
  then show ?thesis
    using inv calm register_keeps [OF reg] unfolding RunRegistered by (simp add: stream_inv_def)
next
  case (AdapterEvicted c k)
  with step have "t' = t\<lparr>st_shell := (st_shell t)\<lparr>sh_state := snd (evict_idle_adapter c k (sh_state (st_shell t)))\<rparr>\<rparr>"
    by simp
  then show ?thesis using inv by (simp add: stream_inv_def evict_stream [OF refl] evict_parted)
qed

lemma calm_inv: "calm t \<Longrightarrow> stream_inv t"
proof (induction rule: calm.induct)
  case calm_new
  show ?case
    by (simp add: stream_inv_def stream_new_def shell_new_def run_state_default_def parted_def announced_def
        first_held_def in_shell_def waiting_of_def)
next
  case (calm_step t a t')
  then show ?case by (blast intro: stream_inv_step)
qed

section \<open>No event is refused\<close>

text \<open>What the adapters promise: nothing of a run follows its terminal event, commands are the run's.\<close>

fun silent_after :: "provider_event list \<Rightarrow> bool" where
  "silent_after [] = True"
| "silent_after (e # es) \<longleftrightarrow>
     (case terminal_run e of Some (n, _) \<Rightarrow> of_run n es = [] | None \<Rightarrow> True) \<and> silent_after es"

fun own_command :: "provider_event \<Rightarrow> bool" where
  "own_command (HCommandOutputDelta run command _ _ _) = (ch_run command = run)"
| "own_command (HCommandOutputCompleted run command _ _ _) = (ch_run command = run)"
| "own_command _ = True"

definition well_behaved :: "provider_event list \<Rightarrow> bool" where
  "well_behaved es \<longleftrightarrow> silent_after es \<and> list_all own_command es"

lemma terminal_event_run: "terminal_run e = Some (n, b) \<Longrightarrow> native_event_run e = Some n"
  by (cases e) auto

lemma silent_after_prefix: "silent_after (xs @ ys) \<Longrightarrow> silent_after xs"
  by (induction xs) (auto split: option.splits)

lemma silent_after_last:
  "silent_after es \<Longrightarrow> terminal_run e = Some (n, b) \<Longrightarrow> of_run n es = xs @ e # ys \<Longrightarrow> ys = []"
proof (induction es arbitrary: xs)
  case (Cons a es)
  show ?case
  proof (cases "native_event_run a = Some n")
    case True
    show ?thesis
    proof (cases xs)
      case Nil
      then have "a = e" "of_run n es = ys" using Cons.prems True by auto
      then show ?thesis using Cons.prems by simp
    next
      case (Cons b zs)
      then show ?thesis using Cons.IH [of zs] Cons.prems True by auto
    qed
  next
    case False
    then show ?thesis using Cons.IH Cons.prems by auto
  qed
qed simp

lemma converted_Ok:
  assumes "own_command e" and "\<And>n. native_event_run e = Some n \<Longrightarrow> map_of (ru_native_refs s) n \<noteq> None"
  shows "\<exists>c. converted e s = Ok c"
  using assms
  by (cases e) (auto simp: run_ref_def shell_request_ref_def command_ref_of_def optional_ref_def split: option.split)

lemma convert_event_refs:
  "map_of (ru_native_refs s) m \<noteq> None \<Longrightarrow> terminal_run e \<noteq> Some (m, True) \<Longrightarrow> terminal_run e \<noteq> Some (m, False) \<Longrightarrow>
     map_of (ru_native_refs (snd (convert_event e s))) m \<noteq> None"
  by (auto simp: convert_event_def retire_native_def Let_def map_of_delete split: sum.splits option.splits)

text \<open>A delivery of an event none of whose run's is before it in the shell.\<close>

definition replays_registered :: "shell \<Rightarrow> bool" where
  "replays_registered w \<longleftrightarrow>
     (\<forall>n. of_run n (ru_replay_events (sh_state w)) \<noteq> [] \<longrightarrow> map_of (ru_native_refs (sh_state w)) n \<noteq> None)"

lemma deliver_ok:
  assumes own: "own_command e" and reg: "\<And>n. native_event_run e = Some n \<Longrightarrow> map_of (ru_native_refs (sh_state w)) n \<noteq> None"
    and replays: "\<And>n. of_run n (ru_replay_events (sh_state w)) \<noteq> [] \<Longrightarrow> map_of (ru_native_refs (sh_state w)) n \<noteq> None"
    and last: "\<And>n b. terminal_run e = Some (n, b) \<Longrightarrow> of_run n (ru_replay_events (sh_state w)) = []"
    and out: "deliver_event e w = (out, w')"
  shows "(\<exists>c. out = Some (e, Ok c)) \<and> replays_registered w'"
proof

  obtain c where "converted e (sh_state w) = Ok c" using converted_Ok [OF own reg] by blast
  then show "\<exists>c. out = Some (e, Ok c)"
    using out by (auto simp: deliver_event_def convert_event_def)
  have w': "sh_state w' = snd (convert_event e (sh_state w))" using out by (auto simp: deliver_event_shape)
  show "replays_registered w'"
    unfolding replays_registered_def w' convert_event_keeps
  proof (intro allI impI)
    fix n assume some: "of_run n (ru_replay_events (sh_state w)) \<noteq> []"
    then show "map_of (ru_native_refs (snd (convert_event e (sh_state w)))) n \<noteq> None"
      using replays last by (intro convert_event_refs) blast+
  qed
qed

lemma turn_ok:
  assumes turn: "event_turn w = Some (out, w')" and parted: "parted (sh_state w)" and ann: "announced w"
    and first: "first_held w" and replays: "replays_registered w"
    and order: "\<And>n. of_run n sent @ in_shell n w = of_run n arrived" and good: "well_behaved arrived"
  shows "(case out of Some d \<Rightarrow> is_ok (snd d) | None \<Rightarrow> True) \<and> replays_registered w'"
proof -
  have own: "own_command e" if "e \<in> set (in_shell n w)" for e n
  proof -
    have "e \<in> set (of_run n arrived)" using that order [of n] by (metis Un_iff set_append)
    then show ?thesis using good by (auto simp: well_behaved_def of_run_def list_all_iff)
  qed
  have own': "own_command e" if "native_event_run e = None" for e
    using that by (cases e) auto
  have last: "ys = []" if "in_shell n w = e # ys" "terminal_run e = Some (n, b)" for e n b ys
    using silent_after_last [OF _ that(2), of arrived "of_run n sent" ys] order [of n] that(1) good
    by (simp add: well_behaved_def)
  show ?thesis
  proof (cases "sh_pump w")
    case AtReplay
    show ?thesis
    proof (cases "ru_replay_events (sh_state w)")
      case Nil
      then show ?thesis using turn replays by (auto simp: event_turn_def AtReplay replays_registered_def)
    next
      case (Cons e rest)
      let ?w = "w\<lparr>sh_state := (sh_state w)\<lparr>ru_replay_events := rest\<rparr>\<rparr>"
      have del: "deliver_event e ?w = (out, w')" using turn by (simp add: event_turn_def AtReplay Cons)
      have front: "\<exists>ys. in_shell n w = e # of_run n rest @ ys" if "native_event_run e = Some n" for n
        using that by (simp add: in_shell_def Cons)
      have "own_command e"
      proof (cases "native_event_run e")
        case (Some n)
        then have "e \<in> set (in_shell n w)" using front by fastforce
        then show ?thesis by (rule own)
      qed (rule own')
      moreover have "map_of (ru_native_refs (sh_state ?w)) n \<noteq> None" if "native_event_run e = Some n" for n
        using replays that by (simp add: replays_registered_def Cons)
      moreover have "map_of (ru_native_refs (sh_state ?w)) n \<noteq> None"
        if "of_run n (ru_replay_events (sh_state ?w)) \<noteq> []" for n
        using replays that by (simp add: replays_registered_def Cons)
      moreover have "of_run n (ru_replay_events (sh_state ?w)) = []" if "terminal_run e = Some (n, b)" for n b
        using front [OF terminal_event_run [OF that]] last [OF _ that] by fastforce
      ultimately have "(\<exists>c. out = Some (e, Ok c)) \<and> replays_registered w'"
        using del by (rule deliver_ok)
      then show ?thesis by (auto simp: is_ok_def)
    qed
  next
    case (Holding e)
    show ?thesis
    proof (cases "\<exists>n. native_event_run e = Some n \<and> map_of (ru_native_refs (sh_state w)) n = None")
      case True
      then show ?thesis
        using turn replays by (auto simp: event_turn_def Holding replays_registered_def hold_back_keeps)
    next
      case False
      then have del: "deliver_event e w = (out, w')"
        using turn by (auto simp: event_turn_def Holding split: option.splits)
      have reg: "map_of (ru_native_refs (sh_state w)) n \<noteq> None" if "native_event_run e = Some n" for n
        using False that by auto
      have "own_command e"
      proof (cases "native_event_run e")
        case (Some n)
        then have "e \<in> set (in_shell n w)" by (simp add: in_shell_def Holding)
        then show ?thesis by (rule own)
      qed (rule own')
      moreover note reg
      moreover have "map_of (ru_native_refs (sh_state w)) n \<noteq> None" if "of_run n (ru_replay_events (sh_state w)) \<noteq> []" for n
        using replays that by (simp add: replays_registered_def)
      moreover have "of_run n (ru_replay_events (sh_state w)) = []" if "terminal_run e = Some (n, b)" for n b
        using first terminal_event_run [OF that] by (simp add: first_held_def Holding)
      ultimately have "(\<exists>c. out = Some (e, Ok c)) \<and> replays_registered w'"
        using del by (rule deliver_ok)
      then show ?thesis by (auto simp: is_ok_def)
    qed
  qed (use turn replays in \<open>auto simp: event_turn_def replays_registered_def split: if_splits list.splits\<close>)
qed

definition stream_ok :: "stream \<Rightarrow> bool" where
  "stream_ok t \<longleftrightarrow> replays_registered (st_shell t) \<and> list_all (\<lambda>d. is_ok (snd d)) (st_delivered t)"

lemma arrived_grows: "stream_step a t = Some t' \<Longrightarrow> \<exists>es. st_arrived t' = st_arrived t @ es"
  by (cases a) auto

lemma well_behaved_prefix: "well_behaved (xs @ ys) \<Longrightarrow> well_behaved xs"
  by (auto simp: well_behaved_def dest: silent_after_prefix)

lemma stream_ok_step:
  assumes inv: "stream_inv t" and ok: "stream_ok t" and step: "stream_step a t = Some t'" and good: "well_behaved (st_arrived t)"
  shows "stream_ok t'"
proof (cases a)
  case (Forwarded e)
  with step ok show ?thesis by (auto simp: stream_ok_def forward_event_def replays_registered_def split: if_splits)
next
  case Turned
  with step obtain out w' where turn: "event_turn (st_shell t) = Some (out, w')"
    and t': "t' = t\<lparr>st_shell := w', st_delivered := st_delivered t @ (case out of Some d \<Rightarrow> [d] | None \<Rightarrow> [])\<rparr>"
    by auto
  have "(case out of Some d \<Rightarrow> is_ok (snd d) | None \<Rightarrow> True) \<and> replays_registered w'"
    using inv ok by (intro turn_ok [OF turn _ _ _ _ _ good, of "map fst (st_delivered t)"])
      (simp_all add: stream_inv_def stream_ok_def)
  then show ?thesis using ok by (cases out) (simp_all add: t' stream_ok_def)
next
  case (RunRegistered c i n)
  obtain res w' where reg: "register_run c i n (st_shell t) = (res, w')" by (cases "register_run c i n (st_shell t)")
  have "replays_registered w'"
  proof (cases res)
    case (Inr r)
    then have "w' = (st_shell t)\<lparr>sh_state := snd (register_run_state c i n r (sh_state (st_shell t))),
        sh_ready := sh_ready (st_shell t) \<or> map_of (ru_pending_events (sh_state (st_shell t))) n \<noteq> None\<rparr>"
      using register_shape reg by blast
    then show ?thesis
      using ok inv waiting_parted [of "sh_state (st_shell t)" _ n]
      by (auto simp: replays_registered_def stream_ok_def register_state stream_inv_def)
  next
    case (Inl e)
    then have "w' = st_shell t" using register_refused reg by blast
    with ok show ?thesis by (simp add: stream_ok_def)
  qed
  with step ok reg show ?thesis by (auto simp: RunRegistered stream_ok_def)
next
  case (AdapterEvicted c k)
  with step ok show ?thesis by (auto simp: stream_ok_def replays_registered_def evict_keeps)
qed

lemma calm_ok: "calm t \<Longrightarrow> well_behaved (st_arrived t) \<longrightarrow> stream_ok t"
proof (induction rule: calm.induct)
  case calm_new
  show ?case
    by (simp add: stream_ok_def stream_new_def shell_new_def run_state_default_def replays_registered_def)
next
  case (calm_step t a t')
  show ?case
  proof
    assume "well_behaved (st_arrived t')"
    then have good: "well_behaved (st_arrived t)"
      using arrived_grows [OF calm_step.hyps(3)] well_behaved_prefix by auto
    with calm_step.IH have "stream_ok t" by blast
    with calm_inv [OF calm_step.hyps(1)] show "stream_ok t'" using calm_step.hyps(3) good by (rule stream_ok_step)
  qed
qed

section \<open>Bounds and waiting\<close>

lemma total_update:
  "sum_list (map (length \<circ> snd) (AList.update n ((case map_of ps n of Some es \<Rightarrow> es | None \<Rightarrow> []) @ [e]) ps)) =
     Suc (sum_list (map (length \<circ> snd) ps))"
  by (induction ps) (auto split: option.split)

lemma pending_total_hold_back: "pending_total (hold_back n e s) = Suc (pending_total s)"
  unfolding pending_total_def hold_back_def using total_update [of n "ru_pending_events s" e] by simp

lemma total_delete: "sum_list (map (length \<circ> snd) (AList.delete n ps)) \<le> sum_list (map (length \<circ> snd) ps)"
  by (induction ps) (auto simp: AList.delete_eq)

lemma pending_total_register: "pending_total (snd (register_run_state c i n r s)) \<le> pending_total s"
  by (simp add: register_run_state_def pending_total_def Let_def total_delete split: option.split)

lemma pending_total_cong: "ru_pending_events s = ru_pending_events s' \<Longrightarrow> pending_total s = pending_total s'"
  by (simp add: pending_total_def)

text \<open>Room for the event about to be taken; where the pump waits for a notification, none is missed.\<close>

definition within_bounds :: "shell \<Rightarrow> bool" where
  "within_bounds w \<longleftrightarrow>
     pending_total (sh_state w) \<le> PENDING_EVENT_CAPACITY \<and> length (sh_channel w) \<le> SHELL_CHANNEL_CAPACITY \<and>
     (case sh_pump w of
        AtSelect \<Rightarrow> pending_total (sh_state w) < PENDING_EVENT_CAPACITY
      | Holding e \<Rightarrow> pending_total (sh_state w) < PENDING_EVENT_CAPACITY
      | AtNotified \<Rightarrow> sh_ready w \<or> pending_total (sh_state w) = PENDING_EVENT_CAPACITY
      | _ \<Rightarrow> True)"

lemma bounded_turn:
  assumes "event_turn w = Some (out, w')" and "within_bounds w"
  shows "within_bounds w'"
proof -
  have conv: "pending_total (snd (convert_event e s)) = pending_total s" for e s
    by (rule pending_total_cong) (simp add: convert_event_keeps)
  have pop: "pending_total (s\<lparr>ru_replay_events := es\<rparr>) = pending_total s" for s es
    by (rule pending_total_cong) simp
  show ?thesis
    using assms
    by (auto simp: event_turn_def within_bounds_def deliver_event_shape conv pop pending_total_hold_back
        split: pump_at.splits list.splits if_splits option.splits)
qed

lemma bounded_register:
  assumes reg: "register_run c i n w = (res, w')" and within_bounds: "within_bounds w"
  shows "within_bounds w'"
proof (cases res)
  case (Inr r)
  have w': "w' = w\<lparr>sh_state := snd (register_run_state c i n r (sh_state w)),
      sh_ready := sh_ready w \<or> map_of (ru_pending_events (sh_state w)) n \<noteq> None\<rparr>"
    using register_shape [of c i n w r w'] reg Inr by blast
  have le: "pending_total (snd (register_run_state c i n r (sh_state w))) \<le> pending_total (sh_state w)"
    by (rule pending_total_register)
  have same: "pending_total (snd (register_run_state c i n r (sh_state w))) = pending_total (sh_state w)"
    if "map_of (ru_pending_events (sh_state w)) n = None"
    by (rule pending_total_cong) (simp add: register_run_state_def Let_def that)
  show ?thesis
    using within_bounds le same
    by (cases "map_of (ru_pending_events (sh_state w)) n") (auto simp: w' within_bounds_def split: pump_at.splits)
next
  case (Inl e)
  then have "w' = w" using register_refused reg by blast
  with within_bounds show ?thesis by simp
qed

lemma streamed_bounded: "streamed t \<Longrightarrow> within_bounds (st_shell t)"
proof (induction rule: streamed.induct)
  case streamed_new
  show ?case by (simp add: within_bounds_def stream_new_def shell_new_def run_state_default_def pending_total_def)
next
  case (streamed_step t a t')
  show ?case
  proof (cases a)
    case (Forwarded e)
    then show ?thesis using streamed_step
      by (auto simp: forward_event_def within_bounds_def SHELL_CHANNEL_CAPACITY_def split: if_splits pump_at.split)
  next
    case Turned
    then show ?thesis using streamed_step bounded_turn by auto
  next
    case (RunRegistered c i n)
    then show ?thesis using streamed_step bounded_register [of c i n "st_shell t" "fst (register_run c i n (st_shell t))"]
      by auto
  next
    case (AdapterEvicted c k)
    have "pending_total (snd (evict_idle_adapter c k s)) = pending_total s" for s
      by (rule pending_total_cong) (simp add: evict_keeps)
    then show ?thesis using streamed_step AdapterEvicted by (auto simp: within_bounds_def split: pump_at.splits)
  qed
qed

section \<open>Handles of the adapter\<close>

text \<open>A reference can be formed for every handle whose parts the harness contract accepts.\<close>

definition valid_handle :: "provider_run_handle \<Rightarrow> bool" where
  "valid_handle n \<longleftrightarrow>
     is_ok (runtime_handle_new (runtime_str (ph_runtime n))) \<and>
     is_ok (provider_session_id_new (session_str (ph_session_id n))) \<and>
     is_ok (provider_run_id_new (run_str (ph_native_id n)))"

lemma valid_opaque_id:
  assumes "is_ok (validate_opaque_id label v)"
  shows "require_provider_component field v 4096 = Ok ()"
  using assms
  by (auto simp: validate_opaque_id_def require_provider_component_def require_nonempty_def is_ok_def split: if_splits)

lemma is_ok_map [simp]: "is_ok (map_ok f r) = is_ok r"
  by (cases r) (simp_all add: is_ok_def)

lemma codex_namespace: "require_provider_component field ''codex'' 128 = Ok ()"
  by (simp add: require_provider_component_def require_nonempty_def trim_is_empty_def has_control_def chars_def
      bytes_def trim_def char_is_control_def char_is_whitespace_def)

lemma valid_handle_ref: "valid_handle n \<Longrightarrow> \<exists>r. native_ref_parts n = Ok r"
  by (simp add: valid_handle_def runtime_handle_new_def provider_session_id_new_def provider_run_id_new_def
      native_ref_parts_def provider_run_ref_from_parts_def provider_run_identity_new_def codex_namespace
      valid_opaque_id [of "''runtime''"] valid_opaque_id [of "''provider session id''"]
      valid_opaque_id [of "''provider run id''"])

end
