(* ===== verification/Shell_Runs.thy ===== *)
theory Shell_Runs
  imports Shell_Stream Config_Store Ports
begin

text \<open>
  The shell's harness operations that wait: accounts, the start of a run with the preparation of its
  adapter's credential, steering, interrupting and answering (\<^verbatim>\<open>crates/yakshed-desktop/src/macos.rs\<close>).

  An operation acts on the shell and on a log of what it asked: adapters, broker and file system. The
  record \<open>shell_env\<close> holds the shell's configuration and the answers, each of which may depend on all
  that was asked before; \<open>se_meanwhile\<close> is what other tasks made of the shell while the operation
  waited. The digest of a credential (a keyed hash of the standard library) is \<open>se_hash\<close>.
\<close>

section \<open>The world of an operation\<close>

datatype shell_call =
  AskLock
| AskDirectory run_id
| AskResolve connection credential_binding_record access_context
| AskLive nat runtime_handle
| AskShutdown nat
| AskStartEnvironment nat runtime_handle string string
| AskAccount nat runtime_handle
| AskLogin nat runtime_handle
| AskLogout nat runtime_handle
| AskSession nat runtime_handle start_session_spec
| AskRun nat provider_session harness_input
| AskSteer nat provider_run_handle harness_input
| AskInterrupt nat provider_run_handle
| AskRespond nat provider_request_handle provider_response

record task =
  tk_shell :: shell
  tk_log :: "shell_call list"

record shell_env =
  se_libs :: libs
  se_paths :: app_paths
  se_program :: string
  se_args :: "string list"
  se_has_broker :: bool
  se_hash :: "string \<Rightarrow> u64"
  se_connections :: "shell_call list \<Rightarrow> connection list"
  se_directory :: "shell_call list \<Rightarrow> dir_faults"
  se_resolve :: "shell_call list \<Rightarrow> secret_error + credential_resolution"
  se_live :: "shell_call list \<Rightarrow> harness_error + bool"
  se_unit :: "shell_call list \<Rightarrow> harness_error + unit"
  se_account :: "shell_call list \<Rightarrow> harness_error + harness_account_status"
  se_session :: "shell_call list \<Rightarrow> harness_error + provider_session"
  se_run :: "shell_call list \<Rightarrow> harness_error + provider_run_handle"
  se_meanwhile :: "shell_call list \<Rightarrow> shell \<Rightarrow> shell"

type_synonym 'a shell_op = "(task, port_error, 'a) op"

text \<open>
  Reading and changing the registry under its lock, and asking something of the world. Other tasks may
  act before a lock is held, as they may while the operation waits.
\<close>

definition acquire :: "shell_env \<Rightarrow> task \<Rightarrow> task" where
  "acquire E k =
     (let log = tk_log k @ [AskLock] in k\<lparr>tk_log := log, tk_shell := se_meanwhile E log (tk_shell k)\<rparr>)"

definition on_shell :: "shell_env \<Rightarrow> (shell \<Rightarrow> (port_error + 'a) \<times> shell) \<Rightarrow> 'a shell_op" where
  "on_shell E f k =
     (let k1 = acquire E k in case f (tk_shell k1) of (r, w) \<Rightarrow> (r, k1\<lparr>tk_shell := w\<rparr>))"

definition locked :: "shell_env \<Rightarrow> (run_state \<Rightarrow> port_error + 'a) \<Rightarrow> 'a shell_op" where
  "locked E f = on_shell E (\<lambda>w. (f (sh_state w), w))"

definition change :: "shell_env \<Rightarrow> (run_state \<Rightarrow> 'a \<times> run_state) \<Rightarrow> 'a shell_op" where
  "change E f = on_shell E (\<lambda>w. case f (sh_state w) of (x, s) \<Rightarrow> (Ok x, w\<lparr>sh_state := s\<rparr>))"

definition ask :: "shell_env \<Rightarrow> shell_call \<Rightarrow> (shell_call list \<Rightarrow> 'a) \<Rightarrow> 'a shell_op" where
  "ask E call answer k =
     (let log = tk_log k @ [call]
      in (Ok (answer log), k\<lparr>tk_log := log, tk_shell := se_meanwhile E log (tk_shell k)\<rparr>))"

definition ask_harness :: "shell_env \<Rightarrow> shell_call \<Rightarrow> (shell_call list \<Rightarrow> harness_error + 'a) \<Rightarrow> 'a shell_op" where
  "ask_harness E call answer =
     op_then (ask E call answer) (\<lambda>r. op_lift (map_err shell_harness_error r))"

section \<open>Adapters\<close>

definition runtime_of :: "shell_env \<Rightarrow> connection_id \<Rightarrow> port_error + runtime_handle" where
  "runtime_of E i = map_err shell_harness_error (runtime_handle_new (''codex-'' @ id_text (se_libs E) i))"

definition codex_spec_of :: "shell_env \<Rightarrow> connection \<Rightarrow> runtime_handle \<Rightarrow> codex_spec" where
  "codex_spec_of E c runtime =
     spec_local runtime
       \<lparr>rk_connection_id = conn_id c, rk_binary_digest = ''runtime-path:codex'',
        rk_codex_home = path_join (path_join (pt_data_root (se_paths E)) ''codex'') (root_str (conn_provider_state c)),
        rk_execution_runtime = ''local''\<rparr> (se_program E) (se_args E)"

text \<open>\<open>provider\<close>: the new adapter and its event stream; the adapter gets the next number.\<close>

definition shell_provider_new :: "shell_env \<Rightarrow> connection \<Rightarrow> port_error + unit" where
  "shell_provider_new E c =
     and_then (runtime_of E (conn_id c)) (\<lambda>runtime.
     and_then (map_err shell_harness_error (adapter_new (codex_spec_of E c runtime))) (\<lambda>a.
     map_err shell_harness_error (fst (adapter_subscribe a))))"

definition create_adapter :: "shell_env \<Rightarrow> connection \<Rightarrow> run_state \<Rightarrow> shell \<Rightarrow> (port_error + nat) \<times> shell" where
  "create_adapter E c s w =
     (case shell_provider_new E c of
        Inl e \<Rightarrow> (Err e, w\<lparr>sh_state := s\<rparr>)
      | Inr _ \<Rightarrow>
          (let n = sh_adapters w;
               p = \<lparr>pv_provider_state = root_str (conn_provider_state c), pv_credential_generation = None, pv_adapter = n\<rparr>
           in (Ok n, w\<lparr>sh_state := s\<lparr>ru_providers := AList.update (conn_id c) p (ru_providers s)\<rparr>,
                       sh_adapters := n + 1\<rparr>)))"

definition shell_adapter :: "shell_env \<Rightarrow> connection \<Rightarrow> shell \<Rightarrow> (port_error + nat) \<times> shell" where
  "shell_adapter E c w =
     (let s = sh_state w in
      case map_of (ru_providers s) (conn_id c) of
        Some p \<Rightarrow>
          if pv_provider_state p = root_str (conn_provider_state c) then (Ok (pv_adapter p), w)
          else if owns_runs (conn_id c) s
          then (Err (PortConflict (''connection '' @ id_text (se_libs E) (conn_id c) @
                 '' changed provider state while active'')), w)
          else create_adapter E c (s\<lparr>ru_providers := AList.delete (conn_id c) (ru_providers s)\<rparr>) w
      | None \<Rightarrow> create_adapter E c s w)"

definition find_connection :: "shell_env \<Rightarrow> connection_id \<Rightarrow> connection shell_op" where
  "find_connection E i k =
     (case List.find (\<lambda>c. conn_id c = i) (se_connections E (tk_log k)) of
        Some c \<Rightarrow> (Ok c, k)
      | None \<Rightarrow> (Err (PortNotFound (id_text (se_libs E) i)), k))"

definition check_harness :: "shell_env \<Rightarrow> connection \<Rightarrow> port_error + unit" where
  "check_harness E c =
     (if conn_harness c \<noteq> ''codex''
      then Err (PortUnsupported (''connection '' @ id_text (se_libs E) (conn_id c) @ '' uses harness '' @ conn_harness c))
      else Ok ())"

definition account_adapter :: "shell_env \<Rightarrow> connection_id \<Rightarrow> (nat \<times> runtime_handle) shell_op" where
  "account_adapter E i =
     op_then (find_connection E i) (\<lambda>c.
     op_then (op_lift (check_harness E c)) (\<lambda>_.
     op_then (op_lift (if conn_model_provider c \<noteq> ''openai''
        then Err (PortUnsupported ''delegated account APIs require the openai model provider'') else Ok ())) (\<lambda>_.
     op_then (op_lift (runtime_of E i)) (\<lambda>runtime.
     op_then (on_shell E (shell_adapter E c)) (\<lambda>adapter.
     op_ok (adapter, runtime))))))"

section \<open>Credentials\<close>

definition set_generation :: "connection_id \<Rightarrow> u64 \<Rightarrow> run_state \<Rightarrow> run_state" where
  "set_generation i generation s =
     s\<lparr>ru_providers := AList.map_entry i (\<lambda>p. p\<lparr>pv_credential_generation := Some generation\<rparr>) (ru_providers s)\<rparr>"

definition take_provider :: "connection_id \<Rightarrow> nat \<Rightarrow> run_state \<Rightarrow> nat \<times> run_state" where
  "take_provider i cached s =
     ((case map_of (ru_providers s) i of Some p \<Rightarrow> pv_adapter p | None \<Rightarrow> cached),
      s\<lparr>ru_providers := AList.delete i (ru_providers s)\<rparr>)"

definition generation_state :: "shell_env \<Rightarrow> connection_id \<Rightarrow> u64 \<Rightarrow> run_state \<Rightarrow> port_error + bool \<times> bool \<times> nat" where
  "generation_state E i generation s =
     (case map_of (ru_providers s) i of
        None \<Rightarrow> Err (PortNotFound (id_text (se_libs E) i))
      | Some p \<Rightarrow> Ok (pv_credential_generation p = Some generation, owns_runs i s, pv_adapter p))"

definition restart_runtime ::
    "shell_env \<Rightarrow> connection \<Rightarrow> runtime_handle \<Rightarrow> string \<Rightarrow> string \<Rightarrow> u64 \<Rightarrow> nat shell_op" where
  "restart_runtime E c runtime variable secret generation =
     op_then (on_shell E (shell_adapter E c)) (\<lambda>adapter.
     op_then (ask_harness E (AskStartEnvironment adapter runtime variable secret) (se_unit E)) (\<lambda>_.
     op_then (change E (\<lambda>s. ((), set_generation (conn_id c) generation s))) (\<lambda>_.
     op_ok adapter)))"

definition replace_runtime ::
    "shell_env \<Rightarrow> connection \<Rightarrow> runtime_handle \<Rightarrow> string \<Rightarrow> string \<Rightarrow> u64 \<Rightarrow> bool \<Rightarrow> nat \<Rightarrow> nat shell_op" where
  "replace_runtime E c runtime variable secret generation active cached =
     (if active then op_err (PortConflict ''credential changed while provider runs are active'')
      else
        op_then (change E (take_provider (conn_id c) cached)) (\<lambda>previous.
        op_then (ask E (AskShutdown previous) (se_unit E)) (\<lambda>stopped.
        case stopped of
          Inl e \<Rightarrow>
            if e \<noteq> HarnessDisconnected then op_err (shell_harness_error e)
            else restart_runtime E c runtime variable secret generation
        | Inr _ \<Rightarrow> restart_runtime E c runtime variable secret generation)))"

definition resolve_credential ::
    "shell_env \<Rightarrow> connection \<Rightarrow> run_id \<Rightarrow> credential_slot \<Rightarrow> string shell_op" where
  "resolve_credential E c correlation slot =
     (case List.find (\<lambda>b. cb_slot b = slot) (conn_credentials c) of
        None \<Rightarrow> op_err PortNotAuthenticated
      | Some binding \<Rightarrow>
          if \<not> se_has_broker E then op_err (PortRuntime ''credential broker is unavailable'')
          else
            op_then (op_lift (map_err (\<lambda>e. PortInvalidInput (validation_message e))
              (operation_id_new (''run-'' @ id_text (se_libs E) correlation)))) (\<lambda>request.
            op_then (ask E (AskResolve c binding
                \<lparr>ax_connection_id = conn_id c, ax_slot = slot, ax_purpose = StartHarness, ax_request_id = request\<rparr>)
              (se_resolve E)) (\<lambda>resolved.
            case resolved of
              Inr (SecretResolution secret) \<Rightarrow> op_ok (rs_value secret)
            | Inr (DelegatedResolution _) \<Rightarrow> op_err PortNotAuthenticated
            | Inl _ \<Rightarrow> op_err PortNotAuthenticated)))"

definition prepare_mode_b_runtime ::
    "shell_env \<Rightarrow> connection \<Rightarrow> run_id \<Rightarrow> nat \<Rightarrow> runtime_handle \<Rightarrow> nat shell_op" where
  "prepare_mode_b_runtime E c correlation adapter runtime =
     (case Option.bind (codex_requirements_for (conn_model_provider c)) (\<lambda>rs. case rs of r # _ \<Rightarrow> Some r | [] \<Rightarrow> None) of
        None \<Rightarrow> op_err (PortUnsupported (''model provider '' @ conn_model_provider c))
      | Some requirement \<Rightarrow>
          (case crq_delivery requirement of
             ProcessEnvironment variable \<Rightarrow>
               op_then (resolve_credential E c correlation (crq_slot requirement)) (\<lambda>secret.
               let generation = se_hash E secret in
               op_then (locked E (generation_state E (conn_id c) generation)) (\<lambda>(same, active, cached).
               op_then (if same then ask_harness E (AskLive cached runtime) (se_live E) else op_ok False) (\<lambda>live.
               if live then op_ok cached
               else replace_runtime E c runtime variable secret generation active cached)))
           | _ \<Rightarrow> op_ok adapter))"

section \<open>The operations of the harness port\<close>

fun shell_account_status :: "harness_account_status \<Rightarrow> account_status" where
  "shell_account_status NotAuthenticated = AccountNotAuthenticated"
| "shell_account_status (LoginInProgress login_id auth_url) = AccountLoginInProgress login_id auth_url"
| "shell_account_status (Authenticated email plan) = AccountAuthenticated email plan"
| "shell_account_status AccountUnknown = AccountStatusUnknown"

definition harness_account_status_call :: "shell_env \<Rightarrow> connection_id \<Rightarrow> account_status shell_op" where
  "harness_account_status_call E i =
     op_then (account_adapter E i) (\<lambda>(adapter, runtime).
     op_then (ask_harness E (AskAccount adapter runtime) (se_account E)) (\<lambda>status.
     op_ok (shell_account_status status)))"

definition harness_account_login_start :: "shell_env \<Rightarrow> connection_id \<Rightarrow> account_status shell_op" where
  "harness_account_login_start E i =
     op_then (account_adapter E i) (\<lambda>(adapter, runtime).
     op_then (ask_harness E (AskLogin adapter runtime) (se_account E)) (\<lambda>status.
     op_ok (shell_account_status status)))"

definition harness_account_logout :: "shell_env \<Rightarrow> connection_id \<Rightarrow> unit shell_op" where
  "harness_account_logout E i =
     op_then (account_adapter E i) (\<lambda>(adapter, runtime). ask_harness E (AskLogout adapter runtime) (se_unit E))"

definition run_working_directory :: "shell_env \<Rightarrow> run_id \<Rightarrow> runtime_path shell_op" where
  "run_working_directory E correlation =
     (let path = path_join (path_join (pt_data_root (se_paths E)) ''runs'') (id_text (se_libs E) correlation) in
      op_then (ask E (AskDirectory correlation) (se_directory E)) (\<lambda>faults.
      op_lift
       (case (df_create faults, df_permissions faults) of
          (Some e, _) \<Rightarrow> Err (PortRuntime e)
        | (None, Some e) \<Rightarrow> Err (PortRuntime e)
        | (None, None) \<Rightarrow> map_err shell_harness_error (runtime_path_new path))))"

definition start_shell_session ::
    "shell_env \<Rightarrow> connection \<Rightarrow> run_id \<Rightarrow> nat \<Rightarrow> runtime_handle \<Rightarrow> start_session_spec \<Rightarrow> (nat \<times> provider_session) shell_op" where
  "start_shell_session E c correlation adapter runtime spec =
     op_then (ask E (AskSession adapter runtime spec) (se_session E)) (\<lambda>first.
     case first of
       Inr session \<Rightarrow> op_ok (adapter, session)
     | Inl e \<Rightarrow>
         if e \<noteq> HarnessDisconnected then op_err (shell_harness_error e)
         else
           op_then (change E (evict_idle_adapter (conn_id c) adapter)) (\<lambda>evicted.
           if \<not> evicted then op_err (shell_harness_error e)
           else
             op_then (on_shell E (shell_adapter E c)) (\<lambda>fresh.
             op_then (prepare_mode_b_runtime E c correlation fresh runtime) (\<lambda>prepared.
             op_then (ask_harness E (AskSession prepared runtime spec) (se_session E)) (\<lambda>session.
             op_ok (prepared, session))))))"

definition start_fresh_run :: "shell_env \<Rightarrow> connection_id \<Rightarrow> run_id \<Rightarrow> string \<Rightarrow> provider_run_ref shell_op" where
  "start_fresh_run E i correlation input =
     op_then (find_connection E i) (\<lambda>c.
     op_then (op_lift (check_harness E c)) (\<lambda>_.
     op_then (op_lift (runtime_of E i)) (\<lambda>runtime.
     op_then (run_working_directory E correlation) (\<lambda>directory.
     op_then (on_shell E (shell_adapter E c)) (\<lambda>first.
     op_then (prepare_mode_b_runtime E c correlation first runtime) (\<lambda>adapter.
     op_then (ask_harness E (AskAccount adapter runtime) (se_account E)) (\<lambda>status.
     if \<not> is_authenticated status then op_err PortNotAuthenticated
     else
       op_then (start_shell_session E c correlation adapter runtime
           \<lparr>ss_working_directory = directory, ss_title = ''YakShed run '' @ id_text (se_libs E) correlation\<rparr>)
         (\<lambda>(ready, session).
       op_then (op_lift (map_err shell_harness_error (harness_input_new input))) (\<lambda>text_given.
       op_then (ask_harness E (AskRun ready session text_given) (se_run E)) (\<lambda>native.
       on_shell E (register_run i correlation native)))))))))))"

definition start_shell_run :: "shell_env \<Rightarrow> connection_id \<Rightarrow> run_id \<Rightarrow> string \<Rightarrow> provider_run_ref shell_op" where
  "start_shell_run E i correlation input =
     op_then (locked E (\<lambda>s. Ok (map_of (ru_correlations s) correlation))) (\<lambda>known.
     case known of
       Some run \<Rightarrow> op_ok run
     | None \<Rightarrow> start_fresh_run E i correlation input)"

definition shell_steer :: "shell_env \<Rightarrow> provider_run_ref \<Rightarrow> string \<Rightarrow> unit shell_op" where
  "shell_steer E run input =
     op_then (locked E (native_run (se_libs E) run)) (\<lambda>(adapter, native).
     op_then (op_lift (map_err shell_harness_error (harness_input_new input))) (\<lambda>text_given.
     ask_harness E (AskSteer adapter native text_given) (se_unit E)))"

definition shell_interrupt :: "shell_env \<Rightarrow> provider_run_ref \<Rightarrow> unit shell_op" where
  "shell_interrupt E run =
     op_then (locked E (native_run (se_libs E) run)) (\<lambda>(adapter, native).
     ask_harness E (AskInterrupt adapter native) (se_unit E))"

fun provider_response_of :: "harness_response \<Rightarrow> provider_response" where
  "provider_response_of (ApprovalAnswer decision) = ApprovalResponse decision"
| "provider_response_of (UserInputAnswer input) = UserInputResponse input"

definition shell_respond :: "shell_env \<Rightarrow> request_ref \<Rightarrow> harness_response \<Rightarrow> unit shell_op" where
  "shell_respond E request response =
     op_then (locked E (native_run (se_libs E) (rq_run request))) (\<lambda>(adapter, native).
     op_then (op_lift (map_err shell_harness_error (provider_request_id_new (rq_native_id request)))) (\<lambda>i.
     ask_harness E (AskRespond adapter \<lparr>qh_run = native, qh_native_id = i\<rparr> (provider_response_of response)) (se_unit E)))"

section \<open>What an operation asks\<close>

fun run_start :: "shell_call \<Rightarrow> (nat \<times> provider_session) list" where
  "run_start (AskRun adapter session _) = [(adapter, session)]"
| "run_start _ = []"

abbreviation starts :: "'a shell_op \<Rightarrow> ('a \<Rightarrow> (nat \<times> provider_session) list \<Rightarrow> bool) \<Rightarrow>
    ((nat \<times> provider_session) list \<Rightarrow> bool) \<Rightarrow> bool" where
  "starts \<equiv> traced tk_log run_start"

abbreviation "none_started \<equiv> (\<lambda>ms :: (nat \<times> provider_session) list. ms = [])"

lemma starts_on_shell: "starts (on_shell E f) (\<lambda>_. none_started) none_started"
proof (rule tracedI)
  fix k
  have all: "traced_as (\<lambda>_. none_started) none_started r []" for r :: "port_error + 'a"
    by (cases r) simp_all
  show "\<exists>new. tk_log (snd (on_shell E f k)) = tk_log k @ new \<and>
      traced_as (\<lambda>_. none_started) none_started (fst (on_shell E f k)) (calls_of run_start new)"
    by (rule exI [of _ "[AskLock]"]) (simp add: on_shell_def acquire_def Let_def all split: prod.split)
qed

lemma starts_locked: "starts (locked E f) (\<lambda>_. none_started) none_started"
  unfolding locked_def by (rule starts_on_shell)

lemma starts_change: "starts (change E f) (\<lambda>_. none_started) none_started"
  unfolding change_def by (rule starts_on_shell)

lemma starts_ask:
  assumes "run_start call = ms"
  shows "starts (ask E call answer) (\<lambda>_ ns. ns = ms) (\<lambda>ns. ns = ms)"
  by (rule tracedI, rule exI [of _ "[call]"]) (simp add: ask_def Let_def assms)

lemma starts_harness:
  assumes "run_start call = ms"
  shows "starts (ask_harness E call answer) (\<lambda>_ ns. ns = ms) (\<lambda>ns. ns = ms)"
  unfolding ask_harness_def
  by (rule traced_then [OF starts_ask [OF assms]]) (auto intro!: traced_lift)

lemmas starts_quiet = starts_on_shell starts_locked starts_change
  starts_ask [where ms = "[]"] starts_harness [where ms = "[]"]

lemma starts_find: "starts (find_connection E i) (\<lambda>_. none_started) none_started"
  by (rule tracedI, rule exI [of _ "[]"]) (simp add: find_connection_def split: option.split)

lemma starts_lift_any: "starts (op_lift r) (\<lambda>_. none_started) none_started"
  by (rule traced_lift) simp_all

abbreviation starts_none :: "'a shell_op \<Rightarrow> bool" where
  "starts_none p \<equiv> starts p (\<lambda>_. none_started) none_started"

lemma starts_none_then:
  "starts_none p \<Longrightarrow> (\<And>x. starts_none (f x)) \<Longrightarrow> starts_none (op_then p f)"
  by (erule traced_then) simp_all

lemma starts_none_simple:
  "starts_none (op_ok x)" "starts_none (op_err e)" "starts_none (on_shell E f)" "starts_none (locked E g)"
  "starts_none (change E h)" "starts_none (find_connection E i)" "starts_none (op_lift r)"
  "run_start call = [] \<Longrightarrow> starts_none (ask E call answer)"
  "run_start call = [] \<Longrightarrow> starts_none (ask_harness E call answer')"
  by (simp_all add: traced_ok traced_err starts_quiet starts_find starts_lift_any)

lemma starts_none_restart: "starts_none (restart_runtime E c runtime variable secret generation)"
  unfolding restart_runtime_def by (intro starts_none_then starts_none_simple) simp

lemma starts_none_replace: "starts_none (replace_runtime E c runtime variable secret generation active cached)"
  unfolding replace_runtime_def
  by (auto intro!: starts_none_then starts_none_simple starts_none_restart split: sum.split)

lemma starts_none_resolve: "starts_none (resolve_credential E c correlation slot)"
  unfolding resolve_credential_def
  by (auto intro!: starts_none_then starts_none_simple split: option.split sum.split credential_resolution.split)

lemma starts_none_prepare: "starts_none (prepare_mode_b_runtime E c correlation adapter runtime)"
  unfolding prepare_mode_b_runtime_def
  by (auto simp: Let_def intro!: starts_none_then starts_none_simple starts_none_resolve starts_none_replace
      split: option.split credential_delivery.split)

lemma starts_none_directory: "starts_none (run_working_directory E correlation)"
  unfolding run_working_directory_def Let_def by (intro starts_none_then starts_none_simple) simp

lemma starts_none_session: "starts_none (start_shell_session E c correlation adapter runtime spec)"
  unfolding start_shell_session_def
  by (auto intro!: starts_none_then starts_none_simple starts_none_prepare split: sum.split)

definition at_most_one :: "(nat \<times> provider_session) list \<Rightarrow> bool" where
  "at_most_one ms \<longleftrightarrow> length ms \<le> 1"

lemma after_none:
  "starts_none p \<Longrightarrow> (\<And>x. starts (f x) (\<lambda>_. at_most_one) at_most_one) \<Longrightarrow>
     starts (op_then p f) (\<lambda>_. at_most_one) at_most_one"
  by (erule traced_then) (simp_all add: at_most_one_def [abs_def])

lemma at_most_one_simple:
  "starts (op_ok x) (\<lambda>_. at_most_one) at_most_one" "starts (op_err e) (\<lambda>_. at_most_one) at_most_one"
  by (simp_all add: traced_ok traced_err at_most_one_def)

lemma starts_one_fresh: "starts (start_fresh_run E i correlation input) (\<lambda>_. at_most_one) at_most_one"
proof -
  have run: "starts (op_then (ask_harness E (AskRun ready session given) (se_run E))
      (\<lambda>native. on_shell E (register_run i correlation native))) (\<lambda>_. at_most_one) at_most_one"
    for ready session given
    by (rule traced_then [OF starts_harness [OF refl]])
      (auto simp: at_most_one_def intro: starts_on_shell [THEN traced_weaken])
  show ?thesis
    unfolding start_fresh_run_def
    by (intro after_none starts_none_simple starts_none_directory starts_none_prepare)
      (auto intro!: run after_none at_most_one_simple starts_none_session starts_none_simple)
qed

lemma starts_one: "starts (start_shell_run E i correlation input) (\<lambda>_. at_most_one) at_most_one"
  unfolding start_shell_run_def
  by (rule after_none [OF starts_none_simple(4)])
    (auto intro: at_most_one_simple starts_one_fresh split: option.split)

text \<open>A run returned is registered when the operation returns.\<close>

lemma register_run_correlation:
  "register_run i correlation native w = (Ok r, w') \<Longrightarrow> map_of (ru_correlations (sh_state w')) correlation = Some r"
  by (auto simp: register_run_def register_run_state_def Let_def map_of_update split: sum.splits option.splits)

lemma start_shell_run_registers:
  "ensures (start_shell_run E i correlation input)
     (\<lambda>r k. map_of (ru_correlations (sh_state (tk_shell k))) correlation = Some r)" (is "ensures _ ?S")
proof -
  have reg: "ensures (on_shell E (register_run i correlation native)) ?S" for native
    by (auto simp: ensures_def on_shell_def Let_def intro: register_run_correlation split: prod.splits)
  have fresh: "ensures (start_fresh_run E i correlation input) ?S"
    unfolding start_fresh_run_def
    by (intro ensures_then) (auto intro!: ensures_then ensures_err reg)
  show ?thesis
    using fresh unfolding start_shell_run_def ensures_def
    by (auto simp: op_then_eq_Ok locked_def on_shell_def Let_def split: option.splits)
qed

lemma known_run_starts_nothing:
  assumes "map_of (ru_correlations (sh_state (tk_shell (acquire E k)))) correlation = Some r"
  shows "start_shell_run E i correlation input k = (Ok r, acquire E k)"
  using assms by (simp add: start_shell_run_def op_then_def op_match_def locked_def on_shell_def Let_def op_ok_def)

end
