(* ===== verification/Shell_Properties.thy ===== *)
theory Shell_Properties
  imports Codex_Adapter_Laws Shell_Runs Codex_Samples
begin

text \<open>
  The properties of the desktop shell's harness and of the Codex adapter under it, with their
  witnesses on a small execution.
\<close>

section \<open>Sample executions\<close>

definition sample_native :: provider_run_handle where
  "sample_native = \<lparr>ph_runtime = RuntimeHandle ''r'', ph_session_id = ProviderSessionId ''s'', ph_native_id = ProviderRunId ''t''\<rparr>"

definition sample_delta :: provider_event where
  "sample_delta = HMessageDelta sample_native ''a'' (NativePayload [])"

definition sample_end :: provider_event where
  "sample_end = HRunTerminal sample_native TermCompleted (NativePayload [])"

definition sample_ref :: provider_run_ref where
  "sample_ref = \<lparr>pri_namespace = ''codex'', pri_runtime_id = ''r'', pri_session_id = ''s'', pri_run_id = ''t''\<rparr>"

text \<open>The first event of a run is held back, the run is registered, and its end is forwarded.\<close>

definition sample_actions :: "shell_action list" where
  "sample_actions =
     [Forwarded sample_delta, Turned, Turned, Turned, Turned, RunRegistered (Id 1) (Id 2) sample_native,
      Forwarded sample_end, Turned, Turned, Turned, Turned, Turned, Turned, Turned, Turned]"

fun calm_actions :: "shell_action list \<Rightarrow> stream \<Rightarrow> bool" where
  "calm_actions [] t = True"
| "calm_actions (a # as) t \<longleftrightarrow>
     \<not> overtakes a (st_shell t) \<and> (case stream_step a t of Some t' \<Rightarrow> calm_actions as t' | None \<Rightarrow> False)"

lemma calm_run: "calm t \<Longrightarrow> calm_actions as t \<Longrightarrow> stream_run as t = Some t' \<Longrightarrow> calm t'"
  by (induction as t rule: calm_actions.induct) (auto intro: calm_step split: option.splits)

lemma sample_native_ref: "native_ref_parts sample_native = Ok sample_ref"
  by (simp add: native_ref_parts_def sample_native_def sample_ref_def provider_run_ref_from_parts_def
      provider_run_identity_new_def require_provider_component_def require_nonempty_def trim_is_empty_def
      has_control_def chars_def bytes_def trim_def char_is_control_def char_is_whitespace_def)

lemmas stream_eval = sample_native_ref register_run_def register_run_state_def event_turn_def deliver_event_def
  convert_event_def hold_back_def forward_event_def run_ref_def retire_native_def owns_runs_def pending_total_def
  PENDING_EVENT_CAPACITY_def SHELL_CHANNEL_CAPACITY_def stream_new_def shell_new_def run_state_default_def
  sample_delta_def sample_end_def waiting_of_def of_run_def

definition sample_stream :: stream where
  "sample_stream = the (stream_run sample_actions stream_new)"

lemma sample_stream_value:
  "stream_run sample_actions stream_new = Some sample_stream"
  "map fst (st_delivered sample_stream) = [sample_delta, sample_end]"
  "map snd (st_delivered sample_stream) = [Ok (MessageDelta sample_ref ''a''), Ok (RunTerminal sample_ref TerminalCompleted)]"
  "st_arrived sample_stream = [sample_delta, sample_end]"
  by (simp_all add: sample_stream_def sample_actions_def stream_eval Let_def)

lemma sample_stream_calm: "calm sample_stream"
  by (rule calm_run [OF calm_new _ sample_stream_value(1)])
    (simp add: sample_actions_def stream_eval Let_def)

section \<open>Events\<close>

text \<open>
  C34: in every calm execution (no run is registered while the pump holds one of its events and older
  ones wait), the events of a run that \<open>next_event\<close> has delivered, followed by those still inside the
  shell (replayed, held back, in the pump's hands, in the channel), are exactly the events that arrived
  for it, in their order.
\<close>

theorem shell_keeps_event_order:
  assumes "calm t"
  shows "of_run n (map fst (st_delivered t)) @ in_shell n (st_shell t) = of_run n (st_arrived t)"
  using calm_inv [OF assms] by (simp add: stream_inv_def)

theorem shell_keeps_event_order_witness:
  "of_run sample_native (map fst (st_delivered sample_stream)) @ in_shell sample_native (st_shell sample_stream) =
     [sample_delta, sample_end]"
  using shell_keeps_event_order [OF sample_stream_calm, of sample_native]
  by (simp add: sample_stream_value) (simp add: sample_delta_def sample_end_def)

text \<open>
  C35: in every calm execution in which the adapters send nothing of a run after its terminal event and
  no command of another run, no event is refused: each delivery of \<open>next_event\<close> succeeds.
\<close>

theorem shell_refuses_no_event:
  assumes "calm t" and "well_behaved (st_arrived t)"
  shows "list_all (\<lambda>d. is_ok (snd d)) (st_delivered t)"
  using calm_ok [OF assms(1)] assms(2) by (simp add: stream_ok_def)

theorem shell_refuses_no_event_witness:
  "list_all (\<lambda>d. is_ok (snd d)) (st_delivered sample_stream)"
  by (rule shell_refuses_no_event [OF sample_stream_calm])
    (simp add: sample_stream_value well_behaved_def sample_delta_def sample_end_def)

text \<open>A registered run's event is refused once the run is retired.\<close>

lemma unregistered_refused:
  assumes "native_event_run e = Some n" and "map_of (ru_native_refs s) n = None"
  shows "convert_event e s = (Err (PortNotFound (run_handle_text n)), s)"
  using assms
  by (cases e) (auto simp: convert_event_def run_ref_def shell_request_ref_def optional_ref_def)

lemma stream_run_step: "stream_step a t = Some t1 \<Longrightarrow> stream_run (a # as) t = stream_run as t1"
  by simp

lemma replays_refused:
  assumes "sh_pump (st_shell t) = AtReplay" and "ru_replay_events (sh_state (st_shell t)) = es"
    and "\<forall>e\<in>set es. native_event_run e = Some n" and "map_of (ru_native_refs (sh_state (st_shell t))) n = None"
  shows "\<exists>t'. stream_run (replicate (length es) Turned) t = Some t' \<and>
    st_delivered t' = st_delivered t @ map (\<lambda>e. (e, Err (PortNotFound (run_handle_text n)))) es"
  using assms
proof (induction es arbitrary: t)
  case (Cons e es)
  let ?w = "st_shell t"
  let ?d = "(e, Err (PortNotFound (run_handle_text n)) :: port_error + harness_event)"
  let ?t = "t\<lparr>st_shell := ?w\<lparr>sh_state := (sh_state ?w)\<lparr>ru_replay_events := es\<rparr>, sh_pump := AtReplay\<rparr>,
    st_delivered := st_delivered t @ [?d]\<rparr>"
  have turn: "stream_step Turned t = Some ?t"
    using Cons.prems by (simp add: event_turn_def deliver_event_def unregistered_refused)
  obtain t' where "stream_run (replicate (length es) Turned) ?t = Some t'"
      "st_delivered t' = st_delivered ?t @ map (\<lambda>e. (e, Err (PortNotFound (run_handle_text n)))) es"
    using Cons.IH [of ?t] Cons.prems by auto
  then show ?case unfolding length_Cons replicate_Suc stream_run_step [OF turn] by simp
qed simp

text \<open>
  C36: the moment that calm executions leave out breaks the stream. Let \<open>next_event\<close> have taken a run's
  terminal event from the channel while older events of the run are held back (and nothing else is to be
  replayed). When the run is registered before \<open>next_event\<close> has the lock, the terminal event is delivered
  first and retires the run, and then every one of the older events is refused with \<open>NotFound\<close>, which the
  supervisor takes for the loss of the whole stream.
\<close>

theorem registration_race_breaks_the_stream:
  assumes "calm t" and "sh_pump (st_shell t) = Holding (HRunTerminal n state payload)"
    and "waiting_of n (sh_state (st_shell t)) = es" and "ru_replay_events (sh_state (st_shell t)) = []"
    and "register_run c i n (st_shell t) = (Ok r, w)"
  shows "\<exists>t'. stream_run (RunRegistered c i n # Turned # replicate (length es) Turned) t = Some t' \<and>
    st_delivered t' = st_delivered t @
      (HRunTerminal n state payload, Ok (RunTerminal r (terminal_of state))) #
      map (\<lambda>e. (e, Err (PortNotFound (run_handle_text n)))) es"
proof -
  let ?e = "HRunTerminal n state payload"
  let ?s = "retire_native n (is_crash state) (sh_state w)"
  let ?t = "t\<lparr>st_shell := w\<lparr>sh_state := ?s, sh_pump := AtReplay\<rparr>,
    st_delivered := st_delivered t @ [(?e, Ok (RunTerminal r (terminal_of state)))]\<rparr>"
  have parted: "parted (sh_state (st_shell t))" using calm_inv [OF assms(1)] by (simp add: stream_inv_def)
  have w: "sh_pump w = Holding ?e" "ru_replay_events (sh_state w) = es" "run_ref n (sh_state w) = Ok r"
    using register_shape [OF assms(5)] registered_run_is_found(2) [OF assms(5)] assms(2-4)
    by (simp_all add: register_state)
  have turn: "stream_step Turned (t\<lparr>st_shell := w\<rparr>) = Some ?t"
    using w by (simp add: event_turn_def deliver_event_def convert_event_def run_ref_def split: option.splits)
  have "native_event_run e = Some n" if "e \<in> set es" for e
    using that partedD(3) [OF parted, of n _ e] assms(3) by (auto simp: waiting_of_def split: option.splits)
  moreover have "map_of (ru_native_refs ?s) n = None"
    by (auto simp: retire_native_def Let_def map_of_delete split: option.split)
  ultimately obtain t' where "stream_run (replicate (length es) Turned) ?t = Some t'"
      "st_delivered t' = st_delivered ?t @ map (\<lambda>e. (e, Err (PortNotFound (run_handle_text n)))) es"
    using replays_refused [of ?t es n] w(2) by (auto simp: retire_native_keeps)
  moreover have "stream_step (RunRegistered c i n) t = Some (t\<lparr>st_shell := w\<rparr>)" by (simp add: assms(5))
  note stream_run_step [OF this] stream_run_step [OF turn]
  ultimately show ?thesis by simp
qed

text \<open>The run's first event is held back, and the pump holds its last one.\<close>

definition racing_actions :: "shell_action list" where
  "racing_actions =
     [Forwarded sample_delta, Turned, Turned, Turned, Turned, Forwarded sample_end, Turned, Turned, Turned]"

definition racing_stream :: stream where
  "racing_stream = the (stream_run racing_actions stream_new)"

lemma racing_stream_value:
  "stream_run racing_actions stream_new = Some racing_stream"
  "st_shell racing_stream = \<lparr>sh_state = run_state_default\<lparr>ru_pending_events := [(sample_native, [sample_delta])]\<rparr>,
     sh_channel = [], sh_ready = False, sh_pump = Holding sample_end, sh_adapters = 0\<rparr>"
  "st_delivered racing_stream = []"
  by (simp_all add: racing_stream_def racing_actions_def stream_eval Let_def)

lemma racing_stream_calm: "calm racing_stream"
  by (rule calm_run [OF calm_new _ racing_stream_value(1)]) (simp add: racing_actions_def stream_eval Let_def)

theorem registration_race_breaks_the_stream_witness:
  "\<exists>t'. stream_run [RunRegistered (Id 1) (Id 2) sample_native, Turned, Turned] racing_stream = Some t' \<and>
     st_delivered t' = [(sample_end, Ok (RunTerminal sample_ref TerminalCompleted)),
       (sample_delta, Err (PortNotFound ''r/s/t''))]"
proof -
  obtain w where registered: "register_run (Id 1) (Id 2) sample_native (st_shell racing_stream) = (Ok sample_ref, w)"
    by (cases "register_run_state (Id 1) (Id 2) sample_native sample_ref (sh_state (st_shell racing_stream))")
      (simp add: register_run_def sample_native_ref)
  have "sh_pump (st_shell racing_stream) = Holding (HRunTerminal sample_native TermCompleted (NativePayload []))"
    "waiting_of sample_native (sh_state (st_shell racing_stream)) = [sample_delta]"
    "ru_replay_events (sh_state (st_shell racing_stream)) = []"
    by (simp_all add: racing_stream_value waiting_of_def sample_end_def run_state_default_def)
  from registration_race_breaks_the_stream [OF racing_stream_calm this registered] show ?thesis
    by (simp add: racing_stream_value(3) sample_end_def run_handle_text_def) (simp add: sample_native_def)
qed

text \<open>
  C0: the shell holds back at most 128 events, and its channel holds at most 128. Whenever \<open>next_event\<close>
  waits with nothing to wake it, the channel is empty or 128 events wait for runs to be registered.
\<close>

theorem shell_memory_is_bounded:
  assumes "streamed t"
  shows "pending_total (sh_state (st_shell t)) \<le> PENDING_EVENT_CAPACITY \<and>
    length (sh_channel (st_shell t)) \<le> SHELL_CHANNEL_CAPACITY \<and>
    (event_turn (st_shell t) \<noteq> None \<or> sh_channel (st_shell t) = [] \<or>
     pending_total (sh_state (st_shell t)) = PENDING_EVENT_CAPACITY)"
  using streamed_bounded [OF assms]
  by (auto simp: within_bounds_def event_turn_def split: pump_at.splits if_splits list.splits option.splits)

lemma calm_streamed: "calm t \<Longrightarrow> streamed t"
  by (induction rule: calm.induct) (auto intro: streamed.intros)

theorem shell_memory_is_bounded_witness:
  "pending_total (sh_state (st_shell sample_stream)) \<le> 128 \<and> length (sh_channel (st_shell sample_stream)) \<le> 128"
  using shell_memory_is_bounded [OF calm_streamed [OF sample_stream_calm]]
  by (simp add: PENDING_EVENT_CAPACITY_def SHELL_CHANNEL_CAPACITY_def)

text \<open>
  C37: a registration wakes the stream. When \<open>next_event\<close> waits with nothing to wake it and events of a
  run are held back, registering the run makes the next two turns deliver the oldest of them.
\<close>

theorem registration_wakes_the_stream:
  assumes "calm t" and "event_turn (st_shell t) = None" and "waiting_of n (sh_state (st_shell t)) = e # es"
    and "register_run c i n (st_shell t) = (Ok r, w)"
  shows "\<exists>w1 out w2. event_turn w = Some (None, w1) \<and> event_turn w1 = Some (Some (e, out), w2)"
proof -
  let ?w = "st_shell t"
  have idle: "sh_pump ?w \<in> {AtNotified, AtSelect}" "\<not> sh_ready ?w"
    using assms(2) by (auto simp: event_turn_def split: pump_at.splits if_splits list.splits option.splits)
  then have "ru_replay_events (sh_state ?w) = []"
    using calm_inv [OF assms(1)] by (auto simp: stream_inv_def announced_def)
  moreover have "map_of (ru_pending_events (sh_state ?w)) n \<noteq> None"
    using assms(3) by (auto simp: waiting_of_def split: option.splits)
  ultimately have w: "sh_ready w" "sh_pump w = sh_pump ?w" "ru_replay_events (sh_state w) = e # es"
    using register_shape [OF assms(4)] assms(3) by (simp_all add: register_state)
  show ?thesis
    by (intro exI [of _ "w\<lparr>sh_ready := False, sh_pump := AtReplay\<rparr>"])
      (use idle w in \<open>auto simp: event_turn_def deliver_event_shape\<close>)
qed

definition held_stream :: stream where
  "held_stream = the (stream_run [Forwarded sample_delta, Turned, Turned, Turned, Turned, Turned, Turned] stream_new)"

lemma held_stream_value:
  "stream_run [Forwarded sample_delta, Turned, Turned, Turned, Turned, Turned, Turned] stream_new = Some held_stream"
  "st_shell held_stream = \<lparr>sh_state = run_state_default\<lparr>ru_pending_events := [(sample_native, [sample_delta])]\<rparr>,
     sh_channel = [], sh_ready = False, sh_pump = AtSelect, sh_adapters = 0\<rparr>"
  by (simp_all add: held_stream_def stream_eval Let_def)

lemma held_stream_calm: "calm held_stream"
  by (rule calm_run [OF calm_new _ held_stream_value(1)]) (simp add: stream_eval Let_def)

theorem registration_wakes_the_stream_witness:
  "\<exists>w1 out w2. event_turn (snd (register_run (Id 1) (Id 2) sample_native (st_shell held_stream))) = Some (None, w1) \<and>
     event_turn w1 = Some (Some (sample_delta, out), w2)"
proof (rule registration_wakes_the_stream [OF held_stream_calm])
  show "event_turn (st_shell held_stream) = None"
    by (simp add: held_stream_value event_turn_def)
  show "waiting_of sample_native (sh_state (st_shell held_stream)) = sample_delta # []"
    by (simp add: held_stream_value waiting_of_def)
  show "register_run (Id 1) (Id 2) sample_native (st_shell held_stream) =
      (Ok sample_ref, snd (register_run (Id 1) (Id 2) sample_native (st_shell held_stream)))"
    by (simp add: register_run_def sample_native_ref split: prod.split)
qed

section \<open>Runs\<close>

text \<open>
  C38: whatever adapters, broker and file system answer and whatever other tasks do meanwhile, the start
  of a run asks an adapter to start a run at most once, and when it returns a run, that run is
  registered under the caller's correlation.
\<close>

theorem shell_starts_a_run_once:
  "(\<exists>new. tk_log (snd (start_shell_run E i correlation input k)) = tk_log k @ new \<and>
      length (calls_of run_start new) \<le> 1) \<and>
   (case start_shell_run E i correlation input k of
      (Inl _, _) \<Rightarrow> True
    | (Inr r, k') \<Rightarrow> map_of (ru_correlations (sh_state (tk_shell k'))) correlation = Some r)"
proof
  obtain new where "tk_log (snd (start_shell_run E i correlation input k)) = tk_log k @ new"
    "traced_as (\<lambda>_. at_most_one) at_most_one (fst (start_shell_run E i correlation input k)) (calls_of run_start new)"
    using starts_one by (rule tracedE)
  then show "\<exists>new. tk_log (snd (start_shell_run E i correlation input k)) = tk_log k @ new \<and>
      length (calls_of run_start new) \<le> 1"
    by (cases "fst (start_shell_run E i correlation input k)") (auto simp: at_most_one_def)
  show "case start_shell_run E i correlation input k of
      (Inl _, _) \<Rightarrow> True
    | (Inr r, k') \<Rightarrow> map_of (ru_correlations (sh_state (tk_shell k'))) correlation = Some r"
    using start_shell_run_registers [of E i correlation input]
    by (auto simp: ensures_def split: prod.split sum.split)
qed

text \<open>
  C39: whatever process and actor answer, the Codex adapter's start of a run sends \<^verbatim>\<open>turn/start\<close> at most
  once and no other mutating request; it is sent exactly once when the run is returned, whose handle
  names the adapter's runtime and the session given. Only the reading \<^verbatim>\<open>account/read\<close> is repeated.
\<close>

theorem adapter_starts_a_run_once:
  "\<exists>new. ad_log (snd (adapter_start_run W session input model a)) = ad_log a @ new \<and>
     (case fst (adapter_start_run W session input model a) of
        Inl _ \<Rightarrow> mutations new = [] \<or> mutations new = [''turn/start'']
      | Inr run \<Rightarrow> mutations new = [''turn/start''] \<and> ph_runtime run = ps_runtime session \<and>
          ph_session_id run = ps_id session)"
proof -
  obtain new where "ad_log (snd (adapter_start_run W session input model a)) = ad_log a @ new"
    "traced_as (\<lambda>h ms. ms = [''turn/start''] \<and> ph_runtime h = ps_runtime session \<and> ph_session_id h = ps_id session)
       (\<lambda>ms. ms = [] \<or> ms = [''turn/start'']) (fst (adapter_start_run W session input model a)) (mutations new)"
    using sends_start_run by (rule tracedE)
  then show ?thesis
    by (intro exI [of _ new]) (cases "fst (adapter_start_run W session input model a)"; simp)
qed

text \<open>
  C40: when the actor accepts the response to a \<^verbatim>\<open>turn/start\<close>, it announces the run under the handle
  which the adapter then returns to its caller. The events of the run carry that handle, under which
  the shell registers it.
\<close>

theorem adapter_and_actor_name_the_same_run:
  assumes "pe_kind p = StartRun (ps_id session)" and "valid_response_result (pe_kind p) result"
  shows "\<exists>run. started_run (ce_spec E) session result = Ok run \<and>
    ac_events (accept_result E raw p result a) =
      ac_events a @ [HRunAccepted run (NativePayload (sanitize (sanitizer_of E) raw))]"
proof -
  from assms obtain turn i native where turn: "get ''turn'' result = Some turn"
    "get_str ''id'' turn = Some i" "provider_run_id_new i = Ok native"
    by (auto simp: some_and_def valid_turn_def is_ok_def split: option.splits sum.splits)
  then show ?thesis
    using assms(1)
    by (simp add: Let_def started_run_def required_string_def accept_result_def send_event_def
        complete_client_request_def send_reply_def split: option.split)
qed

definition accepted_turn :: json where
  "accepted_turn = JObj [(''turn'', JObj [(''id'', JStr ''t''), (''items'', JArr []), (''status'', JStr ''inProgress'')])]"

definition accepted_request :: pending_client where
  "accepted_request = \<lparr>pe_method = ''turn/start'', pe_mutation = True, pe_kind = StartRun (ProviderSessionId ''s''), pe_reply = Some 0\<rparr>"

definition accepted_session :: provider_session where
  "accepted_session = \<lparr>ps_id = ProviderSessionId ''s'', ps_runtime = RuntimeHandle ''r'', ps_connection_id = Id 1,
     ps_working_directory = RuntimePath ''/w'', ps_title = ''w''\<rparr>"

lemma accepted_turn_valid: "valid_response_result (pe_kind accepted_request) accepted_turn"
  by (simp add: accepted_turn_def accepted_request_def valid_turn_def has_fields_def get_str_def get_array_def
      provider_run_id_new_def validate_opaque_id_def trim_is_empty_def has_control_def chars_def bytes_def trim_def
      char_is_control_def char_is_whitespace_def)

theorem adapter_and_actor_name_the_same_run_witness:
  "\<exists>run. started_run (ce_spec codex_sample_env) accepted_session accepted_turn = Ok run \<and>
    ac_events (accept_result codex_sample_env [] accepted_request accepted_turn initial_actor) =
      [HRunAccepted run (NativePayload (sanitize (sanitizer_of codex_sample_env) []))]"
  using adapter_and_actor_name_the_same_run [OF _ accepted_turn_valid, of accepted_session codex_sample_env "[]" initial_actor]
  by (simp add: accepted_request_def accepted_session_def initial_actor_def)

end
