(* ===== verification/Shell_Migration.thy ===== *)
theory Shell_Migration
  imports Ops Ports Secrets_Memory Config_Protocol
begin

text \<open>
  The migration of secrets from the plain-text file to the operating system's store, run at start-up
  (\<^verbatim>\<open>migrate_interim_secrets\<close> of \<^verbatim>\<open>crates/yakshed-desktop/src/macos.rs\<close>).

  The world is the configuration service with its file, the plain-text file (\<open>None\<close> when it does not
  exist) and the target backend. Every call is logged; what goes wrong in it is a function of the log:
  errors of the file system and of the plain-text file, faults of the configuration file, and the end
  of the process, after which nothing more happens. A target that never answers ends the run too. The
  result is then \<open>None\<close>. The code's loops over the locators are folds.
\<close>

section \<open>Backends and errors\<close>

definition LOCAL_BACKEND_ID :: string where
  "LOCAL_BACKEND_ID = ''local-os''"

definition LEGACY_BACKEND_ID :: string where
  "LEGACY_BACKEND_ID = ''local-file''"

definition local_backend :: secret_backend where
  "local_backend = \<lparr>sb_id = SecretBackendId LOCAL_BACKEND_ID, sb_settings = LocalOs\<rparr>"

definition secrets_path :: "app_paths \<Rightarrow> string" where
  "secrets_path paths = path_join (pt_data_root paths) ''secrets.json''"

definition legacy_backend :: "app_paths \<Rightarrow> secret_backend" where
  "legacy_backend paths =
     \<lparr>sb_id = SecretBackendId LEGACY_BACKEND_ID, sb_settings = LocalFile (secrets_path paths)\<rparr>"

datatype secret_error_class = ClassLocked | ClassDenied | ClassUnavailable | ClassFailed

fun classify_secret_error :: "secret_error \<Rightarrow> secret_error_class" where
  "classify_secret_error (SecretLocked _ _) = ClassLocked"
| "classify_secret_error (SecretDenied _ _) = ClassDenied"
| "classify_secret_error (SecretUnavailable _ _) = ClassUnavailable"
| "classify_secret_error _ = ClassFailed"

fun pending_class :: "secret_error_class \<Rightarrow> credential_migration_status" where
  "pending_class ClassLocked = MigrationPending MigrationLocked"
| "pending_class ClassDenied = MigrationPending MigrationDenied"
| "pending_class ClassUnavailable = MigrationPending MigrationUnavailable"
| "pending_class ClassFailed = MigrationPending MigrationFailed"

section \<open>The world\<close>

datatype migration_call =
  CallExists
| CallCanonical "string list"
| CallLocators
| CallSourceResolve secret_locator
| CallTargetResolve secret_locator
| CallTargetPut secret_locator
| CallPurge
| CallUpdate config_change

record 't migration_world =
  mw_store :: config_store
  mw_file :: "string option"
  mw_source :: "(secret_locator \<times> string) list option"
  mw_target :: 't
  mw_log :: "migration_call list"

record 't target_ops =
  to_resolve :: "secret_locator \<Rightarrow> 't \<Rightarrow> (secret_error + resolved_secret) option \<times> 't"
  to_put :: "secret_locator \<Rightarrow> string \<Rightarrow> bool \<Rightarrow> 't \<Rightarrow> (secret_error + put_outcome) option \<times> 't"

record 'v migration_env =
  me_libs :: libs
  me_toml :: "'v toml"
  me_paths :: app_paths
  me_capabilities :: "backend_capability list"
  me_killed :: "migration_call list \<Rightarrow> bool"
  me_exists_fails :: "migration_call list \<Rightarrow> bool"
  me_canonical :: "migration_call list \<Rightarrow> string \<Rightarrow> string option"
  me_source_valid :: bool
  me_locators_fault :: "migration_call list \<Rightarrow> secret_error option"
  me_resolve_fault :: "migration_call list \<Rightarrow> secret_error option"
  me_purge_fault :: "migration_call list \<Rightarrow> bool option"
  me_file_faults :: "migration_call list \<Rightarrow> file_faults"

text \<open>An early return carries its status; \<open>None\<close> is the end of the process.\<close>

type_synonym ('t, 'a) migration_op = "('t migration_world, credential_migration_status option, 'a) op"

definition give_up :: "migration_pending_reason \<Rightarrow> ('t, 'a) migration_op" where
  "give_up reason = op_err (Some (MigrationPending reason))"

definition give_up_class :: "secret_error_class \<Rightarrow> ('t, 'a) migration_op" where
  "give_up_class c = op_err (Some (pending_class c))"

definition called ::
    "'v migration_env \<Rightarrow> migration_call \<Rightarrow> (migration_call list \<Rightarrow> ('t, 'a) migration_op) \<Rightarrow> ('t, 'a) migration_op" where
  "called E call f w =
     (let log = mw_log w @ [call]; w1 = w\<lparr>mw_log := log\<rparr>
      in if me_killed E log then (Err None, w1) else f log w1)"

definition source_exists :: "'v migration_env \<Rightarrow> ('t, bool) migration_op" where
  "source_exists E = called E CallExists (\<lambda>log w.
     if me_exists_fails E log then (Err (Some (pending_class ClassFailed)), w) else (Ok (mw_source w \<noteq> None), w))"

definition source_locators :: "'v migration_env \<Rightarrow> ('t, secret_locator list) migration_op" where
  "source_locators E = called E CallLocators (\<lambda>log w.
     case me_locators_fault E log of
       Some e \<Rightarrow> (Err (Some (pending_class (classify_secret_error e))), w)
     | None \<Rightarrow> (Ok (map fst (case mw_source w of Some kvs \<Rightarrow> kvs | None \<Rightarrow> [])), w))"

definition source_resolve ::
    "'v migration_env \<Rightarrow> secret_backend_id \<Rightarrow> secret_locator \<Rightarrow> ('t, string) migration_op" where
  "source_resolve E i l = called E (CallSourceResolve l) (\<lambda>log w.
     case me_resolve_fault E log of
       Some (SecretNotFound _) \<Rightarrow> (Err (Some (MigrationPending MigrationMissingSource)), w)
     | Some e \<Rightarrow> (Err (Some (pending_class (classify_secret_error e))), w)
     | None \<Rightarrow>
         (case Option.bind (mw_source w) (\<lambda>kvs. map_of kvs l) of
            None \<Rightarrow> (Err (Some (MigrationPending MigrationMissingSource)), w)
          | Some v \<Rightarrow> (Ok v, w)))"

definition target_resolve ::
    "'v migration_env \<Rightarrow> 't target_ops \<Rightarrow> secret_locator \<Rightarrow> ('t, secret_error + resolved_secret) migration_op" where
  "target_resolve E G l = called E (CallTargetResolve l) (\<lambda>_ w.
     case to_resolve G l (mw_target w) of
       (None, t) \<Rightarrow> (Err None, w\<lparr>mw_target := t\<rparr>)
     | (Some r, t) \<Rightarrow> (Ok r, w\<lparr>mw_target := t\<rparr>))"

definition target_put ::
    "'v migration_env \<Rightarrow> 't target_ops \<Rightarrow> secret_locator \<Rightarrow> string \<Rightarrow> ('t, secret_error + put_outcome) migration_op" where
  "target_put E G l v = called E (CallTargetPut l) (\<lambda>_ w.
     case to_put G l v False (mw_target w) of
       (None, t) \<Rightarrow> (Err None, w\<lparr>mw_target := t\<rparr>)
     | (Some r, t) \<Rightarrow> (Ok r, w\<lparr>mw_target := t\<rparr>))"

text \<open>A purge that fails may have removed the file already.\<close>

definition purge_source :: "'v migration_env \<Rightarrow> ('t, bool) migration_op" where
  "purge_source E = called E CallPurge (\<lambda>log w.
     case me_purge_fault E log of
       None \<Rightarrow> (Ok True, w\<lparr>mw_source := None\<rparr>)
     | Some removed \<Rightarrow> (Ok False, if removed then w\<lparr>mw_source := None\<rparr> else w))"

definition update_config ::
    "'v migration_env \<Rightarrow> config_snapshot \<Rightarrow> config_change \<Rightarrow> ('t, config_snapshot) migration_op" where
  "update_config E snapshot change = called E (CallUpdate change) (\<lambda>log w.
     case config_store_update (me_libs E) (me_toml E) (me_file_faults E log) (sn_revision snapshot) change
            (mw_store w, mw_file w) of
       (r, s, file) \<Rightarrow>
         (map_err (\<lambda>_. Some (pending_class ClassFailed)) r, w\<lparr>mw_store := s, mw_file := file\<rparr>))"

definition local_file_paths :: "secret_backend list \<Rightarrow> secret_backend_id option \<Rightarrow> string list" where
  "local_file_paths backends except =
     List.map_filter (\<lambda>b. if except = Some (sb_id b) then None else local_file_path (sb_settings b)) backends"

definition configured_local_file_owns_path ::
    "'v migration_env \<Rightarrow> secret_backend list \<Rightarrow> string \<Rightarrow> secret_backend_id option \<Rightarrow> ('t, bool) migration_op" where
  "configured_local_file_owns_path E backends source_path except =
     (let paths = local_file_paths backends except in
      called E (CallCanonical (source_path # paths)) (\<lambda>log w.
        (Ok (case me_canonical E log source_path of
               None \<Rightarrow> False
             | Some source \<Rightarrow> list_ex (\<lambda>p. me_canonical E log p = Some source) paths), w)))"

section \<open>Beginning a migration\<close>

definition bound_locators :: "secret_backend_id \<Rightarrow> connection list \<Rightarrow> secret_locator list" where
  "bound_locators i connections =
     concat (map (\<lambda>c. List.map_filter (\<lambda>b.
       case cb_binding b of
         Secret r \<Rightarrow> if ref_backend_id r = i then Some (ref_locator r) else None
       | _ \<Rightarrow> None) (conn_credentials c)) connections)"

definition manifest :: "secret_locator list \<Rightarrow> secret_locator list" where
  "manifest ls = remdups_adj (sort_key locator_str ls)"

definition ensure_not_owned ::
    "'v migration_env \<Rightarrow> secret_backend list \<Rightarrow> secret_backend_id option \<Rightarrow> ('t, unit) migration_op" where
  "ensure_not_owned E backends except =
     op_then (configured_local_file_owns_path E backends (secrets_path (me_paths E)) except) (\<lambda>owned.
     if owned then give_up MigrationSourceInUse else op_ok ())"

text \<open>The migration of a configuration that has none under way; \<open>Inl\<close> is the status returned.\<close>

definition begin_copying ::
    "'v migration_env \<Rightarrow> secret_backend \<Rightarrow> secret_backend \<Rightarrow> bool \<Rightarrow> config_snapshot \<Rightarrow> ('t, config_snapshot) migration_op" where
  "begin_copying E legacy target exists snapshot =
     (let c = sn_config snapshot; backends = ac_secret_backends c in
      if legacy \<notin> set backends
      then
        op_then (if exists then ensure_not_owned E backends None else op_ok ()) (\<lambda>_.
        op_err (Some (if exists then pending_class ClassFailed else MigrationReady)))
      else if list_ex (\<lambda>b. sb_id b = sb_id target \<and> b \<noteq> target) backends
      then give_up MigrationTargetInUse
      else
        op_then (ensure_not_owned E backends (Some (sb_id legacy))) (\<lambda>_.
        if \<not> me_source_valid E then give_up_class ClassFailed
        else
          op_then (if exists then source_locators E else op_ok []) (\<lambda>stored.
          update_config E snapshot (BeginCredentialMigration
            \<lparr>mg_source = legacy, mg_target = target, mg_phase = PhaseCopying,
             mg_locators = manifest (stored @ (if exists then bound_locators (sb_id legacy) (ac_connections c) else [])),
             mg_receipts = []\<rparr>))))"

section \<open>Copying\<close>

type_synonym receipt_map = "(secret_locator \<times> copy_state) list"

definition record_state ::
    "'v migration_env \<Rightarrow> secret_locator \<Rightarrow> copy_state \<Rightarrow> config_snapshot \<times> receipt_map \<Rightarrow>
     ('t, config_snapshot \<times> receipt_map) migration_op" where
  "record_state E l state = (\<lambda>(snapshot, receipts).
     op_then (update_config E snapshot (RecordCredentialCopy l state)) (\<lambda>next_snapshot.
     op_ok (next_snapshot, AList.update l state receipts)))"

text \<open>The secret is put where the target has none, after the receipt \<open>Copying\<close> is on disk.\<close>

definition write_secret ::
    "'v migration_env \<Rightarrow> 't target_ops \<Rightarrow> secret_locator \<Rightarrow> string \<Rightarrow> copy_state option \<Rightarrow> config_snapshot \<times> receipt_map \<Rightarrow>
     ('t, config_snapshot \<times> receipt_map) migration_op" where
  "write_secret E G l secret receipt st =
     (if receipt = Some Copied then give_up MigrationCollision
      else
        op_then (if receipt = None then record_state E l Copying st else op_ok st) (\<lambda>st1.
        op_then (target_put E G l secret) (\<lambda>put.
        case put of
          Inl (SecretAlreadyExists _) \<Rightarrow> give_up MigrationCollision
        | Inl e \<Rightarrow> give_up_class (classify_secret_error e)
        | Inr _ \<Rightarrow> op_ok st1)))"

definition copy_locator ::
    "'v migration_env \<Rightarrow> 't target_ops \<Rightarrow> secret_backend_id \<Rightarrow> secret_locator \<Rightarrow> config_snapshot \<times> receipt_map \<Rightarrow>
     ('t, config_snapshot \<times> receipt_map) migration_op" where
  "copy_locator E G i l st =
     op_then (source_resolve E i l) (\<lambda>secret.
     let receipt = map_of (snd st) l in
     op_then (target_resolve E G l) (\<lambda>existing.
     op_then
       (case existing of
          Inl (SecretNotFound _) \<Rightarrow> write_secret E G l secret receipt st
        | Inl e \<Rightarrow> give_up_class (classify_secret_error e)
        | Inr found \<Rightarrow>
            if receipt = None \<or> rs_value found \<noteq> secret then give_up MigrationCollision else op_ok st) (\<lambda>st1.
     op_then (target_resolve E G l) (\<lambda>migrated.
     case migrated of
       Inl e \<Rightarrow> give_up_class (classify_secret_error e)
     | Inr found \<Rightarrow>
         if rs_value found \<noteq> secret then give_up_class ClassFailed
         else if receipt \<noteq> Some Copied then record_state E l Copied st1
         else op_ok st1))))"

fun copy_all ::
    "'v migration_env \<Rightarrow> 't target_ops \<Rightarrow> secret_backend_id \<Rightarrow> secret_locator list \<Rightarrow> config_snapshot \<times> receipt_map \<Rightarrow>
     ('t, config_snapshot \<times> receipt_map) migration_op" where
  "copy_all E G i [] st = op_ok st"
| "copy_all E G i (l # ls) st = op_then (copy_locator E G i l st) (copy_all E G i ls)"

section \<open>The whole migration\<close>

definition finish_with :: "'v migration_env \<Rightarrow> config_snapshot \<Rightarrow> ('t, credential_migration_status) migration_op" where
  "finish_with E snapshot =
     op_then (update_config E snapshot FinishCredentialMigration) (\<lambda>_. op_ok MigrationReady)"

definition purge_and_finish :: "'v migration_env \<Rightarrow> config_snapshot \<Rightarrow> ('t, credential_migration_status) migration_op" where
  "purge_and_finish E snapshot =
     op_then (purge_source E) (\<lambda>purged.
     if \<not> purged then give_up MigrationCleanupRequired else finish_with E snapshot)"

definition clean_up ::
    "'v migration_env \<Rightarrow> bool \<Rightarrow> config_snapshot \<Rightarrow> ('t, credential_migration_status) migration_op" where
  "clean_up E exists snapshot =
     op_then (ensure_not_owned E (ac_secret_backends (sn_config snapshot)) None) (\<lambda>_.
     if exists then purge_and_finish E snapshot else finish_with E snapshot)"

definition finish_empty ::
    "'v migration_env \<Rightarrow> migration_record \<Rightarrow> config_snapshot \<Rightarrow> ('t, credential_migration_status) migration_op" where
  "finish_empty E m snapshot =
     (if mg_locators m \<noteq> [] then give_up MigrationMissingSource
      else op_then (update_config E snapshot CheckpointCredentialMigration) (finish_with E))"

definition copy_and_finish ::
    "'v migration_env \<Rightarrow> 't target_ops \<Rightarrow> migration_record \<Rightarrow> config_snapshot \<Rightarrow> ('t, credential_migration_status) migration_op" where
  "copy_and_finish E G m snapshot =
     op_then (source_locators E) (\<lambda>stored.
     if list_ex (\<lambda>l. l \<notin> set (mg_locators m)) stored then give_up_class ClassFailed
     else
       op_then (copy_all E G (sb_id (mg_source m)) (mg_locators m)
         (snapshot, map (\<lambda>r. (rc_locator r, rc_state r)) (mg_receipts m))) (\<lambda>(copied, _).
       op_then (update_config E copied CheckpointCredentialMigration) (\<lambda>checked.
       op_then (ensure_not_owned E (ac_secret_backends (sn_config checked)) None) (\<lambda>_.
       purge_and_finish E checked))))"

definition migrate_interim_secrets ::
    "'v migration_env \<Rightarrow> 't target_ops \<Rightarrow> secret_backend \<Rightarrow> secret_backend \<Rightarrow> ('t, credential_migration_status) migration_op" where
  "migrate_interim_secrets E G legacy target =
     op_then (source_exists E) (\<lambda>exists w.
     (let snapshot = config_store_snapshot (mw_store w) in
      op_then (if ac_credential_migration (sn_config snapshot) = None
               then begin_copying E legacy target exists snapshot else op_ok snapshot) (\<lambda>begun.
      case ac_credential_migration (sn_config begun) of
        None \<Rightarrow> op_err None
      | Some m \<Rightarrow>
          if mg_source m \<noteq> legacy \<or> mg_target m \<noteq> target then give_up_class ClassFailed
          else if \<not> me_source_valid E then give_up_class ClassFailed
          else if mg_phase m = PhaseCleanupPending then clean_up E exists begun
          else if \<not> exists then finish_empty E m begun
          else copy_and_finish E G m begun)) w)"

definition migration_result ::
    "(credential_migration_status option + credential_migration_status) \<Rightarrow> credential_migration_status option" where
  "migration_result r = (case r of Inl s \<Rightarrow> s | Inr s \<Rightarrow> Some s)"

text \<open>
  A start of the application: the configuration service is opened on what the file holds, then the
  migration runs. A configuration that does not open ends the start.
\<close>

type_synonym 'v migration_boot = "'v migration_env \<times> dir_faults \<times> file_faults"

definition boot_migration ::
    "'t target_ops \<Rightarrow> secret_backend \<Rightarrow> secret_backend \<Rightarrow> 'v migration_boot \<Rightarrow> 't migration_world \<Rightarrow>
     credential_migration_status option \<times> 't migration_world" where
  "boot_migration G legacy target = (\<lambda>(E, df, f) w.
     case config_store_open (me_libs E) (me_toml E) df f (me_paths E) (me_capabilities E) (mw_file w) of
       (Inl _, disk) \<Rightarrow> (None, w\<lparr>mw_file := disk\<rparr>)
     | (Inr s, disk) \<Rightarrow>
         apfst migration_result
           (migrate_interim_secrets E G legacy target (w\<lparr>mw_store := s, mw_file := disk, mw_log := []\<rparr>)))"

fun boot_all ::
    "'t target_ops \<Rightarrow> secret_backend \<Rightarrow> secret_backend \<Rightarrow> 'v migration_boot list \<Rightarrow> 't migration_world \<Rightarrow> 't migration_world" where
  "boot_all G legacy target [] w = w"
| "boot_all G legacy target (b # bs) w = boot_all G legacy target bs (snd (boot_migration G legacy target b w))"

end
