(* ===== verification/Shell_Migration_Laws.thy ===== *)
theory Shell_Migration_Laws
  imports Shell_Migration Secrets_Laws
begin

text \<open>
  Laws of the migration of secrets. \<open>triple P p Q R\<close> is the correctness of an operation that may return
  early. A target backend is the locale \<open>secret_target\<close>: a resolved secret is the one it contains, and
  a put without overwriting adds the secret or changes nothing, whatever it answers. The memory
  backend, with any faults planned, is such a target.
\<close>

section \<open>Correctness of operations\<close>

fun ended :: "('a \<Rightarrow> 's \<Rightarrow> bool) \<Rightarrow> ('e \<Rightarrow> 's \<Rightarrow> bool) \<Rightarrow> ('e + 'a) \<times> 's \<Rightarrow> bool" where
  "ended Q R (Inl e, s) = R e s"
| "ended Q R (Inr x, s) = Q x s"

definition triple ::
    "('s \<Rightarrow> bool) \<Rightarrow> ('s, 'e, 'a) op \<Rightarrow> ('a \<Rightarrow> 's \<Rightarrow> bool) \<Rightarrow> ('e \<Rightarrow> 's \<Rightarrow> bool) \<Rightarrow> bool" where
  "triple P p Q R \<longleftrightarrow> (\<forall>s. P s \<longrightarrow> ended Q R (p s))"

lemma tripleI: "(\<And>s. P s \<Longrightarrow> ended Q R (p s)) \<Longrightarrow> triple P p Q R"
  by (simp add: triple_def)

lemma tripleD: "triple P p Q R \<Longrightarrow> P s \<Longrightarrow> ended Q R (p s)"
  by (simp add: triple_def)

lemma ended_weaken: "ended Q R y \<Longrightarrow> (\<And>x s. Q x s \<Longrightarrow> Q' x s) \<Longrightarrow> (\<And>e s. R e s \<Longrightarrow> R' e s) \<Longrightarrow> ended Q' R' y"
  by (cases "(Q, R, y)" rule: ended.cases) simp_all

lemma ended_match:
  assumes "ended M N (p s)" and "\<And>x s'. M x s' \<Longrightarrow> ended Q R (f x s')" and "\<And>e s'. N e s' \<Longrightarrow> ended Q R (g e s')"
  shows "ended Q R (op_match p f g s)"
proof -
  obtain r s' where ps: "p s = (r, s')" by (cases "p s")
  show ?thesis
    using assms by (cases r) (simp_all add: ps op_match_def)
qed

lemma triple_ok: "(\<And>s. P s \<Longrightarrow> Q x s) \<Longrightarrow> triple P (op_ok x) Q R"
  by (simp add: triple_def op_ok_def)

lemma triple_err: "(\<And>s. P s \<Longrightarrow> R e s) \<Longrightarrow> triple P (op_err e) Q R"
  by (simp add: triple_def op_err_def)

lemma triple_then:
  assumes p: "triple P p M R" and f: "\<And>x. triple (M x) (f x) Q R"
  shows "triple P (op_then p f) Q R"
  unfolding op_then_def
proof (rule tripleI)
  fix s
  assume "P s"
  with p have "ended M R (p s)" by (rule tripleD)
  then show "ended Q R (op_match p f op_err s)"
    by (rule ended_match) (auto simp: op_err_def intro: tripleD [OF f])
qed

lemma triple_weaken:
  assumes "triple P p Q R" and "\<And>s. P' s \<Longrightarrow> P s" and "\<And>x s. Q x s \<Longrightarrow> Q' x s" and "\<And>e s. R e s \<Longrightarrow> R' e s"
  shows "triple P' p Q' R'"
  by (rule tripleI, rule ended_weaken [OF tripleD [OF assms(1) assms(2)]]) (simp_all add: assms)

lemma triple_never: "(\<And>s. \<not> P s) \<Longrightarrow> triple P p Q R"
  by (simp add: triple_def)

lemma triple_given: "(\<And>s. P s \<Longrightarrow> triple (\<lambda>t. t = s) p Q R) \<Longrightarrow> triple P p Q R"
  by (auto simp: triple_def)

section \<open>What holds at every point\<close>

text \<open>
  A migration begins with the plain-text secrets \<open>src\<close> and the target's secrets \<open>had\<close>. At every point the
  target keeps its secrets and gains only plain-text ones; the plain-text file is intact, or it is gone
  and all its secrets are in the target; a configuration that says that only the clean-up is missing
  says so truly. \<open>content\<close> is what a target contains.
\<close>

type_synonym 't contents = "'t \<Rightarrow> secret_locator \<Rightarrow> string option"

definition arrived :: "'t contents \<Rightarrow> (secret_locator \<times> string) list \<Rightarrow> 't migration_world \<Rightarrow> bool" where
  "arrived content src w \<longleftrightarrow> (\<forall>l v. map_of src l = Some v \<longrightarrow> content (mw_target w) l = Some v)"

definition phase_of :: "app_config \<Rightarrow> migration_phase option" where
  "phase_of c = map_option mg_phase (ac_credential_migration c)"

definition config_of :: "'t migration_world \<Rightarrow> app_config" where
  "config_of w = sn_config (cs_state (mw_store w))"

definition stored_in :: "'v migration_env \<Rightarrow> 't migration_world \<Rightarrow> bool" where
  "stored_in E w \<longleftrightarrow>
     in_sync (me_libs E) (me_toml E) (mw_store w) (mw_file w) \<and> config_typed (config_of w) \<and>
     cs_path (mw_store w) = path_join (pt_config_root (me_paths E)) CONFIG_FILE \<and>
     cs_capabilities (mw_store w) = me_capabilities E"

definition safe ::
    "'t contents \<Rightarrow> 'v migration_env \<Rightarrow> (secret_locator \<times> string) list \<Rightarrow> (secret_locator \<Rightarrow> string option) \<Rightarrow>
     't migration_world \<Rightarrow> bool" where
  "safe content E src had w \<longleftrightarrow>
     stored_in E w \<and>
     (\<forall>l v. had l = Some v \<longrightarrow> content (mw_target w) l = Some v) \<and>
     (\<forall>l v. content (mw_target w) l = Some v \<longrightarrow> had l = Some v \<or> map_of src l = Some v) \<and>
     (mw_source w = Some src \<or> mw_source w = None \<and> arrived content src w) \<and>
     (phase_of (config_of w) = Some PhaseCleanupPending \<longrightarrow> arrived content src w)"

text \<open>The configuration file can be read, its format reads back what it wrote, locators are valid.\<close>

definition env_ok :: "'v migration_env \<Rightarrow> (secret_locator \<times> string) list \<Rightarrow> bool" where
  "env_ok E src \<longleftrightarrow>
     (\<forall>log. ff_read (me_file_faults E log) = None) \<and> (\<forall>d. toml_reads_back (me_toml E) d) \<and>
     (\<forall>l\<in>fst ` set src. locator_typed l)"

text \<open>The starts share the configuration file's place and format, and the capabilities.\<close>

definition same_place :: "'v migration_env \<Rightarrow> 'v migration_env \<Rightarrow> bool" where
  "same_place E E' \<longleftrightarrow> me_libs E' = me_libs E \<and> me_toml E' = me_toml E \<and> me_paths E' = me_paths E \<and>
     me_capabilities E' = me_capabilities E"

text \<open>Opening the service again on a file it was in step with.\<close>

lemma in_sync_file:
  assumes "in_sync L T s disk"
  shows "\<exists>content. disk = Some content"
proof (cases disk)
  case None
  let ?f = "\<lparr>ff_read = None, ff_open = None, ff_write = None, ff_commit = None\<rparr>"
  have "read_config L T ?f (cs_capabilities s) (cs_path s) disk = Ok (sn_config (cs_state s))"
    using assms by (simp add: in_sync_def)
  then show ?thesis by (simp add: None read_config_def read_to_string_def file_outcome_def)
qed simp

lemma config_store_open_file:
  "disk = Some content \<Longrightarrow> config_store_open L T df f paths caps disk = (r, disk') \<Longrightarrow> disk' = disk"
  by (auto simp: config_store_open_def Let_def split: sum.splits prod.splits)

lemma reopened:
  assumes reopen: "config_store_open L T df f paths caps disk = (Inr s', disk')" and sync: "in_sync L T s disk"
    and disk: "disk = Some content" and path: "cs_path s = path_join (pt_config_root paths) CONFIG_FILE"
    and caps: "cs_capabilities s = caps"
  shows "disk' = disk" and "cs_path s' = cs_path s" and "cs_capabilities s' = caps"
    and "sn_config (cs_state s') = sn_config (cs_state s)"
proof -
  show "disk' = disk" using disk reopen by (rule config_store_open_file)
  show path': "cs_path s' = cs_path s" and caps': "cs_capabilities s' = caps"
    using reopen path by (auto simp: config_store_open_def Let_def map_ok_eq_Ok split: sum.splits option.splits prod.splits)
  have read: "read_config L T f caps (cs_path s') disk = Ok (sn_config (cs_state s'))"
    using config_store_open_Ok(3) [OF reopen] disk by simp
  then have "ff_read f = None" by (simp add: read_config_Ok disk)
  with sync read show "sn_config (cs_state s') = sn_config (cs_state s)"
    by (simp add: in_sync_def caps path')
qed

section \<open>The target\<close>

locale secret_target =
  fixes ops :: "'t target_ops"
    and content :: "'t contents"
  assumes resolve_reads: "to_resolve ops l t = (q, t') \<Longrightarrow>
      content t' = content t \<and> (case q of Some (Inr found) \<Rightarrow> content t l = Some (rs_value found) | _ \<Rightarrow> True)"
    and put_adds: "to_put ops l v False t = (r, t') \<Longrightarrow>
      content t' = content t \<or> content t l = None \<and> content t' = (content t)(l \<mapsto> v)"
begin

lemma safe_cong:
  assumes "content (mw_target w') = content (mw_target w)" and "mw_store w' = mw_store w"
    and "mw_file w' = mw_file w" and "mw_source w' = mw_source w"
  shows "safe content E src had w' = safe content E src had w"
    and "arrived content src w' = arrived content src w"
  using assms by (simp_all add: safe_def stored_in_def config_of_def arrived_def)

text \<open>A call: nothing happens when the process is killed.\<close>

lemma triple_called:
  assumes "\<And>log. triple P (f log) Q R" and "\<And>w log. P w \<Longrightarrow> P (w\<lparr>mw_log := log\<rparr>)"
    and "\<And>w. P w \<Longrightarrow> R None w"
  shows "triple P (called E call f) Q R"
proof (rule tripleI)
  fix w
  assume "P w"
  let ?log = "mw_log w @ [call]"
  have "P (w\<lparr>mw_log := ?log\<rparr>)" using assms(2) \<open>P w\<close> .
  then show "ended Q R (called E call f w)"
    using tripleD [OF assms(1) [of ?log]] assms(3) by (simp add: called_def Let_def)
qed

text \<open>\<open>state s0\<close>: the world is \<open>s0\<close> but for the log and the target, whose contents are the same.\<close>

definition same_as :: "'t migration_world \<Rightarrow> 't migration_world \<Rightarrow> bool" where
  "same_as w0 w \<longleftrightarrow> content (mw_target w) = content (mw_target w0) \<and> mw_store w = mw_store w0 \<and>
     mw_file w = mw_file w0 \<and> mw_source w = mw_source w0"

lemma same_as_refl: "same_as w w"
  by (simp add: same_as_def)

lemma same_as_log [simp]: "same_as w0 (w\<lparr>mw_log := log\<rparr>) = same_as w0 w"
  by (simp add: same_as_def)

lemma same_as_safe: "same_as w0 w \<Longrightarrow> safe content E src had w = safe content E src had w0"
  by (rule safe_cong) (simp_all add: same_as_def)

lemma same_as_arrived: "same_as w0 w \<Longrightarrow> arrived content src w = arrived content src w0"
  by (rule safe_cong(2)) (simp_all add: same_as_def)

abbreviation "stays w0 \<equiv> (\<lambda>e w. same_as w0 w \<and> e \<noteq> Some MigrationReady)"

lemma pending_not_ready [simp]: "pending_class c \<noteq> MigrationReady"
  by (cases c) simp_all

lemma reads_exists:
  "triple (same_as w0) (source_exists E) (\<lambda>b w. same_as w0 w \<and> b = (mw_source w0 \<noteq> None)) (stays w0)"
  unfolding source_exists_def
  by (rule triple_called) (auto simp: triple_def same_as_def)

lemma reads_locators:
  "triple (same_as w0) (source_locators E)
     (\<lambda>ls w. same_as w0 w \<and> ls = map fst (case mw_source w0 of Some kvs \<Rightarrow> kvs | None \<Rightarrow> [])) (stays w0)"
  unfolding source_locators_def
  by (rule triple_called) (auto simp: triple_def same_as_def split: option.splits)

lemma reads_source:
  "triple (same_as w0) (source_resolve E i l)
     (\<lambda>v w. same_as w0 w \<and> Option.bind (mw_source w0) (\<lambda>kvs. map_of kvs l) = Some v) (stays w0)"
  unfolding source_resolve_def
  by (rule triple_called) (auto simp: triple_def same_as_def split: option.splits secret_error.splits)

lemma reads_target:
  "triple (same_as w0) (target_resolve E ops l)
     (\<lambda>q w. same_as w0 w \<and> (case q of Inr found \<Rightarrow> content (mw_target w0) l = Some (rs_value found) | _ \<Rightarrow> True)) (stays w0)"
  unfolding target_resolve_def
  by (rule triple_called)
    (auto simp: triple_def same_as_def split: prod.splits option.splits sum.splits dest!: resolve_reads)

lemma reads_owned: "triple (same_as w0) (ensure_not_owned E backends except) (\<lambda>_. same_as w0) (stays w0)"
proof -
  have "triple (same_as w0) (configured_local_file_owns_path E backends path except) (\<lambda>_. same_as w0) (stays w0)" for path
    unfolding configured_local_file_owns_path_def Let_def
    by (rule triple_called) (auto simp: triple_def)
  then show ?thesis
    unfolding ensure_not_owned_def
    by (rule triple_then) (auto simp: give_up_def intro: triple_ok triple_err)
qed

text \<open>An update: afterwards the configuration is the old or the new one.\<close>

lemma update_either:
  assumes step: "config_store_update (me_libs E) (me_toml E) f expected change (mw_store w, mw_file w) = (r, s, file)"
    and stored: "stored_in E w" and ok: "env_ok E src" "ff_read f = None" and typed: "change_typed change"
  shows "in_sync (me_libs E) (me_toml E) s file" and "config_typed (sn_config (cs_state s))"
    and "sn_config (cs_state s) = config_of w \<or> apply_change change (config_of w) = Ok (sn_config (cs_state s))"
    and "cs_path s = cs_path (mw_store w)" and "cs_capabilities s = cs_capabilities (mw_store w)"
proof -
  show "cs_path s = cs_path (mw_store w)" and "cs_capabilities s = cs_capabilities (mw_store w)"
    using step by (cases rule: config_store_update_cases; simp add: adopt_observed_def split: sum.split)+
  have sync: "in_sync (me_libs E) (me_toml E) (mw_store w) (mw_file w)" and old: "config_typed (config_of w)"
    using stored by (simp_all add: stored_in_def)
  have reads: "toml_reads_back (me_toml E) d" for d using ok(1) by (simp add: env_ok_def)
  show "in_sync (me_libs E) (me_toml E) s file"
    using old reads by (intro update_keeps_sync [OF step sync disjI2 [OF ok(2)] _ typed]) (simp_all add: config_of_def)
  have "sn_config (cs_state s) = config_of w \<or> apply_change change (config_of w) = Ok (sn_config (cs_state s))"
    using step
  proof (cases rule: config_store_update_cases)
    case (rejected e)
    then show ?thesis by (simp add: config_of_def)
  next
    case (written "next")
    then show ?thesis by (simp add: config_of_def prepare_update_Ok)
  next
    case (failed "next" e)
    let ?read = "read_config (me_libs E) (me_toml E) f (cs_capabilities (mw_store w)) (cs_path (mw_store w)) file"
    from failed(1) have change: "apply_change change (config_of w) = Ok (sn_config next)"
      and valid: "config_ok (cs_capabilities (mw_store w)) (sn_config next)"
      by (auto simp: prepare_update_Ok config_of_def)
    have new_typed: "config_typed (sn_config next)" using change old typed by (rule apply_change_typed)
    have "?read = Ok (config_of w) \<or> ?read = Ok (sn_config next)"
      using write_config_Err [OF failed(2)]
    proof
      assume "file = mw_file w"
      with sync ok(2) show ?thesis by (simp add: in_sync_def config_of_def)
    next
      assume "\<exists>text. toml_to_string (me_toml E) (config_dto_from (sn_config next)) = Ok text \<and> file = Some text"
      with new_typed valid reads ok(2) show ?thesis by (auto intro: read_back_written)
    qed
    with failed(4) change show ?thesis by auto
  qed
  then show "sn_config (cs_state s) = config_of w \<or> apply_change change (config_of w) = Ok (sn_config (cs_state s))"
    "config_typed (sn_config (cs_state s))"
    using apply_change_typed [OF _ old typed] old by auto
qed

lemma update_safe:
  assumes ok: "env_ok E src" and typed: "change_typed change"
    and phase: "\<And>w c. P w \<Longrightarrow> apply_change change (config_of w) = Ok c \<Longrightarrow>
      phase_of c = Some PhaseCleanupPending \<Longrightarrow> arrived content src w"
    and safe: "\<And>w. P w \<Longrightarrow> safe content E src had w"
    and log: "\<And>w log. P w \<Longrightarrow> P (w\<lparr>mw_log := log\<rparr>)"
  shows "triple P (update_config E snapshot change)
     (\<lambda>snap w'. safe content E src had w' \<and> snap = cs_state (mw_store w') \<and>
        (\<exists>w. P w \<and> apply_change change (config_of w) = Ok (config_of w') \<and> content (mw_target w') = content (mw_target w) \<and>
           mw_source w' = mw_source w))
     (\<lambda>e w. safe content E src had w \<and> e \<noteq> Some MigrationReady)"
  unfolding update_config_def
proof (rule triple_called)
  fix log
  let ?faults = "me_file_faults E log"
  show "triple P (\<lambda>w. case config_store_update (me_libs E) (me_toml E) ?faults (sn_revision snapshot) change
            (mw_store w, mw_file w) of
       (r, s, disk) \<Rightarrow> (map_err (\<lambda>_. Some (pending_class ClassFailed)) r, w\<lparr>mw_store := s, mw_file := disk\<rparr>))
     (\<lambda>snap w'. safe content E src had w' \<and> snap = cs_state (mw_store w') \<and>
        (\<exists>w. P w \<and> apply_change change (config_of w) = Ok (config_of w') \<and> content (mw_target w') = content (mw_target w) \<and>
           mw_source w' = mw_source w))
     (\<lambda>e w. safe content E src had w \<and> e \<noteq> Some MigrationReady)"
  proof (rule tripleI)
    fix w
    assume "P w"
    obtain r s disk where step: "config_store_update (me_libs E) (me_toml E) ?faults (sn_revision snapshot) change
        (mw_store w, mw_file w) = (r, s, disk)" by (cases "config_store_update (me_libs E) (me_toml E) ?faults
          (sn_revision snapshot) change (mw_store w, mw_file w)")
    let ?w = "w\<lparr>mw_store := s, mw_file := disk\<rparr>"
    have safe_w: "safe content E src had w" using safe \<open>P w\<close> .
    have fault: "ff_read ?faults = None" using ok by (simp add: env_ok_def)
    have "stored_in E w" using safe_w by (simp add: safe_def)
    note either = update_either [OF step this ok fault typed]
    have "phase_of (config_of ?w) = Some PhaseCleanupPending \<longrightarrow> arrived content src w"
      using either(3) phase [OF \<open>P w\<close>] safe_w by (auto simp: config_of_def safe_def)
    then have "safe content E src had ?w"
      using safe_w either by (simp add: safe_def stored_in_def config_of_def arrived_def)
    moreover have "apply_change change (config_of w) = Ok (config_of ?w) \<and> snap = cs_state s" if "r = Ok snap" for snap
      using update_Ok [OF step [unfolded that]] by (simp add: config_of_def)
    ultimately show "ended
       (\<lambda>snap w'. safe content E src had w' \<and> snap = cs_state (mw_store w') \<and>
          (\<exists>w. P w \<and> apply_change change (config_of w) = Ok (config_of w') \<and> content (mw_target w') = content (mw_target w) \<and>
             mw_source w' = mw_source w))
       (\<lambda>e w. safe content E src had w \<and> e \<noteq> Some MigrationReady)
       (case config_store_update (me_libs E) (me_toml E) ?faults (sn_revision snapshot) change (mw_store w, mw_file w) of
         (r, s, disk) \<Rightarrow> (map_err (\<lambda>_. Some (pending_class ClassFailed)) r, w\<lparr>mw_store := s, mw_file := disk\<rparr>))"
      using \<open>P w\<close> by (cases r) (auto simp: step)
  qed
qed (simp_all add: log safe)

text \<open>Assertions that only speak of secrets and configuration, and the operations that keep them.\<close>

definition stable :: "('t migration_world \<Rightarrow> bool) \<Rightarrow> bool" where
  "stable P \<longleftrightarrow> (\<forall>w w'. P w \<longrightarrow> same_as w w' \<longrightarrow> P w')"

lemma stable_reads:
  assumes p: "\<And>w0. triple (same_as w0) p (\<lambda>x w. same_as w0 w \<and> A x w0) (stays w0)"
    and P: "stable P" and A: "\<And>x w0 w. same_as w0 w \<Longrightarrow> A x w0 \<Longrightarrow> A x w"
    and safe: "\<And>w. P w \<Longrightarrow> safe content E src had w"
  shows "triple P p (\<lambda>x w. P w \<and> A x w) (\<lambda>e w. safe content E src had w \<and> e \<noteq> Some MigrationReady)"
proof (rule tripleI)
  fix w0
  assume "P w0"
  have "ended (\<lambda>x w. same_as w0 w \<and> A x w0) (stays w0) (p w0)"
    by (rule tripleD [OF p same_as_refl])
  then show "ended (\<lambda>x w. P w \<and> A x w) (\<lambda>e w. safe content E src had w \<and> e \<noteq> Some MigrationReady) (p w0)"
    using P \<open>P w0\<close> A safe same_as_safe by (elim ended_weaken) (auto simp: stable_def)
qed

abbreviation stopped ::
    "'v migration_env \<Rightarrow> (secret_locator \<times> string) list \<Rightarrow> (secret_locator \<Rightarrow> string option) \<Rightarrow>
     credential_migration_status option \<Rightarrow> 't migration_world \<Rightarrow> bool" where
  "stopped E src had \<equiv> (\<lambda>e w. safe content E src had w \<and> e \<noteq> Some MigrationReady)"

lemma source_stable:
  assumes "stable P" and "\<And>w. P w \<Longrightarrow> safe content E src had w"
  shows "triple P (source_resolve E i l)
     (\<lambda>v w. P w \<and> Option.bind (mw_source w) (\<lambda>kvs. map_of kvs l) = Some v) (stopped E src had)"
  using reads_source assms(1) _ assms(2) by (rule stable_reads) (simp add: same_as_def)

lemma target_stable:
  assumes "stable P" and "\<And>w. P w \<Longrightarrow> safe content E src had w"
  shows "triple P (target_resolve E ops l)
     (\<lambda>q w. P w \<and> (case q of Inr found \<Rightarrow> content (mw_target w) l = Some (rs_value found) | _ \<Rightarrow> True)) (stopped E src had)"
  using reads_target assms(1) _ assms(2) by (rule stable_reads) (simp add: same_as_def split: sum.splits)

lemma locators_stable:
  assumes "stable P" and "\<And>w. P w \<Longrightarrow> safe content E src had w"
  shows "triple P (source_locators E)
     (\<lambda>ls w. P w \<and> ls = map fst (case mw_source w of Some kvs \<Rightarrow> kvs | None \<Rightarrow> [])) (stopped E src had)"
  using reads_locators assms(1) _ assms(2) by (rule stable_reads) (simp add: same_as_def)

lemma owned_stable:
  assumes "stable P" and "\<And>w. P w \<Longrightarrow> safe content E src had w"
  shows "triple P (ensure_not_owned E backends except) (\<lambda>_. P) (stopped E src had)"
proof -
  have "triple (same_as w0) (ensure_not_owned E backends except) (\<lambda>x w. same_as w0 w \<and> True) (stays w0)" for w0
    using reads_owned by simp
  then have "triple P (ensure_not_owned E backends except) (\<lambda>x w. P w \<and> True) (stopped E src had)"
    using assms(1) _ assms(2) by (rule stable_reads) simp
  then show ?thesis by simp
qed

section \<open>Copying\<close>

definition copying ::
    "'v migration_env \<Rightarrow> (secret_locator \<times> string) list \<Rightarrow> (secret_locator \<Rightarrow> string option) \<Rightarrow> secret_locator set \<Rightarrow>
     't migration_world \<Rightarrow> bool" where
  "copying E src had D w \<longleftrightarrow>
     safe content E src had w \<and> mw_source w = Some src \<and>
     (\<forall>l\<in>D. \<forall>v. map_of src l = Some v \<longrightarrow> content (mw_target w) l = Some v)"

lemma copying_safe: "copying E src had D w \<Longrightarrow> safe content E src had w"
  by (simp add: copying_def)

lemma stable_copying: "stable (copying E src had D)"
  unfolding stable_def
proof (intro allI impI)
  fix w w'
  assume "copying E src had D w" and same: "same_as w w'"
  then show "copying E src had D w'"
    using same_as_safe [OF same, of E src had] by (simp add: copying_def) (simp add: same_as_def)
qed

lemma stable_and: "stable P \<Longrightarrow> stable (\<lambda>w. P w \<and> A)"
  unfolding stable_def by blast

lemma stable_safe: "stable (safe content E src had)"
  unfolding stable_def using same_as_safe by blast

lemma put_copying:
  assumes v: "map_of src l = Some v"
  shows "triple (copying E src had D) (target_put E ops l v) (\<lambda>_. copying E src had D) (stopped E src had)"
  unfolding target_put_def
proof (rule triple_called)
  fix log
  have added: "copying E src had D (w\<lparr>mw_target := t\<rparr>)"
    if "copying E src had D w" and "to_put ops l v False (mw_target w) = (r, t)" for w r t
  proof -
    from put_adds [OF that(2)] show ?thesis
    proof
      assume "content t = content (mw_target w)"
      then show ?thesis
        using that(1) by (simp add: copying_def safe_def stored_in_def config_of_def arrived_def)
    next
      assume new: "content (mw_target w) l = None \<and> content t = (content (mw_target w))(l \<mapsto> v)"
      have "had l = None" using that(1) new by (cases "had l") (auto simp: copying_def safe_def)
      then show ?thesis
        using that(1) new v by (auto simp: copying_def safe_def stored_in_def config_of_def arrived_def)
    qed
  qed
  show "triple (copying E src had D) (\<lambda>w. case to_put ops l v False (mw_target w) of
       (None, t) \<Rightarrow> (Err None, w\<lparr>mw_target := t\<rparr>)
     | (Some r, t) \<Rightarrow> (Ok r, w\<lparr>mw_target := t\<rparr>)) (\<lambda>_. copying E src had D) (stopped E src had)"
    by (rule tripleI) (auto split: prod.split option.split dest: added copying_safe)
qed (auto simp: copying_def safe_def stored_in_def config_of_def arrived_def)

lemma copying_log: "copying E src had D w \<Longrightarrow> copying E src had D (w\<lparr>mw_log := log\<rparr>)"
  by (simp add: copying_def safe_def stored_in_def config_of_def arrived_def)

lemma record_copying:
  assumes ok: "env_ok E src" and typed: "locator_typed l"
  shows "triple (copying E src had D) (record_state E l state st) (\<lambda>_. copying E src had D) (stopped E src had)"
proof -
  obtain snapshot receipts where st: "st = (snapshot, receipts)" by (cases st)
  have "triple (copying E src had D) (update_config E snapshot (RecordCredentialCopy l state))
     (\<lambda>snap w'. safe content E src had w' \<and> snap = cs_state (mw_store w') \<and>
        (\<exists>w. copying E src had D w \<and> apply_change (RecordCredentialCopy l state) (config_of w) = Ok (config_of w') \<and>
           content (mw_target w') = content (mw_target w) \<and> mw_source w' = mw_source w)) (stopped E src had)"
    by (rule update_safe [OF ok])
      (auto simp: typed copying_safe copying_log record_copy_Ok phase_of_def)
  then have "triple (copying E src had D) (update_config E snapshot (RecordCredentialCopy l state))
     (\<lambda>_. copying E src had D) (stopped E src had)"
    by (rule triple_weaken) (auto simp: copying_def)
  then show ?thesis
    unfolding record_state_def st prod.case by (rule triple_then) (simp add: triple_ok)
qed

lemma give_up_copying:
  "triple (copying E src had D) (give_up reason) Q (stopped E src had)"
  "triple (copying E src had D) (give_up_class c) Q (stopped E src had)"
  by (auto simp: give_up_def give_up_class_def intro!: triple_err copying_safe)

lemma write_copying:
  assumes ok: "env_ok E src" and v: "map_of src l = Some v"
  shows "triple (copying E src had D) (write_secret E ops l v receipt st) (\<lambda>_. copying E src had D) (stopped E src had)"
proof -
  have typed: "locator_typed l" using ok map_of_SomeD [OF v] by (force simp: env_ok_def)
  have put: "triple (copying E src had D)
      (op_then (target_put E ops l v) (\<lambda>put. case put of
          Inl (SecretAlreadyExists _) \<Rightarrow> give_up MigrationCollision
        | Inl e \<Rightarrow> give_up_class (classify_secret_error e)
        | Inr _ \<Rightarrow> op_ok st1)) (\<lambda>_. copying E src had D) (stopped E src had)" for st1
    by (rule triple_then [OF put_copying [OF v]])
      (auto intro: give_up_copying triple_ok split: sum.split secret_error.split)
  have first: "triple (copying E src had D) (if receipt = None then record_state E l Copying st else op_ok st)
      (\<lambda>_. copying E src had D) (stopped E src had)"
    by (simp add: record_copying [OF ok typed] triple_ok)
  show ?thesis
  proof (cases "receipt = Some Copied")
    case True
    then show ?thesis unfolding write_secret_def by (simp add: give_up_copying)
  next
    case False
    show ?thesis unfolding write_secret_def if_not_P [OF False] by (rule triple_then [OF first put])
  qed
qed

lemma copying_mono: "D' \<subseteq> D \<Longrightarrow> copying E src had D w \<Longrightarrow> copying E src had D' w"
  by (auto simp: copying_def)

lemma copy_one:
  assumes ok: "env_ok E src"
  shows "triple (copying E src had D) (copy_locator E ops i l st) (\<lambda>_. copying E src had (insert l D)) (stopped E src had)"
proof -
  have after: "triple (copying E src had D)
      (op_then (target_resolve E ops l) (\<lambda>migrated.
         case migrated of
           Inl e \<Rightarrow> give_up_class (classify_secret_error e)
         | Inr found \<Rightarrow>
             if rs_value found \<noteq> v then give_up_class ClassFailed
             else if receipt \<noteq> Some Copied then record_state E l Copied st1
             else op_ok st1)) (\<lambda>_. copying E src had (insert l D)) (stopped E src had)"
    if v: "map_of src l = Some v" for v receipt st1
  proof (rule triple_then [OF target_stable [OF stable_copying copying_safe]], assumption)
    fix q :: "secret_error + resolved_secret"
    let ?A = "\<lambda>w. copying E src had D w \<and>
      (case q of Inr found \<Rightarrow> content (mw_target w) l = Some (rs_value found) | _ \<Rightarrow> True)"
    have typed: "locator_typed l" using ok map_of_SomeD [OF v] by (force simp: env_ok_def)
    show "triple ?A
         (case q of
           Inl e \<Rightarrow> give_up_class (classify_secret_error e)
         | Inr found \<Rightarrow>
             if rs_value found \<noteq> v then give_up_class ClassFailed
             else if receipt \<noteq> Some Copied then record_state E l Copied st1
             else op_ok st1) (\<lambda>_. copying E src had (insert l D)) (stopped E src had)"
    proof (cases q)
      case (Inl e)
      then show ?thesis by (simp add: give_up_copying)
    next
      case (Inr found)
      have stop: "triple ?A (give_up_class ClassFailed) Q (stopped E src had)" for Q
        using give_up_copying(2) by (rule triple_weaken) auto
      have more: "copying E src had (insert l D) w" if "rs_value found = v" "?A w" for w
        using that v Inr by (auto simp: copying_def)
      have rec: "triple ?A (record_state E l Copied st1) (\<lambda>_. copying E src had (insert l D)) (stopped E src had)"
        if "rs_value found = v"
        using record_copying [OF ok typed] by (rule triple_weaken) (use more [OF that] in auto)
      have ret: "triple ?A (op_ok st1) (\<lambda>_. copying E src had (insert l D)) (stopped E src had)" if "rs_value found = v"
        using more [OF that] by (rule triple_ok)
      show ?thesis using stop rec ret by (cases "rs_value found = v") (simp_all add: Inr)
    qed
  qed
  show ?thesis
    unfolding copy_locator_def
  proof (rule triple_then [OF source_stable [OF stable_copying copying_safe]], assumption)
    fix v
    show "triple (\<lambda>w. copying E src had D w \<and> Option.bind (mw_source w) (\<lambda>kvs. map_of kvs l) = Some v)
      (let receipt = map_of (snd st) l in
       op_then (target_resolve E ops l) (\<lambda>existing.
       op_then
         (case existing of
            Inl (SecretNotFound _) \<Rightarrow> write_secret E ops l v receipt st
          | Inl e \<Rightarrow> give_up_class (classify_secret_error e)
          | Inr found \<Rightarrow>
              if receipt = None \<or> rs_value found \<noteq> v then give_up MigrationCollision else op_ok st) (\<lambda>st1.
       op_then (target_resolve E ops l) (\<lambda>migrated.
       case migrated of
         Inl e \<Rightarrow> give_up_class (classify_secret_error e)
       | Inr found \<Rightarrow>
           if rs_value found \<noteq> v then give_up_class ClassFailed
           else if receipt \<noteq> Some Copied then record_state E l Copied st1
           else op_ok st1)))) (\<lambda>_. copying E src had (insert l D)) (stopped E src had)"
      (is "triple ?P ?p ?Q ?R")
    proof (cases "map_of src l = Some v")
      case False
      then have "\<not> ?P w" for w by (auto simp: copying_def)
      then show ?thesis by (auto simp: triple_def)
    next
      case v: True
      let ?receipt = "map_of (snd st) l"
      have existing: "triple (copying E src had D)
          (case q of
            Inl (SecretNotFound _) \<Rightarrow> write_secret E ops l v ?receipt st
          | Inl e \<Rightarrow> give_up_class (classify_secret_error e)
          | Inr found \<Rightarrow>
              if ?receipt = None \<or> rs_value found \<noteq> v then give_up MigrationCollision else op_ok st)
          (\<lambda>_. copying E src had D) (stopped E src had)" for q
        by (auto simp: write_copying [OF ok v] give_up_copying triple_ok split: sum.split secret_error.split)
      have start: "triple ?P (target_resolve E ops l) (\<lambda>_. copying E src had D) (stopped E src had)"
        using target_stable [OF stable_copying copying_safe] by (rule triple_weaken) auto
      show ?thesis
        unfolding Let_def by (rule triple_then [OF start], rule triple_then [OF existing], rule after [OF v])
    qed
  qed
qed

lemma copy_all_copies:
  assumes ok: "env_ok E src"
  shows "triple (copying E src had D) (copy_all E ops i ls st) (\<lambda>_. copying E src had (D \<union> set ls)) (stopped E src had)"
proof (induction ls arbitrary: D st)
  case Nil
  then show ?case by (simp add: triple_ok)
next
  case (Cons l ls)
  show ?case
    unfolding copy_all.simps
    by (rule triple_then [OF copy_one [OF ok]], rule triple_weaken [OF Cons.IH]) auto
qed

section \<open>The whole migration\<close>

text \<open>What \<open>MigrationReady\<close> means; an early return with it is the configuration that names no such file.\<close>

abbreviation reported ::
    "'v migration_env \<Rightarrow> (secret_locator \<times> string) list \<Rightarrow> (secret_locator \<Rightarrow> string option) \<Rightarrow>
     credential_migration_status \<Rightarrow> 't migration_world \<Rightarrow> bool" where
  "reported E src had \<equiv> (\<lambda>s w. safe content E src had w \<and>
     (s = MigrationReady \<longrightarrow> mw_source w = None \<and> ac_credential_migration (config_of w) = None))"

abbreviation returned ::
    "'v migration_env \<Rightarrow> (secret_locator \<times> string) list \<Rightarrow> (secret_locator \<Rightarrow> string option) \<Rightarrow>
     credential_migration_status option \<Rightarrow> 't migration_world \<Rightarrow> bool" where
  "returned E src had \<equiv> (\<lambda>e w. safe content E src had w \<and>
     (e = Some MigrationReady \<longrightarrow> mw_source w = None \<and> ac_credential_migration (config_of w) = None))"

definition moved ::
    "'v migration_env \<Rightarrow> (secret_locator \<times> string) list \<Rightarrow> (secret_locator \<Rightarrow> string option) \<Rightarrow>
     't migration_world \<Rightarrow> bool" where
  "moved E src had w \<longleftrightarrow> safe content E src had w \<and> arrived content src w"

lemma moved_safe: "moved E src had w \<Longrightarrow> safe content E src had w"
  by (simp add: moved_def)

lemma stable_moved: "stable (moved E src had)"
  unfolding stable_def moved_def using same_as_safe same_as_arrived by blast

lemma moved_log: "moved E src had w \<Longrightarrow> moved E src had (w\<lparr>mw_log := log\<rparr>)"
  using stable_moved same_as_log same_as_refl unfolding stable_def by blast

lemma gone_moved: "safe content E src had w \<Longrightarrow> mw_source w = None \<Longrightarrow> moved E src had w"
  by (auto simp: moved_def safe_def)

lemma finish_reports:
  assumes ok: "env_ok E src"
  shows "triple (\<lambda>w. safe content E src had w \<and> mw_source w = None) (finish_with E snapshot)
     (reported E src had) (stopped E src had)"
proof -
  have "triple (\<lambda>w. safe content E src had w \<and> mw_source w = None) (update_config E snapshot FinishCredentialMigration)
     (\<lambda>_ w. safe content E src had w \<and> mw_source w = None \<and> ac_credential_migration (config_of w) = None)
     (stopped E src had)"
    by (rule triple_weaken [OF update_safe [OF ok,
          where P = "\<lambda>w. safe content E src had w \<and> mw_source w = None"]])
      (auto simp: finish_migration_Ok phase_of_def safe_def stored_in_def config_of_def arrived_def)
  then show ?thesis
    unfolding finish_with_def by (rule triple_then) (simp add: triple_ok)
qed

lemma purge_reports:
  assumes ok: "env_ok E src"
  shows "triple (moved E src had) (purge_and_finish E snapshot) (reported E src had) (stopped E src had)"
proof -
  have purge: "triple (moved E src had) (purge_source E)
     (\<lambda>purged w. moved E src had w \<and> (purged \<longrightarrow> mw_source w = None)) (stopped E src had)"
    unfolding purge_source_def
    by (rule triple_called)
      (auto simp: triple_def moved_def safe_def stored_in_def config_of_def arrived_def split: option.splits)
  show ?thesis
    unfolding purge_and_finish_def
  proof (rule triple_then [OF purge])
    fix purged
    show "triple (\<lambda>w. moved E src had w \<and> (purged \<longrightarrow> mw_source w = None))
      (if \<not> purged then give_up MigrationCleanupRequired else finish_with E snapshot)
      (reported E src had) (stopped E src had)"
      by (cases purged)
        (auto simp: give_up_def moved_def intro!: triple_err intro: triple_weaken [OF finish_reports [OF ok]])
  qed
qed

lemma clean_up_reports:
  assumes ok: "env_ok E src"
  shows "triple (\<lambda>w. moved E src had w \<and> (\<not> exists \<longrightarrow> mw_source w = None)) (clean_up E exists snapshot)
     (reported E src had) (stopped E src had)"
  unfolding clean_up_def
proof (rule triple_then [OF owned_stable])
  show "stable (\<lambda>w. moved E src had w \<and> (\<not> exists \<longrightarrow> mw_source w = None))"
    using stable_moved unfolding stable_def by (metis same_as_def)
  show "triple (\<lambda>w. moved E src had w \<and> (\<not> exists \<longrightarrow> mw_source w = None))
      (if exists then purge_and_finish E snapshot else finish_with E snapshot) (reported E src had) (stopped E src had)"
    by (cases exists)
      (auto simp: moved_def intro: triple_weaken [OF purge_reports [OF ok]] triple_weaken [OF finish_reports [OF ok]])
qed (simp add: moved_def)

text \<open>The checkpoint: only what has arrived is declared copied.\<close>

lemma checkpoint_moved:
  assumes ok: "env_ok E src"
  shows "triple (moved E src had) (update_config E snapshot CheckpointCredentialMigration)
     (\<lambda>_. moved E src had) (stopped E src had)"
  by (rule triple_weaken [OF update_safe [OF ok, where P = "moved E src had"]])
    (auto simp: moved_safe moved_log, auto simp: moved_def arrived_def)

lemma finish_empty_reports:
  assumes ok: "env_ok E src"
  shows "triple (\<lambda>w. safe content E src had w \<and> mw_source w = None) (finish_empty E m snapshot)
     (reported E src had) (stopped E src had)"
proof (cases "mg_locators m = []")
  case False
  then show ?thesis by (auto simp: finish_empty_def give_up_def intro!: triple_err)
next
  case True
  have "triple (\<lambda>w. safe content E src had w \<and> mw_source w = None)
     (update_config E snapshot CheckpointCredentialMigration)
     (\<lambda>_ w. safe content E src had w \<and> mw_source w = None) (stopped E src had)"
    by (rule triple_weaken [OF update_safe [OF ok,
          where P = "\<lambda>w. safe content E src had w \<and> mw_source w = None"]])
      (auto simp: safe_def stored_in_def config_of_def arrived_def)
  then show ?thesis
    using True by (simp add: finish_empty_def triple_then [OF _ finish_reports [OF ok]])
qed

lemma copied_arrived:
  assumes "copying E src had (set ls) w" and "set (map fst src) \<subseteq> set ls"
  shows "moved E src had w"
proof -
  have "l \<in> set ls" if "map_of src l = Some v" for l v
    using that assms(2) by (auto dest!: map_of_SomeD)
  then show ?thesis using assms(1) by (auto simp: copying_def moved_def arrived_def)
qed

lemma copy_and_finish_reports:
  assumes ok: "env_ok E src"
  shows "triple (\<lambda>w. safe content E src had w \<and> mw_source w = Some src) (copy_and_finish E ops m snapshot)
     (reported E src had) (stopped E src had)"
proof -
  have finish: "triple (copying E src had (set (mg_locators m)))
     (op_then (update_config E copied CheckpointCredentialMigration) (\<lambda>checked.
       op_then (ensure_not_owned E (ac_secret_backends (sn_config checked)) None) (\<lambda>_.
       purge_and_finish E checked)))
     (reported E src had) (stopped E src had)" if "set (map fst src) \<subseteq> set (mg_locators m)" for copied
    by (rule triple_then [OF triple_weaken [OF checkpoint_moved [OF ok] copied_arrived]],
        assumption, rule that, assumption, assumption,
        rule triple_then [OF owned_stable [OF stable_moved moved_safe]], assumption, rule purge_reports [OF ok])
  have start: "triple (\<lambda>w. safe content E src had w \<and> mw_source w = Some src) (source_locators E)
     (\<lambda>ls w. copying E src had {} w \<and> ls = map fst src) (stopped E src had)"
    by (rule triple_weaken [OF locators_stable [OF stable_copying [of E src had "{}"] copying_safe]])
      (auto simp: copying_def)
  show ?thesis
    unfolding copy_and_finish_def
  proof (rule triple_then [OF start])
    fix stored
    show "triple (\<lambda>w. copying E src had {} w \<and> stored = map fst src)
      (if list_ex (\<lambda>l. l \<notin> set (mg_locators m)) stored then give_up_class ClassFailed
       else op_then (copy_all E ops (sb_id (mg_source m)) (mg_locators m)
           (snapshot, map (\<lambda>r. (rc_locator r, rc_state r)) (mg_receipts m))) (\<lambda>(copied, _).
         op_then (update_config E copied CheckpointCredentialMigration) (\<lambda>checked.
         op_then (ensure_not_owned E (ac_secret_backends (sn_config checked)) None) (\<lambda>_.
         purge_and_finish E checked))))
      (reported E src had) (stopped E src had)"
    proof (cases "list_ex (\<lambda>l. l \<notin> set (mg_locators m)) stored")
      case True
      then show ?thesis by (auto simp: give_up_class_def intro!: triple_err copying_safe)
    next
      case False
      show ?thesis
      proof (cases "stored = map fst src")
        case other: False
        then show ?thesis by (simp add: triple_def)
      next
        case stored: True
        have all: "set (map fst src) \<subseteq> set (mg_locators m)" using False by (auto simp: stored list_ex_iff)
        have copy: "triple (\<lambda>w. copying E src had {} w \<and> stored = map fst src)
           (copy_all E ops (sb_id (mg_source m)) (mg_locators m) (snapshot, map (\<lambda>r. (rc_locator r, rc_state r)) (mg_receipts m)))
           (\<lambda>_. copying E src had (set (mg_locators m))) (stopped E src had)"
          by (rule triple_weaken [OF copy_all_copies [OF ok, where D = "{}"]]) auto
        show ?thesis
          unfolding if_not_P [OF False]
          by (rule triple_then [OF copy]) (simp only: split_beta finish [OF all])
      qed
    qed
  qed
qed

text \<open>What the migration knows once it has looked at the file and the configuration.\<close>

definition started ::
    "'v migration_env \<Rightarrow> (secret_locator \<times> string) list \<Rightarrow> (secret_locator \<Rightarrow> string option) \<Rightarrow> bool \<Rightarrow>
     config_snapshot \<Rightarrow> 't migration_world \<Rightarrow> bool" where
  "started E src had exists snapshot w \<longleftrightarrow>
     safe content E src had w \<and> snapshot = cs_state (mw_store w) \<and> exists = (mw_source w \<noteq> None)"

lemma started_safe: "started E src had exists snapshot w \<Longrightarrow> safe content E src had w"
  by (simp add: started_def)

lemma stable_started: "stable (started E src had exists snapshot)"
  unfolding stable_def started_def
proof (intro allI impI)
  fix w w'
  assume w: "safe content E src had w \<and> snapshot = cs_state (mw_store w) \<and> exists = (mw_source w \<noteq> None)"
    and same: "same_as w w'"
  then show "safe content E src had w' \<and> snapshot = cs_state (mw_store w') \<and> exists = (mw_source w' \<noteq> None)"
    using same_as_safe [OF same, of E src had] by (simp add: same_as_def)
qed

lemma started_log: "started E src had exists snapshot w \<Longrightarrow> started E src had exists snapshot (w\<lparr>mw_log := log\<rparr>)"
  using stable_started same_as_log same_as_refl unfolding stable_def by blast

lemma begun_typed:
  assumes "config_typed c" and "legacy \<in> set (ac_secret_backends c)" and "backend_typed target"
    and "\<forall>l\<in>set stored. locator_typed l"
  shows "change_typed (BeginCredentialMigration
     \<lparr>mg_source = legacy, mg_target = target, mg_phase = PhaseCopying,
      mg_locators = manifest (stored @ (if exists then bound_locators i (ac_connections c) else [])), mg_receipts = []\<rparr>)"
proof -
  have "locator_typed l" if "l \<in> set (bound_locators i (ac_connections c))" for l
    using that assms(1)
    by (fastforce simp: bound_locators_def map_filter_def config_typed_def connection_typed_def binding_typed_def
        split: credential_binding.splits if_splits)
  then show ?thesis using assms by (auto simp: manifest_def migration_typed_def config_typed_def)
qed

lemma begin_started:
  assumes ok: "env_ok E src" and target: "backend_typed target"
    and none: "ac_credential_migration (sn_config snapshot) = None"
  shows "triple (started E src had exists snapshot) (begin_copying E legacy target exists snapshot)
     (\<lambda>begun. started E src had exists begun) (returned E src had)"
proof -
  let ?P = "started E src had exists snapshot" and ?backends = "ac_secret_backends (sn_config snapshot)"
  let ?bound = "if exists then bound_locators (sb_id legacy) (ac_connections (sn_config snapshot)) else []"
  let ?change = "\<lambda>ls. BeginCredentialMigration
    \<lparr>mg_source = legacy, mg_target = target, mg_phase = PhaseCopying, mg_locators = manifest (ls @ ?bound), mg_receipts = []\<rparr>"
  have owned: "triple ?P (ensure_not_owned E ?backends e) (\<lambda>_. ?P) (returned E src had)" for e
    by (rule triple_weaken [OF owned_stable [OF stable_started started_safe]]) auto
  have first: "triple ?P (if exists then ensure_not_owned E ?backends None else op_ok ()) (\<lambda>_. ?P) (returned E src had)"
    using owned [of None] by (cases exists) (simp_all add: triple_ok)
  have ready: "triple ?P (op_err (Some (if exists then pending_class ClassFailed else MigrationReady))) Q (returned E src had)" for Q
    by (rule triple_err) (use none in \<open>auto simp: started_def config_of_def\<close>)
  have stop: "triple ?P (give_up reason) Q (returned E src had)" "triple ?P (give_up_class c) Q (returned E src had)" for reason c Q
    by (auto simp: give_up_def give_up_class_def started_def intro!: triple_err)
  have stored: "triple ?P (if exists then source_locators E else op_ok [])
     (\<lambda>ls w. ?P w \<and> (\<forall>l\<in>set ls. locator_typed l)) (returned E src had)"
  proof (cases exists)
    case True
    have "triple ?P (source_locators E)
       (\<lambda>ls w. ?P w \<and> ls = map fst (case mw_source w of Some kvs \<Rightarrow> kvs | None \<Rightarrow> [])) (stopped E src had)"
      by (rule locators_stable [OF stable_started started_safe])
    then have "triple ?P (source_locators E) (\<lambda>ls w. ?P w \<and> (\<forall>l\<in>set ls. locator_typed l)) (returned E src had)"
      by (rule triple_weaken) (use ok in \<open>force simp: started_def safe_def env_ok_def\<close>)+
    then show ?thesis using True by simp
  qed (simp add: triple_ok)
  have update: "triple (\<lambda>w. ?P w \<and> (\<forall>l\<in>set ls. locator_typed l))
     (update_config E snapshot (?change ls)) (\<lambda>begun. started E src had exists begun) (returned E src had)"
    (is "triple ?S _ _ _")
    if legacy: "legacy \<in> set ?backends" for ls
  proof (cases "change_typed (?change ls)")
    case True
    have "triple ?S (update_config E snapshot (?change ls))
       (\<lambda>snap w'. safe content E src had w' \<and> snap = cs_state (mw_store w') \<and>
          (\<exists>w. ?S w \<and> apply_change (?change ls) (config_of w) = Ok (config_of w') \<and>
             content (mw_target w') = content (mw_target w) \<and> mw_source w' = mw_source w)) (stopped E src had)"
      by (rule update_safe [OF ok True])
        (auto simp: begin_migration_Ok phase_of_def started_safe started_log)
    then show ?thesis by (rule triple_weaken) (auto simp: started_def)
  next
    case False
    have "\<not> ?S w" for w
      using begun_typed [OF _ legacy target, of ls exists "sb_id legacy"] False
      by (auto simp: started_def safe_def stored_in_def config_of_def)
    then show ?thesis by (rule triple_never)
  qed
  show ?thesis
    unfolding begin_copying_def Let_def
  proof (split if_split, intro conjI impI)
    assume "legacy \<notin> set ?backends"
    show "triple ?P (op_then (if exists then ensure_not_owned E ?backends None else op_ok ())
       (\<lambda>_. op_err (Some (if exists then pending_class ClassFailed else MigrationReady))))
       (\<lambda>begun. started E src had exists begun) (returned E src had)"
      by (rule triple_then [OF first ready])
  next
    assume "\<not> legacy \<notin> set ?backends"
    then have update: "triple (\<lambda>w. ?P w \<and> (\<forall>l\<in>set ls. locator_typed l))
       (update_config E snapshot (?change ls)) (\<lambda>begun. started E src had exists begun) (returned E src had)" for ls
      using update by blast
    show "triple ?P
       (if list_ex (\<lambda>b. sb_id b = sb_id target \<and> b \<noteq> target) ?backends then give_up MigrationTargetInUse
        else op_then (ensure_not_owned E ?backends (Some (sb_id legacy))) (\<lambda>_.
          if \<not> me_source_valid E then give_up_class ClassFailed
          else op_then (if exists then source_locators E else op_ok []) (\<lambda>stored. update_config E snapshot (?change stored))))
       (\<lambda>begun. started E src had exists begun) (returned E src had)"
      by (simp add: stop triple_then [OF owned] triple_then [OF stored update])
  qed
qed

theorem migration_keeps_secrets:
  assumes ok: "env_ok E src" and target: "backend_typed target"
  shows "triple (safe content E src had) (migrate_interim_secrets E ops legacy target)
     (reported E src had) (returned E src had)"
proof -
  have exists: "triple (safe content E src had) (source_exists E)
     (\<lambda>b w. safe content E src had w \<and> b = (mw_source w \<noteq> None)) (returned E src had)"
    by (rule triple_weaken [OF stable_reads [OF reads_exists stable_safe]]) (auto simp: same_as_def)
  have rest: "triple (started E src had exists begun)
     (case ac_credential_migration (sn_config begun) of
        None \<Rightarrow> op_err None
      | Some m \<Rightarrow>
          if mg_source m \<noteq> legacy \<or> mg_target m \<noteq> target then give_up_class ClassFailed
          else if \<not> me_source_valid E then give_up_class ClassFailed
          else if mg_phase m = PhaseCleanupPending then clean_up E exists begun
          else if \<not> exists then finish_empty E m begun
          else copy_and_finish E ops m begun) (reported E src had) (returned E src had)" for exists begun
  proof (cases "ac_credential_migration (sn_config begun)")
    case None
    then show ?thesis by (auto simp: started_def intro!: triple_err)
  next
    case (Some m)
    let ?P = "started E src had exists begun"
    have stop: "triple ?P (give_up_class c) (reported E src had) (returned E src had)" for c
      by (auto simp: give_up_class_def started_def intro!: triple_err)
    have clean: "triple ?P (clean_up E exists begun) (reported E src had) (returned E src had)"
      if "mg_phase m = PhaseCleanupPending"
      by (rule triple_weaken [OF clean_up_reports [OF ok]])
        (use Some that in \<open>auto simp: started_def moved_def safe_def phase_of_def config_of_def\<close>)
    have empty: "triple ?P (finish_empty E m begun) (reported E src had) (returned E src had)" if "\<not> exists"
      by (rule triple_weaken [OF finish_empty_reports [OF ok]]) (use that in \<open>auto simp: started_def\<close>)
    have copy: "triple ?P (copy_and_finish E ops m begun) (reported E src had) (returned E src had)" if exists
      by (rule triple_weaken [OF copy_and_finish_reports [OF ok]]) (use that in \<open>auto simp: started_def safe_def\<close>)
    show ?thesis using stop clean empty copy by (simp add: Some)
  qed
  show ?thesis
    unfolding migrate_interim_secrets_def
  proof (rule triple_then [OF exists])
    fix b
    show "triple (\<lambda>w. safe content E src had w \<and> b = (mw_source w \<noteq> None))
      (\<lambda>w. (let snapshot = config_store_snapshot (mw_store w) in
        op_then (if ac_credential_migration (sn_config snapshot) = None
               then begin_copying E legacy target b snapshot else op_ok snapshot) (\<lambda>begun.
        case ac_credential_migration (sn_config begun) of
          None \<Rightarrow> op_err None
        | Some m \<Rightarrow>
            if mg_source m \<noteq> legacy \<or> mg_target m \<noteq> target then give_up_class ClassFailed
            else if \<not> me_source_valid E then give_up_class ClassFailed
            else if mg_phase m = PhaseCleanupPending then clean_up E b begun
            else if \<not> b then finish_empty E m begun
            else copy_and_finish E ops m begun)) w) (reported E src had) (returned E src had)"
      (is "triple _ (?f b) _ _")
    proof (rule triple_given)
      fix w
      assume w: "safe content E src had w \<and> b = (mw_source w \<noteq> None)"
      let ?s = "config_store_snapshot (mw_store w)"
      have "triple (started E src had b ?s)
        (if ac_credential_migration (sn_config ?s) = None then begin_copying E legacy target b ?s else op_ok ?s)
        (\<lambda>begun. started E src had b begun) (returned E src had)"
        using begin_started [OF ok target] by (auto intro: triple_ok)
      note whole = tripleD [OF triple_then [OF this rest]]
      have "started E src had b ?s w" using w by (simp add: started_def config_store_snapshot_def)
      from whole [OF this] show "triple (\<lambda>t. t = w) (?f b) (reported E src had) (returned E src had)"
        by (simp only: triple_def Let_def simp_thms)
    qed
  qed
qed

text \<open>Every start of the application, whenever the ones before ended, begins where they stopped.\<close>

lemma boot_safe:
  assumes ok: "env_ok E src" and target: "backend_typed target"
    and before: "safe content E src had w"
    and boot: "boot_migration ops legacy target (E, df, f) w = (status, w')"
  shows "safe content E src had w'"
    and "status = Some MigrationReady \<Longrightarrow> mw_source w' = None \<and> ac_credential_migration (config_of w') = None"
proof -
  let ?open = "config_store_open (me_libs E) (me_toml E) df f (me_paths E) (me_capabilities E) (mw_file w)"
  have sync: "in_sync (me_libs E) (me_toml E) (mw_store w) (mw_file w)"
    and path: "cs_path (mw_store w) = path_join (pt_config_root (me_paths E)) CONFIG_FILE"
    and caps: "cs_capabilities (mw_store w) = me_capabilities E"
    using before by (simp_all add: safe_def stored_in_def)
  obtain content_text where disk: "mw_file w = Some content_text"
    using sync in_sync_file by blast
  have "safe content E src had w' \<and>
     (status = Some MigrationReady \<longrightarrow> mw_source w' = None \<and> ac_credential_migration (config_of w') = None)"
  proof (cases ?open)
    case (Pair q rest)
    show ?thesis
    proof (cases q)
      case (Inl e)
      have "rest = mw_file w" using Pair by (rule config_store_open_file [OF disk])
      then show ?thesis using boot before by (auto simp: boot_migration_def Pair Inl)
    next
      case (Inr s)
      let ?w = "w\<lparr>mw_store := s, mw_file := rest, mw_log := []\<rparr>"
      have opened: "rest = mw_file w" "cs_path s = cs_path (mw_store w)" "cs_capabilities s = me_capabilities E"
        "sn_config (cs_state s) = config_of w"
        using reopened [OF Pair [unfolded Inr] sync disk path caps] by (simp_all add: config_of_def)
      then have "safe content E src had ?w"
        using before sync by (simp add: safe_def stored_in_def config_of_def arrived_def in_sync_def caps)
      from tripleD [OF migration_keeps_secrets [OF ok target] this, of legacy]
      show ?thesis
        using boot by (cases "migrate_interim_secrets E ops legacy target ?w"; cases "fst (migrate_interim_secrets E ops legacy target ?w)")
          (auto simp: boot_migration_def Pair Inr migration_result_def)
    qed
  qed
  then show "safe content E src had w'"
    and "status = Some MigrationReady \<Longrightarrow> mw_source w' = None \<and> ac_credential_migration (config_of w') = None"
    by blast+
qed

lemma same_place_safe: "same_place E E' \<Longrightarrow> safe content E' src had w = safe content E src had w"
  by (simp add: same_place_def safe_def stored_in_def)

lemma boots_safe:
  assumes "\<And>b. b \<in> set bs \<Longrightarrow> env_ok (fst b) src \<and> same_place E (fst b)" and "backend_typed target"
    and "safe content E src had w"
  shows "safe content E src had (boot_all ops legacy target bs w)"
  using assms
proof (induction bs arbitrary: w)
  case (Cons b bs)
  obtain E' df f where b: "b = (E', df, f)" by (cases b)
  have E': "env_ok E' src" "same_place E E'" using Cons.prems(1) [of b] by (simp_all add: b)
  obtain status w' where step: "boot_migration ops legacy target b w = (status, w')" by fastforce
  have "safe content E' src had w'"
    by (rule boot_safe [OF E'(1) Cons.prems(2) _ step [unfolded b]]) (simp add: same_place_safe [OF E'(2)] Cons.prems(3))
  then have "safe content E src had (boot_all ops legacy target bs w')"
    using Cons.prems by (intro Cons.IH) (auto simp: same_place_safe [OF E'(2)])
  then show ?case by (simp add: step)
qed simp

end

section \<open>The memory backend is such a target\<close>

definition memory_target :: "memory_backend target_ops" where
  "memory_target = \<lparr>to_resolve = memory_resolve, to_put = memory_put\<rparr>"

definition secrets_of :: "memory_backend contents" where
  "secrets_of m = map_of (mb_values m)"

interpretation memory_target: secret_target memory_target secrets_of
proof
  fix l t q t'
  assume "to_resolve memory_target l t = (q, t')"
  then have resolve: "memory_resolve l t = (q, t')" by (simp add: memory_target_def)
  show "secrets_of t' = secrets_of t \<and> (case q of Some (Inr found) \<Rightarrow> secrets_of t l = Some (rs_value found) | _ \<Rightarrow> True)"
    using memory_resolve_values [OF resolve] by (auto simp: secrets_of_def split: option.split sum.split)
next
  fix l v t r t'
  assume "to_put memory_target l v False t = (r, t')"
  then have put: "memory_put l v False t = (r, t')" by (simp add: memory_target_def)
  show "secrets_of t' = secrets_of t \<or> secrets_of t l = None \<and> secrets_of t' = (secrets_of t)(l \<mapsto> v)"
    using memory_put_values(1,4) [OF put] by (cases "map_of (mb_values t) l") (auto simp: secrets_of_def)
qed

end
