(* ===== verification/Shell_Migration_Properties.thy ===== *)
theory Shell_Migration_Properties
  imports Shell_Migration_Laws Config_Properties
begin

text \<open>
  What a user can rely on while secrets are moved from the plain-text file to the operating system's
  store, with a witness on a migration whose first start is killed in the middle.
\<close>

section \<open>A sample migration\<close>

definition sample_locator :: secret_locator where
  "sample_locator = SecretLocator ''t''"

definition sample_paths :: app_paths where
  "sample_paths = for_test ''/r''"

definition sample_legacy :: secret_backend where
  "sample_legacy = legacy_backend sample_paths"

definition migrating :: "migration_phase \<Rightarrow> copy_receipt list \<Rightarrow> migration_record" where
  "migrating phase receipts =
     \<lparr>mg_source = sample_legacy, mg_target = local_backend, mg_phase = phase, mg_locators = [sample_locator],
      mg_receipts = receipts\<rparr>"

definition migration_config :: "secret_backend \<Rightarrow> migration_record option \<Rightarrow> app_config" where
  "migration_config b m = default_app_config\<lparr>ac_secret_backends := [b], ac_credential_migration := m\<rparr>"

text \<open>The configurations the migration goes through.\<close>

definition copying_receipt :: "copy_state \<Rightarrow> copy_receipt" where
  "copying_receipt state = \<lparr>rc_locator = sample_locator, rc_state = state\<rparr>"

definition stages :: "app_config list" where
  "stages = [migration_config sample_legacy None,
     migration_config sample_legacy (Some (migrating PhaseCopying [])),
     migration_config sample_legacy (Some (migrating PhaseCopying [copying_receipt Copying])),
     migration_config sample_legacy (Some (migrating PhaseCopying [copying_receipt Copied])),
     migration_config local_backend (Some (migrating PhaseCleanupPending [copying_receipt Copied])),
     migration_config local_backend None]"

definition stages_toml :: "config_dto toml" where
  "stages_toml = table_toml (zip [''0'', ''1'', ''2'', ''3'', ''4'', ''5''] (map config_dto_from stages))"

definition stage_text :: "app_config \<Rightarrow> string" where
  "stage_text c = (case toml_to_string stages_toml (config_dto_from c) of Inr t \<Rightarrow> t | Inl _ \<Rightarrow> [])"

definition first_stage :: app_config where
  "first_stage = migration_config sample_legacy None"

definition sample_migration_env :: "(migration_call list \<Rightarrow> bool) \<Rightarrow> config_dto migration_env" where
  "sample_migration_env killed =
     \<lparr>me_libs = sample_id_libs, me_toml = stages_toml, me_paths = sample_paths, me_capabilities = sample_caps,
      me_killed = killed, me_exists_fails = (\<lambda>_. False), me_canonical = (\<lambda>_ _. None), me_source_valid = True,
      me_locators_fault = (\<lambda>_. None), me_resolve_fault = (\<lambda>_. None), me_purge_fault = (\<lambda>_. None),
      me_file_faults = (\<lambda>_. no_faults)\<rparr>"

definition sample_migration_world :: "memory_backend migration_world" where
  "sample_migration_world =
     \<lparr>mw_store = \<lparr>cs_path = ''/r/config/config.toml'', cs_capabilities = sample_caps,
        cs_state = \<lparr>sn_revision = 0, sn_config = first_stage\<rparr>\<rparr>,
      mw_file = Some (stage_text first_stage), mw_source = Some [(sample_locator, ''v'')],
      mw_target = memory_backend_new (SecretBackendId ''local-os''), mw_log = []\<rparr>"

lemma sample_legacy_value:
  "sample_legacy = \<lparr>sb_id = SecretBackendId ''local-file'', sb_settings = LocalFile ''/r/data/secrets.json''\<rparr>"
  by (simp add: sample_legacy_def legacy_backend_def LEGACY_BACKEND_ID_def secrets_path_def sample_paths_def for_test_def
      path_join_def path_is_absolute_def starts_with_def)

lemma local_backend_value: "local_backend = \<lparr>sb_id = SecretBackendId ''local-os'', sb_settings = LocalOs\<rparr>"
  by (simp add: local_backend_def LOCAL_BACKEND_ID_def)

lemma sample_backends_ok: "backend_ok sample_caps sample_legacy" "backend_ok sample_caps local_backend"
  by (simp_all add: sample_legacy_value local_backend_value backend_ok_def secret_backend_validate_def
      require_nonempty_def text_eval path_is_absolute_def starts_with_def sample_caps_def
      capability_of_def secret_backend_kind_def capability_available_def)

lemma sample_backends_typed: "backend_typed sample_legacy" "backend_typed local_backend"
  by (simp_all add: sample_legacy_value local_backend_value backend_typed_def secret_backend_id_new_def
      secret_backend_validate_def require_identifier_def require_nonempty_def text_eval identifier_char_def)

lemma sample_locator_typed: "locator_typed sample_locator"
  by (simp add: locator_typed_def sample_locator_def secret_locator_new_def require_nonempty_def text_eval)

lemma sample_backends_differ [simp]: "sample_legacy \<noteq> local_backend" "sb_id sample_legacy \<noteq> sb_id local_backend"
  "local_backend \<noteq> sample_legacy" "sb_id local_backend \<noteq> sb_id sample_legacy"
  by (simp_all add: sample_legacy_value local_backend_value)

lemma stages_ok: "list_all (config_ok sample_caps) stages"
  using default_config_ok [of sample_caps]
  by (simp add: stages_def migration_config_def config_ok_def default_app_config_def sample_backends_ok
      migration_ok_def migrating_def all_copied_def copying_receipt_def map_filter_simps)
    (simp add: sample_legacy_value local_backend_value)

lemma stages_typed: "list_all config_typed stages"
  by (simp add: stages_def migration_config_def config_typed_def default_app_config_def migration_typed_def migrating_def
      sample_backends_typed sample_locator_typed copying_receipt_def)

lemma stages_distinct: "distinct stages"
  by (simp add: stages_def migration_config_def migrating_def copying_receipt_def default_app_config_def)

lemma stages_read_back: "toml_reads_back stages_toml d"
  unfolding stages_toml_def by (rule table_toml_reads_back) (simp add: stages_def)

lemma stage_written:
  assumes "c \<in> set stages"
  shows "toml_to_string stages_toml (config_dto_from c) = Ok (stage_text c)"
proof -
  let ?rows = "zip [''0'', ''1'', ''2'', ''3'', ''4'', ''5''] (map config_dto_from stages)"
  have "\<exists>r\<in>set ?rows. snd r = config_dto_from c"
    using assms by (auto simp: stages_def)
  then obtain r where "List.find (\<lambda>r. snd r = config_dto_from c) ?rows = Some r"
    by (cases "List.find (\<lambda>r. snd r = config_dto_from c) ?rows") (auto simp: find_None_iff')
  then show ?thesis by (simp add: stages_toml_def table_toml_def stage_text_def)
qed

lemma stage_read:
  assumes "c \<in> set stages"
  shows "read_config sample_id_libs stages_toml no_faults sample_caps path (Some (stage_text c)) = Ok c"
  using assms stages_typed stages_ok
  by (intro read_back_written stage_written stages_read_back) (auto simp: list_all_iff no_faults_def)

lemma stage_updated:
  assumes "apply_change change c = Ok c'" and "c' \<in> set stages" and "uint n + 1 < 2 ^ 64"
  shows "config_store_update sample_id_libs stages_toml no_faults n change
     (\<lparr>cs_path = path, cs_capabilities = sample_caps, cs_state = \<lparr>sn_revision = n, sn_config = c\<rparr>\<rparr>, disk) =
    (Ok \<lparr>sn_revision = n + 1, sn_config = c'\<rparr>,
     \<lparr>cs_path = path, cs_capabilities = sample_caps, cs_state = \<lparr>sn_revision = n + 1, sn_config = c'\<rparr>\<rparr>, Some (stage_text c'))"
proof -
  let ?s = "\<lparr>cs_path = path, cs_capabilities = sample_caps, cs_state = \<lparr>sn_revision = n, sn_config = c\<rparr>\<rparr>"
  have "config_ok sample_caps c'" using assms(2) stages_ok by (simp add: list_all_iff)
  then have "prepare_update sample_id_libs ?s n change = Ok \<lparr>sn_revision = n + 1, sn_config = c'\<rparr>"
    using assms by (simp add: prepare_update_Ok)
  moreover have "write_config stages_toml no_faults path c' disk = (Ok (), Some (stage_text c'))"
    using stage_written [OF assms(2)]
    by (simp add: write_config_def write_config_with_hook_def no_faults_def file_outcome_def)
  ultimately show ?thesis by (simp add: config_store_update_def)
qed

lemma stage_opened:
  assumes "c \<in> set stages"
  shows "config_store_open sample_id_libs stages_toml \<lparr>df_create = None, df_permissions = None\<rparr> no_faults sample_paths
     sample_caps (Some (stage_text c)) =
    (Ok \<lparr>cs_path = ''/r/config/config.toml'', cs_capabilities = sample_caps,
       cs_state = \<lparr>sn_revision = 0, sn_config = c\<rparr>\<rparr>, Some (stage_text c))"
  by (simp add: config_store_open_def create_config_root_def create_private_directory_def
      io_outcome_def sample_paths_def for_test_def path_join_def path_is_absolute_def starts_with_def
      CONFIG_FILE_def stage_read [OF assms] initial_revision_def)

text \<open>The changes lead from stage to stage.\<close>

lemma stage_changes:
  "apply_change (BeginCredentialMigration (migrating PhaseCopying [])) (migration_config sample_legacy None) =
     Ok (migration_config sample_legacy (Some (migrating PhaseCopying [])))"
  "apply_change (RecordCredentialCopy sample_locator Copying) (migration_config sample_legacy (Some (migrating PhaseCopying []))) =
     Ok (migration_config sample_legacy (Some (migrating PhaseCopying [copying_receipt Copying])))"
  "apply_change (RecordCredentialCopy sample_locator Copied)
     (migration_config sample_legacy (Some (migrating PhaseCopying [copying_receipt Copying]))) =
     Ok (migration_config sample_legacy (Some (migrating PhaseCopying [copying_receipt Copied])))"
  "apply_change CheckpointCredentialMigration
     (migration_config sample_legacy (Some (migrating PhaseCopying [copying_receipt Copied]))) =
     Ok (migration_config local_backend (Some (migrating PhaseCleanupPending [copying_receipt Copied])))"
  "apply_change FinishCredentialMigration
     (migration_config local_backend (Some (migrating PhaseCleanupPending [copying_receipt Copied]))) =
     Ok (migration_config local_backend None)"
  by (simp_all add: migration_config_def migrating_def copying_receipt_def default_app_config_def begin_migration_def
      record_copy_def checkpoint_migration_def finish_migration_def receipt_state_def put_receipt_def all_copied_def
      Let_def)

lemma stages_members:
  "migration_config sample_legacy None \<in> set stages"
  "migration_config sample_legacy (Some (migrating PhaseCopying [])) \<in> set stages"
  "migration_config sample_legacy (Some (migrating PhaseCopying [copying_receipt Copying])) \<in> set stages"
  "migration_config sample_legacy (Some (migrating PhaseCopying [copying_receipt Copied])) \<in> set stages"
  "migration_config local_backend (Some (migrating PhaseCleanupPending [copying_receipt Copied])) \<in> set stages"
  "migration_config local_backend None \<in> set stages"
  by (simp_all add: stages_def)

lemma migration_config_sel [simp]:
  "ac_secret_backends (migration_config b m) = [b]" "ac_credential_migration (migration_config b m) = m"
  "ac_connections (migration_config b m) = []"
  by (simp_all add: migration_config_def default_app_config_def)

lemma migrating_sel [simp]:
  "mg_source (migrating phase rs) = sample_legacy" "mg_target (migrating phase rs) = local_backend"
  "mg_phase (migrating phase rs) = phase" "mg_locators (migrating phase rs) = [sample_locator]"
  "mg_receipts (migrating phase rs) = rs"
  by (simp_all add: migrating_def)

lemma copying_receipt_sel [simp]:
  "rc_locator (copying_receipt state) = sample_locator" "rc_state (copying_receipt state) = state"
  by (simp_all add: copying_receipt_def)

lemmas stage_steps = stage_updated [OF stage_changes(1) stages_members(2)] stage_updated [OF stage_changes(2) stages_members(3)]
  stage_updated [OF stage_changes(3) stages_members(4)] stage_updated [OF stage_changes(4) stages_members(5)]
  stage_updated [OF stage_changes(5) stages_members(6)]

lemmas migration_eval = op_then_def op_match_def op_ok_def op_err_def called_def Let_def source_exists_def
  source_locators_def source_resolve_def target_resolve_def target_put_def purge_source_def update_config_def
  configured_local_file_owns_path_def ensure_not_owned_def begin_copying_def bound_locators_def manifest_def
  record_state_def write_secret_def copy_locator_def finish_with_def purge_and_finish_def clean_up_def
  finish_empty_def copy_and_finish_def migrate_interim_secrets_def migration_result_def give_up_def give_up_class_def
  memory_target_def memory_resolve_def memory_put_def apply_common_fault_def next_fault_def memory_backend_new_def
  config_store_snapshot_def

text \<open>The first start is killed when it has put the secret; the second one takes up where it stopped.\<close>

definition killed_env :: "config_dto migration_env" where
  "killed_env = sample_migration_env (\<lambda>log. CallTargetPut sample_locator \<in> set log \<and> last log \<noteq> CallTargetPut sample_locator)"

definition calm_env :: "config_dto migration_env" where
  "calm_env = sample_migration_env (\<lambda>_. False)"

definition sample_boot :: "config_dto migration_env \<Rightarrow> config_dto migration_boot" where
  "sample_boot E = (E, \<lparr>df_create = None, df_permissions = None\<rparr>, no_faults)"

lemma begun_record:
  "\<lparr>mg_source = sample_legacy, mg_target = local_backend, mg_phase = PhaseCopying, mg_locators = [sample_locator],
    mg_receipts = []\<rparr> = migrating PhaseCopying []"
  by (simp add: migrating_def)

lemma killed_boot:
  "\<exists>log. boot_migration memory_target sample_legacy local_backend (sample_boot killed_env) sample_migration_world =
     (None, \<lparr>mw_store = \<lparr>cs_path = ''/r/config/config.toml'', cs_capabilities = sample_caps,
         cs_state = \<lparr>sn_revision = 2,
           sn_config = migration_config sample_legacy (Some (migrating PhaseCopying [copying_receipt Copying]))\<rparr>\<rparr>,
       mw_file = Some (stage_text (migration_config sample_legacy (Some (migrating PhaseCopying [copying_receipt Copying])))),
       mw_source = Some [(sample_locator, ''v'')],
       mw_target = \<lparr>mb_id = SecretBackendId ''local-os'', mb_values = [(sample_locator, ''v'')], mb_faults = []\<rparr>,
       mw_log = log\<rparr>)"
  by (simp add: boot_migration_def sample_boot_def killed_env_def sample_migration_env_def sample_migration_world_def
      first_stage_def stage_opened stages_members migration_eval begun_record stage_steps)

lemma finished_boot:
  "\<exists>w'. boot_migration memory_target sample_legacy local_backend (sample_boot calm_env)
     (boot_all memory_target sample_legacy local_backend [sample_boot killed_env] sample_migration_world) =
     (Some MigrationReady, w')"
proof -
  from killed_boot obtain log where killed:
    "boot_migration memory_target sample_legacy local_backend (sample_boot killed_env) sample_migration_world =
     (None, \<lparr>mw_store = \<lparr>cs_path = ''/r/config/config.toml'', cs_capabilities = sample_caps,
         cs_state = \<lparr>sn_revision = 2,
           sn_config = migration_config sample_legacy (Some (migrating PhaseCopying [copying_receipt Copying]))\<rparr>\<rparr>,
       mw_file = Some (stage_text (migration_config sample_legacy (Some (migrating PhaseCopying [copying_receipt Copying])))),
       mw_source = Some [(sample_locator, ''v'')],
       mw_target = \<lparr>mb_id = SecretBackendId ''local-os'', mb_values = [(sample_locator, ''v'')], mb_faults = []\<rparr>,
       mw_log = log\<rparr>)" by blast
  show ?thesis
    by (simp add: killed)
      (simp add: boot_migration_def sample_boot_def calm_env_def sample_migration_env_def
        stage_opened stages_members migration_eval stage_steps)
qed

section \<open>The property\<close>

text \<open>
  C15: No start of the application loses a secret in the migration. Let any number of starts run on one
  configuration directory, be killed between any two calls, and let every call on the plain-text file, the
  target and the writing of the configuration fail at any time. The target is any backend whose put without
  overwriting adds the secret or changes nothing, whatever it answers (\<open>secret_target\<close>). Required is that
  the first start finds a stored configuration without a migration, that the configuration file can be read
  and reads back what was written, that the locators in the plain-text file are valid (\<open>env_ok\<close>), that a
  purge that fails has removed that file or left it as it was, and that nothing but the starts writes the
  file, the target or the configuration. Then after every start the target has all secrets it had before and
  no others than those of the plain-text file; the plain-text file is as it was, or it is gone and the target
  has all its secrets; the clean-up is announced only when it has them; and \<open>Ready\<close> is reported only when
  the file is gone and no migration is under way.
\<close>

theorem migration_loses_no_secret:
  assumes "secret_target ops content" and "backend_typed target"
    and "stored_in E w" and "mw_source w = Some src" and "ac_credential_migration (config_of w) = None"
    and "\<And>b. b \<in> set bs \<Longrightarrow> env_ok (fst b) src \<and> same_place E (fst b)" and "env_ok E src"
    and "boot_migration ops legacy target (E, df, f) (boot_all ops legacy target bs w) = (status, w')"
  shows "(\<forall>l v. content (mw_target w) l = Some v \<longrightarrow> content (mw_target w') l = Some v) \<and>
    (\<forall>l v. content (mw_target w') l = Some v \<longrightarrow> content (mw_target w) l = Some v \<or> map_of src l = Some v) \<and>
    (mw_source w' = Some src \<or>
     mw_source w' = None \<and> (\<forall>l v. map_of src l = Some v \<longrightarrow> content (mw_target w') l = Some v)) \<and>
    (phase_of (config_of w') = Some PhaseCleanupPending \<longrightarrow>
     (\<forall>l v. map_of src l = Some v \<longrightarrow> content (mw_target w') l = Some v)) \<and>
    (status = Some MigrationReady \<longrightarrow> mw_source w' = None \<and> ac_credential_migration (config_of w') = None)"
proof -
  have start: "safe content E src (content (mw_target w)) w"
    using assms(3-5) by (simp add: safe_def phase_of_def)
  note before = secret_target.boots_safe [OF assms(1) assms(6) assms(2) start]
  show ?thesis
    using secret_target.boot_safe [OF assms(1) assms(7) assms(2) before assms(8)]
    by (simp add: safe_def arrived_def)
qed

lemma sample_env_ok: "env_ok (sample_migration_env killed) [(sample_locator, ''v'')]"
  by (simp add: env_ok_def sample_migration_env_def no_faults_def stages_read_back sample_locator_typed)

theorem migration_loses_no_secret_witness:
  "\<exists>w'. boot_migration memory_target sample_legacy local_backend (sample_boot calm_env)
     (boot_all memory_target sample_legacy local_backend [sample_boot killed_env] sample_migration_world) =
     (Some MigrationReady, w') \<and>
   mw_source w' = None \<and> map_of (mb_values (mw_target w')) sample_locator = Some ''v''"
proof -
  let ?src = "[(sample_locator, ''v'')]"
  obtain w' where last: "boot_migration memory_target sample_legacy local_backend (sample_boot calm_env)
     (boot_all memory_target sample_legacy local_backend [sample_boot killed_env] sample_migration_world) =
     (Some MigrationReady, w')" using finished_boot by blast
  have "config_typed first_stage" using stages_typed stages_members(1) by (simp add: list_all_iff first_stage_def)
  moreover have "read_config sample_id_libs stages_toml f sample_caps path (Some (stage_text first_stage)) = Ok first_stage"
    if "ff_read f = None" for f path
    unfolding first_stage_def by (rule read_config_depends_on_file [OF stage_read [OF stages_members(1)] that])
  ultimately have stored: "stored_in calm_env sample_migration_world"
    by (simp add: stored_in_def in_sync_def config_of_def sample_migration_world_def calm_env_def sample_migration_env_def
        sample_paths_def for_test_def path_join_def path_is_absolute_def starts_with_def CONFIG_FILE_def)
  have boots: "env_ok (fst b) ?src \<and> same_place calm_env (fst b)" if "b \<in> set [sample_boot killed_env]" for b
    using that sample_env_ok
    by (auto simp: sample_boot_def killed_env_def calm_env_def same_place_def) (simp_all add: sample_migration_env_def)
  have src: "mw_source sample_migration_world = Some ?src"
    and none: "ac_credential_migration (config_of sample_migration_world) = None"
    by (simp_all add: sample_migration_world_def config_of_def first_stage_def)
  have calm: "env_ok calm_env ?src" by (simp add: calm_env_def sample_env_ok)
  from migration_loses_no_secret [OF memory_target.secret_target_axioms sample_backends_typed(2) stored src none boots calm
      last [unfolded sample_boot_def [of calm_env]]]
  have "mw_source w' = None \<and> map_of (mb_values (mw_target w')) sample_locator = Some ''v''"
    by (auto simp: secrets_of_def split: if_splits)
  with last show ?thesis by blast
qed

end
