(* ===== verification/Spec2Isabelle.thy ===== *)
theory Spec2Isabelle
  imports Store_Properties Config_Properties Supervisor_Properties Domain_Properties Codex_Properties Secrets_Properties Secrets_OnePassword Desktop_Properties Shell_Properties Shell_Migration_Properties
begin

text \<open>
  A verification development for yakshed, the desktop application that supervises runs of coding
  agents. Paths below are relative to \<^verbatim>\<open>src/crates\<close>.

  The program. Work is organised in projects and a graph of work items; a run lets a provider (an
  agent process behind the harness port) work on an item. The durable store (\<^verbatim>\<open>yakshed-store\<close>) keeps
  projects, work items, runs, timelines, approvals and artifact metadata in one SQLite database, used
  by one worker that runs an operation to its end before the next. The run supervisor
  (\<^verbatim>\<open>yakshed-application/src/run_supervisor.rs\<close>) connects the provider to the store: it starts and
  steers runs, routes the provider's events to one consumer per run which appends them to the
  timeline, forwards answers to approvals, and recovers after a restart or a lost stream. The
  configuration service (\<^verbatim>\<open>yakshed-store/src/config.rs\<close>) keeps connections, secret backends and a
  credential migration in one TOML file. The Codex provider (\<^verbatim>\<open>provider-codex\<close>) implements the
  harness contract (\<^verbatim>\<open>yakshed-harness\<close>) on a child process that speaks JSON lines. The desktop API
  (\<^verbatim>\<open>yakshed-desktop-api\<close>) is what the user interface calls: it joins the store, the configuration and
  the supervisor behind one list of commands. The shell (\<^verbatim>\<open>yakshed-desktop/src/macos.rs\<close>) composes
  all parts and connects the supervisor to the provider.

  Theories, by component, in the order they build on each other:

  \<^item> \<^verbatim>\<open>Prelude\<close>: Rust's \<open>Result\<close>, checked integers, UTF-8 and the character classes the code uses.
  \<^item> \<^verbatim>\<open>Domain\<close>, \<^verbatim>\<open>Domain_Properties\<close>: \<^verbatim>\<open>yakshed-domain/src/lib.rs\<close>. Identifiers are a newtype over a
    128-bit word with a phantom tag; validated strings have the code's constructors. The UUID crate
    is the record \<open>libs\<close>.
  \<^item> \<^verbatim>\<open>Commands\<close>: the command, query, page and error types of \<^verbatim>\<open>yakshed-application/src/lib.rs\<close>.
  \<^item> \<^verbatim>\<open>Schema\<close>: the tables of \<^verbatim>\<open>yakshed-store/src/sqlite.rs\<close> as lists of row records in insertion
    order, every \<open>CHECK\<close>, \<open>UNIQUE\<close> and foreign key, and the insert, update and upsert statements
    that enforce them.
  \<^item> \<^verbatim>\<open>Store_Rows\<close>, \<^verbatim>\<open>Store_Work\<close>, \<^verbatim>\<open>Store_Runs\<close>, \<^verbatim>\<open>Store_Timeline\<close>, \<^verbatim>\<open>Store_Artifacts\<close>: row decoding
    and the operations. An operation is a function from the database to a result and the next
    database; a transaction that fails returns the database it started with. \<^verbatim>\<open>Run_Laws\<close>: what the
    operations on runs and approvals keep.
  \<^item> \<^verbatim>\<open>History\<close>, \<^verbatim>\<open>Store_Steps\<close>: tables only grow and rows only move forward; the store as a step
    relation, its reachable databases and their invariant \<open>store_inv\<close>.
  \<^item> \<^verbatim>\<open>Paging\<close>, \<^verbatim>\<open>Store_Create\<close>: the contracts \<open>paged_read\<close>, \<open>id_table\<close> and \<open>idempotent_create\<close>,
    interpreted on every paged and every creating operation.
  \<^item> \<^verbatim>\<open>Store_Samples\<close>, \<^verbatim>\<open>Store_Properties\<close>: a concrete history and the properties of the store.
  \<^item> \<^verbatim>\<open>Config\<close>, \<^verbatim>\<open>Config_Laws\<close>: \<open>AppConfig\<close>, its validator and the order-free specification the
    validator decides (\<^verbatim>\<open>yakshed-application/src/lib.rs\<close>).
  \<^item> \<^verbatim>\<open>Paths\<close>, \<^verbatim>\<open>Config_Store\<close>, \<^verbatim>\<open>Config_Store_Laws\<close>, \<^verbatim>\<open>Config_Protocol\<close>, \<^verbatim>\<open>Config_Properties\<close>:
    \<^verbatim>\<open>paths.rs\<close> and \<^verbatim>\<open>config.rs\<close> of \<^verbatim>\<open>yakshed-store\<close>: the transfer types of the file, the changes,
    the service with file faults, and the credential migration as an abstract protocol that the
    service refines. The \<open>toml\<close> crate is the record \<open>toml\<close>, the outcome of each file operation an
    argument.
  \<^item> \<^verbatim>\<open>Supervisor\<close>, \<^verbatim>\<open>Supervisor_Runs\<close>: the supervisor. Its \<open>HashMap\<close>s are association lists, a bounded
    channel with its consumer task is a record in a list, events for the user interface and calls to
    the harness are logs. An \<open>async\<close> handler is cut in two where it waits for the harness
    (\<open>start_run_call\<close> and \<open>start_run_answered\<close>, and so on), the answer being an argument of the
    second half; between two cuts a handler is atomic, its store operations included.
  \<^item> \<^verbatim>\<open>Supervisor_Steps\<close>: the step relation \<open>sup_step\<close> of all handlers, other clients of the store
    included, in any order; \<open>sup_run\<close> is what booting and such steps reach. The contracts
    \<open>steady_store\<close>, \<open>steady\<close> and \<open>steady_run\<close> turn facts about a handler's primitive actions into
    invariants of executions. \<^verbatim>\<open>Supervisor_Laws\<close> and \<^verbatim>\<open>Supervisor_Bounds\<close> interpret them: the store
    is used legally, sent answers are durable, buffers are bounded, the clock moves forward.
  \<^item> \<^verbatim>\<open>Supervisor_Text\<close>, \<^verbatim>\<open>Supervisor_Startup\<close>, \<^verbatim>\<open>Supervisor_Endings\<close>, \<^verbatim>\<open>Supervisor_Samples\<close>,
    \<^verbatim>\<open>Supervisor_Properties\<close>: what consumers store, what start-up achieves, how runs end, and the
    properties.
  \<^item> \<^verbatim>\<open>Json\<close>, \<^verbatim>\<open>Harness\<close>: JSON values as \<^verbatim>\<open>serde_json\<close> reads them, and the types of
    \<^verbatim>\<open>yakshed-harness/src/lib.rs\<close>.
  \<^item> \<^verbatim>\<open>Codex_Text\<close>, \<^verbatim>\<open>Codex_Frames\<close>, \<^verbatim>\<open>Codex_Reducer\<close>, \<^verbatim>\<open>Codex_Actor\<close>, \<^verbatim>\<open>Codex_Loop\<close>:
    \<^verbatim>\<open>actor.rs\<close> and \<^verbatim>\<open>reducer.rs\<close> of \<^verbatim>\<open>provider-codex\<close>: redaction, framing, the reduction of
    notifications, the validation of what the server says, and one handler per branch of the actor's
    loop. The actor's variables are the record \<open>actor\<close>; events, written frames and replies are logs.
  \<^item> \<^verbatim>\<open>Codex_Laws\<close>, \<^verbatim>\<open>Codex_Replies\<close>, \<^verbatim>\<open>Codex_Output\<close>, \<^verbatim>\<open>Codex_Samples\<close>, \<^verbatim>\<open>Codex_Properties\<close>:
    the step relation \<open>codex_step\<close> of commands and inbound messages in any order, the contract
    \<open>codex_invariant\<close> with its three interpretations (runs and events, reply channels, what leaves
    the actor), and the properties.
  \<^item> \<^verbatim>\<open>Secrets\<close>, \<^verbatim>\<open>Secrets_Memory\<close>, \<^verbatim>\<open>Secrets_OnePassword\<close>, \<^verbatim>\<open>Secrets_Broker\<close>:
    \<^verbatim>\<open>yakshed-secrets\<close>. A backend is a record of its operations on a shared state; how an operation
    of the broker ends (it finishes, times out, is cancelled, before or after it was dispatched) is
    an argument. \<^verbatim>\<open>Secrets_Laws\<close>, \<^verbatim>\<open>Secrets_Properties\<close>: the contract \<open>secret_store\<close>, interpreted
    on the memory backend, and what the broker promises about writes, audit and configuration.

  \<^item> \<^verbatim>\<open>Work_View\<close>, \<^verbatim>\<open>Ports\<close>, \<^verbatim>\<open>Desktop\<close>, \<^verbatim>\<open>Desktop_Api\<close>: \<^verbatim>\<open>yakshed-desktop-api/src/lib.rs\<close> with the
    ports and the work views of \<^verbatim>\<open>yakshed-application/src/lib.rs\<close>. The envelopes and errors of the API,
    its operations on the store, the configuration service and the broker, each an operation on one
    state with the answers of the ports as arguments. \<^verbatim>\<open>Desktop_Reads\<close>, \<^verbatim>\<open>Desktop_Properties\<close>: reads
    that are retried until the revision stands still, and what the API promises.
  \<^item> \<^verbatim>\<open>Ops\<close>, \<^verbatim>\<open>Codex_Adapter\<close>, \<^verbatim>\<open>Codex_Adapter_Laws\<close>: \<^verbatim>\<open>lib.rs\<close> of \<^verbatim>\<open>provider-codex\<close>:
    operations that may fail, as Rust's \<open>?\<close> composes them, with a log of their calls; the adapter's
    operations over the answers of the runtime and of the actor; which commands they send.
  \<^item> \<^verbatim>\<open>Shell\<close>, \<^verbatim>\<open>Shell_Stream\<close>, \<^verbatim>\<open>Shell_Runs\<close>, \<^verbatim>\<open>Shell_Properties\<close>: the \<open>CodexHarness\<close> of the shell: the
    registry of runs, the machine behind \<open>next_event\<close>, its executions with every interleaving of
    registration, delivery and polling, and the operations the supervisor calls. The properties say
    when events keep their order and which race ends the stream.
  \<^item> \<^verbatim>\<open>Shell_Migration\<close>, \<^verbatim>\<open>Shell_Migration_Laws\<close>, \<^verbatim>\<open>Shell_Migration_Properties\<close>: the migration of
    secrets from the plain-text file to the operating system's store that runs at every start
    (\<^verbatim>\<open>migrate_interim_secrets\<close>), over the configuration service, the plain-text file and any target
    backend that meets the contract \<open>secret_target\<close>. Each call may fail and the process may be killed
    between any two; pre- and postconditions (\<open>triple\<close>) of each part give the property of any
    sequence of starts.

  Bounds and fuel. Cursors, revisions and the configuration revision are 64-bit words and the
  database's integers are checked \<open>i64\<close>; sums are the code's checked or saturating ones. The
  recursive query of \<open>archive_work_subtree\<close> is a partial function whose termination on reachable
  databases is part of a property. Paged loops of the supervisor (\<open>read_pages\<close>, \<open>recover_pages\<close>)
  take one unit of fuel per request; one more than there are rows is enough, which \<open>startup_ends\<close>
  and the laws of \<open>paged_read\<close> prove.

  Not modelled, and why: the worker thread, its queue, lease, file permissions and the SQL migrations
  between schema versions (thread and file input/output around the operations); artifact bodies and
  caches, the inside of the local-file and operating-system secret stores (file formats, cryptography
  and system calls; the migration sees the plain-text file as the pairs it stores); the start and the death of provider processes; the mock provider and the contract host
  (test doubles); the construction of the shell's parts at start-up, windowing and the front end.
\<close>

end
